(* ===== verification/Mnemes_Prelude.thy ===== *)
theory Mnemes_Prelude
  imports
    Main
    "HOL-Library.Word"
    "HOL-Library.Char_ord"
    "HOL-Library.List_Lexorder"
    "HOL-Library.Multiset"
    "HOL-Library.Sublist"
begin

text \<open>
  Shared vocabulary of the development: Rust's integer and text types, the result type
  with its sequencing operator, the byte encodings of the wire formats, and the keyed
  row lists that stand for SQLite tables.

  A Rust \<open>String\<close> is the \<^typ>\<open>string\<close> of its UTF-8 bytes (an Isabelle \<^typ>\<open>char\<close> has
  exactly eight bits), so \<^const>\<open>length\<close> is \<open>str::len\<close> and the order of
  \<^theory_text>\<open>List_Lexorder\<close> is \<open>str::cmp\<close>.
\<close>

named_theorems result_simps \<open>equations and inversions of the result sequencing operator\<close>

section \<open>Machine types\<close>

type_synonym byte = "8 word"
type_synonym u8 = "8 word"
type_synonym u16 = "16 word"
type_synonym u32 = "32 word"
type_synonym u64 = "64 word"
type_synonym usize = nat

text \<open>An \<open>i64\<close> is an \<^typ>\<open>int\<close> in the range below; every conversion is explicit.\<close>

type_synonym i64 = int

definition i64_max :: int where
  "i64_max = 9223372036854775807"

definition u64_as_i64 :: "u64 \<Rightarrow> i64" where
  "u64_as_i64 w = sint w"

definition i64_as_u64 :: "i64 \<Rightarrow> u64" where
  "i64_as_u64 i = word_of_int i"

definition i64_try_from_u64 :: "u64 \<Rightarrow> i64 option" where
  "i64_try_from_u64 w = (if uint w \<le> i64_max then Some (uint w) else None)"

definition u64_try_from_i64 :: "i64 \<Rightarrow> u64 option" where
  "u64_try_from_i64 i = (if 0 \<le> i then Some (word_of_int i) else None)"

text \<open>Addition on \<open>i64\<close> of a release build: two's complement wrap-around.\<close>

definition i64_add :: "i64 \<Rightarrow> i64 \<Rightarrow> i64" where
  "i64_add a b = signed_take_bit 63 (a + b)"

definition u64_saturating_add :: "u64 \<Rightarrow> u64 \<Rightarrow> u64" where
  "u64_saturating_add a b = (if unat a + unat b < 2 ^ 64 then a + b else - 1)"

definition u64_checked_add :: "u64 \<Rightarrow> u64 \<Rightarrow> u64 option" where
  "u64_checked_add a b = (if unat a + unat b < 2 ^ 64 then Some (a + b) else None)"

lemma i64_try_from_u64_SomeD: "i64_try_from_u64 w = Some i \<Longrightarrow> i = uint w \<and> 0 \<le> i \<and> i \<le> i64_max"
  by (auto simp: i64_try_from_u64_def split: if_splits)

lemma i64_try_from_u64_roundtrip:
  "i64_try_from_u64 w = Some i \<Longrightarrow> u64_try_from_i64 i = Some w"
  by (auto simp: i64_try_from_u64_def u64_try_from_i64_def split: if_splits)

lemma u64_as_i64_inj: "u64_as_i64 a = u64_as_i64 b \<longleftrightarrow> a = b"
proof
  assume "u64_as_i64 a = u64_as_i64 b"
  then have "(of_int (sint a) :: u64) = of_int (sint b)"
    by (simp only: u64_as_i64_def)
  then show "a = b" by simp
qed simp

lemma i64_add_small: "- i64_max \<le> a + b \<Longrightarrow> a + b \<le> i64_max \<Longrightarrow> i64_add a b = a + b"
  unfolding i64_add_def i64_max_def by (rule signed_take_bit_int_eq_self) auto

lemma unat_u64_saturating_add:
  "unat (u64_saturating_add a b) = min (unat a + unat b) (2 ^ 64 - 1)"
proof (cases "unat a + unat b < 2 ^ 64")
  case True
  then have "unat (a + b) = unat a + unat b"
    by (simp add: unat_word_ariths)
  with True show ?thesis by (simp add: u64_saturating_add_def)
next
  case False
  then show ?thesis by (simp add: u64_saturating_add_def unsigned_minus_1_eq_mask mask_eq_exp_minus_1)
qed

lemma u64_checked_add_Some:
  "u64_checked_add a b = Some c \<Longrightarrow> unat c = unat a + unat b"
  by (auto simp: u64_checked_add_def unat_word_ariths split: if_splits)

section \<open>Results\<close>

text \<open>\<open>Result<T, E>\<close> is \<open>'e + 'a\<close>; \<open>m?\<close> followed by the rest of the body is \<open>bindR\<close>.\<close>

definition bindR :: "'e + 'a \<Rightarrow> ('a \<Rightarrow> 'e + 'b) \<Rightarrow> 'e + 'b" where
  "bindR m f = (case m of Inl e \<Rightarrow> Inl e | Inr x \<Rightarrow> f x)"

definition map_err :: "('e \<Rightarrow> 'f) \<Rightarrow> 'e + 'a \<Rightarrow> 'f + 'a" where
  "map_err g m = (case m of Inl e \<Rightarrow> Inl (g e) | Inr x \<Rightarrow> Inr x)"

definition ok_or :: "'e \<Rightarrow> 'a option \<Rightarrow> 'e + 'a" where
  "ok_or e x = (case x of None \<Rightarrow> Inl e | Some y \<Rightarrow> Inr y)"

text \<open>A guard clause: \<open>if b { return Err(e) }\<close>.\<close>

definition fail_if :: "bool \<Rightarrow> 'e \<Rightarrow> 'e + unit" where
  "fail_if b e = (if b then Inl e else Inr ())"

definition is_ok :: "'e + 'a \<Rightarrow> bool" where
  "is_ok m = (case m of Inl _ \<Rightarrow> False | Inr _ \<Rightarrow> True)"

lemma bindR_simps [simp, result_simps]:
  "bindR (Inl e) f = Inl e"
  "bindR (Inr x) f = f x"
  by (simp_all add: bindR_def)

lemma bindR_eq_Inr [result_simps]: "bindR m f = Inr y \<longleftrightarrow> (\<exists>x. m = Inr x \<and> f x = Inr y)"
  by (cases m) auto

lemma bindR_eq_Inl [result_simps]:
  "bindR m f = Inl e \<longleftrightarrow> m = Inl e \<or> (\<exists>x. m = Inr x \<and> f x = Inl e)"
  by (cases m) auto

lemma fail_if_simps [simp, result_simps]:
  "fail_if True e = Inl e"
  "fail_if False e = Inr ()"
  by (simp_all add: fail_if_def)

lemma fail_if_eq [result_simps]:
  "fail_if b e = Inr u \<longleftrightarrow> \<not> b"
  "fail_if b e = Inl e' \<longleftrightarrow> b \<and> e' = e"
  by (auto simp: fail_if_def)

lemma map_err_simps [simp, result_simps]:
  "map_err g (Inl e) = Inl (g e)"
  "map_err g (Inr x) = Inr x"
  by (simp_all add: map_err_def)

lemma map_err_eq_Inr [result_simps]: "map_err g m = Inr x \<longleftrightarrow> m = Inr x"
  by (cases m) auto

lemma ok_or_simps [simp, result_simps]:
  "ok_or e None = Inl e"
  "ok_or e (Some x) = Inr x"
  by (simp_all add: ok_or_def)

lemma ok_or_eq [result_simps]:
  "ok_or e m = Inr x \<longleftrightarrow> m = Some x"
  "ok_or e m = Inl e' \<longleftrightarrow> m = None \<and> e' = e"
  by (cases m; auto)+

lemma is_ok_simps [simp, result_simps]:
  "is_ok (Inr x)"
  "\<not> is_ok (Inl e)"
  by (simp_all add: is_ok_def)

lemma is_ok_iff: "is_ok m \<longleftrightarrow> (\<exists>x. m = Inr x)"
  by (cases m) auto

lemma bindR_cong [fundef_cong]:
  "m = m' \<Longrightarrow> (\<And>x. m' = Inr x \<Longrightarrow> f x = f' x) \<Longrightarrow> bindR m f = bindR m' f'"
  by (cases m') auto

text \<open>\<open>for x in xs { check(x)? }\<close>: the first failing element decides.\<close>

fun check_all :: "('a \<Rightarrow> 'e + unit) \<Rightarrow> 'a list \<Rightarrow> 'e + unit" where
  "check_all f [] = Inr ()"
| "check_all f (x # xs) = bindR (f x) (\<lambda>_. check_all f xs)"

lemma check_all_ok [result_simps]:
  "check_all f xs = Inr u \<longleftrightarrow> (\<forall>x \<in> set xs. f x = Inr ())"
  by (induction xs) (auto simp: bindR_eq_Inr)

text \<open>A body that is a sequence of guard clauses: they run in order, the first failure is returned.\<close>

fun checks :: "('e + unit) list \<Rightarrow> 'e + unit" where
  "checks [] = Inr ()"
| "checks (m # ms) = bindR m (\<lambda>_. checks ms)"

lemma checks_ok: "checks ms = Inr u \<longleftrightarrow> (\<forall>m \<in> set ms. m = Inr ())"
  by (induction ms) (auto simp: bindR_eq_Inr)

lemma checks_append: "checks (ms @ ns) = bindR (checks ms) (\<lambda>_. checks ns)"
  by (induction ms) (auto simp: bindR_def split: sum.splits)

lemma checks_first_failure:
  "\<forall>m \<in> set pre. m = Inr () \<Longrightarrow> checks (pre @ Inl e # post) = Inl e"
  by (induction pre) auto

lemma checks_failD: "checks ms = Inl e \<Longrightarrow> Inl e \<in> set ms"
  by (induction ms) (auto simp: bindR_eq_Inl)

text \<open>\<open>iter().map(f).collect::<Result<Vec<_>, _>>()\<close>.\<close>

fun collect_results :: "('a \<Rightarrow> 'e + 'b) \<Rightarrow> 'a list \<Rightarrow> 'e + 'b list" where
  "collect_results f [] = Inr []"
| "collect_results f (x # xs) =
     bindR (f x) (\<lambda>y. bindR (collect_results f xs) (\<lambda>ys. Inr (y # ys)))"

lemma collect_results_ok:
  "collect_results f xs = Inr ys \<longleftrightarrow> list_all2 (\<lambda>x y. f x = Inr y) xs ys"
  by (induction xs arbitrary: ys) (auto simp: bindR_eq_Inr list_all2_Cons1)

section \<open>Big-endian bytes\<close>

text \<open>\<open>to_be_bytes\<close> of a \<open>k\<close>-byte unsigned integer: most significant byte first.\<close>

definition be_bytes :: "nat \<Rightarrow> 'a::len word \<Rightarrow> byte list" where
  "be_bytes k w = map (\<lambda>i. ucast (drop_bit (8 * (k - 1 - i)) w)) [0..<k]"

abbreviation be_u16 :: "u16 \<Rightarrow> byte list" where
  "be_u16 \<equiv> be_bytes 2"

abbreviation be_u32 :: "u32 \<Rightarrow> byte list" where
  "be_u32 \<equiv> be_bytes 4"

abbreviation be_u64 :: "u64 \<Rightarrow> byte list" where
  "be_u64 \<equiv> be_bytes 8"

text \<open>\<open>i64::to_be_bytes\<close> writes the two's complement pattern.\<close>

definition be_i64 :: "i64 \<Rightarrow> byte list" where
  "be_i64 i = be_u64 (i64_as_u64 i)"

definition i64_range :: "i64 \<Rightarrow> bool" where
  "i64_range i \<longleftrightarrow> - (2 ^ 63) \<le> i \<and> i < 2 ^ 63"

lemma length_be_bytes [simp]: "length (be_bytes k w) = k"
  by (simp add: be_bytes_def)

lemma length_be_i64 [simp]: "length (be_i64 i) = 8"
  by (simp add: be_i64_def)

lemma be_bytes_inj:
  fixes v w :: "'a::len word"
  assumes eq: "be_bytes k v = be_bytes k w" and len: "LENGTH('a) \<le> 8 * k"
  shows "v = w"
proof (rule bit_word_eqI)
  fix n assume n: "n < LENGTH('a)"
  define i where "i = k - 1 - n div 8"
  have ik: "i < k" and sub: "k - 1 - i = n div 8"
    using n len by (auto simp: i_def)
  have "be_bytes k v ! i = be_bytes k w ! i"
    by (simp add: eq)
  then have "(ucast (drop_bit (8 * (n div 8)) v) :: byte) = ucast (drop_bit (8 * (n div 8)) w)"
    using ik sub by (simp add: be_bytes_def)
  then have "bit (ucast (drop_bit (8 * (n div 8)) v) :: byte) (n mod 8) =
      bit (ucast (drop_bit (8 * (n div 8)) w) :: byte) (n mod 8)"
    by simp
  then show "bit v n = bit w n"
    by (simp add: bit_ucast_iff bit_drop_bit_eq)
qed

lemma be_u16_inj [simp]: "be_u16 v = be_u16 w \<longleftrightarrow> v = w"
  using be_bytes_inj [of 2 v w] by auto

lemma be_u32_inj [simp]: "be_u32 v = be_u32 w \<longleftrightarrow> v = w"
  using be_bytes_inj [of 4 v w] by auto

lemma be_u64_inj [simp]: "be_u64 v = be_u64 w \<longleftrightarrow> v = w"
  using be_bytes_inj [of 8 v w] by auto

lemma i64_as_u64_inj: "i64_range a \<Longrightarrow> i64_range b \<Longrightarrow> i64_as_u64 a = i64_as_u64 b \<longleftrightarrow> a = b"
proof
  assume ra: "i64_range a" and rb: "i64_range b" and "i64_as_u64 a = i64_as_u64 b"
  then have "sint (word_of_int a :: u64) = sint (word_of_int b :: u64)"
    by (simp add: i64_as_u64_def)
  then have "signed_take_bit 63 a = signed_take_bit 63 b"
    by (simp add: sint_sbintrunc')
  with ra rb show "a = b"
    by (simp add: signed_take_bit_int_eq_self i64_range_def)
qed simp

lemma be_i64_inj: "i64_range a \<Longrightarrow> i64_range b \<Longrightarrow> be_i64 a = be_i64 b \<longleftrightarrow> a = b"
  by (simp add: be_i64_def i64_as_u64_inj)

text \<open>\<open>str::as_bytes\<close>.\<close>

definition char_byte :: "char \<Rightarrow> byte" where
  "char_byte c = word_of_nat (of_char c)"

definition as_bytes :: "string \<Rightarrow> byte list" where
  "as_bytes s = map char_byte s"

lemma unat_char_byte: "unat (char_byte c) = of_char c"
  by (simp add: char_byte_def unat_of_nat)

lemma char_byte_inj: "char_byte c = char_byte d \<longleftrightarrow> c = d"
  by (metis unat_char_byte of_char_eq_iff)

lemma length_as_bytes [simp]: "length (as_bytes s) = length s"
  by (simp add: as_bytes_def)

lemma as_bytes_inj [simp]: "as_bytes s = as_bytes t \<longleftrightarrow> s = t"
  unfolding as_bytes_def
  by (rule inj_map_eq_map) (rule injI, simp add: char_byte_inj)

text \<open>A length-prefixed field and the split of a concatenation of two of them.\<close>

lemma append_eq_same_length:
  "length a = length b \<Longrightarrow> a @ x = b @ y \<longleftrightarrow> a = b \<and> x = y"
  by auto

section \<open>Keyed tables\<close>

text \<open>
  The interface of the registries and tables whose rows carry a primary key: a row is admitted
  exactly when its key is fresh, and admission changes the lookup of that key only. The clients
  rely on what follows from it: keys stay bound to their first row, and a batch of rows is
  admitted exactly when its keys are distinct and fresh.
\<close>

fun insert_all :: "('t \<Rightarrow> 'r \<Rightarrow> 'e + 't) \<Rightarrow> 't \<Rightarrow> 'r list \<Rightarrow> 'e + 't" where
  "insert_all f t [] = Inr t"
| "insert_all f t (r # rs) = bindR (f t r) (\<lambda>t'. insert_all f t' rs)"

locale keyed_table =
  fixes lookup :: "'t \<Rightarrow> 'k \<Rightarrow> 'r option"
    and admit :: "'t \<Rightarrow> 'r \<Rightarrow> 'e + 't"
    and key :: "'r \<Rightarrow> 'k"
  assumes admit_ok_iff: "is_ok (admit t r) \<longleftrightarrow> lookup t (key r) = None"
    and lookup_admit: "admit t r = Inr t' \<Longrightarrow> lookup t' = (lookup t)(key r \<mapsto> r)"
begin

lemma admit_fresh: "admit t r = Inr t' \<Longrightarrow> lookup t (key r) = None"
  using admit_ok_iff [of t r] by simp

lemma lookup_stable: "lookup t k = Some r \<Longrightarrow> admit t r' = Inr t' \<Longrightarrow> lookup t' k = Some r"
  using admit_fresh lookup_admit by fastforce

lemma lookup_stable_all:
  "lookup t k = Some r \<Longrightarrow> insert_all admit t rs = Inr t' \<Longrightarrow> lookup t' k = Some r"
  by (induction rs arbitrary: t) (auto simp: bindR_eq_Inr dest: lookup_stable)

lemma admit_twice: "admit t r = Inr t' \<Longrightarrow> key r' = key r \<Longrightarrow> \<not> is_ok (admit t' r')"
  by (simp add: admit_ok_iff lookup_admit)

lemma insert_all_ok_iff:
  "is_ok (insert_all admit t rs) \<longleftrightarrow>
     distinct (map key rs) \<and> (\<forall>r \<in> set rs. lookup t (key r) = None)"
proof (induction rs arbitrary: t)
  case (Cons r rs)
  show ?case
  proof (cases "admit t r")
    case (Inl e)
    then show ?thesis using admit_ok_iff [of t r] by simp
  next
    case (Inr t')
    have "lookup t' (key r') = None \<longleftrightarrow> key r \<noteq> key r' \<and> lookup t (key r') = None" for r'
      by (auto simp: lookup_admit [OF Inr])
    with Inr show ?thesis
      using Cons.IH [of t'] admit_fresh [OF Inr] by (auto simp: image_iff)
  qed
qed simp

lemma lookup_insert_all:
  "insert_all admit t rs = Inr t' \<Longrightarrow>
   lookup t' = lookup t ++ map_of (map (\<lambda>r. (key r, r)) rs)"
proof (induction rs arbitrary: t)
  case (Cons r rs)
  then obtain u where u: "admit t r = Inr u" and rest: "insert_all admit u rs = Inr t'"
    by (auto simp: bindR_eq_Inr)
  have "lookup u (key r') = None" if "r' \<in> set rs" for r'
    using insert_all_ok_iff [of u rs] rest that by simp
  then have "key r \<notin> key ` set rs"
    using lookup_admit [OF u] by fastforce
  then have "map_of (map (\<lambda>r. (key r, r)) rs) (key r) = None"
    by (auto simp: map_of_eq_None_iff)
  with Cons.IH [OF rest] lookup_admit [OF u] show ?case
    by (auto simp: map_add_def fun_eq_iff split: option.splits)
qed simp

end

end
