(* ===== verification/Rust_Text.thy ===== *)
theory Rust_Text
  imports Mnemes_Prelude
begin

text \<open>
  The text functions of Rust's standard library that the program calls, on UTF-8 bytes:
  \<open>trim\<close>, \<open>chars().any(char::is_control)\<close>, the ASCII classes, \<open>splitn(2, c)\<close>,
  \<open>join\<close>, decimal and hexadecimal formatting; and the interface \<open>text_codec\<close> of the
  enums that are stored as text (\<open>as_str\<close>/\<open>parse\<close>).
\<close>

abbreviation code :: "char \<Rightarrow> nat" where
  "code \<equiv> of_char"

section \<open>Character classes\<close>

definition is_ascii_digit :: "char \<Rightarrow> bool" where
  "is_ascii_digit c \<longleftrightarrow> 48 \<le> code c \<and> code c \<le> 57"

definition is_ascii_uppercase :: "char \<Rightarrow> bool" where
  "is_ascii_uppercase c \<longleftrightarrow> 65 \<le> code c \<and> code c \<le> 90"

definition is_ascii_lowercase :: "char \<Rightarrow> bool" where
  "is_ascii_lowercase c \<longleftrightarrow> 97 \<le> code c \<and> code c \<le> 122"

definition is_ascii_alphanumeric :: "char \<Rightarrow> bool" where
  "is_ascii_alphanumeric c \<longleftrightarrow> is_ascii_digit c \<or> is_ascii_uppercase c \<or> is_ascii_lowercase c"

definition is_ascii_hexdigit :: "char \<Rightarrow> bool" where
  "is_ascii_hexdigit c \<longleftrightarrow> is_ascii_digit c \<or> (65 \<le> code c \<and> code c \<le> 70) \<or>
     (97 \<le> code c \<and> code c \<le> 102)"

definition to_ascii_lower_char :: "char \<Rightarrow> char" where
  "to_ascii_lower_char c = (if is_ascii_uppercase c then char_of (code c + 32) else c)"

definition to_ascii_lowercase :: "string \<Rightarrow> string" where
  "to_ascii_lowercase s = map to_ascii_lower_char s"

text \<open>
  \<open>char::is_control\<close> is the Unicode category Cc: U+0000 to U+001F, U+007F to U+009F; the
  last range is the two-byte sequences C2 80 to C2 9F.
\<close>

fun has_control :: "string \<Rightarrow> bool" where
  "has_control [] \<longleftrightarrow> False"
| "has_control (c # cs) \<longleftrightarrow> code c < 32 \<or> code c = 127 \<or>
     (code c = 194 \<and> (case cs of [] \<Rightarrow> False | d # _ \<Rightarrow> 128 \<le> code d \<and> code d \<le> 159)) \<or>
     has_control cs"

section \<open>Trimming Unicode white space\<close>

text \<open>
  The number of bytes of a leading \<open>White_Space\<close> character (0 if the text starts with
  another one): U+0009 to U+000D, U+0020, U+0085, U+00A0, U+1680, U+2000 to U+200A, U+2028,
  U+2029, U+202F, U+205F, U+3000.
\<close>

definition ws_byte3 :: "nat \<Rightarrow> nat \<Rightarrow> nat \<Rightarrow> bool" where
  "ws_byte3 a b c \<longleftrightarrow> (a = 225 \<and> b = 154 \<and> c = 128) \<or>
     (a = 226 \<and> b = 128 \<and> (128 \<le> c \<and> c \<le> 138 \<or> c = 168 \<or> c = 169 \<or> c = 175)) \<or>
     (a = 226 \<and> b = 129 \<and> c = 159) \<or> (a = 227 \<and> b = 128 \<and> c = 128)"

definition ws_byte2 :: "nat \<Rightarrow> nat \<Rightarrow> bool" where
  "ws_byte2 a b \<longleftrightarrow> a = 194 \<and> (b = 133 \<or> b = 160)"

definition ws_byte1 :: "nat \<Rightarrow> bool" where
  "ws_byte1 a \<longleftrightarrow> 9 \<le> a \<and> a \<le> 13 \<or> a = 32"

fun trim_start :: "string \<Rightarrow> string" where
  "trim_start (a # b # c # s) =
     (if ws_byte1 (code a) then trim_start (b # c # s)
      else if ws_byte2 (code a) (code b) then trim_start (c # s)
      else if ws_byte3 (code a) (code b) (code c) then trim_start s
      else a # b # c # s)"
| "trim_start [a, b] =
     (if ws_byte1 (code a) then trim_start [b]
      else if ws_byte2 (code a) (code b) then [] else [a, b])"
| "trim_start [a] = (if ws_byte1 (code a) then [] else [a])"
| "trim_start [] = []"

text \<open>The same on the reversed bytes: the last byte of the text comes first.\<close>

fun trim_start_rev :: "string \<Rightarrow> string" where
  "trim_start_rev (c # b # a # s) =
     (if ws_byte1 (code c) then trim_start_rev (b # a # s)
      else if ws_byte2 (code b) (code c) then trim_start_rev (a # s)
      else if ws_byte3 (code a) (code b) (code c) then trim_start_rev s
      else c # b # a # s)"
| "trim_start_rev [c, b] =
     (if ws_byte1 (code c) then trim_start_rev [b]
      else if ws_byte2 (code b) (code c) then [] else [c, b])"
| "trim_start_rev [c] = (if ws_byte1 (code c) then [] else [c])"
| "trim_start_rev [] = []"

definition trim :: "string \<Rightarrow> string" where
  "trim s = rev (trim_start_rev (rev (trim_start s)))"

lemma suffix_trim_start: "suffix (trim_start s) s"
  by (induction s rule: trim_start.induct) (auto intro: suffix_ConsI)

lemma suffix_trim_start_rev: "suffix (trim_start_rev s) s"
  by (induction s rule: trim_start_rev.induct) (auto intro: suffix_ConsI)

lemma set_trim: "set (trim s) \<subseteq> set s"
  using set_mono_suffix [OF suffix_trim_start, of s]
    set_mono_suffix [OF suffix_trim_start_rev, of "rev (trim_start s)"]
  by (auto simp: trim_def)

lemma trim_Nil [simp]: "trim [] = []"
  by (simp add: trim_def)

text \<open>A text without spaces, tabs and non-ASCII bytes is its own trim.\<close>

lemma trim_start_printable: "\<forall>c \<in> set s. 32 < code c \<and> code c < 127 \<Longrightarrow> trim_start s = s"
  by (cases s rule: trim_start.cases) (auto simp: ws_byte1_def ws_byte2_def ws_byte3_def)

lemma trim_start_rev_printable:
  "\<forall>c \<in> set s. 32 < code c \<and> code c < 127 \<Longrightarrow> trim_start_rev s = s"
  by (cases s rule: trim_start_rev.cases) (auto simp: ws_byte1_def ws_byte2_def ws_byte3_def)

lemma trim_printable: "\<forall>c \<in> set s. 32 < code c \<and> code c < 127 \<Longrightarrow> trim s = s"
  by (simp add: trim_def trim_start_printable trim_start_rev_printable)

section \<open>Splitting and joining\<close>

text \<open>\<open>split_once(c)\<close>: the text before and after the first \<open>c\<close>.\<close>

fun split_once :: "char \<Rightarrow> string \<Rightarrow> (string \<times> string) option" where
  "split_once c [] = None"
| "split_once c (d # s) =
     (if d = c then Some ([], s)
      else map_option (\<lambda>(a, b). (d # a, b)) (split_once c s))"

lemma split_once_Some: "split_once c s = Some (a, b) \<longleftrightarrow> s = a @ c # b \<and> c \<notin> set a"
proof (induction s arbitrary: a)
  case (Cons d s)
  then show ?case by (cases a) auto
qed simp

lemma split_once_None: "split_once c s = None \<longleftrightarrow> c \<notin> set s"
  by (induction s) auto

text \<open>\<open>split(pred)\<close> over characters: the maximal runs between separators, empty ones included.\<close>

fun split_on :: "(char \<Rightarrow> bool) \<Rightarrow> string \<Rightarrow> string list" where
  "split_on p [] = [[]]"
| "split_on p (c # s) =
     (if p c then [] # split_on p s
      else case split_on p s of [] \<Rightarrow> [[c]] | t # ts \<Rightarrow> (c # t) # ts)"

lemma split_on_no_sep: "t \<in> set (split_on p s) \<Longrightarrow> \<forall>c \<in> set t. \<not> p c"
proof (induction s arbitrary: t)
  case (Cons c s)
  then show ?case
    by (cases "split_on p s") (fastforce split: if_splits)+
qed simp

text \<open>\<open>[..].join(sep)\<close>.\<close>

fun join :: "string \<Rightarrow> string list \<Rightarrow> string" where
  "join sep [] = []"
| "join sep [s] = s"
| "join sep (s # t # ts) = s @ sep @ join sep (t # ts)"

fun starts_with :: "string \<Rightarrow> string \<Rightarrow> bool" where
  "starts_with p s \<longleftrightarrow> take (length p) s = p"

text \<open>\<open>str::contains(pattern)\<close>.\<close>

fun contains :: "string \<Rightarrow> string \<Rightarrow> bool" where
  "contains p [] \<longleftrightarrow> p = []"
| "contains p (c # s) \<longleftrightarrow> take (length p) (c # s) = p \<or> contains p s"

text \<open>A text in single quotes, as the messages show it.\<close>

definition quoted :: "string \<Rightarrow> string" where
  "quoted s = CHR 0x27 # s @ [CHR 0x27]"

section \<open>Numbers as text\<close>

definition digit_char :: "nat \<Rightarrow> char" where
  "digit_char n = (if n < 10 then char_of (48 + n) else char_of (87 + n))"

text \<open>\<open>u64::to_string\<close>: decimal, no leading zeros.\<close>

fun dec_nat :: "nat \<Rightarrow> string" where
  "dec_nat n = (if n < 10 then [digit_char n] else dec_nat (n div 10) @ [digit_char (n mod 10)])"

declare dec_nat.simps [simp del]

definition dec_u64 :: "u64 \<Rightarrow> string" where
  "dec_u64 w = dec_nat (unat w)"

text \<open>\<open>i64::to_string\<close>.\<close>

definition dec_int :: "int \<Rightarrow> string" where
  "dec_int i = (if i < 0 then ''-'' @ dec_nat (nat (- i)) else dec_nat (nat i))"

text \<open>\<open>format!("{:02x}", byte)\<close>, and the lower-case hexadecimal of a byte string.\<close>

definition hex_byte :: "byte \<Rightarrow> string" where
  "hex_byte b = [digit_char (unat b div 16), digit_char (unat b mod 16)]"

definition hex_bytes :: "byte list \<Rightarrow> string" where
  "hex_bytes bs = concat (map hex_byte bs)"

lemma code_digit_char: "n < 16 \<Longrightarrow> code (digit_char n) = (if n < 10 then 48 + n else 87 + n)"
  by (simp add: digit_char_def)

lemma digit_char_inj: "m < 16 \<Longrightarrow> n < 16 \<Longrightarrow> digit_char m = digit_char n \<longleftrightarrow> m = n"
proof
  assume "m < 16" "n < 16" "digit_char m = digit_char n"
  then have "code (digit_char m) = code (digit_char n)" by simp
  with \<open>m < 16\<close> \<open>n < 16\<close> show "m = n"
    by (auto simp: code_digit_char split: if_splits)
qed simp

lemma dec_nat_inj: "dec_nat m = dec_nat n \<longleftrightarrow> m = n"
proof (induction m arbitrary: n rule: dec_nat.induct)
  case (1 m)
  have nonempty: "dec_nat k \<noteq> []" for k
    by (subst dec_nat.simps) simp
  show ?case
  proof (cases "m < 10 \<or> n < 10")
    case True
    then show ?thesis
      by (auto simp: dec_nat.simps [of m] dec_nat.simps [of n] nonempty nonempty [symmetric] digit_char_inj)
  next
    case False
    then have "dec_nat m = dec_nat n \<longleftrightarrow> m div 10 = n div 10 \<and> m mod 10 = n mod 10"
      using "1.IH" by (simp add: dec_nat.simps [of m] dec_nat.simps [of n] digit_char_inj)
    then show ?thesis by (metis div_mult_mod_eq)
  qed
qed

lemma dec_u64_inj [simp]: "dec_u64 v = dec_u64 w \<longleftrightarrow> v = w"
  by (simp add: dec_u64_def dec_nat_inj word_unat_eq_iff)

lemma length_hex_bytes [simp]: "length (hex_bytes bs) = 2 * length bs"
  by (induction bs) (auto simp: hex_bytes_def hex_byte_def)

lemma unat_byte_less: "unat (b :: byte) < 256"
  using unsigned_less [of b] by simp

lemma hex_byte_inj: "hex_byte a = hex_byte b \<longleftrightarrow> a = b"
proof
  assume eq: "hex_byte a = hex_byte b"
  have "unat a div 16 < 16" "unat b div 16 < 16"
    using unat_byte_less [of a] unat_byte_less [of b] by auto
  with eq have "unat a div 16 = unat b div 16" "unat a mod 16 = unat b mod 16"
    by (simp_all add: hex_byte_def digit_char_inj)
  then have "unat a = unat b" by (metis div_mult_mod_eq)
  then show "a = b" by (simp add: word_unat_eq_iff)
qed simp

lemma hex_bytes_inj [simp]: "hex_bytes as = hex_bytes bs \<longleftrightarrow> as = bs"
proof (induction as arbitrary: bs)
  case Nil
  show ?case by (cases bs) (auto simp: hex_bytes_def hex_byte_def)
next
  case (Cons a as)
  show ?case
  proof (cases bs)
    case Nil
    then show ?thesis by (simp add: hex_bytes_def hex_byte_def)
  next
    case (Cons b bs')
    have "hex_bytes (a # as) = hex_bytes (b # bs') \<longleftrightarrow>
        hex_byte a = hex_byte b \<and> hex_bytes as = hex_bytes bs'"
      by (simp add: hex_bytes_def append_eq_same_length hex_byte_def)
    with Cons Cons.IH show ?thesis by (simp add: hex_byte_inj)
  qed
qed

lemma hexdigit_digit_char: "n < 16 \<Longrightarrow> is_ascii_hexdigit (digit_char n)"
  by (auto simp: is_ascii_hexdigit_def is_ascii_digit_def code_digit_char)

lemma hexdigits_hex_bytes: "\<forall>c \<in> set (hex_bytes bs). is_ascii_hexdigit c"
proof -
  have "unat b div 16 < 16" for b :: byte
    using unat_byte_less [of b] by simp
  then show ?thesis by (auto simp: hex_bytes_def hex_byte_def hexdigit_digit_char)
qed

section \<open>Enums stored as text\<close>

text \<open>
  Every enum of the control plane has a stable text form: \<open>as_str\<close> writes it to SQLite and
  to JSON, \<open>parse\<close> reads it back and rejects anything else. The laws say that \<open>parse\<close> is
  exactly the inverse of \<open>as_str\<close>; what the tables store can therefore be modelled by the
  enum values themselves.
\<close>

locale text_codec =
  fixes as_str :: "'a \<Rightarrow> string" and parse :: "string \<Rightarrow> 'e + 'a"
  assumes parse_as_str: "parse (as_str x) = Inr x"
    and parse_sound: "parse s = Inr x \<Longrightarrow> as_str x = s"
begin

lemma as_str_inj: "as_str x = as_str y \<longleftrightarrow> x = y"
  by (metis parse_as_str sum.inject(2))

lemma parse_ok_iff: "parse s = Inr x \<longleftrightarrow> s = as_str x"
  using parse_as_str parse_sound by auto

lemma parse_rejects_iff: "\<not> is_ok (parse s) \<longleftrightarrow> s \<notin> range as_str"
  by (auto simp: is_ok_iff parse_ok_iff)

end

end
