(* ===== verification/Replication_Envelope.thy ===== *)
theory Replication_Envelope
  imports Rust_Text
begin

text \<open>
  The replication protocol's envelope (\<open>src/replication/types.rs\<close>) and its typed errors
  (\<open>src/replication/error.rs\<close>): signer roles, artifact kinds, the role/artifact matrix, the
  deterministic signing preimage and the identity predicate. A \<open>[u8; N]\<close> is a byte list; that
  its length is \<open>N\<close> is the well-formedness predicate \<open>envelope_wf\<close>, which Rust's type gives.
\<close>

section \<open>Roles and artifacts\<close>

datatype SignerRole =
    OperatorRoot
  | DeviceWriter
  | SemanticAuthorityIssuer
  | SyncService
  | GrantAuthority
  | ProposalIssuer
  | RecoveryAuthority
  | RoutingService

fun signer_role_as_u8 :: "SignerRole \<Rightarrow> u8" where
  "signer_role_as_u8 OperatorRoot = 1"
| "signer_role_as_u8 DeviceWriter = 2"
| "signer_role_as_u8 SemanticAuthorityIssuer = 3"
| "signer_role_as_u8 SyncService = 4"
| "signer_role_as_u8 GrantAuthority = 5"
| "signer_role_as_u8 ProposalIssuer = 6"
| "signer_role_as_u8 RecoveryAuthority = 7"
| "signer_role_as_u8 RoutingService = 8"

definition signer_role_from_u8 :: "u8 \<Rightarrow> SignerRole option" where
  "signer_role_from_u8 v =
     (if v = 1 then Some OperatorRoot
      else if v = 2 then Some DeviceWriter
      else if v = 3 then Some SemanticAuthorityIssuer
      else if v = 4 then Some SyncService
      else if v = 5 then Some GrantAuthority
      else if v = 6 then Some ProposalIssuer
      else if v = 7 then Some RecoveryAuthority
      else if v = 8 then Some RoutingService
      else None)"

datatype ArtifactKind =
    Mutation
  | Promotion
  | Bootstrap
  | Ack
  | Grant
  | Proposal
  | RoutingReceipt

fun artifact_to_u8 :: "ArtifactKind \<Rightarrow> u8" where
  "artifact_to_u8 Mutation = 1"
| "artifact_to_u8 Promotion = 2"
| "artifact_to_u8 Bootstrap = 3"
| "artifact_to_u8 Ack = 4"
| "artifact_to_u8 Grant = 5"
| "artifact_to_u8 Proposal = 6"
| "artifact_to_u8 RoutingReceipt = 7"

definition artifact_from_u8 :: "u8 \<Rightarrow> ArtifactKind option" where
  "artifact_from_u8 v =
     (if v = 1 then Some Mutation
      else if v = 2 then Some Promotion
      else if v = 3 then Some Bootstrap
      else if v = 4 then Some Ack
      else if v = 5 then Some Grant
      else if v = 6 then Some Proposal
      else if v = 7 then Some RoutingReceipt
      else None)"

fun may_sign :: "SignerRole \<Rightarrow> ArtifactKind \<Rightarrow> bool" where
  "may_sign DeviceWriter Mutation \<longleftrightarrow> True"
| "may_sign SemanticAuthorityIssuer Mutation \<longleftrightarrow> True"
| "may_sign RecoveryAuthority Promotion \<longleftrightarrow> True"
| "may_sign RecoveryAuthority Bootstrap \<longleftrightarrow> True"
| "may_sign SyncService Ack \<longleftrightarrow> True"
| "may_sign GrantAuthority Grant \<longleftrightarrow> True"
| "may_sign OperatorRoot Grant \<longleftrightarrow> True"
| "may_sign ProposalIssuer Proposal \<longleftrightarrow> True"
| "may_sign RoutingService RoutingReceipt \<longleftrightarrow> True"
| "may_sign _ _ \<longleftrightarrow> False"

text \<open>\<open>derive(Debug)\<close>: the name of the variant.\<close>

fun debug_signer_role :: "SignerRole \<Rightarrow> string" where
  "debug_signer_role OperatorRoot = ''OperatorRoot''"
| "debug_signer_role DeviceWriter = ''DeviceWriter''"
| "debug_signer_role SemanticAuthorityIssuer = ''SemanticAuthorityIssuer''"
| "debug_signer_role SyncService = ''SyncService''"
| "debug_signer_role GrantAuthority = ''GrantAuthority''"
| "debug_signer_role ProposalIssuer = ''ProposalIssuer''"
| "debug_signer_role RecoveryAuthority = ''RecoveryAuthority''"
| "debug_signer_role RoutingService = ''RoutingService''"

fun debug_artifact :: "ArtifactKind \<Rightarrow> string" where
  "debug_artifact Mutation = ''Mutation''"
| "debug_artifact Promotion = ''Promotion''"
| "debug_artifact Bootstrap = ''Bootstrap''"
| "debug_artifact Ack = ''Ack''"
| "debug_artifact Grant = ''Grant''"
| "debug_artifact Proposal = ''Proposal''"
| "debug_artifact RoutingReceipt = ''RoutingReceipt''"

lemma signer_role_from_as_u8 [simp]: "signer_role_from_u8 (signer_role_as_u8 r) = Some r"
  by (cases r) (simp_all add: signer_role_from_u8_def)

lemma artifact_from_to_u8 [simp]: "artifact_from_u8 (artifact_to_u8 k) = Some k"
  by (cases k) (simp_all add: artifact_from_u8_def)

lemma signer_role_as_u8_inj [simp]: "signer_role_as_u8 r = signer_role_as_u8 s \<longleftrightarrow> r = s"
  by (metis signer_role_from_as_u8 option.inject)

lemma artifact_to_u8_inj [simp]: "artifact_to_u8 k = artifact_to_u8 l \<longleftrightarrow> k = l"
  by (metis artifact_from_to_u8 option.inject)

section \<open>Errors\<close>

datatype ReplicationError =
    UnsupportedProtocolVersion u16
  | UnknownArtifactKind u8
  | UnknownSignerRole u8
  | EmptyField string
  | WrongPublicKeyLength usize
  | WrongSignatureLength usize
  | RoleArtifactMismatch SignerRole ArtifactKind
  | InvalidPublicKey string
  | SignatureVerification string
  | FieldTooLong string usize
  | WrongSnapshotIdLength usize
  | EmptyPayload
  | DigestComputation string
  | PreCollisionValidation string
  | IdentityCollision
  | PayloadLengthMismatch u64 u64
  | PayloadDigestMismatch
  | SignerNotAdmitted string u64
  | KeyMismatch string u64
  | RoleMismatch SignerRole SignerRole
  | ArtifactPermissionMismatch ArtifactKind ArtifactKind
  | DuplicateTrustedKey string u64
  | KeyRevoked string u64
  | KeyLifecycleOutsideWindow string u64 u64 u64 u64
  | KeyScopeMismatch string u64 string string string
  | ControlCharacterInField string byte usize
  | InvalidTemporalInterval u64 u64
  | FieldExceedsMaxLength string usize usize
  | InvalidIdempotencyKey string

text \<open>The \<open>Display\<close> of the errors (\<open>#[error(...)]\<close>), in two parts.\<close>

definition dec_word :: "'a::len word \<Rightarrow> string" where
  "dec_word w = dec_nat (unat w)"

fun display_key_error :: "ReplicationError \<Rightarrow> string" where
  "display_key_error (SignerNotAdmitted p v) =
     ''signer principal '' @ p @ '' key version '' @ dec_word v @
     '' not found in trusted registry''"
| "display_key_error (KeyMismatch p v) =
     ''embedded public key for '' @ p @ '' (v'' @ dec_word v @ '') does not match admitted key''"
| "display_key_error (RoleMismatch a e) =
     ''admitted key for signer role '' @ debug_signer_role a @
     '' does not match envelope role '' @ debug_signer_role e"
| "display_key_error (ArtifactPermissionMismatch a e) =
     ''admitted key permission '' @ debug_artifact a @
     '' does not match envelope artifact '' @ debug_artifact e"
| "display_key_error (DuplicateTrustedKey p v) =
     ''duplicate trusted key for principal '' @ p @ '' key version '' @ dec_word v"
| "display_key_error (KeyRevoked p v) =
     ''admitted key for '' @ p @ '' (v'' @ dec_word v @ '') has been revoked''"
| "display_key_error (KeyLifecycleOutsideWindow p v t a c) =
     ''admitted key for '' @ p @ '' (v'' @ dec_word v @ '') observed_at '' @ dec_word t @
     '' outside lifecycle window ['' @ dec_word a @ '', '' @ dec_word c @ '']''"
| "display_key_error (KeyScopeMismatch p v f ev ks) =
     ''admitted key for '' @ p @ '' (v'' @ dec_word v @ '') scope mismatch: envelope '' @ f @
     ''='' @ ev @ '', key scope='' @ ks"
| "display_key_error (ControlCharacterInField f b pos) =
     ''control character (0x'' @ hex_byte b @ '') in field '' @ quoted f @ '' at position '' @
     dec_nat pos"
| "display_key_error (InvalidTemporalInterval f t) =
     ''invalid temporal interval: valid_from ('' @ dec_word f @ '') > valid_to ('' @ dec_word t @
     '')''"
| "display_key_error (FieldExceedsMaxLength f l m) =
     ''field '' @ quoted f @ '' exceeds maximum length: '' @ dec_nat l @ '' > '' @ dec_nat m"
| "display_key_error (InvalidIdempotencyKey k) =
     ''idempotency key contains characters that are not allowed: '' @ k"
| "display_key_error _ = []"

fun display_replication_error :: "ReplicationError \<Rightarrow> string" where
  "display_replication_error (UnsupportedProtocolVersion v) =
     ''unsupported protocol version: '' @ dec_word v"
| "display_replication_error (UnknownArtifactKind k) = ''unknown artifact kind: '' @ dec_word k"
| "display_replication_error (UnknownSignerRole r) = ''unknown signer role: '' @ dec_word r"
| "display_replication_error (EmptyField f) = ''empty required field: '' @ f"
| "display_replication_error (WrongPublicKeyLength n) =
     ''wrong public key length: got '' @ dec_nat n @ '', expected 32''"
| "display_replication_error (WrongSignatureLength n) =
     ''wrong signature length: got '' @ dec_nat n @ '', expected 64''"
| "display_replication_error (RoleArtifactMismatch r k) =
     ''signer role '' @ debug_signer_role r @ '' may not sign artifact '' @ debug_artifact k"
| "display_replication_error (InvalidPublicKey m) = ''invalid Ed25519 public key: '' @ m"
| "display_replication_error (SignatureVerification m) = ''signature verification failed: '' @ m"
| "display_replication_error (FieldTooLong f n) =
     ''field too long for u32 length prefix: '' @ f @ '' ('' @ dec_nat n @ '' bytes)''"
| "display_replication_error (WrongSnapshotIdLength n) =
     ''authorization_snapshot_id must be 16 bytes (UUID), got '' @ dec_nat n"
| "display_replication_error EmptyPayload = ''canonical payload is empty''"
| "display_replication_error (DigestComputation m) =
     ''canonical digest computation failed: '' @ m"
| "display_replication_error (PreCollisionValidation m) =
     ''envelope validation failed before collision check: '' @ m"
| "display_replication_error IdentityCollision = ''identity collision with different content''"
| "display_replication_error (PayloadLengthMismatch d a) =
     ''payload length mismatch: declared '' @ dec_word d @ '', actual '' @ dec_word a"
| "display_replication_error PayloadDigestMismatch =
     ''payload digest mismatch: SHA-256(canonical_payload) does not match declared payload_digest''"
| "display_replication_error e = display_key_error e"

section \<open>The envelope\<close>

record MemoryMutationEnvelopeV1 =
  env_protocol_version :: u16
  env_artifact_kind :: ArtifactKind
  env_operation_schema_version :: u16
  env_semantic_schema_generation :: u16
  env_operation_id :: string
  env_idempotency_key :: string
  env_home_device_id :: string
  env_store_id :: string
  env_actor_id :: string
  env_store_epoch :: u64
  env_writer_epoch :: u64
  env_sequence :: u64
  env_previous_envelope_digest :: "byte list"
  env_fencing_token :: string
  env_namespace :: string
  env_operation_kind :: string
  env_canonical_payload :: "byte list"
  env_payload_digest :: "byte list"
  env_payload_length :: u64
  env_requested_effect_digest :: "byte list"
  env_policy_version :: u64
  env_authorization_snapshot_id :: "byte list"
  env_authorization_snapshot_digest :: "byte list"
  env_authority_receipt_digest :: "byte list"
  env_signer_principal_id :: string
  env_signer_role :: SignerRole
  env_signer_key_version :: u64
  env_observed_at :: u64
  env_valid_from :: u64
  env_valid_to :: u64
  env_signer_public_key :: "byte list"
  env_signature :: "byte list"

text \<open>The lengths that the array types of the fields fix.\<close>

definition envelope_wf :: "MemoryMutationEnvelopeV1 \<Rightarrow> bool" where
  "envelope_wf e \<longleftrightarrow>
     length (env_previous_envelope_digest e) = 32 \<and>
     length (env_payload_digest e) = 32 \<and>
     length (env_requested_effect_digest e) = 32 \<and>
     length (env_authorization_snapshot_digest e) = 32 \<and>
     length (env_authority_receipt_digest e) = 32 \<and>
     length (env_signer_public_key e) = 32 \<and>
     length (env_signature e) = 64"

definition SIGNATURE_DOMAIN_TAG :: "byte list" where
  "SIGNATURE_DOMAIN_TAG = as_bytes (''mnemes/mutation-envelope/signature/v1'' @ [CHR 0x00])"

definition DIGEST_DOMAIN_TAG :: "byte list" where
  "DIGEST_DOMAIN_TAG = as_bytes (''mnemes/mutation-envelope/v1'' @ [CHR 0x00])"

text \<open>A field of variable length: a \<open>u32\<close> big-endian length, then the bytes.\<close>

definition encode_bytes :: "byte list \<Rightarrow> byte list \<Rightarrow> string \<Rightarrow> ReplicationError + byte list" where
  "encode_bytes out bs field =
     (if length bs > 4294967295 then Inl (FieldTooLong field (length bs))
      else Inr (out @ be_u32 (of_nat (length bs)) @ bs))"

definition preimage_identity ::
    "MemoryMutationEnvelopeV1 \<Rightarrow> byte list \<Rightarrow> ReplicationError + byte list" where
  "preimage_identity e out =
     bindR (encode_bytes out (as_bytes (env_operation_id e)) ''operation_id'') (\<lambda>out.
     bindR (encode_bytes out (as_bytes (env_idempotency_key e)) ''idempotency_key'') (\<lambda>out.
     bindR (encode_bytes out (as_bytes (env_home_device_id e)) ''home_device_id'') (\<lambda>out.
     bindR (encode_bytes out (as_bytes (env_store_id e)) ''store_id'') (\<lambda>out.
     encode_bytes out (as_bytes (env_actor_id e)) ''actor_id''))))"

definition signing_preimage :: "MemoryMutationEnvelopeV1 \<Rightarrow> ReplicationError + byte list" where
  "signing_preimage e =
     (let out = SIGNATURE_DOMAIN_TAG;
          out = out @ be_u16 (env_protocol_version e);
          out = out @ [artifact_to_u8 (env_artifact_kind e)];
          out = out @ be_u16 (env_operation_schema_version e);
          out = out @ be_u16 (env_semantic_schema_generation e)
      in bindR (preimage_identity e out) (\<lambda>out.
      let out = out @ be_u64 (env_store_epoch e);
          out = out @ be_u64 (env_writer_epoch e);
          out = out @ be_u64 (env_sequence e);
          out = out @ env_previous_envelope_digest e
      in bindR (encode_bytes out (as_bytes (env_fencing_token e)) ''fencing_token'') (\<lambda>out.
      bindR (encode_bytes out (as_bytes (env_namespace e)) ''namespace'') (\<lambda>out.
      bindR (encode_bytes out (as_bytes (env_operation_kind e)) ''operation_kind'') (\<lambda>out.
      let out = out @ env_payload_digest e;
          out = out @ be_u64 (env_payload_length e);
          out = out @ env_requested_effect_digest e;
          out = out @ be_u64 (env_policy_version e)
      in bindR (encode_bytes out (env_authorization_snapshot_id e)
                  ''authorization_snapshot_id'') (\<lambda>out.
      let out = out @ env_authorization_snapshot_digest e;
          out = out @ env_authority_receipt_digest e
      in bindR (encode_bytes out (as_bytes (env_signer_principal_id e))
                  ''signer_principal_id'') (\<lambda>out.
      let out = out @ [signer_role_as_u8 (env_signer_role e)];
          out = out @ be_u64 (env_signer_key_version e);
          out = out @ be_u64 (env_observed_at e);
          out = out @ be_u64 (env_valid_from e);
          out = out @ be_u64 (env_valid_to e)
      in Inr out)))))))"

definition test_fixture :: MemoryMutationEnvelopeV1 where
  "test_fixture =
     \<lparr> env_protocol_version = 1,
       env_artifact_kind = Mutation,
       env_operation_schema_version = 1,
       env_semantic_schema_generation = 1,
       env_operation_id = ''operation-1'',
       env_idempotency_key = ''idem-1'',
       env_home_device_id = ''device-1'',
       env_store_id = ''store-1'',
       env_actor_id = ''actor-1'',
       env_store_epoch = 1,
       env_writer_epoch = 1,
       env_sequence = 1,
       env_previous_envelope_digest = replicate 32 0,
       env_fencing_token = ''fence-1'',
       env_namespace = ''default'',
       env_operation_kind = ''fact_append'',
       env_canonical_payload = as_bytes ''payload'',
       env_payload_digest = replicate 32 1,
       env_payload_length = 7,
       env_requested_effect_digest = replicate 32 2,
       env_policy_version = 1,
       env_authorization_snapshot_id = replicate 16 0,
       env_authorization_snapshot_digest = replicate 32 3,
       env_authority_receipt_digest = replicate 32 4,
       env_signer_principal_id = ''operator-1'',
       env_signer_role = DeviceWriter,
       env_signer_key_version = 1,
       env_observed_at = 1000000,
       env_valid_from = 1000000,
       env_valid_to = 2000000,
       env_signer_public_key = replicate 32 0,
       env_signature = replicate 64 0 \<rparr>"

definition same_identity ::
    "MemoryMutationEnvelopeV1 \<Rightarrow> MemoryMutationEnvelopeV1 \<Rightarrow> bool" where
  "same_identity a b \<longleftrightarrow>
     (env_operation_id a = env_operation_id b \<and>
      env_home_device_id a = env_home_device_id b \<and>
      env_store_id a = env_store_id b) \<or>
     (env_home_device_id a = env_home_device_id b \<and>
      env_idempotency_key a = env_idempotency_key b) \<or>
     (env_home_device_id a = env_home_device_id b \<and>
      env_store_id a = env_store_id b \<and>
      env_store_epoch a = env_store_epoch b \<and>
      env_writer_epoch a = env_writer_epoch b \<and>
      env_sequence a = env_sequence b)"

section \<open>The preimage determines every signed field\<close>

text \<open>What the signature does not cover: the payload itself (its digest is), the key, the signature.\<close>

definition signed_part :: "MemoryMutationEnvelopeV1 \<Rightarrow> MemoryMutationEnvelopeV1" where
  "signed_part e =
     e\<lparr>env_canonical_payload := [], env_signer_public_key := [], env_signature := []\<rparr>"

definition length_prefixed :: "byte list \<Rightarrow> byte list" where
  "length_prefixed bs = be_u32 (of_nat (length bs)) @ bs"

definition fits_u32 :: "byte list \<Rightarrow> bool" where
  "fits_u32 bs \<longleftrightarrow> length bs \<le> 4294967295"

lemma encode_bytes_eq_Inr [result_simps]:
  "encode_bytes out bs f = Inr out' \<longleftrightarrow> fits_u32 bs \<and> out' = out @ length_prefixed bs"
  by (auto simp: encode_bytes_def length_prefixed_def fits_u32_def)

lemma encode_bytes_eq_Inl [result_simps]:
  "encode_bytes out bs f = Inl e \<longleftrightarrow> \<not> fits_u32 bs \<and> e = FieldTooLong f (length bs)"
  by (auto simp: encode_bytes_def fits_u32_def)

lemma length_prefixed_append_inj:
  assumes "fits_u32 a" "fits_u32 b"
  shows "length_prefixed a @ x = length_prefixed b @ y \<longleftrightarrow> a = b \<and> x = y"
proof
  assume eq: "length_prefixed a @ x = length_prefixed b @ y"
  then have "be_u32 (of_nat (length a)) = be_u32 (of_nat (length b))" and rest: "a @ x = b @ y"
    by (simp_all add: length_prefixed_def append_eq_same_length)
  then have "unat (of_nat (length a) :: u32) = unat (of_nat (length b) :: u32)" by simp
  with assms have "length a = length b"
    by (simp add: fits_u32_def unat_of_nat)
  with rest show "a = b \<and> x = y" by simp
qed simp

lemma length_prefixed_inj:
  "fits_u32 a \<Longrightarrow> fits_u32 b \<Longrightarrow> length_prefixed a = length_prefixed b \<longleftrightarrow> a = b"
  using length_prefixed_append_inj [of a b "[]" "[]"] by simp

text \<open>The 29 fields in order, all of them self-delimiting.\<close>

definition preimage_fields :: "MemoryMutationEnvelopeV1 \<Rightarrow> byte list list" where
  "preimage_fields e =
     [be_u16 (env_protocol_version e), [artifact_to_u8 (env_artifact_kind e)],
      be_u16 (env_operation_schema_version e), be_u16 (env_semantic_schema_generation e),
      length_prefixed (as_bytes (env_operation_id e)),
      length_prefixed (as_bytes (env_idempotency_key e)),
      length_prefixed (as_bytes (env_home_device_id e)),
      length_prefixed (as_bytes (env_store_id e)),
      length_prefixed (as_bytes (env_actor_id e)),
      be_u64 (env_store_epoch e), be_u64 (env_writer_epoch e), be_u64 (env_sequence e),
      env_previous_envelope_digest e,
      length_prefixed (as_bytes (env_fencing_token e)),
      length_prefixed (as_bytes (env_namespace e)),
      length_prefixed (as_bytes (env_operation_kind e)),
      env_payload_digest e, be_u64 (env_payload_length e), env_requested_effect_digest e,
      be_u64 (env_policy_version e), length_prefixed (env_authorization_snapshot_id e),
      env_authorization_snapshot_digest e, env_authority_receipt_digest e,
      length_prefixed (as_bytes (env_signer_principal_id e)),
      [signer_role_as_u8 (env_signer_role e)], be_u64 (env_signer_key_version e),
      be_u64 (env_observed_at e), be_u64 (env_valid_from e), be_u64 (env_valid_to e)]"

definition preimage_fits :: "MemoryMutationEnvelopeV1 \<Rightarrow> bool" where
  "preimage_fits e \<longleftrightarrow>
     (\<forall>s \<in> set [env_operation_id e, env_idempotency_key e, env_home_device_id e, env_store_id e,
               env_actor_id e, env_fencing_token e, env_namespace e, env_operation_kind e,
               env_signer_principal_id e]. fits_u32 (as_bytes s)) \<and>
     fits_u32 (env_authorization_snapshot_id e)"

lemma signing_preimage_eq:
  "signing_preimage e = Inr p \<longleftrightarrow>
     preimage_fits e \<and> p = SIGNATURE_DOMAIN_TAG @ concat (preimage_fields e)"
  unfolding signing_preimage_def preimage_identity_def
  by (auto simp: result_simps Let_def preimage_fits_def preimage_fields_def)

lemma preimage_fields_inj:
  assumes "envelope_wf a" "envelope_wf b" "preimage_fits a" "preimage_fits b"
    and eq: "concat (preimage_fields a) @ x = concat (preimage_fields b) @ y"
  shows "signed_part a = signed_part b"
proof -
  have wf: "length (env_previous_envelope_digest a) = length (env_previous_envelope_digest b)"
    "length (env_payload_digest a) = length (env_payload_digest b)"
    "length (env_requested_effect_digest a) = length (env_requested_effect_digest b)"
    "length (env_authorization_snapshot_digest a) = length (env_authorization_snapshot_digest b)"
    "length (env_authority_receipt_digest a) = length (env_authority_receipt_digest b)"
    using assms by (simp_all add: envelope_wf_def)
  show ?thesis
    using eq assms(3,4)
    by (simp add: preimage_fields_def preimage_fits_def signed_part_def
        length_prefixed_append_inj append_eq_same_length wf)
qed

text \<open>
  C18. The signing preimage is an injective encoding: two envelopes with the same preimage agree
  on every field except the payload bytes (whose digest and length they share), the embedded
  key and the signature. A signature therefore covers every authority-bearing field.
\<close>

theorem signing_preimage_injective:
  assumes "envelope_wf a" "envelope_wf b"
    and "signing_preimage a = Inr p" "signing_preimage b = Inr p"
  shows "signed_part a = signed_part b"
  using assms preimage_fields_inj [of a b "[]" "[]"] by (simp add: signing_preimage_eq)

lemma test_fixture_wf: "envelope_wf test_fixture"
  by (simp add: envelope_wf_def test_fixture_def)

lemma signing_preimage_fits: "preimage_fits e \<Longrightarrow>
    signing_preimage e = Inr (SIGNATURE_DOMAIN_TAG @ concat (preimage_fields e))"
  by (simp add: signing_preimage_eq)

lemma test_fixture_fits: "preimage_fits test_fixture"
  by (simp add: preimage_fits_def test_fixture_def fits_u32_def)

theorem signing_preimage_injective_witness:
  "signed_part test_fixture =
     signed_part (test_fixture\<lparr>env_canonical_payload := as_bytes ''other''\<rparr>)"
proof (rule signing_preimage_injective)
  show "envelope_wf test_fixture" by (rule test_fixture_wf)
  show "envelope_wf (test_fixture\<lparr>env_canonical_payload := as_bytes ''other''\<rparr>)"
    using test_fixture_wf by (simp add: envelope_wf_def)
  show "signing_preimage test_fixture =
      Inr (SIGNATURE_DOMAIN_TAG @ concat (preimage_fields test_fixture))"
    by (rule signing_preimage_fits [OF test_fixture_fits])
  show "signing_preimage (test_fixture\<lparr>env_canonical_payload := as_bytes ''other''\<rparr>) =
      Inr (SIGNATURE_DOMAIN_TAG @ concat (preimage_fields test_fixture))"
    using test_fixture_fits
    by (simp add: signing_preimage_eq preimage_fits_def preimage_fields_def)
qed

end
