(* ===== verification/Replication_Validate.thy ===== *)
theory Replication_Validate
  imports Replication_Envelope
begin

text \<open>
  Envelope validation (\<open>src/replication/canonical.rs\<close>) and the comparison of two envelopes of
  the same identity (\<open>validate_identity_collision\<close> in \<open>src/replication/state_machine.rs\<close>).

  SHA-256 and Ed25519 are other crates: they are a parameter of the model, the record
  \<open>crypto\<close>. \<open>VerifyingKey::from_bytes\<close>, \<open>verify\<close> and the signing side are functions of the
  key bytes; an error carries its text.
\<close>

section \<open>The cryptographic parameter\<close>

record crypto =
  sha256 :: "byte list \<Rightarrow> byte list"
  ed_public :: "byte list \<Rightarrow> byte list"
  ed_sign :: "byte list \<Rightarrow> byte list \<Rightarrow> byte list"
  ed_key_from_bytes :: "byte list \<Rightarrow> string + unit"
  ed_verify :: "byte list \<Rightarrow> byte list \<Rightarrow> byte list \<Rightarrow> string + unit"

text \<open>
  What the documentation of the two crates promises: sizes, and that a signature made with a
  key verifies under the public half of it.
\<close>

definition crypto_laws :: "crypto \<Rightarrow> bool" where
  "crypto_laws c \<longleftrightarrow>
     (\<forall>m. length (sha256 c m) = 32) \<and>
     (\<forall>sk. length (ed_public c sk) = 32) \<and>
     (\<forall>sk m. length (ed_sign c sk m) = 64) \<and>
     (\<forall>sk. ed_key_from_bytes c (ed_public c sk) = Inr ()) \<and>
     (\<forall>sk m. ed_verify c (ed_public c sk) m (ed_sign c sk m) = Inr ())"

text \<open>\<open>x\<close> and \<open>y\<close> are not a collision of the hash function.\<close>

definition no_collision :: "crypto \<Rightarrow> byte list \<Rightarrow> byte list \<Rightarrow> bool" where
  "no_collision c x y \<longleftrightarrow> (sha256 c x = sha256 c y \<longrightarrow> x = y)"

text \<open>
  A concrete instance for the examples: the first bytes of the message as hash, and a signature
  that repeats the key and the length of the message.
\<close>

definition toy_hash :: "byte list \<Rightarrow> byte list" where
  "toy_hash m = take 32 (m @ replicate 32 0)"

definition toy_sign :: "byte list \<Rightarrow> byte list \<Rightarrow> byte list" where
  "toy_sign sk m = toy_hash sk @ toy_hash m"

definition toy_crypto :: crypto where
  "toy_crypto =
     \<lparr> sha256 = toy_hash,
       ed_public = toy_hash,
       ed_sign = toy_sign,
       ed_key_from_bytes = (\<lambda>k. Inr ()),
       ed_verify = (\<lambda>pk m s. if s = pk @ toy_hash m then Inr () else Inl ''signature error'') \<rparr>"

lemma length_toy_hash [simp]: "length (toy_hash m) = 32"
  by (simp add: toy_hash_def)

lemma toy_crypto_laws: "crypto_laws toy_crypto"
  by (simp add: crypto_laws_def toy_crypto_def toy_sign_def)

section \<open>The canonical digest\<close>

definition canonical_digest ::
    "crypto \<Rightarrow> MemoryMutationEnvelopeV1 \<Rightarrow> ReplicationError + byte list" where
  "canonical_digest c e =
     bindR (signing_preimage e) (\<lambda>preimage.
     bindR (fail_if (length preimage < length SIGNATURE_DOMAIN_TAG)
              (DigestComputation ''preimage shorter than signature domain tag'')) (\<lambda>_.
     Inr (sha256 c (DIGEST_DOMAIN_TAG @ drop (length SIGNATURE_DOMAIN_TAG) preimage))))"

lemma canonical_digest_eq:
  "canonical_digest c e = Inr d \<longleftrightarrow>
     preimage_fits e \<and> d = sha256 c (DIGEST_DOMAIN_TAG @ concat (preimage_fields e))"
  by (auto simp: canonical_digest_def result_simps signing_preimage_eq)

section \<open>Structural validation\<close>

definition required_fields :: "MemoryMutationEnvelopeV1 \<Rightarrow> (string \<times> string) list" where
  "required_fields e =
     [(''operation_id'', env_operation_id e),
      (''idempotency_key'', env_idempotency_key e),
      (''home_device_id'', env_home_device_id e),
      (''store_id'', env_store_id e),
      (''actor_id'', env_actor_id e),
      (''namespace'', env_namespace e),
      (''fencing_token'', env_fencing_token e),
      (''operation_kind'', env_operation_kind e),
      (''signer_principal_id'', env_signer_principal_id e)]"

text \<open>The first control byte of a text and its position.\<close>

fun find_control :: "nat \<Rightarrow> string \<Rightarrow> (nat \<times> byte) option" where
  "find_control pos [] = None"
| "find_control pos (ch # s) =
     (if code ch < 32 \<or> code ch = 127 then Some (pos, char_byte ch) else find_control (pos + 1) s)"

definition check_control :: "string \<times> string \<Rightarrow> ReplicationError + unit" where
  "check_control f =
     (case find_control 0 (snd f) of
        None \<Rightarrow> Inr ()
      | Some (pos, b) \<Rightarrow> Inl (ControlCharacterInField (fst f) b pos))"

definition MAX_PAYLOAD_LEN :: usize where
  "MAX_PAYLOAD_LEN = 1048576"

definition byte_limits :: "MemoryMutationEnvelopeV1 \<Rightarrow> (string \<times> string \<times> usize) list" where
  "byte_limits e =
     [(''operation_id'', env_operation_id e, 128),
      (''idempotency_key'', env_idempotency_key e, 128),
      (''home_device_id'', env_home_device_id e, 64),
      (''store_id'', env_store_id e, 64),
      (''actor_id'', env_actor_id e, 64),
      (''namespace'', env_namespace e, 256),
      (''fencing_token'', env_fencing_token e, 128),
      (''operation_kind'', env_operation_kind e, 64),
      (''signer_principal_id'', env_signer_principal_id e, 128)]"

definition check_limit :: "string \<times> string \<times> usize \<Rightarrow> ReplicationError + unit" where
  "check_limit = (\<lambda>(name, field, max).
     fail_if (length field > max) (FieldExceedsMaxLength name (length field) max))"

text \<open>Version, artifact kind and role.\<close>

definition validate_header :: "MemoryMutationEnvelopeV1 \<Rightarrow> ReplicationError + unit" where
  "validate_header e = checks
     [fail_if (env_protocol_version e \<noteq> 1) (UnsupportedProtocolVersion (env_protocol_version e)),
      fail_if (artifact_from_u8 (artifact_to_u8 (env_artifact_kind e)) = None)
        (UnknownArtifactKind (artifact_to_u8 (env_artifact_kind e))),
      fail_if (signer_role_from_u8 (signer_role_as_u8 (env_signer_role e)) = None)
        (UnknownSignerRole (signer_role_as_u8 (env_signer_role e)))]"

text \<open>Required fields, control characters, byte limits.\<close>

definition validate_text :: "MemoryMutationEnvelopeV1 \<Rightarrow> ReplicationError + unit" where
  "validate_text e = checks
     [check_all (\<lambda>(name, field). fail_if (trim field = []) (EmptyField name)) (required_fields e),
      fail_if (env_canonical_payload e = []) EmptyPayload,
      check_all check_control (required_fields e)]"

definition validate_limits :: "MemoryMutationEnvelopeV1 \<Rightarrow> ReplicationError + unit" where
  "validate_limits e = checks
     [check_all check_limit (byte_limits e),
      fail_if (length (env_canonical_payload e) > MAX_PAYLOAD_LEN)
        (FieldExceedsMaxLength ''canonical_payload'' (length (env_canonical_payload e))
           MAX_PAYLOAD_LEN),
      fail_if (env_valid_from e > env_valid_to e)
        (InvalidTemporalInterval (env_valid_from e) (env_valid_to e))]"

text \<open>Payload commitments and fixed-size fields.\<close>

definition validate_payload :: "crypto \<Rightarrow> MemoryMutationEnvelopeV1 \<Rightarrow> ReplicationError + unit" where
  "validate_payload c e =
     (let actual_len = of_nat (length (env_canonical_payload e)) in checks
     [fail_if (env_payload_length e \<noteq> actual_len)
        (PayloadLengthMismatch (env_payload_length e) actual_len),
      fail_if (sha256 c (env_canonical_payload e) \<noteq> env_payload_digest e) PayloadDigestMismatch,
      fail_if (length (env_authorization_snapshot_id e) \<noteq> 16)
        (WrongSnapshotIdLength (length (env_authorization_snapshot_id e))),
      fail_if (length (env_signer_public_key e) \<noteq> 32)
        (WrongPublicKeyLength (length (env_signer_public_key e))),
      fail_if (length (env_signature e) \<noteq> 64)
        (WrongSignatureLength (length (env_signature e)))])"

definition validate_signature :: "crypto \<Rightarrow> MemoryMutationEnvelopeV1 \<Rightarrow> ReplicationError + unit" where
  "validate_signature c e = checks
     [fail_if (\<not> may_sign (env_signer_role e) (env_artifact_kind e))
        (RoleArtifactMismatch (env_signer_role e) (env_artifact_kind e)),
      map_err InvalidPublicKey (ed_key_from_bytes c (env_signer_public_key e)),
      bindR (signing_preimage e) (\<lambda>preimage.
        map_err SignatureVerification
          (ed_verify c (env_signer_public_key e) preimage (env_signature e)))]"

definition validate_envelope :: "crypto \<Rightarrow> MemoryMutationEnvelopeV1 \<Rightarrow> ReplicationError + unit" where
  "validate_envelope c e = checks
     [validate_header e, validate_text e, validate_limits e, validate_payload c e,
      validate_signature c e]"

section \<open>Identity collisions\<close>

definition validate_identity_collision ::
    "crypto \<Rightarrow> MemoryMutationEnvelopeV1 \<Rightarrow> MemoryMutationEnvelopeV1 \<Rightarrow> ReplicationError + unit"
where
  "validate_identity_collision c first second =
     bindR (map_err (\<lambda>e. PreCollisionValidation (''first envelope: '' @ display_replication_error e))
              (validate_envelope c first)) (\<lambda>_.
     bindR (map_err (\<lambda>e. PreCollisionValidation (''second envelope: '' @ display_replication_error e))
              (validate_envelope c second)) (\<lambda>_.
     if \<not> same_identity first second then Inr ()
     else bindR (canonical_digest c first) (\<lambda>first_digest.
          bindR (canonical_digest c second) (\<lambda>second_digest.
          if first_digest = second_digest then Inr () else Inl IdentityCollision))))"

section \<open>What a valid envelope is\<close>

lemma find_control_None: "find_control pos s = None \<longleftrightarrow> (\<forall>ch \<in> set s. 32 \<le> code ch \<and> code ch \<noteq> 127)"
  by (induction s arbitrary: pos) auto

lemma check_control_ok:
  "check_control f = Inr () \<longleftrightarrow> (\<forall>ch \<in> set (snd f). 32 \<le> code ch \<and> code ch \<noteq> 127)"
  proof (cases "find_control 0 (snd f)")
  case None
  then show ?thesis using find_control_None [of 0 "snd f"] by (simp add: check_control_def)
next
  case (Some x)
  then show ?thesis
    using find_control_None [of 0 "snd f"] by (auto simp: check_control_def split: prod.splits)
qed

lemma check_limit_ok: "check_limit (n, s, m) = Inr () \<longleftrightarrow> length s \<le> m"
  by (auto simp: check_limit_def fail_if_eq)

text \<open>Every text field is nonblank, printable and within its limit.\<close>

definition text_fields_ok :: "MemoryMutationEnvelopeV1 \<Rightarrow> bool" where
  "text_fields_ok e \<longleftrightarrow> list_all (\<lambda>(n, s, m).
      trim s \<noteq> [] \<and> list_all (\<lambda>ch. 32 \<le> code ch \<and> code ch \<noteq> 127) s \<and> length s \<le> m)
    (byte_limits e)"

definition payload_ok :: "crypto \<Rightarrow> MemoryMutationEnvelopeV1 \<Rightarrow> bool" where
  "payload_ok c e \<longleftrightarrow>
     0 < length (env_canonical_payload e) \<and> length (env_canonical_payload e) \<le> 1048576 \<and>
     unat (env_payload_length e) = length (env_canonical_payload e) \<and>
     env_payload_digest e = sha256 c (env_canonical_payload e)"

definition signature_ok :: "crypto \<Rightarrow> MemoryMutationEnvelopeV1 \<Rightarrow> bool" where
  "signature_ok c e \<longleftrightarrow>
     may_sign (env_signer_role e) (env_artifact_kind e) \<and>
     ed_key_from_bytes c (env_signer_public_key e) = Inr () \<and>
     ed_verify c (env_signer_public_key e)
       (SIGNATURE_DOMAIN_TAG @ concat (preimage_fields e)) (env_signature e) = Inr ()"

lemma text_fields_ok_fits:
  assumes "text_fields_ok e" "length (env_authorization_snapshot_id e) = 16"
  shows "preimage_fits e"
  using assms by (simp add: text_fields_ok_def byte_limits_def preimage_fits_def fits_u32_def)

lemma validate_header_ok: "validate_header e = Inr () \<longleftrightarrow> env_protocol_version e = 1"
  by (simp add: validate_header_def fail_if_eq result_simps)

lemma validate_text_limits_ok:
  "validate_text e = Inr () \<and> validate_limits e = Inr () \<longleftrightarrow>
     text_fields_ok e \<and> 0 < length (env_canonical_payload e) \<and>
     length (env_canonical_payload e) \<le> 1048576 \<and> env_valid_from e \<le> env_valid_to e"
  by (auto simp: validate_text_def validate_limits_def result_simps
      check_control_ok check_limit_ok required_fields_def byte_limits_def text_fields_ok_def
      MAX_PAYLOAD_LEN_def not_less list_all_iff)

lemma payload_length_eq:
  "length bs \<le> 1048576 \<Longrightarrow> n = of_nat (length bs) \<longleftrightarrow> unat (n :: u64) = length bs"
  by (auto simp: word_unat_eq_iff unat_of_nat)

lemma validate_payload_ok:
  "length (env_canonical_payload e) \<le> 1048576 \<Longrightarrow>
   validate_payload c e = Inr () \<longleftrightarrow>
     unat (env_payload_length e) = length (env_canonical_payload e) \<and>
     env_payload_digest e = sha256 c (env_canonical_payload e) \<and>
     length (env_authorization_snapshot_id e) = 16 \<and>
     length (env_signer_public_key e) = 32 \<and> length (env_signature e) = 64"
  by (auto simp: validate_payload_def Let_def result_simps payload_length_eq)

lemma validate_signature_ok:
  "preimage_fits e \<Longrightarrow> validate_signature c e = Inr () \<longleftrightarrow> signature_ok c e"
  by (auto simp: validate_signature_def result_simps signature_ok_def
      signing_preimage_eq)

text \<open>
  C19. Exactly which envelopes \<open>validate_envelope\<close> accepts: protocol version 1; nine text
  fields, nonblank, free of control bytes and within their limits; a payload of 1 byte to 1 MiB
  with its declared length and digest; an ordered validity interval; a 16-byte snapshot id, a
  32-byte key and a 64-byte signature; a role that may sign the artifact; and an Ed25519
  signature of the domain-separated preimage.
\<close>

theorem validate_envelope_spec:
  "validate_envelope c e = Inr () \<longleftrightarrow>
     env_protocol_version e = 1 \<and> text_fields_ok e \<and> payload_ok c e \<and>
     env_valid_from e \<le> env_valid_to e \<and>
     length (env_authorization_snapshot_id e) = 16 \<and>
     length (env_signer_public_key e) = 32 \<and> length (env_signature e) = 64 \<and>
     signature_ok c e"
  using validate_payload_ok [of e c] validate_signature_ok [of e c] text_fields_ok_fits [of e]
    validate_text_limits_ok [of e]
  by (auto simp: validate_envelope_def result_simps validate_header_ok payload_ok_def)

text \<open>What the callers of a successful validation use.\<close>

lemma validate_envelope_okD:
  assumes "validate_envelope c e = Inr ()"
  shows "preimage_fits e" "payload_ok c e" "signature_ok c e"
    "length (env_signer_public_key e) = 32" "length (env_signature e) = 64"
proof -
  have parts: "validate_text e = Inr ()" "validate_limits e = Inr ()"
    "validate_payload c e = Inr ()" "validate_signature c e = Inr ()"
    using assms by (auto simp: validate_envelope_def result_simps)
  have fields: "text_fields_ok e" and len: "0 < length (env_canonical_payload e)"
    "length (env_canonical_payload e) \<le> 1048576"
    using validate_text_limits_ok [of e] parts by auto
  note payload = validate_payload_ok [OF len(2), of c, THEN iffD1, OF parts(3)]
  show fits: "preimage_fits e" using text_fields_ok_fits [OF fields] payload by simp
  show "payload_ok c e" using len payload by (simp add: payload_ok_def)
  show "signature_ok c e" using validate_signature_ok [OF fits] parts(4) by simp
  show "length (env_signer_public_key e) = 32" "length (env_signature e) = 64"
    using payload by auto
qed

text \<open>
  A fork is always detected: when the collision check passes on two envelopes that share an
  identity scope (operation, idempotency key or stream position), both carry valid signatures
  and they agree on every field, the payload included, unless SHA-256 collides on the two
  encodings or on the two payloads. Only the embedded key and signature may differ.
\<close>

theorem identity_collision_detects_forks:
  assumes "envelope_wf a" "envelope_wf b"
    and "no_collision c (DIGEST_DOMAIN_TAG @ concat (preimage_fields a))
                        (DIGEST_DOMAIN_TAG @ concat (preimage_fields b))"
    and "no_collision c (env_canonical_payload a) (env_canonical_payload b)"
    and "same_identity a b" "validate_identity_collision c a b = Inr ()"
  shows "signature_ok c a \<and> signature_ok c b \<and>
     a\<lparr>env_signer_public_key := [], env_signature := []\<rparr> =
     b\<lparr>env_signer_public_key := [], env_signature := []\<rparr>"
proof -
  have va: "validate_envelope c a = Inr ()" and vb: "validate_envelope c b = Inr ()"
    and eq: "canonical_digest c a = canonical_digest c b"
    using assms(5,6)
    by (auto simp: validate_identity_collision_def result_simps split: if_splits)
  note a = validate_envelope_okD [OF va] and b = validate_envelope_okD [OF vb]
  have "canonical_digest c a = Inr (sha256 c (DIGEST_DOMAIN_TAG @ concat (preimage_fields a)))"
    "canonical_digest c b = Inr (sha256 c (DIGEST_DOMAIN_TAG @ concat (preimage_fields b)))"
    using a(1) b(1) by (simp_all add: canonical_digest_eq)
  with eq assms(3) have "concat (preimage_fields a) = concat (preimage_fields b)"
    by (simp add: no_collision_def)
  then have signed: "signed_part a = signed_part b"
    using preimage_fields_inj [of a b "[]" "[]"] assms(1,2) a(1) b(1) by simp
  have "env_payload_digest (signed_part a) = env_payload_digest (signed_part b)"
    by (simp only: signed)
  with a(2) b(2) assms(4) have payload: "env_canonical_payload a = env_canonical_payload b"
    by (auto simp: payload_ok_def no_collision_def signed_part_def)
  have "x\<lparr>env_signer_public_key := [], env_signature := []\<rparr> =
      (signed_part x)\<lparr>env_canonical_payload := env_canonical_payload x\<rparr>"
    for x :: MemoryMutationEnvelopeV1
    by (simp add: signed_part_def)
  with a(3) b(3) payload signed show ?thesis by simp
qed

text \<open>Two valid envelopes of one operation, signed with different keys.\<close>

definition example_envelope :: "byte list \<Rightarrow> MemoryMutationEnvelopeV1" where
  "example_envelope sk =
     (let e = test_fixture\<lparr>env_payload_digest := toy_hash (as_bytes ''payload''),
                env_signer_public_key := toy_hash sk\<rparr>
      in e\<lparr>env_signature := toy_hash sk @ toy_hash (SIGNATURE_DOMAIN_TAG @ concat (preimage_fields e))\<rparr>)"

lemma example_fields: "preimage_fields (example_envelope sk) =
    preimage_fields (test_fixture\<lparr>env_payload_digest := toy_hash (as_bytes ''payload'')\<rparr>)"
  by (simp add: example_envelope_def preimage_fields_def Let_def)

lemma example_envelope_wf: "envelope_wf (example_envelope sk)"
  by (simp add: envelope_wf_def example_envelope_def Let_def test_fixture_def)

lemma example_text_ok: "text_fields_ok (example_envelope sk)"
  by (simp add: example_envelope_def Let_def test_fixture_def text_fields_ok_def byte_limits_def
      trim_printable)

lemma example_envelope_valid: "validate_envelope toy_crypto (example_envelope sk) = Inr ()"
proof -
  let ?e = "example_envelope sk"
  have header: "validate_header ?e = Inr ()"
    by (simp add: validate_header_ok example_envelope_def Let_def test_fixture_def)
  have len: "length (env_canonical_payload ?e) = 7"
    by (simp add: example_envelope_def Let_def test_fixture_def)
  have fields: "validate_text ?e = Inr () \<and> validate_limits ?e = Inr ()"
    by (subst validate_text_limits_ok)
      (simp add: example_text_ok len, simp add: example_envelope_def Let_def test_fixture_def)
  have payload: "validate_payload toy_crypto ?e = Inr ()"
    by (subst validate_payload_ok)
      (simp_all add: example_envelope_def Let_def test_fixture_def toy_crypto_def)
  have fits: "preimage_fits ?e"
    by (rule text_fields_ok_fits [OF example_text_ok])
      (simp add: example_envelope_def Let_def test_fixture_def)
  have "validate_signature toy_crypto ?e = Inr ()"
    unfolding validate_signature_ok [OF fits] signature_ok_def example_fields
    by (simp add: toy_crypto_def example_envelope_def Let_def test_fixture_def preimage_fields_def)
  with header fields payload show ?thesis
    by (simp add: validate_envelope_def)
qed

theorem identity_collision_detects_forks_witness:
  "signature_ok toy_crypto (example_envelope [1]) \<and> signature_ok toy_crypto (example_envelope [2]) \<and>
   (example_envelope [1])\<lparr>env_signer_public_key := [], env_signature := []\<rparr> =
   (example_envelope [2])\<lparr>env_signer_public_key := [], env_signature := []\<rparr>"
proof (rule identity_collision_detects_forks)
  show "envelope_wf (example_envelope [1])" "envelope_wf (example_envelope [2])"
    by (rule example_envelope_wf)+
  show "no_collision toy_crypto
      (DIGEST_DOMAIN_TAG @ concat (preimage_fields (example_envelope [1])))
      (DIGEST_DOMAIN_TAG @ concat (preimage_fields (example_envelope [2])))"
    by (simp add: example_fields no_collision_def)
  show "no_collision toy_crypto (env_canonical_payload (example_envelope [1]))
      (env_canonical_payload (example_envelope [2]))"
    by (simp add: no_collision_def example_envelope_def Let_def)
  show same: "same_identity (example_envelope [1]) (example_envelope [2])"
    by (simp add: same_identity_def example_envelope_def Let_def)
  have "canonical_digest toy_crypto (example_envelope [1]) =
      canonical_digest toy_crypto (example_envelope [2])"
    using validate_envelope_okD(1) [OF example_envelope_valid]
    by (simp add: canonical_digest_eq [THEN iffD2] example_fields)
  moreover have "canonical_digest toy_crypto (example_envelope sk) =
      Inr (sha256 toy_crypto (DIGEST_DOMAIN_TAG @ concat (preimage_fields (example_envelope sk))))" for sk
    using validate_envelope_okD(1) [OF example_envelope_valid] by (simp add: canonical_digest_eq)
  ultimately show "validate_identity_collision toy_crypto (example_envelope [1])
      (example_envelope [2]) = Inr ()"
    using same example_envelope_valid
    by (simp add: validate_identity_collision_def)
qed

end
