(* ===== verification/Replication_Keys.thy ===== *)
theory Replication_Keys
  imports Replication_Validate
begin

text \<open>
  The trusted-key registry and the admission of envelopes (\<open>src/replication/trusted_key.rs\<close>).
  The registry is the list of admitted records in admission order; it is a \<open>keyed_table\<close>
  under (principal, key version).
\<close>

section \<open>Records and registry\<close>

datatype AllowedArtifacts = Single ArtifactKind | RecoveryBootstrapAndPromotion

text \<open>\<open>artifact as u8\<close> is the discriminant, counted from 0.\<close>

fun artifact_as_u8 :: "ArtifactKind \<Rightarrow> u8" where
  "artifact_as_u8 Mutation = 0"
| "artifact_as_u8 Promotion = 1"
| "artifact_as_u8 Bootstrap = 2"
| "artifact_as_u8 Ack = 3"
| "artifact_as_u8 Grant = 4"
| "artifact_as_u8 Proposal = 5"
| "artifact_as_u8 RoutingReceipt = 6"

fun allows :: "AllowedArtifacts \<Rightarrow> ArtifactKind \<Rightarrow> bool" where
  "allows (Single allowed) artifact \<longleftrightarrow> artifact_as_u8 allowed = artifact_as_u8 artifact"
| "allows RecoveryBootstrapAndPromotion artifact \<longleftrightarrow> artifact = Bootstrap \<or> artifact = Promotion"

record TrustedKeyRecord =
  tk_signer_principal_id :: string
  tk_signer_key_version :: u64
  tk_public_key :: "byte list"
  tk_signer_role :: SignerRole
  tk_allowed_artifacts :: AllowedArtifacts
  tk_activated_at :: u64
  tk_cutoff_at :: u64
  tk_revoked :: bool
  tk_home_device_id :: string
  tk_store_id :: string
  tk_namespace :: string

record TrustedKeyRegistry =
  reg_keys :: "TrustedKeyRecord list"

definition registry_new :: TrustedKeyRegistry where
  "registry_new = \<lparr> reg_keys = [] \<rparr>"

definition registry_lookup ::
    "TrustedKeyRegistry \<Rightarrow> string \<Rightarrow> u64 \<Rightarrow> TrustedKeyRecord option" where
  "registry_lookup reg principal_id key_version =
     find (\<lambda>k. tk_signer_principal_id k = principal_id \<and> tk_signer_key_version k = key_version)
       (reg_keys reg)"

definition try_admit ::
    "TrustedKeyRegistry \<Rightarrow> TrustedKeyRecord \<Rightarrow> ReplicationError + TrustedKeyRegistry" where
  "try_admit reg record =
     (if registry_lookup reg (tk_signer_principal_id record) (tk_signer_key_version record) \<noteq> None
      then Inl (DuplicateTrustedKey (tk_signer_principal_id record) (tk_signer_key_version record))
      else Inr (reg\<lparr>reg_keys := reg_keys reg @ [record]\<rparr>))"

definition registry_admit ::
    "TrustedKeyRegistry \<Rightarrow> TrustedKeyRecord \<Rightarrow> ReplicationError + TrustedKeyRegistry" where
  "registry_admit reg record = try_admit reg record"

section \<open>Validation against the registry\<close>

definition scope_check ::
    "MemoryMutationEnvelopeV1 \<Rightarrow> string \<Rightarrow> string \<Rightarrow> string \<Rightarrow> ReplicationError + unit" where
  "scope_check e field envelope_value key_scope =
     fail_if (envelope_value \<noteq> key_scope)
       (KeyScopeMismatch (env_signer_principal_id e) (env_signer_key_version e) field
          envelope_value key_scope)"

definition validate_trusted_key ::
    "MemoryMutationEnvelopeV1 \<Rightarrow> TrustedKeyRegistry \<Rightarrow> ReplicationError + unit" where
  "validate_trusted_key e reg =
     bindR (ok_or (SignerNotAdmitted (env_signer_principal_id e) (env_signer_key_version e))
              (registry_lookup reg (env_signer_principal_id e) (env_signer_key_version e)))
     (\<lambda>record. checks
       [fail_if (tk_public_key record \<noteq> env_signer_public_key e)
          (KeyMismatch (env_signer_principal_id e) (env_signer_key_version e)),
        fail_if (tk_signer_role record \<noteq> env_signer_role e)
          (RoleMismatch (tk_signer_role record) (env_signer_role e)),
        fail_if (\<not> allows (tk_allowed_artifacts record) (env_artifact_kind e))
          (ArtifactPermissionMismatch (env_artifact_kind e) (env_artifact_kind e)),
        fail_if (tk_revoked record)
          (KeyRevoked (env_signer_principal_id e) (env_signer_key_version e)),
        fail_if (env_observed_at e < tk_activated_at record \<or>
                 env_observed_at e > tk_cutoff_at record)
          (KeyLifecycleOutsideWindow (env_signer_principal_id e) (env_signer_key_version e)
             (env_observed_at e) (tk_activated_at record) (tk_cutoff_at record)),
        scope_check e ''home_device_id'' (env_home_device_id e) (tk_home_device_id record),
        scope_check e ''store_id'' (env_store_id e) (tk_store_id record),
        scope_check e ''namespace'' (env_namespace e) (tk_namespace record)])"

definition validate_admitted_envelope ::
    "crypto \<Rightarrow> MemoryMutationEnvelopeV1 \<Rightarrow> TrustedKeyRegistry \<Rightarrow> ReplicationError + unit" where
  "validate_admitted_envelope c e reg =
     bindR (validate_envelope c e) (\<lambda>_. validate_trusted_key e reg)"

section \<open>The registry is a keyed table\<close>

definition record_key :: "TrustedKeyRecord \<Rightarrow> string \<times> u64" where
  "record_key k = (tk_signer_principal_id k, tk_signer_key_version k)"

definition lookup_key :: "TrustedKeyRegistry \<Rightarrow> string \<times> u64 \<Rightarrow> TrustedKeyRecord option" where
  "lookup_key reg k = registry_lookup reg (fst k) (snd k)"

lemma registry_lookup_eq_find:
  "registry_lookup reg p v = find (\<lambda>k. record_key k = (p, v)) (reg_keys reg)"
  by (simp add: registry_lookup_def record_key_def)

lemma find_append_singleton:
  "find P (xs @ [y]) = (case find P xs of Some x \<Rightarrow> Some x | None \<Rightarrow> if P y then Some y else None)"
  by (induction xs) auto

interpretation trusted: keyed_table lookup_key registry_admit record_key
proof
  fix t r
  show "is_ok (registry_admit t r) \<longleftrightarrow> lookup_key t (record_key r) = None"
    by (simp add: registry_admit_def try_admit_def lookup_key_def record_key_def)
next
  fix t r t'
  assume ok: "registry_admit t r = Inr t'"
  then have fresh: "lookup_key t (record_key r) = None"
    and t': "t' = t\<lparr>reg_keys := reg_keys t @ [r]\<rparr>"
    by (auto simp: registry_admit_def try_admit_def lookup_key_def record_key_def split: if_splits)
  show "lookup_key t' = (lookup_key t)(record_key r \<mapsto> r)"
    using fresh
    by (auto simp: t' fun_eq_iff lookup_key_def registry_lookup_eq_find find_append_singleton
        split: option.splits)
qed

section \<open>What admission means\<close>

lemma artifact_as_u8_inj [simp]: "artifact_as_u8 a = artifact_as_u8 b \<longleftrightarrow> a = b"
  by (cases a; cases b) simp_all

text \<open>An admitted key record authorises an envelope.\<close>

definition key_authorises :: "TrustedKeyRecord \<Rightarrow> MemoryMutationEnvelopeV1 \<Rightarrow> bool" where
  "key_authorises k e \<longleftrightarrow>
     tk_public_key k = env_signer_public_key e \<and> tk_signer_role k = env_signer_role e \<and>
     (case tk_allowed_artifacts k of
        Single a \<Rightarrow> env_artifact_kind e = a
      | RecoveryBootstrapAndPromotion \<Rightarrow> env_artifact_kind e \<in> {Bootstrap, Promotion}) \<and>
     \<not> tk_revoked k \<and>
     unat (env_observed_at e) \<in> {unat (tk_activated_at k) .. unat (tk_cutoff_at k)} \<and>
     tk_home_device_id k = env_home_device_id e \<and> tk_store_id k = env_store_id e \<and>
     tk_namespace k = env_namespace e"

lemma allows_iff:
  "allows p a \<longleftrightarrow> (case p of Single b \<Rightarrow> a = b
     | RecoveryBootstrapAndPromotion \<Rightarrow> a \<in> {Bootstrap, Promotion})"
  by (cases p) auto

lemma validate_trusted_key_ok:
  "validate_trusted_key e reg = Inr () \<longleftrightarrow>
     (\<exists>k. registry_lookup reg (env_signer_principal_id e) (env_signer_key_version e) = Some k \<and>
          key_authorises k e)"
  by (auto simp: validate_trusted_key_def result_simps scope_check_def key_authorises_def
      allows_iff [symmetric] not_less word_le_nat_alt)

lemma registry_lookup_mem:
  "registry_lookup reg p v = Some k \<Longrightarrow>
     k \<in> set (reg_keys reg) \<and> tk_signer_principal_id k = p \<and> tk_signer_key_version k = v"
  by (auto simp: registry_lookup_def find_Some_iff)

text \<open>
  C21. Nothing is admitted without authority: an envelope passes the admission boundary only if
  its signature verifies under a key that an operator put into the registry for this principal
  and version, unrevoked, inside its lifecycle window, for this role and artifact and for this
  device, store and namespace.
\<close>

theorem admitted_envelope_is_authorised:
  assumes "validate_admitted_envelope c e reg = Inr ()"
  shows "\<exists>k \<in> set (reg_keys reg).
     record_key k = (env_signer_principal_id e, env_signer_key_version e) \<and>
     key_authorises k e \<and> may_sign (tk_signer_role k) (env_artifact_kind e) \<and>
     ed_verify c (tk_public_key k) (SIGNATURE_DOMAIN_TAG @ concat (preimage_fields e))
       (env_signature e) = Inr ()"
proof -
  have valid: "validate_envelope c e = Inr ()" and key: "validate_trusted_key e reg = Inr ()"
    using assms by (auto simp: validate_admitted_envelope_def result_simps)
  from key obtain k
    where look: "registry_lookup reg (env_signer_principal_id e) (env_signer_key_version e) = Some k"
      and auth: "key_authorises k e"
    by (auto simp: validate_trusted_key_ok)
  show ?thesis
    using registry_lookup_mem [OF look] auth validate_envelope_okD(3) [OF valid]
    by (intro bexI [of _ k]) (auto simp: record_key_def key_authorises_def signature_ok_def)
qed

text \<open>An operator's record for the example envelope.\<close>

definition example_key :: "byte list \<Rightarrow> TrustedKeyRecord" where
  "example_key sk =
     \<lparr> tk_signer_principal_id = ''operator-1'', tk_signer_key_version = 1,
       tk_public_key = toy_hash sk, tk_signer_role = DeviceWriter,
       tk_allowed_artifacts = Single Mutation, tk_activated_at = 0, tk_cutoff_at = 3000000,
       tk_revoked = False, tk_home_device_id = ''device-1'', tk_store_id = ''store-1'',
       tk_namespace = ''default'' \<rparr>"

lemma example_key_trusted:
  "validate_trusted_key (example_envelope sk) \<lparr>reg_keys = [example_key sk]\<rparr> = Inr ()"
  by (simp add: validate_trusted_key_def registry_lookup_def example_key_def example_envelope_def
      Let_def test_fixture_def scope_check_def)

theorem admitted_envelope_is_authorised_witness:
  "\<exists>k \<in> set [example_key [1]].
     record_key k = (env_signer_principal_id (example_envelope [1]),
                     env_signer_key_version (example_envelope [1])) \<and>
     key_authorises k (example_envelope [1]) \<and>
     may_sign (tk_signer_role k) (env_artifact_kind (example_envelope [1])) \<and>
     ed_verify toy_crypto (tk_public_key k)
       (SIGNATURE_DOMAIN_TAG @ concat (preimage_fields (example_envelope [1])))
       (env_signature (example_envelope [1])) = Inr ()"
  using admitted_envelope_is_authorised
    [of toy_crypto "example_envelope [1]" "\<lparr>reg_keys = [example_key [1]]\<rparr>"]
  by (simp add: validate_admitted_envelope_def example_envelope_valid example_key_trusted)

text \<open>
  Trust is append-only: once a key of a principal and version is admitted, no later batch of
  admissions changes the verdict on an envelope signed with it, and a second record for the same
  principal and version is refused.
\<close>

theorem registry_verdict_stable:
  assumes "lookup_key reg (env_signer_principal_id e, env_signer_key_version e) = Some k"
    and "insert_all registry_admit reg ks = Inr reg'"
  shows "validate_trusted_key e reg' = validate_trusted_key e reg \<and>
     \<not> is_ok (registry_admit reg' (k'\<lparr>tk_signer_principal_id := env_signer_principal_id e,
                                    tk_signer_key_version := env_signer_key_version e\<rparr>))"
  using assms(1) trusted.lookup_stable_all [OF assms]
  by (simp add: validate_trusted_key_def lookup_key_def trusted.admit_ok_iff record_key_def)

theorem registry_verdict_stable_witness:
  "validate_trusted_key (example_envelope [1])
      \<lparr>reg_keys = [example_key [1], (example_key [2])\<lparr>tk_signer_key_version := 2\<rparr>]\<rparr> =
   validate_trusted_key (example_envelope [1]) \<lparr>reg_keys = [example_key [1]]\<rparr> \<and>
   \<not> is_ok (registry_admit
      \<lparr>reg_keys = [example_key [1], (example_key [2])\<lparr>tk_signer_key_version := 2\<rparr>]\<rparr>
      ((example_key [3])\<lparr>tk_signer_principal_id := env_signer_principal_id (example_envelope [1]),
           tk_signer_key_version := env_signer_key_version (example_envelope [1])\<rparr>))"
  by (rule registry_verdict_stable
      [where k = "example_key [1]" and ks = "[(example_key [2])\<lparr>tk_signer_key_version := 2\<rparr>]"])
    (simp_all add: lookup_key_def registry_lookup_def registry_admit_def try_admit_def
      example_key_def example_envelope_def Let_def test_fixture_def)

end
