(* ===== verification/Replication_State.thy ===== *)
theory Replication_State
  imports Replication_Keys
begin

text \<open>
  The replica state machine and the watermark (\<open>src/replication/state_machine.rs\<close>).
\<close>

section \<open>Replica states\<close>

datatype ReplicaState =
    Bootstrapping
  | InstallingSnapshot
  | CatchingUp
  | Current
  | Lagging
  | OfflineUsable
  | AwaitingGap
  | GapDetected
  | Quarantined
  | Rejected
  | Retired

definition can_transition_to :: "ReplicaState \<Rightarrow> ReplicaState \<Rightarrow> bool" where
  "can_transition_to s next \<longleftrightarrow> (case s of
       Rejected \<Rightarrow> next = Rejected
     | Retired \<Rightarrow> next = Retired
     | Bootstrapping \<Rightarrow> next \<in> set [InstallingSnapshot, Quarantined, Rejected, Retired]
     | InstallingSnapshot \<Rightarrow> next \<in> set [CatchingUp, Quarantined, Rejected, Retired]
     | CatchingUp \<Rightarrow> next \<in> set [Current, AwaitingGap, Quarantined, Retired]
     | Current \<Rightarrow> next \<in> set [Lagging, OfflineUsable, InstallingSnapshot, Quarantined, Retired]
     | Lagging \<Rightarrow> next \<in> set [Current, AwaitingGap, InstallingSnapshot, Quarantined, Retired]
     | OfflineUsable \<Rightarrow> next \<in> set [Current, AwaitingGap, InstallingSnapshot, Quarantined, Retired]
     | AwaitingGap \<Rightarrow> next \<in> set [CatchingUp, GapDetected, Quarantined, Retired]
     | GapDetected \<Rightarrow> next \<in> set [InstallingSnapshot, Quarantined, Rejected, Retired]
     | Quarantined \<Rightarrow> next \<in> set [InstallingSnapshot, Rejected, Retired])"

text \<open>The histories of one replica, newest state first.\<close>

inductive replica_history :: "ReplicaState list \<Rightarrow> bool" where
  start: "replica_history [Bootstrapping]"
| step: "replica_history (s # h) \<Longrightarrow> can_transition_to s t \<Longrightarrow> replica_history (t # s # h)"

inductive_cases replica_historyE: "replica_history (t # s # h)"

definition terminal :: "ReplicaState \<Rightarrow> bool" where
  "terminal s \<longleftrightarrow> s = Rejected \<or> s = Retired"

lemma terminal_absorbing: "terminal s \<Longrightarrow> can_transition_to s t \<longleftrightarrow> t = s"
  by (auto simp: terminal_def can_transition_to_def)

lemma can_transition_intros:
  "can_transition_to Bootstrapping InstallingSnapshot"
  "can_transition_to InstallingSnapshot CatchingUp"
  "can_transition_to CatchingUp Current"
  "can_transition_to Lagging Current"
  "can_transition_to OfflineUsable Current"
  "can_transition_to AwaitingGap CatchingUp"
  "can_transition_to GapDetected InstallingSnapshot"
  "can_transition_to Quarantined InstallingSnapshot"
  by (simp_all add: can_transition_to_def)

text \<open>The states that serve reads have gone through a snapshot and a catch-up.\<close>

definition admitted_phase :: "ReplicaState \<Rightarrow> bool" where
  "admitted_phase s \<longleftrightarrow> s \<in> {Current, Lagging, OfflineUsable}"

lemma subseq_second: "subseq [a, b] h \<Longrightarrow> b \<in> set h"
  by (induction h) (auto simp: subseq_singleton_left split: if_splits)

lemma history_phases:
  "replica_history h \<Longrightarrow>
     (hd h = CatchingUp \<longrightarrow> InstallingSnapshot \<in> set h) \<and>
     (hd h = AwaitingGap \<or> admitted_phase (hd h) \<longrightarrow> subseq [CatchingUp, InstallingSnapshot] h)"
proof (induction rule: replica_history.induct)
  case start
  then show ?case by (simp add: admitted_phase_def)
next
  case (step s h t)
  from step.hyps(2) step.IH show ?case
    by (cases s; cases t)
      (simp_all add: can_transition_to_def admitted_phase_def subseq_singleton_left subseq_second)
qed

lemma terminal_only_head:
  "replica_history h \<Longrightarrow> \<not> terminal (hd h) \<Longrightarrow> \<forall>s \<in> set h. \<not> terminal s"
proof (induction rule: replica_history.induct)
  case (step s h t)
  then have "\<not> terminal s" using terminal_absorbing [of s t] by auto
  with step show ?case by simp
qed simp

text \<open>
  A replica that serves data has installed a snapshot and caught up: in every history of
  legal transitions from \<open>Bootstrapping\<close> that ends in \<open>Current\<close>, \<open>Lagging\<close> or
  \<open>OfflineUsable\<close>, a \<open>CatchingUp\<close> comes after an \<open>InstallingSnapshot\<close>, and no terminal
  state occurs anywhere.
\<close>

theorem serving_replica_was_bootstrapped:
  assumes "replica_history (s # h)" "admitted_phase s"
  shows "subseq [CatchingUp, InstallingSnapshot] (s # h) \<and> (\<forall>t \<in> set (s # h). \<not> terminal t)"
proof
  show "subseq [CatchingUp, InstallingSnapshot] (s # h)"
    using history_phases [OF assms(1)] assms(2) by (simp only: list.sel simp_thms)
  have "\<not> terminal s" using assms(2) by (auto simp: admitted_phase_def terminal_def)
  then show "\<forall>t \<in> set (s # h). \<not> terminal t"
    by (intro terminal_only_head [OF assms(1)]) simp
qed

theorem serving_replica_was_bootstrapped_witness:
  "subseq [CatchingUp, InstallingSnapshot]
     [Lagging, Current, CatchingUp, InstallingSnapshot, Bootstrapping] \<and>
   \<not> terminal InstallingSnapshot"
proof -
  have "replica_history [Lagging, Current, CatchingUp, InstallingSnapshot, Bootstrapping]"
    by (auto intro!: replica_history.intros simp: can_transition_to_def)
  moreover have "admitted_phase Lagging" by (simp add: admitted_phase_def)
  ultimately show ?thesis using serving_replica_was_bootstrapped by force
qed

lemma reaches_current:
  assumes "\<not> terminal s"
  shows "can_transition_to\<^sup>*\<^sup>* s Current"
proof -
  note hop = converse_rtranclp_into_rtranclp [of can_transition_to]
  have catching: "can_transition_to\<^sup>*\<^sup>* CatchingUp Current"
    by (rule hop [OF can_transition_intros(3) rtranclp.rtrancl_refl])
  have installing: "can_transition_to\<^sup>*\<^sup>* InstallingSnapshot Current"
    by (rule hop [OF can_transition_intros(2) catching])
  show ?thesis
  proof (cases s)
    case Bootstrapping
    show ?thesis unfolding Bootstrapping by (rule hop [OF can_transition_intros(1) installing])
  next
    case InstallingSnapshot
    show ?thesis unfolding InstallingSnapshot by (rule installing)
  next
    case CatchingUp
    show ?thesis unfolding CatchingUp by (rule catching)
  next
    case Current
    show ?thesis unfolding Current by (rule rtranclp.rtrancl_refl)
  next
    case Lagging
    show ?thesis unfolding Lagging by (rule hop [OF can_transition_intros(4) rtranclp.rtrancl_refl])
  next
    case OfflineUsable
    show ?thesis unfolding OfflineUsable by (rule hop [OF can_transition_intros(5) rtranclp.rtrancl_refl])
  next
    case AwaitingGap
    show ?thesis unfolding AwaitingGap by (rule hop [OF can_transition_intros(6) catching])
  next
    case GapDetected
    show ?thesis unfolding GapDetected by (rule hop [OF can_transition_intros(7) installing])
  next
    case Quarantined
    show ?thesis unfolding Quarantined by (rule hop [OF can_transition_intros(8) installing])
  qed (use assms in \<open>simp_all add: terminal_def\<close>)
qed

lemma terminal_reaches: "can_transition_to\<^sup>*\<^sup>* s t \<Longrightarrow> terminal s \<Longrightarrow> t = s"
  by (induction rule: rtranclp_induct) (auto simp: terminal_absorbing)

text \<open>
  C40. Recovery: from exactly the nonterminal states can a replica become \<open>Current\<close> again by
  legal transitions; \<open>Rejected\<close> and \<open>Retired\<close> never can.
\<close>

theorem recovers_iff_not_terminal:
  "can_transition_to\<^sup>*\<^sup>* s Current \<longleftrightarrow> s \<noteq> Rejected \<and> s \<noteq> Retired"
  using reaches_current [of s] terminal_reaches [of s Current] by (auto simp: terminal_def)

section \<open>The watermark\<close>

record ReplicaWatermarkV1 =
  wm_sequence :: u64
  wm_head_digest :: "byte list"

definition watermark_new :: "u64 \<Rightarrow> byte list \<Rightarrow> ReplicaWatermarkV1" where
  "watermark_new sequence head_digest =
     \<lparr> wm_sequence = sequence, wm_head_digest = head_digest \<rparr>"

definition accepts_next :: "ReplicaWatermarkV1 \<Rightarrow> u64 \<Rightarrow> byte list \<Rightarrow> bool" where
  "accepts_next w sequence previous =
     (if sequence \<le> wm_sequence w then False
      else case u64_checked_add (wm_sequence w) 1 of
             None \<Rightarrow> False
           | Some next \<Rightarrow> if sequence = next then previous = wm_head_digest w else False)"

text \<open>
  A replica that follows a stream of hops \<open>(sequence, previous digest, digest)\<close>: each accepted
  hop becomes the new watermark, the first refused hop stops it.
\<close>

fun follow :: "ReplicaWatermarkV1 \<Rightarrow> (u64 \<times> byte list \<times> byte list) list \<Rightarrow> ReplicaWatermarkV1 option" where
  "follow w [] = Some w"
| "follow w ((sequence, previous, digest) # hops) =
     (if accepts_next w sequence previous then follow (watermark_new sequence digest) hops
      else None)"

lemma accepts_next_iff:
  "accepts_next w sequence previous \<longleftrightarrow>
     unat sequence = unat (wm_sequence w) + 1 \<and> previous = wm_head_digest w"
proof -
  have "unat sequence < 2 ^ 64" using unsigned_less [of sequence] by simp
  then show ?thesis
    by (auto simp: accepts_next_def u64_checked_add_def word_le_nat_alt unat_word_ariths
        word_unat_eq_iff)
qed

lemma follow_sequences:
  "follow w hops = Some w' \<Longrightarrow>
     map (unat \<circ> fst) hops = [Suc (unat (wm_sequence w)) ..< Suc (unat (wm_sequence w')) ] \<and>
     map (fst \<circ> snd) hops = butlast (wm_head_digest w # map (snd \<circ> snd) hops) \<and>
     wm_head_digest w' = last (wm_head_digest w # map (snd \<circ> snd) hops) \<and>
     unat (wm_sequence w) \<le> unat (wm_sequence w')"
proof (induction w hops rule: follow.induct)
  case (2 w sequence previous digest hops)
  then have ok: "accepts_next w sequence previous"
    and rest: "follow (watermark_new sequence digest) hops = Some w'"
    by (auto split: if_splits)
  note IH = "2.IH" [OF ok rest]
  from ok IH show ?case
    by (auto simp: accepts_next_iff watermark_new_def upt_conv_Cons)
qed simp

text \<open>
  A followed stream is contiguous and hash-chained and never wraps: the accepted sequence
  numbers are exactly the successors of the old watermark up to the new one, as unbounded
  numbers; each hop names the digest of the hop before; the final head is the last digest.
\<close>

theorem watermark_contiguous_chain:
  assumes "follow w hops = Some w'"
  shows "map (unat \<circ> fst) hops = [Suc (unat (wm_sequence w)) ..< Suc (unat (wm_sequence w'))] \<and>
     map (fst \<circ> snd) hops = butlast (wm_head_digest w # map (snd \<circ> snd) hops) \<and>
     wm_head_digest w' = last (wm_head_digest w # map (snd \<circ> snd) hops)"
  using follow_sequences [OF assms] by blast

theorem watermark_contiguous_chain_witness:
  "map (unat \<circ> fst) [(8 :: u64, [1 :: byte], [2 :: byte]), (9, [2], [3])] = [Suc 7 ..< Suc 9] \<and>
   map (fst \<circ> snd) [(8 :: u64, [1 :: byte], [2 :: byte]), (9, [2], [3])] =
     butlast [[1], [2], [3]] \<and> [3 :: byte] = last [[1], [2], [3]]"
proof -
  have "follow (watermark_new 7 [1]) [(8, [1], [2]), (9, [2], [3])] = Some (watermark_new 9 [3])"
    by (simp add: accepts_next_iff watermark_new_def)
  from watermark_contiguous_chain [OF this] show ?thesis
    by (simp add: watermark_new_def)
qed

end
