(* ===== verification/Fact_Create_Wire.thy ===== *)
theory Fact_Create_Wire
  imports Replication_State
begin

text \<open>
  The signed transport of fact-create journal entries (\<open>src/replication/fact_create.rs\<close>), and
  \<open>signed_batch\<close>, the contract that it shares with the fact-supersede transport.

  \<open>JournalEntry\<close>, \<open>FactCreateReplicaEnvelopeV1\<close> and the validator
  \<open>validate_fact_create_replica_envelope\<close> belong to the semantic-memory crate: the two structs
  are records of the fields that the code reads and writes, the validator is an argument. The
  decoder of \<open>serde_json\<close> is an argument too.
\<close>

section \<open>The contract of a signed batch\<close>

text \<open>
  A batch type with a structural check, a check of the enclosed journal records by their owner,
  a signing preimage that covers neither the key nor the signature, and \<open>sign\<close>/\<open>validate\<close>.
\<close>

locale signed_batch =
  fixes tag :: "byte list"
    and wf :: "'b \<Rightarrow> bool"
    and structural :: "'b \<Rightarrow> ReplicationError + unit"
    and owner :: "'v \<Rightarrow> 'b \<Rightarrow> ReplicationError + unit"
    and preimage :: "'b \<Rightarrow> ReplicationError + byte list"
    and public_key :: "'b \<Rightarrow> byte list"
    and signature :: "'b \<Rightarrow> byte list"
    and unsigned :: "'b \<Rightarrow> 'b"
    and sign :: "crypto \<Rightarrow> byte list \<Rightarrow> 'b \<Rightarrow> ReplicationError + 'b"
    and validate :: "crypto \<Rightarrow> 'v \<Rightarrow> 'b \<Rightarrow> ReplicationError + unit"
  assumes validate_ok_iff: "validate c v b = Inr () \<longleftrightarrow>
      structural b = Inr () \<and> owner v b = Inr () \<and> ed_key_from_bytes c (public_key b) = Inr () \<and>
      (\<exists>p. preimage b = Inr p \<and> ed_verify c (public_key b) p (signature b) = Inr ())"
    and sign_ok: "sign c sk b = Inr b' \<Longrightarrow>
      structural b = Inr () \<and> unsigned b' = unsigned b \<and> public_key b' = ed_public c sk \<and>
      (\<exists>p. preimage b' = Inr p \<and> signature b' = ed_sign c sk p)"
    and checks_unsigned: "unsigned b = unsigned b' \<Longrightarrow> structural b = structural b'"
      "unsigned b = unsigned b' \<Longrightarrow> owner v b = owner v b'"
    and preimage_tagged: "preimage b = Inr p \<Longrightarrow> \<exists>rest. p = tag @ rest"
    and preimage_injective: "wf b \<Longrightarrow> wf b' \<Longrightarrow> structural b = Inr () \<Longrightarrow> structural b' = Inr () \<Longrightarrow>
      preimage b = Inr p \<Longrightarrow> preimage b' = Inr p \<Longrightarrow> unsigned b = unsigned b'"
begin

text \<open>What is signed validates, under the owner's check of the records.\<close>

lemma sign_then_validate:
  assumes "crypto_laws c" "sign c sk b = Inr b'"
  shows "validate c v b' = Inr () \<longleftrightarrow> owner v b = Inr ()"
proof -
  obtain p where s: "structural b = Inr ()" and u: "unsigned b' = unsigned b"
    and k: "public_key b' = ed_public c sk" and p: "preimage b' = Inr p" "signature b' = ed_sign c sk p"
    using sign_ok [OF assms(2)] by blast
  have "structural b' = Inr ()" using s checks_unsigned(1) [OF u] by simp
  then show ?thesis
    using assms(1) k p checks_unsigned(2) [OF u] by (simp add: validate_ok_iff crypto_laws_def)
qed

text \<open>A signature is bound to one content: reusing it on another batch is a forgery.\<close>

lemma validated_content_unique:
  assumes "wf b" "wf b'" "validate c v b = Inr ()" "validate c w b' = Inr ()"
    and "preimage b = preimage b'"
  shows "unsigned b = unsigned b'"
  using assms preimage_injective unfolding validate_ok_iff by metis

end

section \<open>The 64-byte signature field\<close>

text \<open>
  \<open>Sig64Visitor\<close>: from a byte string, and from a sequence whose elements arrive one by one, each
  a byte or a decoding error.
\<close>

definition sig64_error :: "nat \<Rightarrow> string" where
  "sig64_error n = ''expected 64 bytes, got '' @ dec_nat n"

definition sig64_visit_bytes :: "byte list \<Rightarrow> string + byte list" where
  "sig64_visit_bytes v = (if length v \<noteq> 64 then Inl (sig64_error (length v)) else Inr v)"

fun sig64_fill :: "nat \<Rightarrow> (string + byte) list \<Rightarrow> string + (byte list \<times> (string + byte) list)" where
  "sig64_fill index rest =
     (if 64 \<le> index then Inr ([], rest)
      else case rest of
             [] \<Rightarrow> Inl (sig64_error index)
           | next # rest' \<Rightarrow> bindR next (\<lambda>b.
               bindR (sig64_fill (index + 1) rest') (\<lambda>(bs, left). Inr (b # bs, left))))"

declare sig64_fill.simps [simp del]

definition sig64_visit_seq :: "(string + byte) list \<Rightarrow> string + byte list" where
  "sig64_visit_seq elements =
     bindR (sig64_fill 0 elements) (\<lambda>(result, left).
     case left of
       [] \<Rightarrow> Inr result
     | next # _ \<Rightarrow> bindR next (\<lambda>_. Inl ''expected exactly 64 bytes''))"

lemma sig64_fill_ok:
  "index \<le> 64 \<Longrightarrow> sig64_fill index rest = Inr (bs, left) \<longleftrightarrow>
     length bs = 64 - index \<and> rest = map Inr bs @ left"
proof (induction index rest arbitrary: bs rule: sig64_fill.induct)
  case (1 index rest)
  show ?case
  proof (cases "64 \<le> index")
    case True
    with "1.prems" show ?thesis by (subst sig64_fill.simps) auto
  next
    case False
    note IH = "1.IH" [OF False]
    show ?thesis
    proof (cases rest)
      case Nil
      with False show ?thesis by (auto simp: sig64_fill.simps [of index])
    next
      case (Cons first rest')
      show ?thesis
      proof (cases first)
        case (Inl e)
        with Cons False show ?thesis
          by (cases bs) (auto simp: sig64_fill.simps [of index])
      next
        case (Inr b)
        have step: "sig64_fill (index + 1) rest' = Inr (cs, left) \<longleftrightarrow>
            length cs = 63 - index \<and> rest' = map Inr cs @ left" for cs
          using IH [OF Cons Inr, of cs] False by simp
        have "sig64_fill index rest = Inr (bs, left) \<longleftrightarrow>
            (\<exists>cs. sig64_fill (index + 1) rest' = Inr (cs, left) \<and> bs = b # cs)"
          using Cons Inr False by (subst sig64_fill.simps) (auto simp: bindR_eq_Inr)
        also have "\<dots> \<longleftrightarrow> length bs = 64 - index \<and> rest = map Inr bs @ left"
          unfolding step using Cons Inr False by (cases bs) auto
        finally show ?thesis .
      qed
    qed
  qed
qed

lemma sig64_visit_seq_ok:
  "sig64_visit_seq elements = Inr s \<longleftrightarrow> length s = 64 \<and> elements = map Inr s"
proof -
  have "sig64_visit_seq elements = Inr s \<longleftrightarrow> sig64_fill 0 elements = Inr (s, [])"
  proof (cases "sig64_fill 0 elements")
    case (Inr x)
    obtain result left where "x = (result, left)" by (cases x)
    with Inr show ?thesis
      by (cases left) (auto simp: sig64_visit_seq_def bindR_eq_Inr)
  qed (simp add: sig64_visit_seq_def)
  then show ?thesis by (simp add: sig64_fill_ok)
qed

text \<open>
  The same visitor for the envelopes of \<open>replication/types.rs\<close>, which takes 64 elements and leaves the rest
  to the end-of-sequence check of the format.
\<close>

definition envelope_sig64_visit_seq :: "(string + byte) list \<Rightarrow> string + byte list \<times> (string + byte) list" where
  "envelope_sig64_visit_seq elements = sig64_fill 0 elements"

lemma envelope_sig64_strict:
  "sig64_visit_seq elements = Inr s \<longleftrightarrow> envelope_sig64_visit_seq elements = Inr (s, [])"
  by (simp add: envelope_sig64_visit_seq_def sig64_visit_seq_ok sig64_fill_ok)

section \<open>Constants and structs\<close>

definition FACT_CREATE_TRANSPORT_PROTOCOL_VERSION :: u16 where
  "FACT_CREATE_TRANSPORT_PROTOCOL_VERSION = 1"

definition FACT_CREATE_TRANSPORT_MAX_WIRE_BYTES :: usize where
  "FACT_CREATE_TRANSPORT_MAX_WIRE_BYTES = 4194304"

definition FACT_CREATE_TRANSPORT_MAX_ENTRIES :: usize where
  "FACT_CREATE_TRANSPORT_MAX_ENTRIES = 1"

definition FACT_CREATE_TRANSPORT_SIGNATURE_DOMAIN :: "byte list" where
  "FACT_CREATE_TRANSPORT_SIGNATURE_DOMAIN =
     as_bytes (''mnemes/fact-create-batch/signature/v1'' @ [CHR 0x00])"

definition MAX_ID_BYTES :: usize where
  "MAX_ID_BYTES = 128"

definition MAX_FENCING_TOKEN_BYTES :: usize where
  "MAX_FENCING_TOKEN_BYTES = 256"

text \<open>The journal row and the receiver's envelope of semantic-memory.\<close>

record JournalEntry =
  je_sequence :: i64
  je_operation_kind :: string
  je_payload_schema :: string
  je_payload :: "byte list"
  je_payload_digest :: "byte list"
  je_predecessor_digest :: "byte list"
  je_envelope_digest :: "byte list"
  je_record_state :: string

record FactCreateReplicaEnvelopeV1 =
  fcr_home_device_id :: string
  fcr_store_id :: string
  fcr_stream_epoch :: u64
  fcr_sequence :: i64
  fcr_operation_kind :: string
  fcr_payload_schema :: string
  fcr_payload :: "byte list"
  fcr_payload_digest :: "byte list"
  fcr_predecessor_digest :: "byte list"
  fcr_envelope_digest :: "byte list"

text \<open>The names that semantic-memory gives its operation, schema and record state.\<close>

record journal_names =
  FACT_CREATE_OPERATION :: string
  FACT_CREATE_PAYLOAD_SCHEMA :: string
  VERIFIED_RECORD_STATE :: string

record FactCreateTransportEntryV1 =
  fce_sequence :: i64
  fce_payload :: "byte list"
  fce_payload_digest :: "byte list"
  fce_predecessor_digest :: "byte list"
  fce_journal_envelope_digest :: "byte list"

record SignedFactCreateBatchV1 =
  fcb_protocol_version :: u16
  fcb_batch_id :: string
  fcb_home_device_id :: string
  fcb_store_id :: string
  fcb_stream_epoch :: u64
  fcb_start_sequence :: i64
  fcb_entries :: "FactCreateTransportEntryV1 list"
  fcb_signer_principal_id :: string
  fcb_signer_role :: SignerRole
  fcb_signer_key_version :: u64
  fcb_observed_at :: u64
  fcb_fencing_token :: string
  fcb_signer_public_key :: "byte list"
  fcb_signature :: "byte list"

section \<open>Entries\<close>

definition from_journal_entry ::
    "journal_names \<Rightarrow> JournalEntry \<Rightarrow> ReplicationError + FactCreateTransportEntryV1" where
  "from_journal_entry n entry =
     (if je_operation_kind entry \<noteq> FACT_CREATE_OPERATION n \<or>
         je_payload_schema entry \<noteq> FACT_CREATE_PAYLOAD_SCHEMA n \<or>
         je_record_state entry \<noteq> VERIFIED_RECORD_STATE n
      then Inl (PreCollisionValidation
             ''journal entry is not an admitted verified fact-create record'')
      else Inr \<lparr> fce_sequence = je_sequence entry,
                 fce_payload = je_payload entry,
                 fce_payload_digest = je_payload_digest entry,
                 fce_predecessor_digest = je_predecessor_digest entry,
                 fce_journal_envelope_digest = je_envelope_digest entry \<rparr>)"

definition to_semantic_envelope ::
    "journal_names \<Rightarrow> FactCreateTransportEntryV1 \<Rightarrow> string \<Rightarrow> string \<Rightarrow> u64 \<Rightarrow>
     FactCreateReplicaEnvelopeV1" where
  "to_semantic_envelope n entry home_device_id store_id stream_epoch =
     \<lparr> fcr_home_device_id = home_device_id,
       fcr_store_id = store_id,
       fcr_stream_epoch = stream_epoch,
       fcr_sequence = fce_sequence entry,
       fcr_operation_kind = FACT_CREATE_OPERATION n,
       fcr_payload_schema = FACT_CREATE_PAYLOAD_SCHEMA n,
       fcr_payload = fce_payload entry,
       fcr_payload_digest = fce_payload_digest entry,
       fcr_predecessor_digest = fce_predecessor_digest entry,
       fcr_envelope_digest = fce_journal_envelope_digest entry \<rparr>"

section \<open>Structure\<close>

text \<open>One text field of a batch; \<open>what\<close> names the batch kind in the message.\<close>

definition check_batch_field ::
    "string \<Rightarrow> string \<times> string \<times> usize \<Rightarrow> ReplicationError + unit" where
  "check_batch_field what = (\<lambda>(field, value, max). checks
     [fail_if (value = []) (EmptyField field),
      fail_if (trim value \<noteq> value \<or> has_control value)
        (PreCollisionValidation (what @ '' batch field '' @ quoted field @
           '' must be trimmed and contain no control characters'')),
      fail_if (length value > max) (FieldExceedsMaxLength field (length value) max)])"

fun check_entry_sequences ::
    "i64 \<Rightarrow> nat \<Rightarrow> FactCreateTransportEntryV1 list \<Rightarrow> ReplicationError + unit" where
  "check_entry_sequences start offset [] = Inr ()"
| "check_entry_sequences start offset (entry # entries) =
     (let expected = i64_add start (int offset) in
      bindR (fail_if (fce_sequence entry \<noteq> expected)
        (PreCollisionValidation (''fact-create batch sequence mismatch: expected '' @
           dec_int expected @ '', got '' @ dec_int (fce_sequence entry)))) (\<lambda>_.
      check_entry_sequences start (offset + 1) entries))"

definition fact_create_fields :: "SignedFactCreateBatchV1 \<Rightarrow> (string \<times> string \<times> usize) list" where
  "fact_create_fields b =
     [(''batch_id'', fcb_batch_id b, MAX_ID_BYTES),
      (''home_device_id'', fcb_home_device_id b, MAX_ID_BYTES),
      (''store_id'', fcb_store_id b, MAX_ID_BYTES),
      (''signer_principal_id'', fcb_signer_principal_id b, MAX_ID_BYTES),
      (''fencing_token'', fcb_fencing_token b, MAX_FENCING_TOKEN_BYTES)]"

definition validate_structure :: "SignedFactCreateBatchV1 \<Rightarrow> ReplicationError + unit" where
  "validate_structure b = checks
     [fail_if (fcb_protocol_version b \<noteq> FACT_CREATE_TRANSPORT_PROTOCOL_VERSION)
        (UnsupportedProtocolVersion (fcb_protocol_version b)),
      fail_if (fcb_signer_role b \<noteq> DeviceWriter)
        (RoleArtifactMismatch (fcb_signer_role b) Mutation),
      check_all (check_batch_field ''fact-create'') (fact_create_fields b),
      fail_if (fcb_stream_epoch b = 0)
        (PreCollisionValidation ''fact-create stream_epoch must be positive''),
      fail_if (fcb_start_sequence b < 1)
        (PreCollisionValidation ''fact-create start_sequence must be positive''),
      fail_if (fcb_entries b = []) (EmptyField ''entries''),
      fail_if (length (fcb_entries b) > FACT_CREATE_TRANSPORT_MAX_ENTRIES)
        (FieldExceedsMaxLength ''entries'' (length (fcb_entries b))
           FACT_CREATE_TRANSPORT_MAX_ENTRIES),
      check_entry_sequences (fcb_start_sequence b) 0 (fcb_entries b)]"

section \<open>Preimage, signing, validation\<close>

definition fc_encode_bytes :: "byte list \<Rightarrow> byte list \<Rightarrow> string \<Rightarrow> ReplicationError + byte list" where
  "fc_encode_bytes output v field =
     (if length v < 2 ^ 32 then Inr (output @ be_u32 (of_nat (length v)) @ v)
      else Inl (FieldTooLong field (length v)))"

definition fc_encode_string :: "byte list \<Rightarrow> string \<Rightarrow> string \<Rightarrow> ReplicationError + byte list" where
  "fc_encode_string output v field = fc_encode_bytes output (as_bytes v) field"

fun encode_create_entries ::
    "byte list \<Rightarrow> FactCreateTransportEntryV1 list \<Rightarrow> ReplicationError + byte list" where
  "encode_create_entries output [] = Inr output"
| "encode_create_entries output (entry # entries) =
     bindR (fc_encode_bytes (output @ be_i64 (fce_sequence entry)) (fce_payload entry) ''payload'')
     (\<lambda>output. encode_create_entries
        (output @ fce_payload_digest entry @ fce_predecessor_digest entry @
         fce_journal_envelope_digest entry) entries)"

definition create_signing_preimage ::
    "SignedFactCreateBatchV1 \<Rightarrow> ReplicationError + byte list" where
  "create_signing_preimage b =
     (let output = FACT_CREATE_TRANSPORT_SIGNATURE_DOMAIN @ be_u16 (fcb_protocol_version b) in
      bindR (fc_encode_string output (fcb_batch_id b) ''batch_id'') (\<lambda>output.
      bindR (fc_encode_string output (fcb_home_device_id b) ''home_device_id'') (\<lambda>output.
      bindR (fc_encode_string output (fcb_store_id b) ''store_id'') (\<lambda>output.
      let output = output @ be_u64 (fcb_stream_epoch b) @ be_i64 (fcb_start_sequence b) @
                   be_u32 (of_nat (length (fcb_entries b))) in
      bindR (encode_create_entries output (fcb_entries b)) (\<lambda>output.
      bindR (fc_encode_string output (fcb_signer_principal_id b) ''signer_principal_id'') (\<lambda>output.
      let output = output @ [signer_role_as_u8 (fcb_signer_role b)] @
                   be_u64 (fcb_signer_key_version b) @ be_u64 (fcb_observed_at b) in
      fc_encode_string output (fcb_fencing_token b) ''fencing_token''))))))"

definition fact_create_batch_new ::
    "string \<Rightarrow> string \<Rightarrow> string \<Rightarrow> u64 \<Rightarrow> i64 \<Rightarrow> FactCreateTransportEntryV1 list \<Rightarrow> string \<Rightarrow> u64 \<Rightarrow> u64 \<Rightarrow>
     string \<Rightarrow> ReplicationError + SignedFactCreateBatchV1" where
  "fact_create_batch_new batch_id home_device_id store_id stream_epoch start_sequence entries
       signer_principal_id signer_key_version observed_at fencing_token =
     (let batch =
        \<lparr> fcb_protocol_version = FACT_CREATE_TRANSPORT_PROTOCOL_VERSION,
          fcb_batch_id = batch_id,
          fcb_home_device_id = home_device_id,
          fcb_store_id = store_id,
          fcb_stream_epoch = stream_epoch,
          fcb_start_sequence = start_sequence,
          fcb_entries = entries,
          fcb_signer_principal_id = signer_principal_id,
          fcb_signer_role = DeviceWriter,
          fcb_signer_key_version = signer_key_version,
          fcb_observed_at = observed_at,
          fcb_fencing_token = fencing_token,
          fcb_signer_public_key = replicate 32 0,
          fcb_signature = replicate 64 0 \<rparr>
      in bindR (validate_structure batch) (\<lambda>_. Inr batch))"

definition create_sign ::
    "crypto \<Rightarrow> byte list \<Rightarrow> SignedFactCreateBatchV1 \<Rightarrow> ReplicationError + SignedFactCreateBatchV1" where
  "create_sign c signing_key b =
     bindR (validate_structure b) (\<lambda>_.
     let b = b\<lparr>fcb_signer_public_key := ed_public c signing_key\<rparr> in
     bindR (create_signing_preimage b) (\<lambda>preimage.
     Inr (b\<lparr>fcb_signature := ed_sign c signing_key preimage\<rparr>)))"

type_synonym create_validator = "FactCreateReplicaEnvelopeV1 \<Rightarrow> string + unit"

definition validate_create_entry ::
    "journal_names \<times> create_validator \<Rightarrow> SignedFactCreateBatchV1 \<Rightarrow> FactCreateTransportEntryV1 \<Rightarrow>
     ReplicationError + unit" where
  "validate_create_entry v b entry =
     map_err (\<lambda>error. PreCollisionValidation
         (''semantic-memory fact-create validation failed at sequence '' @
          dec_int (fce_sequence entry) @ '': '' @ error))
       (snd v (to_semantic_envelope (fst v) entry (fcb_home_device_id b) (fcb_store_id b)
          (fcb_stream_epoch b)))"

definition create_validate ::
    "crypto \<Rightarrow> journal_names \<times> create_validator \<Rightarrow> SignedFactCreateBatchV1 \<Rightarrow>
     ReplicationError + unit" where
  "create_validate c v b = checks
     [validate_structure b,
      check_all (validate_create_entry v b) (fcb_entries b),
      map_err InvalidPublicKey (ed_key_from_bytes c (fcb_signer_public_key b)),
      bindR (create_signing_preimage b) (\<lambda>preimage.
        map_err SignatureVerification
          (ed_verify c (fcb_signer_public_key b) preimage (fcb_signature b)))]"

definition create_decode_json ::
    "crypto \<Rightarrow> journal_names \<times> create_validator \<Rightarrow>
     (byte list \<Rightarrow> string + SignedFactCreateBatchV1) \<Rightarrow> byte list \<Rightarrow>
     ReplicationError + SignedFactCreateBatchV1" where
  "create_decode_json c v from_slice bytes =
     bindR (fail_if (length bytes > FACT_CREATE_TRANSPORT_MAX_WIRE_BYTES)
        (FieldExceedsMaxLength ''wire_body'' (length bytes) FACT_CREATE_TRANSPORT_MAX_WIRE_BYTES))
     (\<lambda>_. bindR (map_err (\<lambda>error. PreCollisionValidation
                   (''fact-create transport JSON decode failed: '' @ error)) (from_slice bytes))
     (\<lambda>batch. bindR (create_validate c v batch) (\<lambda>_. Inr batch)))"

definition semantic_envelopes ::
    "crypto \<Rightarrow> journal_names \<times> create_validator \<Rightarrow> SignedFactCreateBatchV1 \<Rightarrow>
     ReplicationError + FactCreateReplicaEnvelopeV1 list" where
  "semantic_envelopes c v b =
     bindR (create_validate c v b) (\<lambda>_.
     Inr (map (\<lambda>entry. to_semantic_envelope (fst v) entry (fcb_home_device_id b) (fcb_store_id b)
            (fcb_stream_epoch b)) (fcb_entries b)))"

section \<open>The preimage in closed form\<close>

lemma fc_encode_bytes_eq_Inr [result_simps]:
  "fc_encode_bytes output v f = Inr out \<longleftrightarrow> fits_u32 v \<and> out = output @ length_prefixed v"
  by (auto simp: fc_encode_bytes_def length_prefixed_def fits_u32_def)

definition create_entry_bytes :: "FactCreateTransportEntryV1 \<Rightarrow> byte list" where
  "create_entry_bytes e = be_i64 (fce_sequence e) @ length_prefixed (fce_payload e) @
     fce_payload_digest e @ fce_predecessor_digest e @ fce_journal_envelope_digest e"

definition create_preimage_fields :: "SignedFactCreateBatchV1 \<Rightarrow> byte list list" where
  "create_preimage_fields b =
     [be_u16 (fcb_protocol_version b), length_prefixed (as_bytes (fcb_batch_id b)),
      length_prefixed (as_bytes (fcb_home_device_id b)),
      length_prefixed (as_bytes (fcb_store_id b)),
      be_u64 (fcb_stream_epoch b), be_i64 (fcb_start_sequence b),
      be_u32 (of_nat (length (fcb_entries b))),
      concat (map create_entry_bytes (fcb_entries b)),
      length_prefixed (as_bytes (fcb_signer_principal_id b)),
      [signer_role_as_u8 (fcb_signer_role b)], be_u64 (fcb_signer_key_version b),
      be_u64 (fcb_observed_at b), length_prefixed (as_bytes (fcb_fencing_token b))]"

definition create_fits :: "SignedFactCreateBatchV1 \<Rightarrow> bool" where
  "create_fits b \<longleftrightarrow>
     (\<forall>s \<in> set [fcb_batch_id b, fcb_home_device_id b, fcb_store_id b, fcb_signer_principal_id b,
        fcb_fencing_token b]. fits_u32 (as_bytes s)) \<and>
     (\<forall>e \<in> set (fcb_entries b). fits_u32 (fce_payload e))"

lemma encode_create_entries_eq:
  "encode_create_entries buf es = Inr out \<longleftrightarrow>
     (\<forall>e \<in> set es. fits_u32 (fce_payload e)) \<and> out = buf @ concat (map create_entry_bytes es)"
  by (induction es arbitrary: buf) (auto simp: result_simps create_entry_bytes_def)

lemma create_signing_preimage_eq:
  "create_signing_preimage b = Inr p \<longleftrightarrow>
     create_fits b \<and> p = FACT_CREATE_TRANSPORT_SIGNATURE_DOMAIN @ concat (create_preimage_fields b)"
  unfolding create_signing_preimage_def fc_encode_string_def
  by (auto simp: result_simps Let_def create_fits_def create_preimage_fields_def
      encode_create_entries_eq)

section \<open>What a valid batch is\<close>

text \<open>The sizes and ranges that Rust's types fix.\<close>

definition create_batch_wf :: "SignedFactCreateBatchV1 \<Rightarrow> bool" where
  "create_batch_wf b \<longleftrightarrow>
     i64_range (fcb_start_sequence b) \<and> length (fcb_signer_public_key b) = 32 \<and>
     length (fcb_signature b) = 64 \<and>
     (\<forall>e \<in> set (fcb_entries b). i64_range (fce_sequence e) \<and>
        length (fce_payload_digest e) = 32 \<and> length (fce_predecessor_digest e) = 32 \<and>
        length (fce_journal_envelope_digest e) = 32)"

definition create_unsigned :: "SignedFactCreateBatchV1 \<Rightarrow> SignedFactCreateBatchV1" where
  "create_unsigned b = b\<lparr>fcb_signer_public_key := [], fcb_signature := []\<rparr>"

text \<open>A field that every batch check accepts.\<close>

definition tidy_field :: "string \<Rightarrow> usize \<Rightarrow> bool" where
  "tidy_field s limit \<longleftrightarrow> s \<noteq> [] \<and> trim s = s \<and> \<not> has_control s \<and> length s \<le> limit"

lemma check_batch_field_ok [result_simps]:
  "check_batch_field what (f, s, n) = Inr u \<longleftrightarrow> tidy_field s n"
  by (auto simp: check_batch_field_def result_simps tidy_field_def not_less)

lemma i64_add_0: "i64_range a \<Longrightarrow> i64_add a 0 = a"
  unfolding i64_add_def i64_range_def by (simp add: signed_take_bit_int_eq_self)

definition create_structure_ok :: "SignedFactCreateBatchV1 \<Rightarrow> bool" where
  "create_structure_ok b \<longleftrightarrow>
     fcb_protocol_version b = 1 \<and> fcb_signer_role b = DeviceWriter \<and>
     tidy_field (fcb_batch_id b) 128 \<and> tidy_field (fcb_home_device_id b) 128 \<and>
     tidy_field (fcb_store_id b) 128 \<and> tidy_field (fcb_signer_principal_id b) 128 \<and>
     tidy_field (fcb_fencing_token b) 256 \<and>
     0 < unat (fcb_stream_epoch b) \<and> 1 \<le> fcb_start_sequence b \<and>
     (\<exists>e. fcb_entries b = [e] \<and> fce_sequence e = fcb_start_sequence b)"

lemma validate_structure_ok:
  assumes "i64_range (fcb_start_sequence b)"
  shows "validate_structure b = Inr () \<longleftrightarrow> create_structure_ok b"
proof -
  have "fcb_entries b \<noteq> [] \<and> length (fcb_entries b) \<le> 1 \<and>
      check_entry_sequences (fcb_start_sequence b) 0 (fcb_entries b) = Inr () \<longleftrightarrow>
      (\<exists>e. fcb_entries b = [e] \<and> fce_sequence e = fcb_start_sequence b)"
  proof (cases "fcb_entries b")
    case (Cons e es)
    with assms show ?thesis by (cases es) (auto simp: result_simps i64_add_0 Let_def)
  qed simp
  then show ?thesis
    by (auto simp: validate_structure_def result_simps create_structure_ok_def
        fact_create_fields_def MAX_ID_BYTES_def MAX_FENCING_TOKEN_BYTES_def
        FACT_CREATE_TRANSPORT_PROTOCOL_VERSION_def FACT_CREATE_TRANSPORT_MAX_ENTRIES_def not_less
        unat_gt_0 simp del: check_entry_sequences.simps)
qed

section \<open>The create transport is a signed batch\<close>

definition create_owner ::
    "journal_names \<times> create_validator \<Rightarrow> SignedFactCreateBatchV1 \<Rightarrow> ReplicationError + unit" where
  "create_owner v b = check_all (validate_create_entry v b) (fcb_entries b)"

text \<open>Anything that does not read the key and the signature is the same on the unsigned batch.\<close>

lemma create_structure_unsigned: "validate_structure (create_unsigned b) = validate_structure b"
  by (simp add: validate_structure_def create_unsigned_def fact_create_fields_def)

lemma create_owner_unsigned: "create_owner v (create_unsigned b) = create_owner v b"
  by (simp add: create_owner_def create_unsigned_def validate_create_entry_def [abs_def])

lemma create_sign_ok:
  "create_sign c sk b = Inr b' \<Longrightarrow>
     validate_structure b = Inr () \<and> create_unsigned b' = create_unsigned b \<and>
     fcb_signer_public_key b' = ed_public c sk \<and>
     (\<exists>p. create_signing_preimage b' = Inr p \<and> fcb_signature b' = ed_sign c sk p)"
  by (auto simp: create_sign_def result_simps Let_def create_unsigned_def create_signing_preimage_eq
      create_fits_def create_preimage_fields_def)

lemma create_preimage_injective:
  assumes wf: "create_batch_wf b" "create_batch_wf b'"
    and ok: "validate_structure b = Inr ()" "validate_structure b' = Inr ()"
    and p: "create_signing_preimage b = Inr p" "create_signing_preimage b' = Inr p"
  shows "create_unsigned b = create_unsigned b'"
proof -
  have "create_structure_ok b" "create_structure_ok b'"
    using ok wf by (simp_all add: validate_structure_ok create_batch_wf_def)
  then obtain e e' where e: "fcb_entries b = [e]" "fcb_entries b' = [e']"
    by (auto simp: create_structure_ok_def)
  have ranges: "i64_range (fcb_start_sequence b)" "i64_range (fcb_start_sequence b')"
    "i64_range (fce_sequence e)" "i64_range (fce_sequence e')"
    and lens: "length (fce_payload_digest e) = length (fce_payload_digest e')"
    "length (fce_predecessor_digest e) = length (fce_predecessor_digest e')"
    "length (fce_journal_envelope_digest e) = length (fce_journal_envelope_digest e')"
    using wf e by (simp_all add: create_batch_wf_def)
  have "create_fits b" "create_fits b'"
    "concat (create_preimage_fields b) = concat (create_preimage_fields b')"
    using p by (auto simp: create_signing_preimage_eq)
  then show ?thesis
    using append_Nil2 [of "length_prefixed (as_bytes (fcb_fencing_token b))"]
      append_Nil2 [of "length_prefixed (as_bytes (fcb_fencing_token b'))"]
    by (simp add: create_preimage_fields_def create_fits_def create_entry_bytes_def e
        length_prefixed_append_inj append_eq_same_length be_i64_inj ranges lens create_unsigned_def
        length_prefixed_inj)
qed

interpretation create_wire: signed_batch FACT_CREATE_TRANSPORT_SIGNATURE_DOMAIN create_batch_wf
    validate_structure create_owner create_signing_preimage fcb_signer_public_key fcb_signature
    create_unsigned create_sign create_validate
proof
  show "create_validate c v b = Inr () \<longleftrightarrow>
      validate_structure b = Inr () \<and> create_owner v b = Inr () \<and>
      ed_key_from_bytes c (fcb_signer_public_key b) = Inr () \<and>
      (\<exists>p. create_signing_preimage b = Inr p \<and>
           ed_verify c (fcb_signer_public_key b) p (fcb_signature b) = Inr ())" for c v b
    by (auto simp: create_validate_def create_owner_def result_simps)
  show "validate_structure b = validate_structure b'"
    if "create_unsigned b = create_unsigned b'" for b b'
    by (metis that create_structure_unsigned)
  show "create_owner v b = create_owner v b'" if "create_unsigned b = create_unsigned b'" for v b b'
    by (metis that create_owner_unsigned)
qed (auto simp: create_signing_preimage_eq
    intro: create_preimage_injective dest: create_sign_ok)

text \<open>
  Exactly which batches validate: version 1, role \<open>DeviceWriter\<close>, five tidy text fields
  within their limits, positive epoch and start sequence, exactly one entry whose sequence is
  the start sequence and whose record its owner accepts, and an Ed25519 signature of the
  domain-separated preimage under the embedded key.
\<close>

theorem create_validate_spec:
  assumes "create_batch_wf b"
  shows "create_validate c v b = Inr () \<longleftrightarrow>
     create_structure_ok b \<and>
     snd v (to_semantic_envelope (fst v) (hd (fcb_entries b)) (fcb_home_device_id b)
       (fcb_store_id b) (fcb_stream_epoch b)) = Inr () \<and>
     ed_key_from_bytes c (fcb_signer_public_key b) = Inr () \<and> create_fits b \<and>
     ed_verify c (fcb_signer_public_key b)
       (FACT_CREATE_TRANSPORT_SIGNATURE_DOMAIN @ concat (create_preimage_fields b))
       (fcb_signature b) = Inr ()"
proof -
  have range: "i64_range (fcb_start_sequence b)" using assms by (simp add: create_batch_wf_def)
  have "create_owner v b = Inr () \<longleftrightarrow>
      snd v (to_semantic_envelope (fst v) (hd (fcb_entries b)) (fcb_home_device_id b)
        (fcb_store_id b) (fcb_stream_epoch b)) = Inr ()" if "create_structure_ok b"
    using that
    by (auto simp: create_structure_ok_def create_owner_def validate_create_entry_def result_simps)
  then show ?thesis
    by (auto simp: create_wire.validate_ok_iff validate_structure_ok [OF range]
        create_signing_preimage_eq)
qed

text \<open>A one-entry batch.\<close>

definition example_names :: journal_names where
  "example_names = \<lparr> FACT_CREATE_OPERATION = ''fact_create'',
     FACT_CREATE_PAYLOAD_SCHEMA = ''fact-create-v1'', VERIFIED_RECORD_STATE = ''verified'' \<rparr>"

definition example_entry :: FactCreateTransportEntryV1 where
  "example_entry = \<lparr> fce_sequence = 1, fce_payload = [1, 2, 3],
     fce_payload_digest = replicate 32 1, fce_predecessor_digest = replicate 32 0,
     fce_journal_envelope_digest = replicate 32 2 \<rparr>"

definition example_batch :: SignedFactCreateBatchV1 where
  "example_batch = \<lparr> fcb_protocol_version = 1, fcb_batch_id = ''batch-1'',
     fcb_home_device_id = ''device-1'', fcb_store_id = ''store-1'', fcb_stream_epoch = 1,
     fcb_start_sequence = 1, fcb_entries = [example_entry],
     fcb_signer_principal_id = ''operator-1'', fcb_signer_role = DeviceWriter,
     fcb_signer_key_version = 1, fcb_observed_at = 5, fcb_fencing_token = ''fence-1'',
     fcb_signer_public_key = replicate 32 0, fcb_signature = replicate 64 0 \<rparr>"

definition accept_all :: "journal_names \<times> create_validator" where
  "accept_all = (example_names, \<lambda>e. Inr ())"

lemma example_batch_wf: "create_batch_wf example_batch"
  by (simp add: create_batch_wf_def example_batch_def example_entry_def i64_range_def)

lemma example_batch_structure: "create_structure_ok example_batch"
  by (simp add: create_structure_ok_def example_batch_def example_entry_def tidy_field_def
      trim_printable)

lemma example_batch_new:
  "fact_create_batch_new ''batch-1'' ''device-1'' ''store-1'' 1 1 [example_entry] ''operator-1'' 1 5
     ''fence-1'' = Inr example_batch"
proof -
  have "validate_structure example_batch = Inr ()"
    using example_batch_structure example_batch_wf
    by (simp add: validate_structure_ok create_batch_wf_def)
  then show ?thesis
    by (simp add: fact_create_batch_new_def Let_def example_batch_def
        FACT_CREATE_TRANSPORT_PROTOCOL_VERSION_def)
qed

definition example_signed_batch :: SignedFactCreateBatchV1 where
  "example_signed_batch =
     example_batch\<lparr>fcb_signer_public_key := ed_public toy_crypto [7],
       fcb_signature := ed_sign toy_crypto [7]
         (FACT_CREATE_TRANSPORT_SIGNATURE_DOMAIN @ concat (create_preimage_fields example_batch))\<rparr>"

lemma example_batch_fits: "create_fits example_batch"
  by (simp add: create_fits_def example_batch_def example_entry_def fits_u32_def)

lemma example_signed: "create_sign toy_crypto [7] example_batch = Inr example_signed_batch"
proof -
  have "validate_structure example_batch = Inr ()"
    using example_batch_structure example_batch_wf
    by (simp add: validate_structure_ok create_batch_wf_def)
  moreover have "create_signing_preimage
      (example_batch\<lparr>fcb_signer_public_key := ed_public toy_crypto [7]\<rparr>) =
      Inr (FACT_CREATE_TRANSPORT_SIGNATURE_DOMAIN @ concat (create_preimage_fields example_batch))"
    using example_batch_fits
    by (simp add: create_signing_preimage_eq create_fits_def create_preimage_fields_def)
  ultimately show ?thesis
    by (simp add: create_sign_def Let_def example_signed_batch_def)
qed

lemma example_signed_wf: "create_batch_wf example_signed_batch"
  using example_batch_wf toy_crypto_laws
  by (simp add: create_batch_wf_def example_signed_batch_def crypto_laws_def)

lemma example_signed_validates: "create_validate toy_crypto accept_all example_signed_batch = Inr ()"
  using create_wire.sign_then_validate [OF toy_crypto_laws example_signed]
  by (simp add: create_owner_def accept_all_def validate_create_entry_def check_all_ok)

theorem create_validate_spec_witness:
  "create_structure_ok example_signed_batch \<and> create_fits example_signed_batch"
  using create_validate_spec [OF example_signed_wf, of toy_crypto accept_all]
    example_signed_validates by simp

text \<open>
  Signing then validating succeeds: a batch signed by any key validates exactly when the
  journal owner accepts its record, and what the receiver then applies is the record of the
  batch that was signed, byte for byte.
\<close>

theorem create_sign_validates:
  assumes "crypto_laws c" "create_sign c sk b = Inr b'"
  shows "semantic_envelopes c v b' =
     bindR (create_owner v b) (\<lambda>_.
       Inr (map (\<lambda>e. to_semantic_envelope (fst v) e (fcb_home_device_id b) (fcb_store_id b)
             (fcb_stream_epoch b)) (fcb_entries b)))"
proof -
  have same: "validate_structure b' = Inr ()" "create_owner v b' = create_owner v b"
    "fcb_entries b' = fcb_entries b" "fcb_home_device_id b' = fcb_home_device_id b"
    "fcb_store_id b' = fcb_store_id b" "fcb_stream_epoch b' = fcb_stream_epoch b"
    using assms(2)
    by (auto simp: create_sign_def result_simps Let_def validate_structure_def
        fact_create_fields_def create_owner_def validate_create_entry_def [abs_def])
  show ?thesis
  proof (cases "create_owner v b")
    case (Inl e)
    then have "create_validate c v b' = Inl e"
      using same(1,2) by (simp add: create_validate_def create_owner_def)
    with Inl show ?thesis by (simp add: semantic_envelopes_def)
  next
    case (Inr u)
    then have "create_validate c v b' = Inr ()"
      using create_wire.sign_then_validate [OF assms] by simp
    with Inr same show ?thesis by (simp add: semantic_envelopes_def)
  qed
qed

theorem create_sign_validates_witness:
  "semantic_envelopes toy_crypto accept_all example_signed_batch =
     Inr [to_semantic_envelope example_names example_entry ''device-1'' ''store-1'' 1]"
  using create_sign_validates [OF toy_crypto_laws example_signed, of accept_all]
  by (simp add: create_owner_def accept_all_def validate_create_entry_def check_all_ok
      example_batch_def)

text \<open>
  A signature cannot be moved: two batches that validate and have the same signing
  preimage agree on every field but the embedded key and the signature, the journal record
  with its payload and digests included.
\<close>

theorem create_content_unique:
  assumes "create_batch_wf b" "create_batch_wf b'"
    and "create_validate c v b = Inr ()" "create_validate c w b' = Inr ()"
    and "create_signing_preimage b = create_signing_preimage b'"
  shows "create_unsigned b = create_unsigned b'"
  using assms by (rule create_wire.validated_content_unique)

theorem create_content_unique_witness:
  "create_unsigned example_signed_batch = create_unsigned example_signed_batch"
  by (rule create_content_unique [OF example_signed_wf example_signed_wf
        example_signed_validates example_signed_validates refl])

section \<open>Decoding\<close>

lemma create_decode_json_ok:
  "create_decode_json c v from_slice bytes = Inr b \<longleftrightarrow>
     length bytes \<le> 4194304 \<and> from_slice bytes = Inr b \<and> create_validate c v b = Inr ()"
  by (auto simp: create_decode_json_def result_simps FACT_CREATE_TRANSPORT_MAX_WIRE_BYTES_def
      not_less)

lemma from_journal_entry_ok:
  "from_journal_entry n e = Inr t \<Longrightarrow>
     fcr_payload (to_semantic_envelope n t h s ep) = je_payload e \<and>
     fcr_operation_kind (to_semantic_envelope n t h s ep) = je_operation_kind e \<and>
     fcr_payload_schema (to_semantic_envelope n t h s ep) = je_payload_schema e \<and>
     fcr_sequence (to_semantic_envelope n t h s ep) = je_sequence e"
  by (auto simp: from_journal_entry_def to_semantic_envelope_def split: if_splits)

end
