(* ===== verification/Fact_Supersede_Wire.thy ===== *)
theory Fact_Supersede_Wire
  imports Fact_Create_Wire
begin

text \<open>
  The signed transport of owner-produced supersede records (\<open>src/replication/fact_supersede.rs\<close>):
  one verbatim semantic-memory envelope per batch, bound to the batch's device, store, epoch and
  sequence. \<open>FactSupersedeReplicaEnvelopeV1\<close>, its validator (which returns the replacement
  payload) and the JSON decoders are not part of this repository; they are arguments.
\<close>

section \<open>Constants and structs\<close>

definition FACT_SUPERSEDE_TRANSPORT_PROTOCOL_FAMILY :: string where
  "FACT_SUPERSEDE_TRANSPORT_PROTOCOL_FAMILY = ''mnemes.fact-supersede.v1''"

definition FACT_SUPERSEDE_TRANSPORT_PROTOCOL_VERSION :: u16 where
  "FACT_SUPERSEDE_TRANSPORT_PROTOCOL_VERSION = 1"

definition FACT_SUPERSEDE_TRANSPORT_MAX_WIRE_BYTES :: usize where
  "FACT_SUPERSEDE_TRANSPORT_MAX_WIRE_BYTES = 4194304"

definition FACT_SUPERSEDE_TRANSPORT_MAX_ENTRIES :: usize where
  "FACT_SUPERSEDE_TRANSPORT_MAX_ENTRIES = 1"

definition FACT_SUPERSEDE_TRANSPORT_SIGNATURE_DOMAIN :: "byte list" where
  "FACT_SUPERSEDE_TRANSPORT_SIGNATURE_DOMAIN =
     as_bytes (''mnemes/fact-supersede-batch/signature/v1'' @ [CHR 0x00])"

definition SUPERSEDE_MAX_ID_BYTES :: usize where
  "SUPERSEDE_MAX_ID_BYTES = 128"

definition SUPERSEDE_MAX_FENCING_TOKEN_BYTES :: usize where
  "SUPERSEDE_MAX_FENCING_TOKEN_BYTES = 256"

record FactSupersedeReplicaEnvelopeV1 =
  fsr_home_device_id :: string
  fsr_store_id :: string
  fsr_stream_epoch :: u64
  fsr_sequence :: i64
  fsr_operation_kind :: string
  fsr_payload_schema :: string
  fsr_payload :: "byte list"
  fsr_payload_digest :: "byte list"
  fsr_predecessor_digest :: "byte list"
  fsr_envelope_digest :: "byte list"

record FactSupersedeTransportEntryV1 =
  fse_owner_envelope :: FactSupersedeReplicaEnvelopeV1

definition from_owner_envelope ::
    "FactSupersedeReplicaEnvelopeV1 \<Rightarrow> FactSupersedeTransportEntryV1" where
  "from_owner_envelope owner_envelope = \<lparr> fse_owner_envelope = owner_envelope \<rparr>"

record SignedFactSupersedeBatchV1 =
  fsb_protocol_family :: string
  fsb_protocol_version :: u16
  fsb_batch_id :: string
  fsb_home_device_id :: string
  fsb_store_id :: string
  fsb_store_epoch :: u64
  fsb_writer_epoch :: u64
  fsb_owner_stream_epoch :: u64
  fsb_start_sequence :: i64
  fsb_entries :: "FactSupersedeTransportEntryV1 list"
  fsb_signer_principal_id :: string
  fsb_signer_role :: SignerRole
  fsb_signer_key_version :: u64
  fsb_observed_at :: u64
  fsb_fencing_token :: string
  fsb_signer_public_key :: "byte list"
  fsb_signature :: "byte list"

section \<open>Structure\<close>

definition fact_supersede_fields ::
    "SignedFactSupersedeBatchV1 \<Rightarrow> (string \<times> string \<times> usize) list" where
  "fact_supersede_fields b =
     [(''batch_id'', fsb_batch_id b, SUPERSEDE_MAX_ID_BYTES),
      (''home_device_id'', fsb_home_device_id b, SUPERSEDE_MAX_ID_BYTES),
      (''store_id'', fsb_store_id b, SUPERSEDE_MAX_ID_BYTES),
      (''signer_principal_id'', fsb_signer_principal_id b, SUPERSEDE_MAX_ID_BYTES),
      (''fencing_token'', fsb_fencing_token b, SUPERSEDE_MAX_FENCING_TOKEN_BYTES)]"

text \<open>
  The last check of the structure: the one entry (the entry count is checked before) is bound to
  the batch.
\<close>

definition check_owner_binding :: "SignedFactSupersedeBatchV1 \<Rightarrow> ReplicationError + unit" where
  "check_owner_binding b =
     (let envelope = fse_owner_envelope (hd (fsb_entries b)) in
      fail_if (fsr_home_device_id envelope \<noteq> fsb_home_device_id b \<or>
               fsr_store_id envelope \<noteq> fsb_store_id b \<or>
               fsr_stream_epoch envelope \<noteq> fsb_owner_stream_epoch b \<or>
               fsr_sequence envelope \<noteq> fsb_start_sequence b)
        (PreCollisionValidation
           ''fact-supersede transport does not exactly bind owner envelope identity''))"

definition supersede_validate_structure ::
    "SignedFactSupersedeBatchV1 \<Rightarrow> ReplicationError + unit" where
  "supersede_validate_structure b = checks
     [fail_if (fsb_protocol_family b \<noteq> FACT_SUPERSEDE_TRANSPORT_PROTOCOL_FAMILY)
        (PreCollisionValidation ''fact-supersede protocol family mismatch''),
      fail_if (fsb_protocol_version b \<noteq> FACT_SUPERSEDE_TRANSPORT_PROTOCOL_VERSION)
        (UnsupportedProtocolVersion (fsb_protocol_version b)),
      fail_if (fsb_signer_role b \<noteq> DeviceWriter)
        (RoleArtifactMismatch (fsb_signer_role b) Mutation),
      check_all (check_batch_field ''fact-supersede'') (fact_supersede_fields b),
      fail_if (fsb_store_epoch b = 0 \<or> fsb_writer_epoch b = 0 \<or> fsb_owner_stream_epoch b = 0)
        (PreCollisionValidation
           ''fact-supersede transport generation fields must be positive''),
      fail_if (fsb_start_sequence b < 1)
        (PreCollisionValidation ''fact-supersede start_sequence must be positive''),
      fail_if (length (fsb_entries b) \<noteq> FACT_SUPERSEDE_TRANSPORT_MAX_ENTRIES)
        (FieldExceedsMaxLength ''entries'' (length (fsb_entries b))
           FACT_SUPERSEDE_TRANSPORT_MAX_ENTRIES),
      check_owner_binding b]"

section \<open>Preimage, signing, validation\<close>

definition fs_encode_bytes :: "byte list \<Rightarrow> byte list \<Rightarrow> string \<Rightarrow> ReplicationError + byte list" where
  "fs_encode_bytes output v field =
     (if length v < 2 ^ 32 then Inr (output @ be_u32 (of_nat (length v)) @ v)
      else Inl (FieldTooLong field (length v)))"

definition fs_encode_string :: "byte list \<Rightarrow> string \<Rightarrow> string \<Rightarrow> ReplicationError + byte list" where
  "fs_encode_string output v field = fs_encode_bytes output (as_bytes v) field"

fun encode_supersede_entries ::
    "byte list \<Rightarrow> FactSupersedeTransportEntryV1 list \<Rightarrow> ReplicationError + byte list" where
  "encode_supersede_entries output [] = Inr output"
| "encode_supersede_entries output (entry # entries) =
     (let envelope = fse_owner_envelope entry in
      bindR (fs_encode_string output (fsr_home_device_id envelope) ''owner_home_device_id'') (\<lambda>output.
      bindR (fs_encode_string output (fsr_store_id envelope) ''owner_store_id'') (\<lambda>output.
      let output = output @ be_u64 (fsr_stream_epoch envelope) @ be_i64 (fsr_sequence envelope) in
      bindR (fs_encode_string output (fsr_operation_kind envelope) ''owner_operation_kind'') (\<lambda>output.
      bindR (fs_encode_string output (fsr_payload_schema envelope) ''owner_payload_schema'') (\<lambda>output.
      bindR (fs_encode_bytes output (fsr_payload envelope) ''owner_payload'') (\<lambda>output.
      encode_supersede_entries
        (output @ fsr_payload_digest envelope @ fsr_predecessor_digest envelope @
         fsr_envelope_digest envelope) entries))))))"

definition supersede_signing_preimage ::
    "SignedFactSupersedeBatchV1 \<Rightarrow> ReplicationError + byte list" where
  "supersede_signing_preimage b =
     (let output = FACT_SUPERSEDE_TRANSPORT_SIGNATURE_DOMAIN in
      bindR (fs_encode_string output (fsb_protocol_family b) ''protocol_family'') (\<lambda>output.
      let output = output @ be_u16 (fsb_protocol_version b) in
      bindR (fs_encode_string output (fsb_batch_id b) ''batch_id'') (\<lambda>output.
      bindR (fs_encode_string output (fsb_home_device_id b) ''home_device_id'') (\<lambda>output.
      bindR (fs_encode_string output (fsb_store_id b) ''store_id'') (\<lambda>output.
      let output = output @ be_u64 (fsb_store_epoch b) @ be_u64 (fsb_writer_epoch b) @
                   be_u64 (fsb_owner_stream_epoch b) @ be_i64 (fsb_start_sequence b) @
                   be_u32 (of_nat (length (fsb_entries b))) in
      bindR (encode_supersede_entries output (fsb_entries b)) (\<lambda>output.
      bindR (fs_encode_string output (fsb_signer_principal_id b) ''signer_principal_id'') (\<lambda>output.
      let output = output @ [signer_role_as_u8 (fsb_signer_role b)] @
                   be_u64 (fsb_signer_key_version b) @ be_u64 (fsb_observed_at b) in
      fs_encode_string output (fsb_fencing_token b) ''fencing_token'')))))))"

definition fact_supersede_batch_new ::
    "string \<Rightarrow> string \<Rightarrow> string \<Rightarrow> u64 \<Rightarrow> u64 \<Rightarrow> u64 \<Rightarrow> i64 \<Rightarrow> FactSupersedeTransportEntryV1 list \<Rightarrow>
     string \<Rightarrow> u64 \<Rightarrow> u64 \<Rightarrow> string \<Rightarrow> ReplicationError + SignedFactSupersedeBatchV1" where
  "fact_supersede_batch_new batch_id home_device_id store_id store_epoch writer_epoch
       owner_stream_epoch start_sequence entries signer_principal_id signer_key_version observed_at
       fencing_token =
     (let batch =
        \<lparr> fsb_protocol_family = FACT_SUPERSEDE_TRANSPORT_PROTOCOL_FAMILY,
          fsb_protocol_version = FACT_SUPERSEDE_TRANSPORT_PROTOCOL_VERSION,
          fsb_batch_id = batch_id,
          fsb_home_device_id = home_device_id,
          fsb_store_id = store_id,
          fsb_store_epoch = store_epoch,
          fsb_writer_epoch = writer_epoch,
          fsb_owner_stream_epoch = owner_stream_epoch,
          fsb_start_sequence = start_sequence,
          fsb_entries = entries,
          fsb_signer_principal_id = signer_principal_id,
          fsb_signer_role = DeviceWriter,
          fsb_signer_key_version = signer_key_version,
          fsb_observed_at = observed_at,
          fsb_fencing_token = fencing_token,
          fsb_signer_public_key = replicate 32 0,
          fsb_signature = replicate 64 0 \<rparr>
      in bindR (supersede_validate_structure batch) (\<lambda>_. Inr batch))"

definition supersede_sign ::
    "crypto \<Rightarrow> byte list \<Rightarrow> SignedFactSupersedeBatchV1 \<Rightarrow>
     ReplicationError + SignedFactSupersedeBatchV1" where
  "supersede_sign c signing_key b =
     bindR (supersede_validate_structure b) (\<lambda>_.
     let b = b\<lparr>fsb_signer_public_key := ed_public c signing_key\<rparr> in
     bindR (supersede_signing_preimage b) (\<lambda>preimage.
     Inr (b\<lparr>fsb_signature := ed_sign c signing_key preimage\<rparr>)))"

text \<open>The owner's validator; it returns the bytes of the replacement payload.\<close>

type_synonym supersede_validator = "FactSupersedeReplicaEnvelopeV1 \<Rightarrow> string + byte list"

definition supersede_owner ::
    "supersede_validator \<Rightarrow> SignedFactSupersedeBatchV1 \<Rightarrow> ReplicationError + unit" where
  "supersede_owner v b =
     bindR (map_err (\<lambda>error. PreCollisionValidation
         (''semantic-memory fact-supersede validation failed: '' @ error))
       (v (fse_owner_envelope (hd (fsb_entries b))))) (\<lambda>_. Inr ())"

definition supersede_validate ::
    "crypto \<Rightarrow> supersede_validator \<Rightarrow> SignedFactSupersedeBatchV1 \<Rightarrow> ReplicationError + unit" where
  "supersede_validate c v b = checks
     [supersede_validate_structure b,
      supersede_owner v b,
      map_err InvalidPublicKey (ed_key_from_bytes c (fsb_signer_public_key b)),
      bindR (supersede_signing_preimage b) (\<lambda>preimage.
        map_err SignatureVerification
          (ed_verify c (fsb_signer_public_key b) preimage (fsb_signature b)))]"

definition supersede_decode_json ::
    "crypto \<Rightarrow> supersede_validator \<Rightarrow> (byte list \<Rightarrow> string + SignedFactSupersedeBatchV1) \<Rightarrow>
     byte list \<Rightarrow> ReplicationError + SignedFactSupersedeBatchV1" where
  "supersede_decode_json c v from_slice bytes =
     bindR (fail_if (length bytes > FACT_SUPERSEDE_TRANSPORT_MAX_WIRE_BYTES)
        (FieldExceedsMaxLength ''wire_body'' (length bytes) FACT_SUPERSEDE_TRANSPORT_MAX_WIRE_BYTES))
     (\<lambda>_. bindR (map_err (\<lambda>error. PreCollisionValidation
                   (''fact-supersede transport JSON decode failed: '' @ error)) (from_slice bytes))
     (\<lambda>batch. bindR (supersede_validate c v batch) (\<lambda>_. Inr batch)))"

definition semantic_envelope ::
    "crypto \<Rightarrow> supersede_validator \<Rightarrow> SignedFactSupersedeBatchV1 \<Rightarrow>
     ReplicationError + FactSupersedeReplicaEnvelopeV1" where
  "semantic_envelope c v b =
     bindR (supersede_validate c v b) (\<lambda>_. Inr (fse_owner_envelope (hd (fsb_entries b))))"

text \<open>
  The decoder of the replacement payload gives its namespace. \<open>entries[0]\<close> is out of range for
  an unvalidated batch without entries: the panic is \<^term>\<open>None\<close>.
\<close>

definition replacement_namespace ::
    "supersede_validator \<Rightarrow> (byte list \<Rightarrow> string + string) \<Rightarrow> SignedFactSupersedeBatchV1 \<Rightarrow>
     (ReplicationError + string) option" where
  "replacement_namespace v decode_payload b =
     (case fsb_entries b of
        [] \<Rightarrow> None
      | entry # _ \<Rightarrow> Some
          (bindR (map_err PreCollisionValidation (v (fse_owner_envelope entry))) (\<lambda>payload.
           map_err (\<lambda>error. PreCollisionValidation
               (''owner-validated replacement payload cannot project namespace: '' @ error))
             (decode_payload payload))))"

section \<open>The preimage in closed form\<close>

lemma fs_encode_bytes_eq_Inr [result_simps]:
  "fs_encode_bytes output v f = Inr out \<longleftrightarrow> fits_u32 v \<and> out = output @ length_prefixed v"
  by (auto simp: fs_encode_bytes_def length_prefixed_def fits_u32_def)

definition owner_envelope_bytes :: "FactSupersedeReplicaEnvelopeV1 \<Rightarrow> byte list" where
  "owner_envelope_bytes e = concat
     [length_prefixed (as_bytes (fsr_home_device_id e)), length_prefixed (as_bytes (fsr_store_id e)),
      be_u64 (fsr_stream_epoch e), be_i64 (fsr_sequence e),
      length_prefixed (as_bytes (fsr_operation_kind e)),
      length_prefixed (as_bytes (fsr_payload_schema e)), length_prefixed (fsr_payload e),
      fsr_payload_digest e, fsr_predecessor_digest e, fsr_envelope_digest e]"

definition supersede_preimage_fields :: "SignedFactSupersedeBatchV1 \<Rightarrow> byte list list" where
  "supersede_preimage_fields b =
     [length_prefixed (as_bytes (fsb_protocol_family b)), be_u16 (fsb_protocol_version b),
      length_prefixed (as_bytes (fsb_batch_id b)),
      length_prefixed (as_bytes (fsb_home_device_id b)),
      length_prefixed (as_bytes (fsb_store_id b)),
      be_u64 (fsb_store_epoch b), be_u64 (fsb_writer_epoch b), be_u64 (fsb_owner_stream_epoch b),
      be_i64 (fsb_start_sequence b), be_u32 (of_nat (length (fsb_entries b))),
      concat (map (\<lambda>e. owner_envelope_bytes (fse_owner_envelope e)) (fsb_entries b)),
      length_prefixed (as_bytes (fsb_signer_principal_id b)),
      [signer_role_as_u8 (fsb_signer_role b)], be_u64 (fsb_signer_key_version b),
      be_u64 (fsb_observed_at b), length_prefixed (as_bytes (fsb_fencing_token b))]"

definition owner_envelope_fits :: "FactSupersedeReplicaEnvelopeV1 \<Rightarrow> bool" where
  "owner_envelope_fits e \<longleftrightarrow> fits_u32 (fsr_payload e) \<and>
     (\<forall>s \<in> set [fsr_home_device_id e, fsr_store_id e, fsr_operation_kind e, fsr_payload_schema e].
        fits_u32 (as_bytes s))"

definition supersede_fits :: "SignedFactSupersedeBatchV1 \<Rightarrow> bool" where
  "supersede_fits b \<longleftrightarrow>
     (\<forall>s \<in> set [fsb_protocol_family b, fsb_batch_id b, fsb_home_device_id b, fsb_store_id b,
        fsb_signer_principal_id b, fsb_fencing_token b]. fits_u32 (as_bytes s)) \<and>
     (\<forall>e \<in> set (fsb_entries b). owner_envelope_fits (fse_owner_envelope e))"

lemma encode_supersede_entries_eq:
  "encode_supersede_entries buf es = Inr out \<longleftrightarrow>
     (\<forall>e \<in> set es. owner_envelope_fits (fse_owner_envelope e)) \<and>
     out = buf @ concat (map (\<lambda>e. owner_envelope_bytes (fse_owner_envelope e)) es)"
proof (induction es arbitrary: buf)
  case (Cons e es)
  show ?case
    by (simp add: result_simps Let_def fs_encode_string_def Cons.IH owner_envelope_fits_def
        owner_envelope_bytes_def) blast
qed auto

lemma supersede_signing_preimage_eq:
  "supersede_signing_preimage b = Inr p \<longleftrightarrow> supersede_fits b \<and>
     p = FACT_SUPERSEDE_TRANSPORT_SIGNATURE_DOMAIN @ concat (supersede_preimage_fields b)"
  unfolding supersede_signing_preimage_def fs_encode_string_def
  by (auto simp: result_simps Let_def supersede_fits_def supersede_preimage_fields_def
      encode_supersede_entries_eq)

section \<open>What a valid batch is\<close>

definition owner_envelope_wf :: "FactSupersedeReplicaEnvelopeV1 \<Rightarrow> bool" where
  "owner_envelope_wf e \<longleftrightarrow> i64_range (fsr_sequence e) \<and> length (fsr_payload_digest e) = 32 \<and>
     length (fsr_predecessor_digest e) = 32 \<and> length (fsr_envelope_digest e) = 32"

definition supersede_batch_wf :: "SignedFactSupersedeBatchV1 \<Rightarrow> bool" where
  "supersede_batch_wf b \<longleftrightarrow>
     i64_range (fsb_start_sequence b) \<and> length (fsb_signer_public_key b) = 32 \<and>
     length (fsb_signature b) = 64 \<and>
     (\<forall>e \<in> set (fsb_entries b). owner_envelope_wf (fse_owner_envelope e))"

definition supersede_unsigned :: "SignedFactSupersedeBatchV1 \<Rightarrow> SignedFactSupersedeBatchV1" where
  "supersede_unsigned b = b\<lparr>fsb_signer_public_key := [], fsb_signature := []\<rparr>"

definition supersede_structure_ok :: "SignedFactSupersedeBatchV1 \<Rightarrow> bool" where
  "supersede_structure_ok b \<longleftrightarrow>
     fsb_protocol_family b = ''mnemes.fact-supersede.v1'' \<and> fsb_protocol_version b = 1 \<and>
     fsb_signer_role b = DeviceWriter \<and>
     tidy_field (fsb_batch_id b) 128 \<and> tidy_field (fsb_home_device_id b) 128 \<and>
     tidy_field (fsb_store_id b) 128 \<and> tidy_field (fsb_signer_principal_id b) 128 \<and>
     tidy_field (fsb_fencing_token b) 256 \<and>
     0 < unat (fsb_store_epoch b) \<and> 0 < unat (fsb_writer_epoch b) \<and>
     0 < unat (fsb_owner_stream_epoch b) \<and> 1 \<le> fsb_start_sequence b \<and>
     (\<exists>e. fsb_entries b = [e] \<and>
        fsr_home_device_id (fse_owner_envelope e) = fsb_home_device_id b \<and>
        fsr_store_id (fse_owner_envelope e) = fsb_store_id b \<and>
        fsr_stream_epoch (fse_owner_envelope e) = fsb_owner_stream_epoch b \<and>
        fsr_sequence (fse_owner_envelope e) = fsb_start_sequence b)"

lemma supersede_validate_structure_ok:
  "supersede_validate_structure b = Inr () \<longleftrightarrow> supersede_structure_ok b"
proof -
  have "length (fsb_entries b) = 1 \<and> check_owner_binding b = Inr () \<longleftrightarrow>
      (\<exists>e. fsb_entries b = [e] \<and>
        fsr_home_device_id (fse_owner_envelope e) = fsb_home_device_id b \<and>
        fsr_store_id (fse_owner_envelope e) = fsb_store_id b \<and>
        fsr_stream_epoch (fse_owner_envelope e) = fsb_owner_stream_epoch b \<and>
        fsr_sequence (fse_owner_envelope e) = fsb_start_sequence b)"
    by (auto simp: check_owner_binding_def Let_def result_simps length_Suc_conv)
  then show ?thesis
    by (auto simp: supersede_validate_structure_def result_simps supersede_structure_ok_def
        fact_supersede_fields_def SUPERSEDE_MAX_ID_BYTES_def SUPERSEDE_MAX_FENCING_TOKEN_BYTES_def
        FACT_SUPERSEDE_TRANSPORT_PROTOCOL_FAMILY_def FACT_SUPERSEDE_TRANSPORT_PROTOCOL_VERSION_def
        FACT_SUPERSEDE_TRANSPORT_MAX_ENTRIES_def not_less unat_gt_0)
qed

section \<open>The supersede transport is a signed batch\<close>

lemma supersede_structure_unsigned:
  "supersede_validate_structure (supersede_unsigned b) = supersede_validate_structure b"
  by (simp add: supersede_validate_structure_def supersede_unsigned_def fact_supersede_fields_def
      check_owner_binding_def)

lemma supersede_owner_unsigned: "supersede_owner v (supersede_unsigned b) = supersede_owner v b"
  by (simp add: supersede_owner_def supersede_unsigned_def)

lemma supersede_sign_ok:
  "supersede_sign c sk b = Inr b' \<Longrightarrow>
     supersede_validate_structure b = Inr () \<and> supersede_unsigned b' = supersede_unsigned b \<and>
     fsb_signer_public_key b' = ed_public c sk \<and>
     (\<exists>p. supersede_signing_preimage b' = Inr p \<and> fsb_signature b' = ed_sign c sk p)"
  by (auto simp: supersede_sign_def result_simps Let_def supersede_unsigned_def
      supersede_signing_preimage_eq supersede_fits_def supersede_preimage_fields_def)

lemma owner_envelope_bytes_inj:
  assumes "owner_envelope_wf e" "owner_envelope_wf e'" "owner_envelope_fits e"
    "owner_envelope_fits e'"
  shows "owner_envelope_bytes e @ x = owner_envelope_bytes e' @ y \<longleftrightarrow> e = e' \<and> x = y"
proof -
  have lens: "length (fsr_payload_digest e) = length (fsr_payload_digest e')"
    "length (fsr_predecessor_digest e) = length (fsr_predecessor_digest e')"
    "length (fsr_envelope_digest e) = length (fsr_envelope_digest e')"
    and ranges: "i64_range (fsr_sequence e)" "i64_range (fsr_sequence e')"
    using assms by (simp_all add: owner_envelope_wf_def)
  show ?thesis
    using assms(3,4)
    by (cases e; cases e')
      (use lens ranges in \<open>auto simp: owner_envelope_bytes_def owner_envelope_fits_def
        length_prefixed_append_inj append_eq_same_length be_i64_inj\<close>)
qed

lemma supersede_preimage_injective:
  assumes wf: "supersede_batch_wf b" "supersede_batch_wf b'"
    and ok: "supersede_validate_structure b = Inr ()" "supersede_validate_structure b' = Inr ()"
    and p: "supersede_signing_preimage b = Inr p" "supersede_signing_preimage b' = Inr p"
  shows "supersede_unsigned b = supersede_unsigned b'"
proof -
  have "supersede_structure_ok b" "supersede_structure_ok b'"
    using ok by (simp_all add: supersede_validate_structure_ok)
  then obtain e e' where e: "fsb_entries b = [e]" "fsb_entries b' = [e']"
    by (auto simp: supersede_structure_ok_def)
  have ranges: "i64_range (fsb_start_sequence b)" "i64_range (fsb_start_sequence b')"
    and owner: "owner_envelope_wf (fse_owner_envelope e)" "owner_envelope_wf (fse_owner_envelope e')"
    using wf e by (simp_all add: supersede_batch_wf_def)
  have entry: "e = e' \<longleftrightarrow> fse_owner_envelope e = fse_owner_envelope e'"
    by (cases e; cases e') simp
  have "supersede_fits b" "supersede_fits b'"
    "concat (supersede_preimage_fields b) = concat (supersede_preimage_fields b')"
    using p by (auto simp: supersede_signing_preimage_eq)
  then show ?thesis
    by (simp add: supersede_preimage_fields_def supersede_fits_def e length_prefixed_append_inj
        owner_envelope_bytes_inj append_eq_same_length be_i64_inj ranges owner entry
        supersede_unsigned_def length_prefixed_inj)
qed

interpretation supersede_wire: signed_batch FACT_SUPERSEDE_TRANSPORT_SIGNATURE_DOMAIN
    supersede_batch_wf supersede_validate_structure supersede_owner supersede_signing_preimage
    fsb_signer_public_key fsb_signature supersede_unsigned supersede_sign supersede_validate
proof
  show "supersede_validate c v b = Inr () \<longleftrightarrow>
      supersede_validate_structure b = Inr () \<and> supersede_owner v b = Inr () \<and>
      ed_key_from_bytes c (fsb_signer_public_key b) = Inr () \<and>
      (\<exists>p. supersede_signing_preimage b = Inr p \<and>
           ed_verify c (fsb_signer_public_key b) p (fsb_signature b) = Inr ())" for c v b
    by (auto simp: supersede_validate_def result_simps)
  show "supersede_validate_structure b = supersede_validate_structure b'"
    if "supersede_unsigned b = supersede_unsigned b'" for b b'
    by (metis that supersede_structure_unsigned)
  show "supersede_owner v b = supersede_owner v b'"
    if "supersede_unsigned b = supersede_unsigned b'" for v b b'
    by (metis that supersede_owner_unsigned)
qed (auto simp: supersede_signing_preimage_eq
    intro: supersede_preimage_injective dest: supersede_sign_ok)

text \<open>
  C20. What a supersede batch makes the receiver apply is its owner's record, verbatim: the
  returned envelope is the single entry of the batch, it belongs to the device, store, epoch and
  sequence that the batch names, its owner accepts it, and the signature covers its bytes.
\<close>

theorem supersede_binds_owner_record:
  assumes "semantic_envelope c v b = Inr env"
  shows "fsb_entries b = [from_owner_envelope env] \<and>
     fsr_home_device_id env = fsb_home_device_id b \<and> fsr_store_id env = fsb_store_id b \<and>
     fsr_stream_epoch env = fsb_owner_stream_epoch b \<and> fsr_sequence env = fsb_start_sequence b \<and>
     is_ok (v env) \<and>
     (\<exists>before after. ed_verify c (fsb_signer_public_key b)
        (FACT_SUPERSEDE_TRANSPORT_SIGNATURE_DOMAIN @ before @ owner_envelope_bytes env @ after)
        (fsb_signature b) = Inr ())"
proof -
  have valid: "supersede_validate c v b = Inr ()"
    and env: "env = fse_owner_envelope (hd (fsb_entries b))"
    using assms by (auto simp: semantic_envelope_def result_simps)
  then have ok: "supersede_structure_ok b" and own: "supersede_owner v b = Inr ()"
    and sig: "supersede_signing_preimage b =
        Inr (FACT_SUPERSEDE_TRANSPORT_SIGNATURE_DOMAIN @ concat (supersede_preimage_fields b))"
      "ed_verify c (fsb_signer_public_key b)
        (FACT_SUPERSEDE_TRANSPORT_SIGNATURE_DOMAIN @ concat (supersede_preimage_fields b))
        (fsb_signature b) = Inr ()"
    by (auto simp: supersede_wire.validate_ok_iff supersede_validate_structure_ok
        supersede_signing_preimage_eq)
  from ok obtain e where e: "fsb_entries b = [e]" by (auto simp: supersede_structure_ok_def)
  have "\<exists>before after. before @ owner_envelope_bytes env @ after =
      concat (supersede_preimage_fields b)"
    by (intro exI [of _ "concat (take 10 (supersede_preimage_fields b))"]
        exI [of _ "concat (drop 11 (supersede_preimage_fields b))"])
      (simp add: supersede_preimage_fields_def e env)
  with sig(2) have "\<exists>before after. ed_verify c (fsb_signer_public_key b)
      (FACT_SUPERSEDE_TRANSPORT_SIGNATURE_DOMAIN @ before @ owner_envelope_bytes env @ after)
      (fsb_signature b) = Inr ()"
    by metis
  then show ?thesis
    using ok own e env
    by (auto simp: supersede_structure_ok_def supersede_owner_def result_simps is_ok_iff
        from_owner_envelope_def)
qed

text \<open>A signed supersede batch.\<close>

definition example_owner_envelope :: FactSupersedeReplicaEnvelopeV1 where
  "example_owner_envelope = \<lparr> fsr_home_device_id = ''device-1'', fsr_store_id = ''store-1'',
     fsr_stream_epoch = 1, fsr_sequence = 2, fsr_operation_kind = ''fact_supersede'',
     fsr_payload_schema = ''fact-supersede-v1'', fsr_payload = [9, 9],
     fsr_payload_digest = replicate 32 1, fsr_predecessor_digest = replicate 32 2,
     fsr_envelope_digest = replicate 32 3 \<rparr>"

definition example_supersede_batch :: SignedFactSupersedeBatchV1 where
  "example_supersede_batch = \<lparr> fsb_protocol_family = ''mnemes.fact-supersede.v1'',
     fsb_protocol_version = 1, fsb_batch_id = ''batch-2'', fsb_home_device_id = ''device-1'',
     fsb_store_id = ''store-1'', fsb_store_epoch = 1, fsb_writer_epoch = 1,
     fsb_owner_stream_epoch = 1, fsb_start_sequence = 2,
     fsb_entries = [from_owner_envelope example_owner_envelope],
     fsb_signer_principal_id = ''operator-1'', fsb_signer_role = DeviceWriter,
     fsb_signer_key_version = 1, fsb_observed_at = 5, fsb_fencing_token = ''fence-1'',
     fsb_signer_public_key = replicate 32 0, fsb_signature = replicate 64 0 \<rparr>"

definition example_signed_supersede :: SignedFactSupersedeBatchV1 where
  "example_signed_supersede =
     example_supersede_batch\<lparr>fsb_signer_public_key := ed_public toy_crypto [7],
       fsb_signature := ed_sign toy_crypto [7] (FACT_SUPERSEDE_TRANSPORT_SIGNATURE_DOMAIN @
         concat (supersede_preimage_fields example_supersede_batch))\<rparr>"

lemma example_supersede_structure: "supersede_structure_ok example_supersede_batch"
  by (simp add: supersede_structure_ok_def example_supersede_batch_def from_owner_envelope_def
      example_owner_envelope_def tidy_field_def trim_printable)

lemma example_supersede_signed:
  "supersede_sign toy_crypto [7] example_supersede_batch = Inr example_signed_supersede"
proof -
  have "supersede_fits example_supersede_batch"
    by (simp add: supersede_fits_def example_supersede_batch_def from_owner_envelope_def
        example_owner_envelope_def owner_envelope_fits_def fits_u32_def)
  then have "supersede_signing_preimage
      (example_supersede_batch\<lparr>fsb_signer_public_key := ed_public toy_crypto [7]\<rparr>) =
      Inr (FACT_SUPERSEDE_TRANSPORT_SIGNATURE_DOMAIN @
         concat (supersede_preimage_fields example_supersede_batch))"
    by (simp add: supersede_signing_preimage_eq supersede_fits_def supersede_preimage_fields_def)
  moreover have "supersede_validate_structure example_supersede_batch = Inr ()"
    using example_supersede_structure by (simp add: supersede_validate_structure_ok)
  ultimately show ?thesis
    by (simp add: supersede_sign_def Let_def example_signed_supersede_def)
qed

lemma example_supersede_envelope:
  "semantic_envelope toy_crypto (\<lambda>_. Inr []) example_signed_supersede = Inr example_owner_envelope"
proof -
  have "supersede_validate toy_crypto (\<lambda>_. Inr []) example_signed_supersede = Inr ()"
    using supersede_wire.sign_then_validate [OF toy_crypto_laws example_supersede_signed]
    by (simp add: supersede_owner_def)
  then show ?thesis
    by (simp add: semantic_envelope_def example_signed_supersede_def example_supersede_batch_def
        from_owner_envelope_def)
qed

theorem supersede_binds_owner_record_witness:
  "fsb_entries example_signed_supersede = [from_owner_envelope example_owner_envelope] \<and>
   fsr_sequence example_owner_envelope = fsb_start_sequence example_signed_supersede"
  using supersede_binds_owner_record [OF example_supersede_envelope] by blast

text \<open>
  Signing then validating succeeds for supersede batches too: a batch signed by any key
  yields its owner's envelope exactly when the owner accepts it, and reports the owner's
  refusal otherwise.
\<close>

theorem supersede_sign_validates:
  assumes "crypto_laws c" "supersede_sign c sk b = Inr b'"
  shows "semantic_envelope c v b' =
     bindR (supersede_owner v b) (\<lambda>_. Inr (fse_owner_envelope (hd (fsb_entries b))))"
proof -
  have same: "supersede_validate_structure b' = Inr ()" "supersede_owner v b' = supersede_owner v b"
    "fsb_entries b' = fsb_entries b"
    using assms(2)
    by (auto simp: supersede_sign_def result_simps Let_def supersede_validate_structure_def
        fact_supersede_fields_def supersede_owner_def check_owner_binding_def)
  show ?thesis
  proof (cases "supersede_owner v b")
    case (Inl e)
    then have "supersede_validate c v b' = Inl e"
      using same(1,2) by (simp add: supersede_validate_def)
    with Inl show ?thesis by (simp add: semantic_envelope_def)
  next
    case (Inr u)
    then have "supersede_validate c v b' = Inr ()"
      using supersede_wire.sign_then_validate [OF assms] by simp
    with Inr same show ?thesis by (simp add: semantic_envelope_def)
  qed
qed

theorem supersede_sign_validates_witness:
  "semantic_envelope toy_crypto (\<lambda>_. Inl ''stale'') example_signed_supersede =
     Inl (PreCollisionValidation ''semantic-memory fact-supersede validation failed: stale'')"
  using supersede_sign_validates [OF toy_crypto_laws example_supersede_signed, of "\<lambda>_. Inl ''stale''"]
  by (simp add: supersede_owner_def)

section \<open>Domain separation\<close>

lemma domains_differ:
  "FACT_CREATE_TRANSPORT_SIGNATURE_DOMAIN @ x \<noteq> FACT_SUPERSEDE_TRANSPORT_SIGNATURE_DOMAIN @ y"
  "SIGNATURE_DOMAIN_TAG @ x \<noteq> FACT_CREATE_TRANSPORT_SIGNATURE_DOMAIN @ y"
  "SIGNATURE_DOMAIN_TAG @ x \<noteq> FACT_SUPERSEDE_TRANSPORT_SIGNATURE_DOMAIN @ y"
  "SIGNATURE_DOMAIN_TAG @ x \<noteq> DIGEST_DOMAIN_TAG @ y"
  by (simp_all add: FACT_CREATE_TRANSPORT_SIGNATURE_DOMAIN_def
      FACT_SUPERSEDE_TRANSPORT_SIGNATURE_DOMAIN_def SIGNATURE_DOMAIN_TAG_def DIGEST_DOMAIN_TAG_def
      as_bytes_def char_byte_inj)

text \<open>
  Domain separation: no byte string is the signing preimage of artifacts of two protocols,
  so a signature of an envelope, a create batch or a supersede batch is never one of another
  kind, and none is an input of the envelope digest.
\<close>

theorem signatures_never_cross_protocols:
  "\<not> (signing_preimage e = Inr p \<and> create_signing_preimage b = Inr p) \<and>
   \<not> (signing_preimage e = Inr p \<and> supersede_signing_preimage s = Inr p) \<and>
   \<not> (create_signing_preimage b = Inr p \<and> supersede_signing_preimage s = Inr p) \<and>
   signing_preimage e \<noteq> Inr (DIGEST_DOMAIN_TAG @ q)"
  by (auto simp: signing_preimage_eq create_signing_preimage_eq supersede_signing_preimage_eq
      domains_differ domains_differ [symmetric])

end
