(* ===== verification/Mnemes_Types.thy ===== *)
theory Mnemes_Types
  imports Rust_Text
begin

text \<open>
  The vocabulary of the control plane: identities, item references and the enums that are stored
  as text (\<open>src/types.rs\<close>, the head of \<open>src/shards.rs\<close>), and the errors of the layer
  (\<open>src/error.rs\<close>). The \<open>uuid\<close> crate is a parameter, as are the \<open>Display\<close> texts of the
  error types of other crates.
\<close>

section \<open>Errors\<close>

text \<open>The constructors of semantic-memory's error that the code builds, and any other one.\<close>

datatype MemoryError =
    InvalidKey string
  | CorruptData string string string
  | MemoryOther string

datatype MnemesError =
    DeviceNotFound string
  | DeviceNotActive string
  | InvalidCredential
  | AuthorizationDenied string
  | InvalidMemoryScope string
  | MemoryGrantDenied string
  | ActorProfileBindingDenied string
  | AuthorizationSnapshotInvalid string
  | BootstrapRejected string
  | ActorNotFound string
  | IdempotencyConflict string
  | Database string
  | ProvenanceEdgeNotFound string
  | InvalidProvenance string
  | InvalidAsOf string
  | InvalidShardCatalog string
  | LegacyGlobalStorePresent string
  | ConflictingShardItem string
  | Io string
  | Replication string
  | FactCreateRejected string
  | FactSupersedeRejected string
  | FactSupersedeSemanticConflict
  | Memory MemoryError

fun display_mnemes_error :: "(MemoryError \<Rightarrow> string) \<Rightarrow> MnemesError \<Rightarrow> string" where
  "display_mnemes_error dm (DeviceNotFound s) = ''device not found: '' @ s"
| "display_mnemes_error dm (DeviceNotActive s) = ''device is not active: '' @ s"
| "display_mnemes_error dm InvalidCredential = ''invalid device credential''"
| "display_mnemes_error dm (AuthorizationDenied s) = ''authorization denied: '' @ s"
| "display_mnemes_error dm (InvalidMemoryScope s) = ''invalid memory scope: '' @ s"
| "display_mnemes_error dm (MemoryGrantDenied s) = ''memory grant denied: '' @ s"
| "display_mnemes_error dm (ActorProfileBindingDenied s) = ''actor profile binding denied: '' @ s"
| "display_mnemes_error dm (AuthorizationSnapshotInvalid s) =
     ''authorization snapshot is stale or invalid: '' @ s"
| "display_mnemes_error dm (BootstrapRejected s) = ''bootstrap rejected: '' @ s"
| "display_mnemes_error dm (ActorNotFound s) = ''actor not found: '' @ s"
| "display_mnemes_error dm (IdempotencyConflict s) =
     ''idempotency conflict: operation with key '' @ s @ '' already exists''"
| "display_mnemes_error dm (Database s) = ''database error: '' @ s"
| "display_mnemes_error dm (ProvenanceEdgeNotFound s) = ''provenance edge not found: '' @ s"
| "display_mnemes_error dm (InvalidProvenance s) = ''invalid provenance request: '' @ s"
| "display_mnemes_error dm (InvalidAsOf s) = ''invalid as-of filter: '' @ s"
| "display_mnemes_error dm (InvalidShardCatalog s) = ''invalid shard catalog: '' @ s"
| "display_mnemes_error dm (LegacyGlobalStorePresent s) =
     ''legacy global memory store present in active runtime tree: '' @ s"
| "display_mnemes_error dm (ConflictingShardItem s) =
     ''conflicting content for canonical shard item '' @ s"
| "display_mnemes_error dm (Io s) = ''io error: '' @ s"
| "display_mnemes_error dm (Replication s) = ''replication error: '' @ s"
| "display_mnemes_error dm (FactCreateRejected s) = ''fact-create admission rejected: '' @ s"
| "display_mnemes_error dm (FactSupersedeRejected s) = ''fact-supersede admission rejected: '' @ s"
| "display_mnemes_error dm FactSupersedeSemanticConflict = ''fact-supersede semantic conflict''"
| "display_mnemes_error dm (Memory e) = ''underlying memory error: '' @ dm e"

text \<open>\<open>From<rusqlite::Error>\<close>.\<close>

definition mnemes_from_rusqlite :: "string \<Rightarrow> MnemesError" where
  "mnemes_from_rusqlite e = Database e"

section \<open>Opaque identities\<close>

text \<open>The functions of the \<open>uuid\<close> crate that the identities are built on.\<close>

record 'u uuid_lib =
  uuid_parse_str :: "string \<Rightarrow> string + 'u"
  uuid_is_random :: "'u \<Rightarrow> bool"
  uuid_is_rfc4122 :: "'u \<Rightarrow> bool"
  uuid_to_string :: "'u \<Rightarrow> string"

text \<open>What the crate documents: its text form is parsed back to the same UUID.\<close>

definition uuid_laws :: "'u uuid_lib \<Rightarrow> bool" where
  "uuid_laws u \<longleftrightarrow> (\<forall>x. uuid_parse_str u (uuid_to_string u x) = Inr x)"

text \<open>The \<open>parse\<close> of the macro \<open>opaque_uuid_v4\<close>; \<open>name\<close> is the name of the type.\<close>

definition opaque_parse :: "'u uuid_lib \<Rightarrow> string \<Rightarrow> string \<Rightarrow> MemoryError + string" where
  "opaque_parse u name s =
     bindR (map_err (\<lambda>error. InvalidKey (''invalid '' @ name @ '' '' @ quoted s @ '': '' @ error))
              (uuid_parse_str u s)) (\<lambda>parsed.
     if \<not> uuid_is_random u parsed \<or> \<not> uuid_is_rfc4122 u parsed
     then Inl (InvalidKey (''invalid '' @ name @ '' '' @ quoted s @
                 '': expected an RFC 4122 UUID v4''))
     else Inr (uuid_to_string u parsed))"

datatype DeviceId = DeviceId (device_id_str: string)
datatype ActorId = ActorId (actor_id_str: string)
datatype OperationId = OperationId (operation_id_str: string)
datatype ProvenanceEdgeId = ProvenanceEdgeId (edge_id_str: string)

definition device_id_parse :: "'u uuid_lib \<Rightarrow> string \<Rightarrow> MemoryError + DeviceId" where
  "device_id_parse u s = bindR (opaque_parse u ''DeviceId'' s) (\<lambda>t. Inr (DeviceId t))"

definition actor_id_parse :: "'u uuid_lib \<Rightarrow> string \<Rightarrow> MemoryError + ActorId" where
  "actor_id_parse u s = bindR (opaque_parse u ''ActorId'' s) (\<lambda>t. Inr (ActorId t))"

definition operation_id_parse :: "'u uuid_lib \<Rightarrow> string \<Rightarrow> MemoryError + OperationId" where
  "operation_id_parse u s = bindR (opaque_parse u ''OperationId'' s) (\<lambda>t. Inr (OperationId t))"

definition edge_id_parse :: "'u uuid_lib \<Rightarrow> string \<Rightarrow> MemoryError + ProvenanceEdgeId" where
  "edge_id_parse u s =
     bindR (opaque_parse u ''ProvenanceEdgeId'' s) (\<lambda>t. Inr (ProvenanceEdgeId t))"

text \<open>\<open>derive(PartialOrd, Ord)\<close>: the order of the text.\<close>

instantiation DeviceId :: linorder
begin

definition less_eq_DeviceId :: "DeviceId \<Rightarrow> DeviceId \<Rightarrow> bool" where
  "less_eq_DeviceId a b \<longleftrightarrow> device_id_str a \<le> device_id_str b"

definition less_DeviceId :: "DeviceId \<Rightarrow> DeviceId \<Rightarrow> bool" where
  "less_DeviceId a b \<longleftrightarrow> device_id_str a < device_id_str b"

instance
  by standard (auto simp: less_eq_DeviceId_def less_DeviceId_def intro: DeviceId.expand)

end

text \<open>Parsing an identity is idempotent: the canonical text parses to itself.\<close>

lemma opaque_parse_canonical:
  assumes "uuid_laws u" "opaque_parse u name s = Inr t"
  shows "opaque_parse u name' t = Inr t"
  using assms by (auto simp: opaque_parse_def uuid_laws_def result_simps split: if_splits)

section \<open>Item references\<close>

record MemoryItemRef =
  mir_kind :: string
  mir_id :: string

definition item_ref_new :: "string \<Rightarrow> string \<Rightarrow> MnemesError + MemoryItemRef" where
  "item_ref_new kind ident = bindR (checks
     [fail_if (trim kind = []) (InvalidProvenance ''memory item kind cannot be empty''),
      fail_if (trim ident = []) (InvalidProvenance ''memory item id cannot be empty'')])
     (\<lambda>_. Inr \<lparr> mir_kind = kind, mir_id = ident \<rparr>)"

text \<open>\<open>splitn(2, ':')\<close> yields at most two parts; a missing part is empty.\<close>

definition parse_key :: "string \<Rightarrow> MnemesError + MemoryItemRef" where
  "parse_key s =
     (let (kind, ident) = (case split_once CHR '':'' s of Some parts \<Rightarrow> parts | None \<Rightarrow> (s, [])) in
      if kind = [] \<or> ident = []
      then Inl (InvalidProvenance (''invalid memory item key '' @ quoted s))
      else item_ref_new kind ident)"

definition canonical_key :: "MemoryItemRef \<Rightarrow> string" where
  "canonical_key r = mir_kind r @ '':'' @ mir_id r"

lemma item_ref_new_ok:
  "item_ref_new k i = Inr r \<longleftrightarrow> trim k \<noteq> [] \<and> trim i \<noteq> [] \<and> r = \<lparr> mir_kind = k, mir_id = i \<rparr>"
  by (auto simp: item_ref_new_def result_simps)

lemma parse_key_ok:
  "parse_key s = Inr r \<longleftrightarrow>
     s = canonical_key r \<and> CHR '':'' \<notin> set (mir_kind r) \<and> trim (mir_kind r) \<noteq> [] \<and>
     trim (mir_id r) \<noteq> []"
proof (cases "split_once CHR '':'' s")
  case None
  then have "CHR '':'' \<notin> set s" by (simp add: split_once_None)
  moreover have "\<not> is_ok (parse_key s)" by (simp add: parse_key_def None)
  ultimately show ?thesis by (auto simp: canonical_key_def)
next
  case (Some p)
  obtain k i where p: "p = (k, i)" by (cases p)
  with Some have s: "s = k @ CHR '':'' # i" "CHR '':'' \<notin> set k"
    by (auto simp: split_once_Some)
  have uniq: "k' = k \<and> i' = i" if "s = k' @ CHR '':'' # i'" "CHR '':'' \<notin> set k'" for k' i'
    using that Some p split_once_Some [of "CHR '':''" s k' i'] by simp
  have "parse_key s = Inr r \<longleftrightarrow> trim k \<noteq> [] \<and> trim i \<noteq> [] \<and> r = \<lparr> mir_kind = k, mir_id = i \<rparr>"
    by (auto simp: parse_key_def Some p item_ref_new_ok)
  also have "\<dots> \<longleftrightarrow> s = canonical_key r \<and> CHR '':'' \<notin> set (mir_kind r) \<and>
      trim (mir_kind r) \<noteq> [] \<and> trim (mir_id r) \<noteq> []"
  proof -
    have "r = \<lparr> mir_kind = k, mir_id = i \<rparr> \<longleftrightarrow> mir_kind r = k \<and> mir_id r = i"
      by (cases r) simp
    moreover have "s = canonical_key r \<and> CHR '':'' \<notin> set (mir_kind r) \<longleftrightarrow>
        mir_kind r = k \<and> mir_id r = i"
      unfolding canonical_key_def append_Cons append_Nil using s uniq by blast
    ultimately show ?thesis by metis
  qed
  finally show ?thesis .
qed

text \<open>
  The key of an item reference round-trips exactly for the references whose kind has no
  colon: \<open>parse_key\<close> accepts a text precisely when it is the canonical key of such a reference
  with nonblank parts, and returns that reference.
\<close>

theorem item_key_roundtrip:
  "parse_key s = Inr r \<longleftrightarrow>
     canonical_key r = s \<and> CHR '':'' \<notin> set (mir_kind r) \<and>
     item_ref_new (mir_kind r) (mir_id r) = Inr r"
  using parse_key_ok [of s r] item_ref_new_ok [of "mir_kind r" "mir_id r" r] by auto

section \<open>Enums stored as text\<close>

datatype ProvenanceEdgeType =
    ObservedBy
  | RecordedBy
  | DerivedFrom
  | Supports
  | Contradicts
  | Supersedes
  | RetrievedFrom

fun edge_type_as_str :: "ProvenanceEdgeType \<Rightarrow> string" where
  "edge_type_as_str ObservedBy = ''observed_by''"
| "edge_type_as_str RecordedBy = ''recorded_by''"
| "edge_type_as_str DerivedFrom = ''derived_from''"
| "edge_type_as_str Supports = ''supports''"
| "edge_type_as_str Contradicts = ''contradicts''"
| "edge_type_as_str Supersedes = ''supersedes''"
| "edge_type_as_str RetrievedFrom = ''retrieved_from''"

definition edge_type_parse :: "string \<Rightarrow> string \<Rightarrow> MemoryError + ProvenanceEdgeType" where
  "edge_type_parse s row_id =
     (if s = ''observed_by'' then Inr ObservedBy
      else if s = ''recorded_by'' then Inr RecordedBy
      else if s = ''derived_from'' then Inr DerivedFrom
      else if s = ''supports'' then Inr Supports
      else if s = ''contradicts'' then Inr Contradicts
      else if s = ''supersedes'' then Inr Supersedes
      else if s = ''retrieved_from'' then Inr RetrievedFrom
      else Inl (CorruptData ''provenance_edges'' row_id
                 (''invalid provenance edge type '' @ quoted s)))"

datatype DeviceStatus = DevActive | DevRevoked | DevQuarantined

fun device_status_as_str :: "DeviceStatus \<Rightarrow> string" where
  "device_status_as_str DevActive = ''active''"
| "device_status_as_str DevRevoked = ''revoked''"
| "device_status_as_str DevQuarantined = ''quarantined''"

definition device_status_parse :: "string \<Rightarrow> string \<Rightarrow> MemoryError + DeviceStatus" where
  "device_status_parse s row_id =
     (if s = ''active'' then Inr DevActive
      else if s = ''revoked'' then Inr DevRevoked
      else if s = ''quarantined'' then Inr DevQuarantined
      else Inl (CorruptData ''devices'' row_id (''invalid status '' @ quoted s)))"

datatype ActorKind =
    Human
  | Hermes
  | Codex
  | Ollama
  | Service
  | Plugin
  | Process
  | Unknown string

fun actor_kind_as_str :: "ActorKind \<Rightarrow> string" where
  "actor_kind_as_str Human = ''human''"
| "actor_kind_as_str Hermes = ''hermes''"
| "actor_kind_as_str Codex = ''codex''"
| "actor_kind_as_str Ollama = ''ollama''"
| "actor_kind_as_str Service = ''service''"
| "actor_kind_as_str Plugin = ''plugin''"
| "actor_kind_as_str Process = ''process''"
| "actor_kind_as_str (Unknown s) = s"

definition actor_kind_parse :: "string \<Rightarrow> ActorKind" where
  "actor_kind_parse s =
     (if s = ''human'' then Human
      else if s = ''hermes'' then Hermes
      else if s = ''codex'' then Codex
      else if s = ''ollama'' then Ollama
      else if s = ''service'' then Service
      else if s = ''plugin'' then Plugin
      else if s = ''process'' then Process
      else Unknown s)"

datatype ToolProfile = Agent | Operator

fun tool_profile_as_str :: "ToolProfile \<Rightarrow> string" where
  "tool_profile_as_str Agent = ''agent''"
| "tool_profile_as_str Operator = ''operator''"

definition tool_profile_parse :: "string \<Rightarrow> ToolProfile option" where
  "tool_profile_parse s =
     (if s = ''agent'' then Some Agent else if s = ''operator'' then Some Operator else None)"

definition is_full :: "ToolProfile \<Rightarrow> bool" where
  "is_full p \<longleftrightarrow> p = Operator"

datatype OperationKind = Observe | Assert | Supersede | Revoke | Redact | Adjudicate

fun operation_kind_as_str :: "OperationKind \<Rightarrow> string" where
  "operation_kind_as_str Observe = ''observe''"
| "operation_kind_as_str Assert = ''assert''"
| "operation_kind_as_str Supersede = ''supersede''"
| "operation_kind_as_str Revoke = ''revoke''"
| "operation_kind_as_str Redact = ''redact''"
| "operation_kind_as_str Adjudicate = ''adjudicate''"

definition operation_kind_parse :: "string \<Rightarrow> string \<Rightarrow> MemoryError + OperationKind" where
  "operation_kind_parse s row_id =
     (if s = ''observe'' then Inr Observe
      else if s = ''assert'' then Inr Assert
      else if s = ''supersede'' then Inr Supersede
      else if s = ''revoke'' then Inr Revoke
      else if s = ''redact'' then Inr Redact
      else if s = ''adjudicate'' then Inr Adjudicate
      else Inl (CorruptData ''operation_envelopes'' row_id
                 (''invalid operation_kind '' @ quoted s)))"

datatype ShardState = ShardActive | ShardQuarantined | ShardRevoked

fun shard_state_as_str :: "ShardState \<Rightarrow> string" where
  "shard_state_as_str ShardActive = ''active''"
| "shard_state_as_str ShardQuarantined = ''quarantined''"
| "shard_state_as_str ShardRevoked = ''revoked''"

definition shard_state_parse :: "string \<Rightarrow> MnemesError + ShardState" where
  "shard_state_parse s =
     (if s = ''active'' then Inr ShardActive
      else if s = ''quarantined'' then Inr ShardQuarantined
      else if s = ''revoked'' then Inr ShardRevoked
      else Inl (InvalidShardCatalog (''invalid shard state '' @ quoted s)))"

fun shard_state_from_device :: "DeviceStatus \<Rightarrow> ShardState" where
  "shard_state_from_device DevActive = ShardActive"
| "shard_state_from_device DevQuarantined = ShardQuarantined"
| "shard_state_from_device DevRevoked = ShardRevoked"

interpretation edge_type: text_codec edge_type_as_str "\<lambda>s. edge_type_parse s row" for row
proof
  show "edge_type_parse (edge_type_as_str x) row = Inr x" for x
    by (cases x) (simp_all add: edge_type_parse_def)
qed (auto simp: edge_type_parse_def split: if_splits)

interpretation device_status: text_codec device_status_as_str "\<lambda>s. device_status_parse s row" for row
proof
  show "device_status_parse (device_status_as_str x) row = Inr x" for x
    by (cases x) (simp_all add: device_status_parse_def)
qed (auto simp: device_status_parse_def split: if_splits)

interpretation tool_profile: text_codec tool_profile_as_str "\<lambda>s. ok_or () (tool_profile_parse s)"
proof
  show "ok_or () (tool_profile_parse (tool_profile_as_str x)) = Inr x" for x
    by (cases x) (simp_all add: tool_profile_parse_def)
qed (auto simp: tool_profile_parse_def ok_or_eq split: if_splits)

interpretation operation_kind: text_codec operation_kind_as_str "\<lambda>s. operation_kind_parse s row"
  for row
proof
  show "operation_kind_parse (operation_kind_as_str x) row = Inr x" for x
    by (cases x) (simp_all add: operation_kind_parse_def)
qed (auto simp: operation_kind_parse_def split: if_splits)

interpretation shard_state: text_codec shard_state_as_str shard_state_parse
proof
  show "shard_state_parse (shard_state_as_str x) = Inr x" for x
    by (cases x) (simp_all add: shard_state_parse_def)
qed (auto simp: shard_state_parse_def split: if_splits)

lemma actor_kind_lossless: "actor_kind_as_str (actor_kind_parse s) = s"
  by (simp add: actor_kind_parse_def)

lemma actor_kind_parse_as_str:
  "actor_kind_parse (actor_kind_as_str k) = k \<longleftrightarrow>
     (\<forall>s. k = Unknown s \<longrightarrow> s \<notin> actor_kind_as_str ` {Human, Hermes, Codex, Ollama, Service, Plugin, Process})"
  by (cases k) (auto simp: actor_kind_parse_def)

text \<open>
  What SQLite and JSON store is the enum: for every enum of the control plane, reading a
  text succeeds exactly on the texts that writing produces, and gives back the value written;
  an actor kind accepts every text and keeps it byte for byte.
\<close>

theorem stored_enums_roundtrip:
  "(edge_type_parse s row = Inr e \<longleftrightarrow> s = edge_type_as_str e) \<and>
   (device_status_parse s row = Inr d \<longleftrightarrow> s = device_status_as_str d) \<and>
   (tool_profile_parse s = Some t \<longleftrightarrow> s = tool_profile_as_str t) \<and>
   (operation_kind_parse s row = Inr k \<longleftrightarrow> s = operation_kind_as_str k) \<and>
   (shard_state_parse s = Inr h \<longleftrightarrow> s = shard_state_as_str h) \<and>
   actor_kind_as_str (actor_kind_parse s) = s"
  using tool_profile.parse_ok_iff [of s t]
  by (simp add: edge_type.parse_ok_iff device_status.parse_ok_iff operation_kind.parse_ok_iff
      shard_state.parse_ok_iff actor_kind_lossless ok_or_eq)

section \<open>Structs of the control plane\<close>

record Device =
  dev_device_id :: DeviceId
  dev_label :: string
  dev_platform :: string
  dev_hostname :: string
  dev_credential_fingerprint :: "string option"
  dev_first_seen_at :: string
  dev_last_seen_at :: string
  dev_status :: DeviceStatus

definition device_new :: "DeviceId \<Rightarrow> string \<Rightarrow> string \<Rightarrow> string \<Rightarrow> Device" where
  "device_new device_id label platform hostname =
     \<lparr> dev_device_id = device_id, dev_label = label, dev_platform = platform,
       dev_hostname = hostname, dev_credential_fingerprint = None, dev_first_seen_at = [],
       dev_last_seen_at = [], dev_status = DevActive \<rparr>"

record Actor =
  act_actor_id :: ActorId
  act_device_id :: DeviceId
  act_tool_profile :: ToolProfile
  act_actor_kind :: ActorKind
  act_provider_model :: "string option"
  act_recorded_at :: string

definition actor_new :: "ActorId \<Rightarrow> DeviceId \<Rightarrow> ActorKind \<Rightarrow> Actor" where
  "actor_new actor_id device_id actor_kind =
     \<lparr> act_actor_id = actor_id, act_device_id = device_id, act_tool_profile = Agent,
       act_actor_kind = actor_kind, act_provider_model = None, act_recorded_at = [] \<rparr>"

record OperationEnvelope =
  op_operation_id :: OperationId
  op_idempotency_key :: string
  op_requesting_device_id :: DeviceId
  op_requesting_actor_id :: ActorId
  op_recording_device_id :: DeviceId
  op_recording_server_id :: DeviceId
  op_operation_kind :: OperationKind
  op_target_kind :: string
  op_target_id :: string
  op_content_digest :: string
  op_observed_at :: "string option"
  op_valid_time :: "string option"
  op_recorded_at :: string
  op_receipt_id :: "string option"

end
