(* ===== verification/Sql_Table.thy ===== *)
theory Sql_Table
  imports Mnemes_Types
begin

text \<open>
  The part of SQLite that the stores of \<open>src/store.rs\<close> rely on: a table is the list of its rows
  in insertion order, \<open>INSERT\<close> checks the constraints of the schema and appends, \<open>UPDATE\<close>
  changes the rows that satisfy its condition and reports how many there were.

  Rows hold the typed values that the program writes. The texts in the columns are those of
  \<open>Mnemes_Types\<close>, which read back as what was written (\<open>stored_enums_roundtrip\<close>,
  \<open>opaque_parse_canonical\<close>), so a typed row is the row.
\<close>

datatype violation =
    CheckConstraint string
  | PrimaryKey string
  | UniqueIndex string
  | ForeignKey string

definition row_by :: "('r \<Rightarrow> 'k) \<Rightarrow> 'k \<Rightarrow> 'r list \<Rightarrow> 'r option" where
  "row_by key k rows = find (\<lambda>r. key r = k) rows"

definition has_key :: "('r \<Rightarrow> 'k) \<Rightarrow> 'k \<Rightarrow> 'r list \<Rightarrow> bool" where
  "has_key key k rows \<longleftrightarrow> list_ex (\<lambda>r. key r = k) rows"

text \<open>The constraints are checked in the given order; the first violated one is reported.\<close>

definition sql_insert ::
    "(violation \<Rightarrow> string) \<Rightarrow> (bool \<times> violation) list \<Rightarrow> 'r \<Rightarrow> 'r list \<Rightarrow> MnemesError + 'r list" where
  "sql_insert message violations row rows =
     bindR (checks (map (\<lambda>(violated, v). fail_if violated (mnemes_from_rusqlite (message v)))
              violations)) (\<lambda>_. Inr (rows @ [row]))"

definition sql_update :: "('r \<Rightarrow> bool) \<Rightarrow> ('r \<Rightarrow> 'r) \<Rightarrow> 'r list \<Rightarrow> nat \<times> 'r list" where
  "sql_update p f rows = (length (filter p rows), map (\<lambda>r. if p r then f r else r) rows)"

text \<open>\<open>LIMIT n\<close>: a negative limit is no limit.\<close>

definition sql_limit :: "i64 \<Rightarrow> 'a list \<Rightarrow> 'a list" where
  "sql_limit n xs = (if n < 0 then xs else take (nat n) xs)"

lemma sql_insert_ok [result_simps]:
  "sql_insert message vs row rows = Inr rows' \<longleftrightarrow>
     (\<forall>v \<in> set vs. \<not> fst v) \<and> rows' = rows @ [row]"
  by (auto simp: sql_insert_def bindR_eq_Inr checks_ok fail_if_eq split_beta)

lemma has_key_iff: "has_key key k rows \<longleftrightarrow> k \<in> key ` set rows"
  by (auto simp: has_key_def list_ex_iff)

lemma row_by_None: "row_by key k rows = None \<longleftrightarrow> k \<notin> key ` set rows"
  by (auto simp: row_by_def find_None_iff)

lemma row_by_SomeD: "row_by key k rows = Some r \<Longrightarrow> r \<in> set rows \<and> key r = k"
  unfolding row_by_def find_Some_iff by auto

lemma row_by_Nil [simp]: "row_by key k [] = None"
  by (simp add: row_by_def)

lemma row_by_append:
  "row_by key k (rows @ rows') = (case row_by key k rows of None \<Rightarrow> row_by key k rows' | Some r \<Rightarrow> Some r)"
  by (induction rows) (auto simp: row_by_def)

lemma row_by_single: "row_by key k [r] = (if key r = k then Some r else None)"
  by (simp add: row_by_def)

lemma row_by_distinct:
  "distinct (map key rows) \<Longrightarrow> row_by key k rows = Some r \<longleftrightarrow> r \<in> set rows \<and> key r = k"
proof
  assume d: "distinct (map key rows)" and "r \<in> set rows \<and> key r = k"
  then show "row_by key k rows = Some r"
  proof (induction rows)
    case (Cons a rows)
    have "r = a" if "key a = k" 
      using Cons.prems that by simp (metis image_eqI)
    with Cons show ?case by (auto simp: row_by_def)
  qed simp
qed (rule row_by_SomeD)

lemma row_by_map:
  "(\<And>r. key (f r) = key r) \<Longrightarrow> row_by key k (map f rows) = map_option f (row_by key k rows)"
  by (induction rows) (auto simp: row_by_def)

lemma sql_update_keys:
  "(\<And>r. key (f r) = key r) \<Longrightarrow> map key (snd (sql_update p f rows)) = map key rows"
  by (simp add: sql_update_def)

lemma row_by_update:
  "(\<And>r. key (f r) = key r) \<Longrightarrow>
   row_by key k (snd (sql_update p f rows)) =
     map_option (\<lambda>r. if p r then f r else r) (row_by key k rows)"
  unfolding sql_update_def snd_conv by (rule row_by_map) simp

lemma set_update: "set (snd (sql_update p f rows)) = (\<lambda>r. if p r then f r else r) ` set rows"
  by (simp add: sql_update_def)

lemma update_count: "fst (sql_update p f rows) = 0 \<longleftrightarrow> (\<forall>r \<in> set rows. \<not> p r)"
  by (simp add: sql_update_def filter_empty_conv)

text \<open>
  A table with a primary key is a keyed table: inserting under the primary key constraint
  succeeds exactly for a fresh key and changes the lookup of that key only.
\<close>

definition insert_keyed ::
    "(violation \<Rightarrow> string) \<Rightarrow> string \<Rightarrow> ('r \<Rightarrow> 'k) \<Rightarrow> 'r list \<Rightarrow> 'r \<Rightarrow> MnemesError + 'r list" where
  "insert_keyed message name key rows row =
     sql_insert message [(has_key key (key row) rows, PrimaryKey name)] row rows"

interpretation primary_key: keyed_table "\<lambda>rows k. row_by key k rows" "insert_keyed message name key" key
  for key :: "'r \<Rightarrow> 'k" and message name
proof
  fix t :: "'r list" and r
  show "is_ok (insert_keyed message name key t r) \<longleftrightarrow> row_by key (key r) t = None"
    by (auto simp: is_ok_iff insert_keyed_def sql_insert_ok has_key_iff row_by_None)
  fix t' assume "insert_keyed message name key t r = Inr t'"
  then have "t' = t @ [r]" "row_by key (key r) t = None"
    by (auto simp: insert_keyed_def sql_insert_ok has_key_iff row_by_None)
  then show "(\<lambda>k. row_by key k t') = (\<lambda>k. row_by key k t)(key r \<mapsto> r)"
    by (auto simp: row_by_append row_by_single fun_eq_iff split: option.splits)
qed

end
