(* ===== verification/Exactly_Once.thy ===== *)
theory Exactly_Once
  imports Mnemes_Prelude
begin

text \<open>
  The contract of the receivers that make retries safe: the replica journal, the fact-create
  acknowledgements and the fact-supersede acknowledgements. A receiver records an entry of what it
  applied under a key; a key that is already recorded is answered from the record. \<open>Inr True\<close> says that the effect was carried out now, \<open>Inr False\<close> that it had been.
\<close>

fun apply_run :: "('k \<Rightarrow> 'p \<Rightarrow> 'd \<Rightarrow> ('e + bool) \<times> 'd) \<Rightarrow> ('k \<times> 'p) list \<Rightarrow> 'd \<Rightarrow>
    ('e + bool) list \<times> 'd" where
  "apply_run f [] d = ([], d)"
| "apply_run f ((k, p) # ops) d =
     (let (r, d') = f k p d; (rs, d'') = apply_run f ops d' in (r # rs, d''))"

lemma length_apply_run: "length (fst (apply_run f ops d)) = length ops"
  by (induction ops arbitrary: d) (auto split: prod.splits, metis fst_conv)

locale exactly_once =
  fixes recorded :: "'d \<Rightarrow> 'k \<Rightarrow> 'q option"
    and apply_op :: "'k \<Rightarrow> 'p \<Rightarrow> 'd \<Rightarrow> ('e + bool) \<times> 'd"
    and entry :: "'p \<Rightarrow> 'q"
    and same :: "'q \<Rightarrow> 'p \<Rightarrow> bool"
  assumes failed_unrecorded: "apply_op k p d = (Inl e, d') \<Longrightarrow> recorded d' = recorded d"
    and answered_from_record: "recorded d k = Some q \<Longrightarrow> apply_op k p d = (r, d') \<Longrightarrow>
      d' = d \<and> (\<forall>b. r = Inr b \<longrightarrow> \<not> b \<and> same q p)"
    and applied_recorded: "recorded d k = None \<Longrightarrow> apply_op k p d = (Inr b, d') \<Longrightarrow>
      b \<and> recorded d' = (recorded d)(k \<mapsto> entry p)"
begin

lemma recorded_stable:
  assumes "recorded d k = Some q" "apply_op k' p d = (r, d')"
  shows "recorded d' k = Some q"
proof (cases "recorded d k'")
  case (Some q')
  then show ?thesis using answered_from_record [OF Some assms(2)] assms(1) by simp
next
  case None
  show ?thesis
  proof (cases r)
    case (Inl e)
    then show ?thesis using failed_unrecorded [of k' p d e d'] assms by simp
  next
    case (Inr b)
    then show ?thesis
      using applied_recorded [OF None, of p b d'] assms None by auto
  qed
qed

lemma recorded_stable_run:
  "recorded d k = Some q \<Longrightarrow> apply_run apply_op ops d = (rs, d') \<Longrightarrow> recorded d' k = Some q"
proof (induction ops arbitrary: d rs)
  case (Cons op ops)
  obtain k' p where op: "op = (k', p)" by (cases op)
  obtain r d1 where step: "apply_op k' p d = (r, d1)" by fastforce
  obtain rs1 where "apply_run apply_op ops d1 = (rs1, d')"
    using Cons.prems(2) by (auto simp: op step split: prod.splits)
  with Cons.IH recorded_stable [OF Cons.prems(1) step] show ?case by blast
qed simp

lemma succeeded_recorded:
  assumes "apply_op k p d = (Inr b, d')"
  shows "\<exists>q. recorded d' k = Some q \<and> (same q p \<or> q = entry p)"
proof (cases "recorded d k")
  case None
  then show ?thesis using applied_recorded [OF None assms] by simp
next
  case (Some q)
  then show ?thesis using answered_from_record [OF Some assms] by auto
qed

text \<open>A retry never runs the effect again.\<close>

lemma retry_unchanged:
  assumes "apply_op k p d = (Inr b, d')" "apply_op k p' d' = (r, d'')"
  shows "d'' = d' \<and> r \<noteq> Inr True"
proof -
  obtain q where "recorded d' k = Some q" using succeeded_recorded [OF assms(1)] by blast
  from answered_from_record [OF this assms(2)] show ?thesis by auto
qed

lemma replay_recorded:
  "\<forall>kp \<in> set ops. recorded d (fst kp) \<noteq> None \<Longrightarrow> apply_run apply_op ops d = (rs, d') \<Longrightarrow>
   d' = d \<and> Inr True \<notin> set rs"
proof (induction ops arbitrary: rs)
  case (Cons op ops)
  obtain k p where op: "op = (k, p)" by (cases op)
  obtain q where q: "recorded d k = Some q" using Cons.prems(1) op by auto
  obtain r d1 where step: "apply_op k p d = (r, d1)" by fastforce
  have d1: "d1 = d" "r \<noteq> Inr True" using answered_from_record [OF q step] by auto
  obtain rs1 where rest: "apply_run apply_op ops d = (rs1, d')" and rs: "rs = r # rs1"
    using Cons.prems(2) d1 by (auto simp: op step split: prod.splits)
  from Cons.IH [OF _ rest] Cons.prems(1) rs d1(2) show ?case by auto
qed simp

text \<open>A whole batch can be sent again: nothing changes and nothing is applied a second time.\<close>

lemma batch_retry:
  assumes "apply_run apply_op ops d = (rs, d')" "\<forall>r \<in> set rs. is_ok r"
    and "apply_run apply_op ops d' = (rs', d'')"
  shows "d'' = d' \<and> Inr True \<notin> set rs'"
proof -
  have "\<forall>kp \<in> set ops. recorded d' (fst kp) \<noteq> None"
    using assms(1,2)
  proof (induction ops arbitrary: d rs)
    case (Cons op ops)
    obtain k p where op: "op = (k, p)" by (cases op)
    obtain r d1 where step: "apply_op k p d = (r, d1)" by fastforce
    obtain rs1 where rest: "apply_run apply_op ops d1 = (rs1, d')" and rs: "rs = r # rs1"
      using Cons.prems(1) by (auto simp: op step split: prod.splits)
    obtain b where "r = Inr b" using Cons.prems(2) rs by (auto simp: is_ok_iff)
    then obtain q where "recorded d1 k = Some q" using succeeded_recorded step by blast
    then have "recorded d' k = Some q" using recorded_stable_run rest by blast
    with Cons.IH [OF rest] Cons.prems(2) rs op show ?case by auto
  qed simp
  from replay_recorded [OF this assms(3)] show ?thesis .
qed

text \<open>Over any run, with retries in any order, one key is applied at most once.\<close>

lemma applied_at_most_once:
  "apply_run apply_op ops d = (rs, d') \<Longrightarrow>
   length (filter (\<lambda>((k', p), r). k' = k \<and> r = Inr True) (zip ops rs)) \<le>
     (if recorded d k = None then 1 else 0)"
proof (induction ops arbitrary: d rs)
  case (Cons op ops)
  obtain k' p where op: "op = (k', p)" by (cases op)
  obtain r d1 where step: "apply_op k' p d = (r, d1)" by fastforce
  obtain rs1 where rest: "apply_run apply_op ops d1 = (rs1, d')" and rs: "rs = r # rs1"
    using Cons.prems by (auto simp: op step split: prod.splits)
  let ?P = "\<lambda>((k', p), r). k' = k \<and> r = Inr True"
  define n where "n = length (filter ?P (zip ops rs1))"
  have IH: "n \<le> (if recorded d1 k = None then 1 else 0)"
    unfolding n_def by (rule Cons.IH [OF rest])
  have count: "length (filter ?P (zip (op # ops) rs)) =
      (if k' = k \<and> r = Inr True then Suc n else n)"
    by (simp add: op rs n_def)
  have new: "recorded d k = None \<and> recorded d1 k \<noteq> None" if "k' = k" "r = Inr True"
  proof
    show "recorded d k = None"
    proof (cases "recorded d k")
      case (Some q)
      then have "recorded d k' = Some q" by (simp only: that)
      from answered_from_record [OF this step] that(2) show ?thesis by blast
    qed
    have "apply_op k p d = (Inr True, d1)" using step by (simp only: that)
    from succeeded_recorded [OF this] show "recorded d1 k \<noteq> None" by blast
  qed
  have old: "recorded d1 k \<noteq> None" if "recorded d k \<noteq> None"
    using recorded_stable [OF _ step] that by blast
  show ?case
  proof (cases "k' = k \<and> r = Inr True")
    case True
    then have "n = 0" using new IH by (simp only: if_False)
    with True new show ?thesis unfolding count by simp
  next
    case False
    show ?thesis
    proof (cases "recorded d k = None")
      case True
      have "n \<le> 1" using IH by (simp split: if_split_asm)
      then show ?thesis unfolding count if_not_P [OF False] if_P [OF True] .
    next
      case known: False
      then have "n = 0" using old [OF known] IH by (simp only: if_False)
      then show ?thesis unfolding count if_not_P [OF False] by simp
    qed
  qed
qed simp

end

end
