(* ===== verification/Replica_Sync.thy ===== *)
theory Replica_Sync
  imports Sql_Table Replication_Keys Exactly_Once
begin

text \<open>
  The replica write path (\<open>src/replica.rs\<close>), the export and synchronisation of journal batches
  (\<open>src/sync.rs\<close>) and the HTTP batch handler (\<open>src/sync_handler.rs\<close>).

  A replica database is its \<open>mutation_journal\<close> rows and the rest of it, the semantic memory,
  of any type \<open>'m\<close>; the journal has the unique index (device, store, sequence) of the canonical
  schema. The replay closure is an argument and may do anything to the database. Failures of
  SQLite itself (opening, querying, beginning, committing) are the record \<open>db_faults\<close>, so that
  every early return is a branch of the model; a transaction that is not committed leaves no
  trace.
\<close>

section \<open>The database\<close>

record journal_row =
  jr_home_device_id :: string
  jr_store_id :: string
  jr_sequence :: i64
  jr_operation_kind :: string
  jr_payload :: "byte list"

record 'm replica_db =
  rdb_journal :: "journal_row list"
  rdb_memory :: 'm

record db_faults =
  fault_open :: "string option"
  fault_query :: "string option"
  fault_begin :: "string option"
  fault_commit :: "string option"
  fault_row :: "(nat \<times> string) option"

definition no_faults :: db_faults where
  "no_faults = \<lparr> fault_open = None, fault_query = None, fault_begin = None, fault_commit = None,
     fault_row = None \<rparr>"

definition fault :: "(string \<Rightarrow> 'e) \<Rightarrow> string option \<Rightarrow> 'e + unit" where
  "fault f x = (case x of None \<Rightarrow> Inr () | Some e \<Rightarrow> Inl (f e))"

text \<open>Stepping through a query up to step \<open>n\<close>, counted from 0, when the step \<open>k\<close> fails.\<close>

definition step_fault :: "(string \<Rightarrow> 'e) \<Rightarrow> (nat \<times> string) option \<Rightarrow> nat \<Rightarrow> 'e + unit" where
  "step_fault f x n = (case x of None \<Rightarrow> Inr () | Some (k, e) \<Rightarrow> fail_if (k \<le> n) (f e))"

definition row_key :: "journal_row \<Rightarrow> string \<times> string \<times> i64" where
  "row_key r = (jr_home_device_id r, jr_store_id r, jr_sequence r)"

definition find_row :: "'m replica_db \<Rightarrow> string \<Rightarrow> string \<Rightarrow> i64 \<Rightarrow> journal_row option" where
  "find_row db device store sequence =
     find (\<lambda>r. row_key r = (device, store, sequence)) (rdb_journal db)"

text \<open>\<open>INSERT\<close> under the unique index; \<open>unique_text\<close> is SQLite's message.\<close>

definition insert_row :: "string \<Rightarrow> journal_row \<Rightarrow> 'm replica_db \<Rightarrow> string + 'm replica_db" where
  "insert_row unique_text row db =
     (if row_key row \<in> set (map row_key (rdb_journal db)) then Inl unique_text
      else Inr (db\<lparr>rdb_journal := rdb_journal db @ [row]\<rparr>))"

section \<open>Applying one entry\<close>

datatype ApplyOutcome = Applied i64 | AlreadyApplied i64

record ReplicaApplier =
  ap_device_id :: string
  ap_store_id :: string

text \<open>The body of the transaction: the replay, then the journal row.\<close>

definition apply_transaction ::
    "string \<Rightarrow> ReplicaApplier \<Rightarrow> i64 \<Rightarrow> string \<Rightarrow> byte list \<Rightarrow>
     ('m replica_db \<Rightarrow> MnemesError + 'm replica_db) \<Rightarrow> 'm replica_db \<Rightarrow>
     MnemesError + 'm replica_db" where
  "apply_transaction unique_text self journal_sequence operation_kind payload replay_fn db =
     bindR (replay_fn db) (\<lambda>db.
     map_err (\<lambda>e. Replication (''journal record on apply: '' @ e))
       (insert_row unique_text
          \<lparr> jr_home_device_id = ap_device_id self, jr_store_id = ap_store_id self,
            jr_sequence = journal_sequence, jr_operation_kind = operation_kind,
            jr_payload = payload \<rparr> db))"

definition apply_entry ::
    "crypto \<Rightarrow> string \<Rightarrow> db_faults \<Rightarrow> ReplicaApplier \<Rightarrow> i64 \<Rightarrow> string \<Rightarrow> byte list \<Rightarrow>
     ('m replica_db \<Rightarrow> MnemesError + 'm replica_db) \<Rightarrow> 'm replica_db \<Rightarrow>
     (MnemesError + ApplyOutcome) \<times> 'm replica_db" where
  "apply_entry c unique_text io self journal_sequence operation_kind payload replay_fn db =
     (case checks
        [fault (\<lambda>e. Replication (''cannot open replica for apply: '' @ e)) (fault_open io),
         fault (\<lambda>e. Replication (''cannot check replay state for sequence '' @
                  dec_int journal_sequence @ '': '' @ e)) (fault_query io)] of
        Inl e \<Rightarrow> (Inl e, db)
      | Inr _ \<Rightarrow>
     (case find_row db (ap_device_id self) (ap_store_id self) journal_sequence of
        Some stored \<Rightarrow>
          (if sha256 c (jr_payload stored) \<noteq> sha256 c payload
           then (Inl (Replication (''replay payload mismatch for sequence '' @
                   dec_int journal_sequence)), db)
           else (Inr (AlreadyApplied journal_sequence), db))
      | None \<Rightarrow>
     (case bindR (fault (\<lambda>e. Replication (''begin apply tx: '' @ e)) (fault_begin io)) (\<lambda>_.
           bindR (apply_transaction unique_text self journal_sequence operation_kind payload
                    replay_fn db) (\<lambda>tx.
           bindR (fault (\<lambda>e. Replication (''commit apply tx: '' @ e)) (fault_commit io)) (\<lambda>_.
           Inr tx))) of
        Inl e \<Rightarrow> (Inl e, db)
      | Inr tx \<Rightarrow> (Inr (Applied journal_sequence), tx))))"

section \<open>Exporting the journal of a device\<close>

record JournalPayload =
  jp_sequence :: i64
  jp_operation_kind :: string
  jp_payload :: "byte list"

text \<open>The limit of the export is a \<open>usize as i64\<close>.\<close>

definition usize_as_i64 :: "usize \<Rightarrow> i64" where
  "usize_as_i64 n = u64_as_i64 (of_nat n)"

definition export_rows ::
    "journal_row list \<Rightarrow> string \<Rightarrow> string \<Rightarrow> i64 \<Rightarrow> i64 \<Rightarrow> JournalPayload list" where
  "export_rows rows home_device_id store_id start_sequence limit =
     sql_limit limit
       (map (\<lambda>r. \<lparr> jp_sequence = jr_sequence r, jp_operation_kind = jr_operation_kind r,
                  jp_payload = jr_payload r \<rparr>)
         (sort_key jr_sequence
           (filter (\<lambda>r. jr_home_device_id r = home_device_id \<and> jr_store_id r = store_id \<and>
                       start_sequence \<le> jr_sequence r) rows)))"

text \<open>The loop over the rows: the entries before the first gap, the next sequence, the gap flag.\<close>

fun take_contiguous :: "i64 \<Rightarrow> JournalPayload list \<Rightarrow> JournalPayload list \<times> i64 \<times> bool" where
  "take_contiguous expected [] = ([], expected, False)"
| "take_contiguous expected (entry # rows) =
     (if jp_sequence entry \<noteq> expected then ([], expected, True)
      else let (entries, next_sequence, has_gap) =
                 take_contiguous (i64_add (jp_sequence entry) 1) rows
           in (entry # entries, next_sequence, has_gap))"

text \<open>
  The rows are read one by one: with \<open>n\<close> entries before the first gap or the end, the steps
  \<open>0, \<dots>, n\<close> of the query are made, and a step that fails is returned as an error.
\<close>

definition export_device_journal ::
    "db_faults \<Rightarrow> 'm replica_db \<Rightarrow> string \<Rightarrow> string \<Rightarrow> i64 \<Rightarrow> usize \<Rightarrow>
     MnemesError + JournalPayload list \<times> i64 \<times> bool" where
  "export_device_journal io conn home_device_id store_id start_sequence limit =
     bindR (checks
       [fault (\<lambda>e. Replication (''journal export: '' @ e)) (fault_open io),
        fault (\<lambda>e. Replication (''export query: '' @ e)) (fault_query io)]) (\<lambda>_.
     let (entries, expected, has_gap) = take_contiguous start_sequence
           (export_rows (rdb_journal conn) home_device_id store_id start_sequence
              (usize_as_i64 limit))
     in bindR (step_fault (\<lambda>e. Replication (''row: '' @ e)) (fault_row io) (length entries)) (\<lambda>_.
        Inr (entries, expected, \<not> has_gap \<and> length entries \<ge> limit)))"

text \<open>The digest-only journal is never exported; the probe tells the two refusals apart.\<close>

definition export_operation_journal ::
    "db_faults \<Rightarrow> bool \<Rightarrow> MnemesError + JournalPayload list \<times> i64 \<times> bool" where
  "export_operation_journal io table_exists =
     bindR (fault (\<lambda>e. Replication (''canonical journal probe: '' @ e)) (fault_query io)) (\<lambda>_.
     if \<not> table_exists
     then Inl (Replication ''canonical operation_journal is unavailable'')
     else Inl (Replication (''operation_journal has no replayable payload; replication is '' @
       ''unavailable until the canonical owner exports payload bytes'')))"

definition has_pending ::
    "db_faults \<Rightarrow> 'm replica_db \<Rightarrow> string \<Rightarrow> string \<Rightarrow> i64 \<Rightarrow> MnemesError + bool" where
  "has_pending io conn home_device_id store_id last_applied_sequence =
     bindR (fault (\<lambda>e. Replication (''pending check: '' @ e)) (fault_query io)) (\<lambda>_.
     let count = length (filter (\<lambda>r. jr_home_device_id r = home_device_id \<and>
           jr_store_id r = store_id \<and> jr_sequence r > last_applied_sequence) (rdb_journal conn))
     in Inr (count > 0))"

section \<open>Synchronising a batch\<close>

type_synonym 'm dispatch =
  "string \<Rightarrow> byte list \<Rightarrow> 'm replica_db \<Rightarrow> MnemesError + 'm replica_db"

text \<open>
  What all calls of one batch share: cryptography, SQLite's message of a violated unique index,
  its failures (by sequence number), and the \<open>Display\<close> of semantic-memory's errors.
\<close>

record sync_env =
  se_crypto :: crypto
  se_unique_text :: string
  se_io :: "i64 \<Rightarrow> db_faults"
  se_display :: "MemoryError \<Rightarrow> string"

record SyncResult =
  sr_entries_synced :: usize
  sr_next_sequence :: i64
  sr_has_more :: bool
  sr_errors :: "string list"

text \<open>The loop over the exported entries; the accumulators are the count and the errors.\<close>

fun sync_entries ::
    "sync_env \<Rightarrow> ReplicaApplier \<Rightarrow> 'm dispatch \<Rightarrow> JournalPayload list \<Rightarrow> usize \<Rightarrow> string list \<Rightarrow>
     'm replica_db \<Rightarrow> (usize \<times> string list) \<times> 'm replica_db" where
  "sync_entries env ap dispatch [] synced errors db = ((synced, errors), db)"
| "sync_entries env ap dispatch (entry # entries) synced errors db =
     (case apply_entry (se_crypto env) (se_unique_text env) (se_io env (jp_sequence entry)) ap
             (jp_sequence entry) (jp_operation_kind entry) (jp_payload entry)
             (dispatch (jp_operation_kind entry) (jp_payload entry)) db of
        (Inr _, db') \<Rightarrow> sync_entries env ap dispatch entries (synced + 1) errors db'
      | (Inl e, db') \<Rightarrow> sync_entries env ap dispatch entries synced
          (errors @ [''seq '' @ dec_int (jp_sequence entry) @ '' apply failed: '' @
                     display_mnemes_error (se_display env) e]) db')"

definition sync_batch ::
    "sync_env \<Rightarrow> db_faults \<Rightarrow> 'n replica_db \<Rightarrow> ReplicaApplier \<Rightarrow> string \<Rightarrow> string \<Rightarrow> i64 \<Rightarrow> usize \<Rightarrow>
     'm dispatch \<Rightarrow> 'm replica_db \<Rightarrow> (MnemesError + SyncResult) \<times> 'm replica_db" where
  "sync_batch env io device_conn replica_applier home_device_id store_id start_sequence max_batch
       dispatch db =
     (case export_device_journal io device_conn home_device_id store_id start_sequence max_batch of
        Inl e \<Rightarrow> (Inl e, db)
      | Inr (entries, next_seq, has_more) \<Rightarrow>
          (let ((synced, errors), db') = sync_entries env replica_applier dispatch entries 0 [] db
           in (Inr \<lparr> sr_entries_synced = synced, sr_next_sequence = next_seq,
                     sr_has_more = has_more, sr_errors = errors \<rparr>, db')))"

section \<open>The HTTP handler\<close>

record SyncEntry =
  sy_sequence :: i64
  sy_operation_kind :: string
  sy_payload_hex :: string

record SyncRequest =
  sq_home_device_id :: string
  sq_store_id :: string
  sq_start_sequence :: i64
  sq_entries :: "SyncEntry list"

fun process_entries ::
    "sync_env \<Rightarrow> (string \<Rightarrow> string + byte list) \<Rightarrow> ReplicaApplier \<Rightarrow> 'm dispatch \<Rightarrow>
     SyncEntry list \<Rightarrow> usize \<Rightarrow> string list \<Rightarrow> 'm replica_db \<Rightarrow>
     (usize \<times> string list) \<times> 'm replica_db" where
  "process_entries env hex_decode ap dispatch [] synced errors db = ((synced, errors), db)"
| "process_entries env hex_decode ap dispatch (entry # entries) synced errors db =
     (case hex_decode (sy_payload_hex entry) of
        Inl e \<Rightarrow> process_entries env hex_decode ap dispatch entries synced
          (errors @ [''seq '' @ dec_int (sy_sequence entry) @ '' hex: '' @ e]) db
      | Inr payload \<Rightarrow>
     (case apply_entry (se_crypto env) (se_unique_text env) (se_io env (sy_sequence entry)) ap
             (sy_sequence entry) (sy_operation_kind entry) payload
             (dispatch (sy_operation_kind entry) payload) db of
        (Inr _, db') \<Rightarrow> process_entries env hex_decode ap dispatch entries (synced + 1) errors db'
      | (Inl e, db') \<Rightarrow> process_entries env hex_decode ap dispatch entries synced
          (errors @ [''seq '' @ dec_int (sy_sequence entry) @ '' apply: '' @
                     display_mnemes_error (se_display env) e]) db'))"

text \<open>The file system maps paths to databases; \<open>path_join\<close> is \<open>Path::join\<close>.\<close>

definition process_sync_request ::
    "sync_env \<Rightarrow> (string \<Rightarrow> string + byte list) \<Rightarrow> ('p \<Rightarrow> string \<Rightarrow> 'p) \<Rightarrow> SyncRequest \<Rightarrow> 'p \<Rightarrow>
     'm dispatch \<Rightarrow> ('p \<Rightarrow> 'm replica_db) \<Rightarrow>
     (MnemesError + SyncResult) \<times> ('p \<Rightarrow> 'm replica_db)" where
  "process_sync_request env hex_decode path_join request replica_base_dir dispatch_fn fs =
     (let replica_path = path_join replica_base_dir (sq_store_id request @ ''.db'');
          applier = \<lparr> ap_device_id = sq_home_device_id request,
                      ap_store_id = sq_store_id request \<rparr>;
          ((synced, errors), db) = process_entries env hex_decode applier dispatch_fn
            (sq_entries request) 0 [] (fs replica_path)
      in (Inr \<lparr> sr_entries_synced = synced,
                sr_next_sequence = i64_add (i64_add (sq_start_sequence request) (int synced))
                  (int (length errors)),
                sr_has_more = False, sr_errors = errors \<rparr>,
          fs(replica_path := db)))"

section \<open>Atomicity and idempotence of the apply path\<close>

lemma find_row_None:
  "find_row db device store sequence = None \<longleftrightarrow>
     (device, store, sequence) \<notin> row_key ` set (rdb_journal db)"
  by (force simp: find_row_def find_None_iff)

lemma find_row_Some_key: "find_row db d s n = Some r \<Longrightarrow> row_key r = (d, s, n)"
  by (auto simp: find_row_def find_Some_iff)

lemma insert_row_ok:
  "insert_row t row db = Inr db' \<longleftrightarrow>
     row_key row \<notin> row_key ` set (rdb_journal db) \<and>
     db' = db\<lparr>rdb_journal := rdb_journal db @ [row]\<rparr>"
  by (auto simp: insert_row_def)

definition applied_row :: "ReplicaApplier \<Rightarrow> i64 \<Rightarrow> string \<Rightarrow> byte list \<Rightarrow> journal_row" where
  "applied_row self n kind payload =
     \<lparr> jr_home_device_id = ap_device_id self, jr_store_id = ap_store_id self, jr_sequence = n,
       jr_operation_kind = kind, jr_payload = payload \<rparr>"

lemma fault_ok [result_simps]: "fault f x = Inr u \<longleftrightarrow> x = None"
  by (auto simp: fault_def split: option.splits)

lemma apply_entry_cases:
  assumes "apply_entry c t io self n kind payload replay db = (r, db')"
  obtains (failed) e where "r = Inl e" "db' = db"
  | (known) stored where "find_row db (ap_device_id self) (ap_store_id self) n = Some stored"
      "sha256 c (jr_payload stored) = sha256 c payload" "r = Inr (AlreadyApplied n)" "db' = db"
  | (new) tx where "find_row db (ap_device_id self) (ap_store_id self) n = None"
      "replay db = Inr tx" "insert_row t (applied_row self n kind payload) tx = Inr db'"
      "r = Inr (Applied n)"
proof -
  have "(\<exists>e. r = Inl e \<and> db' = db) \<or>
      (\<exists>stored. find_row db (ap_device_id self) (ap_store_id self) n = Some stored \<and>
         sha256 c (jr_payload stored) = sha256 c payload \<and> r = Inr (AlreadyApplied n) \<and> db' = db) \<or>
      (\<exists>tx. find_row db (ap_device_id self) (ap_store_id self) n = None \<and> replay db = Inr tx \<and>
         insert_row t (applied_row self n kind payload) tx = Inr db' \<and> r = Inr (Applied n))"
  proof (cases "find_row db (ap_device_id self) (ap_store_id self) n")
    case None
    with assms show ?thesis
      by (simp add: apply_entry_def apply_transaction_def applied_row_def [symmetric]
          split: sum.splits del: checks.simps) (auto simp: result_simps)
  next
    case (Some stored)
    with assms show ?thesis
      by (auto simp: apply_entry_def simp del: checks.simps split: sum.splits if_splits)
  qed
  with that show thesis by blast
qed

lemma apply_entry_known:
  "find_row db (ap_device_id self) (ap_store_id self) n = Some stored \<Longrightarrow>
   apply_entry c t io self n kind payload replay db = (r, db') \<Longrightarrow>
   db' = db \<and> (\<forall>b. r = Inr b \<longrightarrow> b = AlreadyApplied n \<and>
                 sha256 c (jr_payload stored) = sha256 c payload)"
  by (erule apply_entry_cases) auto

text \<open>
  Applying an entry is all or nothing: the database changes only when the outcome is
  \<open>Applied\<close>; then the sequence was not recorded before, the replay succeeded, and the new
  database is the replayed one with exactly this entry's row appended. A refused or repeated
  entry, or any SQLite failure, leaves the database as it was.
\<close>

theorem apply_entry_atomic:
  assumes "apply_entry c t io self n kind payload replay db = (r, db')"
  shows "(r = Inr (Applied n) \<and> find_row db (ap_device_id self) (ap_store_id self) n = None \<and>
          (\<exists>tx. replay db = Inr tx \<and>
             db' = tx\<lparr>rdb_journal := rdb_journal tx @ [applied_row self n kind payload]\<rparr>)) \<or>
         (r \<noteq> Inr (Applied n) \<and> db' = db)"
  using assms by (cases rule: apply_entry_cases) (auto simp: insert_row_ok)

text \<open>A replica of one store, and a replay that appends to its memory.\<close>

definition example_applier :: ReplicaApplier where
  "example_applier = \<lparr> ap_device_id = ''device-1'', ap_store_id = ''store-1'' \<rparr>"

definition example_replica :: "nat replica_db" where
  "example_replica = \<lparr> rdb_journal = [], rdb_memory = 0 \<rparr>"

definition example_replay :: "nat replica_db \<Rightarrow> MnemesError + nat replica_db" where
  "example_replay db = Inr (db\<lparr>rdb_memory := rdb_memory db + 1\<rparr>)"

lemma example_apply:
  "apply_entry toy_crypto ''dup'' no_faults example_applier 1 ''fact'' [1] example_replay
     example_replica =
   (Inr (Applied 1),
    \<lparr> rdb_journal = [applied_row example_applier 1 ''fact'' [1]], rdb_memory = 1 \<rparr>)"
  by (simp add: apply_entry_def apply_transaction_def no_faults_def fault_def find_row_def
      example_replica_def example_replay_def insert_row_def applied_row_def)

theorem apply_entry_atomic_witness:
  "find_row example_replica ''device-1'' ''store-1'' 1 = None"
  using apply_entry_atomic [OF example_apply] by (simp add: example_applier_def)

text \<open>
  The replica journal keeps the exactly-once contract, for replays that act on the semantic
  memory and leave the journal to the applier.
\<close>

definition on_memory :: "('m \<Rightarrow> MnemesError + 'm) \<Rightarrow> 'm replica_db \<Rightarrow> MnemesError + 'm replica_db" where
  "on_memory f db = bindR (f (rdb_memory db)) (\<lambda>m. Inr (db\<lparr>rdb_memory := m\<rparr>))"

type_synonym operation = "string \<times> byte list"

definition recorded_operation :: "ReplicaApplier \<Rightarrow> 'm replica_db \<Rightarrow> i64 \<Rightarrow> operation option" where
  "recorded_operation self db n =
     map_option (\<lambda>row. (jr_operation_kind row, jr_payload row))
       (find_row db (ap_device_id self) (ap_store_id self) n)"

definition is_applied :: "MnemesError + ApplyOutcome \<Rightarrow> MnemesError + bool" where
  "is_applied r = bindR r (\<lambda>out. Inr (case out of Applied _ \<Rightarrow> True | AlreadyApplied _ \<Rightarrow> False))"

definition apply_operation ::
    "sync_env \<Rightarrow> ReplicaApplier \<Rightarrow> (string \<Rightarrow> byte list \<Rightarrow> 'm \<Rightarrow> MnemesError + 'm) \<Rightarrow>
     i64 \<Rightarrow> operation \<Rightarrow> 'm replica_db \<Rightarrow> (MnemesError + bool) \<times> 'm replica_db" where
  "apply_operation env self f n p db =
     (let (r, db') = apply_entry (se_crypto env) (se_unique_text env) (se_io env n) self n (fst p)
            (snd p) (on_memory (f (fst p) (snd p))) db
      in (is_applied r, db'))"

lemma find_append: "find P (xs @ ys) = (case find P xs of None \<Rightarrow> find P ys | Some x \<Rightarrow> Some x)"
  by (induction xs) auto

lemma recorded_operation_snoc:
  assumes "recorded_operation self db n = None"
  shows "recorded_operation self (db\<lparr>rdb_memory := m,
             rdb_journal := rdb_journal db @ [applied_row self n (fst p) (snd p)]\<rparr>) =
    (recorded_operation self db)(n \<mapsto> p)"
  using assms
  by (auto simp: recorded_operation_def find_row_def find_append applied_row_def row_key_def
      fun_eq_iff split: option.splits)

interpretation replica: exactly_once "recorded_operation self" "apply_operation env self f"
    "\<lambda>p. p" "\<lambda>q p. sha256 (se_crypto env) (snd q) = sha256 (se_crypto env) (snd p)"
  for self env and f :: "string \<Rightarrow> byte list \<Rightarrow> 'm \<Rightarrow> MnemesError + 'm"
proof
  fix n :: i64 and p :: operation and d d' :: "'m replica_db" and r :: "MnemesError + bool"
  obtain s where a: "apply_entry (se_crypto env) (se_unique_text env) (se_io env n) self n (fst p)
      (snd p) (on_memory (f (fst p) (snd p))) d = s"
      "apply_operation env self f n p d = (is_applied (fst s), snd s)"
    by (simp add: apply_operation_def split: prod.splits)
  then have s: "apply_entry (se_crypto env) (se_unique_text env) (se_io env n) self n (fst p)
      (snd p) (on_memory (f (fst p) (snd p))) d = (fst s, snd s)" by simp
  { fix e assume "apply_operation env self f n p d = (Inl e, d')"
    then have "d' = d"
      using a(2) s by (elim apply_entry_cases) (auto simp: is_applied_def)
    then show "recorded_operation self d' = recorded_operation self d" by simp
  next
    fix q assume "recorded_operation self d n = Some q" "apply_operation env self f n p d = (r, d')"
    then show "d' = d \<and> (\<forall>b. r = Inr b \<longrightarrow> \<not> b \<and>
        sha256 (se_crypto env) (snd q) = sha256 (se_crypto env) (snd p))"
      using a(2) apply_entry_known [OF _ s]
      by (auto simp: recorded_operation_def is_applied_def bindR_eq_Inr)
  next
    fix b assume none: "recorded_operation self d n = None"
      and ok: "apply_operation env self f n p d = (Inr b, d')"
    from s show "b \<and> recorded_operation self d' = (recorded_operation self d)(n \<mapsto> p)"
    proof (cases rule: apply_entry_cases)
      case (failed e)
      then show ?thesis using ok a(2) by (simp add: is_applied_def)
    next
      case (known stored)
      then show ?thesis using none by (simp add: recorded_operation_def)
    next
      case (new tx)
      then obtain m where "tx = d\<lparr>rdb_memory := m\<rparr>" by (auto simp: on_memory_def bindR_eq_Inr)
      then have "d' = d\<lparr>rdb_memory := m,
          rdb_journal := rdb_journal d @ [applied_row self n (fst p) (snd p)]\<rparr>"
        using new(3) ok a(2) by (simp add: insert_row_ok)
      then show ?thesis
        using recorded_operation_snoc [OF none] new ok a(2) by (simp add: is_applied_def)
    qed }
qed

text \<open>The two batch loops are runs of the receiver.\<close>

definition entry_operation :: "JournalPayload \<Rightarrow> i64 \<times> operation" where
  "entry_operation e = (jp_sequence e, jp_operation_kind e, jp_payload e)"

definition memory_dispatch ::
    "(string \<Rightarrow> byte list \<Rightarrow> 'm \<Rightarrow> MnemesError + 'm) \<Rightarrow> 'm dispatch" where
  "memory_dispatch f = (\<lambda>kind payload. on_memory (f kind payload))"

lemma sync_entries_run:
  "sync_entries env ap (memory_dispatch f) entries n errs db = ((synced, errors), db') \<Longrightarrow>
     \<exists>rs. apply_run (apply_operation env ap f) (map entry_operation entries) db = (rs, db') \<and>
       synced = n + length (filter is_ok rs) \<and>
       length errors = length errs + length (filter (\<lambda>r. \<not> is_ok r) rs)"
proof (induction entries arbitrary: n errs db)
  case (Cons e entries)
  obtain r d1 where step: "apply_entry (se_crypto env) (se_unique_text env)
      (se_io env (jp_sequence e)) ap (jp_sequence e) (jp_operation_kind e) (jp_payload e)
      (memory_dispatch f (jp_operation_kind e) (jp_payload e)) db = (r, d1)" by fastforce
  have op: "apply_operation env ap f (jp_sequence e) (jp_operation_kind e, jp_payload e) db =
      (is_applied r, d1)"
    using step by (simp add: apply_operation_def memory_dispatch_def)
  show ?case
  proof (cases r)
    case (Inl x)
    with Cons.prems step obtain errs' where
      rest: "sync_entries env ap (memory_dispatch f) entries n errs' d1 = ((synced, errors), db')"
      and len: "length errs' = Suc (length errs)" by simp
    from Cons.IH [OF rest] len Inl op show ?thesis
      by (auto simp: entry_operation_def is_applied_def)
  next
    case (Inr x)
    with Cons.prems step have
      rest: "sync_entries env ap (memory_dispatch f) entries (n + 1) errs d1 = ((synced, errors), db')"
      by simp
    from Cons.IH [OF rest] Inr op show ?thesis
      by (auto simp: entry_operation_def is_applied_def)
  qed
qed simp


text \<open>
  A batch that went through can be sent again: no entry is applied a second time and the
  replica stays exactly as it is.
\<close>

theorem batch_resend_changes_nothing:
  assumes "apply_run (apply_operation env self f) entries db = (rs, db')"
    and "list_all is_ok rs"
    and "apply_run (apply_operation env self f) entries db' = (rs', db'')"
  shows "db'' = db' \<and> Inr True \<notin> set rs'"
  using replica.batch_retry [OF assms(1) _ assms(3)] assms(2) by (simp add: list_all_iff)

definition example_env :: sync_env where
  "example_env = \<lparr> se_crypto = toy_crypto, se_unique_text = ''dup'', se_io = (\<lambda>_. no_faults),
     se_display = (\<lambda>_. ''memory error'') \<rparr>"

lemma example_runs:
  "apply_run (apply_operation example_env example_applier (\<lambda>k p (m :: nat). Inr (m + length p)))
     [(1, ''fact'', [1]), (2, ''fact'', [1, 2])] example_replica =
   ([Inr True, Inr True],
    \<lparr> rdb_journal = [applied_row example_applier 1 ''fact'' [1],
                    applied_row example_applier 2 ''fact'' [1, 2]], rdb_memory = 3 \<rparr>)"
  by (simp add: apply_operation_def apply_entry_def apply_transaction_def no_faults_def fault_def
      find_row_def example_replica_def insert_row_def applied_row_def on_memory_def is_applied_def
      example_env_def row_key_def)

theorem batch_resend_changes_nothing_witness:
  "\<exists>rs. apply_run
     (apply_operation example_env example_applier (\<lambda>k p (m :: nat). Inr (m + length p)))
     [(1, ''fact'', [1]), (2, ''fact'', [1, 2])]
     \<lparr> rdb_journal = [applied_row example_applier 1 ''fact'' [1],
                    applied_row example_applier 2 ''fact'' [1, 2]], rdb_memory = 3 \<rparr> =
   (rs, \<lparr> rdb_journal = [applied_row example_applier 1 ''fact'' [1],
                    applied_row example_applier 2 ''fact'' [1, 2]], rdb_memory = 3 \<rparr>)"
proof -
  let ?f = "apply_operation example_env example_applier (\<lambda>k p (m :: nat). Inr (m + length p))"
  let ?d = "\<lparr> rdb_journal = [applied_row example_applier 1 ''fact'' [1],
                    applied_row example_applier 2 ''fact'' [1, 2]], rdb_memory = 3 :: nat \<rparr>"
  obtain rs d where run: "apply_run ?f [(1, ''fact'', [1]), (2, ''fact'', [1, 2])] ?d = (rs, d)" by fastforce
  have "d = ?d" using batch_resend_changes_nothing [OF example_runs _ run] by simp
  with run show ?thesis by blast
qed

section \<open>The exported batch\<close>

lemma take_contiguous_spec:
  assumes "take_contiguous expected rows = (entries, next_sequence, has_gap)"
    and "0 \<le> expected" "expected + int (length rows) \<le> i64_max"
  shows "map jp_sequence entries = map (\<lambda>i. expected + int i) [0 ..< length entries] \<and>
     next_sequence = expected + int (length entries) \<and>
     (if has_gap then length entries < length rows \<and>
         jp_sequence (rows ! length entries) \<noteq> next_sequence
      else entries = rows) \<and> entries = take (length entries) rows"
  using assms
proof (induction expected rows arbitrary: entries next_sequence has_gap rule: take_contiguous.induct)
  case (2 expected e rows)
  show ?case
  proof (cases "jp_sequence e = expected")
    case False
    with "2.prems" show ?thesis by auto
  next
    case True
    have add: "i64_add (jp_sequence e) 1 = expected + 1"
      using "2.prems"(2,3) True by (subst i64_add_small) (auto simp: i64_max_def)
    obtain es n g where rec: "take_contiguous (expected + 1) rows = (es, n, g)"
      by (metis prod_cases3)
    have res: "entries = e # es" "next_sequence = n" "has_gap = g"
      using "2.prems"(1) True rec add by auto
    have IH: "map jp_sequence es = map (\<lambda>i. expected + 1 + int i) [0 ..< length es] \<and>
        n = expected + 1 + int (length es) \<and>
        (if g then length es < length rows \<and> jp_sequence (rows ! length es) \<noteq> n else es = rows) \<and>
        es = take (length es) rows"
    proof -
      have t: "take_contiguous (i64_add (jp_sequence e) 1) rows = (es, n, g)"
        using rec add by simp
      show ?thesis
        by (rule "2.IH" [OF _ t, unfolded add]) (use True "2.prems"(2,3) in simp_all)
    qed
    have upt: "[0 ..< length (e # es)] = 0 # map Suc [0 ..< length es]"
      by (simp add: upt_conv_Cons map_Suc_upt del: upt_Suc)
    have seqs: "map jp_sequence (e # es) = map (\<lambda>i. expected + int i) [0 ..< length (e # es)]"
      unfolding upt using IH True by (simp add: o_def algebra_simps)
    have "n = expected + int (length (e # es))" "e # es = take (length (e # es)) (e # rows)"
      using IH by auto
    moreover have "if g then length (e # es) < length (e # rows) \<and>
          jp_sequence ((e # rows) ! length (e # es)) \<noteq> n
        else e # es = e # rows"
      using IH by (cases g) auto
    ultimately show ?thesis
      unfolding res using seqs by blast
  qed
qed simp

lemma usize_as_i64_small:
  assumes "int n \<le> i64_max"
  shows "usize_as_i64 n = int n"
proof -
  have "sint (word_of_int (int n) :: u64) = int n"
    using assms
    by (simp only: sint_sbintrunc') (simp add: signed_take_bit_int_eq_self i64_max_def)
  then show ?thesis by (simp add: usize_as_i64_def u64_as_i64_def)
qed

text \<open>The rows of one stream from a sequence on, in order.\<close>

definition stream_rows :: "journal_row list \<Rightarrow> string \<Rightarrow> string \<Rightarrow> i64 \<Rightarrow> journal_row list" where
  "stream_rows rows device store start =
     sort_key jr_sequence (filter (\<lambda>r. jr_home_device_id r = device \<and> jr_store_id r = store \<and>
                       start \<le> jr_sequence r) rows)"

text \<open>
  An export is a gap-free prefix of the stream: the entries carry the consecutive sequences
  from the requested start, they are the first rows of the stream at or after it, at most
  \<open>limit\<close> of them; the next sequence follows the last one; and \<open>has_more\<close> is set only when
  the limit was reached without a gap.
\<close>

theorem export_is_contiguous_prefix:
  assumes "export_device_journal io db device store start limit = Inr (entries, next_seq, has_more)"
    and "0 \<le> start" "start + int limit \<le> i64_max"
  shows "map jp_sequence entries = map (\<lambda>i. start + int i) [0 ..< length entries] \<and>
     map jp_payload entries =
       map jr_payload (take (length entries) (stream_rows (rdb_journal db) device store start)) \<and>
     length entries \<le> limit \<and> next_seq = start + int (length entries) \<and>
     (has_more \<longleftrightarrow> length entries = limit)"
proof -
  let ?rows = "export_rows (rdb_journal db) device store start (usize_as_i64 limit)"
  obtain g where t: "take_contiguous start ?rows = (entries, next_seq, g)"
    and more: "has_more \<longleftrightarrow> \<not> g \<and> length entries \<ge> limit"
    using assms(1)
    by (auto simp: export_device_journal_def result_simps Let_def split: prod.splits)
  have limit: "usize_as_i64 limit = int limit"
    using assms(2,3) by (intro usize_as_i64_small) simp
  have rows: "map jp_payload ?rows =
      map jr_payload (take limit (stream_rows (rdb_journal db) device store start))"
    by (simp add: export_rows_def sql_limit_def limit stream_rows_def take_map)
  have len: "length ?rows \<le> limit"
    by (simp add: export_rows_def sql_limit_def limit)
  note spec = take_contiguous_spec [OF t assms(2)]
  have S: "map jp_sequence entries = map (\<lambda>i. start + int i) [0 ..< length entries]"
    "next_seq = start + int (length entries)"
    "if g then length entries < length ?rows \<and> jp_sequence (?rows ! length entries) \<noteq> next_seq
     else entries = ?rows" "entries = take (length entries) ?rows"
    using spec len assms(3) by auto
  have le: "length entries \<le> limit" using S(3) len by (auto split: if_splits)
  have "map jp_payload entries = take (length entries) (map jp_payload ?rows)"
    by (subst S(4)) (simp add: take_map)
  then have "map jp_payload entries =
      map jr_payload (take (length entries) (stream_rows (rdb_journal db) device store start))"
    using le by (simp add: rows take_map min_def)
  moreover have "has_more \<longleftrightarrow> length entries = limit"
    using more S(3) len le by (auto split: if_splits)
  ultimately show ?thesis using S le by blast
qed

theorem export_is_contiguous_prefix_witness:
  "\<exists>entries next_seq has_more.
     export_device_journal no_faults
       \<lparr> rdb_journal = [applied_row example_applier 4 ''fact'' [4],
          applied_row example_applier 1 ''fact'' [1], applied_row example_applier 2 ''fact'' [2]],
         rdb_memory = () \<rparr> ''device-1'' ''store-1'' 1 10 = Inr (entries, next_seq, has_more) \<and>
     map jp_sequence entries = [1, 2] \<and> next_seq = 3 \<and> \<not> has_more"
proof -
  let ?db = "\<lparr> rdb_journal = [applied_row example_applier 4 ''fact'' [4],
      applied_row example_applier 1 ''fact'' [1], applied_row example_applier 2 ''fact'' [2]],
      rdb_memory = () \<rparr>"
  let ?es = "[\<lparr> jp_sequence = 1, jp_operation_kind = ''fact'', jp_payload = [1] \<rparr>,
      \<lparr> jp_sequence = 2, jp_operation_kind = ''fact'', jp_payload = [2] \<rparr>]"
  have "usize_as_i64 10 = 10" by (simp add: usize_as_i64_small i64_max_def)
  then have e: "export_device_journal no_faults ?db ''device-1'' ''store-1'' 1 10 =
      Inr (?es, 3, False)"
    by (simp add: export_device_journal_def no_faults_def fault_def step_fault_def export_rows_def
        sql_limit_def
        applied_row_def example_applier_def i64_add_small i64_max_def)
  have "map jp_sequence ?es = map (\<lambda>i. 1 + int i) [0 ..< length ?es] \<and> (3 :: i64) = 1 + int (length ?es)"
    using export_is_contiguous_prefix [OF e] by (simp add: i64_max_def)
  then show ?thesis
    using e by (intro exI [of _ ?es] exI [of _ 3] exI [of _ False]) simp
qed

text \<open>
  Synchronising a batch accounts for every exported entry and is idempotent: each entry is
  either counted or reported as an error, and when there was no error a second synchronisation
  leaves the replica unchanged.
\<close>

theorem sync_batch_idempotent:
  assumes "sync_batch env io dev ap device store start limit (memory_dispatch f) db = (Inr res, db')"
    and "sync_batch env io dev ap device store start limit (memory_dispatch f) db' = (Inr res', db'')"
  shows "(\<exists>entries next_seq has_more.
       export_device_journal io dev device store start limit = Inr (entries, next_seq, has_more) \<and>
       sr_entries_synced res + length (sr_errors res) = length entries) \<and>
     (sr_errors res = [] \<longrightarrow> db'' = db')"
proof -
  obtain entries next_seq has_more where
    ex: "export_device_journal io dev device store start limit = Inr (entries, next_seq, has_more)"
    using assms(1) by (auto simp: sync_batch_def split: sum.splits)
  have one: "sync_entries env ap (memory_dispatch f) entries 0 [] db =
      ((sr_entries_synced res, sr_errors res), db')"
    using assms(1) ex by (auto simp: sync_batch_def split: prod.splits)
  have two: "sync_entries env ap (memory_dispatch f) entries 0 [] db' =
      ((sr_entries_synced res', sr_errors res'), db'')"
    using assms(2) ex by (auto simp: sync_batch_def split: prod.splits)
  obtain rs where run: "apply_run (apply_operation env ap f) (map entry_operation entries) db =
      (rs, db')" and cnt: "sr_entries_synced res = length (filter is_ok rs)"
      "length (sr_errors res) = length (filter (\<lambda>r. \<not> is_ok r) rs)"
    using sync_entries_run [OF one] by auto
  obtain rs' where run': "apply_run (apply_operation env ap f) (map entry_operation entries) db' =
      (rs', db'')"
    using sync_entries_run [OF two] by auto
  have "length rs = length entries"
    using run length_apply_run [of "apply_operation env ap f" "map entry_operation entries" db]
    by simp
  then have total: "sr_entries_synced res + length (sr_errors res) = length entries"
    using cnt sum_length_filter_compl [of is_ok rs] by simp
  have "db'' = db'" if "sr_errors res = []"
  proof -
    have "\<forall>r \<in> set rs. is_ok r" using cnt(2) that by (simp add: filter_empty_conv)
    from replica.batch_retry [OF run this run'] show ?thesis by blast
  qed
  with ex total show ?thesis by blast
qed

lemma example_sync:
  fixes db :: "nat replica_db"
  defines "dev \<equiv> \<lparr> rdb_journal = [applied_row example_applier 1 ''fact'' [1],
      applied_row example_applier 2 ''fact'' [1, 2]], rdb_memory = () \<rparr>"
  shows "sync_batch example_env no_faults dev example_applier ''device-1'' ''store-1'' 1 10
     (memory_dispatch (\<lambda>k p (m :: nat). Inr (m + length p))) db =
   (let ((synced, errors), db') = sync_entries example_env example_applier
        (memory_dispatch (\<lambda>k p (m :: nat). Inr (m + length p)))
        [\<lparr> jp_sequence = 1, jp_operation_kind = ''fact'', jp_payload = [1] \<rparr>,
         \<lparr> jp_sequence = 2, jp_operation_kind = ''fact'', jp_payload = [1, 2] \<rparr>] 0 [] db
    in (Inr \<lparr> sr_entries_synced = synced, sr_next_sequence = 3, sr_has_more = False,
              sr_errors = errors \<rparr>, db'))"
proof -
  have "usize_as_i64 10 = 10" by (simp add: usize_as_i64_small i64_max_def)
  then have "export_device_journal no_faults dev ''device-1'' ''store-1'' 1 10 =
      Inr ([\<lparr> jp_sequence = 1, jp_operation_kind = ''fact'', jp_payload = [1] \<rparr>,
         \<lparr> jp_sequence = 2, jp_operation_kind = ''fact'', jp_payload = [1, 2] \<rparr>], 3, False)"
    by (simp add: dev_def export_device_journal_def no_faults_def fault_def step_fault_def
        export_rows_def sql_limit_def applied_row_def example_applier_def i64_add_small i64_max_def)
  then show ?thesis by (simp add: sync_batch_def)
qed

theorem sync_batch_idempotent_witness:
  "\<exists>res. sync_batch example_env no_faults
     \<lparr> rdb_journal = [applied_row example_applier 1 ''fact'' [1],
        applied_row example_applier 2 ''fact'' [1, 2]], rdb_memory = () \<rparr>
     example_applier ''device-1'' ''store-1'' 1 10
     (memory_dispatch (\<lambda>k p (m :: nat). Inr (m + length p)))
     \<lparr> rdb_journal = [applied_row example_applier 1 ''fact'' [1],
        applied_row example_applier 2 ''fact'' [1, 2]], rdb_memory = 3 \<rparr> =
   (Inr res, \<lparr> rdb_journal = [applied_row example_applier 1 ''fact'' [1],
        applied_row example_applier 2 ''fact'' [1, 2]], rdb_memory = 3 \<rparr>)"
proof -
  let ?d = "\<lparr> rdb_journal = [applied_row example_applier 1 ''fact'' [1],
        applied_row example_applier 2 ''fact'' [1, 2]], rdb_memory = 3 :: nat \<rparr>"
  let ?s = "sync_batch example_env no_faults
     \<lparr> rdb_journal = [applied_row example_applier 1 ''fact'' [1],
        applied_row example_applier 2 ''fact'' [1, 2]], rdb_memory = () \<rparr>
     example_applier ''device-1'' ''store-1'' 1 10
     (memory_dispatch (\<lambda>k p (m :: nat). Inr (m + length p)))"
  have first: "?s example_replica =
      (Inr \<lparr> sr_entries_synced = 2, sr_next_sequence = 3, sr_has_more = False, sr_errors = [] \<rparr>, ?d)"
    by (simp only: example_sync)
      (simp add: apply_entry_def apply_transaction_def no_faults_def fault_def find_row_def
        example_replica_def insert_row_def applied_row_def on_memory_def
        memory_dispatch_def row_key_def example_applier_def example_env_def)
  obtain res d where second: "?s ?d = (Inr res, d)"
    unfolding example_sync Let_def
    by (simp del: sync_entries.simps add: case_prod_unfold)
  have "d = ?d" using sync_batch_idempotent [OF first second] by simp
  with second show ?thesis by blast
qed

end
