(* ===== verification/Shard_Routing.thy ===== *)
theory Shard_Routing
  imports Mnemes_Types "HOL-Library.Product_Lexorder"
begin

text \<open>
  The routing catalog and the deterministic routing and merge helpers (\<open>src/shards.rs\<close>).
  A search result of semantic-memory is the record of what the merge reads: score, content and
  \<open>source.result_id()\<close>. An \<open>f64\<close> score is its bit pattern, ordered by \<open>f64::total_cmp\<close>.
\<close>

section \<open>The catalog row\<close>

record DeviceShard =
  sh_device_id :: DeviceId
  sh_relative_path :: string
  sh_state :: ShardState
  sh_generation :: u64
  sh_routing_terms :: string
  sh_namespaces :: "string list"
  sh_fact_count :: u64
  sh_document_count :: u64
  sh_chunk_count :: u64
  sh_message_count :: u64
  sh_search_count :: u64
  sh_ewma_latency_ms :: u64
  sh_last_refreshed_at :: "string option"
  sh_created_at :: string
  sh_device_status :: DeviceStatus

definition device_shard_active :: "DeviceId \<Rightarrow> string \<Rightarrow> DeviceShard" where
  "device_shard_active device_id relative_path =
     \<lparr> sh_device_id = device_id, sh_relative_path = relative_path, sh_state = ShardActive,
       sh_generation = 1, sh_routing_terms = [], sh_namespaces = [], sh_fact_count = 0,
       sh_document_count = 0, sh_chunk_count = 0, sh_message_count = 0, sh_search_count = 0,
       sh_ewma_latency_ms = 0, sh_last_refreshed_at = None, sh_created_at = [],
       sh_device_status = DevActive \<rparr>"

definition eligible :: "DeviceShard \<Rightarrow> bool" where
  "eligible s \<longleftrightarrow> sh_state s = ShardActive \<and> sh_device_status s = DevActive"

record RankedShard =
  rk_device_id :: DeviceId
  rk_score :: u64

section \<open>Ranking\<close>

definition routing_tokens :: "string \<Rightarrow> string list" where
  "routing_tokens v =
     remdups_adj (sort (map to_ascii_lowercase
       (filter (\<lambda>token. token \<noteq> []) (split_on (\<lambda>c. \<not> is_ascii_alphanumeric c) v))))"

definition u64_saturating_mul :: "u64 \<Rightarrow> u64 \<Rightarrow> u64" where
  "u64_saturating_mul a b = (if unat a * unat b < 2 ^ 64 then a * b else - 1)"

definition catalog_terms :: "DeviceShard \<Rightarrow> string set" where
  "catalog_terms s =
     set (routing_tokens (sh_routing_terms s)) \<union>
     set (concat (map routing_tokens (sh_namespaces s)))"

definition score_shard :: "string \<Rightarrow> DeviceId \<Rightarrow> DeviceShard \<Rightarrow> RankedShard" where
  "score_shard query requester s =
     (let overlap = of_nat (card (set (routing_tokens query) \<inter> catalog_terms s));
          locality = (if sh_device_id s = requester then 1 else 0)
      in \<lparr> rk_device_id = sh_device_id s,
           rk_score = u64_saturating_add (u64_saturating_mul overlap 2) locality \<rparr>)"

text \<open>\<open>sort_by\<close> is stable; its comparator is the order of this key, the score descending.\<close>

definition rank_key :: "RankedShard \<Rightarrow> int \<times> string" where
  "rank_key r = (- uint (rk_score r), device_id_str (rk_device_id r))"

definition rank_shards :: "string \<Rightarrow> DeviceId \<Rightarrow> DeviceShard list \<Rightarrow> RankedShard list" where
  "rank_shards query requester_device_id shards =
     sort_key rank_key (map (score_shard query requester_device_id) (filter eligible shards))"

section \<open>Requests\<close>

record 'src RoutingSearchRequest =
  rq_query :: string
  rq_top_k :: usize
  rq_namespaces :: "string list option"
  rq_source_types :: "'src list option"
  rq_shard_budget :: "usize option"
  rq_exhaustive :: bool

definition routing_request_new :: "string \<Rightarrow> usize \<Rightarrow> 'src RoutingSearchRequest" where
  "routing_request_new query top_k =
     \<lparr> rq_query = query, rq_top_k = max top_k 1, rq_namespaces = None, rq_source_types = None,
       rq_shard_budget = None, rq_exhaustive = False \<rparr>"

definition with_shard_budget ::
    "'src RoutingSearchRequest \<Rightarrow> usize \<Rightarrow> 'src RoutingSearchRequest" where
  "with_shard_budget r shard_budget = r\<lparr>rq_shard_budget := Some (max shard_budget 1)\<rparr>"

definition exhaustive :: "'src RoutingSearchRequest \<Rightarrow> 'src RoutingSearchRequest" where
  "exhaustive r = r\<lparr>rq_exhaustive := True\<rparr>"

section \<open>Merging\<close>

record SearchResult =
  se_score :: u64
  se_content :: string
  se_result_id :: string

record RoutedSearchResult =
  rr_result :: SearchResult
  rr_device_id :: DeviceId
  rr_shard_generation :: u64
  rr_child_receipt_id :: "string option"

text \<open>
  \<open>f64::total_cmp\<close> compares the bit patterns as signed integers after flipping the magnitude
  bits of the negative ones.
\<close>

definition f64_total_key :: "u64 \<Rightarrow> int" where
  "f64_total_key w = sint (if bit w 63 then xor w 9223372036854775807 else w)"

definition result_id :: "RoutedSearchResult \<Rightarrow> string" where
  "result_id r = se_result_id (rr_result r)"

definition merge_key :: "RoutedSearchResult \<Rightarrow> int \<times> string" where
  "merge_key r = (- f64_total_key (se_score (rr_result r)), result_id r)"

fun check_conflicts ::
    "(string \<rightharpoonup> string) \<Rightarrow> RoutedSearchResult list \<Rightarrow> MnemesError + unit" where
  "check_conflicts seen [] = Inr ()"
| "check_conflicts seen (result # results) =
     (let item_id = result_id result; content = se_content (rr_result result) in
      case seen item_id of
        Some existing_content \<Rightarrow>
          if existing_content \<noteq> content then Inl (ConflictingShardItem item_id)
          else check_conflicts seen results
      | None \<Rightarrow> check_conflicts (seen(item_id \<mapsto> content)) results)"

fun emit_merged ::
    "usize \<Rightarrow> string set \<Rightarrow> RoutedSearchResult list \<Rightarrow> RoutedSearchResult list \<Rightarrow>
     RoutedSearchResult list" where
  "emit_merged top_k emitted merged [] = merged"
| "emit_merged top_k emitted merged (result # results) =
     (let item_id = result_id result in
      if item_id \<in> emitted then emit_merged top_k emitted merged results
      else let merged = merged @ [result] in
           if length merged = top_k then merged
           else emit_merged top_k (insert item_id emitted) merged results)"

definition merge_routed_results ::
    "RoutedSearchResult list \<Rightarrow> usize \<Rightarrow> MnemesError + RoutedSearchResult list" where
  "merge_routed_results results top_k =
     (let results = sort_key merge_key results in
      bindR (check_conflicts Map.empty results) (\<lambda>_.
      Inr (emit_merged top_k {} [] results)))"

section \<open>What routing guarantees\<close>

lemma device_id_str_inj [simp]: "device_id_str a = device_id_str b \<longleftrightarrow> a = b"
  by (cases a; cases b) simp

lemma rank_key_inj: "rank_key a = rank_key b \<longleftrightarrow> a = b"
  by (cases a; cases b) (simp add: rank_key_def word_uint_eq_iff conj_commute)

text \<open>
  Ranking is a function of the set of catalog rows: the order in which the catalog lists
  the shards does not matter; the result lists exactly the eligible shards (active, of an active
  device), the best score first and equal scores by device id.
\<close>

theorem rank_shards_deterministic:
  "(mset shards = mset shards' \<longrightarrow>
      rank_shards query d shards = rank_shards query d shards') \<and>
   mset (map rk_device_id (rank_shards query d shards)) =
     mset (map sh_device_id (filter eligible shards)) \<and>
   sorted (map rank_key (rank_shards query d shards))"
proof (intro conjI impI)
  assume "mset shards = mset shards'"
  then have "mset (map (score_shard query d) (filter eligible shards)) =
      mset (map (score_shard query d) (filter eligible shards'))"
    by simp
  then show "rank_shards query d shards = rank_shards query d shards'"
    unfolding rank_shards_def
    by (intro sort_key_inj_key_eq) (auto simp: inj_on_def rank_key_inj)
next
  have "map rk_device_id (map (score_shard query d) xs) = map sh_device_id xs" for xs
    by (simp add: score_shard_def Let_def)
  then show "mset (map rk_device_id (rank_shards query d shards)) =
      mset (map sh_device_id (filter eligible shards))"
    by (metis mset_map mset_sort rank_shards_def)
next
  show "sorted (map rank_key (rank_shards query d shards))"
    by (simp add: rank_shards_def)
qed

definition example_shard :: "string \<Rightarrow> string \<Rightarrow> DeviceShard" where
  "example_shard d terms = (device_shard_active (DeviceId d) d)\<lparr>sh_routing_terms := terms\<rparr>"

theorem rank_shards_deterministic_witness:
  "rank_shards ''rust'' (DeviceId ''b'') [example_shard ''b'' [], example_shard ''a'' ''rust''] =
   rank_shards ''rust'' (DeviceId ''b'') [example_shard ''a'' ''rust'', example_shard ''b'' []]"
proof -
  have "mset [example_shard ''b'' [], example_shard ''a'' ''rust''] =
      mset [example_shard ''a'' ''rust'', example_shard ''b'' []]" by simp
  with rank_shards_deterministic [of "[example_shard ''b'' [], example_shard ''a'' ''rust'']"]
  show ?thesis by blast
qed

section \<open>What merging guarantees\<close>

text \<open>The first occurrence of every item, in order: what the merge loop emits without a bound.\<close>

fun first_occurrences :: "string set \<Rightarrow> RoutedSearchResult list \<Rightarrow> RoutedSearchResult list" where
  "first_occurrences seen [] = []"
| "first_occurrences seen (r # rs) =
     (if result_id r \<in> seen then first_occurrences seen rs
      else r # first_occurrences (insert (result_id r) seen) rs)"

lemma set_first_occurrences: "set (first_occurrences seen rs) \<subseteq> set rs"
  by (induction seen rs rule: first_occurrences.induct) auto

lemma ids_first_occurrences:
  "result_id ` set (first_occurrences seen rs) = result_id ` set rs - seen"
  by (induction seen rs rule: first_occurrences.induct) auto

lemma distinct_first_occurrences: "distinct (map result_id (first_occurrences seen rs))"
  by (induction seen rs rule: first_occurrences.induct) (auto simp: ids_first_occurrences
      simp flip: image_set)

lemma sorted_first_occurrences:
  "sorted (map merge_key rs) \<Longrightarrow> sorted (map merge_key (first_occurrences seen rs))"
proof (induction seen rs rule: first_occurrences.induct)
  case (2 seen r rs)
  then show ?case
    using set_first_occurrences [of "insert (result_id r) seen" rs] by (auto simp: subset_iff)
qed simp

lemma first_occurrences_minimal:
  "sorted (map merge_key rs) \<Longrightarrow> r \<in> set rs \<Longrightarrow> result_id r \<notin> seen \<Longrightarrow>
     \<exists>f \<in> set (first_occurrences seen rs). result_id f = result_id r \<and> merge_key f \<le> merge_key r"
proof (induction seen rs rule: first_occurrences.induct)
  case (2 seen x rs)
  show ?case
  proof (cases "result_id x \<in> seen")
    case True
    with 2 show ?thesis by auto
  next
    case fresh: False
    show ?thesis
    proof (cases "result_id x = result_id r")
      case True
      with 2 fresh show ?thesis by auto
    next
      case False
      with 2 fresh have "\<exists>f \<in> set (first_occurrences (insert (result_id x) seen) rs).
          result_id f = result_id r \<and> merge_key f \<le> merge_key r" by auto
      with fresh show ?thesis by auto
    qed
  qed
qed simp

lemma emit_merged_eq:
  "length merged < k \<or> k = 0 \<Longrightarrow>
   emit_merged k seen merged rs =
     (if k = 0 then merged @ first_occurrences seen rs
      else take k (merged @ first_occurrences seen rs))"
  by (induction k seen merged rs rule: emit_merged.induct) (auto simp: Let_def)

text \<open>One item has one content, whichever shard returns it.\<close>

definition consistent :: "RoutedSearchResult list \<Rightarrow> bool" where
  "consistent rs \<longleftrightarrow> (\<forall>a \<in> set rs. \<forall>b \<in> set rs. result_id a = result_id b \<longrightarrow>
     se_content (rr_result a) = se_content (rr_result b))"

definition agrees_with :: "(string \<rightharpoonup> string) \<Rightarrow> RoutedSearchResult list \<Rightarrow> bool" where
  "agrees_with seen rs \<longleftrightarrow>
     (\<forall>a \<in> set rs. \<forall>c. seen (result_id a) = Some c \<longrightarrow> se_content (rr_result a) = c)"

lemma agrees_upd:
  assumes "seen (result_id r) = None"
  shows "agrees_with (seen(result_id r \<mapsto> se_content (rr_result r))) rs \<and> consistent rs \<longleftrightarrow>
     agrees_with seen (r # rs) \<and> consistent (r # rs)"
proof
  assume l: "agrees_with (seen(result_id r \<mapsto> se_content (rr_result r))) rs \<and> consistent rs"
  have "agrees_with seen (r # rs)"
    unfolding agrees_with_def
  proof (intro ballI allI impI)
    fix a c assume a: "a \<in> set (r # rs)" "seen (result_id a) = Some c"
    then have ne: "result_id a \<noteq> result_id r" using assms by auto
    then have "a \<in> set rs" using a(1) by auto
    with l a(2) ne show "se_content (rr_result a) = c" unfolding agrees_with_def by simp
  qed
  moreover have "consistent (r # rs)"
  proof -
    have r: "se_content (rr_result a) = se_content (rr_result r)"
      if "a \<in> set rs" "result_id a = result_id r" for a
      using l that unfolding agrees_with_def by simp
    show ?thesis
      unfolding consistent_def
    proof (intro ballI impI)
      fix a b assume a: "a \<in> set (r # rs)" and b: "b \<in> set (r # rs)" and eq: "result_id a = result_id b"
      consider "a = r" "b = r" | "a = r" "b \<in> set rs" | "a \<in> set rs" "b = r" | "a \<in> set rs" "b \<in> set rs"
        using a b by auto
      then show "se_content (rr_result a) = se_content (rr_result b)"
      proof cases
        case 2
        then show ?thesis using r [of b] eq by simp
      next
        case 3
        then show ?thesis using r [of a] eq by simp
      next
        case 4
        then show ?thesis using l eq unfolding consistent_def by blast
      qed simp
    qed
  qed
  ultimately show "agrees_with seen (r # rs) \<and> consistent (r # rs)" ..
next
  assume rr: "agrees_with seen (r # rs) \<and> consistent (r # rs)"
  then have "consistent rs" unfolding consistent_def by (meson list.set_intros(2))
  moreover have "agrees_with (seen(result_id r \<mapsto> se_content (rr_result r))) rs"
    unfolding agrees_with_def
  proof (intro ballI allI impI)
    fix a c assume a: "a \<in> set rs"
      "(seen(result_id r \<mapsto> se_content (rr_result r))) (result_id a) = Some c"
    show "se_content (rr_result a) = c"
    proof (cases "result_id a = result_id r")
      case True
      then have "se_content (rr_result a) = se_content (rr_result r)"
        using rr a(1) unfolding consistent_def by (meson list.set_intros)
      with a(2) True show ?thesis by simp
    next
      case False
      with rr a show ?thesis unfolding agrees_with_def by simp
    qed
  qed
  ultimately show "agrees_with (seen(result_id r \<mapsto> se_content (rr_result r))) rs \<and> consistent rs"
    by blast
qed

lemma agrees_known:
  assumes "seen (result_id r) = Some (se_content (rr_result r))"
  shows "agrees_with seen rs \<and> consistent rs \<longleftrightarrow> agrees_with seen (r # rs) \<and> consistent (r # rs)"
proof -
  have "agrees_with seen (r # rs) \<longleftrightarrow> agrees_with seen rs"
    using assms unfolding agrees_with_def by auto
  moreover have "consistent (r # rs)" if "agrees_with seen rs" "consistent rs"
  proof -
    have "se_content (rr_result a) = se_content (rr_result r)"
      if "a \<in> set rs" "result_id a = result_id r" for a
      using \<open>agrees_with seen rs\<close> assms that unfolding agrees_with_def by metis
    then show ?thesis
      using \<open>consistent rs\<close> unfolding consistent_def by (metis set_ConsD)
  qed
  moreover have "consistent rs" if "consistent (r # rs)"
    using that unfolding consistent_def by (meson list.set_intros(2))
  ultimately show ?thesis by blast
qed

lemma check_conflicts_ok:
  "check_conflicts seen rs = Inr () \<longleftrightarrow> agrees_with seen rs \<and> consistent rs"
proof (induction seen rs rule: check_conflicts.induct)
  case (1 seen)
  show ?case by (simp add: agrees_with_def consistent_def)
next
  case (2 seen r rs)
  show ?case
  proof (cases "seen (result_id r)")
    case None
    then show ?thesis
      using "2.IH"(1) [OF refl refl None] agrees_upd [of seen r rs] None
      by (simp add: Let_def fun_upd_def)
  next
    case (Some c)
    show ?thesis
    proof (cases "c = se_content (rr_result r)")
      case True
      then show ?thesis
        using "2.IH"(2) [OF refl refl Some] agrees_known [of seen r rs] Some by (simp add: Let_def)
    next
      case False
      with Some show ?thesis by (auto simp: Let_def agrees_with_def)
    qed
  qed
qed

lemma merge_routed_results_eq:
  "merge_routed_results rs k = Inr out \<longleftrightarrow> consistent rs \<and>
     out = (if k = 0 then first_occurrences {} (sort_key merge_key rs)
            else take k (first_occurrences {} (sort_key merge_key rs)))"
proof -
  have "agrees_with Map.empty (sort_key merge_key rs)" "consistent (sort_key merge_key rs) = consistent rs"
    by (simp_all add: agrees_with_def consistent_def)
  then show ?thesis
    by (auto simp: merge_routed_results_def Let_def bindR_eq_Inr check_conflicts_ok emit_merged_eq)
qed

lemma length_first_occurrences:
  "length (first_occurrences {} rs) = card (result_id ` set rs)"
  using distinct_card [OF distinct_first_occurrences [of "{}" rs]] ids_first_occurrences [of "{}" rs]
  by simp

text \<open>
  C16. The merge is a faithful top-k: it fails exactly when two shards return different content
  for one item; otherwise it returns each item at most once, in order of score and id, as many
  items as there are up to \<open>top_k\<close> (all of them for \<open>top_k = 0\<close>), and every result that is left
  out ranks no better than every one that is returned.
\<close>

theorem merge_is_top_k:
  "(is_ok (merge_routed_results rs k) \<longleftrightarrow> consistent rs) \<and>
   (\<forall>out. merge_routed_results rs k = Inr out \<longrightarrow>
      set out \<subseteq> set rs \<and> distinct (map result_id out) \<and> sorted (map merge_key out) \<and>
      length out = (let n = card (result_id ` set rs) in if k = 0 then n else min k n) \<and>
      (\<forall>r \<in> set rs. result_id r \<notin> set (map result_id out) \<longrightarrow>
         (\<forall>x \<in> set out. merge_key x \<le> merge_key r)))"
proof (intro conjI allI impI)
  show "is_ok (merge_routed_results rs k) \<longleftrightarrow> consistent rs"
    by (simp only: is_ok_iff merge_routed_results_eq) blast
next
  fix out assume "merge_routed_results rs k = Inr out"
  define fs where "fs = first_occurrences {} (sort_key merge_key rs)"
  have out: "out = (if k = 0 then fs else take k fs)"
    using \<open>merge_routed_results rs k = Inr out\<close> by (simp add: merge_routed_results_eq fs_def)
  have fs: "set fs \<subseteq> set rs" "distinct (map result_id fs)" "sorted (map merge_key fs)"
    "length fs = card (result_id ` set rs)"
    using set_first_occurrences [of "{}" "sort_key merge_key rs"] distinct_first_occurrences
      sorted_first_occurrences [of "sort_key merge_key rs" "{}"]
      length_first_occurrences [of "sort_key merge_key rs"]
    by (auto simp: fs_def)
  obtain rest where split: "fs = out @ rest"
    using out append_take_drop_id [of k fs] by (metis append_Nil2)
  show "set out \<subseteq> set rs" "distinct (map result_id out)" "sorted (map merge_key out)"
    using fs split by (auto simp: sorted_append)
  show "length out = (let n = card (result_id ` set rs) in if k = 0 then n else min k n)"
    using out fs(4) by (simp add: Let_def min.commute)
  show "\<forall>r \<in> set rs. result_id r \<notin> set (map result_id out) \<longrightarrow>
      (\<forall>x \<in> set out. merge_key x \<le> merge_key r)"
  proof (intro ballI impI)
    fix r x assume r: "r \<in> set rs" "result_id r \<notin> set (map result_id out)" and x: "x \<in> set out"
    obtain f where f: "f \<in> set fs" "result_id f = result_id r" "merge_key f \<le> merge_key r"
      using first_occurrences_minimal [of "sort_key merge_key rs" r "{}"] r(1) by (auto simp: fs_def)
    have "f \<notin> set out" using f(2) r(2) by (metis image_eqI set_map)
    with f(1) have "f \<in> set rest" using split by auto
    then have "merge_key x \<le> merge_key f"
      using fs(3) split x by (auto simp: sorted_append)
    with f(3) show "merge_key x \<le> merge_key r" by order
  qed
qed

definition example_result :: "u64 \<Rightarrow> string \<Rightarrow> string \<Rightarrow> RoutedSearchResult" where
  "example_result score content ident =
     \<lparr> rr_result = \<lparr> se_score = score, se_content = content, se_result_id = ident \<rparr>,
       rr_device_id = DeviceId ''d'', rr_shard_generation = 1, rr_child_receipt_id = None \<rparr>"

theorem merge_is_top_k_witness:
  "\<exists>out. merge_routed_results
     [example_result 1 ''x'' ''f1'', example_result 3 ''x'' ''f1'', example_result 2 ''y'' ''f2''] 1 =
       Inr out \<and> length out = 1 \<and> distinct (map result_id out)"
proof -
  let ?rs = "[example_result 1 ''x'' ''f1'', example_result 3 ''x'' ''f1'', example_result 2 ''y'' ''f2'']"
  have "consistent ?rs" by (simp add: consistent_def example_result_def result_id_def)
  then obtain out where "merge_routed_results ?rs 1 = Inr out"
    using merge_is_top_k [of ?rs 1] by (auto simp: is_ok_iff)
  moreover have "card (result_id ` set ?rs) = 2"
    by (simp add: example_result_def result_id_def)
  ultimately show ?thesis using merge_is_top_k [of ?rs 1] by (simp add: Let_def)
qed

end
