(* ===== verification/Shard_Cache.thy ===== *)
theory Shard_Cache
  imports Shard_Routing
begin

text \<open>
  The bounded cache of open shards (\<open>ShardStoreCache\<close> in \<open>src/store.rs\<close>). The hash map is an
  association list with distinct keys; the recency queue has the least recently used key first.
  The eviction loop is a partial function: it would not return if the queue ran empty before the
  map shrank, and that it returns is proved from the invariant.
\<close>

record 's ShardStoreCache =
  ca_capacity :: usize
  ca_stores :: "(string \<times> 's) list"
  ca_lru :: "string list"
  ca_total_opens :: u64

definition cache_new :: "usize \<Rightarrow> 's ShardStoreCache" where
  "cache_new capacity =
     \<lparr> ca_capacity = max capacity 1, ca_stores = [], ca_lru = [], ca_total_opens = 0 \<rparr>"

text \<open>\<open>retain(|value| value != key)\<close> then \<open>push_back(key)\<close>.\<close>

definition touch :: "string \<Rightarrow> string list \<Rightarrow> string list" where
  "touch key lru = filter (\<lambda>v. v \<noteq> key) lru @ [key]"

definition get_key :: "string \<Rightarrow> 's ShardStoreCache \<Rightarrow> 's option \<times> 's ShardStoreCache" where
  "get_key key c =
     (case map_of (ca_stores c) key of
        None \<Rightarrow> (None, c)
      | Some store \<Rightarrow> (Some store, c\<lparr>ca_lru := touch key (ca_lru c)\<rparr>))"

definition cache_get :: "DeviceId \<Rightarrow> 's ShardStoreCache \<Rightarrow> 's option \<times> 's ShardStoreCache" where
  "cache_get device_id c = get_key (device_id_str device_id) c"

definition remove_store :: "string \<Rightarrow> (string \<times> 's) list \<Rightarrow> (string \<times> 's) list" where
  "remove_store key stores = filter (\<lambda>p. fst p \<noteq> key) stores"

partial_function (option) evict :: "'s ShardStoreCache \<Rightarrow> 's ShardStoreCache option" where
  "evict c =
     (if length (ca_stores c) > ca_capacity c
      then case ca_lru c of
             [] \<Rightarrow> evict c
           | evicted # lru \<Rightarrow>
               evict (c\<lparr>ca_lru := lru, ca_stores := remove_store evicted (ca_stores c)\<rparr>)
      else Some c)"

definition insert_key :: "string \<Rightarrow> 's \<Rightarrow> 's ShardStoreCache \<Rightarrow> 's ShardStoreCache option" where
  "insert_key key store c =
     evict (c\<lparr>ca_stores := (key, store) # remove_store key (ca_stores c),
            ca_lru := touch key (ca_lru c),
            ca_total_opens := u64_saturating_add (ca_total_opens c) 1\<rparr>)"

definition cache_insert :: "DeviceId \<Rightarrow> 's \<Rightarrow> 's ShardStoreCache \<Rightarrow> 's ShardStoreCache option" where
  "cache_insert device_id store c = insert_key (device_id_str device_id) store c"

record ShardCacheMetrics =
  cm_len :: usize
  cm_capacity :: usize
  cm_total_opens :: u64

definition shard_cache_metrics :: "'s ShardStoreCache \<Rightarrow> ShardCacheMetrics" where
  "shard_cache_metrics c =
     \<lparr> cm_len = length (ca_stores c), cm_capacity = ca_capacity c,
       cm_total_opens = ca_total_opens c \<rparr>"

definition clear_shard_cache :: "'s ShardStoreCache \<Rightarrow> 's ShardStoreCache" where
  "clear_shard_cache c = c\<lparr>ca_stores := [], ca_lru := []\<rparr>"

section \<open>Invariant and abstraction\<close>

text \<open>
  The queue holds exactly the keys of the map, once each; between operations the map is within
  its capacity.
\<close>

definition cache_keys_ok :: "'s ShardStoreCache \<Rightarrow> bool" where
  "cache_keys_ok c \<longleftrightarrow>
     distinct (ca_lru c) \<and> distinct (map fst (ca_stores c)) \<and>
     set (ca_lru c) = set (map fst (ca_stores c)) \<and> 1 \<le> ca_capacity c"

definition cache_inv :: "'s ShardStoreCache \<Rightarrow> bool" where
  "cache_inv c \<longleftrightarrow> cache_keys_ok c \<and> length (ca_stores c) \<le> ca_capacity c"

text \<open>The specification: a list of entries, the most recently used one last.\<close>

definition cache_abs :: "'s ShardStoreCache \<Rightarrow> (string \<times> 's) list" where
  "cache_abs c = map (\<lambda>k. (k, the (map_of (ca_stores c) k))) (ca_lru c)"

definition lru_get :: "string \<Rightarrow> (string \<times> 's) list \<Rightarrow> 's option \<times> (string \<times> 's) list" where
  "lru_get key l =
     (case map_of l key of
        None \<Rightarrow> (None, l)
      | Some s \<Rightarrow> (Some s, remove_store key l @ [(key, s)]))"

definition lru_insert :: "nat \<Rightarrow> string \<Rightarrow> 's \<Rightarrow> (string \<times> 's) list \<Rightarrow> (string \<times> 's) list" where
  "lru_insert capacity key s l =
     (let l' = remove_store key l @ [(key, s)] in drop (length l' - capacity) l')"

lemma map_of_remove_store:
  "map_of (remove_store k xs) j = (if j = k then None else map_of xs j)"
  by (induction xs) (auto simp: remove_store_def)

lemma keys_remove_store: "set (map fst (remove_store k xs)) = set (map fst xs) - {k}"
  by (auto simp: remove_store_def)

lemma distinct_remove_store:
  "distinct (map fst xs) \<Longrightarrow> distinct (map fst (remove_store k xs))"
  by (simp add: remove_store_def distinct_map_filter)

lemma remove_store_map:
  "remove_store k (map (\<lambda>k. (k, f k)) ks) = map (\<lambda>k. (k, f k)) (filter (\<lambda>j. j \<noteq> k) ks)"
  by (induction ks) (auto simp: remove_store_def)

lemma map_of_map_pairs: "map_of (map (\<lambda>k. (k, f k)) ks) k = (if k \<in> set ks then Some (f k) else None)"
  by (induction ks) auto

lemma length_lru: "cache_keys_ok c \<Longrightarrow> length (ca_lru c) = length (ca_stores c)"
  unfolding cache_keys_ok_def by (metis distinct_card length_map)

lemma map_of_cache_abs: "cache_keys_ok c \<Longrightarrow> map_of (cache_abs c) = map_of (ca_stores c)"
proof
  fix k assume "cache_keys_ok c"
  then have "k \<in> set (ca_lru c) \<longleftrightarrow> map_of (ca_stores c) k \<noteq> None"
    by (simp add: cache_keys_ok_def map_of_eq_None_iff)
  then show "map_of (cache_abs c) k = map_of (ca_stores c) k"
    by (auto simp: cache_abs_def map_of_map_pairs)
qed

text \<open>One round of the eviction loop drops the least recently used entry.\<close>

lemma evict_step:
  assumes "cache_keys_ok c" "ca_lru c = k # ks"
  defines "c' \<equiv> c\<lparr>ca_lru := ks, ca_stores := remove_store k (ca_stores c)\<rparr>"
  shows "cache_keys_ok c'" "cache_abs c' = tl (cache_abs c)"
    "length (ca_stores c') = length (ca_stores c) - 1"
proof -
  have k: "k \<notin> set ks" "distinct ks" "set (map fst (ca_stores c)) = insert k (set ks)"
    using assms by (auto simp: cache_keys_ok_def)
  show ok: "cache_keys_ok c'"
    using assms k unfolding cache_keys_ok_def c'_def
    by (auto simp: distinct_remove_store keys_remove_store simp del: set_map)
  show "cache_abs c' = tl (cache_abs c)"
    using k assms(2) by (auto simp: cache_abs_def c'_def map_of_remove_store)
  show "length (ca_stores c') = length (ca_stores c) - 1"
    using length_lru [OF ok] length_lru [OF assms(1)] assms(2) by (simp add: c'_def)
qed

lemma evict_terminates:
  assumes "cache_keys_ok c"
  shows "\<exists>c'. evict c = Some c' \<and> cache_inv c' \<and> ca_capacity c' = ca_capacity c \<and>
     ca_total_opens c' = ca_total_opens c \<and>
     cache_abs c' = drop (length (ca_stores c) - ca_capacity c) (cache_abs c)"
  using assms
proof (induction "length (ca_stores c)" arbitrary: c rule: less_induct)
  case less
  show ?case
  proof (cases "length (ca_stores c) > ca_capacity c")
    case False
    then show ?thesis
      using less.prems by (subst evict.simps) (simp add: cache_inv_def)
  next
    case True
    then have "ca_lru c \<noteq> []" using length_lru [OF less.prems] by auto
    then obtain k ks where lru: "ca_lru c = k # ks" by (cases "ca_lru c") auto
    let ?c = "c\<lparr>ca_lru := ks, ca_stores := remove_store k (ca_stores c)\<rparr>"
    note step = evict_step [OF less.prems lru]
    have "length (ca_stores ?c) < length (ca_stores c)" using step(3) True by simp
    from less.hyps [OF this step(1)] obtain c' where
      c': "evict ?c = Some c'" "cache_inv c'" "ca_capacity c' = ca_capacity c"
      "ca_total_opens c' = ca_total_opens c"
      "cache_abs c' = drop (length (ca_stores ?c) - ca_capacity c) (tl (cache_abs c))"
      using step(2) by auto
    have "evict c = Some c'"
      using True lru c'(1) by (subst evict.simps) simp
    moreover have "drop (length (ca_stores ?c) - ca_capacity c) (tl (cache_abs c)) =
        drop (length (ca_stores c) - ca_capacity c) (cache_abs c)"
      using step(3) True by (simp add: drop_Suc [symmetric] Suc_diff_Suc)
    ultimately show ?thesis using c' by auto
  qed
qed

lemma insert_before_eviction:
  fixes key :: string and store :: 's and n :: u64
  assumes "cache_keys_ok c"
  defines "c' \<equiv> c\<lparr>ca_stores := (key, store) # remove_store key (ca_stores c),
            ca_lru := touch key (ca_lru c), ca_total_opens := n\<rparr>"
  shows "cache_keys_ok c'" "cache_abs c' = remove_store key (cache_abs c) @ [(key, store)]"
proof -
  show "cache_keys_ok c'"
    using assms(1) unfolding cache_keys_ok_def c'_def touch_def
    by (auto simp: distinct_remove_store keys_remove_store simp del: set_map)
  show "cache_abs c' = remove_store key (cache_abs c) @ [(key, store)]"
    by (auto simp: cache_abs_def c'_def touch_def remove_store_map map_of_remove_store)
qed

lemma insert_key_refines:
  assumes "cache_inv c"
  shows "\<exists>c'. insert_key key store c = Some c' \<and> cache_inv c' \<and>
     ca_capacity c' = ca_capacity c \<and> cache_abs c' = lru_insert (ca_capacity c) key store (cache_abs c)"
proof -
  have keys: "cache_keys_ok c" using assms by (simp add: cache_inv_def)
  let ?c = "c\<lparr>ca_stores := (key, store) # remove_store key (ca_stores c),
            ca_lru := touch key (ca_lru c),
            ca_total_opens := u64_saturating_add (ca_total_opens c) 1\<rparr>"
  note mid = insert_before_eviction [OF keys, where key = key and store = store and
      n = "u64_saturating_add (ca_total_opens c) 1"]
  have "length (ca_stores ?c) = length (cache_abs ?c)"
    using length_lru [OF mid(1)] by (simp add: cache_abs_def)
  then show ?thesis
    using evict_terminates [OF mid(1)] mid(2)
    by (auto simp: insert_key_def lru_insert_def Let_def)
qed

lemma get_key_refines:
  assumes "cache_inv c" "get_key key c = (r, c')"
  shows "cache_inv c' \<and> ca_capacity c' = ca_capacity c \<and> lru_get key (cache_abs c) = (r, cache_abs c')"
proof (cases "map_of (ca_stores c) key")
  case None
  then show ?thesis
    using assms map_of_cache_abs [of c] by (auto simp: get_key_def lru_get_def cache_inv_def)
next
  case (Some s)
  have keys: "cache_keys_ok c" using assms(1) by (simp add: cache_inv_def)
  have c': "r = Some s" "c' = c\<lparr>ca_lru := touch key (ca_lru c)\<rparr>"
    using assms(2) Some by (auto simp: get_key_def)
  have "key \<in> set (map fst (ca_stores c))" using Some by (force dest: map_of_SomeD)
  then have "cache_inv c'"
    using assms(1) by (auto simp: c' cache_inv_def cache_keys_ok_def touch_def)
  moreover have "cache_abs c' = remove_store key (cache_abs c) @ [(key, s)]"
    by (simp add: c' cache_abs_def touch_def remove_store_map Some)
  ultimately show ?thesis
    using map_of_cache_abs [OF keys] Some by (simp add: c' lru_get_def)
qed

text \<open>
  C17. The cache is a bounded LRU: both operations keep the invariant (queue and map agree, at
  most \<open>capacity\<close> open shards, capacity at least one) and behave like the list specification, in
  which a hit moves the entry to the end and an insertion drops the least recently used entries;
  the eviction loop always returns.
\<close>

theorem cache_refines_lru:
  assumes "cache_inv c"
  shows "(\<exists>c'. insert_key key store c = Some c' \<and> cache_inv c' \<and> ca_capacity c' = ca_capacity c \<and>
            cache_abs c' = lru_insert (ca_capacity c) key store (cache_abs c)) \<and>
     (\<exists>r c'. get_key key c = (r, c') \<and> cache_inv c' \<and> ca_capacity c' = ca_capacity c \<and>
            lru_get key (cache_abs c) = (r, cache_abs c'))"
  using insert_key_refines [OF assms] get_key_refines [OF assms] by (metis prod.exhaust)

lemma cache_new_inv: "cache_inv (cache_new n)"
  by (simp add: cache_inv_def cache_keys_ok_def cache_new_def)

lemma clear_shard_cache_inv: "cache_inv c \<Longrightarrow> cache_inv (clear_shard_cache c)"
  by (simp add: cache_inv_def cache_keys_ok_def clear_shard_cache_def)

theorem cache_refines_lru_witness:
  "\<exists>c'. insert_key ''b'' (2 :: nat) (cache_new 0) = Some c' \<and> cache_inv c' \<and>
     ca_capacity c' = 1 \<and> cache_abs c' = [(''b'', 2)]"
  using cache_refines_lru [OF cache_new_inv [of 0], of "''b''" "2 :: nat"]
  by (simp add: cache_new_def cache_abs_def lru_insert_def remove_store_def)

end
