(* ===== verification/Profile_Access.thy ===== *)
theory Profile_Access
  imports Mnemes_Types Replication_Validate
begin

text \<open>
  Memory profiles, profile-owned stores, grants, actor bindings, authorization snapshots and
  permits (\<open>src/profile_store.rs\<close>). Fresh UUIDs are arguments; SHA-256 comes from \<open>crypto\<close>.
  Times are seconds as \<open>u64\<close>.
\<close>

section \<open>Digests and text checks\<close>

definition PROFILE_MAX_ID_BYTES :: usize where
  "PROFILE_MAX_ID_BYTES = 128"

definition MAX_LABEL_BYTES :: usize where
  "MAX_LABEL_BYTES = 256"

definition MAX_PATH_BYTES :: usize where
  "MAX_PATH_BYTES = 512"

definition AUTHORIZATION_POLICY_VERSION :: string where
  "AUTHORIZATION_POLICY_VERSION = ''mnemes.profile-authz.v1''"

definition MAX_PERMIT_QUERY_BUDGET :: usize where
  "MAX_PERMIT_QUERY_BUDGET = 100"

definition sized_field :: "string \<Rightarrow> byte list" where
  "sized_field s = be_u64 (of_nat (length s)) @ as_bytes s"

definition digest_material :: "string \<Rightarrow> string list \<Rightarrow> byte list" where
  "digest_material domain parts = sized_field domain @ concat (map sized_field parts)"

definition digest_fields :: "crypto \<Rightarrow> string \<Rightarrow> string list \<Rightarrow> string" where
  "digest_fields c domain parts = hex_bytes (sha256 c (digest_material domain parts))"

definition validate_field_text :: "string \<Rightarrow> string \<Rightarrow> usize \<Rightarrow> MnemesError + unit" where
  "validate_field_text v field max_bytes = checks
     [fail_if (v = []) (InvalidMemoryScope (field @ '' cannot be empty'')),
      fail_if (length v > max_bytes)
        (InvalidMemoryScope (field @ '' exceeds '' @ dec_nat max_bytes @ '' bytes'')),
      fail_if (has_control v) (InvalidMemoryScope (field @ '' contains a control character''))]"

definition id_char :: "char \<Rightarrow> bool" where
  "id_char c \<longleftrightarrow> is_ascii_alphanumeric c \<or> c \<in> set ''._-''"

section \<open>Profiles and stores\<close>

datatype MemoryProfileId = MemoryProfileId (profile_id_str: string)

definition profile_id_parse :: "string \<Rightarrow> MnemesError + MemoryProfileId" where
  "profile_id_parse s =
     (let v = trim s in
      bindR (validate_field_text v ''profile_id'' PROFILE_MAX_ID_BYTES) (\<lambda>_.
      if \<not> list_all id_char v
      then Inl (InvalidMemoryScope (''profile_id must contain only ASCII letters, digits, '' @
             quoted ''.'' @ '', '' @ quoted ''_'' @ '', or '' @ quoted ''-''))
      else Inr (MemoryProfileId v)))"

definition canonical_memory_store_relative_path ::
    "MemoryProfileId \<Rightarrow> string \<Rightarrow> MnemesError + string" where
  "canonical_memory_store_relative_path profile_id store_id =
     bindR (validate_field_text store_id ''store_id'' PROFILE_MAX_ID_BYTES) (\<lambda>_.
     if \<not> list_all id_char store_id
     then Inl (InvalidMemoryScope (''store_id must contain only ASCII letters, digits, '' @
            quoted ''.'' @ '', '' @ quoted ''_'' @ '', or '' @ quoted ''-''))
     else Inr (''memory/profiles/'' @ profile_id_str profile_id @ ''/'' @ store_id))"

datatype MemoryProfileStatus = ProfileActive | ProfileRevoked

fun profile_status_as_str :: "MemoryProfileStatus \<Rightarrow> string" where
  "profile_status_as_str ProfileActive = ''active''"
| "profile_status_as_str ProfileRevoked = ''revoked''"

definition profile_status_parse :: "string \<Rightarrow> MnemesError + MemoryProfileStatus" where
  "profile_status_parse s =
     (if s = ''active'' then Inr ProfileActive
      else if s = ''revoked'' then Inr ProfileRevoked
      else Inl (InvalidMemoryScope (''invalid memory profile status '' @ quoted s)))"

record MemoryProfile =
  mp_profile_id :: MemoryProfileId
  mp_owner_device_id :: DeviceId
  mp_label :: string
  mp_status :: MemoryProfileStatus
  mp_created_at :: string

definition memory_profile_new ::
    "MemoryProfileId \<Rightarrow> DeviceId \<Rightarrow> string \<Rightarrow> MnemesError + MemoryProfile" where
  "memory_profile_new profile_id owner_device_id label =
     bindR (validate_field_text label ''profile label'' MAX_LABEL_BYTES) (\<lambda>_.
     Inr \<lparr> mp_profile_id = profile_id, mp_owner_device_id = owner_device_id, mp_label = label,
           mp_status = ProfileActive, mp_created_at = [] \<rparr>)"

definition memory_profile_validate :: "MemoryProfile \<Rightarrow> MnemesError + unit" where
  "memory_profile_validate p = validate_field_text (mp_label p) ''profile label'' MAX_LABEL_BYTES"

datatype MemoryStoreStatus = StoreActive | StoreQuarantined | StoreRevoked

fun store_status_as_str :: "MemoryStoreStatus \<Rightarrow> string" where
  "store_status_as_str StoreActive = ''active''"
| "store_status_as_str StoreQuarantined = ''quarantined''"
| "store_status_as_str StoreRevoked = ''revoked''"

definition store_status_parse :: "string \<Rightarrow> MnemesError + MemoryStoreStatus" where
  "store_status_parse s =
     (if s = ''active'' then Inr StoreActive
      else if s = ''quarantined'' then Inr StoreQuarantined
      else if s = ''revoked'' then Inr StoreRevoked
      else Inl (InvalidMemoryScope (''invalid memory store status '' @ quoted s)))"

record MemoryStoreIdentity =
  ms_store_id :: string
  ms_profile_id :: MemoryProfileId
  ms_owner_device_id :: DeviceId
  ms_namespace :: string
  ms_relative_path :: string
  ms_status :: MemoryStoreStatus
  ms_created_at :: string

text \<open>\<open>std::path\<close> on Unix: absolute is a leading slash, \<open>..\<close> is a component between slashes.\<close>

definition path_components :: "string \<Rightarrow> string list" where
  "path_components p = split_on (\<lambda>c. c = CHR ''/'') p"

definition escapes :: "string \<Rightarrow> bool" where
  "escapes p \<longleftrightarrow> (case p of [] \<Rightarrow> False | ch # _ \<Rightarrow> ch = CHR ''/'') \<or>
     ''..'' \<in> set (path_components p)"

definition memory_store_identity_new ::
    "string \<Rightarrow> MemoryProfileId \<Rightarrow> DeviceId \<Rightarrow> string \<Rightarrow> string \<Rightarrow>
     MnemesError + MemoryStoreIdentity" where
  "memory_store_identity_new store_id profile_id owner_device_id namespace relative_path =
     bindR (checks
       [validate_field_text store_id ''store_id'' PROFILE_MAX_ID_BYTES,
        validate_field_text namespace ''namespace'' PROFILE_MAX_ID_BYTES,
        validate_field_text relative_path ''relative_path'' MAX_PATH_BYTES,
        fail_if (escapes relative_path) (InvalidMemoryScope
          (''relative_path must be relative and may not contain '' @ quoted ''..''))]) (\<lambda>_.
     bindR (canonical_memory_store_relative_path profile_id store_id) (\<lambda>expected_path.
     if relative_path \<noteq> expected_path
     then Inl (InvalidMemoryScope
            (''relative_path must equal the canonical profile store path '' @ expected_path))
     else Inr \<lparr> ms_store_id = store_id, ms_profile_id = profile_id,
                ms_owner_device_id = owner_device_id, ms_namespace = namespace,
                ms_relative_path = relative_path, ms_status = StoreActive,
                ms_created_at = [] \<rparr>))"

definition memory_store_identity_validate :: "MemoryStoreIdentity \<Rightarrow> MnemesError + unit" where
  "memory_store_identity_validate s =
     bindR (checks
       [validate_field_text (ms_store_id s) ''store_id'' PROFILE_MAX_ID_BYTES,
        validate_field_text (ms_namespace s) ''namespace'' PROFILE_MAX_ID_BYTES,
        validate_field_text (ms_relative_path s) ''relative_path'' MAX_PATH_BYTES,
        fail_if (escapes (ms_relative_path s)) (InvalidMemoryScope
          (''relative_path must be relative and may not contain '' @ quoted ''..''))]) (\<lambda>_.
     bindR (canonical_memory_store_relative_path (ms_profile_id s) (ms_store_id s)) (\<lambda>expected_path.
     fail_if (ms_relative_path s \<noteq> expected_path) (InvalidMemoryScope
       ''relative_path does not match the canonical profile store path'')))"

section \<open>Grants\<close>

datatype MemoryAccessEffect = Search | Read | Write

fun effect_as_str :: "MemoryAccessEffect \<Rightarrow> string" where
  "effect_as_str Search = ''search''"
| "effect_as_str Read = ''read''"
| "effect_as_str Write = ''write''"

definition effect_parse :: "string \<Rightarrow> MnemesError + MemoryAccessEffect" where
  "effect_parse s =
     (if s = ''search'' then Inr Search
      else if s = ''read'' then Inr Read
      else if s = ''write'' then Inr Write
      else Inl (InvalidMemoryScope (''invalid memory access effect '' @ quoted s)))"

datatype MemoryGrantId = MemoryGrantId (grant_id_str: string)

definition grant_id_parse :: "'u uuid_lib \<Rightarrow> string \<Rightarrow> MnemesError + MemoryGrantId" where
  "grant_id_parse u s =
     bindR (map_err (\<lambda>error. InvalidMemoryScope (''invalid grant_id: '' @ error))
              (uuid_parse_str u s)) (\<lambda>parsed.
     if \<not> uuid_is_random u parsed \<or> \<not> uuid_is_rfc4122 u parsed
     then Inl (InvalidMemoryScope ''grant_id must be an RFC 4122 UUID v4'')
     else Inr (MemoryGrantId (uuid_to_string u parsed)))"

record MemoryAccessGrant =
  gr_grant_id :: MemoryGrantId
  gr_grantee_profile_id :: MemoryProfileId
  gr_store_id :: string
  gr_namespace :: string
  gr_effect :: MemoryAccessEffect
  gr_issued_by_actor_id :: ActorId
  gr_valid_from :: u64
  gr_expires_at :: u64
  gr_revoked_at :: "u64 option"
  gr_created_at :: string

definition grant_validate :: "MemoryAccessGrant \<Rightarrow> MnemesError + unit" where
  "grant_validate g = checks
     [validate_field_text (gr_store_id g) ''store_id'' PROFILE_MAX_ID_BYTES,
      validate_field_text (gr_namespace g) ''namespace'' PROFILE_MAX_ID_BYTES,
      fail_if (gr_expires_at g \<le> gr_valid_from g)
        (InvalidMemoryScope ''grant expires_at must be after valid_from''),
      fail_if (case gr_revoked_at g of None \<Rightarrow> False | Some v \<Rightarrow> v < gr_valid_from g)
        (InvalidMemoryScope ''grant revoked_at cannot precede valid_from'')]"

definition grant_allows :: "MemoryAccessGrant \<Rightarrow> MemoryAccessEffect \<Rightarrow> string \<Rightarrow> u64 \<Rightarrow> bool" where
  "grant_allows g effect namespace at \<longleftrightarrow>
     gr_revoked_at g = None \<and> gr_effect g = effect \<and> gr_namespace g = namespace \<and>
     at \<ge> gr_valid_from g \<and> at < gr_expires_at g"

definition authorize_memory_access ::
    "MemoryProfileId \<Rightarrow> MemoryProfile \<Rightarrow> MemoryStoreIdentity \<Rightarrow> MemoryAccessGrant list \<Rightarrow>
     MemoryAccessEffect \<Rightarrow> string \<Rightarrow> u64 \<Rightarrow> MnemesError + unit" where
  "authorize_memory_access requester profile store grants effect namespace at =
     bindR (checks
       [fail_if (mp_profile_id profile \<noteq> requester) (MemoryGrantDenied
          ''requesting profile identity does not match the authorization subject''),
        fail_if (mp_status profile \<noteq> ProfileActive)
          (MemoryGrantDenied ''requesting profile is not active''),
        fail_if (ms_status store \<noteq> StoreActive)
          (MemoryGrantDenied ''target store is not active''),
        fail_if (ms_namespace store \<noteq> namespace)
          (MemoryGrantDenied ''requested namespace is not the store namespace'')]) (\<lambda>_.
     if ms_profile_id store = requester then Inr ()
     else if list_ex (\<lambda>g. gr_grantee_profile_id g = requester \<and>
               gr_store_id g = ms_store_id store \<and> grant_allows g effect namespace at) grants
     then Inr ()
     else Inl (MemoryGrantDenied (''no active grant covers the requested profile, store, '' @
                 ''namespace, effect, and time'')))"

section \<open>Actor bindings\<close>

datatype ActorProfileBindingId = ActorProfileBindingId (binding_id_str: string)

definition binding_id_parse :: "'u uuid_lib \<Rightarrow> string \<Rightarrow> MnemesError + ActorProfileBindingId" where
  "binding_id_parse u s =
     bindR (map_err (\<lambda>error. InvalidMemoryScope (''invalid actor profile binding id: '' @ error))
              (uuid_parse_str u s)) (\<lambda>parsed.
     if \<not> uuid_is_random u parsed \<or> \<not> uuid_is_rfc4122 u parsed
     then Inl (InvalidMemoryScope ''actor profile binding id must be an RFC 4122 UUID v4'')
     else Inr (ActorProfileBindingId (uuid_to_string u parsed)))"

record ActorProfileBinding =
  pb_binding_id :: ActorProfileBindingId
  pb_actor_id :: ActorId
  pb_profile_id :: MemoryProfileId
  pb_owner_device_id :: DeviceId
  pb_issued_by_actor_id :: ActorId
  pb_valid_from :: u64
  pb_expires_at :: u64
  pb_revoked_at :: "u64 option"
  pb_binding_epoch :: u64
  pb_binding_digest :: string
  pb_recorded_at :: string

definition binding_fields :: "ActorProfileBinding \<Rightarrow> string list" where
  "binding_fields b =
     [binding_id_str (pb_binding_id b), actor_id_str (pb_actor_id b),
      profile_id_str (pb_profile_id b), device_id_str (pb_owner_device_id b),
      actor_id_str (pb_issued_by_actor_id b), dec_u64 (pb_valid_from b),
      dec_u64 (pb_expires_at b), dec_u64 (pb_binding_epoch b)]"

definition binding_expected_digest :: "crypto \<Rightarrow> ActorProfileBinding \<Rightarrow> string" where
  "binding_expected_digest c b =
     digest_fields c ''mnemes.actor-profile-binding.v1'' (binding_fields b)"

definition binding_validate :: "crypto \<Rightarrow> ActorProfileBinding \<Rightarrow> MnemesError + unit" where
  "binding_validate c b = checks
     [fail_if (pb_expires_at b \<le> pb_valid_from b)
        (ActorProfileBindingDenied ''binding expires_at must be after valid_from''),
      fail_if (pb_binding_epoch b = 0)
        (ActorProfileBindingDenied ''binding_epoch must be positive''),
      fail_if (case pb_revoked_at b of None \<Rightarrow> False | Some v \<Rightarrow> v < pb_valid_from b)
        (ActorProfileBindingDenied ''binding revoked_at cannot precede valid_from''),
      fail_if (length (pb_binding_digest b) \<noteq> 64 \<or>
               pb_binding_digest b \<noteq> binding_expected_digest c b)
        (ActorProfileBindingDenied ''binding digest does not match immutable issuance fields'')]"

definition binding_new ::
    "crypto \<Rightarrow> ActorProfileBindingId \<Rightarrow> ActorId \<Rightarrow> MemoryProfileId \<Rightarrow> DeviceId \<Rightarrow> ActorId \<Rightarrow> u64 \<Rightarrow> u64 \<Rightarrow>
     u64 \<Rightarrow> MnemesError + ActorProfileBinding" where
  "binding_new c fresh_id actor_id profile_id owner_device_id issued_by_actor_id valid_from
       expires_at binding_epoch =
     (let binding =
        \<lparr> pb_binding_id = fresh_id, pb_actor_id = actor_id, pb_profile_id = profile_id,
          pb_owner_device_id = owner_device_id, pb_issued_by_actor_id = issued_by_actor_id,
          pb_valid_from = valid_from, pb_expires_at = expires_at, pb_revoked_at = None,
          pb_binding_epoch = binding_epoch, pb_binding_digest = [], pb_recorded_at = [] \<rparr>;
          binding = binding\<lparr>pb_binding_digest := binding_expected_digest c binding\<rparr>
      in bindR (binding_validate c binding) (\<lambda>_. Inr binding))"

definition binding_is_active_at :: "ActorProfileBinding \<Rightarrow> u64 \<Rightarrow> bool" where
  "binding_is_active_at b at \<longleftrightarrow>
     pb_revoked_at b = None \<and> at \<ge> pb_valid_from b \<and> at < pb_expires_at b"

section \<open>Snapshots and permits\<close>

record AuthorizedMemoryStore =
  as_store_id :: string
  as_profile_id :: MemoryProfileId
  as_owner_device_id :: DeviceId
  as_namespace :: string
  as_relative_path :: string
  as_grant_ids :: "MemoryGrantId list"
  as_authorization_expires_at :: u64

record AuthorizationSnapshot =
  sn_authorization_snapshot_id :: string
  sn_actor_id :: ActorId
  sn_actor_device_id :: DeviceId
  sn_subject_profile_id :: MemoryProfileId
  sn_binding_id :: ActorProfileBindingId
  sn_binding_digest :: string
  sn_effect :: MemoryAccessEffect
  sn_namespaces :: "string list"
  sn_authorized_stores :: "AuthorizedMemoryStore list"
  sn_evaluated_at :: u64
  sn_policy_version :: string
  sn_snapshot_digest :: string

definition store_line :: "AuthorizedMemoryStore \<Rightarrow> string" where
  "store_line s =
     as_store_id s @ ''|'' @ profile_id_str (as_profile_id s) @ ''|'' @
     device_id_str (as_owner_device_id s) @ ''|'' @ as_namespace s @ ''|'' @
     as_relative_path s @ ''|'' @ join '','' (map grant_id_str (as_grant_ids s)) @ ''|'' @
     dec_u64 (as_authorization_expires_at s)"

definition snapshot_fields :: "AuthorizationSnapshot \<Rightarrow> string list" where
  "snapshot_fields s =
     [actor_id_str (sn_actor_id s), device_id_str (sn_actor_device_id s),
      profile_id_str (sn_subject_profile_id s), binding_id_str (sn_binding_id s),
      sn_binding_digest s, effect_as_str (sn_effect s), join '','' (sn_namespaces s),
      join [CHR 0x0A] (map store_line (sn_authorized_stores s)),
      dec_u64 (sn_evaluated_at s), sn_policy_version s]"

definition snapshot_expected_digest :: "crypto \<Rightarrow> AuthorizationSnapshot \<Rightarrow> string" where
  "snapshot_expected_digest c s =
     digest_fields c ''mnemes.authorization-snapshot.v1'' (snapshot_fields s)"

definition normalize_store :: "AuthorizedMemoryStore \<Rightarrow> AuthorizedMemoryStore" where
  "normalize_store s = s\<lparr>as_grant_ids := remdups_adj (sort_key grant_id_str (as_grant_ids s))\<rparr>"

definition snapshot_new ::
    "crypto \<Rightarrow> string \<Rightarrow> ActorProfileBinding \<Rightarrow> MemoryAccessEffect \<Rightarrow> string list \<Rightarrow>
     AuthorizedMemoryStore list \<Rightarrow> u64 \<Rightarrow> AuthorizationSnapshot" where
  "snapshot_new c fresh_id binding effect namespaces authorized_stores evaluated_at =
     (let snapshot =
        \<lparr> sn_authorization_snapshot_id = fresh_id,
          sn_actor_id = pb_actor_id binding,
          sn_actor_device_id = pb_owner_device_id binding,
          sn_subject_profile_id = pb_profile_id binding,
          sn_binding_id = pb_binding_id binding,
          sn_binding_digest = pb_binding_digest binding,
          sn_effect = effect,
          sn_namespaces = remdups_adj (sort namespaces),
          sn_authorized_stores = map normalize_store (sort_key as_store_id authorized_stores),
          sn_evaluated_at = evaluated_at,
          sn_policy_version = AUTHORIZATION_POLICY_VERSION,
          sn_snapshot_digest = [] \<rparr>
      in snapshot\<lparr>sn_snapshot_digest := snapshot_expected_digest c snapshot\<rparr>)"

definition snapshot_validate :: "crypto \<Rightarrow> AuthorizationSnapshot \<Rightarrow> MnemesError + unit" where
  "snapshot_validate c s = checks
     [fail_if (sn_policy_version s \<noteq> AUTHORIZATION_POLICY_VERSION)
        (AuthorizationSnapshotInvalid ''unsupported authorization policy version''),
      fail_if (sn_snapshot_digest s \<noteq> snapshot_expected_digest c s)
        (AuthorizationSnapshotInvalid
           ''snapshot digest does not match its authorization material'')]"

record MemoryAccessPermit =
  pm_permit_id :: string
  pm_subject_profile_id :: MemoryProfileId
  pm_actor_id :: ActorId
  pm_actor_device_id :: DeviceId
  pm_store_id :: string
  pm_namespace :: string
  pm_effect :: MemoryAccessEffect
  pm_grant_ids :: "MemoryGrantId list"
  pm_authorization_snapshot_id :: string
  pm_authorization_snapshot_digest :: string
  pm_issued_at :: u64
  pm_expires_at :: u64
  pm_query_budget :: usize
  pm_policy_version :: string
  pm_permit_digest :: string

definition permit_fields :: "MemoryAccessPermit \<Rightarrow> string list" where
  "permit_fields p =
     [profile_id_str (pm_subject_profile_id p), actor_id_str (pm_actor_id p),
      device_id_str (pm_actor_device_id p), pm_store_id p, pm_namespace p,
      effect_as_str (pm_effect p), join '','' (map grant_id_str (pm_grant_ids p)),
      pm_authorization_snapshot_digest p, dec_u64 (pm_issued_at p), dec_u64 (pm_expires_at p),
      dec_nat (pm_query_budget p), pm_policy_version p]"

definition permit_new ::
    "crypto \<Rightarrow> string \<Rightarrow> AuthorizationSnapshot \<Rightarrow> AuthorizedMemoryStore \<Rightarrow> u64 \<Rightarrow> u64 \<Rightarrow> usize \<Rightarrow>
     MnemesError + MemoryAccessPermit" where
  "permit_new c fresh_id snapshot store issued_at expires_at query_budget =
     bindR (checks
       [fail_if (expires_at \<le> issued_at)
          (AuthorizationSnapshotInvalid ''permit expires_at must be after issued_at''),
        fail_if (query_budget = 0 \<or> query_budget > MAX_PERMIT_QUERY_BUDGET)
          (AuthorizationSnapshotInvalid (''query budget must be within 1..='' @
             dec_nat MAX_PERMIT_QUERY_BUDGET))]) (\<lambda>_.
     let permit =
        \<lparr> pm_permit_id = fresh_id,
          pm_subject_profile_id = sn_subject_profile_id snapshot,
          pm_actor_id = sn_actor_id snapshot,
          pm_actor_device_id = sn_actor_device_id snapshot,
          pm_store_id = as_store_id store,
          pm_namespace = as_namespace store,
          pm_effect = sn_effect snapshot,
          pm_grant_ids = sort_key grant_id_str (as_grant_ids store),
          pm_authorization_snapshot_id = sn_authorization_snapshot_id snapshot,
          pm_authorization_snapshot_digest = sn_snapshot_digest snapshot,
          pm_issued_at = issued_at,
          pm_expires_at = expires_at,
          pm_query_budget = query_budget,
          pm_policy_version = sn_policy_version snapshot,
          pm_permit_digest = [] \<rparr>
     in Inr (permit\<lparr>pm_permit_digest :=
               digest_fields c ''mnemes.memory-access-permit.v1'' (permit_fields permit)\<rparr>))"

section \<open>Codecs\<close>

interpretation profile_status: text_codec profile_status_as_str profile_status_parse
proof
  show "profile_status_parse (profile_status_as_str x) = Inr x" for x
    by (cases x) (simp_all add: profile_status_parse_def)
qed (auto simp: profile_status_parse_def split: if_splits)

interpretation store_status: text_codec store_status_as_str store_status_parse
proof
  show "store_status_parse (store_status_as_str x) = Inr x" for x
    by (cases x) (simp_all add: store_status_parse_def)
qed (auto simp: store_status_parse_def split: if_splits)

interpretation access_effect: text_codec effect_as_str effect_parse
proof
  show "effect_parse (effect_as_str x) = Inr x" for x
    by (cases x) (simp_all add: effect_parse_def)
qed (auto simp: effect_parse_def split: if_splits)

section \<open>The access decision\<close>

text \<open>
  Exactly when access is granted: the requester is the active subject profile, the store is
  active and has the requested namespace, and either the store belongs to the profile or some
  unrevoked grant of that effect, namespace and store to that profile covers the time. Nothing
  else grants access; in particular no number of other grants does.
\<close>

theorem authorize_memory_access_iff:
  "authorize_memory_access requester profile store grants effect namespace at = Inr () \<longleftrightarrow>
     mp_profile_id profile = requester \<and> mp_status profile = ProfileActive \<and>
     ms_status store = StoreActive \<and> ms_namespace store = namespace \<and>
     (ms_profile_id store = requester \<or>
      (\<exists>g \<in> set grants. gr_grantee_profile_id g = requester \<and> gr_store_id g = ms_store_id store \<and>
         gr_namespace g = namespace \<and> gr_effect g = effect \<and> gr_revoked_at g = None \<and>
         unat at \<in> {unat (gr_valid_from g) ..< unat (gr_expires_at g)}))"
  by (auto simp: authorize_memory_access_def result_simps list_ex_iff grant_allows_def
      word_le_nat_alt word_less_nat_alt)

section \<open>Digest material\<close>

text \<open>A length is a \<open>usize\<close>, so it fits 64 bits.\<close>

definition fits_u64 :: "string \<Rightarrow> bool" where
  "fits_u64 s \<longleftrightarrow> length s < 2 ^ 64"

lemma sized_field_append_inj:
  assumes "fits_u64 a" "fits_u64 b"
  shows "sized_field a @ x = sized_field b @ y \<longleftrightarrow> a = b \<and> x = y"
proof
  assume "sized_field a @ x = sized_field b @ y"
  then have "be_u64 (of_nat (length a)) = be_u64 (of_nat (length b))"
    and rest: "as_bytes a @ x = as_bytes b @ y"
    by (simp_all add: sized_field_def append_eq_same_length)
  then have "unat (of_nat (length a) :: u64) = unat (of_nat (length b) :: u64)" by simp
  with assms have "length a = length b" by (simp add: fits_u64_def unat_of_nat)
  with rest show "a = b \<and> x = y" by (simp add: append_eq_same_length)
qed simp

lemma sized_fields_inj:
  "list_all fits_u64 as \<Longrightarrow> list_all fits_u64 bs \<Longrightarrow>
   concat (map sized_field as) = concat (map sized_field bs) \<longleftrightarrow> as = bs"
proof (induction as arbitrary: bs)
  case Nil
  show ?case by (cases bs) (auto simp: sized_field_def be_bytes_def)
next
  case (Cons a as)
  show ?case
  proof (cases bs)
    case Nil
    then show ?thesis by (auto simp: sized_field_def be_bytes_def)
  next
    case (Cons b bs')
    with Cons.IH Cons.prems show ?thesis by (simp add: sized_field_append_inj)
  qed
qed

lemma digest_material_inj:
  "list_all fits_u64 (d # as) \<Longrightarrow> list_all fits_u64 (e # bs) \<Longrightarrow>
   digest_material d as = digest_material e bs \<longleftrightarrow> d = e \<and> as = bs"
  using sized_fields_inj [of "d # as" "e # bs"] by (simp add: digest_material_def)

lemma length_dec_nat: "length (dec_nat n) \<le> max 1 n"
proof (induction n rule: dec_nat.induct)
  case (1 n)
  show ?case
  proof (cases "n < 10")
    case False
    with 1 have "length (dec_nat (n div 10)) \<le> max 1 (n div 10)" by simp
    with False show ?thesis by (subst dec_nat.simps) (simp add: max_def split: if_splits)
  qed (subst dec_nat.simps, simp)
qed

lemma fits_u64_dec [simp]: "fits_u64 (dec_u64 w)"
proof -
  have "unat w < 2 ^ 64" using unsigned_less [of w] by simp
  then show ?thesis
    using length_dec_nat [of "unat w"]
    by (simp add: fits_u64_def dec_u64_def max_def split: if_splits)
qed

definition binding_fits :: "ActorProfileBinding \<Rightarrow> bool" where
  "binding_fits b \<longleftrightarrow> list_all fits_u64 (binding_fields b)"

definition binding_material :: "ActorProfileBinding \<Rightarrow> byte list" where
  "binding_material b = digest_material ''mnemes.actor-profile-binding.v1'' (binding_fields b)"

text \<open>
  A binding digest pins the issuance: two bindings that validate and carry the same digest
  agree on identity, actor, profile, device, issuer, window and epoch, unless SHA-256 collides
  on their digest material. Only the revocation and the recording time may differ.
\<close>

theorem binding_digest_pins_issuance:
  assumes "binding_validate c a = Inr ()" "binding_validate c b = Inr ()"
    and "binding_fits a" "binding_fits b"
    and "no_collision c (binding_material a) (binding_material b)"
    and "pb_binding_digest a = pb_binding_digest b"
  shows "a\<lparr>pb_revoked_at := None, pb_recorded_at := []\<rparr> =
     b\<lparr>pb_revoked_at := None, pb_recorded_at := []\<rparr>"
proof -
  have "sha256 c (binding_material a) = sha256 c (binding_material b)"
    using assms(1,2,6)
    by (auto simp: binding_validate_def result_simps binding_expected_digest_def digest_fields_def
        binding_material_def)
  with assms(5) have "binding_material a = binding_material b" by (simp add: no_collision_def)
  then have "binding_fields a = binding_fields b"
    using assms(3,4) by (simp add: binding_material_def digest_material_inj binding_fits_def
        fits_u64_def)
  then have "pb_binding_id a = pb_binding_id b \<and> pb_actor_id a = pb_actor_id b \<and>
      pb_profile_id a = pb_profile_id b \<and> pb_owner_device_id a = pb_owner_device_id b \<and>
      pb_issued_by_actor_id a = pb_issued_by_actor_id b \<and> pb_valid_from a = pb_valid_from b \<and>
      pb_expires_at a = pb_expires_at b \<and> pb_binding_epoch a = pb_binding_epoch b"
    by (auto simp: binding_fields_def intro: ActorProfileBindingId.expand ActorId.expand
        MemoryProfileId.expand DeviceId.expand)
  with assms(6) show ?thesis by simp
qed

definition example_binding :: ActorProfileBinding where
  "example_binding =
     \<lparr> pb_binding_id = ActorProfileBindingId ''b'', pb_actor_id = ActorId ''a'',
       pb_profile_id = MemoryProfileId ''p'', pb_owner_device_id = DeviceId ''d'',
       pb_issued_by_actor_id = ActorId ''op'', pb_valid_from = 10, pb_expires_at = 20,
       pb_revoked_at = None, pb_binding_epoch = 1,
       pb_binding_digest = digest_fields toy_crypto ''mnemes.actor-profile-binding.v1''
         [''b'', ''a'', ''p'', ''d'', ''op'', dec_u64 10, dec_u64 20, dec_u64 1],
       pb_recorded_at = [] \<rparr>"

lemma length_digest_fields: "crypto_laws c \<Longrightarrow> length (digest_fields c d fs) = 64"
  by (simp add: digest_fields_def crypto_laws_def)

lemma example_binding_digest: "binding_expected_digest toy_crypto example_binding =
    pb_binding_digest example_binding"
  by (simp add: binding_expected_digest_def binding_fields_def example_binding_def)

lemma example_binding_valid: "binding_validate toy_crypto example_binding = Inr ()"
proof -
  have "length (pb_binding_digest example_binding) = 64"
    by (simp add: example_binding_def length_digest_fields toy_crypto_laws)
  then show ?thesis
    by (simp add: binding_validate_def example_binding_digest)
      (simp add: example_binding_def)
qed

lemma example_binding_revoked_valid:
  "binding_validate toy_crypto (example_binding\<lparr>pb_revoked_at := Some 15\<rparr>) = Inr ()"
proof -
  have "binding_expected_digest toy_crypto (example_binding\<lparr>pb_revoked_at := Some 15\<rparr>) =
      pb_binding_digest example_binding"
    using example_binding_digest by (simp add: binding_expected_digest_def binding_fields_def)
  moreover have "length (pb_binding_digest example_binding) = 64"
    by (simp add: example_binding_def length_digest_fields toy_crypto_laws)
  ultimately show ?thesis
    by (simp add: binding_validate_def) (simp add: example_binding_def)
qed

theorem binding_digest_pins_issuance_witness:
  "example_binding\<lparr>pb_revoked_at := None, pb_recorded_at := []\<rparr> =
   (example_binding\<lparr>pb_revoked_at := Some 15\<rparr>)\<lparr>pb_revoked_at := None, pb_recorded_at := []\<rparr>"
proof (rule binding_digest_pins_issuance [OF example_binding_valid example_binding_revoked_valid])
  show "binding_fits example_binding" "binding_fits (example_binding\<lparr>pb_revoked_at := Some 15\<rparr>)"
    by (simp_all add: binding_fits_def binding_fields_def example_binding_def)
      (simp_all add: fits_u64_def)
  show "no_collision toy_crypto (binding_material example_binding)
      (binding_material (example_binding\<lparr>pb_revoked_at := Some 15\<rparr>))"
    by (simp add: no_collision_def binding_material_def binding_fields_def)
qed simp

section \<open>Store paths\<close>

lemma split_on_none: "\<forall>c \<in> set s. \<not> P c \<Longrightarrow> split_on P s = [s]"
  by (induction s) auto

lemma split_on_append:
  "\<forall>c \<in> set s. \<not> P c \<Longrightarrow> P c \<Longrightarrow> split_on P (s @ c # t) = s # split_on P t"
  by (induction s) auto

lemma id_char_no_slash: "list_all id_char s \<Longrightarrow> CHR ''/'' \<notin> set s"
  by (auto simp: list_all_iff id_char_def is_ascii_alphanumeric_def is_ascii_digit_def
      is_ascii_uppercase_def is_ascii_lowercase_def)

lemma profile_id_parse_chars:
  "profile_id_parse x = Inr p \<Longrightarrow> list_all id_char (profile_id_str p)"
  by (auto simp: profile_id_parse_def Let_def result_simps split: if_splits)

lemma store_identity_path:
  "memory_store_identity_validate x = Inr () \<Longrightarrow>
     list_all id_char (ms_store_id x) \<and> \<not> escapes (ms_relative_path x) \<and>
     ms_relative_path x = ''memory/profiles/'' @ profile_id_str (ms_profile_id x) @ ''/'' @ ms_store_id x"
  by (auto simp: memory_store_identity_validate_def result_simps
      canonical_memory_store_relative_path_def split: if_splits)

lemma canonical_path_components:
  assumes "CHR ''/'' \<notin> set p" "CHR ''/'' \<notin> set s"
  shows "path_components (''memory/profiles/'' @ p @ ''/'' @ s) = [''memory'', ''profiles'', p, s]"
proof -
  let ?P = "\<lambda>c. c = CHR ''/''"
  have "split_on ?P (p @ CHR ''/'' # s) = [p, s]"
    by (subst split_on_append, use assms in force, simp, subst split_on_none, use assms in auto)
  then show ?thesis by (simp add: path_components_def)
qed

text \<open>
  Stores stay inside their profile's directory: the path of a validated store identity has
  exactly the components \<open>memory/profiles/<profile>/<store>\<close>, none of them \<open>..\<close>, and two
  validated identities with the same path are the same store of the same profile.
\<close>

theorem store_path_confined:
  assumes "memory_store_identity_validate a = Inr ()" "memory_store_identity_validate b = Inr ()"
    and "\<exists>x. profile_id_parse x = Inr (ms_profile_id a)"
    and "\<exists>x. profile_id_parse x = Inr (ms_profile_id b)"
  shows "path_components (ms_relative_path a) =
       [''memory'', ''profiles'', profile_id_str (ms_profile_id a), ms_store_id a] \<and>
     ''..'' \<notin> set (path_components (ms_relative_path a)) \<and>
     (ms_relative_path a = ms_relative_path b \<longrightarrow>
        ms_profile_id a = ms_profile_id b \<and> ms_store_id a = ms_store_id b)"
proof -
  have path: "path_components (ms_relative_path x) =
       [''memory'', ''profiles'', profile_id_str (ms_profile_id x), ms_store_id x] \<and>
      ''..'' \<notin> set (path_components (ms_relative_path x))"
    if "memory_store_identity_validate x = Inr ()" "\<exists>y. profile_id_parse y = Inr (ms_profile_id x)"
    for x
  proof -
    note p = store_identity_path [OF that(1)]
    have "CHR ''/'' \<notin> set (profile_id_str (ms_profile_id x))"
      using that(2) profile_id_parse_chars id_char_no_slash by blast
    moreover have "CHR ''/'' \<notin> set (ms_store_id x)"
      using p id_char_no_slash by blast
    ultimately have "path_components (ms_relative_path x) =
        [''memory'', ''profiles'', profile_id_str (ms_profile_id x), ms_store_id x]"
      using p canonical_path_components by metis
    moreover have "\<not> escapes (ms_relative_path x)" using p by blast
    ultimately show ?thesis by (simp add: escapes_def)
  qed
  show ?thesis
    using path [OF assms(1,3)] path [OF assms(2,4)] by (auto intro: MemoryProfileId.expand)
qed

definition example_store :: MemoryStoreIdentity where
  "example_store =
     \<lparr> ms_store_id = ''s1'', ms_profile_id = MemoryProfileId ''p'',
       ms_owner_device_id = DeviceId ''d'', ms_namespace = ''ns'',
       ms_relative_path = ''memory/profiles/p/s1'', ms_status = StoreActive, ms_created_at = [] \<rparr>"

lemma example_store_valid: "memory_store_identity_validate example_store = Inr ()"
  by (simp add: memory_store_identity_validate_def example_store_def validate_field_text_def
      PROFILE_MAX_ID_BYTES_def MAX_PATH_BYTES_def canonical_memory_store_relative_path_def
      escapes_def path_components_def id_char_def is_ascii_alphanumeric_def is_ascii_digit_def
      is_ascii_lowercase_def)

lemma example_profile_parsed: "profile_id_parse ''p'' = Inr (MemoryProfileId ''p'')"
  by (simp add: profile_id_parse_def Let_def trim_printable validate_field_text_def
      PROFILE_MAX_ID_BYTES_def id_char_def is_ascii_alphanumeric_def is_ascii_digit_def
      is_ascii_lowercase_def)

theorem store_path_confined_witness:
  "path_components (ms_relative_path example_store) = [''memory'', ''profiles'', ''p'', ''s1'']"
  using store_path_confined [OF example_store_valid example_store_valid] example_profile_parsed
  by (auto simp: example_store_def)

section \<open>Snapshots are canonical\<close>

lemma distinct_remdups_adj_sorted: "sorted xs \<Longrightarrow> distinct (remdups_adj xs)"
proof (induction xs rule: remdups_adj.induct)
  case (3 x y xs)
  then show ?case
  proof (cases "x = y")
    case False
    with 3 have "x < y" "\<forall>z \<in> set (y # xs). y \<le> z" by auto
    then have "x \<notin> set (y # xs)" by (meson leD)
    with False 3 show ?thesis by simp
  qed simp
qed simp_all

lemma snapshot_new_valid: "snapshot_validate c (snapshot_new c i b effect ns stores t) = Inr ()"
  by (simp add: snapshot_new_def snapshot_validate_def Let_def snapshot_expected_digest_def
      snapshot_fields_def)

text \<open>
  A snapshot depends on what is authorised, not on the order in which it was collected:
  reordering the requested namespaces, repeating them, or reordering the stores (of distinct
  ids) gives the same snapshot with the same digest; and a snapshot always passes its own
  validation.
\<close>

theorem snapshot_order_insensitive:
  assumes "set ns = set ns'" "mset stores = mset stores'" "distinct (map as_store_id stores)"
  shows "snapshot_new c i b effect ns stores t = snapshot_new c i b effect ns' stores' t \<and>
     snapshot_validate c (snapshot_new c i b effect ns stores t) = Inr ()"
proof -
  have "remdups_adj (sort ns) = remdups_adj (sort ns')"
    by (rule sorted_distinct_set_unique)
      (simp_all add: assms(1) sorted_remdups_adj distinct_remdups_adj_sorted)
  moreover have "sort_key as_store_id stores = sort_key as_store_id stores'"
    using assms(2,3) by (intro sort_key_inj_key_eq) (auto simp: distinct_map)
  ultimately show ?thesis
    by (simp add: snapshot_new_def snapshot_validate_def Let_def snapshot_expected_digest_def
        snapshot_fields_def)
qed

definition example_authorized :: "string \<Rightarrow> AuthorizedMemoryStore" where
  "example_authorized s =
     \<lparr> as_store_id = s, as_profile_id = MemoryProfileId ''p'', as_owner_device_id = DeviceId ''d'',
       as_namespace = ''ns'', as_relative_path = ''memory/profiles/p/'' @ s, as_grant_ids = [],
       as_authorization_expires_at = 20 \<rparr>"

theorem snapshot_order_insensitive_witness:
  "snapshot_new toy_crypto ''snap'' example_binding Read [''b'', ''a'', ''b'']
     [example_authorized ''s2'', example_authorized ''s1''] 15 =
   snapshot_new toy_crypto ''snap'' example_binding Read [''a'', ''b'']
     [example_authorized ''s1'', example_authorized ''s2''] 15"
  by (rule snapshot_order_insensitive [THEN conjunct1])
    (auto simp: example_authorized_def)

text \<open>
  The namespaces enter the digest joined by commas, and a namespace may contain one: different
  namespace lists can have the same digest.
\<close>

lemma snapshot_digest_ambiguous:
  "snapshot_expected_digest c (s\<lparr>sn_namespaces := [''a,b'']\<rparr>) =
   snapshot_expected_digest c (s\<lparr>sn_namespaces := [''a'', ''b'']\<rparr>)"
  by (simp add: snapshot_expected_digest_def snapshot_fields_def)

end
