(* ===== verification/Control_Plane.thy ===== *)
theory Control_Plane
  imports Sql_Table Replication_Validate Profile_Access
begin

text \<open>
  The registry of devices and actors of \<open>PooledMemoryStore\<close> (\<open>src/store.rs\<close>): its tables,
  device credentials, bootstrap, registration, status changes and authentication.

  An operation takes the database and returns its answer with the new database, or an error; an
  error leaves the database as it was, since every operation is one statement or one transaction.
  The clock, fresh secrets and identities, rusqlite's texts for violated constraints and missing
  rows, and the failures of \<open>create_dir_all\<close> come from outside.
\<close>

section \<open>The tables\<close>

record shard_row =
  shr_device_id :: DeviceId
  shr_relative_path :: string
  shr_state :: ShardState
  shr_generation :: i64
  shr_routing_terms :: string
  shr_namespaces_json :: string
  shr_fact_count :: i64
  shr_document_count :: i64
  shr_chunk_count :: i64
  shr_message_count :: i64
  shr_search_count :: i64
  shr_ewma_latency_ms :: u64
  shr_last_refreshed_at :: "string option"
  shr_created_at :: string

record AuditEvent =
  au_event_id :: string
  au_device_id :: "string option"
  au_actor_id :: "string option"
  au_endpoint :: string
  au_method :: string
  au_outcome :: string
  au_detail :: "string option"
  au_created_at :: string

record pool_db =
  db_devices :: "Device list"
  db_actors :: "Actor list"
  db_shards :: "shard_row list"
  db_profiles :: "MemoryProfile list"
  db_stores :: "MemoryStoreIdentity list"
  db_grants :: "MemoryAccessGrant list"
  db_bindings :: "ActorProfileBinding list"
  db_operations :: "OperationEnvelope list"
  db_audit :: "AuditEvent list"

definition empty_db :: pool_db where
  "empty_db = \<lparr> db_devices = [], db_actors = [], db_shards = [], db_profiles = [],
     db_stores = [], db_grants = [], db_bindings = [], db_operations = [], db_audit = [] \<rparr>"

record pool_env =
  pe_crypto :: crypto
  pe_message :: "violation \<Rightarrow> string"
  pe_no_rows :: string
  pe_mkdir :: "string \<Rightarrow> string option"
  pe_now :: string

text \<open>
  What searches and refreshes may change: the counts, terms and times of the shard catalog, never
  which shards there are, where they lie or in which state they are.
\<close>

definition shard_identity :: "shard_row \<Rightarrow> DeviceId \<times> string \<times> ShardState" where
  "shard_identity s = (shr_device_id s, shr_relative_path s, shr_state s)"

definition statistics_only :: "pool_db \<Rightarrow> pool_db \<Rightarrow> bool" where
  "statistics_only db db' \<longleftrightarrow>
     (\<exists>rows. map shard_identity rows = map shard_identity (db_shards db) \<and> db' = db\<lparr>db_shards := rows\<rparr>)"

lemma statistics_only_refl [simp]: "statistics_only db db"
  unfolding statistics_only_def by (rule exI [of _ "db_shards db"]) simp

lemma statistics_only_trans:
  "statistics_only db db' \<Longrightarrow> statistics_only db' db'' \<Longrightarrow> statistics_only db db''"
  by (auto simp: statistics_only_def)

lemma statistics_only_tables:
  "statistics_only db db' \<Longrightarrow>
     db_devices db' = db_devices db \<and> db_actors db' = db_actors db \<and> db_profiles db' = db_profiles db \<and>
     db_stores db' = db_stores db \<and> db_grants db' = db_grants db \<and> db_bindings db' = db_bindings db \<and>
     db_operations db' = db_operations db \<and> db_audit db' = db_audit db \<and>
     map shard_identity (db_shards db') = map shard_identity (db_shards db)"
  by (auto simp: statistics_only_def)

lemma update_statistics:
  assumes "\<And>s. shard_identity (f s) = shard_identity s"
  shows "statistics_only db (db\<lparr>db_shards := snd (sql_update p f (db_shards db))\<rparr>)"
  unfolding statistics_only_def
  by (rule exI [of _ "snd (sql_update p f (db_shards db))"]) (simp add: sql_update_def assms)

section \<open>Credentials\<close>

definition sha256_hex :: "crypto \<Rightarrow> string \<Rightarrow> string" where
  "sha256_hex c v = hex_bytes (sha256 c (as_bytes v))"

record DeviceCredential =
  cred_token :: string
  cred_digest :: string

definition device_credential_new :: "crypto \<Rightarrow> DeviceId \<Rightarrow> string \<Rightarrow> DeviceCredential" where
  "device_credential_new c device_id secret =
     (let token = device_id_str device_id @ '':'' @ secret
      in \<lparr> cred_token = token, cred_digest = ''sha256:'' @ sha256_hex c token \<rparr>)"

definition device_credential_verify :: "crypto \<Rightarrow> string option \<Rightarrow> string \<Rightarrow> bool" where
  "device_credential_verify c stored token =
     (let candidate = ''sha256:'' @ sha256_hex c token in
      case stored of None \<Rightarrow> False | Some stored_val \<Rightarrow> stored_val = candidate)"

definition parse_authorization_token ::
    "'u uuid_lib \<Rightarrow> string \<Rightarrow> MnemesError + DeviceId \<times> string" where
  "parse_authorization_token u raw =
     (let token = trim raw in
      bindR (ok_or InvalidCredential (split_once CHR '':'' token)) (\<lambda>(device_id_value, secret).
      if secret = [] then Inl InvalidCredential
      else bindR (map_err Memory (device_id_parse u device_id_value)) (\<lambda>device_id.
           Inr (device_id, secret))))"

section \<open>Devices\<close>

definition get_device :: "DeviceId \<Rightarrow> pool_db \<Rightarrow> Device option" where
  "get_device device_id db = row_by dev_device_id device_id (db_devices db)"

definition get_actor :: "ActorId \<Rightarrow> pool_db \<Rightarrow> Actor option" where
  "get_actor actor_id db = row_by act_actor_id actor_id (db_actors db)"

definition shard_relative_path :: "DeviceId \<Rightarrow> string" where
  "shard_relative_path device_id = ''memory/shards/'' @ device_id_str device_id"

definition create_shard_dir :: "pool_env \<Rightarrow> DeviceId \<Rightarrow> MnemesError + unit" where
  "create_shard_dir env device_id =
     (case pe_mkdir env (shard_relative_path device_id) of
        Some e \<Rightarrow> Inl (Io e)
      | None \<Rightarrow> Inr ())"

text \<open>\<open>INSERT OR IGNORE\<close>: a uniqueness conflict skips the row, a missing device is an error.\<close>

definition insert_device_shard_row ::
    "pool_env \<Rightarrow> DeviceId \<Rightarrow> DeviceStatus \<Rightarrow> string \<Rightarrow> pool_db \<Rightarrow> MnemesError + pool_db" where
  "insert_device_shard_row env device_id status created_at db =
     (let relative_path = shard_relative_path device_id in
      if has_key shr_device_id device_id (db_shards db) \<or>
         has_key shr_relative_path relative_path (db_shards db)
      then Inr db
      else bindR (sql_insert (pe_message env)
             [(\<not> has_key dev_device_id device_id (db_devices db),
               ForeignKey ''device_shards.device_id'')]
             \<lparr> shr_device_id = device_id, shr_relative_path = relative_path,
               shr_state = shard_state_from_device status, shr_generation = 1,
               shr_routing_terms = [], shr_namespaces_json = ''[]'', shr_fact_count = 0,
               shr_document_count = 0, shr_chunk_count = 0, shr_message_count = 0,
               shr_search_count = 0, shr_ewma_latency_ms = 0, shr_last_refreshed_at = None,
               shr_created_at = created_at \<rparr> (db_shards db)) (\<lambda>rows.
           Inr (db\<lparr>db_shards := rows\<rparr>)))"

definition insert_device :: "pool_env \<Rightarrow> Device \<Rightarrow> pool_db \<Rightarrow> MnemesError + pool_db" where
  "insert_device env device db =
     bindR (insert_keyed (pe_message env) ''devices.device_id'' dev_device_id (db_devices db) device)
       (\<lambda>rows. Inr (db\<lparr>db_devices := rows\<rparr>))"

definition insert_actor :: "pool_env \<Rightarrow> Actor \<Rightarrow> pool_db \<Rightarrow> MnemesError + pool_db" where
  "insert_actor env actor db =
     bindR (sql_insert (pe_message env)
       [(has_key act_actor_id (act_actor_id actor) (db_actors db), PrimaryKey ''actors.actor_id''),
        (\<not> has_key dev_device_id (act_device_id actor) (db_devices db),
         ForeignKey ''actors.device_id'')] actor (db_actors db))
       (\<lambda>rows. Inr (db\<lparr>db_actors := rows\<rparr>))"

definition register_device :: "pool_env \<Rightarrow> Device \<Rightarrow> pool_db \<Rightarrow> MnemesError + DeviceId \<times> pool_db" where
  "register_device env device db =
     (let device = device\<lparr>dev_first_seen_at := pe_now env, dev_last_seen_at := pe_now env\<rparr> in
      bindR (create_shard_dir env (dev_device_id device)) (\<lambda>_.
      bindR (insert_device env device db) (\<lambda>db.
      bindR (insert_device_shard_row env (dev_device_id device) (dev_status device) (pe_now env) db)
        (\<lambda>db. Inr (dev_device_id device, db)))))"

definition register_device_with_generated_credential ::
    "pool_env \<Rightarrow> string \<Rightarrow> Device \<Rightarrow> pool_db \<Rightarrow> MnemesError + (DeviceId \<times> string) \<times> pool_db" where
  "register_device_with_generated_credential env secret device db =
     (let credentials = device_credential_new (pe_crypto env) (dev_device_id device) secret;
          device = device\<lparr>dev_credential_fingerprint := Some (cred_digest credentials)\<rparr> in
      bindR (register_device env device db) (\<lambda>(device_id, db).
      Inr ((device_id, cred_token credentials), db)))"

definition rotate_device_credential ::
    "pool_env \<Rightarrow> string \<Rightarrow> DeviceId \<Rightarrow> pool_db \<Rightarrow> MnemesError + string \<times> pool_db" where
  "rotate_device_credential env secret device_id db =
     (let credentials = device_credential_new (pe_crypto env) device_id secret;
          (affected, rows) = sql_update (\<lambda>d. dev_device_id d = device_id)
            (\<lambda>d. d\<lparr>dev_credential_fingerprint := Some (cred_digest credentials),
                   dev_last_seen_at := pe_now env\<rparr>) (db_devices db) in
      if affected = 0 then Inl (DeviceNotFound (device_id_str device_id))
      else Inr (cred_token credentials, db\<lparr>db_devices := rows\<rparr>))"

definition set_device_status ::
    "pool_env \<Rightarrow> DeviceId \<Rightarrow> DeviceStatus \<Rightarrow> pool_db \<Rightarrow> MnemesError + unit \<times> pool_db" where
  "set_device_status env device_id status db =
     (let (affected, devices) = sql_update (\<lambda>d. dev_device_id d = device_id)
            (\<lambda>d. d\<lparr>dev_last_seen_at := pe_now env, dev_status := status\<rparr>) (db_devices db) in
      if affected = 0 then Inl (DeviceNotFound (device_id_str device_id))
      else let (_, shards) = sql_update (\<lambda>s. shr_device_id s = device_id)
                 (\<lambda>s. s\<lparr>shr_state := shard_state_from_device status\<rparr>) (db_shards db)
           in Inr ((), db\<lparr>db_devices := devices, db_shards := shards\<rparr>))"

definition revoke_device :: "pool_env \<Rightarrow> DeviceId \<Rightarrow> pool_db \<Rightarrow> MnemesError + unit \<times> pool_db" where
  "revoke_device env device_id db = set_device_status env device_id DevRevoked db"

definition heartbeat_device :: "pool_env \<Rightarrow> DeviceId \<Rightarrow> pool_db \<Rightarrow> MnemesError + unit \<times> pool_db" where
  "heartbeat_device env device_id db =
     (let (updated, rows) = sql_update (\<lambda>d. dev_device_id d = device_id \<and> dev_status d = DevActive)
            (\<lambda>d. d\<lparr>dev_last_seen_at := pe_now env\<rparr>) (db_devices db) in
      if updated = 0 then Inl (DeviceNotFound (device_id_str device_id))
      else Inr ((), db\<lparr>db_devices := rows\<rparr>))"

definition list_devices :: "pool_db \<Rightarrow> Device list" where
  "list_devices db = sort_key dev_first_seen_at (db_devices db)"

definition list_devices_for_device :: "DeviceId \<Rightarrow> pool_db \<Rightarrow> Device list" where
  "list_devices_for_device device_id db =
     sort_key dev_first_seen_at (filter (\<lambda>d. dev_device_id d = device_id) (db_devices db))"

definition list_devices_for_actor :: "Actor \<Rightarrow> pool_db \<Rightarrow> Device list" where
  "list_devices_for_actor actor db = list_devices_for_device (act_device_id actor) db"

section \<open>Actors\<close>

definition register_actor :: "pool_env \<Rightarrow> Actor \<Rightarrow> pool_db \<Rightarrow> MnemesError + ActorId \<times> pool_db" where
  "register_actor env actor db =
     (let actor = actor\<lparr>act_recorded_at := pe_now env\<rparr> in
      bindR (insert_actor env actor db) (\<lambda>db. Inr (act_actor_id actor, db)))"

definition list_actors_for_device :: "DeviceId \<Rightarrow> pool_db \<Rightarrow> Actor list" where
  "list_actors_for_device device_id db =
     sort_key act_recorded_at (filter (\<lambda>a. act_device_id a = device_id) (db_actors db))"

definition list_actors :: "pool_db \<Rightarrow> Actor list" where
  "list_actors db = sort_key act_recorded_at (db_actors db)"

section \<open>Bootstrap\<close>

definition bootstrap_with_tx ::
    "pool_env \<Rightarrow> Device \<Rightarrow> Actor \<Rightarrow> string \<Rightarrow> DeviceCredential \<Rightarrow> pool_db \<Rightarrow>
     MnemesError + (DeviceId \<times> ActorId \<times> string) \<times> pool_db" where
  "bootstrap_with_tx env device actor created_at credential db =
     (let device = device\<lparr>dev_first_seen_at := created_at, dev_last_seen_at := created_at,
                         dev_credential_fingerprint := Some (cred_digest credential)\<rparr>;
          actor = actor\<lparr>act_recorded_at := created_at, act_device_id := dev_device_id device\<rparr> in
      bindR (insert_device env device db) (\<lambda>db.
      bindR (insert_actor env actor db) (\<lambda>db.
      bindR (insert_device_shard_row env (dev_device_id device) (dev_status device) created_at db)
        (\<lambda>db. Inr ((dev_device_id device, act_actor_id actor, cred_token credential), db)))))"

definition bootstrap ::
    "pool_env \<Rightarrow> ActorId \<Rightarrow> string \<Rightarrow> Device \<Rightarrow> ActorKind \<Rightarrow> pool_db \<Rightarrow>
     MnemesError + (DeviceId \<times> ActorId \<times> string \<times> string) \<times> pool_db" where
  "bootstrap env fresh_actor_id secret device actor_kind db =
     bindR (create_shard_dir env (dev_device_id device)) (\<lambda>_.
     if length (db_devices db) > 0
     then Inl (BootstrapRejected ''bootstrap requires an empty device registry'')
     else
      (let actor = \<lparr> act_actor_id = fresh_actor_id, act_device_id = dev_device_id device,
                     act_tool_profile = Operator, act_actor_kind = actor_kind,
                     act_provider_model = None, act_recorded_at = [] \<rparr>;
           credentials = device_credential_new (pe_crypto env) (dev_device_id device) secret in
       bindR (bootstrap_with_tx env device actor (pe_now env) credentials db)
         (\<lambda>((device_id, actor_id, credential), db).
       Inr ((device_id, actor_id, credential, pe_now env), db))))"

section \<open>Authentication\<close>

definition token_device_id ::
    "pool_env \<Rightarrow> 'u uuid_lib \<Rightarrow> string \<Rightarrow> pool_db \<Rightarrow> MnemesError + Device \<times> string option" where
  "token_device_id env u token db =
     bindR (parse_authorization_token u token) (\<lambda>(device_id, secret).
     bindR (ok_or InvalidCredential (get_device device_id db)) (\<lambda>row.
     let stored_fingerprint = dev_credential_fingerprint row; status = dev_status row in
     if status \<noteq> DevActive
     then Inl (DeviceNotActive (device_id_str device_id @ '' (status: '' @
                 device_status_as_str status @ '')''))
     else let full_token = device_id_str device_id @ '':'' @ secret in
     if \<not> device_credential_verify (pe_crypto env) stored_fingerprint full_token
     then Inl InvalidCredential
     else bindR (ok_or (DeviceNotFound (device_id_str device_id)) (get_device device_id db))
       (\<lambda>device. Inr (device, stored_fingerprint))))"

definition authenticate_request ::
    "pool_env \<Rightarrow> 'u uuid_lib \<Rightarrow> string \<Rightarrow> ActorId option \<Rightarrow> pool_db \<Rightarrow>
     MnemesError + Device \<times> Actor option" where
  "authenticate_request env u token actor_id db =
     bindR (token_device_id env u token db) (\<lambda>(device, _).
     case actor_id of
       None \<Rightarrow> Inr (device, None)
     | Some actor_id \<Rightarrow>
         bindR (ok_or (ActorNotFound (actor_id_str actor_id)) (get_actor actor_id db)) (\<lambda>actor.
         if act_device_id actor \<noteq> dev_device_id device
         then Inl (AuthorizationDenied ''actor does not belong to device'')
         else Inr (device, Some actor)))"

definition ensure_actor_profile :: "Actor option \<Rightarrow> bool \<Rightarrow> MnemesError + unit" where
  "ensure_actor_profile actor requires_full =
     (if requires_full then
        bindR (ok_or (AuthorizationDenied ''actor required'') actor) (\<lambda>actor.
        if \<not> is_full (act_tool_profile actor)
        then Inl (AuthorizationDenied ''actor lacks operator profile'')
        else Inr ())
      else Inr ())"

section \<open>Who is authenticated\<close>

lemma credential_verify_iff:
  "device_credential_verify c stored token \<longleftrightarrow> stored = Some (''sha256:'' @ sha256_hex c token)"
  by (auto simp: device_credential_verify_def split: option.splits)

lemma parse_authorization_token_ok:
  "parse_authorization_token u raw = Inr (d, secret) \<longleftrightarrow>
     (\<exists>t. trim raw = t @ CHR '':'' # secret \<and> CHR '':'' \<notin> set t \<and> secret \<noteq> [] \<and>
        device_id_parse u t = Inr d)"
  by (auto simp: parse_authorization_token_def Let_def result_simps split_once_Some
      split: prod.splits if_splits)

lemma token_device_id_ok:
  "token_device_id env u token db = Inr (device, fp) \<longleftrightarrow>
     (\<exists>d secret. parse_authorization_token u token = Inr (d, secret) \<and>
        get_device d db = Some device \<and> dev_status device = DevActive \<and>
        fp = dev_credential_fingerprint device \<and>
        fp = Some (''sha256:'' @ sha256_hex (pe_crypto env) (device_id_str d @ '':'' @ secret)))"
  by (auto simp: token_device_id_def result_simps credential_verify_iff Let_def
      split: prod.splits if_splits)

lemma get_device_id: "get_device d db = Some device \<Longrightarrow> dev_device_id device = d"
  unfolding get_device_def by (auto dest: row_by_SomeD)

text \<open>
  C22. Exactly which requests are authenticated: the token names a registered, active device
  whose stored fingerprint is the digest of this device identity and this nonempty secret; the
  answer is that device's row; and an actor is answered exactly when it is registered on it.
\<close>

theorem authenticate_request_iff:
  "authenticate_request env u token actor_id db = Inr (device, actor) \<longleftrightarrow>
     (\<exists>t secret. trim token = t @ CHR '':'' # secret \<and> CHR '':'' \<notin> set t \<and> secret \<noteq> [] \<and>
        device_id_parse u t = Inr (dev_device_id device) \<and>
        get_device (dev_device_id device) db = Some device \<and> dev_status device = DevActive \<and>
        dev_credential_fingerprint device = Some (''sha256:'' @ sha256_hex (pe_crypto env)
          (device_id_str (dev_device_id device) @ '':'' @ secret))) \<and>
     (case actor_id of
        None \<Rightarrow> actor = None
      | Some a \<Rightarrow> \<exists>x. get_actor a db = Some x \<and> act_device_id x = dev_device_id device \<and>
          actor = Some x)"
proof -
  have token: "(\<exists>fp. token_device_id env u token db = Inr (device, fp)) \<longleftrightarrow>
     (\<exists>t secret. trim token = t @ CHR '':'' # secret \<and> CHR '':'' \<notin> set t \<and> secret \<noteq> [] \<and>
        device_id_parse u t = Inr (dev_device_id device) \<and>
        get_device (dev_device_id device) db = Some device \<and> dev_status device = DevActive \<and>
        dev_credential_fingerprint device = Some (''sha256:'' @ sha256_hex (pe_crypto env)
          (device_id_str (dev_device_id device) @ '':'' @ secret)))"
    (is "?l \<longleftrightarrow> ?r")
  proof
    assume ?l
    then obtain d secret t where "get_device d db = Some device" and
      "trim token = t @ CHR '':'' # secret" "CHR '':'' \<notin> set t" "secret \<noteq> []"
      "device_id_parse u t = Inr d" "dev_status device = DevActive"
      "dev_credential_fingerprint device = Some (''sha256:'' @ sha256_hex (pe_crypto env)
          (device_id_str d @ '':'' @ secret))"
      unfolding token_device_id_ok parse_authorization_token_ok by blast
    moreover have "d = dev_device_id device" using calculation(1) get_device_id by simp
    ultimately show ?r by blast
  next
    assume ?r
    then show ?l unfolding token_device_id_ok parse_authorization_token_ok by blast
  qed
  have "authenticate_request env u token actor_id db = Inr (device, actor) \<longleftrightarrow>
     (\<exists>fp. token_device_id env u token db = Inr (device, fp)) \<and>
     (case actor_id of
        None \<Rightarrow> actor = None
      | Some a \<Rightarrow> \<exists>x. get_actor a db = Some x \<and> act_device_id x = dev_device_id device \<and>
          actor = Some x)"
    by (cases actor_id)
      (auto simp: authenticate_request_def result_simps split: prod.splits if_splits)
  with token show ?thesis by blast
qed

section \<open>Registration\<close>

lemma insert_device_ok:
  "insert_device env device db = Inr db' \<longleftrightarrow>
     get_device (dev_device_id device) db = None \<and>
     db' = db\<lparr>db_devices := db_devices db @ [device]\<rparr>"
  by (auto simp: insert_device_def insert_keyed_def result_simps has_key_iff get_device_def row_by_None)

lemma insert_actor_ok:
  "insert_actor env actor db = Inr db' \<longleftrightarrow>
     get_actor (act_actor_id actor) db = None \<and> get_device (act_device_id actor) db \<noteq> None \<and>
     db' = db\<lparr>db_actors := db_actors db @ [actor]\<rparr>"
  by (auto simp: insert_actor_def result_simps has_key_iff get_device_def get_actor_def row_by_None)

lemma insert_shard_ok:
  "insert_device_shard_row env d status t db = Inr db' \<Longrightarrow>
     (\<exists>rows. db' = db\<lparr>db_shards := rows\<rparr>)"
  by (auto simp: insert_device_shard_row_def Let_def result_simps split: if_splits)
    (metis pool_db.surjective pool_db.update_convs(3))+

lemma get_device_snoc:
  "get_device d (db\<lparr>db_devices := db_devices db @ [device]\<rparr>) =
     (case get_device d db of None \<Rightarrow> if dev_device_id device = d then Some device else None
      | Some r \<Rightarrow> Some r)"
  by (simp add: get_device_def row_by_append row_by_single split: option.splits)

lemma get_device_shards [simp]: "get_device d (db\<lparr>db_shards := rows\<rparr>) = get_device d db"
  by (simp add: get_device_def)

lemma register_device_get:
  assumes "register_device env device db = Inr (d, db')"
  shows "d = dev_device_id device \<and> get_device d db = None \<and>
     get_device d db' =
       Some (device\<lparr>dev_first_seen_at := pe_now env, dev_last_seen_at := pe_now env\<rparr>)"
  using assms
  by (auto simp: register_device_def Let_def result_simps insert_device_ok get_device_snoc
      dest!: insert_shard_ok)

section \<open>The life of a credential\<close>

text \<open>What \<open>Alphanumeric.sample_string\<close> and the canonical text of a UUID look like.\<close>

definition token_parts_ok :: "'u uuid_lib \<Rightarrow> DeviceId \<Rightarrow> string \<Rightarrow> bool" where
  "token_parts_ok u d secret \<longleftrightarrow>
     device_id_parse u (device_id_str d) = Inr d \<and> secret \<noteq> [] \<and>
     list_all is_ascii_alphanumeric secret \<and>
     list_all (\<lambda>c. is_ascii_alphanumeric c \<or> c = CHR ''-'') (device_id_str d)"

lemma alphanumeric_code: "is_ascii_alphanumeric c \<Longrightarrow> 32 < code c \<and> code c < 127 \<and> c \<noteq> CHR '':''"
  by (auto simp: is_ascii_alphanumeric_def is_ascii_digit_def is_ascii_uppercase_def
      is_ascii_lowercase_def)

lemma cred_new:
  "cred_token (device_credential_new c d secret) = device_id_str d @ CHR '':'' # secret"
  "cred_digest (device_credential_new c d secret) =
     ''sha256:'' @ sha256_hex c (device_id_str d @ CHR '':'' # secret)"
  by (simp_all add: device_credential_new_def Let_def)

lemma parse_generated_token:
  assumes "token_parts_ok u d secret"
  shows "parse_authorization_token u (cred_token (device_credential_new c d secret)) = Inr (d, secret)"
proof -
  let ?t = "device_id_str d @ CHR '':'' # secret"
  have "\<forall>x \<in> set ?t. 32 < code x \<and> code x < 127"
    using assms alphanumeric_code by (fastforce simp: token_parts_ok_def list_all_iff)
  then have "trim ?t = ?t" by (rule trim_printable)
  moreover have "CHR '':'' \<notin> set (device_id_str d)"
    using assms alphanumeric_code by (fastforce simp: token_parts_ok_def list_all_iff)
  ultimately show ?thesis
    using assms by (simp add: parse_authorization_token_ok token_parts_ok_def cred_new)
qed

lemma authenticate_generated:
  assumes "token_parts_ok u d secret" "get_device d db = Some device"
  shows "is_ok (authenticate_request env u (cred_token (device_credential_new c d secret)) None db) \<longleftrightarrow>
     dev_status device = DevActive \<and>
     dev_credential_fingerprint device = Some (cred_digest (device_credential_new (pe_crypto env) d secret))"
  using assms(2)
  by (auto simp: is_ok_iff authenticate_request_def bindR_eq_Inr token_device_id_ok
      parse_generated_token [OF assms(1), simplified cred_new append_Cons append_Nil] cred_new split: prod.splits)

lemma rotate_get:
  assumes "rotate_device_credential env secret d db = Inr (token, db')"
  shows "token = cred_token (device_credential_new (pe_crypto env) d secret) \<and>
     get_device d db' = map_option (\<lambda>x. x\<lparr>dev_credential_fingerprint :=
        Some (cred_digest (device_credential_new (pe_crypto env) d secret)),
        dev_last_seen_at := pe_now env\<rparr>) (get_device d db)"
proof -
  let ?c = "cred_digest (device_credential_new (pe_crypto env) d secret)"
  let ?f = "\<lambda>x. x\<lparr>dev_credential_fingerprint := Some ?c, dev_last_seen_at := pe_now env\<rparr>"
  have db': "token = cred_token (device_credential_new (pe_crypto env) d secret)"
    "db' = db\<lparr>db_devices := snd (sql_update (\<lambda>x. dev_device_id x = d) ?f (db_devices db))\<rparr>"
    using assms by (auto simp: rotate_device_credential_def Let_def split: prod.splits if_splits)
  have "get_device d db' =
      map_option (\<lambda>r. if dev_device_id r = d then ?f r else r) (get_device d db)"
    by (simp add: db'(2) get_device_def row_by_update)
  also have "\<dots> = map_option ?f (get_device d db)"
    by (cases "get_device d db") (auto dest: get_device_id)
  finally show ?thesis using db'(1) by simp
qed

lemma set_device_status_get:
  assumes "set_device_status env d status db = Inr (x, db')"
  shows "get_device d db' =
     map_option (\<lambda>y. y\<lparr>dev_last_seen_at := pe_now env, dev_status := status\<rparr>) (get_device d db)"
proof -
  let ?f = "\<lambda>y. y\<lparr>dev_last_seen_at := pe_now env, dev_status := status\<rparr>"
  have "db_devices db' = snd (sql_update (\<lambda>y. dev_device_id y = d) ?f (db_devices db))"
    using assms by (auto simp: set_device_status_def Let_def split: prod.splits if_splits)
  then have "get_device d db' =
      map_option (\<lambda>r. if dev_device_id r = d then ?f r else r) (get_device d db)"
    by (simp add: get_device_def row_by_update)
  also have "\<dots> = map_option ?f (get_device d db)"
    by (cases "get_device d db") (auto dest: get_device_id)
  finally show ?thesis .
qed

text \<open>Both updates succeed exactly on registered devices.\<close>

lemma rotate_ok: "is_ok (rotate_device_credential env secret d db) \<longleftrightarrow> get_device d db \<noteq> None"
  by (auto simp: rotate_device_credential_def Let_def split_beta update_count get_device_def
      row_by_None)

lemma set_device_status_ok:
  "is_ok (set_device_status env d status db) \<longleftrightarrow> get_device d db \<noteq> None"
  by (auto simp: set_device_status_def Let_def split_beta update_count get_device_def row_by_None)

text \<open>
  C31. The life of a credential: the token handed out at registration authenticates the active
  device; after a rotation the new token authenticates, and the old one only if SHA-256 maps both
  to the same digest; after a revocation neither does.
\<close>

theorem credential_lifecycle:
  assumes "register_device_with_generated_credential env secret device db = Inr ((d, token), db1)"
    and "dev_status device = DevActive"
    and "rotate_device_credential env secret' d db1 = Inr (token', db2)"
    and "revoke_device env d db2 = Inr ((), db3)"
    and "token_parts_ok u d secret" "token_parts_ok u d secret'"
  shows "is_ok (authenticate_request env u token None db1) \<and>
     is_ok (authenticate_request env u token' None db2) \<and>
     (is_ok (authenticate_request env u token None db2) \<longrightarrow>
        sha256 (pe_crypto env) (as_bytes token) = sha256 (pe_crypto env) (as_bytes token')) \<and>
     \<not> is_ok (authenticate_request env u token None db3) \<and>
     \<not> is_ok (authenticate_request env u token' None db3)"
proof -
  let ?c = "\<lambda>s. device_credential_new (pe_crypto env) d s"
  have reg: "register_device env (device\<lparr>dev_credential_fingerprint :=
        Some (cred_digest (device_credential_new (pe_crypto env) (dev_device_id device) secret))\<rparr>) db =
      Inr (d, db1)" and token: "token = cred_token (device_credential_new (pe_crypto env)
        (dev_device_id device) secret)"
    using assms(1)
    by (auto simp: register_device_with_generated_credential_def Let_def result_simps)
  note r = register_device_get [OF reg]
  then obtain x1 where x1: "get_device d db1 = Some x1" "dev_status x1 = DevActive"
    "dev_credential_fingerprint x1 = Some (cred_digest (?c secret))"
    using assms(2) by auto
  note rot = rotate_get [OF assms(3)]
  then obtain x2 where x2: "get_device d db2 = Some x2" "dev_status x2 = DevActive"
    "dev_credential_fingerprint x2 = Some (cred_digest (?c secret'))"
    using x1 by simp
  obtain x3 where x3: "get_device d db3 = Some x3" "dev_status x3 = DevRevoked"
    using set_device_status_get [OF assms(4) [unfolded revoke_device_def]] x2(1) by simp
  have t: "token = cred_token (?c secret)" "token' = cred_token (?c secret')"
    using token r rot by simp_all
  have "cred_digest (?c secret) = cred_digest (?c secret') \<longleftrightarrow>
      sha256 (pe_crypto env) (as_bytes token) = sha256 (pe_crypto env) (as_bytes token')"
    by (simp add: t sha256_hex_def cred_new)
  then show ?thesis
    using x1 x2 x3 unfolding t
    by (simp add: authenticate_generated [OF assms(5)] authenticate_generated [OF assms(6)]) metis
qed

text \<open>A UUID library whose UUIDs are their texts, and a device that registers.\<close>

definition toy_uuid :: "string uuid_lib" where
  "toy_uuid = \<lparr> uuid_parse_str = Inr, uuid_is_random = (\<lambda>_. True), uuid_is_rfc4122 = (\<lambda>_. True),
     uuid_to_string = (\<lambda>s. s) \<rparr>"

definition example_pool_env :: pool_env where
  "example_pool_env = \<lparr> pe_crypto = toy_crypto, pe_message = (\<lambda>_. ''constraint failed''),
     pe_no_rows = ''Query returned no rows'',
     pe_mkdir = (\<lambda>_. None), pe_now = ''2026-01-01T00:00:00Z'' \<rparr>"

lemma toy_device_id_parse: "device_id_parse toy_uuid s = Inr (DeviceId s)"
  by (simp add: device_id_parse_def opaque_parse_def toy_uuid_def)

lemma example_token_parts: "token_parts_ok toy_uuid (DeviceId ''d1'') ''s1''"
    "token_parts_ok toy_uuid (DeviceId ''d1'') ''s2''"
  by (simp_all add: token_parts_ok_def toy_device_id_parse is_ascii_alphanumeric_def
      is_ascii_digit_def is_ascii_lowercase_def)

theorem credential_lifecycle_witness:
  "\<exists>token db. register_device_with_generated_credential example_pool_env ''s1''
       (device_new (DeviceId ''d1'') [] [] []) empty_db = Inr ((DeviceId ''d1'', token), db) \<and>
     is_ok (authenticate_request example_pool_env toy_uuid token None db)"
proof -
  let ?d = "device_new (DeviceId ''d1'') [] [] []"
  obtain token db1 where reg: "register_device_with_generated_credential example_pool_env ''s1'' ?d
      empty_db = Inr ((DeviceId ''d1'', token), db1)"
    by (simp add: register_device_with_generated_credential_def register_device_def Let_def
        create_shard_dir_def example_pool_env_def insert_device_def insert_keyed_def sql_insert_def
        empty_db_def has_key_def insert_device_shard_row_def device_new_def)
  obtain r where r: "register_device example_pool_env r empty_db = Inr (DeviceId ''d1'', db1)"
    using reg by (auto simp: register_device_with_generated_credential_def Let_def result_simps)
  obtain x where x: "get_device (DeviceId ''d1'') db1 = Some x"
    using register_device_get [OF r] by blast
  obtain token' db2 where rot:
    "rotate_device_credential example_pool_env ''s2'' (DeviceId ''d1'') db1 = Inr (token', db2)"
    using rotate_ok [of example_pool_env "''s2''" "DeviceId ''d1''" db1] x by (auto simp: is_ok_iff)
  obtain y where y: "get_device (DeviceId ''d1'') db2 = Some y"
    using rotate_get [OF rot] x by simp
  obtain db3 where "revoke_device example_pool_env (DeviceId ''d1'') db2 = Inr ((), db3)"
    using set_device_status_ok [of example_pool_env "DeviceId ''d1''" DevRevoked db2] y
    by (auto simp: is_ok_iff revoke_device_def)
  from credential_lifecycle [OF reg _ rot this example_token_parts] show ?thesis
    using reg by (auto simp: device_new_def)
qed

end
