(* ===== verification/Access_Registry.thy ===== *)
theory Access_Registry
  imports Control_Plane "HOL-Library.Product_Lexorder"
begin

text \<open>
  The registry of memory profiles, stores, grants and actor bindings, and the authorization
  snapshots and permits derived from it (\<open>PooledMemoryStore\<close> in \<open>src/store.rs\<close>).

  Grants and bindings keep their times in signed columns. Bindings are range-checked before the
  insertion; grants are cast, and the schema's checks refuse what the cast makes negative.
\<close>

section \<open>Profiles and stores\<close>

definition get_profile :: "MemoryProfileId \<Rightarrow> pool_db \<Rightarrow> MemoryProfile option" where
  "get_profile profile_id db = row_by mp_profile_id profile_id (db_profiles db)"

definition get_store :: "string \<Rightarrow> pool_db \<Rightarrow> MemoryStoreIdentity option" where
  "get_store store_id db = row_by ms_store_id store_id (db_stores db)"

definition device_active :: "DeviceId \<Rightarrow> pool_db \<Rightarrow> bool" where
  "device_active device_id db =
     (case get_device device_id db of None \<Rightarrow> False | Some d \<Rightarrow> dev_status d = DevActive)"

definition register_memory_profile ::
    "pool_env \<Rightarrow> MemoryProfile \<Rightarrow> pool_db \<Rightarrow> MnemesError + MemoryProfileId \<times> pool_db" where
  "register_memory_profile env profile db =
     bindR (checks
       [memory_profile_validate profile,
        fail_if (mp_status profile \<noteq> ProfileActive)
          (InvalidMemoryScope ''new memory profiles must be active''),
        fail_if (\<not> device_active (mp_owner_device_id profile) db)
          (DeviceNotActive (device_id_str (mp_owner_device_id profile)))]) (\<lambda>_.
     let profile = profile\<lparr>mp_created_at := pe_now env\<rparr> in
     bindR (sql_insert (pe_message env)
       [(has_key mp_profile_id (mp_profile_id profile) (db_profiles db),
         PrimaryKey ''memory_profiles.profile_id''),
        (\<not> has_key dev_device_id (mp_owner_device_id profile) (db_devices db),
         ForeignKey ''memory_profiles.owner_device_id'')] profile (db_profiles db)) (\<lambda>rows.
     Inr (mp_profile_id profile, db\<lparr>db_profiles := rows\<rparr>)))"

text \<open>The owner device of an active profile, with its row: the join of two tables.\<close>

definition active_profile_owner :: "MemoryProfileId \<Rightarrow> pool_db \<Rightarrow> Device option" where
  "active_profile_owner profile_id db =
     (case get_profile profile_id db of
        None \<Rightarrow> None
      | Some p \<Rightarrow> if mp_status p = ProfileActive then get_device (mp_owner_device_id p) db else None)"

definition register_memory_store ::
    "pool_env \<Rightarrow> MemoryStoreIdentity \<Rightarrow> pool_db \<Rightarrow> MnemesError + string \<times> pool_db" where
  "register_memory_store env store db =
     bindR (checks
       [memory_store_identity_validate store,
        fail_if (ms_status store \<noteq> StoreActive)
          (InvalidMemoryScope ''new memory stores must be active'')]) (\<lambda>_.
     bindR (ok_or (MemoryGrantDenied ''store profile is not active or does not exist'')
              (active_profile_owner (ms_profile_id store) db)) (\<lambda>owner.
     bindR (checks
       [fail_if (dev_status owner \<noteq> DevActive)
          (DeviceNotActive (device_id_str (dev_device_id owner))),
        fail_if (dev_device_id owner \<noteq> ms_owner_device_id store)
          (MemoryGrantDenied ''store owner device does not match the active profile owner'')]) (\<lambda>_.
     let store = store\<lparr>ms_created_at := pe_now env\<rparr> in
     bindR (sql_insert (pe_message env)
       [(ms_store_id store = [], CheckConstraint ''length(store_id) > 0''),
        (ms_namespace store = [], CheckConstraint ''length(namespace) > 0''),
        (ms_relative_path store = [], CheckConstraint ''length(relative_path) > 0''),
        (has_key ms_store_id (ms_store_id store) (db_stores db),
         PrimaryKey ''memory_stores.store_id''),
        (has_key ms_relative_path (ms_relative_path store) (db_stores db),
         UniqueIndex ''memory_stores.relative_path''),
        (\<not> has_key mp_profile_id (ms_profile_id store) (db_profiles db),
         ForeignKey ''memory_stores.profile_id''),
        (\<not> has_key dev_device_id (ms_owner_device_id store) (db_devices db),
         ForeignKey ''memory_stores.owner_device_id'')] store (db_stores db)) (\<lambda>rows.
     Inr (ms_store_id store, db\<lparr>db_stores := rows\<rparr>)))))"

definition set_memory_profile_status ::
    "MemoryProfileId \<Rightarrow> MemoryProfileStatus \<Rightarrow> pool_db \<Rightarrow> MnemesError + unit \<times> pool_db" where
  "set_memory_profile_status profile_id status db =
     (let (affected, rows) = sql_update (\<lambda>p. mp_profile_id p = profile_id)
            (\<lambda>p. p\<lparr>mp_status := status\<rparr>) (db_profiles db) in
      if affected = 0 then Inl (MemoryGrantDenied ''memory profile does not exist'')
      else Inr ((), db\<lparr>db_profiles := rows\<rparr>))"

definition set_memory_store_status ::
    "string \<Rightarrow> MemoryStoreStatus \<Rightarrow> pool_db \<Rightarrow> MnemesError + unit \<times> pool_db" where
  "set_memory_store_status store_id status db =
     (let (affected, rows) = sql_update (\<lambda>s. ms_store_id s = store_id)
            (\<lambda>s. s\<lparr>ms_status := status\<rparr>) (db_stores db) in
      if affected = 0 then Inl (MemoryGrantDenied ''memory store does not exist'')
      else Inr ((), db\<lparr>db_stores := rows\<rparr>))"

section \<open>Grants\<close>

text \<open>\<open>a.tool_profile = 'operator' AND d.status = 'active'\<close> of an existing actor.\<close>

definition issuer_is_operator :: "ActorId \<Rightarrow> pool_db \<Rightarrow> bool" where
  "issuer_is_operator actor_id db =
     (case get_actor actor_id db of
        None \<Rightarrow> False
      | Some a \<Rightarrow> act_tool_profile a = Operator \<and> device_active (act_device_id a) db)"

text \<open>The active store with its owner profile and owner device: the join of three tables.\<close>

definition grant_target ::
    "string \<Rightarrow> pool_db \<Rightarrow> (MemoryStoreIdentity \<times> MemoryProfile \<times> Device) option" where
  "grant_target store_id db =
     (case get_store store_id db of
        None \<Rightarrow> None
      | Some s \<Rightarrow> if ms_status s \<noteq> StoreActive then None else
     (case (get_profile (ms_profile_id s) db, get_device (ms_owner_device_id s) db) of
        (Some p, Some d) \<Rightarrow> Some (s, p, d)
      | _ \<Rightarrow> None))"

definition grant_grantee :: "MemoryProfileId \<Rightarrow> pool_db \<Rightarrow> (MemoryProfile \<times> Device) option" where
  "grant_grantee profile_id db =
     (case get_profile profile_id db of
        None \<Rightarrow> None
      | Some p \<Rightarrow> map_option (Pair p) (get_device (mp_owner_device_id p) db))"

definition grant_index ::
    "MemoryAccessGrant \<Rightarrow> MemoryProfileId \<times> string \<times> string \<times> MemoryAccessEffect \<times> u64" where
  "grant_index g = (gr_grantee_profile_id g, gr_store_id g, gr_namespace g, gr_effect g, gr_valid_from g)"

definition grant_memory_access ::
    "pool_env \<Rightarrow> MemoryAccessGrant \<Rightarrow> pool_db \<Rightarrow> MnemesError + MemoryGrantId \<times> pool_db" where
  "grant_memory_access env grant db =
     bindR (checks
       [grant_validate grant,
        fail_if (\<not> issuer_is_operator (gr_issued_by_actor_id grant) db)
          (AuthorizationDenied ''memory grants require an active operator actor'')]) (\<lambda>_.
     bindR (ok_or (MemoryGrantDenied ''grant target store is not active or does not exist'')
              (grant_target (gr_store_id grant) db)) (\<lambda>(store, owner, owner_device).
     bindR (checks
       [fail_if (ms_namespace store \<noteq> gr_namespace grant)
          (MemoryGrantDenied ''grant namespace does not match the target store''),
        fail_if (mp_status owner \<noteq> ProfileActive)
          (MemoryGrantDenied ''grant target profile is not active''),
        fail_if (dev_status owner_device \<noteq> DevActive)
          (DeviceNotActive (device_id_str (ms_owner_device_id store)))]) (\<lambda>_.
     bindR (ok_or (MemoryGrantDenied ''grant grantee profile does not exist'')
              (grant_grantee (gr_grantee_profile_id grant) db)) (\<lambda>(grantee, grantee_device).
     bindR (checks
       [fail_if (mp_status grantee \<noteq> ProfileActive)
          (MemoryGrantDenied ''grant grantee profile is not active''),
        fail_if (dev_status grantee_device \<noteq> DevActive)
          (MemoryGrantDenied ''grant grantee device is not active'')]) (\<lambda>_.
     let grant = grant\<lparr>gr_created_at := pe_now env\<rparr> in
     bindR (sql_insert (pe_message env)
       [(u64_as_i64 (gr_valid_from grant) < 0, CheckConstraint ''valid_from >= 0''),
        (u64_as_i64 (gr_expires_at grant) \<le> u64_as_i64 (gr_valid_from grant),
         CheckConstraint ''expires_at > valid_from''),
        (case gr_revoked_at grant of None \<Rightarrow> False
         | Some t \<Rightarrow> u64_as_i64 t < u64_as_i64 (gr_valid_from grant),
         CheckConstraint ''revoked_at IS NULL OR revoked_at >= valid_from''),
        (has_key gr_grant_id (gr_grant_id grant) (db_grants db),
         PrimaryKey ''memory_access_grants.grant_id''),
        (has_key grant_index (grant_index grant) (db_grants db),
         UniqueIndex ''memory_access_grants''),
        (\<not> has_key mp_profile_id (gr_grantee_profile_id grant) (db_profiles db),
         ForeignKey ''memory_access_grants.grantee_profile_id''),
        (\<not> has_key ms_store_id (gr_store_id grant) (db_stores db),
         ForeignKey ''memory_access_grants.store_id''),
        (\<not> has_key act_actor_id (gr_issued_by_actor_id grant) (db_actors db),
         ForeignKey ''memory_access_grants.issued_by_actor_id'')] grant (db_grants db)) (\<lambda>rows.
     Inr (gr_grant_id grant, db\<lparr>db_grants := rows\<rparr>)))))))"

text \<open>The \<open>UPDATE\<close> is refused when the check on \<open>revoked_at\<close> fails for a row it changes.\<close>

definition revoke_memory_access ::
    "pool_env \<Rightarrow> MemoryGrantId \<Rightarrow> u64 \<Rightarrow> pool_db \<Rightarrow> MnemesError + unit \<times> pool_db" where
  "revoke_memory_access env grant_id revoked_at db =
     (let p = (\<lambda>g. gr_grant_id g = grant_id \<and> gr_revoked_at g = None);
          (affected, rows) = sql_update p (\<lambda>g. g\<lparr>gr_revoked_at := Some revoked_at\<rparr>) (db_grants db) in
      if list_ex (\<lambda>g. p g \<and> u64_as_i64 revoked_at < u64_as_i64 (gr_valid_from g)) (db_grants db)
      then Inl (mnemes_from_rusqlite (pe_message env
             (CheckConstraint ''revoked_at IS NULL OR revoked_at >= valid_from'')))
      else if affected = 0
      then Inl (MemoryGrantDenied ''grant does not exist or is already revoked'')
      else Inr ((), db\<lparr>db_grants := rows\<rparr>))"

definition memory_grants_for_profile_store ::
    "MemoryProfileId \<Rightarrow> string \<Rightarrow> pool_db \<Rightarrow> MemoryAccessGrant list" where
  "memory_grants_for_profile_store requester_profile_id store_id db =
     sort_key (\<lambda>g. (u64_as_i64 (gr_valid_from g), grant_id_str (gr_grant_id g)))
       (filter (\<lambda>g. gr_grantee_profile_id g = requester_profile_id \<and> gr_store_id g = store_id)
          (db_grants db))"

text \<open>The decision of the store: the rows, their lifecycle, then the decision on the records.\<close>

definition pool_authorize_memory_access ::
    "pool_env \<Rightarrow> MemoryProfileId \<Rightarrow> string \<Rightarrow> string \<Rightarrow> MemoryAccessEffect \<Rightarrow> u64 \<Rightarrow> pool_db \<Rightarrow>
     MnemesError + unit" where
  "pool_authorize_memory_access env requester_profile_id store_id namespace effect at db =
     (let no_rows = mnemes_from_rusqlite (pe_no_rows env) in
      bindR (ok_or (MemoryGrantDenied ''requesting profile not found'')
               (get_profile requester_profile_id db)) (\<lambda>profile.
      bindR (ok_or no_rows (get_device (mp_owner_device_id profile) db)) (\<lambda>requester_device.
      if dev_status requester_device \<noteq> DevActive
      then Inl (DeviceNotActive (device_id_str (mp_owner_device_id profile))) else
      bindR (ok_or (MemoryGrantDenied ''target store not found'') (get_store store_id db)) (\<lambda>row.
      bindR (memory_store_identity_new (ms_store_id row) (ms_profile_id row)
               (ms_owner_device_id row) (ms_namespace row) (ms_relative_path row)) (\<lambda>store.
      let store = store\<lparr>ms_status := ms_status row, ms_created_at := ms_created_at row\<rparr> in
      bindR (ok_or no_rows (get_device (ms_owner_device_id store) db)) (\<lambda>owner_device.
      if dev_status owner_device \<noteq> DevActive
      then Inl (DeviceNotActive (device_id_str (ms_owner_device_id store))) else
      bindR (ok_or no_rows (get_profile (ms_profile_id store) db)) (\<lambda>owner_profile.
      if mp_status owner_profile \<noteq> ProfileActive
      then Inl (MemoryGrantDenied ''target store owner profile is not active'') else
      authorize_memory_access requester_profile_id profile store
        (memory_grants_for_profile_store requester_profile_id store_id db) effect namespace at)))))))"

section \<open>Actor bindings\<close>

definition binding_range :: "string \<Rightarrow> u64 \<Rightarrow> MnemesError + i64" where
  "binding_range what v =
     ok_or (ActorProfileBindingDenied (what @ '' exceeds SQLite range'')) (i64_try_from_u64 v)"

definition actor_device :: "ActorId \<Rightarrow> pool_db \<Rightarrow> Device option" where
  "actor_device actor_id db =
     (case get_actor actor_id db of
        None \<Rightarrow> None
      | Some a \<Rightarrow> get_device (act_device_id a) db)"

definition overlap_exists :: "ActorId \<Rightarrow> i64 \<Rightarrow> i64 \<Rightarrow> pool_db \<Rightarrow> bool" where
  "overlap_exists actor_id valid_from expires_at db =
     list_ex (\<lambda>b. pb_actor_id b = actor_id \<and> pb_revoked_at b = None \<and>
         u64_as_i64 (pb_valid_from b) < expires_at \<and> u64_as_i64 (pb_expires_at b) > valid_from)
       (db_bindings db)"

definition bind_actor_profile ::
    "pool_env \<Rightarrow> ActorProfileBinding \<Rightarrow> pool_db \<Rightarrow> MnemesError + ActorProfileBindingId \<times> pool_db" where
  "bind_actor_profile env binding db =
     bindR (binding_validate (pe_crypto env) binding) (\<lambda>_.
     bindR (binding_range ''binding valid_from'' (pb_valid_from binding)) (\<lambda>valid_from.
     bindR (binding_range ''binding expires_at'' (pb_expires_at binding)) (\<lambda>expires_at.
     bindR (binding_range ''binding epoch'' (pb_binding_epoch binding)) (\<lambda>binding_epoch.
     if \<not> issuer_is_operator (pb_issued_by_actor_id binding) db
     then Inl (ActorProfileBindingDenied ''binding transitions require an active operator actor'')
     else
     bindR (ok_or (ActorProfileBindingDenied ''binding actor does not exist'')
              (actor_device (pb_actor_id binding) db)) (\<lambda>device.
     if dev_status device \<noteq> DevActive \<or> dev_device_id device \<noteq> pb_owner_device_id binding
     then Inl (ActorProfileBindingDenied
            ''binding actor must belong to the active profile owner device'')
     else
     bindR (ok_or (ActorProfileBindingDenied ''binding profile is not active or does not exist'')
              (active_profile_owner (pb_profile_id binding) db)) (\<lambda>owner.
     if dev_status owner \<noteq> DevActive \<or> dev_device_id owner \<noteq> pb_owner_device_id binding
     then Inl (ActorProfileBindingDenied
            ''binding owner device must equal the active profile owner'')
     else if overlap_exists (pb_actor_id binding) valid_from expires_at db
     then Inl (ActorProfileBindingDenied
            ''an overlapping active binding already exists for this actor'')
     else
     let binding = binding\<lparr>pb_revoked_at := None, pb_recorded_at := pe_now env\<rparr> in
     bindR (sql_insert (pe_message env)
       [(valid_from < 0, CheckConstraint ''valid_from >= 0''),
        (expires_at \<le> valid_from, CheckConstraint ''expires_at > valid_from''),
        (binding_epoch \<le> 0, CheckConstraint ''binding_epoch > 0''),
        (length (pb_binding_digest binding) \<noteq> 64, CheckConstraint ''length(binding_digest) = 64''),
        (has_key pb_binding_id (pb_binding_id binding) (db_bindings db),
         PrimaryKey ''actor_profile_bindings.binding_id''),
        (has_key (\<lambda>b. (pb_actor_id b, pb_binding_epoch b))
           (pb_actor_id binding, pb_binding_epoch binding) (db_bindings db),
         UniqueIndex ''actor_profile_bindings.actor_id, actor_profile_bindings.binding_epoch''),
        (\<not> has_key act_actor_id (pb_actor_id binding) (db_actors db),
         ForeignKey ''actor_profile_bindings.actor_id''),
        (\<not> has_key mp_profile_id (pb_profile_id binding) (db_profiles db),
         ForeignKey ''actor_profile_bindings.profile_id''),
        (\<not> has_key dev_device_id (pb_owner_device_id binding) (db_devices db),
         ForeignKey ''actor_profile_bindings.owner_device_id''),
        (\<not> has_key act_actor_id (pb_issued_by_actor_id binding) (db_actors db),
         ForeignKey ''actor_profile_bindings.issued_by_actor_id'')] binding (db_bindings db)) (\<lambda>rows.
     Inr (pb_binding_id binding, db\<lparr>db_bindings := rows\<rparr>))))))))"

definition revoke_actor_profile_binding ::
    "pool_env \<Rightarrow> ActorProfileBindingId \<Rightarrow> u64 \<Rightarrow> pool_db \<Rightarrow> MnemesError + unit \<times> pool_db" where
  "revoke_actor_profile_binding env binding_id revoked_at db =
     bindR (binding_range ''binding revoked_at'' revoked_at) (\<lambda>revoked.
     let p = (\<lambda>b. pb_binding_id b = binding_id \<and> pb_revoked_at b = None);
         (affected, rows) = sql_update p (\<lambda>b. b\<lparr>pb_revoked_at := Some revoked_at\<rparr>) (db_bindings db) in
     if list_ex (\<lambda>b. p b \<and> revoked < u64_as_i64 (pb_valid_from b)) (db_bindings db)
     then Inl (mnemes_from_rusqlite (pe_message env
            (CheckConstraint ''revoked_at IS NULL OR revoked_at >= valid_from'')))
     else if affected = 0
     then Inl (ActorProfileBindingDenied ''binding does not exist or is already revoked'')
     else Inr ((), db\<lparr>db_bindings := rows\<rparr>))"

text \<open>A binding joined with its actor, the actor's device, its profile and the profile's device.\<close>

definition join_binding ::
    "pool_db \<Rightarrow> ActorProfileBinding \<Rightarrow>
     (ActorProfileBinding \<times> Actor \<times> Device \<times> MemoryProfile \<times> Device) option" where
  "join_binding db b =
     (case (get_actor (pb_actor_id b) db, get_profile (pb_profile_id b) db) of
        (Some a, Some p) \<Rightarrow>
          (case (get_device (act_device_id a) db, get_device (mp_owner_device_id p) db) of
             (Some ad, Some pd) \<Rightarrow> Some (b, a, ad, p, pd)
           | _ \<Rightarrow> None)
      | _ \<Rightarrow> None)"

definition active_bindings :: "ActorId \<Rightarrow> i64 \<Rightarrow> pool_db \<Rightarrow> ActorProfileBinding list" where
  "active_bindings actor_id at db =
     filter (\<lambda>b. pb_actor_id b = actor_id \<and> pb_revoked_at b = None \<and>
         u64_as_i64 (pb_valid_from b) \<le> at \<and> u64_as_i64 (pb_expires_at b) > at) (db_bindings db)"

definition resolve_actor_profile ::
    "crypto \<Rightarrow> ActorId \<Rightarrow> u64 \<Rightarrow> pool_db \<Rightarrow> MnemesError + ActorProfileBinding" where
  "resolve_actor_profile c actor_id at db =
     bindR (ok_or (ActorProfileBindingDenied ''authorization time exceeds SQLite range'')
              (i64_try_from_u64 at)) (\<lambda>at.
     case List.map_filter (join_binding db)
            (sort_key (\<lambda>b. (u64_as_i64 (pb_binding_epoch b), binding_id_str (pb_binding_id b)))
               (active_bindings actor_id at db)) of
       [] \<Rightarrow> Inl (ActorProfileBindingDenied ''no active binding exists for this actor'')
     | [(binding, a, ad, p, pd)] \<Rightarrow>
         bindR (binding_validate c binding) (\<lambda>_.
         if act_device_id a \<noteq> pb_owner_device_id binding \<or>
            mp_owner_device_id p \<noteq> pb_owner_device_id binding \<or>
            dev_status ad \<noteq> DevActive \<or> mp_status p \<noteq> ProfileActive \<or> dev_status pd \<noteq> DevActive
         then Inl (ActorProfileBindingDenied
                ''binding actor, profile, and owner-device lifecycle relation is invalid'')
         else Inr binding)
     | _ \<Rightarrow> Inl (ActorProfileBindingDenied ''multiple active bindings exist for this actor''))"

section \<open>Snapshots and permits\<close>

text \<open>The candidate stores: active, of an active profile, on an active device, in id order.\<close>

definition candidate_stores :: "pool_db \<Rightarrow> MemoryStoreIdentity list" where
  "candidate_stores db = sort_key ms_store_id
     (filter (\<lambda>s. ms_status s = StoreActive \<and>
          (case get_profile (ms_profile_id s) db of
             None \<Rightarrow> False | Some p \<Rightarrow> mp_status p = ProfileActive) \<and>
          device_active (ms_owner_device_id s) db) (db_stores db))"

definition snapshot_subject :: "ActorProfileBinding \<Rightarrow> MemoryProfile" where
  "snapshot_subject binding =
     \<lparr> mp_profile_id = pb_profile_id binding, mp_owner_device_id = pb_owner_device_id binding,
       mp_label = ''authorization subject'', mp_status = ProfileActive, mp_created_at = [] \<rparr>"

text \<open>The body of the loop over the stores; \<open>None\<close> is \<open>continue\<close>.\<close>

definition authorize_store ::
    "ActorProfileBinding \<Rightarrow> MemoryAccessEffect \<Rightarrow> string list \<Rightarrow> u64 \<Rightarrow> pool_db \<Rightarrow>
     MemoryStoreIdentity \<Rightarrow> AuthorizedMemoryStore option" where
  "authorize_store binding effect requested_namespaces at db store =
     (if requested_namespaces \<noteq> [] \<and> ms_namespace store \<notin> set requested_namespaces then None
      else
     (let grants = memory_grants_for_profile_store (pb_profile_id binding) (ms_store_id store) db in
      if \<not> is_ok (authorize_memory_access (pb_profile_id binding) (snapshot_subject binding) store
                   grants effect (ms_namespace store) at) then None
      else
     (let allowing = filter (\<lambda>g. grant_allows g effect (ms_namespace store) at) grants;
          expiry = (case map gr_expires_at allowing of
                      [] \<Rightarrow> pb_expires_at binding
                    | ts \<Rightarrow> min_list ts) in
      Some \<lparr> as_store_id = ms_store_id store, as_profile_id = ms_profile_id store,
             as_owner_device_id = ms_owner_device_id store, as_namespace = ms_namespace store,
             as_relative_path = ms_relative_path store,
             as_grant_ids = sort_key grant_id_str (map gr_grant_id allowing),
             as_authorization_expires_at = min expiry (pb_expires_at binding) \<rparr>)))"

definition build_authorization_snapshot ::
    "crypto \<Rightarrow> string \<Rightarrow> ActorId \<Rightarrow> MemoryAccessEffect \<Rightarrow> string list option \<Rightarrow> u64 \<Rightarrow> pool_db \<Rightarrow>
     MnemesError + AuthorizationSnapshot" where
  "build_authorization_snapshot c fresh_id actor_id effect namespaces at db =
     bindR (resolve_actor_profile c actor_id at db) (\<lambda>binding.
     let requested_namespaces = (case namespaces of None \<Rightarrow> [] | Some ns \<Rightarrow> ns);
         authorized_stores = List.map_filter
           (authorize_store binding effect requested_namespaces at db) (candidate_stores db) in
     Inr (snapshot_new c fresh_id binding effect requested_namespaces authorized_stores at))"

definition validate_authorization_snapshot ::
    "crypto \<Rightarrow> string \<Rightarrow> AuthorizationSnapshot \<Rightarrow> u64 \<Rightarrow> pool_db \<Rightarrow> MnemesError + unit" where
  "validate_authorization_snapshot c fresh_id snapshot at db =
     bindR (snapshot_validate c snapshot) (\<lambda>_.
     if sn_evaluated_at snapshot \<noteq> at
     then Inl (AuthorizationSnapshotInvalid
            ''snapshot evaluation time does not match request authorization time'')
     else
     let namespaces = (if sn_namespaces snapshot \<noteq> [] then Some (sn_namespaces snapshot) else None) in
     bindR (build_authorization_snapshot c fresh_id (sn_actor_id snapshot) (sn_effect snapshot)
              namespaces at db) (\<lambda>current.
     fail_if (sn_snapshot_digest current \<noteq> sn_snapshot_digest snapshot)
       (AuthorizationSnapshotInvalid
          ''snapshot no longer matches current binding, lifecycle, or grants'')))"

definition list_authorized_stores ::
    "crypto \<Rightarrow> string \<Rightarrow> AuthorizationSnapshot \<Rightarrow> u64 \<Rightarrow> pool_db \<Rightarrow>
     MnemesError + AuthorizedMemoryStore list" where
  "list_authorized_stores c fresh_id snapshot at db =
     bindR (validate_authorization_snapshot c fresh_id snapshot at db) (\<lambda>_.
     Inr (sn_authorized_stores snapshot))"

definition issue_memory_access_permit ::
    "crypto \<Rightarrow> string \<Rightarrow> string \<Rightarrow> AuthorizationSnapshot \<Rightarrow> string \<Rightarrow> string \<Rightarrow> u64 \<Rightarrow> usize \<Rightarrow> pool_db \<Rightarrow>
     MnemesError + MemoryAccessPermit" where
  "issue_memory_access_permit c fresh_id fresh_permit snapshot store_id namespace at query_budget db =
     bindR (validate_authorization_snapshot c fresh_id snapshot at db) (\<lambda>_.
     bindR (ok_or (MemoryGrantDenied ''store is not admitted by the authorization snapshot'')
              (find (\<lambda>s. as_store_id s = store_id \<and> as_namespace s = namespace)
                 (sn_authorized_stores snapshot))) (\<lambda>store.
     let expires_at = min (as_authorization_expires_at store) (u64_saturating_add at 60) in
     permit_new c fresh_permit snapshot store at expires_at query_budget))"

section \<open>What a snapshot admits\<close>

lemma set_map_filter_iff: "y \<in> set (List.map_filter f xs) \<longleftrightarrow> (\<exists>x \<in> set xs. f x = Some y)"
  by (induction xs) (auto simp: map_filter_simps split: option.splits)

lemma sint_uint_cases: "sint (w :: u64) = (if uint w < 2 ^ 63 then uint w else uint w - 2 ^ 64)"
proof (cases "uint w < 2 ^ 63")
  case True
  then have "signed_take_bit 63 (uint w) = uint w"
    by (intro signed_take_bit_int_eq_self) (simp_all add: order.trans [of _ 0])
  with True show ?thesis by (simp add: sint_uint)
next
  case False
  have lt: "uint w < 2 ^ 64" using unsigned_less [of w] by simp
  have "signed_take_bit 63 (uint w) = signed_take_bit 63 (uint w - 2 ^ 64)"
    by (simp only: signed_take_bit_eq_iff_take_bit_eq) (simp add: take_bit_eq_mod)
  also have "\<dots> = uint w - 2 ^ 64"
    using False lt by (intro signed_take_bit_int_eq_self) auto
  finally show ?thesis using False by (simp add: sint_uint)
qed

lemma unat_u64_as_i64: "0 \<le> u64_as_i64 w \<Longrightarrow> u64_as_i64 w = int (unat w)"
proof -
  assume "0 \<le> u64_as_i64 w"
  moreover have "uint w < 2 ^ 64" using unsigned_less [of w] by simp
  ultimately show ?thesis
    by (simp add: u64_as_i64_def sint_uint_cases split: if_splits)
qed

lemma u64_try_as_i64: "i64_try_from_u64 w = Some i \<Longrightarrow> u64_as_i64 w = i \<and> i = int (unat w)"
  by (auto simp: i64_try_from_u64_def u64_as_i64_def sint_uint_cases i64_max_def split: if_splits)

lemma resolve_okD:
  assumes "resolve_actor_profile c actor at db = Inr b"
  shows "\<exists>a ad p pd i. i64_try_from_u64 at = Some i \<and> b \<in> set (active_bindings actor i db) \<and>
     join_binding db b = Some (b, a, ad, p, pd) \<and> binding_validate c b = Inr () \<and>
     act_device_id a = pb_owner_device_id b \<and> mp_owner_device_id p = pb_owner_device_id b \<and>
     dev_status ad = DevActive \<and> mp_status p = ProfileActive \<and> dev_status pd = DevActive"
proof -
  obtain i where i: "i64_try_from_u64 at = Some i"
    using assms by (auto simp: resolve_actor_profile_def result_simps)
  let ?rows = "List.map_filter (join_binding db)
      (sort_key (\<lambda>b. (u64_as_i64 (pb_binding_epoch b), binding_id_str (pb_binding_id b)))
        (active_bindings actor i db))"
  have "length ?rows = 1"
  proof (cases ?rows rule: remdups_adj.cases)
    case (3 x y zs)
    then show ?thesis using assms i
      by (simp add: resolve_actor_profile_def del: List.map_filter_simps)
  qed (use assms i in \<open>simp_all add: resolve_actor_profile_def\<close>)
  then obtain b' a ad p pd where row: "?rows = [(b', a, ad, p, pd)]"
    by (cases ?rows) auto
  with assms i have "bindR (binding_validate c b') (\<lambda>_.
         if act_device_id a \<noteq> pb_owner_device_id b' \<or>
            mp_owner_device_id p \<noteq> pb_owner_device_id b' \<or>
            dev_status ad \<noteq> DevActive \<or> mp_status p \<noteq> ProfileActive \<or> dev_status pd \<noteq> DevActive
         then Inl (ActorProfileBindingDenied
                ''binding actor, profile, and owner-device lifecycle relation is invalid'')
         else Inr b') = Inr b"
    by (simp only: resolve_actor_profile_def ok_or_simps bindR_simps list.case prod.case)
  then have
    valid: "binding_validate c b' = Inr ()" and "b' = b"
    and rel: "\<not> (act_device_id a \<noteq> pb_owner_device_id b' \<or>
        mp_owner_device_id p \<noteq> pb_owner_device_id b' \<or>
        dev_status ad \<noteq> DevActive \<or> mp_status p \<noteq> ProfileActive \<or> dev_status pd \<noteq> DevActive)"
    by (auto simp: bindR_eq_Inr split: if_splits)
  have "(b', a, ad, p, pd) \<in> set ?rows" by (simp add: row)
  then obtain x where x: "x \<in> set (active_bindings actor i db)"
    "join_binding db x = Some (b', a, ad, p, pd)"
    unfolding set_map_filter_iff by auto
  then have "x = b'" by (auto simp: join_binding_def split: option.splits)
  with x i valid rel \<open>b' = b\<close> show ?thesis by blast
qed

lemma active_bindingsD:
  assumes "i64_try_from_u64 at = Some i" "b \<in> set (active_bindings actor i db)"
  shows "b \<in> set (db_bindings db) \<and> pb_actor_id b = actor \<and> pb_revoked_at b = None \<and>
     at < pb_expires_at b \<and> u64_as_i64 (pb_valid_from b) \<le> int (unat at)"
proof -
  have i: "i = int (unat at)" using u64_try_as_i64 [OF assms(1)] by blast
  have b: "b \<in> set (db_bindings db)" "pb_actor_id b = actor" "pb_revoked_at b = None"
    "u64_as_i64 (pb_valid_from b) \<le> i" "i < u64_as_i64 (pb_expires_at b)"
    using assms(2) by (simp_all add: active_bindings_def)
  have "u64_as_i64 (pb_expires_at b) = int (unat (pb_expires_at b))"
    using b(5) i of_nat_0_le_iff [of "unat at"] by (intro unat_u64_as_i64) linarith
  with b i show ?thesis by (simp add: word_less_def)
qed

lemma sort_key_Nil_iff: "sort_key f xs = [] \<longleftrightarrow> xs = []"
  by (metis length_0_conv length_sort)

lemma candidate_storesD:
  "s \<in> set (candidate_stores db) \<Longrightarrow>
     s \<in> set (db_stores db) \<and> ms_status s = StoreActive \<and>
     (\<exists>p. get_profile (ms_profile_id s) db = Some p \<and> mp_status p = ProfileActive) \<and>
     device_active (ms_owner_device_id s) db"
  by (auto simp: candidate_stores_def split: option.splits)

lemma min_list_mem: "xs \<noteq> [] \<Longrightarrow> min_list xs \<in> set (xs :: 'a :: linorder list)"
  by (simp add: min_list_Min)

lemma set_grants_for:
  "set (memory_grants_for_profile_store p s db) =
     {g \<in> set (db_grants db). gr_grantee_profile_id g = p \<and> gr_store_id g = s}"
  by (auto simp: memory_grants_for_profile_store_def)

lemma authorize_storeD:
  assumes "authorize_store b effect ns at db s = Some st" "at < pb_expires_at b"
  shows "as_store_id st = ms_store_id s \<and> as_profile_id st = ms_profile_id s \<and>
     as_namespace st = ms_namespace s \<and> (ns = [] \<or> ms_namespace s \<in> set ns) \<and>
     (ms_profile_id s = pb_profile_id b \<or> as_grant_ids st \<noteq> []) \<and>
     set (as_grant_ids st) = gr_grant_id ` {g \<in> set (db_grants db).
        gr_grantee_profile_id g = pb_profile_id b \<and> gr_store_id g = ms_store_id s \<and>
        grant_allows g effect (ms_namespace s) at} \<and>
     at < as_authorization_expires_at st \<and> as_authorization_expires_at st \<le> pb_expires_at b"
proof -
  define grants where "grants = memory_grants_for_profile_store (pb_profile_id b) (ms_store_id s) db"
  define allowing where "allowing = filter (\<lambda>g. grant_allows g effect (ms_namespace s) at) grants"
  have ok: "is_ok (authorize_memory_access (pb_profile_id b) (snapshot_subject b) s grants effect
        (ms_namespace s) at)"
    and ns: "ns = [] \<or> ms_namespace s \<in> set ns"
    and st: "st = \<lparr> as_store_id = ms_store_id s, as_profile_id = ms_profile_id s,
             as_owner_device_id = ms_owner_device_id s, as_namespace = ms_namespace s,
             as_relative_path = ms_relative_path s,
             as_grant_ids = sort_key grant_id_str (map gr_grant_id allowing),
             as_authorization_expires_at =
               min (case map gr_expires_at allowing of [] \<Rightarrow> pb_expires_at b | ts \<Rightarrow> min_list ts)
                 (pb_expires_at b) \<rparr>"
    using assms(1)
    by (auto simp: authorize_store_def Let_def grants_def allowing_def split: if_splits)
  have "ms_profile_id s = pb_profile_id b \<or> allowing \<noteq> []"
    using ok by (auto simp: is_ok_iff authorize_memory_access_def bindR_eq_Inr list_ex_iff
        allowing_def filter_empty_conv split: if_splits)
  moreover have "set (map gr_grant_id allowing) = gr_grant_id ` {g \<in> set (db_grants db).
        gr_grantee_profile_id g = pb_profile_id b \<and> gr_store_id g = ms_store_id s \<and>
        grant_allows g effect (ms_namespace s) at}"
    by (auto simp: allowing_def grants_def set_grants_for)
  moreover have "at < (case map gr_expires_at allowing of [] \<Rightarrow> pb_expires_at b | ts \<Rightarrow> min_list ts)"
  proof (cases "map gr_expires_at allowing")
    case (Cons t ts)
    have "min_list (t # ts) \<in> set (map gr_expires_at allowing)"
      unfolding Cons by (rule min_list_mem) simp
    then obtain g where "g \<in> set allowing" "min_list (t # ts) = gr_expires_at g" by fastforce
    then have "at < min_list (t # ts)" by (simp add: allowing_def grant_allows_def)
    then show ?thesis unfolding Cons list.case .
  qed (use assms(2) in simp)
  ultimately show ?thesis
    using ns assms(2) by (auto simp: st sort_key_Nil_iff)
qed

text \<open>What a snapshot lists for a binding: the grants in force, who is admitted, and the entry.\<close>

definition grants_in_force ::
    "pool_db \<Rightarrow> MemoryProfileId \<Rightarrow> MemoryAccessEffect \<Rightarrow> u64 \<Rightarrow> MemoryStoreIdentity \<Rightarrow> MemoryAccessGrant set" where
  "grants_in_force db subject effect at s =
     {g \<in> set (db_grants db). gr_grantee_profile_id g = subject \<and> gr_store_id g = ms_store_id s \<and>
        grant_allows g effect (ms_namespace s) at}"

definition admitted_store ::
    "pool_db \<Rightarrow> MemoryProfileId \<Rightarrow> MemoryAccessEffect \<Rightarrow> string list \<Rightarrow> u64 \<Rightarrow> MemoryStoreIdentity \<Rightarrow> bool" where
  "admitted_store db subject effect ns at s \<longleftrightarrow>
     s \<in> set (db_stores db) \<and> ms_status s = StoreActive \<and>
     (\<exists>p. get_profile (ms_profile_id s) db = Some p \<and> mp_status p = ProfileActive) \<and>
     device_active (ms_owner_device_id s) db \<and> (ns = [] \<or> ms_namespace s \<in> set ns) \<and>
     (ms_profile_id s = subject \<or> grants_in_force db subject effect at s \<noteq> {})"

definition entry_for :: "MemoryAccessGrant set \<Rightarrow> u64 \<Rightarrow> MemoryStoreIdentity \<Rightarrow> AuthorizedMemoryStore \<Rightarrow> bool" where
  "entry_for grants binding_end s st \<longleftrightarrow>
     as_store_id st = ms_store_id s \<and> as_profile_id st = ms_profile_id s \<and>
     as_owner_device_id st = ms_owner_device_id s \<and> as_namespace st = ms_namespace s \<and>
     as_relative_path st = ms_relative_path s \<and> set (as_grant_ids st) = gr_grant_id ` grants \<and>
     sorted (map grant_id_str (as_grant_ids st)) \<and> distinct (as_grant_ids st) \<and>
     as_authorization_expires_at st = Min (insert binding_end (gr_expires_at ` grants))"

lemma authorize_store_admits:
  "authorize_store b effect ns at db s \<noteq> None \<longleftrightarrow>
     ms_status s = StoreActive \<and> (ns = [] \<or> ms_namespace s \<in> set ns) \<and>
     (ms_profile_id s = pb_profile_id b \<or> grants_in_force db (pb_profile_id b) effect at s \<noteq> {})"
  by (auto simp: authorize_store_def Let_def authorize_memory_access_def snapshot_subject_def
      is_ok_iff bindR_eq_Inr fail_if_eq list_ex_iff grants_in_force_def set_grants_for
      split: if_splits)

lemma distinct_remdups_adj_key:
  fixes f :: "'a \<Rightarrow> 'b :: linorder"
  assumes "inj f"
  shows "sorted (map f xs) \<Longrightarrow> distinct (remdups_adj xs) \<and> sorted (map f (remdups_adj xs))"
proof (induction xs rule: remdups_adj.induct)
  case (3 x y xs)
  have "x \<notin> set (y # xs)" if "x \<noteq> y"
  proof
    assume "x \<in> set (y # xs)"
    then have "f y \<le> f x" "f x \<le> f y" using "3.prems" that by auto
    then show False using that injD [OF assms] by force
  qed
  with 3 show ?case by (auto split: if_splits)
qed simp_all

lemma authorize_store_entry:
  assumes "authorize_store b effect ns at db s = Some st"
  shows "entry_for (grants_in_force db (pb_profile_id b) effect at s) (pb_expires_at b) s (normalize_store st)"
proof -
  define allowing where "allowing = filter (\<lambda>g. grant_allows g effect (ms_namespace s) at)
    (memory_grants_for_profile_store (pb_profile_id b) (ms_store_id s) db)"
  have st: "st = \<lparr> as_store_id = ms_store_id s, as_profile_id = ms_profile_id s,
             as_owner_device_id = ms_owner_device_id s, as_namespace = ms_namespace s,
             as_relative_path = ms_relative_path s,
             as_grant_ids = sort_key grant_id_str (map gr_grant_id allowing),
             as_authorization_expires_at =
               min (case map gr_expires_at allowing of [] \<Rightarrow> pb_expires_at b | ts \<Rightarrow> min_list ts)
                 (pb_expires_at b) \<rparr>"
    using assms by (auto simp: authorize_store_def Let_def allowing_def split: if_splits)
  have grants: "set allowing = grants_in_force db (pb_profile_id b) effect at s"
    by (auto simp: allowing_def grants_in_force_def set_grants_for)
  have "min (case map gr_expires_at allowing of [] \<Rightarrow> pb_expires_at b | ts \<Rightarrow> min_list ts)
      (pb_expires_at b) = Min (insert (pb_expires_at b) (gr_expires_at ` set allowing))"
  proof (cases "map gr_expires_at allowing")
    case (Cons t ts)
    have "gr_expires_at ` set allowing = set (t # ts)" using arg_cong [OF Cons, of set] by simp
    then show ?thesis unfolding Cons list.case
      using min_list_Min [of "t # ts"] by (simp only:) (simp add: min.commute min.left_commute)
  qed simp
  moreover have "inj grant_id_str" by (rule injI) (rule MemoryGrantId.expand)
  note distinct_remdups_adj_key [OF this, of "sort_key grant_id_str (sort_key grant_id_str (map gr_grant_id allowing))"]
  ultimately show ?thesis
    by (simp add: entry_for_def normalize_store_def st flip: grants)
qed

text \<open>
  C10. A snapshot admits exactly what the registry authorises at the evaluation time, whether the
  request names namespaces or not. There is a binding of the actor to the subject, intact, not
  revoked and in its window; the actor's device, the profile and the profile's device are active
  and belong together; and a store is listed if and only if it, its profile and its device are
  active, its namespace was asked for, and it is the subject's own or a grant of the effect to
  the subject is in force. Its entry has the store's identity, exactly the grants in force, each
  once, and ends with the binding or the first of these grants.
\<close>

theorem snapshot_admits_only_authorised:
  assumes "build_authorization_snapshot c fresh actor effect namespaces at db = Inr snapshot"
  shows "\<exists>b a ad p pd ns. ns = (case namespaces of None \<Rightarrow> [] | Some ns \<Rightarrow> ns) \<and>
     b \<in> set (db_bindings db) \<and> pb_actor_id b = actor \<and> binding_validate c b = Inr () \<and>
     pb_revoked_at b = None \<and> u64_as_i64 (pb_valid_from b) \<le> int (unat at) \<and> at < pb_expires_at b \<and>
     get_actor actor db = Some a \<and> get_device (act_device_id a) db = Some ad \<and> dev_status ad = DevActive \<and>
     get_profile (pb_profile_id b) db = Some p \<and> mp_status p = ProfileActive \<and>
     get_device (mp_owner_device_id p) db = Some pd \<and> dev_status pd = DevActive \<and>
     act_device_id a = pb_owner_device_id b \<and> mp_owner_device_id p = pb_owner_device_id b \<and>
     sn_actor_id snapshot = actor \<and> sn_actor_device_id snapshot = pb_owner_device_id b \<and>
     sn_subject_profile_id snapshot = pb_profile_id b \<and> sn_binding_id snapshot = pb_binding_id b \<and>
     sn_effect snapshot = effect \<and> sn_evaluated_at snapshot = at \<and>
     (\<forall>s \<in> set (db_stores db). admitted_store db (pb_profile_id b) effect ns at s \<longrightarrow>
        (\<exists>st \<in> set (sn_authorized_stores snapshot).
           entry_for (grants_in_force db (pb_profile_id b) effect at s) (pb_expires_at b) s st)) \<and>
     (\<forall>st \<in> set (sn_authorized_stores snapshot).
        \<exists>s. admitted_store db (pb_profile_id b) effect ns at s \<and>
           entry_for (grants_in_force db (pb_profile_id b) effect at s) (pb_expires_at b) s st)"
proof -
  define ns where "ns = (case namespaces of None \<Rightarrow> [] | Some ns \<Rightarrow> ns)"
  obtain b where res: "resolve_actor_profile c actor at db = Inr b"
    and snap: "snapshot = snapshot_new c fresh b effect ns
        (List.map_filter (authorize_store b effect ns at db) (candidate_stores db)) at"
    using assms by (auto simp: build_authorization_snapshot_def bindR_eq_Inr Let_def ns_def)
  from resolve_okD [OF res] obtain a ad p pd i where R: "i64_try_from_u64 at = Some i"
      "b \<in> set (active_bindings actor i db)" "join_binding db b = Some (b, a, ad, p, pd)"
      "binding_validate c b = Inr ()" "act_device_id a = pb_owner_device_id b"
      "mp_owner_device_id p = pb_owner_device_id b" "dev_status ad = DevActive"
      "mp_status p = ProfileActive" "dev_status pd = DevActive" by blast
  note B = active_bindingsD [OF R(1,2)]
  have J: "get_actor actor db = Some a" "get_device (act_device_id a) db = Some ad"
      "get_profile (pb_profile_id b) db = Some p" "get_device (mp_owner_device_id p) db = Some pd"
    using R(3) B by (auto simp: join_binding_def split: option.splits)
  have listed: "set (sn_authorized_stores snapshot) = normalize_store `
      {st. \<exists>s \<in> set (candidate_stores db). authorize_store b effect ns at db s = Some st}"
    by (simp add: snap snapshot_new_def Let_def set_eq_iff image_iff Bex_def set_map_filter_iff)
  have "s \<in> set (candidate_stores db) \<and> authorize_store b effect ns at db s \<noteq> None \<longleftrightarrow>
      admitted_store db (pb_profile_id b) effect ns at s" for s
    unfolding authorize_store_admits admitted_store_def
    by (auto simp: candidate_stores_def split: option.splits)
  then have admitted: "admitted_store db (pb_profile_id b) effect ns at s \<longleftrightarrow>
      s \<in> set (candidate_stores db) \<and> (\<exists>st. authorize_store b effect ns at db s = Some st)" for s
    by auto
  have "\<exists>st \<in> set (sn_authorized_stores snapshot).
      entry_for (grants_in_force db (pb_profile_id b) effect at s) (pb_expires_at b) s st"
    if "admitted_store db (pb_profile_id b) effect ns at s" for s
    using that authorize_store_entry unfolding admitted listed by blast
  moreover have "\<exists>s. admitted_store db (pb_profile_id b) effect ns at s \<and>
      entry_for (grants_in_force db (pb_profile_id b) effect at s) (pb_expires_at b) s st"
    if "st \<in> set (sn_authorized_stores snapshot)" for st
    using that authorize_store_entry unfolding admitted listed by blast
  moreover have "sn_actor_id snapshot = actor" "sn_actor_device_id snapshot = pb_owner_device_id b"
      "sn_subject_profile_id snapshot = pb_profile_id b" "sn_binding_id snapshot = pb_binding_id b"
      "sn_effect snapshot = effect" "sn_evaluated_at snapshot = at"
    using B by (simp_all add: snap snapshot_new_def Let_def)
  ultimately show ?thesis
    using B J R(4-9) ns_def
    by (intro exI [of _ b] exI [of _ a] exI [of _ ad] exI [of _ p] exI [of _ pd] exI [of _ ns]) blast
qed

text \<open>
  C39. A permit is exactly what was asked for, short-lived and current: it is issued only when the
  snapshot is intact and its digest is the digest of the snapshot built at that moment; it names
  the snapshot's subject, actor and device, the one admitted store and namespace that were asked
  for, with this store's grants, the effect and the digest of the snapshot, the budget asked for,
  which is between 1 and 100, and a digest of all this; and it expires after its issue, at the
  end of the store's authorization or sixty seconds later, whichever is first.
\<close>

theorem permit_is_bounded:
  assumes "issue_memory_access_permit c fresh fresh' snapshot store_id namespace at budget db =
    Inr permit"
  shows "snapshot_validate c snapshot = Inr () \<and> sn_evaluated_at snapshot = at \<and>
     (\<exists>current. build_authorization_snapshot c fresh (sn_actor_id snapshot) (sn_effect snapshot)
        (if sn_namespaces snapshot \<noteq> [] then Some (sn_namespaces snapshot) else None) at db =
          Inr current \<and>
        sn_snapshot_digest current = sn_snapshot_digest snapshot) \<and>
     (\<exists>st \<in> set (sn_authorized_stores snapshot). as_store_id st = store_id \<and>
        as_namespace st = namespace \<and>
        pm_expires_at permit = min (as_authorization_expires_at st) (u64_saturating_add at 60) \<and>
        pm_grant_ids permit = sort_key grant_id_str (as_grant_ids st)) \<and>
     pm_permit_id permit = fresh' \<and> pm_store_id permit = store_id \<and> pm_namespace permit = namespace \<and>
     pm_subject_profile_id permit = sn_subject_profile_id snapshot \<and>
     pm_actor_id permit = sn_actor_id snapshot \<and> pm_actor_device_id permit = sn_actor_device_id snapshot \<and>
     pm_effect permit = sn_effect snapshot \<and>
     pm_authorization_snapshot_id permit = sn_authorization_snapshot_id snapshot \<and>
     pm_authorization_snapshot_digest permit = sn_snapshot_digest snapshot \<and>
     pm_policy_version permit = AUTHORIZATION_POLICY_VERSION \<and> pm_issued_at permit = at \<and>
     at < pm_expires_at permit \<and> unat (pm_expires_at permit) \<le> unat at + 60 \<and>
     pm_query_budget permit = budget \<and> budget \<in> {1..100} \<and>
     pm_permit_digest permit = digest_fields c ''mnemes.memory-access-permit.v1'' (permit_fields permit)"
proof -
  obtain st where valid: "validate_authorization_snapshot c fresh snapshot at db = Inr ()"
    and st: "find (\<lambda>s. as_store_id s = store_id \<and> as_namespace s = namespace)
       (sn_authorized_stores snapshot) = Some st"
    and permit: "permit_new c fresh' snapshot st at
       (min (as_authorization_expires_at st) (u64_saturating_add at 60)) budget = Inr permit"
    using assms by (auto simp: issue_memory_access_permit_def bindR_eq_Inr ok_or_eq Let_def)
  have S: "st \<in> set (sn_authorized_stores snapshot)" "as_store_id st = store_id"
    "as_namespace st = namespace"
    using st by (auto simp: find_Some_iff)
  have V: "snapshot_validate c snapshot = Inr ()" "sn_evaluated_at snapshot = at"
    "\<exists>current. build_authorization_snapshot c fresh (sn_actor_id snapshot) (sn_effect snapshot)
        (if sn_namespaces snapshot \<noteq> [] then Some (sn_namespaces snapshot) else None) at db =
          Inr current \<and> sn_snapshot_digest current = sn_snapshot_digest snapshot"
    using valid
    by (auto simp: validate_authorization_snapshot_def bindR_eq_Inr fail_if_eq Let_def
        split: if_splits)
  then have policy: "sn_policy_version snapshot = AUTHORIZATION_POLICY_VERSION"
    by (simp add: snapshot_validate_def fail_if_eq bindR_eq_Inr)
  have checked: "at < min (as_authorization_expires_at st) (u64_saturating_add at 60)"
      "budget \<noteq> 0" "budget \<le> 100"
    using permit by (auto simp: permit_new_def bindR_eq_Inr fail_if_eq Let_def MAX_PERMIT_QUERY_BUDGET_def not_le)
  let ?permit = "\<lparr> pm_permit_id = fresh', pm_subject_profile_id = sn_subject_profile_id snapshot,
          pm_actor_id = sn_actor_id snapshot, pm_actor_device_id = sn_actor_device_id snapshot,
          pm_store_id = as_store_id st, pm_namespace = as_namespace st, pm_effect = sn_effect snapshot,
          pm_grant_ids = sort_key grant_id_str (as_grant_ids st),
          pm_authorization_snapshot_id = sn_authorization_snapshot_id snapshot,
          pm_authorization_snapshot_digest = sn_snapshot_digest snapshot, pm_issued_at = at,
          pm_expires_at = min (as_authorization_expires_at st) (u64_saturating_add at 60),
          pm_query_budget = budget, pm_policy_version = sn_policy_version snapshot,
          pm_permit_digest = [] \<rparr>"
  have P: "permit = ?permit\<lparr>pm_permit_digest :=
      digest_fields c ''mnemes.memory-access-permit.v1'' (permit_fields ?permit)\<rparr>"
    using permit by (auto simp: permit_new_def bindR_eq_Inr fail_if_eq Let_def)
  have "unat (min (as_authorization_expires_at st) (u64_saturating_add at 60)) \<le> unat (u64_saturating_add at 60)"
    by (simp add: word_le_nat_alt [symmetric])
  also have "\<dots> \<le> unat at + 60" by (simp add: unat_u64_saturating_add)
  finally have "unat (min (as_authorization_expires_at st) (u64_saturating_add at 60)) \<le> unat at + 60" .
  then show ?thesis
    using S V policy checked by (auto simp: P permit_fields_def)
qed

section \<open>A registry with one binding\<close>

definition example_device :: Device where
  "example_device = (device_new (DeviceId ''d'') [] [] [])\<lparr>dev_credential_fingerprint :=
     Some (cred_digest (device_credential_new toy_crypto (DeviceId ''d'') ''s1''))\<rparr>"

definition example_registry :: pool_db where
  "example_registry = empty_db\<lparr>
     db_devices := [example_device],
     db_actors := [actor_new (ActorId ''a'') (DeviceId ''d'') Hermes,
       (actor_new (ActorId ''op'') (DeviceId ''d'') Human)\<lparr>act_tool_profile := Operator\<rparr>],
     db_profiles := [\<lparr> mp_profile_id = MemoryProfileId ''p'', mp_owner_device_id = DeviceId ''d'',
       mp_label = ''p'', mp_status = ProfileActive, mp_created_at = [] \<rparr>],
     db_stores := [example_store], db_bindings := [example_binding]\<rparr>"

lemma example_resolve:
  "resolve_actor_profile toy_crypto (ActorId ''a'') 15 example_registry = Inr example_binding"
proof -
  have i: "i64_try_from_u64 15 = Some 15" by (simp add: i64_try_from_u64_def i64_max_def)
  have "active_bindings (ActorId ''a'') 15 example_registry = [example_binding]"
    by (simp add: active_bindings_def example_registry_def example_binding_def u64_as_i64_def)
  moreover have "join_binding example_registry example_binding = Some (example_binding,
      actor_new (ActorId ''a'') (DeviceId ''d'') Hermes, example_device,
      \<lparr> mp_profile_id = MemoryProfileId ''p'', mp_owner_device_id = DeviceId ''d'',
        mp_label = ''p'', mp_status = ProfileActive, mp_created_at = [] \<rparr>,
      example_device)"
    by (simp add: join_binding_def get_actor_def get_profile_def get_device_def row_by_def
        example_registry_def example_binding_def actor_new_def example_device_def device_new_def)
  ultimately show ?thesis
    using example_binding_valid i
    by (simp add: resolve_actor_profile_def List.map_filter_simps)
      (simp add: example_binding_def actor_new_def example_device_def device_new_def)
qed

definition example_snapshot :: AuthorizationSnapshot where
  "example_snapshot = snapshot_new toy_crypto ''snap'' example_binding Read []
     [\<lparr> as_store_id = ''s1'', as_profile_id = MemoryProfileId ''p'',
        as_owner_device_id = DeviceId ''d'', as_namespace = ''ns'',
        as_relative_path = ''memory/profiles/p/s1'', as_grant_ids = [],
        as_authorization_expires_at = 20 \<rparr>] 15"

lemma example_build:
  "build_authorization_snapshot toy_crypto ''snap'' (ActorId ''a'') Read ns 15 example_registry =
     Inr example_snapshot" if "ns = None \<or> ns = Some []"
proof -
  have "candidate_stores example_registry = [example_store]"
    by (simp add: candidate_stores_def example_registry_def get_profile_def row_by_def
        device_active_def get_device_def example_store_def example_device_def device_new_def)
  moreover have "memory_grants_for_profile_store p s example_registry = []" for p s
    by (simp add: memory_grants_for_profile_store_def example_registry_def empty_db_def)
  then have "authorize_store example_binding Read [] 15 example_registry example_store =
    Some \<lparr> as_store_id = ''s1'', as_profile_id = MemoryProfileId ''p'',
        as_owner_device_id = DeviceId ''d'', as_namespace = ''ns'',
        as_relative_path = ''memory/profiles/p/s1'', as_grant_ids = [],
        as_authorization_expires_at = 20 \<rparr>"
    by (simp add: authorize_store_def authorize_memory_access_def snapshot_subject_def
        example_store_def example_binding_def Let_def)
  ultimately show ?thesis
    using that
    by (auto simp: build_authorization_snapshot_def example_resolve example_snapshot_def
        List.map_filter_simps)
qed

theorem snapshot_admits_only_authorised_witness:
  "\<exists>snapshot. build_authorization_snapshot toy_crypto ''snap'' (ActorId ''a'') Read None 15
       example_registry = Inr snapshot \<and>
     (\<forall>st \<in> set (sn_authorized_stores snapshot). \<exists>s. admitted_store example_registry
        (sn_subject_profile_id snapshot) Read [] 15 s \<and> as_store_id st = ms_store_id s) \<and>
     length (sn_authorized_stores snapshot) = 1"
proof -
  have b: "build_authorization_snapshot toy_crypto ''snap'' (ActorId ''a'') Read None 15
       example_registry = Inr example_snapshot" by (rule example_build) simp
  have "\<forall>st \<in> set (sn_authorized_stores example_snapshot). \<exists>s. admitted_store example_registry
        (sn_subject_profile_id example_snapshot) Read [] 15 s \<and> as_store_id st = ms_store_id s"
    using snapshot_admits_only_authorised [OF b] unfolding entry_for_def option.case by metis
  moreover have "length (sn_authorized_stores example_snapshot) = 1"
    by (simp add: example_snapshot_def snapshot_new_def Let_def)
  ultimately show ?thesis using b by blast
qed

theorem permit_is_bounded_witness:
  "\<exists>permit. issue_memory_access_permit toy_crypto ''snap'' ''permit'' example_snapshot ''s1'' ''ns''
       15 5 example_registry = Inr permit \<and> unat (pm_expires_at permit) \<le> 75"
proof -
  have fields: "sn_actor_id example_snapshot = ActorId ''a''" "sn_effect example_snapshot = Read"
    "sn_namespaces example_snapshot = []" "sn_evaluated_at example_snapshot = 15"
    by (simp_all add: example_snapshot_def snapshot_new_def Let_def example_binding_def)
  have "snapshot_validate toy_crypto example_snapshot = Inr ()"
    unfolding example_snapshot_def by (rule snapshot_new_valid)
  then have v: "validate_authorization_snapshot toy_crypto ''snap'' example_snapshot 15
      example_registry = Inr ()"
    by (simp add: validate_authorization_snapshot_def fields example_build)
  let ?st = "\<lparr> as_store_id = ''s1'', as_profile_id = MemoryProfileId ''p'',
        as_owner_device_id = DeviceId ''d'', as_namespace = ''ns'',
        as_relative_path = ''memory/profiles/p/s1'', as_grant_ids = [],
        as_authorization_expires_at = 20 \<rparr>"
  have "sn_authorized_stores example_snapshot = [?st]"
    by (simp add: example_snapshot_def snapshot_new_def Let_def normalize_store_def)
  then have "issue_memory_access_permit toy_crypto ''snap'' ''permit'' example_snapshot ''s1'' ''ns''
       15 5 example_registry = permit_new toy_crypto ''permit'' example_snapshot ?st 15
         (min 20 (u64_saturating_add 15 60)) 5"
    by (simp add: issue_memory_access_permit_def v)
  also have "is_ok \<dots>"
    by (simp add: permit_new_def u64_saturating_add_def MAX_PERMIT_QUERY_BUDGET_def Let_def)
  finally obtain permit where i: "issue_memory_access_permit toy_crypto ''snap'' ''permit''
      example_snapshot ''s1'' ''ns'' 15 5 example_registry = Inr permit"
    by (auto simp: is_ok_iff)
  have "unat (pm_expires_at permit) \<le> unat (15 :: u64) + 60"
    using permit_is_bounded [OF i] by blast
  with i show ?thesis by auto
qed

end
