(* ===== verification/Operation_Log.thy ===== *)
theory Operation_Log
  imports Control_Plane
begin

text \<open>
  Operation envelopes and the audit log (\<open>src/store.rs\<close>). A submission looks the idempotency key
  up under one lock of the connection and inserts under another one; the two halves are separate
  definitions, so that both the sequential behaviour and an interleaving can be stated.
\<close>

section \<open>Lookups\<close>

definition get_operation :: "OperationId \<Rightarrow> pool_db \<Rightarrow> OperationEnvelope option" where
  "get_operation operation_id db = row_by op_operation_id operation_id (db_operations db)"

definition get_operation_by_idempotency_key :: "string \<Rightarrow> pool_db \<Rightarrow> OperationEnvelope option" where
  "get_operation_by_idempotency_key key db =
     (case row_by op_idempotency_key key (db_operations db) of
        None \<Rightarrow> None
      | Some e \<Rightarrow> get_operation (op_operation_id e) db)"

definition get_operation_by_receipt :: "string \<Rightarrow> pool_db \<Rightarrow> OperationEnvelope option" where
  "get_operation_by_receipt receipt_id db =
     (case row_by op_receipt_id (Some receipt_id) (db_operations db) of
        None \<Rightarrow> None
      | Some e \<Rightarrow> get_operation (op_operation_id e) db)"

definition check_idempotency :: "string \<Rightarrow> pool_db \<Rightarrow> string option" where
  "check_idempotency key db =
     (case row_by op_idempotency_key key (db_operations db) of
        None \<Rightarrow> None
      | Some e \<Rightarrow> op_receipt_id e)"

definition operations_limit :: "usize \<Rightarrow> i64" where
  "operations_limit limit =
     (let effective_limit = (if limit = 0 then 100 else limit) in
      if int effective_limit \<le> i64_max then int effective_limit else 100)"

text \<open>\<open>ORDER BY recorded_at DESC\<close> leaves the order of equal times open.\<close>

definition list_operations ::
    "DeviceId option \<Rightarrow> ActorId option \<Rightarrow> usize \<Rightarrow> pool_db \<Rightarrow> OperationEnvelope list" where
  "list_operations device_id actor_id limit db =
     sql_limit (operations_limit limit)
       (rev (sort_key op_recorded_at
         (filter (\<lambda>e. (case device_id of None \<Rightarrow> True | Some d \<Rightarrow> op_requesting_device_id e = d) \<and>
                     (case actor_id of None \<Rightarrow> True | Some a \<Rightarrow> op_requesting_actor_id e = a))
            (db_operations db))))"

definition count_devices :: "pool_db \<Rightarrow> nat" where
  "count_devices db = length (db_devices db)"

definition count_actors :: "pool_db \<Rightarrow> nat" where
  "count_actors db = length (db_actors db)"

definition count_operations :: "pool_db \<Rightarrow> nat" where
  "count_operations db = length (db_operations db)"

section \<open>Submission\<close>

text \<open>The first half: \<open>None\<close> goes on to the insertion.\<close>

definition submit_check :: "OperationEnvelope \<Rightarrow> pool_db \<Rightarrow> (MnemesError + string) option" where
  "submit_check envelope db =
     (let key = op_idempotency_key envelope in
      case get_operation_by_idempotency_key key db of
        None \<Rightarrow> None
      | Some existing \<Rightarrow>
          Some (if op_content_digest existing = op_content_digest envelope
                then ok_or (IdempotencyConflict (''operation with key '' @ key @
                       '' has no persistent receipt'')) (op_receipt_id existing)
                else Inl (IdempotencyConflict (''operation with key '' @ key @ '' already exists''))))"

definition submit_insert ::
    "pool_env \<Rightarrow> OperationEnvelope \<Rightarrow> pool_db \<Rightarrow> MnemesError + string \<times> pool_db" where
  "submit_insert env envelope db =
     (let receipt_id = ''op-receipt:'' @ operation_id_str (op_operation_id envelope);
          envelope = envelope\<lparr>op_recorded_at := pe_now env, op_receipt_id := Some receipt_id\<rparr> in
      bindR (sql_insert (pe_message env)
        [(has_key op_operation_id (op_operation_id envelope) (db_operations db),
          PrimaryKey ''operation_envelopes.operation_id''),
         (\<not> has_key dev_device_id (op_requesting_device_id envelope) (db_devices db),
          ForeignKey ''operation_envelopes.requesting_device_id''),
         (\<not> has_key act_actor_id (op_requesting_actor_id envelope) (db_actors db),
          ForeignKey ''operation_envelopes.requesting_actor_id'')] envelope (db_operations db))
        (\<lambda>rows. Inr (receipt_id, db\<lparr>db_operations := rows\<rparr>)))"

definition submit_operation ::
    "pool_env \<Rightarrow> OperationEnvelope \<Rightarrow> pool_db \<Rightarrow> MnemesError + string \<times> pool_db" where
  "submit_operation env envelope db =
     (case submit_check envelope db of
        Some (Inl e) \<Rightarrow> Inl e
      | Some (Inr receipt) \<Rightarrow> Inr (receipt, db)
      | None \<Rightarrow> submit_insert env envelope db)"

section \<open>The audit log\<close>

definition log_audit_event ::
    "pool_env \<Rightarrow> string \<Rightarrow> DeviceId option \<Rightarrow> ActorId option \<Rightarrow> string \<Rightarrow> string \<Rightarrow> string \<Rightarrow>
     string option \<Rightarrow> pool_db \<Rightarrow> MnemesError + unit \<times> pool_db" where
  "log_audit_event env fresh_id device actor endpoint method_name outcome detail db =
     bindR (sql_insert (pe_message env)
       [(outcome \<notin> {''ok'', ''denied'', ''error''},
         CheckConstraint ''outcome IN (ok, denied, error)''),
        (has_key au_event_id fresh_id (db_audit db), PrimaryKey ''audit_events.event_id'')]
       \<lparr> au_event_id = fresh_id, au_device_id = map_option device_id_str device,
         au_actor_id = map_option actor_id_str actor, au_endpoint = endpoint,
         au_method = method_name, au_outcome = outcome, au_detail = detail,
         au_created_at = pe_now env \<rparr> (db_audit db))
       (\<lambda>rows. Inr ((), db\<lparr>db_audit := rows\<rparr>))"

section \<open>Retries\<close>

lemma submit_insert_ok:
  "submit_insert env e db = Inr (receipt, db') \<longleftrightarrow>
     get_operation (op_operation_id e) db = None \<and>
     get_device (op_requesting_device_id e) db \<noteq> None \<and>
     get_actor (op_requesting_actor_id e) db \<noteq> None \<and>
     receipt = ''op-receipt:'' @ operation_id_str (op_operation_id e) \<and>
     db' = db\<lparr>db_operations := db_operations db @
       [e\<lparr>op_recorded_at := pe_now env, op_receipt_id := Some receipt\<rparr>]\<rparr>"
  by (auto simp: submit_insert_def Let_def result_simps has_key_iff get_operation_def get_device_def
      get_actor_def row_by_None)

lemma key_lookup_append:
  assumes "get_operation_by_idempotency_key key db = Some e"
    and "db_operations db' = db_operations db @ rows"
  shows "get_operation_by_idempotency_key key db' = Some e"
  using assms
  by (auto simp: get_operation_by_idempotency_key_def get_operation_def row_by_append
      split: option.splits)

lemma submitted_lookup:
  assumes "submit_operation env e db = Inr (receipt, db')"
  shows "\<exists>x. get_operation_by_idempotency_key (op_idempotency_key e) db' = Some x \<and>
     op_content_digest x = op_content_digest e \<and> op_receipt_id x = Some receipt"
proof (cases "submit_check e db")
  case None
  then have fresh: "get_operation_by_idempotency_key (op_idempotency_key e) db = None"
    by (simp add: submit_check_def Let_def split: option.splits)
  have ins: "submit_insert env e db = Inr (receipt, db')"
    using assms None by (simp add: submit_operation_def)
  have "row_by op_idempotency_key (op_idempotency_key e) (db_operations db) = None"
  proof (rule ccontr)
    assume "row_by op_idempotency_key (op_idempotency_key e) (db_operations db) \<noteq> None"
    then obtain x where x: "row_by op_idempotency_key (op_idempotency_key e) (db_operations db) = Some x"
      by blast
    then have "x \<in> set (db_operations db)" by (rule row_by_SomeD [THEN conjunct1])
    then have "get_operation (op_operation_id x) db \<noteq> None"
      by (auto simp: get_operation_def row_by_None)
    with fresh x show False by (simp add: get_operation_by_idempotency_key_def)
  qed
  with ins show ?thesis
    by (auto simp: submit_insert_ok get_operation_by_idempotency_key_def get_operation_def
        row_by_append row_by_single)
next
  case (Some a)
  then show ?thesis
    using assms
    by (auto simp: submit_operation_def submit_check_def Let_def ok_or_eq split: option.splits
        sum.splits if_splits)
qed

text \<open>
  A submission can be retried at any later time: once it was answered, a submission with the
  same key and the same content digest gets the same receipt and changes nothing, and one with
  another digest is refused, whatever rows were added in between.
\<close>

theorem submit_operation_idempotent:
  assumes "submit_operation env e db = Inr (receipt, db1)"
    and "db_operations db2 = db_operations db1 @ rows"
    and "op_idempotency_key e' = op_idempotency_key e"
  shows "submit_operation env' e' db2 =
    (if op_content_digest e' = op_content_digest e then Inr (receipt, db2)
     else Inl (IdempotencyConflict (''operation with key '' @ op_idempotency_key e @
            '' already exists'')))"
proof -
  obtain x where "get_operation_by_idempotency_key (op_idempotency_key e) db1 = Some x"
    and x: "op_content_digest x = op_content_digest e" "op_receipt_id x = Some receipt"
    using submitted_lookup [OF assms(1)] by blast
  then have "get_operation_by_idempotency_key (op_idempotency_key e') db2 = Some x"
    using key_lookup_append assms(2,3) by metis
  with x assms(3) show ?thesis
    by (auto simp: submit_operation_def submit_check_def Let_def)
qed

definition example_operation :: "string \<Rightarrow> string \<Rightarrow> OperationEnvelope" where
  "example_operation ident digest =
     \<lparr> op_operation_id = OperationId ident, op_idempotency_key = ''key'',
       op_requesting_device_id = DeviceId ''d1'', op_requesting_actor_id = ActorId ''a1'',
       op_recording_device_id = DeviceId ''d1'', op_recording_server_id = DeviceId ''d1'',
       op_operation_kind = Observe, op_target_kind = ''fact'', op_target_id = ''f1'',
       op_content_digest = digest, op_observed_at = None, op_valid_time = None,
       op_recorded_at = [], op_receipt_id = None \<rparr>"

definition example_db :: pool_db where
  "example_db = empty_db\<lparr>db_devices := [device_new (DeviceId ''d1'') [] [] []],
     db_actors := [actor_new (ActorId ''a1'') (DeviceId ''d1'') Human]\<rparr>"

lemma example_submission:
  "submit_operation example_pool_env (example_operation i ''x'') example_db =
     Inr (''op-receipt:'' @ i, example_db\<lparr>db_operations :=
       [(example_operation i ''x'')\<lparr>op_recorded_at := ''2026-01-01T00:00:00Z'',
          op_receipt_id := Some (''op-receipt:'' @ i)\<rparr>]\<rparr>)"
  by (simp add: submit_operation_def submit_check_def Let_def get_operation_by_idempotency_key_def
      example_db_def empty_db_def submit_insert_def sql_insert_def has_key_def device_new_def
      actor_new_def example_operation_def example_pool_env_def)

theorem submit_operation_idempotent_witness:
  "\<exists>db. submit_operation example_pool_env (example_operation ''o2'' ''x'') db =
     Inr (''op-receipt:o1'', db)"
proof -
  let ?db = "example_db\<lparr>db_operations :=
       [(example_operation ''o1'' ''x'')\<lparr>op_recorded_at := ''2026-01-01T00:00:00Z'',
          op_receipt_id := Some (''op-receipt:'' @ ''o1'')\<rparr>]\<rparr>"
  have "submit_operation example_pool_env (example_operation ''o2'' ''x'') ?db =
     (if op_content_digest (example_operation ''o2'' ''x'') =
         op_content_digest (example_operation ''o1'' ''x'')
      then Inr (''op-receipt:'' @ ''o1'', ?db)
      else Inl (IdempotencyConflict (''operation with key '' @
             op_idempotency_key (example_operation ''o1'' ''x'') @ '' already exists'')))"
    by (rule submit_operation_idempotent [OF example_submission, where rows = "[]"])
      (simp_all add: example_operation_def)
  then show ?thesis by (auto simp: example_operation_def)
qed

text \<open>
  The two halves race: two concurrent retries of one request that both look the key up
  before either inserts are both accepted, under different receipts, and leave two rows with the
  same idempotency key.
\<close>

theorem submit_race_duplicates:
  "submit_check (example_operation ''o1'' ''x'') example_db = None \<and>
   submit_check (example_operation ''o2'' ''x'') example_db = None \<and>
   (\<exists>db1 db2. submit_insert example_pool_env (example_operation ''o1'' ''x'') example_db =
        Inr (''op-receipt:o1'', db1) \<and>
      submit_insert example_pool_env (example_operation ''o2'' ''x'') db1 =
        Inr (''op-receipt:o2'', db2) \<and>
      map op_idempotency_key (db_operations db2) = [''key'', ''key''])"
  by (simp add: submit_check_def Let_def get_operation_by_idempotency_key_def example_db_def
      empty_db_def submit_insert_def sql_insert_def has_key_def device_new_def actor_new_def
      example_operation_def example_pool_env_def)

end
