(* ===== verification/Pool_History.thy ===== *)
theory Pool_History
  imports Access_Registry Operation_Log
begin

text \<open>
  The control plane as a state machine: the operations that change the pool database, each one
  locked section of \<open>src/store.rs\<close>, runs of them in any order (a failing operation changes
  nothing), and what every run preserves: no row is deleted, and what a row was issued with never
  changes. A submission contributes its insertion only, since its check runs under a lock of its
  own; so the runs cover every interleaving.
\<close>

section \<open>Operations and runs\<close>

datatype pool_op =
    Bootstrap ActorId string Device ActorKind
  | RegisterDevice Device
  | RegisterDeviceWithCredential string Device
  | RotateCredential string DeviceId
  | SetDeviceStatus DeviceId DeviceStatus
  | HeartbeatDevice DeviceId
  | RegisterActor Actor
  | RegisterProfile MemoryProfile
  | SetProfileStatus MemoryProfileId MemoryProfileStatus
  | RegisterStore MemoryStoreIdentity
  | SetStoreStatus string MemoryStoreStatus
  | GrantAccess MemoryAccessGrant
  | RevokeAccess MemoryGrantId u64
  | BindProfile ActorProfileBinding
  | RevokeBinding ActorProfileBindingId u64
  | SubmitInsert OperationEnvelope
  | LogAudit string "DeviceId option" "ActorId option" string string string "string option"

definition result_db :: "'e + 'a \<times> 'd \<Rightarrow> 'e + 'd" where
  "result_db m = bindR m (\<lambda>(_, db). Inr db)"

fun pool_exec :: "pool_env \<Rightarrow> pool_op \<Rightarrow> pool_db \<Rightarrow> MnemesError + pool_db" where
  "pool_exec env (Bootstrap a secret d k) db = result_db (bootstrap env a secret d k db)"
| "pool_exec env (RegisterDevice d) db = result_db (register_device env d db)"
| "pool_exec env (RegisterDeviceWithCredential secret d) db =
     result_db (register_device_with_generated_credential env secret d db)"
| "pool_exec env (RotateCredential secret i) db = result_db (rotate_device_credential env secret i db)"
| "pool_exec env (SetDeviceStatus i status) db = result_db (set_device_status env i status db)"
| "pool_exec env (HeartbeatDevice i) db = result_db (heartbeat_device env i db)"
| "pool_exec env (RegisterActor a) db = result_db (register_actor env a db)"
| "pool_exec env (RegisterProfile p) db = result_db (register_memory_profile env p db)"
| "pool_exec env (SetProfileStatus p status) db = result_db (set_memory_profile_status p status db)"
| "pool_exec env (RegisterStore s) db = result_db (register_memory_store env s db)"
| "pool_exec env (SetStoreStatus s status) db = result_db (set_memory_store_status s status db)"
| "pool_exec env (GrantAccess g) db = result_db (grant_memory_access env g db)"
| "pool_exec env (RevokeAccess g t) db = result_db (revoke_memory_access env g t db)"
| "pool_exec env (BindProfile b) db = result_db (bind_actor_profile env b db)"
| "pool_exec env (RevokeBinding b t) db = result_db (revoke_actor_profile_binding env b t db)"
| "pool_exec env (SubmitInsert e) db = result_db (submit_insert env e db)"
| "pool_exec env (LogAudit i d a endpoint m outcome detail) db =
     result_db (log_audit_event env i d a endpoint m outcome detail db)"

fun pool_run :: "(pool_env \<times> pool_op) list \<Rightarrow> pool_db \<Rightarrow> pool_db" where
  "pool_run [] db = db"
| "pool_run ((env, operation) # ops) db =
     (case pool_exec env operation db of
        Inl _ \<Rightarrow> pool_run ops db
      | Inr db' \<Rightarrow> pool_run ops db')"

section \<open>What an operation does to the tables\<close>

lemma result_db_ok [result_simps]: "result_db m = Inr db' \<longleftrightarrow> (\<exists>x. m = Inr (x, db'))"
  by (cases m) (auto simp: result_db_def)

lemma register_deviceD:
  assumes "register_device env device db = Inr (x, db')"
  shows "\<exists>dev db1. get_device (dev_device_id dev) db = None \<and>
     db1 = db\<lparr>db_devices := db_devices db @ [dev]\<rparr> \<and>
     insert_device_shard_row env (dev_device_id dev) (dev_status dev) (pe_now env) db1 = Inr db'"
proof -
  let ?dev = "device\<lparr>dev_first_seen_at := pe_now env, dev_last_seen_at := pe_now env\<rparr>"
  have "get_device (dev_device_id ?dev) db = None \<and>
     insert_device_shard_row env (dev_device_id ?dev) (dev_status ?dev) (pe_now env)
       (db\<lparr>db_devices := db_devices db @ [?dev]\<rparr>) = Inr db'"
    using assms by (auto simp: register_device_def Let_def result_simps insert_device_ok)
  then show ?thesis by blast
qed

lemma bootstrapD:
  assumes "bootstrap env a secret device k db = Inr (x, db')"
  shows "db_devices db = [] \<and> (\<exists>dev actor db1. act_device_id actor = dev_device_id dev \<and>
     get_actor (act_actor_id actor) db = None \<and> act_tool_profile actor = Operator \<and>
     db1 = db\<lparr>db_devices := [dev], db_actors := db_actors db @ [actor]\<rparr> \<and>
     insert_device_shard_row env (dev_device_id dev) (dev_status dev) (pe_now env) db1 = Inr db')"
proof -
  let ?cred = "device_credential_new (pe_crypto env) (dev_device_id device) secret"
  let ?dev = "device\<lparr>dev_first_seen_at := pe_now env, dev_last_seen_at := pe_now env,
      dev_credential_fingerprint := Some (cred_digest ?cred)\<rparr>"
  let ?actor = "\<lparr> act_actor_id = a, act_device_id = dev_device_id device,
      act_tool_profile = Operator, act_actor_kind = k, act_provider_model = None,
      act_recorded_at = pe_now env \<rparr>"
  have empty: "db_devices db = []"
    using assms by (auto simp: bootstrap_def bindR_eq_Inr split: if_splits)
  have "get_actor a db = None \<and>
     insert_device_shard_row env (dev_device_id ?dev) (dev_status ?dev) (pe_now env)
       (db\<lparr>db_devices := [?dev], db_actors := db_actors db @ [?actor]\<rparr>) = Inr db'"
    using assms empty
    by (auto simp: bootstrap_def bootstrap_with_tx_def Let_def bindR_eq_Inr insert_device_ok
        insert_actor_ok get_actor_def split: if_splits prod.splits)
  then show ?thesis
    using empty by (intro conjI exI [of _ ?dev] exI [of _ ?actor] exI) auto
qed

lemma rotateD:
  "rotate_device_credential env secret i db = Inr (x, db') \<Longrightarrow>
     db' = db\<lparr>db_devices := snd (sql_update (\<lambda>d. dev_device_id d = i)
       (\<lambda>d. d\<lparr>dev_credential_fingerprint :=
              Some (cred_digest (device_credential_new (pe_crypto env) i secret)),
              dev_last_seen_at := pe_now env\<rparr>) (db_devices db))\<rparr>"
  by (auto simp: rotate_device_credential_def Let_def split: prod.splits if_splits)

lemma heartbeatD:
  "heartbeat_device env i db = Inr (x, db') \<Longrightarrow>
     db' = db\<lparr>db_devices := snd (sql_update (\<lambda>d. dev_device_id d = i \<and> dev_status d = DevActive)
       (\<lambda>d. d\<lparr>dev_last_seen_at := pe_now env\<rparr>) (db_devices db))\<rparr>"
  by (auto simp: heartbeat_device_def Let_def split: prod.splits if_splits)

lemma set_device_statusD:
  "set_device_status env i status db = Inr (x, db') \<Longrightarrow>
     db' = db\<lparr>db_devices := snd (sql_update (\<lambda>d. dev_device_id d = i)
         (\<lambda>d. d\<lparr>dev_last_seen_at := pe_now env, dev_status := status\<rparr>) (db_devices db)),
       db_shards := snd (sql_update (\<lambda>s. shr_device_id s = i)
         (\<lambda>s. s\<lparr>shr_state := shard_state_from_device status\<rparr>) (db_shards db))\<rparr>"
  by (auto simp: set_device_status_def Let_def split: prod.splits if_splits)

lemma register_actorD:
  assumes "register_actor env actor db = Inr (x, db')"
  shows "\<exists>a. get_actor (act_actor_id a) db = None \<and> get_device (act_device_id a) db \<noteq> None \<and>
       db' = db\<lparr>db_actors := db_actors db @ [a]\<rparr>"
  using assms
  by (intro exI [of _ "actor\<lparr>act_recorded_at := pe_now env\<rparr>"])
    (auto simp: register_actor_def Let_def bindR_eq_Inr insert_actor_ok)

lemma register_profileD:
  "register_memory_profile env profile db = Inr (x, db') \<Longrightarrow>
     \<exists>p. get_profile (mp_profile_id p) db = None \<and> db' = db\<lparr>db_profiles := db_profiles db @ [p]\<rparr>"
  by (auto simp: register_memory_profile_def Let_def bindR_eq_Inr sql_insert_ok has_key_iff
      get_profile_def row_by_None)
    (metis MemoryProfile.select_convs(1) MemoryProfile.surjective MemoryProfile.update_convs(5))

lemma profile_statusD:
  "set_memory_profile_status i status db = Inr (x, db') \<Longrightarrow>
     db' = db\<lparr>db_profiles := snd (sql_update (\<lambda>p. mp_profile_id p = i)
       (\<lambda>p. p\<lparr>mp_status := status\<rparr>) (db_profiles db))\<rparr>"
  by (auto simp: set_memory_profile_status_def Let_def split: prod.splits if_splits)

lemma register_storeD:
  assumes "register_memory_store env store db = Inr (x, db')"
  shows "\<exists>s. get_store (ms_store_id s) db = None \<and> db' = db\<lparr>db_stores := db_stores db @ [s]\<rparr>"
proof -
  have "get_store (ms_store_id (store\<lparr>ms_created_at := pe_now env\<rparr>)) db = None \<and>
      db' = db\<lparr>db_stores := db_stores db @ [store\<lparr>ms_created_at := pe_now env\<rparr>]\<rparr>"
    using assms
    by (auto simp: register_memory_store_def Let_def bindR_eq_Inr sql_insert_ok has_key_iff
        get_store_def row_by_None)
  then show ?thesis by blast
qed

lemma store_statusD:
  "set_memory_store_status i status db = Inr (x, db') \<Longrightarrow>
     db' = db\<lparr>db_stores := snd (sql_update (\<lambda>s. ms_store_id s = i)
       (\<lambda>s. s\<lparr>ms_status := status\<rparr>) (db_stores db))\<rparr>"
  by (auto simp: set_memory_store_status_def Let_def split: prod.splits if_splits)

definition get_grant :: "MemoryGrantId \<Rightarrow> pool_db \<Rightarrow> MemoryAccessGrant option" where
  "get_grant i db = row_by gr_grant_id i (db_grants db)"

lemma grant_accessD:
  assumes "grant_memory_access env grant db = Inr (x, db')"
  shows "\<exists>g. get_grant (gr_grant_id g) db = None \<and> db' = db\<lparr>db_grants := db_grants db @ [g]\<rparr>"
proof -
  have "get_grant (gr_grant_id (grant\<lparr>gr_created_at := pe_now env\<rparr>)) db = None \<and>
      db' = db\<lparr>db_grants := db_grants db @ [grant\<lparr>gr_created_at := pe_now env\<rparr>]\<rparr>"
    using assms
    by (auto simp: grant_memory_access_def Let_def bindR_eq_Inr sql_insert_ok has_key_iff
        get_grant_def row_by_None split: prod.splits)
  then show ?thesis by blast
qed

lemma revoke_accessD:
  "revoke_memory_access env i t db = Inr (x, db') \<Longrightarrow>
     db' = db\<lparr>db_grants := snd (sql_update (\<lambda>g. gr_grant_id g = i \<and> gr_revoked_at g = None)
       (\<lambda>g. g\<lparr>gr_revoked_at := Some t\<rparr>) (db_grants db))\<rparr>"
  by (auto simp: revoke_memory_access_def Let_def split: prod.splits if_splits)

lemma revoke_bindingD:
  "revoke_actor_profile_binding env i t db = Inr (x, db') \<Longrightarrow>
     db' = db\<lparr>db_bindings := snd (sql_update (\<lambda>b. pb_binding_id b = i \<and> pb_revoked_at b = None)
       (\<lambda>b. b\<lparr>pb_revoked_at := Some t\<rparr>) (db_bindings db))\<rparr> \<and>
     (\<exists>r. i64_try_from_u64 t = Some r \<and> (\<forall>b \<in> set (db_bindings db). pb_binding_id b = i \<longrightarrow>
        pb_revoked_at b = None \<longrightarrow> u64_as_i64 (pb_valid_from b) \<le> r))"
  by (auto simp: revoke_actor_profile_binding_def Let_def bindR_eq_Inr binding_range_def ok_or_eq
      list_ex_iff not_less split_beta split: if_splits)
    (metis option.distinct(1))

lemma audit_ok:
  "log_audit_event env i d a endpoint m outcome detail db = Inr (x, db') \<Longrightarrow>
     \<exists>e. db' = db\<lparr>db_audit := db_audit db @ [e]\<rparr>"
  by (auto simp: log_audit_event_def bindR_eq_Inr sql_insert_ok)

section \<open>Tables only grow\<close>

text \<open>
  A table \<open>ys\<close> is a later version of \<open>xs\<close> when its first rows are later versions of the rows of
  \<open>xs\<close>, in order. The interface is the version order of one table: reflexive, transitive and
  keeping the key.
\<close>

definition history :: "('r \<Rightarrow> 'r \<Rightarrow> bool) \<Rightarrow> 'r list \<Rightarrow> 'r list \<Rightarrow> bool" where
  "history le xs ys \<longleftrightarrow> list_all2 le xs (take (length xs) ys)"

locale table_history =
  fixes le :: "'r \<Rightarrow> 'r \<Rightarrow> bool" and key :: "'r \<Rightarrow> 'k"
  assumes le_refl: "le r r"
    and le_trans: "le r s \<Longrightarrow> le s t \<Longrightarrow> le r t"
    and le_key: "le r s \<Longrightarrow> key s = key r"
begin

lemma append: "history le xs (xs @ ys)"
  by (simp add: history_def list_all2_refl le_refl)

lemma refl: "history le xs xs"
  using append [of xs "[]"] by simp

lemma update: "(\<And>r. p r \<Longrightarrow> le r (f r)) \<Longrightarrow> history le xs (snd (sql_update p f xs))"
  by (simp add: history_def sql_update_def list_all2_conv_all_nth le_refl)

lemma trans: "history le xs ys \<Longrightarrow> history le ys zs \<Longrightarrow> history le xs zs"
proof -
  assume xy: "history le xs ys" and yz: "history le ys zs"
  have len: "length xs \<le> length ys" "length ys \<le> length zs"
    using xy yz by (auto simp: history_def dest!: list_all2_lengthD)
  have "le (xs ! i) (zs ! i)" if "i < length xs" for i
    using that len xy yz le_trans [of "xs ! i" "ys ! i" "zs ! i"]
    by (simp add: history_def list_all2_conv_all_nth)
  with len show ?thesis by (simp add: history_def list_all2_conv_all_nth)
qed

lemma member: "history le xs ys \<Longrightarrow> r \<in> set xs \<Longrightarrow> \<exists>s \<in> set ys. le r s"
  by (auto simp: history_def list_all2_conv_all_nth in_set_conv_nth)
    (metis nth_mem min.absorb2 nat_le_linear not_less min.absorb1 order_less_le_trans)

lemma lookup: "history le xs ys \<Longrightarrow> row_by key k xs = Some r \<Longrightarrow>
   \<exists>s. row_by key k ys = Some s \<and> le r s"
proof (induction xs arbitrary: ys)
  case (Cons x xs)
  then obtain y ys' where ys: "ys = y # ys'" "le x y" "history le xs ys'"
    by (cases ys) (auto simp: history_def)
  show ?case
  proof (cases "key x = k")
    case True
    with Cons.prems(2) ys le_key show ?thesis by (auto simp: row_by_def)
  next
    case False
    then have "row_by key k xs = Some r" using Cons.prems(2) by (simp add: row_by_def)
    with Cons.IH [OF ys(3)] False le_key [OF ys(2)] show ?thesis by (simp add: row_by_def ys(1))
  qed
qed simp

end

text \<open>The version orders: what a row may change after it was written.\<close>

definition device_le :: "Device \<Rightarrow> Device \<Rightarrow> bool" where
  "device_le d d' \<longleftrightarrow> d' = d\<lparr>dev_credential_fingerprint := dev_credential_fingerprint d',
     dev_last_seen_at := dev_last_seen_at d', dev_status := dev_status d'\<rparr>"

definition shard_le :: "shard_row \<Rightarrow> shard_row \<Rightarrow> bool" where
  "shard_le s s' \<longleftrightarrow> shr_device_id s' = shr_device_id s \<and> shr_relative_path s' = shr_relative_path s"

definition profile_le :: "MemoryProfile \<Rightarrow> MemoryProfile \<Rightarrow> bool" where
  "profile_le p p' \<longleftrightarrow> p' = p\<lparr>mp_status := mp_status p'\<rparr>"

definition store_le :: "MemoryStoreIdentity \<Rightarrow> MemoryStoreIdentity \<Rightarrow> bool" where
  "store_le s s' \<longleftrightarrow> s' = s\<lparr>ms_status := ms_status s'\<rparr>"

definition grant_le :: "MemoryAccessGrant \<Rightarrow> MemoryAccessGrant \<Rightarrow> bool" where
  "grant_le g g' \<longleftrightarrow> g' = g \<or> gr_revoked_at g = None \<and> (\<exists>t. g' = g\<lparr>gr_revoked_at := Some t\<rparr>)"

definition binding_le :: "ActorProfileBinding \<Rightarrow> ActorProfileBinding \<Rightarrow> bool" where
  "binding_le b b' \<longleftrightarrow> b' = b \<or> pb_revoked_at b = None \<and> (\<exists>t. b' = b\<lparr>pb_revoked_at := Some t\<rparr>)"

interpretation device_history: table_history device_le dev_device_id
proof
  show "device_le r t" if "device_le r s" "device_le s t" for r s t
    using that by (cases r; cases s; cases t) (simp add: device_le_def)
  show "dev_device_id s = dev_device_id r" if "device_le r s" for r s
    using that by (cases r; cases s) (simp add: device_le_def)
qed (simp add: device_le_def)

interpretation shard_history: table_history shard_le shr_device_id
  by unfold_locales (auto simp: shard_le_def)

interpretation profile_history: table_history profile_le mp_profile_id
proof
  show "profile_le r t" if "profile_le r s" "profile_le s t" for r s t
    using that by (cases r; cases s; cases t) (simp add: profile_le_def)
  show "mp_profile_id s = mp_profile_id r" if "profile_le r s" for r s
    using that by (cases r; cases s) (simp add: profile_le_def)
qed (simp add: profile_le_def)

interpretation store_history: table_history store_le ms_store_id
proof
  show "store_le r t" if "store_le r s" "store_le s t" for r s t
    using that by (cases r; cases s; cases t) (simp add: store_le_def)
  show "ms_store_id s = ms_store_id r" if "store_le r s" for r s
    using that by (cases r; cases s) (simp add: store_le_def)
qed (simp add: store_le_def)

interpretation grant_history: table_history grant_le gr_grant_id
  by unfold_locales (auto simp: grant_le_def)

interpretation binding_history: table_history binding_le pb_binding_id
  by unfold_locales (auto simp: binding_le_def)

interpretation actor_history: table_history "(=)" act_actor_id
  by unfold_locales simp_all

interpretation operation_history: table_history "(=)" op_operation_id
  by unfold_locales simp_all

interpretation audit_history: table_history "(=)" au_event_id
  by unfold_locales simp_all

definition db_history :: "pool_db \<Rightarrow> pool_db \<Rightarrow> bool" where
  "db_history db db' \<longleftrightarrow>
     history device_le (db_devices db) (db_devices db') \<and>
     history (=) (db_actors db) (db_actors db') \<and>
     history shard_le (db_shards db) (db_shards db') \<and>
     history profile_le (db_profiles db) (db_profiles db') \<and>
     history store_le (db_stores db) (db_stores db') \<and>
     history grant_le (db_grants db) (db_grants db') \<and>
     history binding_le (db_bindings db) (db_bindings db') \<and>
     history (=) (db_operations db) (db_operations db') \<and>
     history (=) (db_audit db) (db_audit db')"

lemma statistics_history:
  "map shard_identity rows = map shard_identity rows' \<Longrightarrow> history shard_le rows' rows"
  by (auto simp: history_def list_all2_conv_all_nth shard_le_def shard_identity_def list_eq_iff_nth_eq)

lemma db_history_refl: "db_history db db"
  by (simp add: db_history_def device_history.refl actor_history.refl shard_history.refl profile_history.refl
      store_history.refl grant_history.refl binding_history.refl operation_history.refl audit_history.refl)

lemma db_history_statistics: "statistics_only db db' \<Longrightarrow> db_history db db'"
  using db_history_refl [of db] by (auto simp: statistics_only_def db_history_def statistics_history)

lemma db_history_trans: "db_history db db' \<Longrightarrow> db_history db' db'' \<Longrightarrow> db_history db db''"
  unfolding db_history_def
  by (intro conjI; elim conjE;
      erule (1) device_history.trans actor_history.trans shard_history.trans profile_history.trans
        store_history.trans grant_history.trans binding_history.trans operation_history.trans
        audit_history.trans)

section \<open>Every change has its operation\<close>

text \<open>
  The same orders with the reason of each change: \<open>ops\<close> is a set of operations with their
  environments, and what a row did change, one of them on this very row wrote.
\<close>

type_synonym pool_ops = "(pool_env \<times> pool_op) set"

text \<open>A column keeps its value or has one that was written.\<close>

definition kept_or :: "('a \<Rightarrow> bool) \<Rightarrow> 'a \<Rightarrow> 'a \<Rightarrow> bool" where
  "kept_or written x x' \<longleftrightarrow> x' = x \<or> written x'"

lemma kept_or_refl [simp]: "kept_or written x x"
  by (simp add: kept_or_def)

lemma kept_or_trans: "kept_or written x y \<Longrightarrow> kept_or written y z \<Longrightarrow> kept_or written x z"
  by (auto simp: kept_or_def)

definition device_by :: "pool_ops \<Rightarrow> Device \<Rightarrow> Device \<Rightarrow> bool" where
  "device_by ops d d' \<longleftrightarrow> device_le d d' \<and>
     kept_or (\<lambda>status. \<exists>env. (env, SetDeviceStatus (dev_device_id d) status) \<in> ops)
       (dev_status d) (dev_status d') \<and>
     kept_or (\<lambda>digest. \<exists>env secret. (env, RotateCredential secret (dev_device_id d)) \<in> ops \<and>
         digest = Some (cred_digest (device_credential_new (pe_crypto env) (dev_device_id d) secret)))
       (dev_credential_fingerprint d) (dev_credential_fingerprint d') \<and>
     kept_or (\<lambda>seen. \<exists>env operation. (env, operation) \<in> ops \<and> seen = pe_now env \<and>
         ((\<exists>secret. operation = RotateCredential secret (dev_device_id d)) \<or>
          (\<exists>status. operation = SetDeviceStatus (dev_device_id d) status) \<or>
          operation = HeartbeatDevice (dev_device_id d)))
       (dev_last_seen_at d) (dev_last_seen_at d')"

definition shard_by :: "pool_ops \<Rightarrow> shard_row \<Rightarrow> shard_row \<Rightarrow> bool" where
  "shard_by ops s s' \<longleftrightarrow> s' = s\<lparr>shr_state := shr_state s'\<rparr> \<and>
     kept_or (\<lambda>state. \<exists>env status. (env, SetDeviceStatus (shr_device_id s) status) \<in> ops \<and>
         state = shard_state_from_device status) (shr_state s) (shr_state s')"

definition profile_by :: "pool_ops \<Rightarrow> MemoryProfile \<Rightarrow> MemoryProfile \<Rightarrow> bool" where
  "profile_by ops p p' \<longleftrightarrow> profile_le p p' \<and>
     kept_or (\<lambda>status. \<exists>env. (env, SetProfileStatus (mp_profile_id p) status) \<in> ops)
       (mp_status p) (mp_status p')"

definition store_by :: "pool_ops \<Rightarrow> MemoryStoreIdentity \<Rightarrow> MemoryStoreIdentity \<Rightarrow> bool" where
  "store_by ops s s' \<longleftrightarrow> store_le s s' \<and>
     kept_or (\<lambda>status. \<exists>env. (env, SetStoreStatus (ms_store_id s) status) \<in> ops) (ms_status s) (ms_status s')"

definition grant_by :: "pool_ops \<Rightarrow> MemoryAccessGrant \<Rightarrow> MemoryAccessGrant \<Rightarrow> bool" where
  "grant_by ops g g' \<longleftrightarrow> g' = g \<or> gr_revoked_at g = None \<and>
     (\<exists>env t. (env, RevokeAccess (gr_grant_id g) t) \<in> ops \<and> g' = g\<lparr>gr_revoked_at := Some t\<rparr>)"

definition binding_by :: "pool_ops \<Rightarrow> ActorProfileBinding \<Rightarrow> ActorProfileBinding \<Rightarrow> bool" where
  "binding_by ops b b' \<longleftrightarrow> b' = b \<or> pb_revoked_at b = None \<and>
     (\<exists>env t. (env, RevokeBinding (pb_binding_id b) t) \<in> ops \<and> b' = b\<lparr>pb_revoked_at := Some t\<rparr>)"

interpretation device_account: table_history "device_by ops" dev_device_id for ops
proof
  fix r s t
  show key: "dev_device_id s = dev_device_id r" if "device_by ops r s" for s
    using that device_history.le_key by (simp add: device_by_def)
  assume rs: "device_by ops r s" and st: "device_by ops s t"
  have "device_le r t" using rs st device_history.le_trans unfolding device_by_def by blast
  with rs st show "device_by ops r t" unfolding device_by_def key [OF rs] by (blast intro: kept_or_trans)
qed (simp add: device_by_def device_history.le_refl)

interpretation shard_account: table_history "shard_by ops" shr_device_id for ops
proof
  fix r s t
  show key: "shr_device_id s = shr_device_id r" if "shard_by ops r s" for s
    using that by (cases r; cases s) (simp add: shard_by_def)
  assume rs: "shard_by ops r s" and st: "shard_by ops s t"
  have "t = r\<lparr>shr_state := shr_state t\<rparr>"
    using rs st by (cases r; cases s; cases t) (simp add: shard_by_def)
  with rs st show "shard_by ops r t" unfolding shard_by_def key [OF rs] by (blast intro: kept_or_trans)
qed (simp add: shard_by_def)

interpretation profile_account: table_history "profile_by ops" mp_profile_id for ops
proof
  fix r s t
  show key: "mp_profile_id s = mp_profile_id r" if "profile_by ops r s" for s
    using that profile_history.le_key by (simp add: profile_by_def)
  assume rs: "profile_by ops r s" and st: "profile_by ops s t"
  have "profile_le r t" using rs st profile_history.le_trans unfolding profile_by_def by blast
  with rs st show "profile_by ops r t" unfolding profile_by_def key [OF rs] by (blast intro: kept_or_trans)
qed (simp add: profile_by_def profile_history.le_refl)

interpretation store_account: table_history "store_by ops" ms_store_id for ops
proof
  fix r s t
  show key: "ms_store_id s = ms_store_id r" if "store_by ops r s" for s
    using that store_history.le_key by (simp add: store_by_def)
  assume rs: "store_by ops r s" and st: "store_by ops s t"
  have "store_le r t" using rs st store_history.le_trans unfolding store_by_def by blast
  with rs st show "store_by ops r t" unfolding store_by_def key [OF rs] by (blast intro: kept_or_trans)
qed (simp add: store_by_def store_history.le_refl)

interpretation grant_account: table_history "grant_by ops" gr_grant_id for ops
  by unfold_locales (auto simp: grant_by_def)

interpretation binding_account: table_history "binding_by ops" pb_binding_id for ops
  by unfold_locales (auto simp: binding_by_def)

definition db_account :: "pool_ops \<Rightarrow> pool_db \<Rightarrow> pool_db \<Rightarrow> bool" where
  "db_account ops db db' \<longleftrightarrow>
     history (device_by ops) (db_devices db) (db_devices db') \<and>
     history (=) (db_actors db) (db_actors db') \<and>
     history (shard_by ops) (db_shards db) (db_shards db') \<and>
     history (profile_by ops) (db_profiles db) (db_profiles db') \<and>
     history (store_by ops) (db_stores db) (db_stores db') \<and>
     history (grant_by ops) (db_grants db) (db_grants db') \<and>
     history (binding_by ops) (db_bindings db) (db_bindings db') \<and>
     history (=) (db_operations db) (db_operations db') \<and>
     history (=) (db_audit db) (db_audit db')"

lemmas table_refl = device_account.refl actor_history.refl shard_account.refl profile_account.refl
  store_account.refl grant_account.refl binding_account.refl operation_history.refl audit_history.refl

lemmas table_append = device_account.append actor_history.append shard_account.append
  profile_account.append store_account.append grant_account.append binding_account.append
  operation_history.append audit_history.append

lemmas table_trans = device_account.trans actor_history.trans shard_account.trans
  profile_account.trans store_account.trans grant_account.trans binding_account.trans
  operation_history.trans audit_history.trans

lemma history_mono: "(\<And>r s. le r s \<Longrightarrow> le' r s) \<Longrightarrow> history le xs ys \<Longrightarrow> history le' xs ys"
  unfolding history_def by (rule list_all2_mono)

lemma by_le:
  "device_by ops d d' \<Longrightarrow> device_le d d'"
  "shard_by ops s s' \<Longrightarrow> shard_le s s'"
  "profile_by ops p p' \<Longrightarrow> profile_le p p'"
  "store_by ops i i' \<Longrightarrow> store_le i i'"
  "grant_by ops g g' \<Longrightarrow> grant_le g g'"
  "binding_by ops b b' \<Longrightarrow> binding_le b b'"
proof -
  show "shard_by ops s s' \<Longrightarrow> shard_le s s'"
    by (cases s; cases s') (simp add: shard_by_def shard_le_def)
qed (auto simp: device_by_def profile_by_def store_by_def grant_by_def grant_le_def binding_by_def binding_le_def)

lemma account_history: "db_account ops db db' \<Longrightarrow> db_history db db'"
  unfolding db_account_def db_history_def
  by (intro conjI; elim conjE; (assumption | erule history_mono [rotated], erule by_le))

lemma db_account_refl: "db_account ops db db"
  by (simp add: db_account_def table_refl)

lemma db_account_trans: "db_account ops db db' \<Longrightarrow> db_account ops db' db'' \<Longrightarrow> db_account ops db db''"
  unfolding db_account_def by (intro conjI; elim conjE; erule (1) table_trans)

lemma db_account_tables:
  "history (device_by ops) (db_devices db) ds \<Longrightarrow> db_account ops db (db\<lparr>db_devices := ds\<rparr>)"
  "history (=) (db_actors db) as \<Longrightarrow> db_account ops db (db\<lparr>db_actors := as\<rparr>)"
  "history (shard_by ops) (db_shards db) rows \<Longrightarrow> db_account ops db (db\<lparr>db_shards := rows\<rparr>)"
  "history (profile_by ops) (db_profiles db) ps \<Longrightarrow> db_account ops db (db\<lparr>db_profiles := ps\<rparr>)"
  "history (store_by ops) (db_stores db) ss \<Longrightarrow> db_account ops db (db\<lparr>db_stores := ss\<rparr>)"
  "history (grant_by ops) (db_grants db) gs \<Longrightarrow> db_account ops db (db\<lparr>db_grants := gs\<rparr>)"
  "history (binding_by ops) (db_bindings db) bs \<Longrightarrow> db_account ops db (db\<lparr>db_bindings := bs\<rparr>)"
  "history (=) (db_operations db) os \<Longrightarrow> db_account ops db (db\<lparr>db_operations := os\<rparr>)"
  "history (=) (db_audit db) es \<Longrightarrow> db_account ops db (db\<lparr>db_audit := es\<rparr>)"
  by (simp_all add: db_account_def table_refl)

lemma shard_row_account:
  assumes "insert_device_shard_row env d status t db = Inr db'"
  shows "db_account ops db db'"
proof -
  have "db' = db \<or> (\<exists>row. db' = db\<lparr>db_shards := db_shards db @ [row]\<rparr>)"
    using assms by (auto simp: insert_device_shard_row_def Let_def result_simps sql_insert_ok split: if_splits)
  then show ?thesis by (auto intro: db_account_refl db_account_tables(3) shard_account.append)
qed

lemma device_registration_account:
  assumes "db1 = db\<lparr>db_devices := db_devices db @ [dev]\<rparr>"
    and "insert_device_shard_row env i status t db1 = Inr db'"
  shows "db_account ops db db'"
  using db_account_trans [OF _ shard_row_account [OF assms(2)]] assms(1)
    db_account_tables(1) device_account.append by metis

lemma bootstrap_account:
  assumes "db_devices db = []"
    and "db1 = db\<lparr>db_devices := [dev], db_actors := db_actors db @ [actor]\<rparr>"
    and "insert_device_shard_row env i status t db1 = Inr db'"
  shows "db_account ops db db'"
proof (rule db_account_trans [OF _ shard_row_account [OF assms(3)]])
  have "history (device_by ops) (db_devices db) [dev]"
    using device_account.append [of ops "db_devices db" "[dev]"] assms(1) by simp
  moreover have "history (=) (db_actors db) (db_actors db @ [actor])"
    by (rule actor_history.append)
  ultimately show "db_account ops db db1"
    by (simp add: db_account_def table_refl assms(2))
qed

lemmas effectD = rotateD heartbeatD register_actorD register_profileD profile_statusD
  register_storeD store_statusD grant_accessD revoke_accessD

text \<open>What the operations write into a row has its reason.\<close>

lemma changed_by:
  "(env, RotateCredential secret (dev_device_id d)) \<in> ops \<Longrightarrow>
     device_by ops d (d\<lparr>dev_credential_fingerprint :=
       Some (cred_digest (device_credential_new (pe_crypto env) (dev_device_id d) secret)),
       dev_last_seen_at := pe_now env\<rparr>)"
  "(env, SetDeviceStatus (dev_device_id d) status) \<in> ops \<Longrightarrow>
     device_by ops d (d\<lparr>dev_last_seen_at := pe_now env, dev_status := status\<rparr>)"
  "(env, HeartbeatDevice (dev_device_id d)) \<in> ops \<Longrightarrow> device_by ops d (d\<lparr>dev_last_seen_at := pe_now env\<rparr>)"
  "(env, SetDeviceStatus (shr_device_id s) status) \<in> ops \<Longrightarrow>
     shard_by ops s (s\<lparr>shr_state := shard_state_from_device status\<rparr>)"
  "(env, SetProfileStatus (mp_profile_id p) pstatus) \<in> ops \<Longrightarrow> profile_by ops p (p\<lparr>mp_status := pstatus\<rparr>)"
  "(env, SetStoreStatus (ms_store_id i) sstatus) \<in> ops \<Longrightarrow> store_by ops i (i\<lparr>ms_status := sstatus\<rparr>)"
  "(env, RevokeAccess (gr_grant_id g) t) \<in> ops \<Longrightarrow> gr_revoked_at g = None \<Longrightarrow>
     grant_by ops g (g\<lparr>gr_revoked_at := Some t\<rparr>)"
  "(env, RevokeBinding (pb_binding_id b) t) \<in> ops \<Longrightarrow> pb_revoked_at b = None \<Longrightarrow>
     binding_by ops b (b\<lparr>pb_revoked_at := Some t\<rparr>)"
  unfolding device_by_def device_le_def shard_by_def profile_by_def profile_le_def store_by_def store_le_def
    grant_by_def binding_by_def kept_or_def by simp_all blast+

lemma exec_account_devices:
  assumes "pool_exec env operation db = Inr db'" and "(env, operation) \<in> ops"
  shows "operation = Bootstrap a secret d k \<Longrightarrow> db_account ops db db'"
    "operation = RegisterDevice d \<Longrightarrow> db_account ops db db'"
    "operation = RegisterDeviceWithCredential secret d \<Longrightarrow> db_account ops db db'"
    "operation = RotateCredential secret i \<Longrightarrow> db_account ops db db'"
    "operation = SetDeviceStatus i status \<Longrightarrow> db_account ops db db'"
    "operation = HeartbeatDevice i \<Longrightarrow> db_account ops db db'"
proof -
  show "operation = Bootstrap a secret d k \<Longrightarrow> db_account ops db db'"
    using assms(1) by (auto simp: result_db_ok dest!: bootstrapD intro: bootstrap_account)
  have reg: "register_device env d db = Inr (x, db') \<Longrightarrow> db_account ops db db'" for d x
    by (auto dest!: register_deviceD intro: device_registration_account)
  then show "operation = RegisterDevice d \<Longrightarrow> db_account ops db db'"
    using assms(1) by (auto simp: result_db_ok)
  show "operation = RegisterDeviceWithCredential secret d \<Longrightarrow> db_account ops db db'"
    using assms(1) reg
    by (auto simp: result_db_ok register_device_with_generated_credential_def Let_def bindR_eq_Inr)
  show "operation = RotateCredential secret i \<Longrightarrow> db_account ops db db'"
    using assms by (auto simp: result_db_ok dest!: rotateD
        intro!: db_account_tables device_account.update changed_by)
  show "operation = SetDeviceStatus i status \<Longrightarrow> db_account ops db db'"
    using assms by (auto simp: result_db_ok db_account_def table_refl
        dest!: set_device_statusD intro!: device_account.update shard_account.update changed_by)
  show "operation = HeartbeatDevice i \<Longrightarrow> db_account ops db db'"
    using assms by (auto simp: result_db_ok dest!: heartbeatD
        intro!: db_account_tables device_account.update changed_by)
qed

lemma bind_profileD:
  assumes "bind_actor_profile env binding db = Inr (x, db')"
  shows "\<exists>b a p i e k. db' = db\<lparr>db_bindings := db_bindings db @ [b]\<rparr> \<and>
     binding_validate (pe_crypto env) b = Inr () \<and> pb_revoked_at b = None \<and>
     i64_try_from_u64 (pb_valid_from b) = Some i \<and> i64_try_from_u64 (pb_expires_at b) = Some e \<and>
     i64_try_from_u64 (pb_binding_epoch b) = Some k \<and>
     get_actor (pb_actor_id b) db = Some a \<and> act_device_id a = pb_owner_device_id b \<and>
     get_device (act_device_id a) db \<noteq> None \<and>
     get_profile (pb_profile_id b) db = Some p \<and> mp_owner_device_id p = pb_owner_device_id b \<and>
     \<not> overlap_exists (pb_actor_id b) i e db \<and>
     row_by pb_binding_id (pb_binding_id b) (db_bindings db) = None"
proof -
  let ?b = "binding\<lparr>pb_revoked_at := None, pb_recorded_at := pe_now env\<rparr>"
  obtain i e k dev owner where R: "binding_validate (pe_crypto env) binding = Inr ()"
    "i64_try_from_u64 (pb_valid_from binding) = Some i"
    "i64_try_from_u64 (pb_expires_at binding) = Some e"
    "i64_try_from_u64 (pb_binding_epoch binding) = Some k"
    "actor_device (pb_actor_id binding) db = Some dev" "dev_device_id dev = pb_owner_device_id binding"
    "active_profile_owner (pb_profile_id binding) db = Some owner"
    "dev_device_id owner = pb_owner_device_id binding"
    "\<not> overlap_exists (pb_actor_id binding) i e db"
    "pb_binding_id binding \<notin> pb_binding_id ` set (db_bindings db)"
    "db' = db\<lparr>db_bindings := db_bindings db @ [?b]\<rparr>"
    using assms
    by (auto simp: bind_actor_profile_def bindR_eq_Inr binding_range_def ok_or_eq Let_def
        sql_insert_ok has_key_iff split: if_splits)
  obtain a where a: "get_actor (pb_actor_id binding) db = Some a" "get_device (act_device_id a) db = Some dev"
    using R(5) by (auto simp: actor_device_def split: option.splits)
  obtain p where p: "get_profile (pb_profile_id binding) db = Some p"
    "get_device (mp_owner_device_id p) db = Some owner"
    using R(7) by (auto simp: active_profile_owner_def split: option.splits if_splits)
  have "binding_validate (pe_crypto env) ?b = Inr ()"
    using R(1)
    by (auto simp: binding_validate_def result_simps binding_expected_digest_def binding_fields_def)
  moreover have "act_device_id a = pb_owner_device_id binding"
    "mp_owner_device_id p = pb_owner_device_id binding"
    using a(2) p(2) R(6,8) by (auto dest!: get_device_id)
  ultimately show ?thesis
    using R a p by (intro exI [of _ ?b] exI [of _ a] exI [of _ p] exI [of _ i] exI [of _ e] exI [of _ k])
      (simp add: row_by_None)
qed

lemma exec_account_records:
  assumes "pool_exec env operation db = Inr db'" and "(env, operation) \<in> ops"
  shows "operation = RegisterActor actor \<Longrightarrow> db_account ops db db'"
    "operation = RegisterProfile profile \<Longrightarrow> db_account ops db db'"
    "operation = SetProfileStatus p pstatus \<Longrightarrow> db_account ops db db'"
    "operation = RegisterStore store \<Longrightarrow> db_account ops db db'"
    "operation = SetStoreStatus s sstatus \<Longrightarrow> db_account ops db db'"
    "operation = GrantAccess grant \<Longrightarrow> db_account ops db db'"
    "operation = RevokeAccess g t \<Longrightarrow> db_account ops db db'"
    "operation = BindProfile binding \<Longrightarrow> db_account ops db db'"
    "operation = RevokeBinding b t \<Longrightarrow> db_account ops db db'"
    "operation = SubmitInsert e \<Longrightarrow> db_account ops db db'"
    "operation = LogAudit j d a endpoint m outcome detail \<Longrightarrow> db_account ops db db'"
  using assms
  by (auto simp: result_db_ok submit_insert_ok dest!: effectD bind_profileD revoke_bindingD audit_ok
      intro!: db_account_tables table_append profile_account.update store_account.update
        grant_account.update binding_account.update changed_by)

lemma exec_account:
  assumes "pool_exec env operation db = Inr db'" "(env, operation) \<in> ops"
  shows "db_account ops db db'"
  by (cases operation) (erule exec_account_devices [OF assms] exec_account_records [OF assms])+

lemma exec_history: "pool_exec env operation db = Inr db' \<Longrightarrow> db_history db db'"
  by (rule account_history, rule exec_account [where ops = UNIV]) simp_all

lemma run_account: "set ops \<subseteq> all \<Longrightarrow> db_account all db (pool_run ops db)"
proof (induction ops arbitrary: db)
  case Nil
  show ?case by (simp add: db_account_refl)
next
  case (Cons x ops)
  obtain env operation where x: "x = (env, operation)" by (cases x)
  show ?case
  proof (cases "pool_exec env operation db")
    case (Inl e)
    then show ?thesis using Cons by (simp add: x)
  next
    case (Inr db')
    have "db_account all db db'" by (rule exec_account [OF Inr]) (use Cons.prems x in simp)
    then show ?thesis using Cons Inr by (auto simp: x intro: db_account_trans)
  qed
qed

lemma run_history: "db_history db (pool_run ops db)"
  by (rule account_history [OF run_account [OF subset_refl]])


end
