(* ===== verification/Pool_Invariant.thy ===== *)
theory Pool_Invariant
  imports Pool_History
begin

text \<open>
  What holds in every database that the control plane and the statistics of searches can reach from
  the empty one, and what
  follows for the decisions that are taken on it: identities are unique, the shard catalog mirrors
  the device registry, bindings are intact, attached and do not overlap.
\<close>

section \<open>Reachable databases\<close>

inductive pool_reachable :: "crypto \<Rightarrow> pool_db \<Rightarrow> bool" for c where
  initial: "pool_reachable c empty_db"
| step: "pool_reachable c db \<Longrightarrow> pe_crypto env = c \<Longrightarrow> pool_exec env operation db = Inr db' \<Longrightarrow>
    pool_reachable c db'"
| observe: "pool_reachable c db \<Longrightarrow> statistics_only db db' \<Longrightarrow> pool_reachable c db'"

lemma reachable_run:
  "pool_reachable c db \<Longrightarrow> list_all (\<lambda>x. pe_crypto (fst x) = c) ops \<Longrightarrow>
   pool_reachable c (pool_run ops db)"
proof (induction ops arbitrary: db)
  case (Cons x ops)
  obtain env operation where x: "x = (env, operation)" by (cases x)
  with Cons show ?case
    by (auto split: sum.splits intro: pool_reachable.step)
qed simp

section \<open>Unique identities\<close>

definition fresh_or_same :: "'k list \<Rightarrow> 'k list \<Rightarrow> bool" where
  "fresh_or_same ks ks' \<longleftrightarrow> ks' = ks \<or> (\<exists>k. k \<notin> set ks \<and> ks' = ks @ [k])"

lemma fresh_or_same_simps [simp]:
  "fresh_or_same ks ks"
  "fresh_or_same ks (ks @ [k]) \<longleftrightarrow> k \<notin> set ks"
  by (auto simp: fresh_or_same_def)

lemma fresh_or_same_distinct: "fresh_or_same ks ks' \<Longrightarrow> distinct ks \<Longrightarrow> distinct ks'"
  by (auto simp: fresh_or_same_def)

definition keys_step :: "pool_db \<Rightarrow> pool_db \<Rightarrow> bool" where
  "keys_step db db' \<longleftrightarrow>
     fresh_or_same (map dev_device_id (db_devices db)) (map dev_device_id (db_devices db')) \<and>
     fresh_or_same (map act_actor_id (db_actors db)) (map act_actor_id (db_actors db')) \<and>
     fresh_or_same (map mp_profile_id (db_profiles db)) (map mp_profile_id (db_profiles db')) \<and>
     fresh_or_same (map ms_store_id (db_stores db)) (map ms_store_id (db_stores db')) \<and>
     fresh_or_same (map gr_grant_id (db_grants db)) (map gr_grant_id (db_grants db')) \<and>
     fresh_or_same (map pb_binding_id (db_bindings db)) (map pb_binding_id (db_bindings db')) \<and>
     fresh_or_same (map op_operation_id (db_operations db)) (map op_operation_id (db_operations db'))"

definition keys_ok :: "pool_db \<Rightarrow> bool" where
  "keys_ok db \<longleftrightarrow>
     distinct (map dev_device_id (db_devices db)) \<and> distinct (map act_actor_id (db_actors db)) \<and>
     distinct (map mp_profile_id (db_profiles db)) \<and> distinct (map ms_store_id (db_stores db)) \<and>
     distinct (map gr_grant_id (db_grants db)) \<and> distinct (map pb_binding_id (db_bindings db)) \<and>
     distinct (map op_operation_id (db_operations db))"

lemma keys_step_ok: "keys_step db db' \<Longrightarrow> keys_ok db \<Longrightarrow> keys_ok db'"
  by (auto simp: keys_step_def keys_ok_def intro: fresh_or_same_distinct simp del: set_map)

lemma shard_row_tables:
  assumes "insert_device_shard_row env i status t db = Inr db'"
  shows "db_devices db' = db_devices db \<and> db_actors db' = db_actors db \<and>
     db_profiles db' = db_profiles db \<and> db_stores db' = db_stores db \<and>
     db_grants db' = db_grants db \<and> db_bindings db' = db_bindings db \<and>
     db_operations db' = db_operations db"
  using insert_shard_ok [OF assms] by auto

lemma get_None:
  "get_device i db = None \<longleftrightarrow> i \<notin> dev_device_id ` set (db_devices db)"
  "get_actor a db = None \<longleftrightarrow> a \<notin> act_actor_id ` set (db_actors db)"
  "get_profile p db = None \<longleftrightarrow> p \<notin> mp_profile_id ` set (db_profiles db)"
  "get_store s db = None \<longleftrightarrow> s \<notin> ms_store_id ` set (db_stores db)"
  "get_grant g db = None \<longleftrightarrow> g \<notin> gr_grant_id ` set (db_grants db)"
  "get_operation x db = None \<longleftrightarrow> x \<notin> op_operation_id ` set (db_operations db)"
  by (simp_all add: get_device_def get_actor_def get_profile_def get_store_def get_grant_def
      get_operation_def row_by_None)

lemma exec_keys_devices:
  "pool_exec env (Bootstrap a secret d k) db = Inr db' \<Longrightarrow> keys_step db db'"
  "pool_exec env (RegisterDevice d) db = Inr db' \<Longrightarrow> keys_step db db'"
  "pool_exec env (RegisterDeviceWithCredential secret d) db = Inr db' \<Longrightarrow> keys_step db db'"
  "pool_exec env (RotateCredential secret i) db = Inr db' \<Longrightarrow> keys_step db db'"
  "pool_exec env (SetDeviceStatus i status) db = Inr db' \<Longrightarrow> keys_step db db'"
  "pool_exec env (HeartbeatDevice i) db = Inr db' \<Longrightarrow> keys_step db db'"
proof -
  show "pool_exec env (Bootstrap a secret d k) db = Inr db' \<Longrightarrow> keys_step db db'"
    by (auto simp: result_db_ok keys_step_def get_None fresh_or_same_def dest!: bootstrapD
        shard_row_tables)
  have reg: "register_device env d db = Inr (x, db') \<Longrightarrow> keys_step db db'" for d x
    by (auto simp: keys_step_def get_None dest!: register_deviceD shard_row_tables)
  then show "pool_exec env (RegisterDevice d) db = Inr db' \<Longrightarrow> keys_step db db'"
    by (auto simp: result_db_ok)
  show "pool_exec env (RegisterDeviceWithCredential secret d) db = Inr db' \<Longrightarrow> keys_step db db'"
    using reg
    by (auto simp: result_db_ok register_device_with_generated_credential_def Let_def bindR_eq_Inr)
qed (auto simp: result_db_ok keys_step_def sql_update_keys dest!: rotateD set_device_statusD heartbeatD)

lemma exec_keys_records:
  "pool_exec env (RegisterActor actor) db = Inr db' \<Longrightarrow> keys_step db db'"
  "pool_exec env (RegisterProfile profile) db = Inr db' \<Longrightarrow> keys_step db db'"
  "pool_exec env (SetProfileStatus p pstatus) db = Inr db' \<Longrightarrow> keys_step db db'"
  "pool_exec env (RegisterStore store) db = Inr db' \<Longrightarrow> keys_step db db'"
  "pool_exec env (SetStoreStatus s sstatus) db = Inr db' \<Longrightarrow> keys_step db db'"
  "pool_exec env (GrantAccess grant) db = Inr db' \<Longrightarrow> keys_step db db'"
  "pool_exec env (RevokeAccess g t) db = Inr db' \<Longrightarrow> keys_step db db'"
  "pool_exec env (BindProfile binding) db = Inr db' \<Longrightarrow> keys_step db db'"
  "pool_exec env (RevokeBinding b t) db = Inr db' \<Longrightarrow> keys_step db db'"
  "pool_exec env (SubmitInsert e) db = Inr db' \<Longrightarrow> keys_step db db'"
  "pool_exec env (LogAudit i d a endpoint m outcome detail) db = Inr db' \<Longrightarrow> keys_step db db'"
  by (auto simp: result_db_ok keys_step_def get_None row_by_None submit_insert_ok sql_update_keys
      dest!: effectD bind_profileD revoke_bindingD audit_ok)

lemmas exec_keys_rules = exec_keys_devices exec_keys_records

lemma exec_keys: "pool_exec env operation db = Inr db' \<Longrightarrow> keys_step db db'"
  by (cases operation) (simp_all only: exec_keys_rules)

lemma reachable_keys: "pool_reachable c db \<Longrightarrow> keys_ok db"
proof (induction rule: pool_reachable.induct)
  case initial
  show ?case by (simp add: keys_ok_def empty_db_def)
next
  case step
  then show ?case using exec_keys keys_step_ok by blast
next
  case observe
  then show ?case using statistics_only_tables by (simp add: keys_ok_def)
qed

section \<open>The shard catalog mirrors the device registry\<close>

definition shards_mirror :: "pool_db \<Rightarrow> bool" where
  "shards_mirror db \<longleftrightarrow>
     map shard_identity (db_shards db) =
     map (\<lambda>d. (dev_device_id d, shard_relative_path (dev_device_id d),
                shard_state_from_device (dev_status d))) (db_devices db)"

lemma mirror_sets:
  assumes "shards_mirror db"
  shows "shr_device_id ` set (db_shards db) = dev_device_id ` set (db_devices db)"
    "shr_relative_path ` set (db_shards db) = (\<lambda>d. shard_relative_path (dev_device_id d)) ` set (db_devices db)"
proof -
  have "map fst (map shard_identity (db_shards db)) =
      map dev_device_id (db_devices db)"
    "map (fst \<circ> snd) (map shard_identity (db_shards db)) =
      map (\<lambda>d. shard_relative_path (dev_device_id d)) (db_devices db)"
    using assms by (simp_all add: shards_mirror_def)
  then have "map shr_device_id (db_shards db) = map dev_device_id (db_devices db)"
    "map shr_relative_path (db_shards db) = map (\<lambda>d. shard_relative_path (dev_device_id d)) (db_devices db)"
    by (simp_all add: o_def shard_identity_def)
  then show "shr_device_id ` set (db_shards db) = dev_device_id ` set (db_devices db)"
    "shr_relative_path ` set (db_shards db) = (\<lambda>d. shard_relative_path (dev_device_id d)) ` set (db_devices db)"
    by (metis set_map)+
qed

lemma shard_relative_path_inj: "shard_relative_path a = shard_relative_path b \<longleftrightarrow> a = b"
  by (auto simp: shard_relative_path_def intro: DeviceId.expand)

lemma insert_device_mirror:
  assumes "shards_mirror db" "get_device (dev_device_id dev) db = None"
    and "db_devices db1 = db_devices db @ [dev]" "db_shards db1 = db_shards db"
    and "insert_device_shard_row env (dev_device_id dev) (dev_status dev) t db1 = Inr db'"
  shows "shards_mirror db'"
proof -
  have "dev_device_id dev \<notin> shr_device_id ` set (db_shards db1)"
    "shard_relative_path (dev_device_id dev) \<notin> shr_relative_path ` set (db_shards db1)"
    using assms(2) mirror_sets [OF assms(1)]
    by (auto simp: assms(4) get_None shard_relative_path_inj)
  then obtain row where "db' = db1\<lparr>db_shards := db_shards db @ [row]\<rparr>"
    "shr_device_id row = dev_device_id dev"
    "shr_relative_path row = shard_relative_path (dev_device_id dev)"
    "shr_state row = shard_state_from_device (dev_status dev)"
    using assms(4,5)
    by (auto simp: insert_device_shard_row_def Let_def has_key_iff bindR_eq_Inr sql_insert_ok
        split: if_splits)
  then show ?thesis
    using assms(1,3) by (simp add: shards_mirror_def shard_identity_def)
qed

lemma update_mirror:
  assumes "shards_mirror db"
    and "\<And>d. dev_device_id (f d) = dev_device_id d" "\<And>d. dev_status (f d) = dev_status d"
  shows "shards_mirror (db\<lparr>db_devices := snd (sql_update p f (db_devices db))\<rparr>)"
proof -
  have "map (\<lambda>d. (dev_device_id d, shard_relative_path (dev_device_id d),
        shard_state_from_device (dev_status d))) (snd (sql_update p f (db_devices db))) =
     map (\<lambda>d. (dev_device_id d, shard_relative_path (dev_device_id d),
        shard_state_from_device (dev_status d))) (db_devices db)"
    by (simp add: sql_update_def assms(2,3))
  with assms(1) show ?thesis by (simp add: shards_mirror_def)
qed

lemma status_mirror:
  assumes "shards_mirror db"
  shows "shards_mirror (db\<lparr>db_devices := snd (sql_update (\<lambda>d. dev_device_id d = i)
         (\<lambda>d. d\<lparr>dev_last_seen_at := t, dev_status := status\<rparr>) (db_devices db)),
       db_shards := snd (sql_update (\<lambda>s. shr_device_id s = i)
         (\<lambda>s. s\<lparr>shr_state := shard_state_from_device status\<rparr>) (db_shards db))\<rparr>)"
proof -
  let ?g = "\<lambda>(j, path, state). (j, path, if j = i then shard_state_from_device status else state)"
  have "map ?g (map shard_identity (db_shards db)) =
      map ?g (map (\<lambda>d. (dev_device_id d, shard_relative_path (dev_device_id d),
        shard_state_from_device (dev_status d))) (db_devices db))"
    using assms by (simp only: shards_mirror_def)
  then show ?thesis
    by (simp add: shards_mirror_def sql_update_def o_def shard_identity_def if_distrib [of shr_state]
        if_distrib [of shr_device_id] if_distrib [of shr_relative_path]
        if_distrib [of dev_device_id] if_distrib [of dev_status] cong: if_cong)
qed

lemma same_mirror:
  "shards_mirror db \<Longrightarrow> db_devices db' = db_devices db \<Longrightarrow> db_shards db' = db_shards db \<Longrightarrow>
   shards_mirror db'"
  by (simp add: shards_mirror_def)

lemma exec_mirror_devices:
  assumes "shards_mirror db"
  shows "pool_exec env (Bootstrap a secret d k) db = Inr db' \<Longrightarrow> shards_mirror db'"
    "pool_exec env (RegisterDevice d) db = Inr db' \<Longrightarrow> shards_mirror db'"
    "pool_exec env (RegisterDeviceWithCredential secret d) db = Inr db' \<Longrightarrow> shards_mirror db'"
    "pool_exec env (RotateCredential secret i) db = Inr db' \<Longrightarrow> shards_mirror db'"
    "pool_exec env (SetDeviceStatus i status) db = Inr db' \<Longrightarrow> shards_mirror db'"
    "pool_exec env (HeartbeatDevice i) db = Inr db' \<Longrightarrow> shards_mirror db'"
proof -
  show "shards_mirror db'" if exec: "pool_exec env (Bootstrap a secret d k) db = Inr db'"
  proof -
    obtain x where "bootstrap env a secret d k db = Inr (x, db')"
      using exec unfolding pool_exec.simps result_db_ok by blast
    from bootstrapD [OF this] obtain dev actor where b: "db_devices db = []"
      "insert_device_shard_row env (dev_device_id dev) (dev_status dev) (pe_now env)
         (db\<lparr>db_devices := [dev], db_actors := db_actors db @ [actor]\<rparr>) = Inr db'"
      by blast
    show ?thesis
      by (rule insert_device_mirror [OF assms _ _ _ b(2)]) (simp_all add: get_None b(1))
  qed
  have reg: "shards_mirror db'" if r: "register_device env d db = Inr (x, db')" for d x
  proof -
    obtain dev where dev: "get_device (dev_device_id dev) db = None"
      "insert_device_shard_row env (dev_device_id dev) (dev_status dev) (pe_now env)
         (db\<lparr>db_devices := db_devices db @ [dev]\<rparr>) = Inr db'"
      using register_deviceD [OF r] by blast
    show ?thesis
      by (rule insert_device_mirror [OF assms dev(1) _ _ dev(2)]) simp_all
  qed
  then show "pool_exec env (RegisterDevice d) db = Inr db' \<Longrightarrow> shards_mirror db'"
    by (auto simp: result_db_ok)
  show "pool_exec env (RegisterDeviceWithCredential secret d) db = Inr db' \<Longrightarrow> shards_mirror db'"
    using reg
    by (auto simp: result_db_ok register_device_with_generated_credential_def Let_def bindR_eq_Inr)
  show "pool_exec env (RotateCredential secret i) db = Inr db' \<Longrightarrow> shards_mirror db'"
    using update_mirror [OF assms] by (auto simp: result_db_ok dest!: rotateD)
  show "pool_exec env (SetDeviceStatus i status) db = Inr db' \<Longrightarrow> shards_mirror db'"
    using status_mirror [OF assms] by (auto simp: result_db_ok dest!: set_device_statusD)
  show "pool_exec env (HeartbeatDevice i) db = Inr db' \<Longrightarrow> shards_mirror db'"
    using update_mirror [OF assms] by (auto simp: result_db_ok dest!: heartbeatD)
qed

lemma exec_mirror_records:
  assumes "shards_mirror db"
  shows "pool_exec env (RegisterActor actor) db = Inr db' \<Longrightarrow> shards_mirror db'"
    "pool_exec env (RegisterProfile profile) db = Inr db' \<Longrightarrow> shards_mirror db'"
    "pool_exec env (SetProfileStatus p pstatus) db = Inr db' \<Longrightarrow> shards_mirror db'"
    "pool_exec env (RegisterStore store) db = Inr db' \<Longrightarrow> shards_mirror db'"
    "pool_exec env (SetStoreStatus s sstatus) db = Inr db' \<Longrightarrow> shards_mirror db'"
    "pool_exec env (GrantAccess grant) db = Inr db' \<Longrightarrow> shards_mirror db'"
    "pool_exec env (RevokeAccess g t) db = Inr db' \<Longrightarrow> shards_mirror db'"
    "pool_exec env (BindProfile binding) db = Inr db' \<Longrightarrow> shards_mirror db'"
    "pool_exec env (RevokeBinding b t) db = Inr db' \<Longrightarrow> shards_mirror db'"
    "pool_exec env (SubmitInsert e) db = Inr db' \<Longrightarrow> shards_mirror db'"
    "pool_exec env (LogAudit i d a endpoint m outcome detail) db = Inr db' \<Longrightarrow> shards_mirror db'"
  by (auto simp: result_db_ok submit_insert_ok intro!: same_mirror [OF assms]
      dest!: effectD bind_profileD revoke_bindingD audit_ok)

lemmas exec_mirror_rules = exec_mirror_devices exec_mirror_records

lemma exec_mirror:
  "shards_mirror db \<Longrightarrow> pool_exec env operation db = Inr db' \<Longrightarrow> shards_mirror db'"
  by (cases operation) (hypsubst, erule (1) exec_mirror_rules)+

lemma reachable_mirror: "pool_reachable c db \<Longrightarrow> shards_mirror db"
proof (induction rule: pool_reachable.induct)
  case initial
  show ?case by (simp add: shards_mirror_def empty_db_def)
next
  case step
  then show ?case using exec_mirror by blast
next
  case observe
  then show ?case using statistics_only_tables by (simp add: shards_mirror_def)
qed

section \<open>Bindings are intact, attached and disjoint\<close>

definition binding_wf :: "crypto \<Rightarrow> pool_db \<Rightarrow> ActorProfileBinding \<Rightarrow> bool" where
  "binding_wf c db b \<longleftrightarrow>
     binding_validate c b = Inr () \<and>
     i64_try_from_u64 (pb_valid_from b) \<noteq> None \<and> i64_try_from_u64 (pb_expires_at b) \<noteq> None \<and>
     (\<exists>a. get_actor (pb_actor_id b) db = Some a \<and> act_device_id a = pb_owner_device_id b) \<and>
     (\<exists>p. get_profile (pb_profile_id b) db = Some p \<and> mp_owner_device_id p = pb_owner_device_id b) \<and>
     get_device (pb_owner_device_id b) db \<noteq> None"

definition overlapping :: "ActorProfileBinding \<Rightarrow> ActorProfileBinding \<Rightarrow> bool" where
  "overlapping a b \<longleftrightarrow> pb_actor_id a = pb_actor_id b \<and> pb_revoked_at a = None \<and>
     pb_revoked_at b = None \<and> pb_valid_from a < pb_expires_at b \<and> pb_valid_from b < pb_expires_at a"

definition bindings_disjoint :: "ActorProfileBinding list \<Rightarrow> bool" where
  "bindings_disjoint bs \<longleftrightarrow>
     (\<forall>a \<in> set bs. \<forall>b \<in> set bs. pb_binding_id a \<noteq> pb_binding_id b \<longrightarrow> \<not> overlapping a b)"

lemma overlapping_sym: "overlapping a b \<longleftrightarrow> overlapping b a"
  by (auto simp: overlapping_def)

lemma binding_wf_history:
  assumes "binding_wf c db b" "db_history db db'"
  shows "binding_wf c db' b"
proof -
  have "\<exists>y. get_device i db' = Some y" if "get_device i db = Some x" for i x
    using assms(2) that device_history.lookup unfolding db_history_def get_device_def by blast
  moreover have "get_actor a db' = Some x" if "get_actor a db = Some x" for a x
    using assms(2) that actor_history.lookup unfolding db_history_def get_actor_def by blast
  moreover have "\<exists>y. get_profile p db' = Some y \<and> mp_owner_device_id y = mp_owner_device_id x"
    if q: "get_profile p db = Some x" for p x
  proof -
    obtain y where "get_profile p db' = Some y" "profile_le x y"
      using profile_history.lookup [OF _ q [unfolded get_profile_def]] assms(2)
      by (auto simp: db_history_def get_profile_def)
    then show ?thesis by (cases x; cases y) (simp add: profile_le_def)
  qed
  ultimately show ?thesis
    using assms(1) unfolding binding_wf_def by (metis not_None_eq)
qed

lemma exec_bindings:
  assumes "pool_exec env operation db = Inr db'"
  shows "db_bindings db' = db_bindings db \<or>
     (\<exists>binding x. bind_actor_profile env binding db = Inr (x, db')) \<or>
     (\<exists>i t x. revoke_actor_profile_binding env i t db = Inr (x, db'))"
proof (cases operation)
  case (Bootstrap a secret d k)
  then show ?thesis using assms by (auto simp: result_db_ok dest!: bootstrapD shard_row_tables)
next
  case (RegisterDevice d)
  then show ?thesis using assms by (auto simp: result_db_ok dest!: register_deviceD shard_row_tables)
next
  case (RegisterDeviceWithCredential secret d)
  then show ?thesis using assms
    by (auto simp: result_db_ok register_device_with_generated_credential_def Let_def bindR_eq_Inr
        dest!: register_deviceD shard_row_tables)
qed (use assms in \<open>auto simp: result_db_ok submit_insert_ok dest!: set_device_statusD effectD audit_ok\<close>)

lemma i64_word_less:
  assumes "i64_try_from_u64 a \<noteq> None"
  shows "u64_as_i64 a = int (unat a)"
  using assms u64_try_as_i64 by blast

lemma bind_wf:
  assumes "bind_actor_profile env binding db = Inr (x, db')"
    and wf: "\<forall>b \<in> set (db_bindings db). binding_wf c db b"
    and disj: "bindings_disjoint (db_bindings db)" and "pe_crypto env = c"
  shows "(\<forall>b \<in> set (db_bindings db'). binding_wf c db' b) \<and> bindings_disjoint (db_bindings db')"
proof -
  obtain b a p i e where B: "db' = db\<lparr>db_bindings := db_bindings db @ [b]\<rparr>"
    "binding_validate (pe_crypto env) b = Inr ()" "pb_revoked_at b = None"
    "i64_try_from_u64 (pb_valid_from b) = Some i" "i64_try_from_u64 (pb_expires_at b) = Some e"
    "get_actor (pb_actor_id b) db = Some a" "act_device_id a = pb_owner_device_id b"
    "get_device (act_device_id a) db \<noteq> None"
    "get_profile (pb_profile_id b) db = Some p" "mp_owner_device_id p = pb_owner_device_id b"
    "\<not> overlap_exists (pb_actor_id b) i e db"
    using bind_profileD [OF assms(1)] by blast
  have hist: "db_history db db'"
    unfolding B(1) by (rule account_history [where ops = UNIV]) (intro db_account_tables binding_account.append)
  have new: "binding_wf c db b"
    using B assms(4) by (simp add: binding_wf_def)
  have no: "\<not> overlapping x b" if x: "x \<in> set (db_bindings db)" for x
  proof
    assume o: "overlapping x b"
    have "u64_as_i64 (pb_valid_from x) = int (unat (pb_valid_from x))"
      "u64_as_i64 (pb_expires_at x) = int (unat (pb_expires_at x))"
      using wf x i64_word_less by (auto simp: binding_wf_def)
    moreover have "i = int (unat (pb_valid_from b))" "e = int (unat (pb_expires_at b))"
      using B(4,5) u64_try_as_i64 by blast+
    ultimately have "overlap_exists (pb_actor_id b) i e db"
      using o x unfolding overlap_exists_def list_ex_iff overlapping_def word_less_def
      by (intro bexI [of _ x]) simp_all
    with B(11) show False by simp
  qed
  have "bindings_disjoint (db_bindings db')"
    using disj no overlapping_sym by (auto simp: bindings_disjoint_def B(1))
  moreover have "\<forall>b \<in> set (db_bindings db'). binding_wf c db' b"
    using wf new binding_wf_history [OF _ hist] by (auto simp: B(1))
  ultimately show ?thesis by blast
qed

lemma revoke_wf:
  assumes "revoke_actor_profile_binding env i t db = Inr (x, db')"
    and wf: "\<forall>b \<in> set (db_bindings db). binding_wf c db b"
    and disj: "bindings_disjoint (db_bindings db)"
  shows "(\<forall>b \<in> set (db_bindings db'). binding_wf c db' b) \<and> bindings_disjoint (db_bindings db')"
proof -
  let ?p = "\<lambda>b. pb_binding_id b = i \<and> pb_revoked_at b = None"
  let ?f = "\<lambda>b. if ?p b then b\<lparr>pb_revoked_at := Some t\<rparr> else b"
  obtain r where db': "db' = db\<lparr>db_bindings := map ?f (db_bindings db)\<rparr>"
    and r: "i64_try_from_u64 t = Some r"
    and le: "\<forall>b \<in> set (db_bindings db). pb_binding_id b = i \<longrightarrow> pb_revoked_at b = None \<longrightarrow>
        u64_as_i64 (pb_valid_from b) \<le> r"
    using revoke_bindingD [OF assms(1)] by (auto simp: sql_update_def)
  have one: "binding_wf c db' (?f b)" if b: "b \<in> set (db_bindings db)" for b
  proof -
    have w: "binding_wf c db b" using wf b by blast
    have "binding_validate c (?f b) = Inr ()"
    proof (cases "?p b")
      case True
      have "int (unat (pb_valid_from b)) \<le> r"
        using le b True w i64_word_less by (auto simp: binding_wf_def)
      then have "\<not> t < pb_valid_from b"
        using u64_try_as_i64 [OF r] by (simp add: word_less_def)
      then show ?thesis
        using w True
        by (auto simp: binding_wf_def binding_validate_def result_simps binding_expected_digest_def
            binding_fields_def)
    next
      case False
      then have "?f b = b" by (rule if_not_P)
      then show ?thesis using w by (simp only: binding_wf_def)
    qed
    then show ?thesis
      using w by (auto simp: binding_wf_def db' get_actor_def get_profile_def get_device_def)
  qed
  have "bindings_disjoint (db_bindings db')"
    unfolding bindings_disjoint_def
  proof (intro ballI impI)
    fix a b assume "a \<in> set (db_bindings db')" "b \<in> set (db_bindings db')"
      and ne: "pb_binding_id a \<noteq> pb_binding_id b"
    then obtain a0 b0 where ab: "a0 \<in> set (db_bindings db)" "b0 \<in> set (db_bindings db)"
      "a = ?f a0" "b = ?f b0" by (auto simp: db')
    have "pb_binding_id a0 \<noteq> pb_binding_id b0" using ne ab(3,4) by (auto split: if_splits)
    then have "\<not> overlapping a0 b0" using disj ab(1,2) by (auto simp: bindings_disjoint_def)
    then show "\<not> overlapping a b"
      using ab(3,4) by (auto simp: overlapping_def split: if_splits)
  qed
  moreover have set: "set (db_bindings db') = ?f ` set (db_bindings db)" by (simp add: db')
  have "\<forall>b \<in> set (db_bindings db'). binding_wf c db' b"
    unfolding set ball_simps by (intro ballI one)
  ultimately show ?thesis by blast
qed

lemma reachable_bindings:
  "pool_reachable c db \<Longrightarrow>
     (\<forall>b \<in> set (db_bindings db). binding_wf c db b) \<and> bindings_disjoint (db_bindings db)"
proof (induction rule: pool_reachable.induct)
  case initial
  show ?case by (simp add: bindings_disjoint_def empty_db_def)
next
  case (step db env operation db')
  from exec_bindings [OF step.hyps(3)] consider "db_bindings db' = db_bindings db"
    | binding x where "bind_actor_profile env binding db = Inr (x, db')"
    | i t x where "revoke_actor_profile_binding env i t db = Inr (x, db')" by blast
  then show ?case
  proof cases
    case 1
    then show ?thesis
      using step.IH binding_wf_history exec_history [OF step.hyps(3)] by auto
  next
    case 2
    from bind_wf [OF this] step.IH step.hyps(2) show ?thesis by blast
  next
    case 3
    from revoke_wf [OF this] step.IH show ?thesis by blast
  qed
next
  case (observe db db')
  then show ?case
    using statistics_only_tables [OF observe.hyps(2)] binding_wf_history db_history_statistics by auto
qed

section \<open>Decisions on reachable databases\<close>

text \<open>
  Every database that the control plane can reach, through any interleaving of operations,
  has unique identities in all tables; its shard catalog lists exactly the registered devices, in
  order, with the canonical path and the state that belongs to the device status; every binding
  passes its digest check, belongs to a registered actor and profile of its owner device, and no
  two unrevoked bindings of one actor overlap.
\<close>

theorem reachable_pool_invariant:
  assumes "pool_reachable c db"
  shows "keys_ok db \<and> shards_mirror db \<and> list_all (binding_wf c db) (db_bindings db) \<and>
     bindings_disjoint (db_bindings db)"
  using reachable_keys [OF assms] reachable_mirror [OF assms] reachable_bindings [OF assms]
  by (simp add: list_all_iff)

lemma example_bootstrap:
  "\<exists>x db. bootstrap example_pool_env (ActorId ''a1'') ''s1'' (device_new (DeviceId ''d1'') [] [] [])
      Human empty_db = Inr (x, db) \<and> pool_reachable toy_crypto db \<and> length (db_devices db) = 1"
proof -
  obtain x db where b: "bootstrap example_pool_env (ActorId ''a1'') ''s1''
      (device_new (DeviceId ''d1'') [] [] []) Human empty_db = Inr (x, db)" "length (db_devices db) = 1"
    by (simp add: bootstrap_def bootstrap_with_tx_def create_shard_dir_def example_pool_env_def
        insert_device_def insert_keyed_def insert_actor_def sql_insert_def empty_db_def has_key_def
        insert_device_shard_row_def device_new_def Let_def)
  have "pool_exec example_pool_env (Bootstrap (ActorId ''a1'') ''s1''
      (device_new (DeviceId ''d1'') [] [] []) Human) empty_db = Inr db"
    by (simp add: b(1) result_db_def)
  then have "pool_reachable toy_crypto db"
    by (rule pool_reachable.step [OF pool_reachable.initial, rotated])
      (simp add: example_pool_env_def)
  with b show ?thesis by blast
qed

theorem reachable_pool_invariant_witness:
  "\<exists>db. pool_reachable toy_crypto db \<and> length (db_devices db) = 1 \<and> shards_mirror db"
  using example_bootstrap reachable_pool_invariant by blast

lemma active_binding_iff:
  assumes "binding_wf c db b" "i64_try_from_u64 at = Some i"
  shows "u64_as_i64 (pb_valid_from b) \<le> i \<and> i < u64_as_i64 (pb_expires_at b) \<longleftrightarrow>
     pb_valid_from b \<le> at \<and> at < pb_expires_at b"
proof -
  have "u64_as_i64 (pb_valid_from b) = int (unat (pb_valid_from b))"
    "u64_as_i64 (pb_expires_at b) = int (unat (pb_expires_at b))"
    using assms(1) i64_word_less by (auto simp: binding_wf_def)
  moreover have "i = int (unat at)" using u64_try_as_i64 [OF assms(2)] by blast
  ultimately show ?thesis by (simp add: word_less_def word_le_def)
qed

lemma reachable_active_bindings:
  assumes "pool_reachable c db" "i64_try_from_u64 at = Some i"
  shows "length (active_bindings actor i db) \<le> 1"
    "b \<in> set (active_bindings actor i db) \<longleftrightarrow>
       b \<in> set (db_bindings db) \<and> pb_actor_id b = actor \<and> binding_is_active_at b at"
proof -
  have wf: "\<forall>b \<in> set (db_bindings db). binding_wf c db b" "bindings_disjoint (db_bindings db)"
    using reachable_bindings [OF assms(1)] by blast+
  show mem: "b \<in> set (active_bindings actor i db) \<longleftrightarrow>
       b \<in> set (db_bindings db) \<and> pb_actor_id b = actor \<and> binding_is_active_at b at" for b
    using active_binding_iff [OF _ assms(2), of c db b] wf(1)
    by (auto simp: active_bindings_def binding_is_active_at_def)
  have "distinct (map pb_binding_id (active_bindings actor i db))"
    using reachable_keys [OF assms(1)]
    by (simp add: active_bindings_def keys_ok_def distinct_map_filter)
  then have dist: "distinct (active_bindings actor i db)"
    and inj: "inj_on pb_binding_id (set (active_bindings actor i db))"
    by (auto simp: distinct_map)
  have "x = y" if xy: "x \<in> set (active_bindings actor i db)" "y \<in> set (active_bindings actor i db)" for x y
  proof (rule ccontr)
    assume "x \<noteq> y"
    then have "pb_binding_id x \<noteq> pb_binding_id y" using inj xy by (auto dest: inj_onD)
    moreover have "overlapping x y"
      using xy mem by (auto simp: overlapping_def binding_is_active_at_def)
    ultimately show False using wf(2) xy mem unfolding bindings_disjoint_def by blast
  qed
  then show "length (active_bindings actor i db) \<le> 1"
    using dist by (metis card_le_Suc0_iff_eq distinct_card finite_set One_nat_def)
qed

lemma join_binding_wf:
  assumes "binding_wf c db b"
  shows "\<exists>a ad p pd. join_binding db b = Some (b, a, ad, p, pd) \<and>
     act_device_id a = pb_owner_device_id b \<and> get_profile (pb_profile_id b) db = Some p \<and>
     mp_owner_device_id p = pb_owner_device_id b \<and>
     get_device (pb_owner_device_id b) db = Some ad \<and> pd = ad"
  using assms unfolding binding_wf_def join_binding_def by fastforce

text \<open>
  Resolution is unambiguous: in every reachable database an actor resolves to a binding
  exactly when that binding is recorded for it, unrevoked and in its window, and its device and
  profile are active; so the refusal for several active bindings never occurs.
\<close>

theorem resolve_actor_profile_unique:
  assumes "pool_reachable c db"
  shows "(resolve_actor_profile c actor at db = Inr b \<longleftrightarrow>
       b \<in> set (db_bindings db) \<and> pb_actor_id b = actor \<and> binding_is_active_at b at \<and>
       device_active (pb_owner_device_id b) db \<and>
       map_option mp_status (get_profile (pb_profile_id b) db) = Some ProfileActive) \<and>
     resolve_actor_profile c actor at db \<noteq>
       Inl (ActorProfileBindingDenied ''multiple active bindings exist for this actor'')"
proof (cases "i64_try_from_u64 at")
  case None
  have "\<not> binding_is_active_at b at" if b: "b \<in> set (db_bindings db)" for b
  proof
    assume "binding_is_active_at b at"
    moreover obtain e where "i64_try_from_u64 (pb_expires_at b) = Some e"
      using b reachable_bindings [OF assms] by (auto simp: binding_wf_def)
    ultimately show False
      using None by (auto simp: binding_is_active_at_def i64_try_from_u64_def word_less_def
          split: if_splits)
  qed
  with None show ?thesis by (auto simp: resolve_actor_profile_def)
next
  case (Some i)
  note act = reachable_active_bindings [OF assms Some]
  have wf: "\<forall>b \<in> set (db_bindings db). binding_wf c db b"
    using reachable_bindings [OF assms] by blast
  show ?thesis
  proof (cases "active_bindings actor i db")
    case Nil
    then show ?thesis
      using Some act(2) [of b actor] by (auto simp: resolve_actor_profile_def map_filter_simps)
  next
    case (Cons x xs)
    then have one: "active_bindings actor i db = [x]" using act(1) [of actor] by simp
    then have x: "x \<in> set (db_bindings db)" using act(2) [of x actor] by simp
    obtain a ad p where j: "join_binding db x = Some (x, a, ad, p, ad)"
      "act_device_id a = pb_owner_device_id x" "get_profile (pb_profile_id x) db = Some p"
      "mp_owner_device_id p = pb_owner_device_id x" "get_device (pb_owner_device_id x) db = Some ad"
      using join_binding_wf wf x by blast
    have "binding_validate c x = Inr ()" using wf x by (simp add: binding_wf_def)
    then have "resolve_actor_profile c actor at db =
        (if dev_status ad \<noteq> DevActive \<or> mp_status p \<noteq> ProfileActive
         then Inl (ActorProfileBindingDenied
           ''binding actor, profile, and owner-device lifecycle relation is invalid'') else Inr x)"
      by (simp add: resolve_actor_profile_def Some one map_filter_simps j)
    moreover have "b \<in> set (db_bindings db) \<and> pb_actor_id b = actor \<and> binding_is_active_at b at \<longleftrightarrow>
        b = x"
      using act(2) [of b actor] by (simp add: one)
    ultimately show ?thesis using j by (auto simp: device_active_def)
  qed
qed

theorem resolve_actor_profile_unique_witness:
  "\<exists>db. pool_reachable toy_crypto db \<and> length (db_devices db) = 1 \<and>
     resolve_actor_profile toy_crypto (ActorId ''a1'') 15 db \<noteq>
       Inl (ActorProfileBindingDenied ''multiple active bindings exist for this actor'')"
  using example_bootstrap resolve_actor_profile_unique by blast

section \<open>Revocation and bootstrap over time\<close>

lemma revoked_grant_stays:
  assumes "g \<in> set (db_grants db)" "gr_revoked_at g \<noteq> None" "db_history db db'"
  shows "g \<in> set (db_grants db')"
proof -
  have "history grant_le (db_grants db) (db_grants db')"
    using assms(3) by (simp add: db_history_def)
  from grant_history.member [OF this assms(1)] obtain g' where "g' \<in> set (db_grants db')" "grant_le g g'"
    by blast
  with assms(2) show ?thesis by (auto simp: grant_le_def)
qed

lemma revoke_marks:
  assumes "revoke_memory_access env i t db = Inr (x, db1)"
  shows "\<exists>g \<in> set (db_grants db1). gr_grant_id g = i \<and> gr_revoked_at g \<noteq> None"
proof -
  let ?p = "\<lambda>g. gr_grant_id g = i \<and> gr_revoked_at g = None"
  have db1: "db1 = db\<lparr>db_grants := snd (sql_update ?p (\<lambda>g. g\<lparr>gr_revoked_at := Some t\<rparr>) (db_grants db))\<rparr>"
    and "fst (sql_update ?p (\<lambda>g. g\<lparr>gr_revoked_at := Some t\<rparr>) (db_grants db)) \<noteq> 0"
    using assms by (auto simp: revoke_memory_access_def Let_def split_beta split: if_splits)
  then obtain g where g: "g \<in> set (db_grants db)" "?p g"
    unfolding update_count by blast
  then have "g\<lparr>gr_revoked_at := Some t\<rparr> \<in> set (db_grants db1)"
    by (simp add: db1 set_update rev_image_eqI [of g])
  with g show ?thesis by (intro bexI [of _ "g\<lparr>gr_revoked_at := Some t\<rparr>"]) simp_all
qed

text \<open>
  Revocation is final: once a grant is revoked, no authorization snapshot built at any later
  moment, for any actor, effect, namespaces and time and whatever happened in between, lists that
  grant for a store, and the grant never allows an access.
\<close>

theorem revoked_grant_never_returns:
  assumes "pool_reachable c db" "pe_crypto env = c"
    and "revoke_memory_access env i t db = Inr ((), db1)"
    and "list_all (\<lambda>x. pe_crypto (fst x) = c) ops"
  shows "list_all (\<lambda>g. \<not> (gr_grant_id g = i \<and> grant_allows g e n at'))
       (db_grants (pool_run ops db1)) \<and>
     (case build_authorization_snapshot c fresh actor effect namespaces at (pool_run ops db1) of
        Inl _ \<Rightarrow> True
      | Inr snapshot \<Rightarrow>
          list_all (\<lambda>st. i \<notin> set (as_grant_ids st)) (sn_authorized_stores snapshot))"
proof -
  let ?db = "pool_run ops db1"
  have "pool_exec env (RevokeAccess i t) db = Inr db1"
    by (simp add: assms(3) result_db_def)
  then have "pool_reachable c db1"
    using assms(1,2) pool_reachable.step by blast
  then have reach: "pool_reachable c ?db" using reachable_run assms(4) by blast
  obtain g0 where g0: "g0 \<in> set (db_grants db1)" "gr_grant_id g0 = i" "gr_revoked_at g0 \<noteq> None"
    using revoke_marks [OF assms(3)] by blast
  then have "g0 \<in> set (db_grants ?db)"
    using revoked_grant_stays run_history by blast
  moreover have "distinct (map gr_grant_id (db_grants ?db))"
    using reachable_keys [OF reach] by (simp add: keys_ok_def)
  ultimately have only: "g = g0" if "g \<in> set (db_grants ?db)" "gr_grant_id g = i" for g
    using that g0(2) by (metis row_by_distinct option.inject)
  have denied: "\<not> grant_allows g e n at'" if "g \<in> set (db_grants ?db)" "gr_grant_id g = i" for g e n at'
    using only [OF that] g0(3) by (simp add: grant_allows_def)
  have "i \<notin> set (as_grant_ids st)"
    if build: "build_authorization_snapshot c fresh actor effect namespaces at ?db = Inr snapshot"
      and mem: "st \<in> set (sn_authorized_stores snapshot)" for snapshot st
  proof -
    obtain b ns where "snapshot = snapshot_new c fresh b effect ns
        (List.map_filter (authorize_store b effect ns at ?db) (candidate_stores ?db)) at"
      and res: "resolve_actor_profile c actor at ?db = Inr b"
      using build by (auto simp: build_authorization_snapshot_def bindR_eq_Inr Let_def)
    then obtain st0 s where st: "st = normalize_store st0"
      "authorize_store b effect ns at ?db s = Some st0"
      using mem by (auto simp: snapshot_new_def Let_def set_map_filter_iff)
    obtain k where "i64_try_from_u64 at = Some k" "b \<in> set (active_bindings actor k ?db)"
      using resolve_okD [OF res] by blast
    then have "at < pb_expires_at b" using active_bindingsD by blast
    from authorize_storeD [OF st(2) this] have "set (as_grant_ids st0) = gr_grant_id `
        {g \<in> set (db_grants ?db). gr_grantee_profile_id g = pb_profile_id b \<and>
          gr_store_id g = ms_store_id s \<and> grant_allows g effect (ms_namespace s) at}" by blast
    moreover have "set (as_grant_ids st) = set (as_grant_ids st0)"
      by (simp add: st(1) normalize_store_def)
    ultimately show ?thesis using denied by auto
  qed
  with denied show ?thesis by (auto simp: list_all_iff split: sum.splits)
qed

text \<open>A registry whose operator grants an access between two profiles and takes it back.\<close>

definition example_grant :: MemoryAccessGrant where
  "example_grant = \<lparr> gr_grant_id = MemoryGrantId ''g1'',
     gr_grantee_profile_id = MemoryProfileId ''q'', gr_store_id = ''s1'', gr_namespace = ''ns'',
     gr_effect = Read, gr_issued_by_actor_id = ActorId ''a1'', gr_valid_from = 10,
     gr_expires_at = 20, gr_revoked_at = None, gr_created_at = [] \<rparr>"

definition example_profile :: "string \<Rightarrow> MemoryProfile" where
  "example_profile name = \<lparr> mp_profile_id = MemoryProfileId name,
     mp_owner_device_id = DeviceId ''d'', mp_label = name, mp_status = ProfileActive,
     mp_created_at = [] \<rparr>"

lemma example_profile_fields [simp]:
  "mp_profile_id (example_profile name) = MemoryProfileId name"
  "mp_owner_device_id (example_profile name) = DeviceId ''d''"
  "mp_status (example_profile name) = ProfileActive"
  by (simp_all add: example_profile_def)

definition example_ops :: "pool_op list" where
  "example_ops =
     [Bootstrap (ActorId ''a1'') ''k'' (device_new (DeviceId ''d'') [] [] []) Human,
      RegisterProfile (example_profile ''p''), RegisterProfile (example_profile ''q''),
      RegisterStore example_store, GrantAccess example_grant]"

definition example_granted :: pool_db where
  "example_granted = pool_run (map (Pair example_pool_env) example_ops) empty_db"

lemma example_validations:
  "memory_profile_validate (example_profile ''p'') = Inr ()"
  "memory_profile_validate (example_profile ''q'') = Inr ()"
  "grant_validate example_grant = Inr ()"
  by (simp_all add: memory_profile_validate_def grant_validate_def example_profile_def
      example_grant_def validate_field_text_def PROFILE_MAX_ID_BYTES_def MAX_LABEL_BYTES_def)

lemma example_granted_grants:
  "db_grants example_granted = [example_grant\<lparr>gr_created_at := pe_now example_pool_env\<rparr>]"
proof -
  obtain x db dev act where b: "bootstrap example_pool_env (ActorId ''a1'') ''k''
      (device_new (DeviceId ''d'') [] [] []) Human empty_db = Inr (x, db)"
    and dev: "db_devices db = [dev]" "dev_device_id dev = DeviceId ''d''" "dev_status dev = DevActive"
    and act: "db_actors db = [act]" "act_actor_id act = ActorId ''a1''"
      "act_device_id act = DeviceId ''d''" "act_tool_profile act = Operator"
    and rest: "db_profiles db = []" "db_stores db = []" "db_grants db = []"
    by (simp add: bootstrap_def bootstrap_with_tx_def create_shard_dir_def example_pool_env_def
        insert_device_def insert_keyed_def insert_actor_def sql_insert_def empty_db_def has_key_def
        insert_device_shard_row_def device_new_def Let_def actor_new_def)
  let ?stamp = "\<lambda>p. p\<lparr>mp_created_at := pe_now example_pool_env\<rparr>"
  let ?ps = "[?stamp (example_profile ''p''), ?stamp (example_profile ''q'')]"
  let ?st = "example_store\<lparr>ms_created_at := pe_now example_pool_env\<rparr>"
  note lookups = device_active_def get_device_def get_profile_def row_by_def has_key_def dev act rest
    sql_insert_def example_validations
  have p: "register_memory_profile example_pool_env (example_profile ''p'') db =
      Inr (MemoryProfileId ''p'', db\<lparr>db_profiles := [?stamp (example_profile ''p'')]\<rparr>)"
    by (simp add: register_memory_profile_def lookups)
  have q: "register_memory_profile example_pool_env (example_profile ''q'')
      (db\<lparr>db_profiles := [?stamp (example_profile ''p'')]\<rparr>) =
      Inr (MemoryProfileId ''q'', db\<lparr>db_profiles := ?ps\<rparr>)"
    by (simp add: register_memory_profile_def lookups)
  have st: "register_memory_store example_pool_env example_store (db\<lparr>db_profiles := ?ps\<rparr>) =
      Inr (''s1'', db\<lparr>db_profiles := ?ps, db_stores := [?st]\<rparr>)"
    using example_store_valid
    by (simp add: register_memory_store_def active_profile_owner_def lookups)
      (simp add: example_store_def)
  have "grant_memory_access example_pool_env example_grant (db\<lparr>db_profiles := ?ps, db_stores := [?st]\<rparr>) =
      Inr (MemoryGrantId ''g1'', db\<lparr>db_profiles := ?ps, db_stores := [?st],
        db_grants := [example_grant\<lparr>gr_created_at := pe_now example_pool_env\<rparr>]\<rparr>)"
    by (simp add: grant_memory_access_def issuer_is_operator_def get_actor_def grant_target_def
        get_store_def grant_grantee_def lookups)
      (simp add: example_store_def example_grant_def u64_as_i64_def)
  with b p q st show ?thesis
    by (simp add: example_granted_def example_ops_def result_db_def)
qed

theorem revoked_grant_never_returns_witness:
  "pool_reachable toy_crypto example_granted \<and>
   (\<exists>db1. revoke_memory_access example_pool_env (MemoryGrantId ''g1'') 15 example_granted =
        Inr ((), db1) \<and> length (db_grants db1) = 1 \<and>
      list_all (\<lambda>g. \<not> grant_allows g Read ''ns'' 16) (db_grants db1))"
proof -
  have env: "pe_crypto example_pool_env = toy_crypto" by (simp add: example_pool_env_def)
  have reach: "pool_reachable toy_crypto example_granted"
    unfolding example_granted_def
    by (rule reachable_run [OF pool_reachable.initial]) (simp add: env list_all_iff)
  obtain db1 where r: "revoke_memory_access example_pool_env (MemoryGrantId ''g1'') 15 example_granted =
      Inr ((), db1)"
    and g: "map gr_grant_id (db_grants db1) = [MemoryGrantId ''g1'']"
    by (simp add: revoke_memory_access_def example_granted_grants sql_update_def)
      (simp add: example_grant_def u64_as_i64_def)
  from revoked_grant_never_returns [OF reach env r, of "[]" Read "''ns''" 16]
  have "list_all (\<lambda>g. \<not> (gr_grant_id g = MemoryGrantId ''g1'' \<and> grant_allows g Read ''ns'' 16))
      (db_grants db1)" by simp
  with g have "length (db_grants db1) = 1 \<and>
      list_all (\<lambda>g. \<not> grant_allows g Read ''ns'' 16) (db_grants db1)"
    by (auto simp: map_eq_Cons_conv)
  with reach r show ?thesis by blast
qed

text \<open>
  A registry is bootstrapped once: a bootstrap succeeds only on a registry without devices,
  makes its actor an operator on the new device, and however the control plane goes on, no
  later bootstrap succeeds.
\<close>

theorem bootstrap_at_most_once:
  assumes "bootstrap env a secret device kind db = Inr (answer, db1)"
  shows "db_devices db = [] \<and>
     (\<exists>actor. db_actors db1 = db_actors db @ [actor] \<and> act_tool_profile actor = Operator \<and>
        get_device (act_device_id actor) db1 \<noteq> None) \<and>
     \<not> is_ok (bootstrap env' a' secret' device' kind' (pool_run ops db1))"
proof -
  obtain dev actor where B: "db_devices db = []" "act_device_id actor = dev_device_id dev"
    "act_tool_profile actor = Operator"
    "insert_device_shard_row env (dev_device_id dev) (dev_status dev) (pe_now env)
       (db\<lparr>db_devices := [dev], db_actors := db_actors db @ [actor]\<rparr>) = Inr db1"
    using bootstrapD [OF assms] by blast
  have tables: "db_devices db1 = [dev]" "db_actors db1 = db_actors db @ [actor]"
    using shard_row_tables [OF B(4)] by auto
  have "history device_le (db_devices db1) (db_devices (pool_run ops db1))"
    using run_history [of db1 ops] by (simp add: db_history_def)
  then have "db_devices (pool_run ops db1) \<noteq> []"
    by (auto simp: tables(1) history_def)
  then have "\<not> is_ok (bootstrap env' a' secret' device' kind' (pool_run ops db1))"
    by (auto simp: is_ok_iff bootstrap_def bindR_eq_Inr split: if_splits)
  with B tables show ?thesis by (auto simp: get_device_def row_by_def)
qed

theorem bootstrap_at_most_once_witness:
  "\<exists>db. db_devices db \<noteq> [] \<and>
     \<not> is_ok (bootstrap example_pool_env (ActorId ''a2'') ''s2'' (device_new (DeviceId ''d2'') [] [] [])
        Human db)"
proof -
  obtain x db where b: "bootstrap example_pool_env (ActorId ''a1'') ''s1''
      (device_new (DeviceId ''d1'') [] [] []) Human empty_db = Inr (x, db)" "length (db_devices db) = 1"
    using example_bootstrap by blast
  then show ?thesis
    using bootstrap_at_most_once [OF b(1), of example_pool_env "ActorId ''a2''" "''s2''"
        "device_new (DeviceId ''d2'') [] [] []" Human "[]"]
    by (intro exI [of _ db]) auto
qed

end
