(* ===== verification/Routing_Receipt.thy ===== *)
theory Routing_Receipt
  imports Access_Registry Shard_Routing
begin

text \<open>
  The receipts of routed searches: what a receipt says, when it is accepted, its authentication
  with the installation's key, and how it is stored and read back (\<open>src/shards.rs\<close>,
  \<open>src/store.rs\<close>). The HMAC and serde's JSON are parameters; rows keep the JSON texts.
\<close>

section \<open>Receipts\<close>

record ShardSearchOutcome =
  so_device_id :: DeviceId
  so_shard_generation :: u64
  so_latency_ms :: u64
  so_result_count :: usize
  so_child_search_receipt_id :: "string option"
  so_error :: "string option"

record ShardRoutingReceipt =
  rc_receipt_id :: string
  rc_requester_device_id :: DeviceId
  rc_query_sha256 :: string
  rc_shard_budget :: usize
  rc_actual_selected_shard_count :: usize
  rc_exhaustive :: bool
  rc_eligible_shards :: "DeviceId list"
  rc_ranked_shards :: "RankedShard list"
  rc_selected_shards :: "DeviceId list"
  rc_skipped_shards :: "DeviceId list"
  rc_outcomes :: "ShardSearchOutcome list"
  rc_fallback_reason :: "string option"
  rc_final_result_ids :: "string list"
  rc_merge_digest :: string
  rc_receipt_digest :: string
  rc_recorded_at :: string

record ProfileStoreSearchOutcome =
  po_store_id :: string
  po_profile_id :: MemoryProfileId
  po_latency_ms :: u64
  po_result_count :: usize
  po_child_search_receipt_id :: "string option"
  po_error :: "string option"

record ProfileRoutingReceipt =
  pr_receipt_id :: string
  pr_actor_id :: ActorId
  pr_subject_profile_id :: MemoryProfileId
  pr_authorization_snapshot_digest :: string
  pr_authorized_stores :: "AuthorizedMemoryStore list"
  pr_selected_stores :: "string list"
  pr_skipped_stores :: "string list"
  pr_outcomes :: "ProfileStoreSearchOutcome list"
  pr_complete :: bool
  pr_final_result_ids :: "string list"
  pr_query_sha256 :: string
  pr_receipt_digest :: string
  pr_recorded_at :: string

section \<open>Authentication\<close>

text \<open>The tuples that are serialised for the HMAC: a tag, then every field but the digest.\<close>

type_synonym routing_material =
  "string \<times> string \<times> DeviceId \<times> string \<times> usize \<times> usize \<times> bool \<times> DeviceId list \<times>
   RankedShard list \<times> DeviceId list \<times> DeviceId list \<times> ShardSearchOutcome list \<times>
   string option \<times> string list \<times> string \<times> string"

type_synonym profile_material =
  "string \<times> string \<times> ActorId \<times> MemoryProfileId \<times> string \<times> AuthorizedMemoryStore list \<times>
   string list \<times> string list \<times> ProfileStoreSearchOutcome list \<times> bool \<times> string list \<times>
   string \<times> string"

text \<open>
  serde's encoders and decoders of the types that are stored or authenticated, the HMAC (with the
  error of a key of unusable length), and rusqlite's text for a number outside the column's range.
\<close>

record receipt_lib =
  rl_hmac :: "byte list \<Rightarrow> byte list \<Rightarrow> string + byte list"
  rl_routing_json :: "routing_material \<Rightarrow> string + string"
  rl_profile_json :: "profile_material \<Rightarrow> string + string"
  rl_devices_json :: "DeviceId list \<Rightarrow> string + string"
  rl_ranked_json :: "RankedShard list \<Rightarrow> string + string"
  rl_outcomes_json :: "ShardSearchOutcome list \<Rightarrow> string + string"
  rl_strings_json :: "string list \<Rightarrow> string + string"
  rl_receipt_json :: "ProfileRoutingReceipt \<Rightarrow> string + string"
  rl_devices_from :: "string \<Rightarrow> string + DeviceId list"
  rl_ranked_from :: "string \<Rightarrow> string + RankedShard list"
  rl_outcomes_from :: "string \<Rightarrow> string + ShardSearchOutcome list"
  rl_strings_from :: "string \<Rightarrow> string + string list"
  rl_receipt_from :: "string \<Rightarrow> string + ProfileRoutingReceipt"
  rl_out_of_range :: string

definition routing_material :: "ShardRoutingReceipt \<Rightarrow> routing_material" where
  "routing_material r =
     (''pooled-routing-receipt-hmac-v1'', rc_receipt_id r, rc_requester_device_id r,
      rc_query_sha256 r, rc_shard_budget r, rc_actual_selected_shard_count r, rc_exhaustive r,
      rc_eligible_shards r, rc_ranked_shards r, rc_selected_shards r, rc_skipped_shards r,
      rc_outcomes r, rc_fallback_reason r, rc_final_result_ids r, rc_merge_digest r,
      rc_recorded_at r)"

definition profile_material :: "ProfileRoutingReceipt \<Rightarrow> profile_material" where
  "profile_material r =
     (''profile-routing-receipt-hmac-v1'', pr_receipt_id r, pr_actor_id r,
      pr_subject_profile_id r, pr_authorization_snapshot_digest r, pr_authorized_stores r,
      pr_selected_stores r, pr_skipped_stores r, pr_outcomes r, pr_complete r,
      pr_final_result_ids r, pr_query_sha256 r, pr_recorded_at r)"

definition routing_receipt_digest ::
    "receipt_lib \<Rightarrow> byte list \<Rightarrow> ShardRoutingReceipt \<Rightarrow> MnemesError + string" where
  "routing_receipt_digest l auth_key r =
     bindR (map_err InvalidShardCatalog (rl_routing_json l (routing_material r))) (\<lambda>material.
     bindR (map_err InvalidShardCatalog (rl_hmac l auth_key (as_bytes material))) (\<lambda>mac.
     Inr (hex_bytes mac)))"

definition profile_routing_receipt_digest ::
    "receipt_lib \<Rightarrow> byte list \<Rightarrow> ProfileRoutingReceipt \<Rightarrow> MnemesError + string" where
  "profile_routing_receipt_digest l auth_key r =
     bindR (map_err InvalidShardCatalog (rl_profile_json l (profile_material r))) (\<lambda>material.
     bindR (map_err InvalidShardCatalog (rl_hmac l auth_key (as_bytes material))) (\<lambda>mac.
     Inr (hex_bytes mac)))"

section \<open>Acceptance\<close>

definition is_digest :: "string \<Rightarrow> bool" where
  "is_digest v \<longleftrightarrow> length v = 64 \<and> list_all is_ascii_hexdigit v"

text \<open>
  The checks on the sets that both receipts share, with the sizes of the hash sets that the code
  builds: \<open>whole\<close> is split into \<open>selected\<close> and \<open>skipped\<close>, and each selected one has an outcome.
\<close>

definition sets_inconsistent :: "'k list \<Rightarrow> 'k list \<Rightarrow> 'k list \<Rightarrow> 'k list \<Rightarrow> bool" where
  "sets_inconsistent whole selected skipped outcomes \<longleftrightarrow>
     card (set whole) \<noteq> length whole \<or>
     card (set selected) \<noteq> length selected \<or>
     card (set skipped) \<noteq> length skipped \<or>
     card (set outcomes) \<noteq> length outcomes \<or>
     \<not> set selected \<subseteq> set whole \<or>
     \<not> set skipped \<subseteq> set whole \<or>
     set selected \<inter> set skipped \<noteq> {} \<or>
     card (set selected \<union> set skipped) \<noteq> card (set whole) \<or>
     set outcomes \<noteq> set selected"

definition validate_routing_receipt ::
    "receipt_lib \<Rightarrow> byte list \<Rightarrow> ShardRoutingReceipt \<Rightarrow> MnemesError + unit" where
  "validate_routing_receipt l auth_key r =
     (let ranked = map rk_device_id (rc_ranked_shards r);
          outcomes = map so_device_id (rc_outcomes r)
      in bindR (checks
        [fail_if (\<not> is_digest (rc_query_sha256 r) \<or> \<not> is_digest (rc_merge_digest r) \<or>
                  \<not> is_digest (rc_receipt_digest r))
           (InvalidShardCatalog ''routing receipt contains an invalid digest''),
         fail_if (rc_actual_selected_shard_count r \<noteq> length (rc_selected_shards r))
           (InvalidShardCatalog ''actual selected shard count is inconsistent''),
         fail_if (sets_inconsistent (rc_eligible_shards r) (rc_selected_shards r)
                    (rc_skipped_shards r) outcomes \<or>
                  card (set ranked) \<noteq> length ranked \<or> set ranked \<noteq> set (rc_eligible_shards r))
           (InvalidShardCatalog ''routing receipt shard sets are inconsistent''),
         fail_if (card (set (rc_final_result_ids r)) \<noteq> length (rc_final_result_ids r))
           (InvalidShardCatalog ''routing receipt contains duplicate final result IDs'')]) (\<lambda>_.
      bindR (routing_receipt_digest l auth_key r) (\<lambda>digest.
      fail_if (digest \<noteq> rc_receipt_digest r)
        (InvalidShardCatalog ''routing receipt authentication mismatch''))))"

definition validate_profile_routing_receipt ::
    "receipt_lib \<Rightarrow> byte list \<Rightarrow> ProfileRoutingReceipt \<Rightarrow> MnemesError + unit" where
  "validate_profile_routing_receipt l auth_key r =
     bindR (checks
       [fail_if (\<not> is_digest (pr_authorization_snapshot_digest r) \<or>
                 \<not> is_digest (pr_query_sha256 r) \<or> \<not> is_digest (pr_receipt_digest r))
          (InvalidShardCatalog ''profile routing receipt contains an invalid digest''),
        fail_if (sets_inconsistent (map as_store_id (pr_authorized_stores r))
                   (pr_selected_stores r) (pr_skipped_stores r) (map po_store_id (pr_outcomes r)) \<or>
                 pr_complete r \<noteq> list_all (\<lambda>v. po_error v = None) (pr_outcomes r))
          (InvalidShardCatalog ''profile routing receipt store sets are inconsistent''),
        fail_if (card (set (pr_final_result_ids r)) \<noteq> length (pr_final_result_ids r))
          (InvalidShardCatalog ''profile routing receipt contains duplicate final result IDs'')]) (\<lambda>_.
     bindR (profile_routing_receipt_digest l auth_key r) (\<lambda>digest.
     fail_if (digest \<noteq> pr_receipt_digest r)
       (InvalidShardCatalog ''profile routing receipt authentication mismatch'')))"

section \<open>Storage\<close>

record routing_row =
  rw_receipt_id :: string
  rw_requester_device_id :: string
  rw_query_sha256 :: string
  rw_shard_budget :: nat
  rw_actual_selected_shard_count :: nat
  rw_exhaustive :: bool
  rw_eligible_shards_json :: string
  rw_ranked_shards_json :: string
  rw_selected_shards_json :: string
  rw_skipped_shards_json :: string
  rw_outcomes_json :: string
  rw_fallback_reason :: "string option"
  rw_final_result_ids_json :: string
  rw_merge_digest :: string
  rw_receipt_digest :: string
  rw_recorded_at :: string

record profile_routing_row =
  pw_receipt_id :: string
  pw_requester_actor_id :: string
  pw_subject_profile_id :: string
  pw_authorization_snapshot_digest :: string
  pw_receipt_json :: string
  pw_receipt_digest :: string
  pw_recorded_at :: string

definition as_catalog :: "string + 'a \<Rightarrow> MnemesError + 'a" where
  "as_catalog m = map_err InvalidShardCatalog m"

text \<open>
  \<open>json_valid\<close> holds of what serde wrote and is not checked again; a count is a \<open>u64\<close> and
  does not fit its column from \<open>2 ^ 63\<close> on.
\<close>

definition persist_routing_receipt ::
    "receipt_lib \<Rightarrow> byte list \<Rightarrow> pool_env \<Rightarrow> ShardRoutingReceipt \<Rightarrow> pool_db \<Rightarrow> routing_row list \<Rightarrow>
     MnemesError + routing_row list" where
  "persist_routing_receipt l auth_key env r db rows =
     bindR (validate_routing_receipt l auth_key r) (\<lambda>_.
     bindR (as_catalog (rl_devices_json l (rc_eligible_shards r))) (\<lambda>eligible.
     bindR (as_catalog (rl_ranked_json l (rc_ranked_shards r))) (\<lambda>ranked.
     bindR (as_catalog (rl_devices_json l (rc_selected_shards r))) (\<lambda>selected.
     bindR (as_catalog (rl_devices_json l (rc_skipped_shards r))) (\<lambda>skipped.
     bindR (as_catalog (rl_outcomes_json l (rc_outcomes r))) (\<lambda>outcomes.
     bindR (as_catalog (rl_strings_json l (rc_final_result_ids r))) (\<lambda>final_ids.
     bindR (fail_if (int (rc_shard_budget r) > i64_max \<or>
                     int (rc_actual_selected_shard_count r) > i64_max)
        (mnemes_from_rusqlite (rl_out_of_range l))) (\<lambda>_.
     sql_insert (pe_message env)
       [(length (rc_query_sha256 r) \<noteq> 64, CheckConstraint ''length(query_sha256) = 64''),
        (length (rc_merge_digest r) \<noteq> 64, CheckConstraint ''length(merge_digest) = 64''),
        (length (rc_receipt_digest r) \<noteq> 64, CheckConstraint ''length(receipt_digest) = 64''),
        (has_key rw_receipt_id (rc_receipt_id r) rows,
         PrimaryKey ''shard_routing_receipts.receipt_id''),
        (\<not> has_key dev_device_id (rc_requester_device_id r) (db_devices db),
         ForeignKey ''shard_routing_receipts.requester_device_id'')]
       \<lparr> rw_receipt_id = rc_receipt_id r,
         rw_requester_device_id = device_id_str (rc_requester_device_id r),
         rw_query_sha256 = rc_query_sha256 r, rw_shard_budget = rc_shard_budget r,
         rw_actual_selected_shard_count = rc_actual_selected_shard_count r,
         rw_exhaustive = rc_exhaustive r, rw_eligible_shards_json = eligible,
         rw_ranked_shards_json = ranked, rw_selected_shards_json = selected,
         rw_skipped_shards_json = skipped, rw_outcomes_json = outcomes,
         rw_fallback_reason = rc_fallback_reason r, rw_final_result_ids_json = final_ids,
         rw_merge_digest = rc_merge_digest r, rw_receipt_digest = rc_receipt_digest r,
         rw_recorded_at = rc_recorded_at r \<rparr> rows))))))))"

definition get_routing_receipt ::
    "receipt_lib \<Rightarrow> byte list \<Rightarrow> 'u uuid_lib \<Rightarrow> string \<Rightarrow> routing_row list \<Rightarrow>
     MnemesError + ShardRoutingReceipt option" where
  "get_routing_receipt l auth_key u receipt_id rows =
     (case row_by rw_receipt_id receipt_id rows of
        None \<Rightarrow> Inr None
      | Some row \<Rightarrow>
          bindR (map_err Memory (device_id_parse u (rw_requester_device_id row))) (\<lambda>requester.
          bindR (as_catalog (rl_devices_from l (rw_eligible_shards_json row))) (\<lambda>eligible.
          bindR (as_catalog (rl_ranked_from l (rw_ranked_shards_json row))) (\<lambda>ranked.
          bindR (as_catalog (rl_devices_from l (rw_selected_shards_json row))) (\<lambda>selected.
          bindR (as_catalog (rl_devices_from l (rw_skipped_shards_json row))) (\<lambda>skipped.
          bindR (as_catalog (rl_outcomes_from l (rw_outcomes_json row))) (\<lambda>outcomes.
          bindR (as_catalog (rl_strings_from l (rw_final_result_ids_json row))) (\<lambda>final_ids.
          let receipt =
            \<lparr> rc_receipt_id = rw_receipt_id row, rc_requester_device_id = requester,
              rc_query_sha256 = rw_query_sha256 row, rc_shard_budget = rw_shard_budget row,
              rc_actual_selected_shard_count = rw_actual_selected_shard_count row,
              rc_exhaustive = rw_exhaustive row, rc_eligible_shards = eligible,
              rc_ranked_shards = ranked, rc_selected_shards = selected,
              rc_skipped_shards = skipped, rc_outcomes = outcomes,
              rc_fallback_reason = rw_fallback_reason row, rc_final_result_ids = final_ids,
              rc_merge_digest = rw_merge_digest row, rc_receipt_digest = rw_receipt_digest row,
              rc_recorded_at = rw_recorded_at row \<rparr> in
          bindR (validate_routing_receipt l auth_key receipt) (\<lambda>_. Inr (Some receipt))))))))))"

text \<open>The table of profile receipts refers to the actor and the profile.\<close>

definition persist_profile_routing_receipt ::
    "receipt_lib \<Rightarrow> byte list \<Rightarrow> pool_env \<Rightarrow> ProfileRoutingReceipt \<Rightarrow> pool_db \<Rightarrow>
     profile_routing_row list \<Rightarrow> MnemesError + profile_routing_row list" where
  "persist_profile_routing_receipt l auth_key env r db rows =
     bindR (validate_profile_routing_receipt l auth_key r) (\<lambda>_.
     bindR (as_catalog (rl_receipt_json l r)) (\<lambda>payload.
     sql_insert (pe_message env)
       [(length (pr_authorization_snapshot_digest r) \<noteq> 64,
         CheckConstraint ''length(authorization_snapshot_digest) = 64''),
        (length (pr_receipt_digest r) \<noteq> 64, CheckConstraint ''length(receipt_digest) = 64''),
        (has_key pw_receipt_id (pr_receipt_id r) rows,
         PrimaryKey ''profile_routing_receipts.receipt_id''),
        (\<not> has_key act_actor_id (pr_actor_id r) (db_actors db),
         ForeignKey ''profile_routing_receipts.requester_actor_id''),
        (\<not> has_key mp_profile_id (pr_subject_profile_id r) (db_profiles db),
         ForeignKey ''profile_routing_receipts.subject_profile_id'')]
       \<lparr> pw_receipt_id = pr_receipt_id r, pw_requester_actor_id = actor_id_str (pr_actor_id r),
         pw_subject_profile_id = profile_id_str (pr_subject_profile_id r),
         pw_authorization_snapshot_digest = pr_authorization_snapshot_digest r,
         pw_receipt_json = payload, pw_receipt_digest = pr_receipt_digest r,
         pw_recorded_at = pr_recorded_at r \<rparr> rows))"

definition get_profile_routing_receipt ::
    "receipt_lib \<Rightarrow> byte list \<Rightarrow> string \<Rightarrow> profile_routing_row list \<Rightarrow>
     MnemesError + ProfileRoutingReceipt option" where
  "get_profile_routing_receipt l auth_key receipt_id rows =
     (case row_by pw_receipt_id receipt_id rows of
        None \<Rightarrow> Inr None
      | Some row \<Rightarrow>
          bindR (as_catalog (rl_receipt_from l (pw_receipt_json row))) (\<lambda>receipt.
          bindR (validate_profile_routing_receipt l auth_key receipt) (\<lambda>_. Inr (Some receipt))))"

section \<open>What an accepted receipt says\<close>

lemma count_distinct: "card (set xs) \<noteq> length xs \<longleftrightarrow> \<not> distinct xs"
  using card_distinct distinct_card by blast

text \<open>The counting checks of the code say that the skipped and the selected make up the whole.\<close>

lemma sets_consistent:
  "\<not> sets_inconsistent whole selected skipped outcomes \<longleftrightarrow>
     distinct whole \<and> mset whole = mset selected + mset skipped \<and>
     distinct outcomes \<and> mset outcomes = mset selected"
proof
  assume "\<not> sets_inconsistent whole selected skipped outcomes"
  then have d: "distinct whole" "distinct selected" "distinct skipped" "distinct outcomes"
    and sub: "set selected \<union> set skipped \<subseteq> set whole" and dis: "set selected \<inter> set skipped = {}"
    and n: "card (set selected \<union> set skipped) = card (set whole)" and o: "set outcomes = set selected"
    unfolding sets_inconsistent_def count_distinct by auto
  have "set whole = set (selected @ skipped)"
    using card_subset_eq [OF _ sub n] by simp
  moreover have "distinct (selected @ skipped)" using d dis by simp
  ultimately have "mset whole = mset (selected @ skipped)"
    using d(1) set_eq_iff_mset_eq_distinct by blast
  moreover have "mset outcomes = mset selected"
    using d o set_eq_iff_mset_eq_distinct by blast
  ultimately show "distinct whole \<and> mset whole = mset selected + mset skipped \<and>
      distinct outcomes \<and> mset outcomes = mset selected"
    using d by simp
next
  assume r: "distinct whole \<and> mset whole = mset selected + mset skipped \<and>
      distinct outcomes \<and> mset outcomes = mset selected"
  then have "mset whole = mset (selected @ skipped)" by simp
  then have "distinct (selected @ skipped)" "set whole = set (selected @ skipped)"
    using r mset_eq_imp_distinct_iff mset_eq_setD by blast+
  moreover have "set outcomes = set selected" using r mset_eq_setD by blast
  ultimately show "\<not> sets_inconsistent whole selected skipped outcomes"
    using r unfolding sets_inconsistent_def count_distinct by auto
qed

definition receipt_consistent :: "ShardRoutingReceipt \<Rightarrow> bool" where
  "receipt_consistent r \<longleftrightarrow>
     is_digest (rc_query_sha256 r) \<and> is_digest (rc_merge_digest r) \<and>
     rc_actual_selected_shard_count r = length (rc_selected_shards r) \<and>
     distinct (rc_eligible_shards r) \<and>
     mset (rc_eligible_shards r) = mset (rc_selected_shards r) + mset (rc_skipped_shards r) \<and>
     mset (map rk_device_id (rc_ranked_shards r)) = mset (rc_eligible_shards r) \<and>
     mset (map so_device_id (rc_outcomes r)) = mset (rc_selected_shards r) \<and>
     distinct (rc_final_result_ids r)"

lemma validate_routing_receipt_ok:
  "validate_routing_receipt l auth_key r = Inr () \<longleftrightarrow>
     receipt_consistent r \<and> is_digest (rc_receipt_digest r) \<and>
     routing_receipt_digest l auth_key r = Inr (rc_receipt_digest r)"
proof -
  let ?ranked = "map rk_device_id (rc_ranked_shards r)"
  have "validate_routing_receipt l auth_key r = Inr () \<longleftrightarrow>
      (is_digest (rc_query_sha256 r) \<and> is_digest (rc_merge_digest r) \<and>
       is_digest (rc_receipt_digest r)) \<and>
      rc_actual_selected_shard_count r = length (rc_selected_shards r) \<and>
      \<not> sets_inconsistent (rc_eligible_shards r) (rc_selected_shards r) (rc_skipped_shards r)
         (map so_device_id (rc_outcomes r)) \<and>
      (distinct ?ranked \<and> set ?ranked = set (rc_eligible_shards r)) \<and>
      distinct (rc_final_result_ids r) \<and>
      routing_receipt_digest l auth_key r = Inr (rc_receipt_digest r)"
    unfolding validate_routing_receipt_def Let_def count_distinct
    by (auto simp: bindR_eq_Inr checks_ok fail_if_eq simp del: set_map)
  moreover have "distinct ?ranked \<and> set ?ranked = set (rc_eligible_shards r) \<longleftrightarrow>
      mset ?ranked = mset (rc_eligible_shards r)" if "distinct (rc_eligible_shards r)"
    using that set_eq_iff_mset_eq_distinct mset_eq_imp_distinct_iff mset_eq_setD by metis
  ultimately show ?thesis
    unfolding sets_consistent receipt_consistent_def
    by (metis mset_eq_imp_distinct_iff mset_append distinct_append)
qed

definition profile_receipt_consistent :: "ProfileRoutingReceipt \<Rightarrow> bool" where
  "profile_receipt_consistent r \<longleftrightarrow>
     is_digest (pr_authorization_snapshot_digest r) \<and> is_digest (pr_query_sha256 r) \<and>
     distinct (map as_store_id (pr_authorized_stores r)) \<and>
     mset (map as_store_id (pr_authorized_stores r)) =
       mset (pr_selected_stores r) + mset (pr_skipped_stores r) \<and>
     mset (map po_store_id (pr_outcomes r)) = mset (pr_selected_stores r) \<and>
     (pr_complete r \<longleftrightarrow> (\<forall>v \<in> set (pr_outcomes r). po_error v = None)) \<and>
     distinct (pr_final_result_ids r)"

lemma validate_profile_routing_receipt_ok:
  "validate_profile_routing_receipt l auth_key r = Inr () \<longleftrightarrow>
     profile_receipt_consistent r \<and> is_digest (pr_receipt_digest r) \<and>
     profile_routing_receipt_digest l auth_key r = Inr (pr_receipt_digest r)"
proof -
  have "validate_profile_routing_receipt l auth_key r = Inr () \<longleftrightarrow>
      (is_digest (pr_authorization_snapshot_digest r) \<and> is_digest (pr_query_sha256 r) \<and>
       is_digest (pr_receipt_digest r)) \<and>
      \<not> sets_inconsistent (map as_store_id (pr_authorized_stores r))
         (pr_selected_stores r) (pr_skipped_stores r) (map po_store_id (pr_outcomes r)) \<and>
      (pr_complete r \<longleftrightarrow> (\<forall>v \<in> set (pr_outcomes r). po_error v = None)) \<and>
      distinct (pr_final_result_ids r) \<and>
      profile_routing_receipt_digest l auth_key r = Inr (pr_receipt_digest r)"
    unfolding validate_profile_routing_receipt_def count_distinct
    by (auto simp: bindR_eq_Inr checks_ok fail_if_eq list_all_iff simp del: set_map)
  then show ?thesis
    unfolding sets_consistent profile_receipt_consistent_def
    by (metis mset_eq_imp_distinct_iff mset_append distinct_append)
qed

section \<open>Stored receipts read back\<close>

text \<open>What serde promises: what it writes, it reads back.\<close>

definition receipt_codecs :: "receipt_lib \<Rightarrow> bool" where
  "receipt_codecs l \<longleftrightarrow>
     (\<forall>x t. rl_devices_json l x = Inr t \<longrightarrow> rl_devices_from l t = Inr x) \<and>
     (\<forall>x t. rl_ranked_json l x = Inr t \<longrightarrow> rl_ranked_from l t = Inr x) \<and>
     (\<forall>x t. rl_outcomes_json l x = Inr t \<longrightarrow> rl_outcomes_from l t = Inr x) \<and>
     (\<forall>x t. rl_strings_json l x = Inr t \<longrightarrow> rl_strings_from l t = Inr x) \<and>
     (\<forall>x t. rl_receipt_json l x = Inr t \<longrightarrow> rl_receipt_from l t = Inr x)"

lemma as_catalog_ok [result_simps]: "as_catalog m = Inr x \<longleftrightarrow> m = Inr x"
  by (simp add: as_catalog_def map_err_eq_Inr)

lemma get_persisted_other:
  assumes "persist_routing_receipt l auth_key env r db rows = Inr rows'" "i \<noteq> rc_receipt_id r"
  shows "get_routing_receipt l auth_key u i rows' = get_routing_receipt l auth_key u i rows"
  using assms
  by (auto simp: persist_routing_receipt_def bindR_eq_Inr sql_insert_ok get_routing_receipt_def
      row_by_append row_by_single split: option.splits)

text \<open>
  C36. A routing receipt is stored as it is: once persisted, it is read back unchanged under its
  id, and every other id reads as before; whatever the table holds, a receipt that is read
  accounts for every eligible shard exactly once (selected with one outcome, or skipped) and
  carries the digest that the installation's key gives its content.
\<close>

theorem routing_receipt_roundtrip:
  assumes "receipt_codecs l"
    and "device_id_parse u (device_id_str (rc_requester_device_id r)) = Inr (rc_requester_device_id r)"
    and "persist_routing_receipt l auth_key env r db rows = Inr rows'"
  shows "get_routing_receipt l auth_key u (rc_receipt_id r) rows' = Inr (Some r) \<and>
     (\<forall>i. i \<noteq> rc_receipt_id r \<longrightarrow>
        get_routing_receipt l auth_key u i rows' = get_routing_receipt l auth_key u i rows) \<and>
     (\<forall>i r'. get_routing_receipt l auth_key u i rows' = Inr (Some r') \<longrightarrow>
        rc_receipt_id r' = i \<and> receipt_consistent r' \<and>
        routing_receipt_digest l auth_key r' = Inr (rc_receipt_digest r'))"
proof (intro conjI allI impI)
  have fresh: "row_by rw_receipt_id (rc_receipt_id r) rows = None"
    using assms(3) by (auto simp: persist_routing_receipt_def bindR_eq_Inr sql_insert_ok
        row_by_None has_key_iff)
  show "get_routing_receipt l auth_key u (rc_receipt_id r) rows' = Inr (Some r)"
    using assms fresh unfolding receipt_codecs_def
    by (cases r) (auto simp: persist_routing_receipt_def bindR_eq_Inr sql_insert_ok
        get_routing_receipt_def row_by_append row_by_single as_catalog_ok Let_def map_err_eq_Inr)
next
  fix i assume "i \<noteq> rc_receipt_id r"
  then show "get_routing_receipt l auth_key u i rows' = get_routing_receipt l auth_key u i rows"
    using assms(3) get_persisted_other by blast
next
  fix i r' assume get: "get_routing_receipt l auth_key u i rows' = Inr (Some r')"
  then obtain row where row: "row_by rw_receipt_id i rows' = Some row"
    by (auto simp: get_routing_receipt_def split: option.splits)
  with get have "rc_receipt_id r' = rw_receipt_id row"
    and ok: "validate_routing_receipt l auth_key r' = Inr ()"
    by (auto simp: get_routing_receipt_def bindR_eq_Inr Let_def)
  then show "rc_receipt_id r' = i" using row_by_SomeD [OF row] by simp
  show "receipt_consistent r'"
    "routing_receipt_digest l auth_key r' = Inr (rc_receipt_digest r')"
    using ok validate_routing_receipt_ok by blast+
qed

section \<open>A stored receipt\<close>

lemma hex_digit_char: "n < 16 \<Longrightarrow> is_ascii_hexdigit (digit_char n)"
  by (auto simp: code_digit_char is_ascii_hexdigit_def is_ascii_digit_def)

lemma is_digest_hex: "length bs = 32 \<Longrightarrow> is_digest (hex_bytes bs)"
proof -
  have "unat b div 16 < 16" for b :: byte
    using unat_byte_less [of b] by (simp add: less_mult_imp_div_less)
  then have "list_all is_ascii_hexdigit (hex_bytes bs)"
    by (induction bs) (auto simp: hex_bytes_def hex_byte_def intro!: hex_digit_char)
  then show "length bs = 32 \<Longrightarrow> is_digest (hex_bytes bs)" by (simp add: is_digest_def)
qed

definition example_outcome :: ShardSearchOutcome where
  "example_outcome =
     \<lparr> so_device_id = DeviceId ''d'', so_shard_generation = 1, so_latency_ms = 3,
       so_result_count = 1, so_child_search_receipt_id = None, so_error = None \<rparr>"

text \<open>Codecs that handle at most one element, and a hash for the HMAC.\<close>

fun one_device :: "DeviceId list \<Rightarrow> string + string" where
  "one_device [] = Inr []"
| "one_device [d] = Inr (CHR ''d'' # device_id_str d)"
| "one_device _ = Inl ''unsupported''"

fun from_one_device :: "string \<Rightarrow> string + DeviceId list" where
  "from_one_device [] = Inr []"
| "from_one_device (_ # s) = Inr [DeviceId s]"

definition toy_receipt_lib :: receipt_lib where
  "toy_receipt_lib =
     \<lparr> rl_hmac = (\<lambda>k m. Inr (toy_hash (k @ m))), rl_routing_json = (\<lambda>m. Inr ''m''),
       rl_profile_json = (\<lambda>m. Inr ''m''), rl_devices_json = one_device,
       rl_ranked_json = (\<lambda>rs. if rs = [\<lparr> rk_device_id = DeviceId ''d'', rk_score = 1 \<rparr>]
          then Inr ''r'' else Inl ''unsupported''),
       rl_outcomes_json = (\<lambda>os. if os = [example_outcome] then Inr ''o'' else Inl ''unsupported''),
       rl_strings_json = (\<lambda>ss. if ss = [''f1''] then Inr ''s'' else Inl ''unsupported''),
       rl_receipt_json = (\<lambda>_. Inl ''unsupported''), rl_devices_from = from_one_device,
       rl_ranked_from = (\<lambda>_. Inr [\<lparr> rk_device_id = DeviceId ''d'', rk_score = 1 \<rparr>]),
       rl_outcomes_from = (\<lambda>_. Inr [example_outcome]), rl_strings_from = (\<lambda>_. Inr [''f1'']),
       rl_receipt_from = (\<lambda>_. Inl ''unsupported''), rl_out_of_range = ''out of range'' \<rparr>"

lemma from_one_device_one: "one_device ds = Inr t \<Longrightarrow> from_one_device t = Inr ds"
  by (cases ds rule: one_device.cases) auto

lemma toy_receipt_codecs: "receipt_codecs toy_receipt_lib"
  by (auto simp: receipt_codecs_def toy_receipt_lib_def from_one_device_one split: if_splits)

definition example_receipt :: ShardRoutingReceipt where
  "example_receipt =
     \<lparr> rc_receipt_id = ''r1'', rc_requester_device_id = DeviceId ''d'',
       rc_query_sha256 = hex_bytes (toy_hash []), rc_shard_budget = 1,
       rc_actual_selected_shard_count = 1, rc_exhaustive = False,
       rc_eligible_shards = [DeviceId ''d''],
       rc_ranked_shards = [\<lparr> rk_device_id = DeviceId ''d'', rk_score = 1 \<rparr>],
       rc_selected_shards = [DeviceId ''d''], rc_skipped_shards = [],
       rc_outcomes = [example_outcome], rc_fallback_reason = None,
       rc_final_result_ids = [''f1''], rc_merge_digest = hex_bytes (toy_hash []),
       rc_receipt_digest = hex_bytes (toy_hash (7 # as_bytes ''m'')), rc_recorded_at = ''now'' \<rparr>"

lemma example_receipt_valid: "validate_routing_receipt toy_receipt_lib [7] example_receipt = Inr ()"
  by (simp add: validate_routing_receipt_ok receipt_consistent_def example_receipt_def is_digest_hex
      example_outcome_def routing_receipt_digest_def toy_receipt_lib_def)

theorem routing_receipt_roundtrip_witness:
  "\<exists>rows. persist_routing_receipt toy_receipt_lib [7] example_pool_env example_receipt
       example_registry [] = Inr rows \<and>
     get_routing_receipt toy_receipt_lib [7] toy_uuid ''r1'' rows = Inr (Some example_receipt)"
proof -
  obtain rows where p: "persist_routing_receipt toy_receipt_lib [7] example_pool_env example_receipt
       example_registry [] = Inr rows"
    by (simp add: persist_routing_receipt_def example_receipt_valid)
      (simp add: example_receipt_def toy_receipt_lib_def as_catalog_def sql_insert_def has_key_def
        example_registry_def example_device_def device_new_def i64_max_def)
  have "device_id_parse toy_uuid (device_id_str (rc_requester_device_id example_receipt)) =
      Inr (rc_requester_device_id example_receipt)"
    by (simp add: toy_device_id_parse example_receipt_def)
  from routing_receipt_roundtrip [OF toy_receipt_codecs this p] p show ?thesis
    by (simp add: example_receipt_def)
qed

end
