(* ===== verification/Shard_Service.thy ===== *)
theory Shard_Service
  imports Routing_Receipt Shard_Cache
begin

text \<open>
  The store that owns the shards (\<open>MnemesStore\<close> in \<open>src/store.rs\<close>): opening the memory of a
  device or of a profile store through the cache, the catalog and its counters, and accepting
  facts into a device's shard.

  semantic-memory is a parameter: handles \<open>'s\<close>, the contents \<open>'m\<close> of all its databases, and the
  functions that the code calls. A shard's path is taken relative to the base directory.
\<close>

section \<open>Operations with a state and an error\<close>

text \<open>An operation of the store: its result, and the store afterwards, also after an error.\<close>

definition bindS ::
    "('d \<Rightarrow> ('e + 'a) \<times> 'd) \<Rightarrow> ('a \<Rightarrow> 'd \<Rightarrow> ('e + 'b) \<times> 'd) \<Rightarrow> 'd \<Rightarrow> ('e + 'b) \<times> 'd" where
  "bindS m f d =
     (case m d of
        (Inl e, d') \<Rightarrow> (Inl e, d')
      | (Inr x, d') \<Rightarrow> f x d')"

definition readS :: "('d \<Rightarrow> 'e + 'a) \<Rightarrow> 'd \<Rightarrow> ('e + 'a) \<times> 'd" where
  "readS f d = (f d, d)"

lemma readS_eq [simp]: "readS f d = (r, d') \<longleftrightarrow> f d = r \<and> d' = d"
  by (auto simp: readS_def)

lemma bindS_readS [simp]:
  "bindS (readS f) g d = (case f d of Inl e \<Rightarrow> (Inl e, d) | Inr x \<Rightarrow> g x d)"
  by (simp add: bindS_def readS_def)

lemma bindS_readS_ok [result_simps]:
  "bindS (readS f) g d = (Inr y, d') \<longleftrightarrow> (\<exists>x. f d = Inr x \<and> g x d = (Inr y, d'))"
  by (auto split: sum.splits)

lemma bindS_ok [result_simps]:
  "bindS m f d = (Inr y, d'') \<longleftrightarrow> (\<exists>x d'. m d = (Inr x, d') \<and> f x d' = (Inr y, d''))"
  by (auto simp: bindS_def split: prod.splits sum.splits)

lemma bindS_keeps:
  assumes "bindS m f d = (r, d'')"
    and "\<And>s d'. m d = (s, d') \<Longrightarrow> P d'"
    and "\<And>x d' s d''. P d' \<Longrightarrow> f x d' = (s, d'') \<Longrightarrow> P d''"
  shows "P d''"
  using assms by (auto simp: bindS_def split: prod.splits sum.splits)

section \<open>semantic-memory\<close>

record MemoryStats =
  ss_total_facts :: u64
  ss_total_documents :: u64
  ss_total_chunks :: u64
  ss_total_sessions :: u64
  ss_total_messages :: u64
  ss_database_size_bytes :: u64
  ss_embedding_model :: "string option"
  ss_embedding_dimensions :: "usize option"

text \<open>
  The functions of semantic-memory, of the file system below a shard, of serde for the namespaces
  column, of SQLite for the REAL column, and the texts of foreign errors. A search returns its
  results and the id of its own receipt.
\<close>

record ('s, 'm, 'src) memory_lib =
  ml_open :: "string \<Rightarrow> 'm \<Rightarrow> (MemoryError + 's) \<times> 'm"
  ml_open_read_only :: "string \<Rightarrow> 'm \<Rightarrow> (MemoryError + 's) \<times> 'm"
  ml_stats :: "'s \<Rightarrow> 'm \<Rightarrow> MemoryError + MemoryStats"
  ml_search_with_context :: "'s \<Rightarrow> string \<Rightarrow> usize \<Rightarrow> string list option \<Rightarrow> 'src list option \<Rightarrow>
     string \<Rightarrow> string \<Rightarrow> 'm \<Rightarrow> (MemoryError + SearchResult list \<times> string option) \<times> 'm"
  ml_search :: "'s \<Rightarrow> string \<Rightarrow> usize \<Rightarrow> string list option \<Rightarrow> 'src list option \<Rightarrow> 'm \<Rightarrow>
     (MemoryError + SearchResult list) \<times> 'm"
  ml_add_fact :: "'s \<Rightarrow> string \<Rightarrow> string \<Rightarrow> string option \<Rightarrow> string option \<Rightarrow> 'm \<Rightarrow>
     (MemoryError + string) \<times> 'm"
  ml_db_size :: "string \<Rightarrow> 'm \<Rightarrow> u64 option"
  ml_select_fact :: "string \<Rightarrow> string \<Rightarrow> string \<Rightarrow> 'm \<Rightarrow> string + string option"
  ml_namespaces_json :: "string list \<Rightarrow> string + string"
  ml_namespaces_from :: "string \<Rightarrow> string + string list"
  ml_ewma :: "u64 \<Rightarrow> u64 \<Rightarrow> u64"
  ml_as_f64 :: "u64 \<Rightarrow> u64"
  ml_display :: "MemoryError \<Rightarrow> string"
  ml_range_error :: "nat \<Rightarrow> i64 \<Rightarrow> string"
  ml_to_sql_error :: string
  ml_sum_overflow :: string
  ml_model_name :: string
  ml_dimensions :: usize

section \<open>The store\<close>

record synced_fact =
  sf_source_fact_id :: string
  sf_device_id :: DeviceId
  sf_server_fact_id :: string
  sf_synced_at :: string

record ('s, 'm) MnemesStore =
  st_pool :: pool_db
  st_cache :: "'s ShardStoreCache"
  st_memory :: 'm
  st_routing_receipts :: "routing_row list"
  st_profile_receipts :: "profile_routing_row list"
  st_synced_facts :: "synced_fact list"
  st_receipt_auth_key :: "byte list"

text \<open>
  \<open>Path\<close>s are compared by their components: repeated and trailing separators and inner \<open>.\<close>
  components do not count.
\<close>

definition std_components :: "string \<Rightarrow> string list" where
  "std_components p =
     (let cs = path_components p in
      (if p = [] then [] else if hd cs = [] then [''/''] else if hd cs = ''.'' then [''.''] else []) @
      filter (\<lambda>c. c \<noteq> [] \<and> c \<noteq> ''.'') cs)"

text \<open>Calls of semantic-memory that change its databases.\<close>

definition call_memory ::
    "('m \<Rightarrow> (MemoryError + 'a) \<times> 'm) \<Rightarrow> ('s, 'm, 'z) MnemesStore_scheme \<Rightarrow>
     (MnemesError + 'a) \<times> ('s, 'm, 'z) MnemesStore_scheme" where
  "call_memory f st =
     (let (r, m) = f (st_memory st) in (map_err Memory r, st\<lparr>st_memory := m\<rparr>))"

text \<open>
  \<open>cache.insert\<close> runs the eviction loop, which returns for a cache that satisfies its invariant
  (\<open>cache_refines_lru\<close>), and \<open>same_tables\<close> below carries it through every operation of a store.
\<close>

definition put_handle ::
    "string \<Rightarrow> 's \<Rightarrow> ('s, 'm, 'z) MnemesStore_scheme \<Rightarrow>
     (MnemesError + 's) \<times> ('s, 'm, 'z) MnemesStore_scheme" where
  "put_handle key handle st =
     (Inr handle, st\<lparr>st_cache := the (insert_key key handle (st_cache st))\<rparr>)"

definition device_memory ::
    "pool_env \<Rightarrow> ('s, 'm, 'src) memory_lib \<Rightarrow> DeviceId \<Rightarrow> ('s, 'm, 'z) MnemesStore_scheme \<Rightarrow>
     (MnemesError + 's) \<times> ('s, 'm, 'z) MnemesStore_scheme" where
  "device_memory env lib device_id = (\<lambda>st.
     case row_by shr_device_id device_id (db_shards (st_pool st)) of
       None \<Rightarrow> (Inl (DeviceNotFound (device_id_str device_id)), st)
     | Some row \<Rightarrow>
         if std_components (shr_relative_path row) \<noteq> std_components (shard_relative_path device_id)
         then (Inl (InvalidShardCatalog (''device '' @ device_id_str device_id @
                 '' has non-deterministic path '' @ shr_relative_path row)), st)
         else
           (case cache_get device_id (st_cache st) of
              (Some handle, cache) \<Rightarrow> (Inr handle, st\<lparr>st_cache := cache\<rparr>)
            | (None, _) \<Rightarrow>
                bindS (readS (\<lambda>_. create_shard_dir env device_id)) (\<lambda>_.
                bindS (call_memory (ml_open lib (shard_relative_path device_id))) (\<lambda>handle.
                put_handle (device_id_str device_id) handle)) st))"

text \<open>The three-way join on active rows.\<close>

definition active_store :: "string \<Rightarrow> pool_db \<Rightarrow> MemoryStoreIdentity option" where
  "active_store store_id db =
     (case get_store store_id db of
        None \<Rightarrow> None
      | Some s \<Rightarrow>
          (case get_profile (ms_profile_id s) db of
             None \<Rightarrow> None
           | Some p \<Rightarrow>
               if ms_status s = StoreActive \<and> mp_status p = ProfileActive \<and>
                  device_active (ms_owner_device_id s) db
               then Some s else None))"

definition profile_store_memory ::
    "('s, 'm, 'src) memory_lib \<Rightarrow> string \<Rightarrow> ('s, 'm, 'z) MnemesStore_scheme \<Rightarrow>
     (MnemesError + 's) \<times> ('s, 'm, 'z) MnemesStore_scheme" where
  "profile_store_memory lib store_id = (\<lambda>st.
     case active_store store_id (st_pool st) of
       None \<Rightarrow> (Inl (MemoryGrantDenied ''profile store is not active or does not exist''), st)
     | Some row \<Rightarrow>
         bindS (readS (\<lambda>_. profile_id_parse (profile_id_str (ms_profile_id row)))) (\<lambda>profile_id.
         bindS (readS (\<lambda>_. canonical_memory_store_relative_path profile_id store_id)) (\<lambda>expected.
         if ms_relative_path row \<noteq> expected
         then readS (\<lambda>_. Inl (InvalidMemoryScope ''profile store path is not canonical''))
         else (\<lambda>st.
           case get_key (''profile:'' @ store_id) (st_cache st) of
             (Some handle, cache) \<Rightarrow> (Inr handle, st\<lparr>st_cache := cache\<rparr>)
           | (None, _) \<Rightarrow>
               bindS (call_memory (ml_open_read_only lib (ms_relative_path row))) (\<lambda>handle.
               put_handle (''profile:'' @ store_id) handle) st))) st)"

section \<open>The catalog\<close>

definition column_u64 :: "('s, 'm, 'src) memory_lib \<Rightarrow> nat \<Rightarrow> i64 \<Rightarrow> MnemesError + u64" where
  "column_u64 lib column v =
     ok_or (mnemes_from_rusqlite (ml_range_error lib column v)) (u64_try_from_i64 v)"

definition shard_of_row ::
    "('s, 'm, 'src) memory_lib \<Rightarrow> shard_row \<times> DeviceStatus \<Rightarrow> MnemesError + DeviceShard" where
  "shard_of_row lib = (\<lambda>(row, device_status).
     bindR (column_u64 lib 3 (shr_generation row)) (\<lambda>generation.
     bindR (column_u64 lib 6 (shr_fact_count row)) (\<lambda>fact_count.
     bindR (column_u64 lib 7 (shr_document_count row)) (\<lambda>document_count.
     bindR (column_u64 lib 8 (shr_chunk_count row)) (\<lambda>chunk_count.
     bindR (column_u64 lib 9 (shr_message_count row)) (\<lambda>message_count.
     bindR (column_u64 lib 10 (shr_search_count row)) (\<lambda>search_count.
     bindR (map_err (\<lambda>error. InvalidShardCatalog
         (''invalid namespaces for '' @ device_id_str (shr_device_id row) @ '': '' @ error))
       (ml_namespaces_from lib (shr_namespaces_json row))) (\<lambda>namespaces.
     Inr \<lparr> sh_device_id = shr_device_id row, sh_relative_path = shr_relative_path row,
           sh_state = shr_state row, sh_generation = generation,
           sh_routing_terms = shr_routing_terms row, sh_namespaces = namespaces,
           sh_fact_count = fact_count, sh_document_count = document_count,
           sh_chunk_count = chunk_count, sh_message_count = message_count,
           sh_search_count = search_count, sh_ewma_latency_ms = shr_ewma_latency_ms row,
           sh_last_refreshed_at = shr_last_refreshed_at row, sh_created_at = shr_created_at row,
           sh_device_status = device_status \<rparr>))))))))"

definition catalog_rows :: "pool_db \<Rightarrow> (shard_row \<times> DeviceStatus) list" where
  "catalog_rows db =
     List.map_filter (\<lambda>s. map_option (\<lambda>d. (s, dev_status d)) (get_device (shr_device_id s) db))
       (sort_key (\<lambda>s. device_id_str (shr_device_id s)) (db_shards db))"

definition list_shards :: "('s, 'm, 'src) memory_lib \<Rightarrow> pool_db \<Rightarrow> MnemesError + DeviceShard list" where
  "list_shards lib db = collect_results (shard_of_row lib) (catalog_rows db)"

definition add_shard_stats ::
    "('s, 'm, 'src) memory_lib \<Rightarrow> 'm \<Rightarrow> DeviceShard \<Rightarrow> MemoryStats \<Rightarrow> MemoryStats" where
  "add_shard_stats lib m shard stats =
     stats\<lparr> ss_total_facts := u64_saturating_add (ss_total_facts stats) (sh_fact_count shard),
       ss_total_documents := u64_saturating_add (ss_total_documents stats) (sh_document_count shard),
       ss_total_chunks := u64_saturating_add (ss_total_chunks stats) (sh_chunk_count shard),
       ss_total_messages := u64_saturating_add (ss_total_messages stats) (sh_message_count shard),
       ss_database_size_bytes :=
         (case ml_db_size lib (shard_relative_path (sh_device_id shard) @ ''/memory.db'') m of
            None \<Rightarrow> ss_database_size_bytes stats
          | Some n \<Rightarrow> u64_saturating_add (ss_database_size_bytes stats) n) \<rparr>"

definition shard_stats ::
    "('s, 'm, 'src) memory_lib \<Rightarrow> ('s, 'm, 'z) MnemesStore_scheme \<Rightarrow> MnemesError + MemoryStats" where
  "shard_stats lib st =
     bindR (list_shards lib (st_pool st)) (\<lambda>shards.
     Inr (fold (add_shard_stats lib (st_memory st)) shards
       \<lparr> ss_total_facts = 0, ss_total_documents = 0, ss_total_chunks = 0, ss_total_sessions = 0,
         ss_total_messages = 0, ss_database_size_bytes = 0,
         ss_embedding_model = Some (ml_model_name lib),
         ss_embedding_dimensions = Some (ml_dimensions lib) \<rparr>))"

text \<open>A \<open>u64\<close> is bound to a statement only if it fits a column.\<close>

definition to_column :: "('s, 'm, 'src) memory_lib \<Rightarrow> u64 \<Rightarrow> MnemesError + i64" where
  "to_column lib v = ok_or (mnemes_from_rusqlite (ml_to_sql_error lib)) (i64_try_from_u64 v)"

definition set_counts ::
    "('s, 'm, 'src) memory_lib \<Rightarrow> MemoryStats \<Rightarrow> string \<Rightarrow> (shard_row \<Rightarrow> shard_row) \<Rightarrow> DeviceId \<Rightarrow>
     ('s, 'm, 'z) MnemesStore_scheme \<Rightarrow> (MnemesError + unit) \<times> ('s, 'm, 'z) MnemesStore_scheme" where
  "set_counts lib stats now extra device_id =
     bindS (readS (\<lambda>_. to_column lib (ss_total_facts stats))) (\<lambda>facts.
     bindS (readS (\<lambda>_. to_column lib (ss_total_documents stats))) (\<lambda>documents.
     bindS (readS (\<lambda>_. to_column lib (ss_total_chunks stats))) (\<lambda>chunks.
     bindS (readS (\<lambda>_. to_column lib (ss_total_messages stats))) (\<lambda>messages. \<lambda>st.
       let (affected, rows) = sql_update (\<lambda>s. shr_device_id s = device_id)
             (\<lambda>s. (extra s)\<lparr>shr_fact_count := facts, shr_document_count := documents,
                shr_chunk_count := chunks, shr_message_count := messages,
                shr_generation := shr_generation s + 1, shr_last_refreshed_at := Some now\<rparr>)
             (db_shards (st_pool st))
       in if affected = 0 then (Inl (DeviceNotFound (device_id_str device_id)), st)
          else (Inr (), st\<lparr>st_pool := (st_pool st)\<lparr>db_shards := rows\<rparr>\<rparr>)))))"

definition refresh_shard_counts ::
    "pool_env \<Rightarrow> ('s, 'm, 'src) memory_lib \<Rightarrow> DeviceId \<Rightarrow> ('s, 'm, 'z) MnemesStore_scheme \<Rightarrow>
     (MnemesError + unit) \<times> ('s, 'm, 'z) MnemesStore_scheme" where
  "refresh_shard_counts env lib device_id =
     bindS (device_memory env lib device_id) (\<lambda>memory.
     bindS (readS (\<lambda>st. map_err Memory (ml_stats lib memory (st_memory st)))) (\<lambda>stats.
     set_counts lib stats (pe_now env) (\<lambda>s. s) device_id))"

definition refresh_shard_summary ::
    "pool_env \<Rightarrow> ('s, 'm, 'src) memory_lib \<Rightarrow> DeviceId \<Rightarrow> string \<Rightarrow> string list \<Rightarrow>
     ('s, 'm, 'z) MnemesStore_scheme \<Rightarrow> (MnemesError + DeviceShard) \<times> ('s, 'm, 'z) MnemesStore_scheme" where
  "refresh_shard_summary env lib device_id routing_terms namespaces =
     bindS (device_memory env lib device_id) (\<lambda>memory.
     bindS (readS (\<lambda>st. map_err Memory (ml_stats lib memory (st_memory st)))) (\<lambda>stats.
     let normalized_terms = join '' '' (routing_tokens routing_terms) in
     bindS (readS (\<lambda>_. map_err (\<lambda>error. InvalidShardCatalog
         (''failed to serialize namespaces: '' @ error))
       (ml_namespaces_json lib (remdups_adj (sort namespaces))))) (\<lambda>namespaces_json.
     bindS (set_counts lib stats (pe_now env)
       (\<lambda>s. s\<lparr>shr_routing_terms := normalized_terms, shr_namespaces_json := namespaces_json\<rparr>)
       device_id) (\<lambda>_.
     readS (\<lambda>st. bindR (list_shards lib (st_pool st)) (\<lambda>shards.
       ok_or (DeviceNotFound (device_id_str device_id))
         (find (\<lambda>shard. sh_device_id shard = device_id) shards)))))))"

definition has_shards :: "pool_db \<Rightarrow> bool" where
  "has_shards db = list_ex (\<lambda>s. shr_state s = ShardActive \<and> shr_fact_count s > 0) (db_shards db)"

definition has_registered_shards :: "pool_db \<Rightarrow> bool" where
  "has_registered_shards db = list_ex (\<lambda>s. shr_state s = ShardActive) (db_shards db)"

record ShardAggregateStats =
  ag_shards :: u64
  ag_facts :: u64
  ag_documents :: u64
  ag_chunks :: u64
  ag_messages :: u64
  ag_searches :: u64

text \<open>\<open>COALESCE(SUM(c), 0)\<close> of non-negative integers, which SQLite fails on overflow.\<close>

definition sql_sum ::
    "('s, 'm, 'src) memory_lib \<Rightarrow> (shard_row \<Rightarrow> i64) \<Rightarrow> shard_row list \<Rightarrow> MnemesError + u64" where
  "sql_sum lib column rows =
     (let total = sum_list (map column rows) in
      if total > i64_max then Inl (mnemes_from_rusqlite (ml_sum_overflow lib))
      else Inr (word_of_int total))"

definition aggregate_shard_stats ::
    "('s, 'm, 'src) memory_lib \<Rightarrow> pool_db \<Rightarrow> MnemesError + ShardAggregateStats" where
  "aggregate_shard_stats lib db =
     bindR (sql_sum lib shr_fact_count (db_shards db)) (\<lambda>facts.
     bindR (sql_sum lib shr_document_count (db_shards db)) (\<lambda>documents.
     bindR (sql_sum lib shr_chunk_count (db_shards db)) (\<lambda>chunks.
     bindR (sql_sum lib shr_message_count (db_shards db)) (\<lambda>messages.
     bindR (sql_sum lib shr_search_count (db_shards db)) (\<lambda>searches.
     Inr \<lparr> ag_shards = of_nat (length (db_shards db)), ag_facts = facts, ag_documents = documents,
           ag_chunks = chunks, ag_messages = messages, ag_searches = searches \<rparr>)))))"

definition record_shard_search_observation ::
    "('s, 'm, 'src) memory_lib \<Rightarrow> DeviceId \<Rightarrow> u64 \<Rightarrow> pool_db \<Rightarrow> pool_db" where
  "record_shard_search_observation lib device_id latency_ms db =
     db\<lparr>db_shards := snd (sql_update (\<lambda>s. shr_device_id s = device_id)
       (\<lambda>s. s\<lparr>shr_ewma_latency_ms :=
               (if shr_search_count s = 0 then ml_as_f64 lib latency_ms
                else ml_ewma lib (shr_ewma_latency_ms s) (ml_as_f64 lib latency_ms)),
             shr_search_count := shr_search_count s + 1\<rparr>) (db_shards db))\<rparr>"

section \<open>Accepting facts\<close>

datatype FactSyncOutcome = Synced string | Skipped

definition fact_is_synced :: "string \<Rightarrow> DeviceId \<Rightarrow> synced_fact list \<Rightarrow> bool" where
  "fact_is_synced source_fact_id device_id rows =
     list_ex (\<lambda>f. sf_source_fact_id f = source_fact_id \<and> sf_device_id f = device_id) rows"

text \<open>The lookup of an equal fact in an existing shard database.\<close>

definition find_equal_fact ::
    "('s, 'm, 'src) memory_lib \<Rightarrow> DeviceId \<Rightarrow> string \<Rightarrow> string \<Rightarrow> 'm \<Rightarrow> MnemesError + string option" where
  "find_equal_fact lib device_id namespace content m =
     (let shard_db = shard_relative_path device_id @ ''/memory.db'' in
      if ml_db_size lib shard_db m = None then Inr None
      else map_err mnemes_from_rusqlite (ml_select_fact lib shard_db namespace content m))"

text \<open>The acknowledgement: the last statement of \<open>sync_fact_to_shard\<close>.\<close>

definition insert_synced_fact ::
    "pool_env \<Rightarrow> string \<Rightarrow> DeviceId \<Rightarrow> string \<Rightarrow> ('s, 'm, 'z) MnemesStore_scheme \<Rightarrow>
     (MnemesError + unit) \<times> ('s, 'm, 'z) MnemesStore_scheme" where
  "insert_synced_fact env source_fact_id device_id server_fact_id st =
     (case sql_insert (pe_message env)
        [(fact_is_synced source_fact_id device_id (st_synced_facts st),
          PrimaryKey ''synced_facts.source_fact_id, synced_facts.device_id'')]
        \<lparr> sf_source_fact_id = source_fact_id, sf_device_id = device_id,
          sf_server_fact_id = server_fact_id, sf_synced_at = pe_now env \<rparr> (st_synced_facts st) of
        Inl e \<Rightarrow> (Inl e, st)
      | Inr rows \<Rightarrow> (Inr (), st\<lparr>st_synced_facts := rows\<rparr>))"

definition sync_fact_to_shard ::
    "pool_env \<Rightarrow> ('s, 'm, 'src) memory_lib \<Rightarrow> DeviceId \<Rightarrow> string \<Rightarrow> string \<Rightarrow> string \<Rightarrow> string option \<Rightarrow>
     string option \<Rightarrow> ('s, 'm, 'z) MnemesStore_scheme \<Rightarrow>
     (MnemesError + FactSyncOutcome) \<times> ('s, 'm, 'z) MnemesStore_scheme" where
  "sync_fact_to_shard env lib device_id source_fact_id namespace content source metadata =
     bindS (readS (\<lambda>st. ok_or (DeviceNotFound (device_id_str device_id))
       (get_device device_id (st_pool st)))) (\<lambda>device.
     bindS (readS (\<lambda>_. fail_if (dev_status device \<noteq> DevActive)
       (DeviceNotActive (device_id_str device_id)))) (\<lambda>_. \<lambda>st.
     if fact_is_synced source_fact_id device_id (st_synced_facts st) then (Inr Skipped, st)
     else
       bindS (readS (\<lambda>st. find_equal_fact lib device_id namespace content (st_memory st))) (\<lambda>existing.
       bindS
         (case existing of
            Some existing \<Rightarrow> readS (\<lambda>_. Inr (existing, Skipped))
          | None \<Rightarrow>
              bindS (device_memory env lib device_id) (\<lambda>shard.
              bindS (call_memory (ml_add_fact lib shard namespace content source metadata)) (\<lambda>ident.
              bindS (refresh_shard_counts env lib device_id) (\<lambda>_.
              readS (\<lambda>_. Inr (ident, Synced ident)))))) (\<lambda>(server_fact_id, outcome).
       bindS (insert_synced_fact env source_fact_id device_id server_fact_id) (\<lambda>_.
       readS (\<lambda>_. Inr outcome)))) st))"

section \<open>What the operations keep\<close>

lemma call_memory_frame:
  "call_memory f st = (r, st') \<Longrightarrow>
     st_pool st' = st_pool st \<and> st_cache st' = st_cache st \<and>
     st_receipt_auth_key st' = st_receipt_auth_key st \<and> st_synced_facts st' = st_synced_facts st \<and>
     st_routing_receipts st' = st_routing_receipts st \<and>
     st_profile_receipts st' = st_profile_receipts st \<and> MnemesStore.more st' = MnemesStore.more st"
  by (auto simp: call_memory_def Let_def split: prod.splits)

text \<open>Opening a memory changes the cache and the databases; the cache keeps its invariant.\<close>

definition same_tables ::
    "('s, 'm, 'z) MnemesStore_scheme \<Rightarrow> ('s, 'm, 'z) MnemesStore_scheme \<Rightarrow> bool" where
  "same_tables st st' \<longleftrightarrow>
     st_pool st' = st_pool st \<and> st_receipt_auth_key st' = st_receipt_auth_key st \<and>
     st_synced_facts st' = st_synced_facts st \<and> st_routing_receipts st' = st_routing_receipts st \<and>
     st_profile_receipts st' = st_profile_receipts st \<and> MnemesStore.more st' = MnemesStore.more st \<and>
     (cache_inv (st_cache st) \<longrightarrow> cache_inv (st_cache st'))"

lemma same_tables_refl [simp]: "same_tables st st"
  by (simp add: same_tables_def)

lemma same_tables_trans: "same_tables st st' \<Longrightarrow> same_tables st' st'' \<Longrightarrow> same_tables st st''"
  by (auto simp: same_tables_def)

lemma open_handle_same:
  assumes "bindS (call_memory f) (put_handle key) st = (r, st')"
  shows "same_tables st st'"
proof -
  obtain x st1 where m: "call_memory f st = (x, st1)" by fastforce
  note frame = call_memory_frame [OF m]
  show ?thesis
  proof (cases x)
    case (Inl e)
    with assms m have "st' = st1" by (simp add: bindS_def)
    with frame show ?thesis by (simp add: same_tables_def)
  next
    case (Inr handle)
    with assms m have "put_handle key handle st1 = (r, st')" by (simp add: bindS_def)
    with frame show ?thesis
      using insert_key_refines [of "st_cache st1" key handle]
      by (auto simp: same_tables_def put_handle_def)
  qed
qed

lemma get_key_same:
  "get_key key (st_cache st) = (x, cache) \<Longrightarrow> same_tables st (st\<lparr>st_cache := cache\<rparr>)"
  using get_key_refines [of "st_cache st" key x cache] by (auto simp: same_tables_def)

lemma device_memory_same: "device_memory env lib d st = (r, st') \<Longrightarrow> same_tables st st'"
  by (auto simp: device_memory_def cache_get_def split: option.splits if_splits prod.splits sum.splits
      dest: open_handle_same get_key_same)

lemma profile_store_memory_same: "profile_store_memory lib i st = (r, st') \<Longrightarrow> same_tables st st'"
  by (auto simp: profile_store_memory_def readS_def split: option.splits if_splits prod.splits sum.splits
      dest: open_handle_same get_key_same)

lemma device_memory_frame:
  "device_memory env lib d st = (r, st') \<Longrightarrow> st_receipt_auth_key st' = st_receipt_auth_key st"
  by (drule device_memory_same) (simp add: same_tables_def)

text \<open>A store with one shard, and a memory whose shards hold one fact.\<close>

definition toy_memory :: "(string, unit, 'src) memory_lib" where
  "toy_memory =
     \<lparr> ml_open = (\<lambda>path m. (Inr path, m)), ml_open_read_only = (\<lambda>path m. (Inr path, m)),
       ml_stats = (\<lambda>_ _. Inr \<lparr> ss_total_facts = 1, ss_total_documents = 0, ss_total_chunks = 0,
          ss_total_sessions = 0, ss_total_messages = 0, ss_database_size_bytes = 0,
          ss_embedding_model = None, ss_embedding_dimensions = None \<rparr>),
       ml_search_with_context = (\<lambda>_ _ _ _ _ _ _ m.
          (Inr ([\<lparr> se_score = 1, se_content = ''x'', se_result_id = ''f1'' \<rparr>], None), m)),
       ml_search = (\<lambda>_ _ _ _ _ m. (Inr [\<lparr> se_score = 1, se_content = ''x'', se_result_id = ''f1'' \<rparr>], m)),
       ml_add_fact = (\<lambda>_ _ _ _ _ m. (Inr ''f1'', m)), ml_db_size = (\<lambda>_ _. None),
       ml_select_fact = (\<lambda>_ _ _ _. Inr None), ml_namespaces_json = (\<lambda>_. Inr ''[]''),
       ml_namespaces_from = (\<lambda>_. Inr []), ml_ewma = (\<lambda>a b. b), ml_as_f64 = (\<lambda>n. n),
       ml_display = (\<lambda>_. ''memory error''), ml_range_error = (\<lambda>_ _. ''out of range''),
       ml_to_sql_error = ''out of range'', ml_sum_overflow = ''integer overflow'',
       ml_model_name = ''toy'', ml_dimensions = 1 \<rparr>"

definition example_shard_row :: shard_row where
  "example_shard_row =
     \<lparr> shr_device_id = DeviceId ''d'', shr_relative_path = shard_relative_path (DeviceId ''d''),
       shr_state = ShardActive, shr_generation = 1, shr_routing_terms = [],
       shr_namespaces_json = ''[]'', shr_fact_count = 0, shr_document_count = 0,
       shr_chunk_count = 0, shr_message_count = 0, shr_search_count = 0, shr_ewma_latency_ms = 0,
       shr_last_refreshed_at = None, shr_created_at = [] \<rparr>"

definition example_store_state :: "(string, unit) MnemesStore" where
  "example_store_state =
     \<lparr> st_pool = example_registry\<lparr>db_shards := [example_shard_row]\<rparr>, st_cache = cache_new 2,
       st_memory = (), st_routing_receipts = [], st_profile_receipts = [], st_synced_facts = [],
       st_receipt_auth_key = [7] \<rparr>"

end
