(* ===== verification/Server_Http.thy ===== *)
theory Server_Http
  imports Shard_Service Operation_Log
begin

text \<open>
  The HTTP server (\<open>src/server.rs\<close>): bearer tokens, authorization, the mapping of errors to
  statuses, and the handlers of devices, actors, operations, receipts, the audit log, health and
  integrity.

  A handler takes the parsed request and the store; it answers with a status and either the text
  of an \<open>ErrorResponse\<close> or its typed body. Routing and the extraction of JSON and query parameters
  are in \<open>Server_Router\<close>. Every handler of the file is here or in the theories that import
  this one.
\<close>

section \<open>Requests and answers\<close>

datatype StatusCode =
    OK
  | CREATED
  | BAD_REQUEST
  | UNAUTHORIZED
  | FORBIDDEN
  | NOT_FOUND
  | CONFLICT
  | NOT_IMPLEMENTED

type_synonym 'b response = "StatusCode \<times> (string + 'b)"

text \<open>The header \<open>authorization\<close>: absent, not visible ASCII, or a text.\<close>

type_synonym HeaderMap = "string option option"

text \<open>\<open>std::env::var\<close>.\<close>

datatype env_var = VarPresent string | VarNotPresent | VarNotUnicode

record 'u server_env =
  sv_pool :: pool_env
  sv_uuid :: "'u uuid_lib"
  sv_fresh_id :: string
  sv_audit_id :: string
  sv_secret :: string
  sv_bootstrap_secret :: env_var
  sv_server_id :: string
  sv_mismatch :: string

record ServerContext =
  sc_device :: Device
  sc_actor :: "Actor option"

definition SCHEMA_VERSION :: string where
  "SCHEMA_VERSION = ''mnemes.server.v1''"

section \<open>Authorization\<close>

text \<open>\<open>str::trim_start_matches\<close> removes the pattern as often as it occurs.\<close>

function trim_start_matches :: "string \<Rightarrow> string \<Rightarrow> string" where
  "trim_start_matches p s =
     (if p \<noteq> [] \<and> starts_with p s then trim_start_matches p (drop (length p) s) else s)"
  by pat_completeness auto

termination
proof (relation "measure (\<lambda>(p, s). length s)")
  fix p s :: string
  assume "p \<noteq> [] \<and> starts_with p s"
  then have "take (length p) s = p" "0 < length p" by simp_all
  then have "0 < length s" by (cases s) auto
  with \<open>0 < length p\<close> show "((p, drop (length p) s), p, s) \<in> measure (\<lambda>(p, s). length s)" by simp
qed simp

declare trim_start_matches.simps [simp del]

definition bearer_token :: "HeaderMap \<Rightarrow> MnemesError + string" where
  "bearer_token headers =
     bindR (ok_or InvalidCredential headers) (\<lambda>value.
     bindR (ok_or InvalidCredential value) (\<lambda>raw.
     if \<not> starts_with ''Bearer '' raw then Inl InvalidCredential
     else let token = trim (trim_start_matches ''Bearer '' raw) in
     if token = [] then Inl InvalidCredential else Inr token))"

definition parse_device_id :: "'u uuid_lib \<Rightarrow> string \<Rightarrow> MnemesError + DeviceId" where
  "parse_device_id u raw = map_err (\<lambda>_. DeviceNotFound raw) (device_id_parse u raw)"

definition parse_actor_id :: "'u uuid_lib \<Rightarrow> string \<Rightarrow> MnemesError + ActorId" where
  "parse_actor_id u raw = map_err (\<lambda>_. InvalidAsOf ''invalid actor id'') (actor_id_parse u raw)"

definition authorize ::
    "'u server_env \<Rightarrow> HeaderMap \<Rightarrow> ActorId option \<Rightarrow> pool_db \<Rightarrow> MnemesError + ServerContext" where
  "authorize env headers actor_id db =
     bindR (bearer_token headers) (\<lambda>token.
     bindR (authenticate_request (sv_pool env) (sv_uuid env) token actor_id db) (\<lambda>(device, actor).
     Inr \<lparr> sc_device = device, sc_actor = actor \<rparr>))"

definition map_store_error :: "MnemesError \<Rightarrow> StatusCode \<times> string \<times> string" where
  "map_store_error error =
     (case error of
        InvalidCredential \<Rightarrow> (UNAUTHORIZED, ''invalid credentials'', ''denied'')
      | DeviceNotActive _ \<Rightarrow> (FORBIDDEN, ''access denied'', ''denied'')
      | AuthorizationDenied _ \<Rightarrow> (FORBIDDEN, ''access denied'', ''denied'')
      | MemoryGrantDenied _ \<Rightarrow> (FORBIDDEN, ''access denied'', ''denied'')
      | ActorProfileBindingDenied _ \<Rightarrow> (FORBIDDEN, ''access denied'', ''denied'')
      | AuthorizationSnapshotInvalid _ \<Rightarrow> (CONFLICT, ''authorization snapshot invalid'', ''error'')
      | DeviceNotFound _ \<Rightarrow> (NOT_FOUND, ''not found'', ''error'')
      | ActorNotFound _ \<Rightarrow> (NOT_FOUND, ''not found'', ''error'')
      | _ \<Rightarrow> (BAD_REQUEST, ''invalid request'', ''error''))"

definition error_response :: "MnemesError \<Rightarrow> 'b response" where
  "error_response error = (let (status, message, _) = map_store_error error in (status, Inl message))"

definition ensure_operator :: "Actor option \<Rightarrow> MnemesError + unit" where
  "ensure_operator actor =
     bindR (ok_or (AuthorizationDenied ''actor required'') actor) (\<lambda>actor.
     if act_tool_profile actor \<noteq> Operator
     then Inl (AuthorizationDenied ''operator profile required'')
     else Inr ())"

section \<open>The shape of a handler\<close>

text \<open>\<open>match m { Ok(x) => k, Err(error) => return error_response(&error) }\<close>.\<close>

definition handling ::
    "('st \<Rightarrow> (MnemesError + 'a) \<times> 'st) \<Rightarrow> ('a \<Rightarrow> 'st \<Rightarrow> 'b response \<times> 'st) \<Rightarrow> 'st \<Rightarrow> 'b response \<times> 'st" where
  "handling m k st =
     (case m st of
        (Inl e, st) \<Rightarrow> (error_response e, st)
      | (Inr x, st) \<Rightarrow> k x st)"

definition refuse :: "MnemesError \<Rightarrow> 'st \<Rightarrow> 'b response \<times> 'st" where
  "refuse e st = (error_response e, st)"

text \<open>Operations of the control plane on the store.\<close>

definition poolS ::
    "(pool_db \<Rightarrow> MnemesError + 'a \<times> pool_db) \<Rightarrow> ('s, 'm, 'z) MnemesStore_scheme \<Rightarrow>
     (MnemesError + 'a) \<times> ('s, 'm, 'z) MnemesStore_scheme" where
  "poolS f st =
     (case f (st_pool st) of
        Inl e \<Rightarrow> (Inl e, st)
      | Inr (x, db) \<Rightarrow> (Inr x, st\<lparr>st_pool := db\<rparr>))"

text \<open>The result of writing the audit event is dropped.\<close>

definition log_audit ::
    "'u server_env \<Rightarrow> Device option \<Rightarrow> Actor option \<Rightarrow> string \<Rightarrow> string \<Rightarrow> string \<Rightarrow> string option \<Rightarrow>
     ('s, 'm, 'z) MnemesStore_scheme \<Rightarrow> ('s, 'm, 'z) MnemesStore_scheme" where
  "log_audit env device actor endpoint method_name outcome detail st =
     snd (poolS (log_audit_event (sv_pool env) (sv_audit_id env) (map_option dev_device_id device)
       (map_option act_actor_id actor) endpoint method_name outcome detail) st)"

definition audit_context ::
    "'u server_env \<Rightarrow> ServerContext \<Rightarrow> string \<Rightarrow> string \<Rightarrow> string \<Rightarrow> string \<Rightarrow>
     ('s, 'm, 'z) MnemesStore_scheme \<Rightarrow> ('s, 'm, 'z) MnemesStore_scheme" where
  "audit_context env context endpoint method_name outcome detail =
     log_audit env (Some (sc_device context)) (sc_actor context) endpoint method_name outcome
       (Some detail)"

definition answer ::
    "'u server_env \<Rightarrow> ServerContext \<Rightarrow> string \<Rightarrow> string \<Rightarrow> string \<Rightarrow> StatusCode \<Rightarrow> 'b \<Rightarrow>
     ('s, 'm, 'z) MnemesStore_scheme \<Rightarrow> 'b response \<times> ('s, 'm, 'z) MnemesStore_scheme" where
  "answer env context endpoint method_name detail status body st =
     ((status, Inr body), audit_context env context endpoint method_name ''ok'' detail st)"

text \<open>An error that is written to the audit log before it is answered.\<close>

definition handling_logged ::
    "'u server_env \<Rightarrow> ServerContext \<Rightarrow> string \<Rightarrow> string \<Rightarrow> string \<Rightarrow>
     (('s, 'm, 'z) MnemesStore_scheme \<Rightarrow> (MnemesError + 'a) \<times> ('s, 'm, 'z) MnemesStore_scheme) \<Rightarrow>
     ('a \<Rightarrow> ('s, 'm, 'z) MnemesStore_scheme \<Rightarrow> 'b response \<times> ('s, 'm, 'z) MnemesStore_scheme) \<Rightarrow>
     ('s, 'm, 'z) MnemesStore_scheme \<Rightarrow> 'b response \<times> ('s, 'm, 'z) MnemesStore_scheme" where
  "handling_logged env context endpoint method_name detail m k st =
     (case m st of
        (Inl e, st) \<Rightarrow>
          (error_response e, audit_context env context endpoint method_name ''error'' detail st)
      | (Inr x, st) \<Rightarrow> k x st)"

text \<open>The start of every authenticated handler.\<close>

definition authorized ::
    "'u server_env \<Rightarrow> HeaderMap \<Rightarrow> ActorId option \<Rightarrow>
     (ServerContext \<Rightarrow> ('s, 'm, 'z) MnemesStore_scheme \<Rightarrow> 'b response \<times> ('s, 'm, 'z) MnemesStore_scheme) \<Rightarrow>
     ('s, 'm, 'z) MnemesStore_scheme \<Rightarrow> 'b response \<times> ('s, 'm, 'z) MnemesStore_scheme" where
  "authorized env headers actor_id k =
     handling (readS (\<lambda>st. authorize env headers actor_id (st_pool st))) k"

section \<open>Health\<close>

record HealthResponse =
  he_service_id :: string
  he_schema_version :: string
  he_server_time :: string
  he_ready :: bool
  he_embedding :: "(string \<times> string) list"

definition health_handler ::
    "'u server_env \<Rightarrow> ('s, 'm, 'src) memory_lib \<Rightarrow> HeaderMap \<Rightarrow> ('s, 'm, 'z) MnemesStore_scheme \<Rightarrow>
     HealthResponse response \<times> ('s, 'm, 'z) MnemesStore_scheme" where
  "health_handler env lib headers =
     authorized env headers None (\<lambda>context.
     answer env context ''/v1/health'' ''GET'' ''health read'' OK
       \<lparr> he_service_id = sv_server_id env, he_schema_version = SCHEMA_VERSION,
         he_server_time = pe_now (sv_pool env),
         he_ready = (dev_status (sc_device context) = DevActive),
         he_embedding = [(''dimensions'', dec_nat (ml_dimensions lib)), (''model'', ml_model_name lib)] \<rparr>)"

definition livez_handler :: "'st \<Rightarrow> (string \<times> string) response \<times> 'st" where
  "livez_handler st = ((OK, Inr (''service'', ''up'')), st)"

definition legacy_sync_disabled_handler :: "'st \<Rightarrow> (string \<times> string) response \<times> 'st" where
  "legacy_sync_disabled_handler st = ((NOT_IMPLEMENTED, Inr (''SYNC_DISABLED'',
     ''Legacy synchronization is disabled; typed signed replication is required'')), st)"

section \<open>Integrity\<close>

record ShardIntegrityStatus =
  is_device_id :: DeviceId
  is_relative_path :: string
  is_status :: string
  is_detail :: string

text \<open>The report of semantic-memory's quick verification: its verdict, its issues, itself.\<close>

record IntegrityReport =
  ir_ok :: bool
  ir_issues :: string
  ir_debug :: string

record ('s, 'm) verify_lib =
  vl_metadata :: "string \<Rightarrow> string option"
  vl_verify :: "'s \<Rightarrow> 'm \<Rightarrow> MemoryError + IntegrityReport"

text \<open>\<open>vl_metadata\<close> gives the error of reading the file of a shard, if there is one.\<close>

definition verify_one_shard ::
    "pool_env \<Rightarrow> ('s, 'm, 'src) memory_lib \<Rightarrow> ('s, 'm) verify_lib \<Rightarrow> DeviceShard \<Rightarrow>
     ('s, 'm, 'z) MnemesStore_scheme \<Rightarrow> ShardIntegrityStatus \<times> ('s, 'm, 'z) MnemesStore_scheme" where
  "verify_one_shard env lib vl shard st =
     (let status = (\<lambda>status detail. \<lparr> is_device_id = sh_device_id shard,
            is_relative_path = sh_relative_path shard, is_status = status, is_detail = detail \<rparr>) in
      case vl_metadata vl (shard_relative_path (sh_device_id shard) @ ''/memory.db'') of
        Some error \<Rightarrow> (status ''failed'' (''cataloged shard database unavailable: '' @ error), st)
      | None \<Rightarrow>
          (case device_memory env lib (sh_device_id shard) st of
             (Inl error, st) \<Rightarrow> (status ''failed'' (display_mnemes_error (ml_display lib) error), st)
           | (Inr memory, st) \<Rightarrow>
               (case vl_verify vl memory (st_memory st) of
                  Inl error \<Rightarrow> (status ''failed'' (ml_display lib error), st)
                | Inr report \<Rightarrow>
                    if ir_ok report then (status ''ok'' (ir_debug report), st)
                    else (status ''degraded'' (''issues: '' @ ir_issues report), st))))"

fun verify_shards ::
    "pool_env \<Rightarrow> ('s, 'm, 'src) memory_lib \<Rightarrow> ('s, 'm) verify_lib \<Rightarrow> DeviceShard list \<Rightarrow>
     ('s, 'm, 'z) MnemesStore_scheme \<Rightarrow>
     ShardIntegrityStatus list \<times> ('s, 'm, 'z) MnemesStore_scheme" where
  "verify_shards env lib vl [] st = ([], st)"
| "verify_shards env lib vl (shard # shards) st =
     (let (status, st) = verify_one_shard env lib vl shard st;
          (statuses, st) = verify_shards env lib vl shards st
      in (status # statuses, st))"

definition verify_all_shards ::
    "pool_env \<Rightarrow> ('s, 'm, 'src) memory_lib \<Rightarrow> ('s, 'm) verify_lib \<Rightarrow>
     ('s, 'm, 'z) MnemesStore_scheme \<Rightarrow>
     (MnemesError + ShardIntegrityStatus list) \<times> ('s, 'm, 'z) MnemesStore_scheme" where
  "verify_all_shards env lib vl =
     bindS (readS (\<lambda>st. list_shards lib (st_pool st))) (\<lambda>shards. \<lambda>st.
     let (statuses, st) = verify_shards env lib vl shards st in (Inr statuses, st))"

record IntegrityAnswer =
  ia_service_id :: string
  ia_schema_version :: string
  ia_checked_at :: string
  ia_report :: "ShardIntegrityStatus list"

definition integrity_handler ::
    "'u server_env \<Rightarrow> ('s, 'm, 'src) memory_lib \<Rightarrow> ('s, 'm) verify_lib \<Rightarrow> HeaderMap \<Rightarrow>
     ('s, 'm, 'z) MnemesStore_scheme \<Rightarrow> IntegrityAnswer response \<times> ('s, 'm, 'z) MnemesStore_scheme" where
  "integrity_handler env lib vl headers =
     authorized env headers None (\<lambda>context.
     handling_logged env context ''/v1/integrity'' ''GET'' ''verify failed''
       (verify_all_shards (sv_pool env) lib vl) (\<lambda>reports.
     answer env context ''/v1/integrity'' ''GET'' ''integrity report read'' OK
       \<lparr> ia_service_id = sv_server_id env, ia_schema_version = SCHEMA_VERSION,
         ia_checked_at = pe_now (sv_pool env), ia_report = reports \<rparr>))"

section \<open>Devices\<close>

record RegisterDeviceRequest =
  rd_label :: string
  rd_platform :: string
  rd_hostname :: string

record RegisterDeviceResponse =
  rdr_device_id :: string
  rdr_credential :: string
  rdr_first_seen_at :: string
  rdr_last_seen_at :: string
  rdr_status :: string

record DeviceInfo =
  di_device_id :: string
  di_label :: string
  di_platform :: string
  di_hostname :: string
  di_status :: string
  di_first_seen_at :: string
  di_last_seen_at :: string

definition device_info :: "Device \<Rightarrow> DeviceInfo" where
  "device_info value =
     \<lparr> di_device_id = device_id_str (dev_device_id value), di_label = dev_label value,
       di_platform = dev_platform value, di_hostname = dev_hostname value,
       di_status = device_status_as_str (dev_status value),
       di_first_seen_at = dev_first_seen_at value, di_last_seen_at = dev_last_seen_at value \<rparr>"

text \<open>The gate of registration, which is not an authorization.\<close>

definition registration_gate :: "'u server_env \<Rightarrow> HeaderMap \<Rightarrow> pool_db \<Rightarrow> MnemesError + unit" where
  "registration_gate env headers db =
     (case sv_bootstrap_secret env of
        VarPresent secret \<Rightarrow>
          (case bearer_token headers of
             Inr token \<Rightarrow> if token = secret then Inr () else Inl InvalidCredential
           | Inl _ \<Rightarrow> Inl InvalidCredential)
      | VarNotPresent \<Rightarrow>
          if count_devices db = 0 then Inr ()
          else Inl (AuthorizationDenied ''registration closed'')
      | VarNotUnicode \<Rightarrow> Inl InvalidCredential)"

definition register_device_handler ::
    "'u server_env \<Rightarrow> HeaderMap \<Rightarrow> RegisterDeviceRequest \<Rightarrow> ('s, 'm, 'z) MnemesStore_scheme \<Rightarrow>
     RegisterDeviceResponse response \<times> ('s, 'm, 'z) MnemesStore_scheme" where
  "register_device_handler env headers payload =
     handling (readS (\<lambda>st. registration_gate env headers (st_pool st))) (\<lambda>_.
     let new_device = device_new (DeviceId (sv_fresh_id env)) (rd_label payload)
           (rd_platform payload) (rd_hostname payload) in
     handling (poolS (register_device_with_generated_credential (sv_pool env) (sv_secret env)
         new_device)) (\<lambda>(device_id, credential).
     handling (readS (\<lambda>st. ok_or (DeviceNotFound (device_id_str device_id))
         (get_device device_id (st_pool st)))) (\<lambda>device. \<lambda>st.
     ((CREATED, Inr \<lparr> rdr_device_id = device_id_str (dev_device_id device),
         rdr_credential = credential, rdr_first_seen_at = dev_first_seen_at device,
         rdr_last_seen_at = dev_last_seen_at device,
         rdr_status = device_status_as_str (dev_status device) \<rparr>),
      log_audit env (Some device) None ''/v1/devices/register'' ''POST'' ''ok''
        (Some ''device registered'') st))))"

definition list_devices_handler ::
    "'u server_env \<Rightarrow> HeaderMap \<Rightarrow> ('s, 'm, 'z) MnemesStore_scheme \<Rightarrow>
     DeviceInfo list response \<times> ('s, 'm, 'z) MnemesStore_scheme" where
  "list_devices_handler env headers =
     authorized env headers None (\<lambda>context. \<lambda>st.
     answer env context ''/v1/devices'' ''GET'' ''devices listed'' OK
       (map device_info (list_devices (st_pool st))) st)"

text \<open>The start of the handlers of one device: only the device itself may go on.\<close>

definition own_device ::
    "'u server_env \<Rightarrow> HeaderMap \<Rightarrow> string \<Rightarrow>
     (DeviceId \<Rightarrow> ServerContext \<Rightarrow> ('s, 'm, 'z) MnemesStore_scheme \<Rightarrow>
      'b response \<times> ('s, 'm, 'z) MnemesStore_scheme) \<Rightarrow>
     ('s, 'm, 'z) MnemesStore_scheme \<Rightarrow> 'b response \<times> ('s, 'm, 'z) MnemesStore_scheme" where
  "own_device env headers raw k =
     handling (readS (\<lambda>_. parse_device_id (sv_uuid env) raw)) (\<lambda>device_id.
     authorized env headers None (\<lambda>context.
     if dev_device_id (sc_device context) \<noteq> device_id
     then refuse (AuthorizationDenied ''device mismatch'')
     else k device_id context))"

definition heartbeat_handler ::
    "'u server_env \<Rightarrow> HeaderMap \<Rightarrow> string \<Rightarrow> ('s, 'm, 'z) MnemesStore_scheme \<Rightarrow>
     bool response \<times> ('s, 'm, 'z) MnemesStore_scheme" where
  "heartbeat_handler env headers raw =
     own_device env headers raw (\<lambda>device_id context.
     handling_logged env context ''/v1/devices/{id}/heartbeat'' ''POST'' ''heartbeat failed''
       (poolS (heartbeat_device (sv_pool env) device_id)) (\<lambda>_.
     answer env context ''/v1/devices/{id}/heartbeat'' ''POST'' ''heartbeat accepted'' OK True))"

definition rotate_device_handler ::
    "'u server_env \<Rightarrow> HeaderMap \<Rightarrow> string \<Rightarrow> ('s, 'm, 'z) MnemesStore_scheme \<Rightarrow>
     (string \<times> string) response \<times> ('s, 'm, 'z) MnemesStore_scheme" where
  "rotate_device_handler env headers raw =
     own_device env headers raw (\<lambda>device_id context.
     handling_logged env context ''/v1/devices/{id}/rotate'' ''POST'' ''rotate failed''
       (poolS (rotate_device_credential (sv_pool env) (sv_secret env) device_id)) (\<lambda>credential.
     answer env context ''/v1/devices/{id}/rotate'' ''POST'' ''device credential rotated'' OK
       (device_id_str device_id, credential)))"

definition revoke_device_handler ::
    "'u server_env \<Rightarrow> HeaderMap \<Rightarrow> string \<Rightarrow> ('s, 'm, 'z) MnemesStore_scheme \<Rightarrow>
     (string \<times> string) response \<times> ('s, 'm, 'z) MnemesStore_scheme" where
  "revoke_device_handler env headers raw =
     own_device env headers raw (\<lambda>device_id context.
     handling_logged env context ''/v1/devices/{id}/revoke'' ''POST'' ''revoke failed''
       (poolS (revoke_device (sv_pool env) device_id)) (\<lambda>_.
     answer env context ''/v1/devices/{id}/revoke'' ''POST'' ''device revoked'' OK
       (''revoked'', device_id_str device_id)))"

definition quarantine_device_handler ::
    "'u server_env \<Rightarrow> HeaderMap \<Rightarrow> string \<Rightarrow> ('s, 'm, 'z) MnemesStore_scheme \<Rightarrow>
     (string \<times> string) response \<times> ('s, 'm, 'z) MnemesStore_scheme" where
  "quarantine_device_handler env headers raw =
     own_device env headers raw (\<lambda>device_id context.
     handling_logged env context ''/v1/devices/{id}/quarantine'' ''POST'' ''quarantine failed''
       (poolS (set_device_status (sv_pool env) device_id DevQuarantined)) (\<lambda>_.
     answer env context ''/v1/devices/{id}/quarantine'' ''POST'' ''device quarantined'' OK
       (''quarantined'', device_id_str device_id)))"

section \<open>Actors\<close>

record RegisterActorRequest =
  ra_device_id :: string
  ra_actor_kind :: string
  ra_provider_model :: "string option"
  ra_tool_profile :: "string option"

record ActorInfo =
  ai_actor_id :: string
  ai_device_id :: string
  ai_actor_kind :: string
  ai_tool_profile :: string
  ai_provider_model :: "string option"
  ai_recorded_at :: string

definition actor_info :: "Actor \<Rightarrow> ActorInfo" where
  "actor_info actor =
     \<lparr> ai_actor_id = actor_id_str (act_actor_id actor), ai_device_id = device_id_str (act_device_id actor),
       ai_actor_kind = actor_kind_as_str (act_actor_kind actor),
       ai_tool_profile = tool_profile_as_str (act_tool_profile actor),
       ai_provider_model = act_provider_model actor, ai_recorded_at = act_recorded_at actor \<rparr>"

definition list_actors_handler ::
    "'u server_env \<Rightarrow> HeaderMap \<Rightarrow> string option \<Rightarrow> ('s, 'm, 'z) MnemesStore_scheme \<Rightarrow>
     ActorInfo list response \<times> ('s, 'm, 'z) MnemesStore_scheme" where
  "list_actors_handler env headers query =
     authorized env headers None (\<lambda>context.
     handling (readS (\<lambda>st.
       case query of
         Some raw \<Rightarrow> bindR (parse_device_id (sv_uuid env) raw) (\<lambda>device_id.
           Inr (list_actors_for_device device_id (st_pool st)))
       | None \<Rightarrow> Inr (list_actors (st_pool st)))) (\<lambda>actors.
     answer env context ''/v1/actors'' ''GET'' ''actors listed'' OK (map actor_info actors)))"

text \<open>The actor of a request; an absent or unknown profile is the default one.\<close>

definition requested_actor :: "string \<Rightarrow> DeviceId \<Rightarrow> RegisterActorRequest \<Rightarrow> Actor" where
  "requested_actor fresh_id device_id payload =
     \<lparr> act_actor_id = ActorId fresh_id, act_device_id = device_id,
       act_tool_profile =
         (case Option.bind (ra_tool_profile payload) tool_profile_parse of
            None \<Rightarrow> Agent | Some profile \<Rightarrow> profile),
       act_actor_kind = actor_kind_parse (ra_actor_kind payload),
       act_provider_model = ra_provider_model payload, act_recorded_at = [] \<rparr>"

definition register_actor_handler ::
    "'u server_env \<Rightarrow> HeaderMap \<Rightarrow> RegisterActorRequest \<Rightarrow> ('s, 'm, 'z) MnemesStore_scheme \<Rightarrow>
     string response \<times> ('s, 'm, 'z) MnemesStore_scheme" where
  "register_actor_handler env headers payload =
     own_device env headers (ra_device_id payload) (\<lambda>device_id context.
     handling (poolS (register_actor (sv_pool env)
         (requested_actor (sv_fresh_id env) device_id payload))) (\<lambda>actor_id.
     answer env context ''/v1/actors'' ''POST'' ''actor registered'' CREATED
       (actor_id_str actor_id)))"

section \<open>Operations\<close>

definition parse_operation_kind :: "string \<Rightarrow> MnemesError + OperationKind" where
  "parse_operation_kind value =
     (if value = ''observe'' then Inr Observe
      else if value = ''assert'' then Inr Assert
      else if value = ''supersede'' then Inr Supersede
      else if value = ''revoke'' then Inr Revoke
      else if value = ''redact'' then Inr Redact
      else if value = ''adjudicate'' then Inr Adjudicate
      else Inl (InvalidAsOf ''invalid operation kind''))"

record OperationSubmitRequest =
  os_idempotency_key :: string
  os_requesting_device_id :: string
  os_requesting_actor_id :: string
  os_operation_kind :: string
  os_target_kind :: string
  os_target_id :: string
  os_content_digest :: string
  os_recording_device_id :: "string option"
  os_recording_server_id :: "string option"
  os_observed_at :: "string option"
  os_valid_time :: "string option"

record OperationEnvelopeResponse =
  oe_operation_id :: string
  oe_receipt_id :: string
  oe_idempotency_key :: string
  oe_recorded_at :: string

text \<open>A device id of the request, or the authenticated device.\<close>

definition device_or :: "'u uuid_lib \<Rightarrow> DeviceId \<Rightarrow> string option \<Rightarrow> MnemesError + DeviceId" where
  "device_or u own raw = (case raw of Some raw \<Rightarrow> parse_device_id u raw | None \<Rightarrow> Inr own)"

definition requested_operation ::
    "'u server_env \<Rightarrow> DeviceId \<Rightarrow> ActorId \<Rightarrow> OperationSubmitRequest \<Rightarrow>
     MnemesError + OperationEnvelope" where
  "requested_operation env device_id actor_id payload =
     bindR (device_or (sv_uuid env) device_id (os_recording_device_id payload)) (\<lambda>recording_device_id.
     bindR (device_or (sv_uuid env) device_id (os_recording_server_id payload)) (\<lambda>recording_server_id.
     bindR (parse_operation_kind (os_operation_kind payload)) (\<lambda>kind.
     Inr \<lparr> op_operation_id = OperationId (sv_fresh_id env),
           op_idempotency_key = os_idempotency_key payload, op_requesting_device_id = device_id,
           op_requesting_actor_id = actor_id, op_recording_device_id = recording_device_id,
           op_recording_server_id = recording_server_id, op_operation_kind = kind,
           op_target_kind = os_target_kind payload, op_target_id = os_target_id payload,
           op_content_digest = os_content_digest payload, op_observed_at = os_observed_at payload,
           op_valid_time = os_valid_time payload, op_recorded_at = [], op_receipt_id = None \<rparr>)))"

definition operation_response :: "string \<Rightarrow> OperationEnvelope \<Rightarrow> OperationEnvelopeResponse" where
  "operation_response receipt_id envelope =
     \<lparr> oe_operation_id = operation_id_str (op_operation_id envelope), oe_receipt_id = receipt_id,
       oe_idempotency_key = op_idempotency_key envelope, oe_recorded_at = op_recorded_at envelope \<rparr>"

text \<open>
  Here the recording devices are parsed after authorization, and an error of the lookup after the
  submission is not written to the audit log.
\<close>

definition submit_operation_handler ::
    "'u server_env \<Rightarrow> HeaderMap \<Rightarrow> OperationSubmitRequest \<Rightarrow> ('s, 'm, 'z) MnemesStore_scheme \<Rightarrow>
     OperationEnvelopeResponse response \<times> ('s, 'm, 'z) MnemesStore_scheme" where
  "submit_operation_handler env headers payload =
     handling (readS (\<lambda>_. parse_device_id (sv_uuid env) (os_requesting_device_id payload))) (\<lambda>device_id.
     handling (readS (\<lambda>_. parse_actor_id (sv_uuid env) (os_requesting_actor_id payload))) (\<lambda>actor_id.
     authorized env headers (Some actor_id) (\<lambda>context.
     if dev_device_id (sc_device context) \<noteq> device_id
     then refuse (AuthorizationDenied ''device mismatch'')
     else
     handling (readS (\<lambda>_. ensure_operator (sc_actor context))) (\<lambda>_.
     handling (readS (\<lambda>_. requested_operation env device_id actor_id payload)) (\<lambda>operation.
     handling_logged env context ''/v1/operations'' ''POST'' ''submit failed''
       (poolS (submit_operation (sv_pool env) operation)) (\<lambda>receipt_id.
     handling (readS (\<lambda>st. ok_or (InvalidAsOf ''operation not found'')
         (get_operation_by_idempotency_key (os_idempotency_key payload) (st_pool st)))) (\<lambda>envelope.
     answer env context ''/v1/operations'' ''POST'' ''operation submitted'' CREATED
       (operation_response receipt_id envelope))))))))"

record OperationInfo =
  oi_operation_id :: string
  oi_requesting_device_id :: string
  oi_requesting_actor_id :: string
  oi_operation_kind :: string
  oi_target_kind :: string
  oi_target_id :: string
  oi_content_digest :: string
  oi_observed_at :: "string option"
  oi_valid_time :: "string option"
  oi_recorded_at :: string
  oi_idempotency_key :: string
  oi_receipt_id :: "string option"

definition operation_info :: "OperationEnvelope \<Rightarrow> OperationInfo" where
  "operation_info operation =
     \<lparr> oi_operation_id = operation_id_str (op_operation_id operation),
       oi_requesting_device_id = device_id_str (op_requesting_device_id operation),
       oi_requesting_actor_id = actor_id_str (op_requesting_actor_id operation),
       oi_operation_kind = operation_kind_as_str (op_operation_kind operation),
       oi_target_kind = op_target_kind operation, oi_target_id = op_target_id operation,
       oi_content_digest = op_content_digest operation, oi_observed_at = op_observed_at operation,
       oi_valid_time = op_valid_time operation, oi_recorded_at = op_recorded_at operation,
       oi_idempotency_key = op_idempotency_key operation, oi_receipt_id = op_receipt_id operation \<rparr>"

record OperationFilterQuery =
  of_device_id :: "string option"
  of_actor_id :: "string option"
  of_limit :: "usize option"

definition parse_optional :: "(string \<Rightarrow> MnemesError + 'a) \<Rightarrow> string option \<Rightarrow> MnemesError + 'a option" where
  "parse_optional parse raw =
     (case raw of Some raw \<Rightarrow> bindR (parse raw) (\<lambda>value. Inr (Some value)) | None \<Rightarrow> Inr None)"

definition or_100 :: "usize option \<Rightarrow> usize" where
  "or_100 limit = (case limit of None \<Rightarrow> 100 | Some n \<Rightarrow> n)"

definition list_operations_handler ::
    "'u server_env \<Rightarrow> HeaderMap \<Rightarrow> OperationFilterQuery \<Rightarrow> ('s, 'm, 'z) MnemesStore_scheme \<Rightarrow>
     OperationInfo list response \<times> ('s, 'm, 'z) MnemesStore_scheme" where
  "list_operations_handler env headers query =
     handling (readS (\<lambda>_. parse_optional (parse_actor_id (sv_uuid env)) (of_actor_id query)))
       (\<lambda>actor_filter.
     authorized env headers actor_filter (\<lambda>context.
     handling (readS (\<lambda>_. parse_optional (parse_device_id (sv_uuid env)) (of_device_id query)))
       (\<lambda>device_filter. \<lambda>st.
     answer env context ''/v1/operations'' ''GET'' ''operations listed'' OK
       (map operation_info (list_operations device_filter actor_filter (or_100 (of_limit query))
          (st_pool st))) st)))"

definition parse_id :: "'u uuid_lib \<Rightarrow> string \<Rightarrow> OperationId option" where
  "parse_id u raw = (case operation_id_parse u raw of Inr operation_id \<Rightarrow> Some operation_id | Inl _ \<Rightarrow> None)"

definition get_operation_handler ::
    "'u server_env \<Rightarrow> HeaderMap \<Rightarrow> string \<Rightarrow> ('s, 'm, 'z) MnemesStore_scheme \<Rightarrow>
     OperationInfo response \<times> ('s, 'm, 'z) MnemesStore_scheme" where
  "get_operation_handler env headers raw =
     handling (readS (\<lambda>_. ok_or (InvalidAsOf ''invalid operation id'') (parse_id (sv_uuid env) raw)))
       (\<lambda>operation_id.
     authorized env headers None (\<lambda>context.
     handling (readS (\<lambda>st. ok_or (InvalidAsOf ''operation not found'')
         (get_operation operation_id (st_pool st)))) (\<lambda>envelope.
     answer env context ''/v1/operations/{operation_id}'' ''GET'' ''operation read'' OK
       (operation_info envelope))))"

text \<open>The JSON object of a receipt holds the fields of the envelope.\<close>

definition get_receipt_handler ::
    "'u server_env \<Rightarrow> HeaderMap \<Rightarrow> string \<Rightarrow> ('s, 'm, 'z) MnemesStore_scheme \<Rightarrow>
     OperationEnvelope response \<times> ('s, 'm, 'z) MnemesStore_scheme" where
  "get_receipt_handler env headers receipt_id =
     authorized env headers None (\<lambda>context.
     handling (readS (\<lambda>st. ok_or (InvalidAsOf ''receipt not found'')
         (get_operation_by_receipt receipt_id (st_pool st)))) (\<lambda>envelope.
     answer env context ''/v1/receipts/{receipt_id}'' ''GET'' ''receipt read'' OK envelope))"

section \<open>The audit log\<close>

text \<open>
  The limit is bound as text, which SQLite converts where it is a 64-bit integer. The order of
  equal times is open.
\<close>

definition list_audit_events :: "'u server_env \<Rightarrow> usize \<Rightarrow> pool_db \<Rightarrow> MnemesError + AuditEvent list" where
  "list_audit_events env limit db =
     (let effective_limit = (if limit = 0 then 100 else limit) in
      if int effective_limit > i64_max then Inl (mnemes_from_rusqlite (sv_mismatch env))
      else Inr (take effective_limit (rev (sort_key au_created_at (db_audit db)))))"

definition list_audit_events_handler ::
    "'u server_env \<Rightarrow> HeaderMap \<Rightarrow> usize option \<Rightarrow> ('s, 'm, 'z) MnemesStore_scheme \<Rightarrow>
     AuditEvent list response \<times> ('s, 'm, 'z) MnemesStore_scheme" where
  "list_audit_events_handler env headers limit =
     authorized env headers None (\<lambda>context.
     handling (readS (\<lambda>st. list_audit_events env (or_100 limit) (st_pool st))) (\<lambda>events.
     answer env context ''/v1/audit/events'' ''GET'' ''audit events listed'' OK events))"

end
