(* ===== verification/Server_Control.thy ===== *)
theory Server_Control
  imports Server_Http
begin

text \<open>
  What the HTTP handlers of the control plane promise: nothing is changed without a credential, a
  device changes only itself, a submission can be retried; and what they do not guard, the operator
  profile.
\<close>

section \<open>Requests without a credential\<close>

lemma handling_readS:
  "handling (readS f) k st = (case f st of Inl e \<Rightarrow> (error_response e, st) | Inr x \<Rightarrow> k x st)"
  by (simp add: handling_def readS_def split: sum.splits)

lemma authorized_cases:
  "authorized env headers actor_id k st =
     (case authorize env headers actor_id (st_pool st) of
        Inl e \<Rightarrow> (error_response e, st)
      | Inr context \<Rightarrow> k context st)"
  by (simp add: authorized_def handling_readS)

lemma authorize_ok:
  "authorize env headers actor_id db = Inr c \<longleftrightarrow>
     (\<exists>token. bearer_token headers = Inr token \<and>
        authenticate_request (sv_pool env) (sv_uuid env) token actor_id db = Inr (sc_device c, sc_actor c))"
  by (cases c) (auto simp: authorize_def bindR_eq_Inr)

lemma authenticate_actor_device:
  "authenticate_request env u token (Some a) db = Inr (d, x) \<Longrightarrow>
     authenticate_request env u token None db = Inr (d, None) \<and>
     (\<exists>actor. x = Some actor \<and> get_actor a db = Some actor \<and> act_device_id actor = dev_device_id d)"
  by (auto simp: authenticate_request_def result_simps split: if_splits)

lemma authenticate_without_actor: "authenticate_request env u token None db = Inr (d, x) \<Longrightarrow> x = None"
  by (auto simp: authenticate_request_def bindR_eq_Inr)

text \<open>Naming an actor only ever adds a condition.\<close>

lemma authorize_actor_device:
  "authorize env headers actor_id db = Inr c \<Longrightarrow>
     authorize env headers None db = Inr (c\<lparr>sc_actor := None\<rparr>)"
  by (cases actor_id)
    (auto simp: authorize_ok dest: authenticate_actor_device authenticate_without_actor)

definition anonymous :: "'u server_env \<Rightarrow> HeaderMap \<Rightarrow> pool_db \<Rightarrow> bool" where
  "anonymous env headers db \<longleftrightarrow> \<not> is_ok (authorize env headers None db)"

definition rejected :: "'b response \<times> 'st \<Rightarrow> 'st \<Rightarrow> bool" where
  "rejected r st \<longleftrightarrow>
     snd r = st \<and> \<not> is_ok (snd (fst r)) \<and> fst (fst r) \<noteq> OK \<and> fst (fst r) \<noteq> CREATED"

lemma error_response_refuses:
  "fst (error_response e) \<noteq> OK \<and> fst (error_response e) \<noteq> CREATED \<and> \<not> is_ok (snd (error_response e))"
  by (simp add: error_response_def map_store_error_def Let_def split: MnemesError.splits)

lemma rejected_error [simp]: "rejected (error_response e, st) st"
  by (simp add: rejected_def error_response_refuses)

lemma rejected_handling:
  "(\<And>x. f st = Inr x \<Longrightarrow> rejected (k x st) st) \<Longrightarrow> rejected (handling (readS f) k st) st"
  by (simp add: handling_readS split: sum.splits)

lemma rejected_authorized:
  assumes "anonymous env headers (st_pool st)"
  shows "rejected (authorized env headers actor_id k st) st"
proof (cases "authorize env headers actor_id (st_pool st)")
  case (Inr c)
  with authorize_actor_device assms show ?thesis by (fastforce simp: anonymous_def)
qed (simp add: authorized_cases)

lemma rejected_own_device:
  "anonymous env headers (st_pool st) \<Longrightarrow> rejected (own_device env headers raw k st) st"
  unfolding own_device_def by (rule rejected_handling) (rule rejected_authorized)

text \<open>The handlers of the control plane without a token that authenticates an active device.\<close>

lemma rejected_controls:
  assumes "anonymous env headers (st_pool st)"
  shows "rejected (health_handler env lib headers st) st"
    "rejected (integrity_handler env lib vl headers st) st"
    "rejected (list_devices_handler env headers st) st"
    "rejected (heartbeat_handler env headers raw st) st"
    "rejected (rotate_device_handler env headers raw st) st"
    "rejected (revoke_device_handler env headers raw st) st"
    "rejected (quarantine_device_handler env headers raw st) st"
    "rejected (list_actors_handler env headers query st) st"
    "rejected (register_actor_handler env headers actor st) st"
    "rejected (submit_operation_handler env headers payload st) st"
    "rejected (list_operations_handler env headers filters st) st"
    "rejected (get_operation_handler env headers raw st) st"
    "rejected (get_receipt_handler env headers raw st) st"
    "rejected (list_audit_events_handler env headers limit st) st"
  by (simp_all add: health_handler_def integrity_handler_def list_devices_handler_def heartbeat_handler_def
      rotate_device_handler_def revoke_device_handler_def quarantine_device_handler_def
      list_actors_handler_def register_actor_handler_def submit_operation_handler_def
      list_operations_handler_def get_operation_handler_def get_receipt_handler_def
      list_audit_events_handler_def rejected_authorized rejected_own_device rejected_handling assms)

definition example_server_env :: "string server_env" where
  "example_server_env = \<lparr> sv_pool = example_pool_env, sv_uuid = toy_uuid, sv_fresh_id = ''fresh'',
     sv_audit_id = ''audit'', sv_secret = ''s2'', sv_bootstrap_secret = VarNotPresent,
     sv_server_id = ''server'', sv_mismatch = ''datatype mismatch'' \<rparr>"

section \<open>What a device can change\<close>

lemma log_audit_pool:
  "\<exists>rows. log_audit env d a ep mt out detail st = st\<lparr>st_pool := (st_pool st)\<lparr>db_audit := rows\<rparr>\<rparr>"
  by (auto simp: log_audit_def poolS_def log_audit_event_def bindR_def sql_insert_def
      split: sum.splits intro: exI [of _ "db_audit (st_pool st)"])

text \<open>Everything the control plane keeps about one device.\<close>

definition device_view :: "DeviceId \<Rightarrow> pool_db \<Rightarrow> Device option \<times> shard_row option \<times> Actor list" where
  "device_view d db = (get_device d db, row_by shr_device_id d (db_shards db),
     filter (\<lambda>a. act_device_id a = d) (db_actors db))"

lemma device_view_audit [simp]: "device_view d (db\<lparr>db_audit := rows\<rparr>) = device_view d db"
  by (simp add: device_view_def get_device_def)

lemma device_view_log [simp]:
  "device_view d (st_pool (log_audit env dv a ep mt out detail st)) = device_view d (st_pool st)"
  using log_audit_pool [of env dv a ep mt out detail st] by auto

lemma row_by_update_other:
  assumes "\<And>r. key (f r) = key r" "\<And>r. p r \<Longrightarrow> key r = d" "k \<noteq> d"
  shows "row_by key k (snd (sql_update p f rows)) = row_by key k rows"
  using assms
  by (cases "row_by key k rows") (auto simp: row_by_update dest: row_by_SomeD)

lemma heartbeat_view:
  "heartbeat_device env own db = Inr (x, db') \<Longrightarrow> own \<noteq> d \<Longrightarrow> device_view d db' = device_view d db"
  by (auto simp: heartbeat_device_def device_view_def get_device_def Let_def split_beta
      split: if_splits intro!: row_by_update_other [where d = own])

lemma rotate_view:
  "rotate_device_credential env secret own db = Inr (x, db') \<Longrightarrow> own \<noteq> d \<Longrightarrow>
   device_view d db' = device_view d db"
  by (auto simp: rotate_device_credential_def device_view_def get_device_def Let_def split_beta
      row_by_update_other [where d = own] split: if_splits)

lemma set_status_view:
  "set_device_status env own status db = Inr (x, db') \<Longrightarrow> own \<noteq> d \<Longrightarrow>
   device_view d db' = device_view d db"
  by (auto simp: set_device_status_def device_view_def get_device_def Let_def split_beta
      row_by_update_other [where d = own] split: if_splits)

lemma register_actor_view:
  "register_actor env actor db = Inr (x, db') \<Longrightarrow> act_device_id actor \<noteq> d \<Longrightarrow>
   device_view d db' = device_view d db"
  by (auto simp: register_actor_def Let_def bindR_eq_Inr insert_actor_ok device_view_def get_device_def)

lemma submit_view: "submit_operation env op db = Inr (x, db') \<Longrightarrow> device_view d db' = device_view d db"
  by (auto simp: submit_operation_def submit_insert_ok device_view_def get_device_def
      split: option.splits sum.splits)

lemma audit_view [simp]:
  "device_view d (st_pool (audit_context env c ep mt out detail st)) = device_view d (st_pool st)"
  by (simp add: audit_context_def)

lemma answer_view [simp]:
  "device_view d (st_pool (snd (answer env c ep mt detail status body st))) = device_view d (st_pool st)"
  by (simp add: answer_def)

lemma handling_view:
  assumes "\<And>x db'. f (st_pool st) = Inr (x, db') \<Longrightarrow> device_view d db' = device_view d (st_pool st)"
    and "\<And>x st'. device_view d (st_pool (snd (k x st'))) = device_view d (st_pool st')"
  shows "device_view d (st_pool (snd (handling (poolS f) k st))) = device_view d (st_pool st)"
    and "device_view d (st_pool (snd (handling_logged env c ep mt detail (poolS f) k st))) =
      device_view d (st_pool st)"
  using assms by (auto simp: handling_def handling_logged_def poolS_def split: sum.splits)

lemma own_device_view:
  assumes "\<And>c. dev_device_id (sc_device c) \<noteq> d \<Longrightarrow>
      device_view d (st_pool (snd (k (dev_device_id (sc_device c)) c st))) = device_view d (st_pool st)"
    and "device_view d (st_pool (snd (own_device env headers raw k st))) \<noteq> device_view d (st_pool st)"
  shows "\<exists>c. authorize env headers None (st_pool st) = Inr c \<and> dev_device_id (sc_device c) = d"
  using assms
  by (auto simp: own_device_def handling_readS authorized_cases refuse_def split: sum.splits if_splits)

text \<open>
  At the six endpoints of the control plane that change something, a device's row, its shard and its
  actors change only on the device's own credential; a submission changes them for no device.
\<close>

lemma device_endpoints_confined:
  assumes "device_view d (st_pool (snd (heartbeat_handler env headers raw st))) \<noteq> device_view d (st_pool st) \<or>
      device_view d (st_pool (snd (rotate_device_handler env headers raw st))) \<noteq> device_view d (st_pool st) \<or>
      device_view d (st_pool (snd (revoke_device_handler env headers raw st))) \<noteq> device_view d (st_pool st) \<or>
      device_view d (st_pool (snd (quarantine_device_handler env headers raw st))) \<noteq> device_view d (st_pool st) \<or>
      device_view d (st_pool (snd (register_actor_handler env headers actor st))) \<noteq> device_view d (st_pool st) \<or>
      device_view d (st_pool (snd (submit_operation_handler env headers payload st))) \<noteq> device_view d (st_pool st)"
  shows "\<exists>c. authorize env headers None (st_pool st) = Inr c \<and> dev_device_id (sc_device c) = d"
proof -
  have "device_view d (st_pool (snd (submit_operation_handler env headers payload st))) = device_view d (st_pool st)"
    unfolding submit_operation_handler_def
    by (auto simp: handling_readS authorized_cases refuse_def split: sum.splits
        intro!: handling_view(2) elim: submit_view)
  with assms consider
      "device_view d (st_pool (snd (heartbeat_handler env headers raw st))) \<noteq> device_view d (st_pool st)"
    | "device_view d (st_pool (snd (rotate_device_handler env headers raw st))) \<noteq> device_view d (st_pool st)"
    | "device_view d (st_pool (snd (revoke_device_handler env headers raw st))) \<noteq> device_view d (st_pool st)"
    | "device_view d (st_pool (snd (quarantine_device_handler env headers raw st))) \<noteq> device_view d (st_pool st)"
    | "device_view d (st_pool (snd (register_actor_handler env headers actor st))) \<noteq> device_view d (st_pool st)"
    by blast
  then show ?thesis
  proof cases
    case 1
    then show ?thesis unfolding heartbeat_handler_def
      by (rule own_device_view [rotated]) (auto intro!: handling_view elim: heartbeat_view)
  next
    case 2
    then show ?thesis unfolding rotate_device_handler_def
      by (rule own_device_view [rotated]) (auto intro!: handling_view elim: rotate_view)
  next
    case 3
    then show ?thesis unfolding revoke_device_handler_def revoke_device_def
      by (rule own_device_view [rotated]) (auto intro!: handling_view elim: set_status_view)
  next
    case 4
    then show ?thesis unfolding quarantine_device_handler_def
      by (rule own_device_view [rotated]) (auto intro!: handling_view elim: set_status_view)
  next
    case 5
    then show ?thesis unfolding register_actor_handler_def
      by (rule own_device_view [rotated])
        (auto intro!: handling_view elim!: register_actor_view simp: requested_actor_def)
  qed
qed

text \<open>A store with one device, its credential and an operator.\<close>

definition example_authed_device :: Device where
  "example_authed_device = (device_new (DeviceId ''d1'') [] [] [])\<lparr>dev_credential_fingerprint :=
     Some (cred_digest (device_credential_new toy_crypto (DeviceId ''d1'') ''s1''))\<rparr>"

definition example_authed_store :: "(string, unit) MnemesStore" where
  "example_authed_store = example_store_state\<lparr>st_pool := empty_db\<lparr>
     db_devices := [example_authed_device],
     db_actors := [(actor_new (ActorId ''op'') (DeviceId ''d1'') Human)\<lparr>act_tool_profile := Operator\<rparr>]\<rparr>\<rparr>"

definition example_header :: HeaderMap where
  "example_header = Some (Some ''Bearer d1:s1'')"

lemma example_bearer: "bearer_token example_header = Inr ''d1:s1''"
proof -
  have "trim_start_matches ''Bearer '' ''Bearer d1:s1'' = ''d1:s1''"
    by (subst trim_start_matches.simps, simp, subst trim_start_matches.simps, simp)
  moreover have "trim ''d1:s1'' = ''d1:s1''" by (rule trim_printable) simp
  ultimately show ?thesis by (simp add: bearer_token_def example_header_def Let_def)
qed

lemma example_authed:
  "authorize example_server_env example_header None (st_pool example_authed_store) =
     Inr \<lparr> sc_device = example_authed_device, sc_actor = None \<rparr>"
proof -
  have "parse_authorization_token toy_uuid ''d1:s1'' = Inr (DeviceId ''d1'', ''s1'')"
    using parse_generated_token [OF example_token_parts(1), of toy_crypto] by (simp add: cred_new)
  then show ?thesis
    by (simp add: authorize_def example_bearer authenticate_request_def token_device_id_def
        example_server_env_def example_pool_env_def example_authed_store_def get_device_def
        example_authed_device_def row_by_def device_new_def device_credential_verify_def
        device_credential_new_def Let_def)
qed

section \<open>Operations over HTTP\<close>

text \<open>A later request of the same server: another time and other fresh values.\<close>

definition same_server :: "'u server_env \<Rightarrow> 'u server_env \<Rightarrow> bool" where
  "same_server env env' \<longleftrightarrow>
     sv_uuid env' = sv_uuid env \<and> pe_crypto (sv_pool env') = pe_crypto (sv_pool env)"

lemma authorize_frame:
  assumes "same_server env env'" "db_devices db' = db_devices db" "db_actors db' = db_actors db"
  shows "authorize env' headers a db' = authorize env headers a db"
proof -
  have "get_device d db' = get_device d db" "get_actor x db' = get_actor x db" for d x
    using assms(2,3) by (simp_all add: get_device_def get_actor_def)
  then show ?thesis
    using assms(1)
    by (simp add: authorize_def authenticate_request_def token_device_id_def Let_def same_server_def
        cong: option.case_cong if_cong)
qed

lemma authorize_device_frame:
  assumes "db_devices db' = db_devices db"
  shows "authorize env headers None db' = authorize env headers None db"
proof -
  have "get_device d db' = get_device d db" for d using assms by (simp add: get_device_def)
  then show ?thesis
    by (simp add: authorize_def authenticate_request_def token_device_id_def Let_def cong: if_cong)
qed

lemma authorize_own_actor:
  assumes "authorize env headers None db = Inr c" "get_actor a db = Some x"
    and "act_device_id x = dev_device_id (sc_device c)"
  shows "authorize env headers (Some a) db = Inr \<lparr> sc_device = sc_device c, sc_actor = Some x \<rparr>"
  using assms by (auto simp: authorize_ok authenticate_request_def result_simps split: if_splits)

lemma requested_operation_fields:
  assumes "requested_operation env d a payload = Inr e" "same_server env env'"
  shows "requested_operation env' d a payload = Inr (e\<lparr>op_operation_id := OperationId (sv_fresh_id env')\<rparr>) \<and>
    op_idempotency_key e = os_idempotency_key payload \<and> op_content_digest e = os_content_digest payload"
  using assms by (auto simp: requested_operation_def bindR_eq_Inr same_server_def)

lemma submit_frame:
  "submit_operation env e db = Inr (receipt, db') \<Longrightarrow>
     db_devices db' = db_devices db \<and> db_actors db' = db_actors db"
  by (auto simp: submit_operation_def submit_insert_ok split: option.splits sum.splits)

lemma lookup_frame:
  "db_operations db' = db_operations db \<Longrightarrow>
     get_operation_by_idempotency_key k db' = get_operation_by_idempotency_key k db"
  by (simp add: get_operation_by_idempotency_key_def get_operation_def split: option.splits)

lemma submitted_again:
  assumes "submit_operation env e db = Inr (receipt, db')" "db_operations db'' = db_operations db'"
    and "op_idempotency_key e' = op_idempotency_key e" "op_content_digest e' = op_content_digest e"
  shows "submit_operation env' e' db'' = Inr (receipt, db'')"
  using submitted_lookup [OF assms(1)] assms(3,4)
  by (auto simp: submit_operation_def submit_check_def lookup_frame [OF assms(2)] Let_def)

text \<open>Handlers that answer with a body.\<close>

named_theorems handler_ok

lemma error_response_body [handler_ok]: "error_response e \<noteq> (status, Inr b)"
  using error_response_refuses [of e] by (metis is_ok_def snd_conv sum.case(2))

lemma handling_ok [handler_ok]:
  "handling m k st = ((status, Inr b), st'') \<longleftrightarrow>
     (\<exists>x st'. m st = (Inr x, st') \<and> k x st' = ((status, Inr b), st''))"
  by (auto simp: handling_def error_response_body split: prod.splits sum.splits)

lemma handling_logged_ok [handler_ok]:
  "handling_logged env c ep mt detail m k st = ((status, Inr b), st'') \<longleftrightarrow>
     (\<exists>x st'. m st = (Inr x, st') \<and> k x st' = ((status, Inr b), st''))"
  by (auto simp: handling_logged_def error_response_body split: prod.splits sum.splits)

lemma authorized_ok [handler_ok]:
  "authorized env headers a k st = ((status, Inr b), st'') \<longleftrightarrow>
     (\<exists>c. authorize env headers a (st_pool st) = Inr c \<and> k c st = ((status, Inr b), st''))"
  by (auto simp: authorized_def handling_ok)

lemma refuse_ok [handler_ok]: "refuse e st \<noteq> ((status, Inr b), st')"
  by (simp add: refuse_def error_response_body)

lemma poolS_ok [handler_ok]:
  "poolS f st = (Inr x, st') \<longleftrightarrow> (\<exists>db. f (st_pool st) = Inr (x, db) \<and> st' = st\<lparr>st_pool := db\<rparr>)"
  by (auto simp: poolS_def split: sum.splits)

lemma answer_ok [handler_ok]:
  "answer env c ep mt detail status body st = ((status', Inr b), st') \<longleftrightarrow>
     status' = status \<and> b = body \<and> st' = audit_context env c ep mt ''ok'' detail st"
  by (auto simp: answer_def)

lemma submit_handler_ok:
  "submit_operation_handler env headers payload st = ((CREATED, Inr resp), st') \<longleftrightarrow>
     (\<exists>d a c e receipt db x. parse_device_id (sv_uuid env) (os_requesting_device_id payload) = Inr d \<and>
        parse_actor_id (sv_uuid env) (os_requesting_actor_id payload) = Inr a \<and>
        authorize env headers (Some a) (st_pool st) = Inr c \<and> dev_device_id (sc_device c) = d \<and>
        ensure_operator (sc_actor c) = Inr () \<and> requested_operation env d a payload = Inr e \<and>
        submit_operation (sv_pool env) e (st_pool st) = Inr (receipt, db) \<and>
        get_operation_by_idempotency_key (os_idempotency_key payload) db = Some x \<and>
        resp = operation_response receipt x \<and>
        st' = audit_context env c ''/v1/operations'' ''POST'' ''ok'' ''operation submitted''
                (st\<lparr>st_pool := db\<rparr>))"
  unfolding submit_operation_handler_def
  by (auto simp: handler_ok ok_or_eq split: if_splits)

lemma audit_context_pool:
  "\<exists>rows. audit_context env c ep mt out detail st = st\<lparr>st_pool := (st_pool st)\<lparr>db_audit := rows\<rparr>\<rparr>"
  unfolding audit_context_def by (rule log_audit_pool)

text \<open>
  A submission over HTTP can be retried: once it was answered with 201, the same request, sent
  again at another time with other fresh ids, is answered with 201, the same operation, the same
  receipt and the time that was recorded first, and no operation is added.
\<close>

theorem http_submission_retry:
  assumes "submit_operation_handler env headers payload st = ((CREATED, Inr resp), st')"
    and "same_server env env'"
  shows "\<exists>st''. submit_operation_handler env' headers payload st' = ((CREATED, Inr resp), st'') \<and>
    db_operations (st_pool st'') = db_operations (st_pool st')"
proof -
  from assms(1) obtain d a c e receipt db x where
    parse: "parse_device_id (sv_uuid env) (os_requesting_device_id payload) = Inr d"
      "parse_actor_id (sv_uuid env) (os_requesting_actor_id payload) = Inr a"
    and c: "authorize env headers (Some a) (st_pool st) = Inr c" "dev_device_id (sc_device c) = d"
      "ensure_operator (sc_actor c) = Inr ()"
    and e: "requested_operation env d a payload = Inr e"
    and sub: "submit_operation (sv_pool env) e (st_pool st) = Inr (receipt, db)"
    and x: "get_operation_by_idempotency_key (os_idempotency_key payload) db = Some x"
    and resp: "resp = operation_response receipt x"
    and st': "st' = audit_context env c ''/v1/operations'' ''POST'' ''ok'' ''operation submitted''
                (st\<lparr>st_pool := db\<rparr>)"
    unfolding submit_handler_ok by blast
  obtain rows where "st_pool st' = db\<lparr>db_audit := rows\<rparr>"
    using audit_context_pool [of env c "''/v1/operations''" "''POST''" "''ok''" "''operation submitted''"
        "st\<lparr>st_pool := db\<rparr>"] st' by auto
  then have pool: "db_operations (st_pool st') = db_operations db"
      "db_devices (st_pool st') = db_devices (st_pool st)"
      "db_actors (st_pool st') = db_actors (st_pool st)"
    using submit_frame [OF sub] by simp_all
  define e' where "e' = e\<lparr>op_operation_id := OperationId (sv_fresh_id env')\<rparr>"
  have e': "requested_operation env' d a payload = Inr e'" "op_idempotency_key e = os_idempotency_key payload"
    using requested_operation_fields [OF e assms(2)] by (simp_all add: e'_def)
  have again: "submit_operation (sv_pool env') e' (st_pool st') = Inr (receipt, st_pool st')"
    by (rule submitted_again [OF sub pool(1)]) (simp_all add: e'_def)
  have "get_operation_by_idempotency_key (os_idempotency_key payload) (st_pool st') = Some x"
    using x by (simp add: lookup_frame [OF pool(1)])
  moreover have "authorize env' headers (Some a) (st_pool st') = Inr c"
    using authorize_frame [OF assms(2) pool(2,3)] c(1) by simp
  ultimately have "submit_operation_handler env' headers payload st' = ((CREATED, Inr resp),
      audit_context env' c ''/v1/operations'' ''POST'' ''ok'' ''operation submitted'' st')"
    unfolding submit_handler_ok
    using parse c(2,3) e'(1) again resp assms(2)
    by (intro exI conjI) (auto simp: same_server_def)
  moreover have "db_operations (st_pool (audit_context env' c ''/v1/operations'' ''POST'' ''ok''
      ''operation submitted'' st')) = db_operations (st_pool st')"
    using audit_context_pool [of env' c "''/v1/operations''" "''POST''" "''ok''" "''operation submitted''" st']
    by auto
  ultimately show ?thesis by blast
qed

definition example_submit_request :: OperationSubmitRequest where
  "example_submit_request =
     \<lparr> os_idempotency_key = ''k'', os_requesting_device_id = ''d1'', os_requesting_actor_id = ''op'',
       os_operation_kind = ''observe'', os_target_kind = ''fact'', os_target_id = ''f1'',
       os_content_digest = ''x'', os_recording_device_id = None, os_recording_server_id = None,
       os_observed_at = None, os_valid_time = None \<rparr>"

lemma example_authed_operator:
  "authorize example_server_env example_header (Some (ActorId ''op'')) (st_pool example_authed_store) =
     Inr \<lparr> sc_device = example_authed_device, sc_actor = Some ((actor_new (ActorId ''op'')
       (DeviceId ''d1'') Human)\<lparr>act_tool_profile := Operator\<rparr>) \<rparr>"
proof -
  have "authenticate_request example_pool_env toy_uuid ''d1:s1'' None (st_pool example_authed_store) =
      Inr (example_authed_device, None)"
    using example_authed by (auto simp: authorize_ok example_bearer example_server_env_def)
  then have "\<exists>fp. token_device_id example_pool_env toy_uuid ''d1:s1'' (st_pool example_authed_store) =
      Inr (example_authed_device, fp)"
    by (auto simp: authenticate_request_def bindR_eq_Inr)
  then show ?thesis
    by (auto simp: authorize_def example_bearer authenticate_request_def example_server_env_def
        example_authed_store_def get_actor_def row_by_def actor_new_def example_authed_device_def
        device_new_def)
qed

lemma example_submission_handled:
  "\<exists>resp st'. submit_operation_handler example_server_env example_header example_submit_request
      example_authed_store = ((CREATED, Inr resp), st') \<and> oe_operation_id resp = ''fresh''"
proof -
  have parse: "parse_device_id toy_uuid ''d1'' = Inr (DeviceId ''d1'')"
      "parse_actor_id toy_uuid ''op'' = Inr (ActorId ''op'')"
    by (simp_all add: parse_device_id_def device_id_parse_def parse_actor_id_def actor_id_parse_def
        opaque_parse_def toy_uuid_def)
  have auth: "authorize example_server_env example_header (Some (ActorId ''op''))
      (st_pool example_authed_store) = Inr \<lparr> sc_device = example_authed_device,
      sc_actor = Some ((actor_new (ActorId ''op'') (DeviceId ''d1'') Human)\<lparr>act_tool_profile := Operator\<rparr>) \<rparr>"
    by (rule example_authed_operator)
  have uuid: "sv_uuid example_server_env = toy_uuid" by (simp add: example_server_env_def)
  show ?thesis
    unfolding submit_handler_ok uuid
    by (simp add: example_submit_request_def parse auth example_authed_device_def device_new_def
        ensure_operator_def requested_operation_def device_or_def uuid parse_operation_kind_def)
      (simp add: submit_operation_def submit_check_def get_operation_by_idempotency_key_def
        submit_insert_def sql_insert_def has_key_def row_by_def get_operation_def operation_response_def
        example_authed_store_def example_authed_device_def device_new_def actor_new_def empty_db_def
        example_server_env_def Let_def)
qed

theorem http_submission_retry_witness:
  "\<exists>resp (st' :: (string, unit) MnemesStore) st''.
     submit_operation_handler (example_server_env\<lparr>sv_fresh_id := ''later''\<rparr>) example_header
       example_submit_request st' = ((CREATED, Inr resp), st'') \<and> oe_operation_id resp = ''fresh''"
proof -
  obtain resp st' where one: "submit_operation_handler example_server_env example_header
      example_submit_request example_authed_store = ((CREATED, Inr resp), st')"
      "oe_operation_id resp = ''fresh''" using example_submission_handled by blast
  have "same_server example_server_env (example_server_env\<lparr>sv_fresh_id := ''later''\<rparr>)"
    by (simp add: same_server_def)
  from http_submission_retry [OF one(1) this] one(2) show ?thesis by blast
qed

text \<open>
  C34. The operator profile is not guarded: any authenticated device can register an actor of its own
  with the profile \<open>operator\<close>, and a request that names this actor then passes the operator
  check that guards submissions and the management tools.
\<close>

theorem any_device_becomes_operator:
  assumes "authorize env headers None (st_pool st) = Inr c"
    and "parse_device_id (sv_uuid env) (ra_device_id payload) = Inr (dev_device_id (sc_device c))"
    and "ra_tool_profile payload = Some ''operator''"
    and "get_actor (ActorId (sv_fresh_id env)) (st_pool st) = None"
  shows "\<exists>st' c'. register_actor_handler env headers payload st =
      ((CREATED, Inr (sv_fresh_id env)), st') \<and>
    authorize env headers (Some (ActorId (sv_fresh_id env))) (st_pool st') = Inr c' \<and>
    ensure_operator (sc_actor c') = Inr ()"
proof -
  let ?d = "dev_device_id (sc_device c)" and ?a = "ActorId (sv_fresh_id env)"
  let ?actor = "(requested_actor (sv_fresh_id env) ?d payload)\<lparr>act_recorded_at := pe_now (sv_pool env)\<rparr>"
  let ?db = "(st_pool st)\<lparr>db_actors := db_actors (st_pool st) @ [?actor]\<rparr>"
  obtain token where token: "bearer_token headers = Inr token"
    "authenticate_request (sv_pool env) (sv_uuid env) token None (st_pool st) = Inr (sc_device c, sc_actor c)"
    using assms(1) authorize_ok by blast
  then have dev: "get_device ?d (st_pool st) = Some (sc_device c)"
    by (auto simp: authenticate_request_def bindR_eq_Inr token_device_id_ok dest: get_device_id)
  have "register_actor (sv_pool env) (requested_actor (sv_fresh_id env) ?d payload) (st_pool st) =
      Inr (?a, ?db)"
    using assms(4) dev by (simp add: register_actor_def Let_def insert_actor_ok requested_actor_def bindR_eq_Inr)
  then have step: "register_actor_handler env headers payload st = ((CREATED, Inr (sv_fresh_id env)),
      audit_context env c ''/v1/actors'' ''POST'' ''ok'' ''actor registered'' (st\<lparr>st_pool := ?db\<rparr>))"
    using assms(1,2) by (simp add: register_actor_handler_def own_device_def handler_ok)
  obtain rows where st': "st_pool (audit_context env c ''/v1/actors'' ''POST'' ''ok'' ''actor registered''
      (st\<lparr>st_pool := ?db\<rparr>)) = ?db\<lparr>db_audit := rows\<rparr>"
    using audit_context_pool [of env c "''/v1/actors''" "''POST''" "''ok''" "''actor registered''"
        "st\<lparr>st_pool := ?db\<rparr>"] by auto
  have "authorize env headers None (?db\<lparr>db_audit := rows\<rparr>) = Inr c"
    unfolding assms(1) [symmetric] by (rule authorize_device_frame) simp
  moreover have "get_actor ?a (?db\<lparr>db_audit := rows\<rparr>) = Some ?actor"
    using assms(4) by (simp add: get_actor_def row_by_append row_by_single requested_actor_def)
  ultimately have "authorize env headers (Some ?a) (?db\<lparr>db_audit := rows\<rparr>) =
      Inr \<lparr> sc_device = sc_device c, sc_actor = Some ?actor \<rparr>"
    by (rule authorize_own_actor) (simp add: requested_actor_def)
  with step st' assms(3) show ?thesis
    by (auto simp: ensure_operator_def requested_actor_def tool_profile_parse_def)
qed

theorem any_device_becomes_operator_witness:
  "\<exists>st' c'. register_actor_handler example_server_env example_header
      \<lparr> ra_device_id = ''d1'', ra_actor_kind = ''hermes'', ra_provider_model = None,
        ra_tool_profile = Some ''operator'' \<rparr> example_authed_store = ((CREATED, Inr ''fresh''), st') \<and>
    authorize example_server_env example_header (Some (ActorId ''fresh'')) (st_pool st') = Inr c' \<and>
    ensure_operator (sc_actor c') = Inr ()"
proof -
  have "get_actor (ActorId (sv_fresh_id example_server_env)) (st_pool example_authed_store) = None"
    by (simp add: get_actor_def row_by_def example_authed_store_def actor_new_def example_server_env_def)
  moreover have "parse_device_id (sv_uuid example_server_env) ''d1'' =
      Inr (dev_device_id example_authed_device)"
    by (simp add: parse_device_id_def example_server_env_def toy_device_id_parse example_authed_device_def
        device_new_def)
  moreover have "sv_fresh_id example_server_env = ''fresh''" by (simp add: example_server_env_def)
  ultimately show ?thesis
    using any_device_becomes_operator [OF example_authed, of "\<lparr> ra_device_id = ''d1'',
        ra_actor_kind = ''hermes'', ra_provider_model = None, ra_tool_profile = Some ''operator'' \<rparr>"]
    by simp
qed

end
