(* ===== verification/Fact_Admission.thy ===== *)
theory Fact_Admission
  imports Shard_Service Exactly_Once Fact_Supersede_Wire
begin

text \<open>
  Accepting signed fact batches: the operator's admissions of writer keys, the check of a batch
  against them, applying the owner's record to the device's shard and acknowledging it, for the
  create and the supersede family (\<open>src/store.rs\<close>).

  Each family has a process-local gate, so an operation of a family is one step. The shard and the
  control database are different databases: a failing acknowledgement leaves the shard changed.
\<close>

section \<open>The tables\<close>

record FactCreateAdmission =
  fca_device_id :: DeviceId
  fca_store_id :: string
  fca_namespace :: string
  fca_principal_id :: string
  fca_key_version :: u64
  fca_public_key :: "byte list"
  fca_activated_at :: u64
  fca_cutoff_at :: u64
  fca_stream_epoch :: u64
  fca_fencing_token :: string

record FactSupersedeAdmission =
  fsa_device_id :: DeviceId
  fsa_store_id :: string
  fsa_replacement_namespace :: string
  fsa_principal_id :: string
  fsa_key_version :: u64
  fsa_public_key :: "byte list"
  fsa_activated_at :: u64
  fsa_cutoff_at :: u64
  fsa_store_epoch :: u64
  fsa_writer_epoch :: u64
  fsa_fencing_token :: string

text \<open>A row of either admission table; a create row keeps its stream epoch in \<open>ad_epoch\<close>.\<close>

record admission_row =
  ad_device_id :: DeviceId
  ad_store_id :: string
  ad_namespace :: string
  ad_principal_id :: string
  ad_key_version :: i64
  ad_public_key :: "byte list"
  ad_activated_at :: i64
  ad_cutoff_at :: i64
  ad_revoked :: bool
  ad_epoch :: i64
  ad_writer_epoch :: "i64 option"
  ad_fencing_token :: string

text \<open>
  The acknowledgements of both families; \<open>ak_epoch\<close> is the stream epoch of a create and the owner
  stream epoch of a supersede.
\<close>

record FactAckRecord =
  ak_batch_id :: string
  ak_request_digest :: string
  ak_home_device_id :: string
  ak_store_id :: string
  ak_epoch :: u64
  ak_accepted_head :: i64
  ak_disposition :: string

text \<open>The rows of the acknowledgement tables keep the epoch in a signed column.\<close>

record ack_row =
  kr_batch_id :: string
  kr_request_digest :: string
  kr_home_device_id :: string
  kr_store_id :: string
  kr_epoch :: i64
  kr_accepted_head :: i64
  kr_disposition :: string

record ('s, 'm) FactStore = "('s, 'm) MnemesStore" +
  fs_create_admissions :: "admission_row list"
  fs_create_acks :: "ack_row list"
  fs_supersede_admissions :: "admission_row list"
  fs_supersede_acks :: "ack_row list"

section \<open>semantic-memory's receivers\<close>

datatype ReplicaApplyOutcome =
    RowApplied i64
  | RowDuplicate i64
  | RowFork
  | RowGap
  | RowEpochConflict
  | RowStalePredecessor

text \<open>
  The validator of create records gives the namespace of its payload, that of supersede records
  the replacement payload, which is decoded for its namespace.
\<close>

record ('s, 'm) fact_lib =
  fl_names :: journal_names
  fl_create_namespace :: "FactCreateReplicaEnvelopeV1 \<Rightarrow> string + string"
  fl_supersede_payload :: supersede_validator
  fl_decode_payload :: "byte list \<Rightarrow> string + string"
  fl_apply_create :: "'s \<Rightarrow> FactCreateReplicaEnvelopeV1 \<Rightarrow> 'm \<Rightarrow> (MemoryError + ReplicaApplyOutcome) \<times> 'm"
  fl_apply_supersede :: "'s \<Rightarrow> FactSupersedeReplicaEnvelopeV1 \<Rightarrow> 'm \<Rightarrow>
     (MemoryError + ReplicaApplyOutcome) \<times> 'm"

definition create_validator_of :: "('s, 'm) fact_lib \<Rightarrow> journal_names \<times> create_validator" where
  "create_validator_of fl = (fl_names fl, \<lambda>e. bindR (fl_create_namespace fl e) (\<lambda>_. Inr ()))"

section \<open>Admissions\<close>

definition admission_key :: "admission_row \<Rightarrow> DeviceId \<times> string \<times> string \<times> string \<times> i64" where
  "admission_key a =
     (ad_device_id a, ad_store_id a, ad_namespace a, ad_principal_id a, ad_key_version a)"

text \<open>\<open>INSERT ... ON CONFLICT(key) DO UPDATE SET\<close> of every other column.\<close>

definition sql_upsert ::
    "(violation \<Rightarrow> string) \<Rightarrow> (bool \<times> violation) list \<Rightarrow> ('r \<Rightarrow> 'k) \<Rightarrow> 'r \<Rightarrow> 'r list \<Rightarrow>
     MnemesError + 'r list" where
  "sql_upsert message violations key row rows =
     bindR (checks (map (\<lambda>(violated, v). fail_if violated (mnemes_from_rusqlite (message v)))
              violations)) (\<lambda>_.
     Inr (if has_key key (key row) rows
          then snd (sql_update (\<lambda>r. key r = key row) (\<lambda>_. row) rows) else rows @ [row]))"

definition fits_integer :: "(string \<Rightarrow> MnemesError) \<Rightarrow> string \<Rightarrow> u64 \<Rightarrow> MnemesError + i64" where
  "fits_integer reject what v =
     ok_or (reject (what @ '' does not fit SQLite INTEGER'')) (i64_try_from_u64 v)"

text \<open>The constraints of the schema on an admission row.\<close>

definition admission_checks :: "admission_row \<Rightarrow> pool_db \<Rightarrow> (bool \<times> violation) list" where
  "admission_checks row db =
     [(ad_key_version row \<le> 0, CheckConstraint ''key_version > 0''),
      (length (ad_public_key row) \<noteq> 32, CheckConstraint ''length(public_key)=32''),
      (ad_activated_at row < 0, CheckConstraint ''activated_at >= 0''),
      (ad_cutoff_at row < ad_activated_at row, CheckConstraint ''cutoff_at >= activated_at''),
      (ad_epoch row \<le> 0, CheckConstraint ''epoch > 0''),
      (case ad_writer_epoch row of None \<Rightarrow> False | Some e \<Rightarrow> e \<le> 0,
       CheckConstraint ''writer_epoch > 0''),
      (\<not> has_key dev_device_id (ad_device_id row) (db_devices db), ForeignKey ''device_id'')]"

definition create_admission_row :: "FactCreateAdmission \<Rightarrow> MnemesError + admission_row" where
  "create_admission_row a =
     bindR (fail_if (fca_store_id a = [] \<or> fca_namespace a = [] \<or> fca_principal_id a = [] \<or>
         fca_fencing_token a = [] \<or> fca_key_version a = 0 \<or> fca_stream_epoch a = 0 \<or>
         fca_activated_at a > fca_cutoff_at a)
       (FactCreateRejected ''invalid fact-create admission record'')) (\<lambda>_.
     bindR (fits_integer FactCreateRejected ''key version'' (fca_key_version a)) (\<lambda>key_version.
     bindR (fits_integer FactCreateRejected ''activation time'' (fca_activated_at a)) (\<lambda>activated.
     bindR (fits_integer FactCreateRejected ''cutoff time'' (fca_cutoff_at a)) (\<lambda>cutoff.
     bindR (fits_integer FactCreateRejected ''stream epoch'' (fca_stream_epoch a)) (\<lambda>epoch.
     Inr \<lparr> ad_device_id = fca_device_id a, ad_store_id = fca_store_id a,
          ad_namespace = fca_namespace a, ad_principal_id = fca_principal_id a,
          ad_key_version = key_version, ad_public_key = fca_public_key a,
          ad_activated_at = activated, ad_cutoff_at = cutoff, ad_revoked = False,
          ad_epoch = epoch, ad_writer_epoch = None,
          ad_fencing_token = fca_fencing_token a \<rparr>)))))"

definition admit_fact_create_key ::
    "pool_env \<Rightarrow> FactCreateAdmission \<Rightarrow> ('s, 'm, 'z) FactStore_scheme \<Rightarrow>
     (MnemesError + unit) \<times> ('s, 'm, 'z) FactStore_scheme" where
  "admit_fact_create_key env a st =
     (case bindR (create_admission_row a) (\<lambda>row.
          sql_upsert (pe_message env) (admission_checks row (st_pool st)) admission_key row
            (fs_create_admissions st)) of
        Inl e \<Rightarrow> (Inl e, st)
      | Inr rows \<Rightarrow> (Inr (), st\<lparr>fs_create_admissions := rows\<rparr>))"

definition supersede_admission_row :: "FactSupersedeAdmission \<Rightarrow> MnemesError + admission_row" where
  "supersede_admission_row a =
     bindR (fail_if (fsa_store_id a = [] \<or> fsa_replacement_namespace a = [] \<or>
         fsa_principal_id a = [] \<or> fsa_fencing_token a = [] \<or> fsa_key_version a = 0 \<or>
         fsa_store_epoch a = 0 \<or> fsa_writer_epoch a = 0 \<or>
         fsa_activated_at a > fsa_cutoff_at a)
       (FactSupersedeRejected ''invalid fact-supersede admission record'')) (\<lambda>_.
     bindR (fits_integer FactSupersedeRejected ''key version'' (fsa_key_version a)) (\<lambda>key_version.
     bindR (fits_integer FactSupersedeRejected ''activation time'' (fsa_activated_at a)) (\<lambda>activated.
     bindR (fits_integer FactSupersedeRejected ''cutoff time'' (fsa_cutoff_at a)) (\<lambda>cutoff.
     bindR (fits_integer FactSupersedeRejected ''store epoch'' (fsa_store_epoch a)) (\<lambda>store_epoch.
     bindR (fits_integer FactSupersedeRejected ''writer epoch'' (fsa_writer_epoch a)) (\<lambda>writer_epoch.
     Inr \<lparr> ad_device_id = fsa_device_id a, ad_store_id = fsa_store_id a,
          ad_namespace = fsa_replacement_namespace a, ad_principal_id = fsa_principal_id a,
          ad_key_version = key_version, ad_public_key = fsa_public_key a,
          ad_activated_at = activated, ad_cutoff_at = cutoff, ad_revoked = False,
          ad_epoch = store_epoch, ad_writer_epoch = Some writer_epoch,
          ad_fencing_token = fsa_fencing_token a \<rparr>))))))"

definition admit_fact_supersede_key ::
    "pool_env \<Rightarrow> FactSupersedeAdmission \<Rightarrow> ('s, 'm, 'z) FactStore_scheme \<Rightarrow>
     (MnemesError + unit) \<times> ('s, 'm, 'z) FactStore_scheme" where
  "admit_fact_supersede_key env a st =
     (case bindR (supersede_admission_row a) (\<lambda>row.
          sql_upsert (pe_message env) (admission_checks row (st_pool st)) admission_key row
            (fs_supersede_admissions st)) of
        Inl e \<Rightarrow> (Inl e, st)
      | Inr rows \<Rightarrow> (Inr (), st\<lparr>fs_supersede_admissions := rows\<rparr>))"

text \<open>Revoking: no rows are no error, and the key version is cast.\<close>

definition revoke_rows ::
    "DeviceId \<Rightarrow> string \<Rightarrow> string \<Rightarrow> string \<Rightarrow> u64 \<Rightarrow> admission_row list \<Rightarrow> admission_row list" where
  "revoke_rows device_id store_id namespace principal_id key_version rows =
     snd (sql_update (\<lambda>a. admission_key a =
         (device_id, store_id, namespace, principal_id, u64_as_i64 key_version))
       (\<lambda>a. a\<lparr>ad_revoked := True\<rparr>) rows)"

definition revoke_fact_create_key ::
    "DeviceId \<Rightarrow> string \<Rightarrow> string \<Rightarrow> string \<Rightarrow> u64 \<Rightarrow> ('s, 'm, 'z) FactStore_scheme \<Rightarrow>
     ('s, 'm, 'z) FactStore_scheme" where
  "revoke_fact_create_key device_id store_id namespace principal_id key_version st =
     st\<lparr>fs_create_admissions :=
       revoke_rows device_id store_id namespace principal_id key_version (fs_create_admissions st)\<rparr>"

definition revoke_fact_supersede_key ::
    "DeviceId \<Rightarrow> string \<Rightarrow> string \<Rightarrow> string \<Rightarrow> u64 \<Rightarrow> ('s, 'm, 'z) FactStore_scheme \<Rightarrow>
     ('s, 'm, 'z) FactStore_scheme" where
  "revoke_fact_supersede_key device_id store_id namespace principal_id key_version st =
     st\<lparr>fs_supersede_admissions := revoke_rows device_id store_id namespace principal_id
       key_version (fs_supersede_admissions st)\<rparr>"

section \<open>The check of a batch\<close>

text \<open>The guard of the match: key, lifecycle, window and fencing token, as the columns compare.\<close>

definition admission_admits :: "admission_row \<Rightarrow> byte list \<Rightarrow> u64 \<Rightarrow> string \<Rightarrow> bool" where
  "admission_admits a public_key observed_at fencing_token \<longleftrightarrow>
     ad_public_key a = public_key \<and> \<not> ad_revoked a \<and> ad_activated_at a \<ge> 0 \<and>
     ad_cutoff_at a \<ge> ad_activated_at a \<and> observed_at \<ge> i64_as_u64 (ad_activated_at a) \<and>
     observed_at \<le> i64_as_u64 (ad_cutoff_at a) \<and> ad_fencing_token a = fencing_token"

definition check_fact_create_admission ::
    "'u uuid_lib \<Rightarrow> SignedFactCreateBatchV1 \<Rightarrow> string \<Rightarrow> ('s, 'm, 'z) FactStore_scheme \<Rightarrow>
     MnemesError + unit" where
  "check_fact_create_admission u batch namespace st =
     bindR (map_err Memory (device_id_parse u (fcb_home_device_id batch))) (\<lambda>device_id.
     case row_by admission_key
            (device_id, fcb_store_id batch, namespace, fcb_signer_principal_id batch,
             u64_as_i64 (fcb_signer_key_version batch)) (fs_create_admissions st) of
       Some a \<Rightarrow>
         if admission_admits a (fcb_signer_public_key batch) (fcb_observed_at batch)
              (fcb_fencing_token batch) \<and> ad_epoch a = u64_as_i64 (fcb_stream_epoch batch)
         then Inr ()
         else Inl (FactCreateRejected
                ''key admission, lifecycle, scope, epoch, or fencing token rejected'')
     | None \<Rightarrow> Inl (FactCreateRejected
                ''key admission, lifecycle, scope, epoch, or fencing token rejected''))"

definition check_fact_supersede_admission ::
    "'u uuid_lib \<Rightarrow> SignedFactSupersedeBatchV1 \<Rightarrow> string \<Rightarrow> ('s, 'm, 'z) FactStore_scheme \<Rightarrow>
     MnemesError + unit" where
  "check_fact_supersede_admission u batch namespace st =
     bindR (map_err Memory (device_id_parse u (fsb_home_device_id batch))) (\<lambda>device_id.
     case row_by admission_key
            (device_id, fsb_store_id batch, namespace, fsb_signer_principal_id batch,
             u64_as_i64 (fsb_signer_key_version batch)) (fs_supersede_admissions st) of
       Some a \<Rightarrow>
         if admission_admits a (fsb_signer_public_key batch) (fsb_observed_at batch)
              (fsb_fencing_token batch) \<and> ad_epoch a = u64_as_i64 (fsb_store_epoch batch) \<and>
            ad_writer_epoch a = Some (u64_as_i64 (fsb_writer_epoch batch))
         then Inr ()
         else Inl (FactSupersedeRejected (''key admission, lifecycle, replacement namespace, '' @
                ''epoch, or fencing token rejected''))
     | None \<Rightarrow> Inl (FactSupersedeRejected (''key admission, lifecycle, replacement namespace, '' @
                ''epoch, or fencing token rejected'')))"

section \<open>Acknowledgements\<close>

definition ack_of_row :: "('s, 'm, 'src) memory_lib \<Rightarrow> ack_row \<Rightarrow> MnemesError + FactAckRecord" where
  "ack_of_row lib row =
     bindR (column_u64 lib 4 (kr_epoch row)) (\<lambda>epoch.
     Inr \<lparr> ak_batch_id = kr_batch_id row, ak_request_digest = kr_request_digest row,
           ak_home_device_id = kr_home_device_id row, ak_store_id = kr_store_id row,
           ak_epoch = epoch, ak_accepted_head = kr_accepted_head row,
           ak_disposition = kr_disposition row \<rparr>)"

definition get_ack ::
    "('s, 'm, 'src) memory_lib \<Rightarrow> string \<Rightarrow> ack_row list \<Rightarrow> MnemesError + FactAckRecord option" where
  "get_ack lib batch_id rows =
     (case row_by kr_batch_id batch_id rows of
        None \<Rightarrow> Inr None
      | Some row \<Rightarrow> bindR (ack_of_row lib row) (\<lambda>ack. Inr (Some ack)))"

definition persist_ack ::
    "pool_env \<Rightarrow> MnemesError \<Rightarrow> FactAckRecord \<Rightarrow> ack_row list \<Rightarrow> MnemesError + ack_row list" where
  "persist_ack env epoch_error ack rows =
     bindR (ok_or epoch_error (i64_try_from_u64 (ak_epoch ack))) (\<lambda>epoch.
     sql_insert (pe_message env)
       [(has_key kr_batch_id (ak_batch_id ack) rows, PrimaryKey ''batch_id'')]
       \<lparr> kr_batch_id = ak_batch_id ack, kr_request_digest = ak_request_digest ack,
         kr_home_device_id = ak_home_device_id ack, kr_store_id = ak_store_id ack,
         kr_epoch = epoch, kr_accepted_head = ak_accepted_head ack,
         kr_disposition = ak_disposition ack \<rparr> rows)"

definition outcome_head :: "MnemesError \<Rightarrow> ReplicaApplyOutcome \<Rightarrow> MnemesError + i64" where
  "outcome_head conflict out =
     (case out of
        RowApplied sequence \<Rightarrow> Inr sequence
      | RowDuplicate sequence \<Rightarrow> Inr sequence
      | _ \<Rightarrow> Inl conflict)"

section \<open>Applying a batch\<close>

text \<open>What both requests take from outside.\<close>

record ('s, 'm, 'src, 'u) fact_env =
  fe_pool :: pool_env
  fe_memory :: "('s, 'm, 'src) memory_lib"
  fe_fact :: "('s, 'm) fact_lib"
  fe_uuid :: "'u uuid_lib"

text \<open>A request in three parts: the recorded answer, the checks of a new batch, and its effects.\<close>

definition verify_fact_create ::
    "('s, 'm, 'src, 'u) fact_env \<Rightarrow> SignedFactCreateBatchV1 \<Rightarrow> ('s, 'm, 'z) FactStore_scheme \<Rightarrow>
     MnemesError + FactCreateReplicaEnvelopeV1 \<times> DeviceId" where
  "verify_fact_create env batch st =
     bindR (fail_if (length (fcb_entries batch) \<noteq> 1)
       (FactCreateRejected ''V1 accepts exactly one entry'')) (\<lambda>_.
     bindR (map_err (\<lambda>e. Replication (display_replication_error e))
       (semantic_envelopes (pe_crypto (fe_pool env)) (create_validator_of (fe_fact env)) batch)) (\<lambda>envelopes.
     bindR (map_err FactCreateRejected (fl_create_namespace (fe_fact env) (hd envelopes))) (\<lambda>namespace.
     bindR (check_fact_create_admission (fe_uuid env) batch namespace st) (\<lambda>_.
     bindR (map_err Memory (device_id_parse (fe_uuid env) (fcb_home_device_id batch))) (\<lambda>device_id.
     Inr (hd envelopes, device_id))))))"

definition run_fact_create ::
    "('s, 'm, 'src, 'u) fact_env \<Rightarrow> SignedFactCreateBatchV1 \<Rightarrow> string \<Rightarrow>
     FactCreateReplicaEnvelopeV1 \<Rightarrow> DeviceId \<Rightarrow> ('s, 'm, 'z) FactStore_scheme \<Rightarrow>
     (MnemesError + FactAckRecord) \<times> ('s, 'm, 'z) FactStore_scheme" where
  "run_fact_create env batch request_digest envelope device_id =
     bindS (device_memory (fe_pool env) (fe_memory env) device_id) (\<lambda>memory.
     bindS (call_memory (fl_apply_create (fe_fact env) memory envelope)) (\<lambda>decision.
     bindS (readS (\<lambda>_. outcome_head (FactCreateRejected ''semantic conflict'') decision)) (\<lambda>accepted_head.
     bindS (refresh_shard_counts (fe_pool env) (fe_memory env) device_id) (\<lambda>_. \<lambda>st.
     let ack = \<lparr> ak_batch_id = fcb_batch_id batch, ak_request_digest = request_digest,
           ak_home_device_id = fcb_home_device_id batch, ak_store_id = fcb_store_id batch,
           ak_epoch = fcb_stream_epoch batch, ak_accepted_head = accepted_head,
           ak_disposition = ''accepted'' \<rparr> in
     case persist_ack (fe_pool env)
            (FactCreateRejected ''stream epoch does not fit SQLite INTEGER'') ack (fs_create_acks st) of
       Inl e \<Rightarrow> (Inl e, st)
     | Inr rows \<Rightarrow> (Inr ack, st\<lparr>fs_create_acks := rows\<rparr>)))))"

definition apply_fact_create_request ::
    "('s, 'm, 'src, 'u) fact_env \<Rightarrow> SignedFactCreateBatchV1 \<Rightarrow> string \<Rightarrow>
     ('s, 'm, 'z) FactStore_scheme \<Rightarrow> (MnemesError + FactAckRecord) \<times> ('s, 'm, 'z) FactStore_scheme" where
  "apply_fact_create_request env batch request_digest =
     bindS (readS (\<lambda>st. get_ack (fe_memory env) (fcb_batch_id batch) (fs_create_acks st))) (\<lambda>existing.
     case existing of
       Some existing \<Rightarrow>
         if ak_request_digest existing \<noteq> request_digest
         then readS (\<lambda>_. Inl (FactCreateRejected ''batch id digest collision''))
         else readS (\<lambda>_. Inr existing)
     | None \<Rightarrow>
         bindS (readS (verify_fact_create env batch)) (\<lambda>(envelope, device_id).
         run_fact_create env batch request_digest envelope device_id))"

text \<open>
  semantic-memory reports a mismatch of the lineage digest as corrupt data. After
  \<open>semantic_envelope\<close> the batch has an entry, so that \<open>replacement_namespace\<close> does not panic.
\<close>

definition supersede_memory_error :: "MnemesError + 'a \<Rightarrow> MnemesError + 'a" where
  "supersede_memory_error m =
     (case m of
        Inl (Memory (CorruptData _ _ detail)) \<Rightarrow>
          if detail = ''fact-supersede semantic lineage digest mismatch''
          then Inl FactSupersedeSemanticConflict else m
      | _ \<Rightarrow> m)"

definition verify_fact_supersede ::
    "('s, 'm, 'src, 'u) fact_env \<Rightarrow> SignedFactSupersedeBatchV1 \<Rightarrow> ('s, 'm, 'z) FactStore_scheme \<Rightarrow>
     MnemesError + FactSupersedeReplicaEnvelopeV1 \<times> DeviceId" where
  "verify_fact_supersede env batch st =
     bindR (map_err (\<lambda>e. Replication (display_replication_error e))
       (semantic_envelope (pe_crypto (fe_pool env)) (fl_supersede_payload (fe_fact env)) batch)) (\<lambda>envelope.
     bindR (map_err (\<lambda>e. FactSupersedeRejected (display_replication_error e))
       (the (replacement_namespace (fl_supersede_payload (fe_fact env))
               (fl_decode_payload (fe_fact env)) batch))) (\<lambda>namespace.
     bindR (check_fact_supersede_admission (fe_uuid env) batch namespace st) (\<lambda>_.
     bindR (map_err Memory (device_id_parse (fe_uuid env) (fsb_home_device_id batch))) (\<lambda>device_id.
     Inr (envelope, device_id)))))"

definition run_fact_supersede ::
    "('s, 'm, 'src, 'u) fact_env \<Rightarrow> SignedFactSupersedeBatchV1 \<Rightarrow> string \<Rightarrow>
     FactSupersedeReplicaEnvelopeV1 \<Rightarrow> DeviceId \<Rightarrow> ('s, 'm, 'z) FactStore_scheme \<Rightarrow>
     (MnemesError + FactAckRecord) \<times> ('s, 'm, 'z) FactStore_scheme" where
  "run_fact_supersede env batch request_digest envelope device_id =
     bindS (device_memory (fe_pool env) (fe_memory env) device_id) (\<lambda>memory.
     bindS (\<lambda>st. let (r, st) = call_memory (fl_apply_supersede (fe_fact env) memory envelope) st
                in (supersede_memory_error r, st)) (\<lambda>decision.
     bindS (readS (\<lambda>_. outcome_head FactSupersedeSemanticConflict decision)) (\<lambda>accepted_head. \<lambda>st.
     let ack = \<lparr> ak_batch_id = fsb_batch_id batch, ak_request_digest = request_digest,
           ak_home_device_id = fsb_home_device_id batch, ak_store_id = fsb_store_id batch,
           ak_epoch = fsb_owner_stream_epoch batch, ak_accepted_head = accepted_head,
           ak_disposition = ''accepted'' \<rparr> in
     case persist_ack (fe_pool env)
            (FactSupersedeRejected ''owner stream epoch does not fit SQLite INTEGER'') ack
            (fs_supersede_acks st) of
       Inl e \<Rightarrow> (Inl e, st)
     | Inr rows \<Rightarrow> (Inr ack, st\<lparr>fs_supersede_acks := rows\<rparr>))))"

definition apply_fact_supersede_request ::
    "('s, 'm, 'src, 'u) fact_env \<Rightarrow> SignedFactSupersedeBatchV1 \<Rightarrow> string \<Rightarrow>
     ('s, 'm, 'z) FactStore_scheme \<Rightarrow> (MnemesError + FactAckRecord) \<times> ('s, 'm, 'z) FactStore_scheme" where
  "apply_fact_supersede_request env batch request_digest =
     bindS (readS (\<lambda>st. get_ack (fe_memory env) (fsb_batch_id batch) (fs_supersede_acks st))) (\<lambda>existing.
     case existing of
       Some existing \<Rightarrow>
         if ak_request_digest existing \<noteq> request_digest
         then readS (\<lambda>_. Inl (FactSupersedeRejected ''batch id digest collision''))
         else readS (\<lambda>_. Inr existing)
     | None \<Rightarrow>
         bindS (readS (verify_fact_supersede env batch)) (\<lambda>(envelope, device_id).
         run_fact_supersede env batch request_digest envelope device_id))"

section \<open>What a request keeps\<close>

text \<open>The control plane, on which authorization rests, apart from the statistics of shards.\<close>

definition same_registry ::
    "('s, 'm, 'z) MnemesStore_scheme \<Rightarrow> ('s, 'm, 'z) MnemesStore_scheme \<Rightarrow> bool" where
  "same_registry st st' \<longleftrightarrow> statistics_only (st_pool st) (st_pool st')"

definition same_facts ::
    "('s, 'm, 'z) FactStore_scheme \<Rightarrow> ('s, 'm, 'z) FactStore_scheme \<Rightarrow> bool" where
  "same_facts st st' \<longleftrightarrow>
     fs_create_admissions st' = fs_create_admissions st \<and> fs_create_acks st' = fs_create_acks st \<and>
     fs_supersede_admissions st' = fs_supersede_admissions st \<and>
     fs_supersede_acks st' = fs_supersede_acks st \<and> same_registry st st'"

lemma same_facts_refl [simp]: "same_facts st st"
  by (simp add: same_facts_def same_registry_def)

lemma same_facts_trans: "same_facts st st' \<Longrightarrow> same_facts st' st'' \<Longrightarrow> same_facts st st''"
  by (auto simp: same_facts_def same_registry_def intro: statistics_only_trans)

lemma more_same_facts:
  "MnemesStore.more st' = MnemesStore.more st \<Longrightarrow> st_pool st' = st_pool st \<Longrightarrow> same_facts st st'"
  by (cases st; cases st') (simp add: same_facts_def same_registry_def)

lemma same_tables_facts: "same_tables st st' \<Longrightarrow> same_facts st st'"
  by (rule more_same_facts) (simp_all add: same_tables_def)

lemma call_memory_facts: "call_memory f st = (r, st') \<Longrightarrow> same_facts st st'"
  by (rule more_same_facts) (drule call_memory_frame, simp)+

lemma set_counts_facts: "set_counts lib stats now (\<lambda>s. s) d st = (r, st') \<Longrightarrow> same_facts st st'"
  by (auto simp: set_counts_def split_beta Let_def same_facts_def same_registry_def shard_identity_def
      split: sum.splits if_splits intro!: update_statistics)

lemma bindS_facts:
  assumes "bindS m f st = (r, st'')"
    and "\<And>x st'. m st = (x, st') \<Longrightarrow> same_facts st st'"
    and "\<And>x st' y st''. m st = (Inr x, st') \<Longrightarrow> f x st' = (y, st'') \<Longrightarrow> same_facts st' st''"
  shows "same_facts st st''"
  using assms by (auto simp: bindS_def split: prod.splits sum.splits intro: same_facts_trans)

lemma refresh_shard_counts_facts:
  "refresh_shard_counts env lib d st = (r, st') \<Longrightarrow> same_facts st st'"
  unfolding refresh_shard_counts_def
  by (erule bindS_facts)
    (auto split: sum.splits dest: device_memory_same same_tables_facts set_counts_facts)

lemma persist_ack_ok:
  "persist_ack env e ack rows = Inr rows' \<longleftrightarrow>
     (\<exists>epoch. i64_try_from_u64 (ak_epoch ack) = Some epoch \<and>
       row_by kr_batch_id (ak_batch_id ack) rows = None \<and>
       rows' = rows @ [\<lparr> kr_batch_id = ak_batch_id ack, kr_request_digest = ak_request_digest ack,
         kr_home_device_id = ak_home_device_id ack, kr_store_id = ak_store_id ack, kr_epoch = epoch,
         kr_accepted_head = ak_accepted_head ack, kr_disposition = ak_disposition ack \<rparr>])"
  by (auto simp: persist_ack_def bindR_eq_Inr ok_or_eq sql_insert_ok row_by_None has_key_iff)

text \<open>The effects of a new batch: no record after an error, one record after a success.\<close>

definition recorded_now :: "pool_env \<Rightarrow> FactAckRecord \<Rightarrow> ack_row list \<Rightarrow> ack_row list \<Rightarrow> bool" where
  "recorded_now env ack rows rows' \<longleftrightarrow> (\<exists>e. persist_ack env e ack rows = Inr rows')"

lemma run_fact_create_cases:
  assumes "run_fact_create env batch digest envelope d st = (r, st')"
  shows "(\<exists>e. r = Inl e \<and> same_facts st st') \<or>
     (\<exists>ack. r = Inr ack \<and> fs_create_admissions st' = fs_create_admissions st \<and>
        fs_supersede_admissions st' = fs_supersede_admissions st \<and>
        fs_supersede_acks st' = fs_supersede_acks st \<and> same_registry st st' \<and>
        recorded_now (fe_pool env) ack (fs_create_acks st) (fs_create_acks st') \<and>
        ak_batch_id ack = fcb_batch_id batch \<and> ak_request_digest ack = digest \<and>
        ak_epoch ack = fcb_stream_epoch batch \<and> ak_home_device_id ack = fcb_home_device_id batch)"
proof -
  obtain x st1 where one: "device_memory (fe_pool env) (fe_memory env) d st = (x, st1)" by fastforce
  have s1: "same_facts st st1" using device_memory_same [OF one] by (rule same_tables_facts)
  show ?thesis
  proof (cases x)
    case (Inl e)
    with assms one s1 show ?thesis by (auto simp: run_fact_create_def bindS_def)
  next
    case (Inr memory)
    obtain y st2 where two: "call_memory (fl_apply_create (fe_fact env) memory envelope) st1 = (y, st2)"
      by fastforce
    have s2: "same_facts st st2" using s1 call_memory_facts [OF two] by (rule same_facts_trans)
    show ?thesis
    proof (cases "bindR y (outcome_head (FactCreateRejected ''semantic conflict''))")
      case (Inl e)
      then have "r = Inl e \<and> st' = st2"
        using assms one Inr two
        by (cases y) (auto simp: run_fact_create_def bindS_def readS_def \<open>x = Inr memory\<close>)
      with s2 show ?thesis by blast
    next
      case head: (Inr head)
      obtain z st3 where three: "refresh_shard_counts (fe_pool env) (fe_memory env) d st2 = (z, st3)"
        by fastforce
      have s3: "same_facts st st3" using s2 refresh_shard_counts_facts [OF three] by (rule same_facts_trans)
      from head obtain decision where "y = Inr decision"
        "outcome_head (FactCreateRejected ''semantic conflict'') decision = Inr head"
        by (auto simp: bindR_eq_Inr)
      with assms one Inr two three have "(case z of Inl e \<Rightarrow> (Inl e, st3) | Inr _ \<Rightarrow>
          (let ack = \<lparr> ak_batch_id = fcb_batch_id batch, ak_request_digest = digest,
             ak_home_device_id = fcb_home_device_id batch, ak_store_id = fcb_store_id batch,
             ak_epoch = fcb_stream_epoch batch, ak_accepted_head = head,
             ak_disposition = ''accepted'' \<rparr> in
           case persist_ack (fe_pool env)
              (FactCreateRejected ''stream epoch does not fit SQLite INTEGER'') ack (fs_create_acks st3) of
             Inl e \<Rightarrow> (Inl e, st3)
           | Inr rows \<Rightarrow> (Inr ack, st3\<lparr>fs_create_acks := rows\<rparr>))) = (r, st')"
        by (simp add: run_fact_create_def bindS_def readS_def)
      then show ?thesis
        using s3 by (auto simp: Let_def recorded_now_def same_facts_def same_registry_def split: sum.splits)
    qed
  qed
qed

lemma run_fact_supersede_cases:
  assumes "run_fact_supersede env batch digest envelope d st = (r, st')"
  shows "(\<exists>e. r = Inl e \<and> same_facts st st') \<or>
     (\<exists>ack. r = Inr ack \<and> fs_create_admissions st' = fs_create_admissions st \<and>
        fs_supersede_admissions st' = fs_supersede_admissions st \<and>
        fs_create_acks st' = fs_create_acks st \<and> same_registry st st' \<and>
        recorded_now (fe_pool env) ack (fs_supersede_acks st) (fs_supersede_acks st') \<and>
        ak_batch_id ack = fsb_batch_id batch \<and> ak_request_digest ack = digest \<and>
        ak_epoch ack = fsb_owner_stream_epoch batch \<and> ak_home_device_id ack = fsb_home_device_id batch)"
proof -
  obtain x st1 where one: "device_memory (fe_pool env) (fe_memory env) d st = (x, st1)" by fastforce
  have s1: "same_facts st st1" using device_memory_same [OF one] by (rule same_tables_facts)
  show ?thesis
  proof (cases x)
    case (Inl e)
    with assms one s1 show ?thesis by (auto simp: run_fact_supersede_def bindS_def)
  next
    case (Inr memory)
    obtain y st2 where two: "call_memory (fl_apply_supersede (fe_fact env) memory envelope) st1 = (y, st2)"
      by fastforce
    have s2: "same_facts st st2" using s1 call_memory_facts [OF two] by (rule same_facts_trans)
    show ?thesis
    proof (cases "bindR (supersede_memory_error y) (outcome_head FactSupersedeSemanticConflict)")
      case (Inl e)
      then have "r = Inl e \<and> st' = st2"
        using assms one Inr two
        by (cases "supersede_memory_error y") 
          (auto simp: run_fact_supersede_def bindS_def readS_def \<open>x = Inr memory\<close>)
      with s2 show ?thesis by blast
    next
      case head: (Inr head)
      from head obtain decision where "supersede_memory_error y = Inr decision"
        "outcome_head FactSupersedeSemanticConflict decision = Inr head"
        by (auto simp: bindR_eq_Inr)
      with assms one Inr two have "(let ack = \<lparr> ak_batch_id = fsb_batch_id batch, ak_request_digest = digest,
             ak_home_device_id = fsb_home_device_id batch, ak_store_id = fsb_store_id batch,
             ak_epoch = fsb_owner_stream_epoch batch, ak_accepted_head = head,
             ak_disposition = ''accepted'' \<rparr> in
           case persist_ack (fe_pool env)
              (FactSupersedeRejected ''owner stream epoch does not fit SQLite INTEGER'') ack
              (fs_supersede_acks st2) of
             Inl e \<Rightarrow> (Inl e, st2)
           | Inr rows \<Rightarrow> (Inr ack, st2\<lparr>fs_supersede_acks := rows\<rparr>)) = (r, st')"
        by (simp add: run_fact_supersede_def bindS_def readS_def)
      then show ?thesis
        using s2 by (auto simp: Let_def recorded_now_def same_facts_def same_registry_def split: sum.splits)
    qed
  qed
qed

text \<open>A recorded batch is answered from its record, whatever the request for it is.\<close>

lemma acked_request:
  assumes "bindS (readS (\<lambda>st. get_ack lib k (acks st))) (\<lambda>existing. case existing of
       Some existing \<Rightarrow> if ak_request_digest existing \<noteq> digest then readS (\<lambda>_. Inl reject)
         else readS (\<lambda>_. Inr existing)
     | None \<Rightarrow> fresh) st = (r, st')"
  shows "(case row_by kr_batch_id k (acks st) of
       None \<Rightarrow> fresh st = (r, st')
     | Some row \<Rightarrow> st' = st \<and> r = bindR (ack_of_row lib row) (\<lambda>ack.
         if kr_request_digest row \<noteq> digest then Inl reject else Inr ack))"
proof (cases "row_by kr_batch_id k (acks st)")
  case (Some row)
  show ?thesis
  proof (cases "ack_of_row lib row")
    case (Inl e)
    with assms Some have "r = Inl e \<and> st' = st" by (auto simp: get_ack_def)
    with Some Inl show ?thesis by simp
  next
    case (Inr ack)
    then have "ak_request_digest ack = kr_request_digest row"
      by (auto simp: ack_of_row_def bindR_eq_Inr)
    with assms Some Inr show ?thesis by (auto simp: get_ack_def split: if_splits)
  qed
qed (use assms in \<open>simp add: get_ack_def\<close>)

definition recorded_digest :: "ack_row list \<Rightarrow> string \<Rightarrow> string option" where
  "recorded_digest rows batch_id = map_option kr_request_digest (row_by kr_batch_id batch_id rows)"

lemma recorded_now_digest:
  "recorded_now env ack rows rows' \<Longrightarrow>
     recorded_digest rows (ak_batch_id ack) = None \<and>
     recorded_digest rows' = (recorded_digest rows)(ak_batch_id ack \<mapsto> ak_request_digest ack)"
  by (auto simp: recorded_now_def persist_ack_ok recorded_digest_def row_by_append row_by_single
      fun_eq_iff split: option.splits)

text \<open>A request by its three cases: recorded before, refused, and accepted now.\<close>

definition answered_from :: "('s, 'm, 'src) memory_lib \<Rightarrow> ack_row \<Rightarrow> MnemesError \<Rightarrow> string \<Rightarrow>
    MnemesError + FactAckRecord" where
  "answered_from lib row collision digest =
     bindR (ack_of_row lib row) (\<lambda>ack.
       if kr_request_digest row \<noteq> digest then Inl collision else Inr ack)"

lemma answered_from_ok:
  "answered_from lib row collision digest = Inr ack \<Longrightarrow>
     ack_of_row lib row = Inr ack \<and> kr_request_digest row = digest"
  by (auto simp: answered_from_def bindR_eq_Inr split: if_splits)

definition created_now ::
    "('s, 'm, 'src, 'u) fact_env \<Rightarrow> SignedFactCreateBatchV1 \<Rightarrow> string \<Rightarrow> FactAckRecord \<Rightarrow>
     ('s, 'm, 'z) FactStore_scheme \<Rightarrow> ('s, 'm, 'z) FactStore_scheme \<Rightarrow> bool" where
  "created_now env batch digest ack st st' \<longleftrightarrow>
     (\<exists>vd. verify_fact_create env batch st = Inr vd) \<and>
     recorded_now (fe_pool env) ack (fs_create_acks st) (fs_create_acks st') \<and>
     ak_batch_id ack = fcb_batch_id batch \<and> ak_request_digest ack = digest \<and>
     ak_epoch ack = fcb_stream_epoch batch \<and> ak_home_device_id ack = fcb_home_device_id batch \<and>
     fs_create_admissions st' = fs_create_admissions st \<and>
     fs_supersede_admissions st' = fs_supersede_admissions st \<and>
     fs_supersede_acks st' = fs_supersede_acks st \<and> same_registry st st'"

lemma create_request_cases:
  assumes "apply_fact_create_request env batch digest st = (r, st')"
  shows "case row_by kr_batch_id (fcb_batch_id batch) (fs_create_acks st) of
      Some row \<Rightarrow> st' = st \<and> r = answered_from (fe_memory env) row
        (FactCreateRejected ''batch id digest collision'') digest
    | None \<Rightarrow> (\<exists>e. r = Inl e \<and> same_facts st st') \<or>
        (\<exists>ack. r = Inr ack \<and> created_now env batch digest ack st st')"
proof -
  note cases = acked_request [OF assms [unfolded apply_fact_create_request_def]]
  show ?thesis
  proof (cases "row_by kr_batch_id (fcb_batch_id batch) (fs_create_acks st)")
    case (Some row)
    with cases show ?thesis by (simp add: answered_from_def)
  next
    case None
    with cases have fresh: "bindS (readS (verify_fact_create env batch)) (\<lambda>(envelope, d).
        run_fact_create env batch digest envelope d) st = (r, st')" by simp
    show ?thesis
    proof (cases "verify_fact_create env batch st")
      case (Inl e)
      with fresh None show ?thesis by (auto simp: bindS_def readS_def)
    next
      case (Inr vd)
      obtain envelope d where vd: "vd = (envelope, d)" by (cases vd)
      with fresh Inr have "run_fact_create env batch digest envelope d st = (r, st')"
        by (simp add: bindS_def readS_def)
      from run_fact_create_cases [OF this] None Inr vd show ?thesis
        by (auto simp: created_now_def same_facts_def)
    qed
  qed
qed

definition superseded_now ::
    "('s, 'm, 'src, 'u) fact_env \<Rightarrow> SignedFactSupersedeBatchV1 \<Rightarrow> string \<Rightarrow> FactAckRecord \<Rightarrow>
     ('s, 'm, 'z) FactStore_scheme \<Rightarrow> ('s, 'm, 'z) FactStore_scheme \<Rightarrow> bool" where
  "superseded_now env batch digest ack st st' \<longleftrightarrow>
     (\<exists>vd. verify_fact_supersede env batch st = Inr vd) \<and>
     recorded_now (fe_pool env) ack (fs_supersede_acks st) (fs_supersede_acks st') \<and>
     ak_batch_id ack = fsb_batch_id batch \<and> ak_request_digest ack = digest \<and>
     ak_epoch ack = fsb_owner_stream_epoch batch \<and> ak_home_device_id ack = fsb_home_device_id batch \<and>
     fs_create_admissions st' = fs_create_admissions st \<and>
     fs_supersede_admissions st' = fs_supersede_admissions st \<and>
     fs_create_acks st' = fs_create_acks st \<and> same_registry st st'"

lemma supersede_request_cases:
  assumes "apply_fact_supersede_request env batch digest st = (r, st')"
  shows "case row_by kr_batch_id (fsb_batch_id batch) (fs_supersede_acks st) of
      Some row \<Rightarrow> st' = st \<and> r = answered_from (fe_memory env) row
        (FactSupersedeRejected ''batch id digest collision'') digest
    | None \<Rightarrow> (\<exists>e. r = Inl e \<and> same_facts st st') \<or>
        (\<exists>ack. r = Inr ack \<and> superseded_now env batch digest ack st st')"
proof -
  note cases = acked_request [OF assms [unfolded apply_fact_supersede_request_def]]
  show ?thesis
  proof (cases "row_by kr_batch_id (fsb_batch_id batch) (fs_supersede_acks st)")
    case (Some row)
    with cases show ?thesis by (simp add: answered_from_def)
  next
    case None
    with cases have fresh: "bindS (readS (verify_fact_supersede env batch)) (\<lambda>(envelope, d).
        run_fact_supersede env batch digest envelope d) st = (r, st')" by simp
    show ?thesis
    proof (cases "verify_fact_supersede env batch st")
      case (Inl e)
      with fresh None show ?thesis by (auto simp: bindS_def readS_def)
    next
      case (Inr vd)
      obtain envelope d where vd: "vd = (envelope, d)" by (cases vd)
      with fresh Inr have "run_fact_supersede env batch digest envelope d st = (r, st')"
        by (simp add: bindS_def readS_def)
      from run_fact_supersede_cases [OF this] None Inr vd show ?thesis
        by (auto simp: superseded_now_def same_facts_def)
    qed
  qed
qed

end
