(* ===== verification/Fact_Ledger.thy ===== *)
theory Fact_Ledger
  imports Fact_Admission Exactly_Once
begin

text \<open>
  What the acceptance of signed fact batches promises: a batch id is accepted at most once, the
  tables keep the types of their schema, an acknowledgement is replayed for as long as its digest is
  asked for, and only an admitted, unrevoked key inside its window writes.
\<close>

section \<open>Exactly once\<close>

text \<open>
  An operation with its batch id as the key: the answer says whether the batch was accepted now.
\<close>

definition accept_create ::
    "('s, 'm, 'src, 'u) fact_env \<Rightarrow> string \<Rightarrow> SignedFactCreateBatchV1 \<times> string \<Rightarrow>
     ('s, 'm) FactStore \<Rightarrow> (MnemesError + bool) \<times> ('s, 'm) FactStore" where
  "accept_create env batch_id op st =
     (let (r, st') = apply_fact_create_request env ((fst op)\<lparr>fcb_batch_id := batch_id\<rparr>) (snd op) st
      in (bindR r (\<lambda>_. Inr (recorded_digest (fs_create_acks st) batch_id = None)), st'))"

definition accept_supersede ::
    "('s, 'm, 'src, 'u) fact_env \<Rightarrow> string \<Rightarrow> SignedFactSupersedeBatchV1 \<times> string \<Rightarrow>
     ('s, 'm) FactStore \<Rightarrow> (MnemesError + bool) \<times> ('s, 'm) FactStore" where
  "accept_supersede env batch_id op st =
     (let (r, st') = apply_fact_supersede_request env ((fst op)\<lparr>fsb_batch_id := batch_id\<rparr>) (snd op) st
      in (bindR r (\<lambda>_. Inr (recorded_digest (fs_supersede_acks st) batch_id = None)), st'))"

lemma accept_create_cases:
  assumes "accept_create env k op st = (r, st')"
  shows "(\<exists>e. r = Inl e \<and> recorded_digest (fs_create_acks st') = recorded_digest (fs_create_acks st)
           \<and> (recorded_digest (fs_create_acks st) k \<noteq> None \<longrightarrow> st' = st)) \<or>
     (r = Inr False \<and> st' = st \<and> recorded_digest (fs_create_acks st) k = Some (snd op)) \<or>
     (r = Inr True \<and> recorded_digest (fs_create_acks st) k = None \<and>
        recorded_digest (fs_create_acks st') = (recorded_digest (fs_create_acks st))(k \<mapsto> snd op))"
proof -
  obtain x where x: "apply_fact_create_request env ((fst op)\<lparr>fcb_batch_id := k\<rparr>) (snd op) st = (x, st')"
    and r: "r = bindR x (\<lambda>_. Inr (recorded_digest (fs_create_acks st) k = None))"
    using assms by (auto simp: accept_create_def split: prod.splits)
  note cases = create_request_cases [OF x, simplified]
  show ?thesis
  proof (cases "row_by kr_batch_id k (fs_create_acks st)")
    case (Some row)
    then have known: "recorded_digest (fs_create_acks st) k = Some (kr_request_digest row)"
      by (simp add: recorded_digest_def)
    from cases Some have st: "st' = st" "x = answered_from (fe_memory env) row
      (FactCreateRejected ''batch id digest collision'') (snd op)" by simp_all
    show ?thesis
    proof (cases x)
      case (Inl e)
      then show ?thesis using r st(1) by simp
    next
      case (Inr ack)
      have "kr_request_digest row = snd op"
        using answered_from_ok [OF trans [OF st(2) [symmetric] Inr]] ..
      then show ?thesis using r st(1) Inr known by simp
    qed
  next
    case None
    then have unknown: "recorded_digest (fs_create_acks st) k = None"
      by (simp add: recorded_digest_def)
    from cases consider e where "x = Inl e" "same_facts st st'"
      | ack where "x = Inr ack" "created_now env ((fst op)\<lparr>fcb_batch_id := k\<rparr>) (snd op) ack st st'"
      unfolding None option.case by blast
    then show ?thesis
    proof cases
      case 1
      then show ?thesis using r unknown by (simp add: same_facts_def)
    next
      case 2
      then have now: "recorded_now (fe_pool env) ack (fs_create_acks st) (fs_create_acks st')"
        "ak_batch_id ack = k" "ak_request_digest ack = snd op" by (simp_all add: created_now_def)
      show ?thesis using r 2(1) recorded_now_digest [OF now(1)] unfolding now(2,3) by simp
    qed
  qed
qed

lemma accept_supersede_cases:
  assumes "accept_supersede env k op st = (r, st')"
  shows "(\<exists>e. r = Inl e \<and> recorded_digest (fs_supersede_acks st') = recorded_digest (fs_supersede_acks st)
           \<and> (recorded_digest (fs_supersede_acks st) k \<noteq> None \<longrightarrow> st' = st)) \<or>
     (r = Inr False \<and> st' = st \<and> recorded_digest (fs_supersede_acks st) k = Some (snd op)) \<or>
     (r = Inr True \<and> recorded_digest (fs_supersede_acks st) k = None \<and>
        recorded_digest (fs_supersede_acks st') = (recorded_digest (fs_supersede_acks st))(k \<mapsto> snd op))"
proof -
  obtain x where x: "apply_fact_supersede_request env ((fst op)\<lparr>fsb_batch_id := k\<rparr>) (snd op) st = (x, st')"
    and r: "r = bindR x (\<lambda>_. Inr (recorded_digest (fs_supersede_acks st) k = None))"
    using assms by (auto simp: accept_supersede_def split: prod.splits)
  note cases = supersede_request_cases [OF x, simplified]
  show ?thesis
  proof (cases "row_by kr_batch_id k (fs_supersede_acks st)")
    case (Some row)
    then have known: "recorded_digest (fs_supersede_acks st) k = Some (kr_request_digest row)"
      by (simp add: recorded_digest_def)
    from cases Some have st: "st' = st" "x = answered_from (fe_memory env) row
      (FactSupersedeRejected ''batch id digest collision'') (snd op)" by simp_all
    show ?thesis
    proof (cases x)
      case (Inl e)
      then show ?thesis using r st(1) by simp
    next
      case (Inr ack)
      have "kr_request_digest row = snd op"
        using answered_from_ok [OF trans [OF st(2) [symmetric] Inr]] ..
      then show ?thesis using r st(1) Inr known by simp
    qed
  next
    case None
    then have unknown: "recorded_digest (fs_supersede_acks st) k = None"
      by (simp add: recorded_digest_def)
    from cases consider e where "x = Inl e" "same_facts st st'"
      | ack where "x = Inr ack" "superseded_now env ((fst op)\<lparr>fsb_batch_id := k\<rparr>) (snd op) ack st st'"
      unfolding None option.case by blast
    then show ?thesis
    proof cases
      case 1
      then show ?thesis using r unknown by (simp add: same_facts_def)
    next
      case 2
      then have now: "recorded_now (fe_pool env) ack (fs_supersede_acks st) (fs_supersede_acks st')"
        "ak_batch_id ack = k" "ak_request_digest ack = snd op" by (simp_all add: superseded_now_def)
      show ?thesis using r 2(1) recorded_now_digest [OF now(1)] unfolding now(2,3) by simp
    qed
  qed
qed

interpretation create_once: exactly_once "\<lambda>st. recorded_digest (fs_create_acks st)"
    "accept_create env" snd "\<lambda>q op. q = snd op"
  by unfold_locales (auto dest!: accept_create_cases)

interpretation supersede_once: exactly_once "\<lambda>st. recorded_digest (fs_supersede_acks st)"
    "accept_supersede env" snd "\<lambda>q op. q = snd op"
  by unfold_locales (auto dest!: accept_supersede_cases)

section \<open>The types of the tables\<close>

text \<open>The constraints of the schema, with the widths of the columns.\<close>

definition admission_typed :: "bool \<Rightarrow> admission_row \<Rightarrow> bool" where
  "admission_typed supersede a \<longleftrightarrow>
     0 < ad_key_version a \<and> ad_key_version a \<le> i64_max \<and> length (ad_public_key a) = 32 \<and>
     0 \<le> ad_activated_at a \<and> ad_activated_at a \<le> ad_cutoff_at a \<and> ad_cutoff_at a \<le> i64_max \<and>
     0 < ad_epoch a \<and> ad_epoch a \<le> i64_max \<and>
     (case ad_writer_epoch a of None \<Rightarrow> \<not> supersede
      | Some e \<Rightarrow> supersede \<and> 0 < e \<and> e \<le> i64_max)"

definition ack_typed :: "ack_row \<Rightarrow> bool" where
  "ack_typed k \<longleftrightarrow> 0 \<le> kr_epoch k \<and> kr_epoch k \<le> i64_max"

definition facts_typed :: "('s, 'm, 'z) FactStore_scheme \<Rightarrow> bool" where
  "facts_typed st \<longleftrightarrow>
     list_all (admission_typed False) (fs_create_admissions st) \<and>
     list_all (admission_typed True) (fs_supersede_admissions st) \<and>
     list_all ack_typed (fs_create_acks st) \<and> list_all ack_typed (fs_supersede_acks st) \<and>
     distinct (map admission_key (fs_create_admissions st)) \<and>
     distinct (map admission_key (fs_supersede_admissions st)) \<and>
     distinct (map kr_batch_id (fs_create_acks st)) \<and>
     distinct (map kr_batch_id (fs_supersede_acks st))"

lemma upsert_rows:
  assumes "sql_upsert message violations key row rows = Inr rows'"
  shows "(\<forall>v \<in> set violations. \<not> fst v) \<and> set rows' \<subseteq> insert row (set rows) \<and> row \<in> set rows' \<and>
    (distinct (map key rows) \<longrightarrow> distinct (map key rows'))"
proof -
  have ok: "\<forall>v \<in> set violations. \<not> fst v"
    and rows': "rows' = (if has_key key (key row) rows
      then map (\<lambda>r. if key r = key row then row else r) rows else rows @ [row])"
    using assms by (auto simp: sql_upsert_def bindR_eq_Inr checks_ok fail_if_eq split_beta sql_update_def)
  have same: "map key (map (\<lambda>r. if key r = key row then row else r) rows) = map key rows" by simp
  have "distinct (map key rows) \<longrightarrow> distinct (map key rows')"
    unfolding rows' using same by (simp add: has_key_iff del: map_map)
  then show ?thesis
    using ok unfolding rows' by (auto simp: has_key_iff split: if_splits)
qed

lemma revoke_rows_typed:
  "list_all (admission_typed b) rows \<Longrightarrow> list_all (admission_typed b) (revoke_rows d s n p v rows)"
  by (auto simp: revoke_rows_def sql_update_def list_all_iff admission_typed_def)

lemma revoke_rows_keys: "map admission_key (revoke_rows d s n p v rows) = map admission_key rows"
  unfolding revoke_rows_def by (rule sql_update_keys) (simp add: admission_key_def)

lemma recorded_now_typed:
  assumes "recorded_now env ack rows rows'" "list_all ack_typed rows" "distinct (map kr_batch_id rows)"
  shows "list_all ack_typed rows' \<and> distinct (map kr_batch_id rows')"
  using assms
  by (auto simp: recorded_now_def persist_ack_ok row_by_None ack_typed_def dest: i64_try_from_u64_SomeD)

datatype fact_op =
    AdmitCreate FactCreateAdmission
  | RevokeCreate DeviceId string string string u64
  | ApplyCreate SignedFactCreateBatchV1 string
  | AdmitSupersede FactSupersedeAdmission
  | RevokeSupersede DeviceId string string string u64
  | ApplySupersede SignedFactSupersedeBatchV1 string

fun fact_step :: "('s, 'm, 'src, 'u) fact_env \<Rightarrow> fact_op \<Rightarrow> ('s, 'm, 'z) FactStore_scheme \<Rightarrow>
    ('s, 'm, 'z) FactStore_scheme" where
  "fact_step env (AdmitCreate a) st = snd (admit_fact_create_key (fe_pool env) a st)"
| "fact_step env (RevokeCreate d s n p v) st = revoke_fact_create_key d s n p v st"
| "fact_step env (ApplyCreate b digest) st = snd (apply_fact_create_request env b digest st)"
| "fact_step env (AdmitSupersede a) st = snd (admit_fact_supersede_key (fe_pool env) a st)"
| "fact_step env (RevokeSupersede d s n p v) st = revoke_fact_supersede_key d s n p v st"
| "fact_step env (ApplySupersede b digest) st = snd (apply_fact_supersede_request env b digest st)"

lemma fits_integer_ok: "fits_integer reject what v = Inr i \<longleftrightarrow> i64_try_from_u64 v = Some i"
  by (simp add: fits_integer_def ok_or_eq)

definition in_range :: "bool \<Rightarrow> admission_row \<Rightarrow> bool" where
  "in_range supersede a \<longleftrightarrow>
     ad_key_version a \<le> i64_max \<and> ad_cutoff_at a \<le> i64_max \<and> ad_epoch a \<le> i64_max \<and>
     (case ad_writer_epoch a of None \<Rightarrow> \<not> supersede | Some e \<Rightarrow> supersede \<and> e \<le> i64_max)"

lemma create_admission_in_range: "create_admission_row a = Inr row \<Longrightarrow> in_range False row"
  unfolding create_admission_row_def
  by (auto simp: bindR_eq_Inr fits_integer_ok in_range_def dest!: i64_try_from_u64_SomeD)

lemma supersede_admission_in_range: "supersede_admission_row a = Inr row \<Longrightarrow> in_range True row"
  unfolding supersede_admission_row_def
  by (auto simp: bindR_eq_Inr fits_integer_ok in_range_def dest!: i64_try_from_u64_SomeD)

lemma upsert_typed:
  assumes "sql_upsert message (admission_checks row db) admission_key row rows = Inr rows'"
    and "in_range b row" "list_all (admission_typed b) rows" "distinct (map admission_key rows)"
  shows "list_all (admission_typed b) rows' \<and> distinct (map admission_key rows')"
proof -
  have "admission_typed b row"
    using upsert_rows [OF assms(1)] assms(2)
    by (auto simp: admission_checks_def in_range_def admission_typed_def split: option.splits)
  with upsert_rows [OF assms(1)] assms(3,4) show ?thesis by (auto simp: list_all_iff)
qed

lemma admit_create_typed:
  "facts_typed st \<Longrightarrow> admit_fact_create_key env a st = (r, st') \<Longrightarrow> facts_typed st'"
  by (auto simp: admit_fact_create_key_def bindR_eq_Inr facts_typed_def split: sum.splits
      dest!: create_admission_in_range upsert_typed)

lemma admit_supersede_typed:
  "facts_typed st \<Longrightarrow> admit_fact_supersede_key env a st = (r, st') \<Longrightarrow> facts_typed st'"
  by (auto simp: admit_fact_supersede_key_def bindR_eq_Inr facts_typed_def split: sum.splits
      dest!: supersede_admission_in_range upsert_typed)

lemma same_facts_typed: "same_facts st st' \<Longrightarrow> facts_typed st' = facts_typed st"
  by (simp add: same_facts_def facts_typed_def)

lemma apply_create_typed:
  assumes "facts_typed st" "apply_fact_create_request env b digest st = (r, st')"
  shows "facts_typed st'"
proof -
  from create_request_cases [OF assms(2)] consider "st' = st" | "same_facts st st'"
    | ack where "created_now env b digest ack st st'"
    by (auto split: option.splits)
  then show ?thesis
  proof cases
    case 3
    then show ?thesis
      using assms(1) recorded_now_typed by (fastforce simp: created_now_def facts_typed_def)
  qed (use assms(1) same_facts_typed in auto)
qed

lemma apply_supersede_typed:
  assumes "facts_typed st" "apply_fact_supersede_request env b digest st = (r, st')"
  shows "facts_typed st'"
proof -
  from supersede_request_cases [OF assms(2)] consider "st' = st" | "same_facts st st'"
    | ack where "superseded_now env b digest ack st st'"
    by (auto split: option.splits)
  then show ?thesis
  proof cases
    case 3
    then show ?thesis
      using assms(1) recorded_now_typed by (fastforce simp: superseded_now_def facts_typed_def)
  qed (use assms(1) same_facts_typed in auto)
qed

lemma fact_step_typed: "facts_typed st \<Longrightarrow> facts_typed (fact_step env op st)"
proof (cases op)
  case (RevokeCreate d s n p v)
  assume "facts_typed st"
  then show ?thesis
    by (simp add: RevokeCreate revoke_fact_create_key_def facts_typed_def revoke_rows_typed revoke_rows_keys)
next
  case (RevokeSupersede d s n p v)
  assume "facts_typed st"
  then show ?thesis
    by (simp add: RevokeSupersede revoke_fact_supersede_key_def facts_typed_def revoke_rows_typed
        revoke_rows_keys)
qed (auto intro: admit_create_typed admit_supersede_typed apply_create_typed apply_supersede_typed
    intro!: surjective_pairing)

lemma fact_run_typed: "facts_typed st \<Longrightarrow> facts_typed (fold (fact_step env) ops st)"
  by (induction ops arbitrary: st) (simp_all add: fact_step_typed)

text \<open>
  C35. Starting from empty tables, every sequence of admissions, revocations and requests of both
  families leaves rows that satisfy the schema: positive key versions and epochs within the signed
  column, 32-byte keys, windows that are not empty, writer epochs for supersede rows only, one row
  per scope and key version, one acknowledgement per batch id.
\<close>

theorem fact_tables_typed:
  "facts_typed (fold (fact_step env) ops (st\<lparr>fs_create_admissions := [], fs_create_acks := [],
     fs_supersede_admissions := [], fs_supersede_acks := []\<rparr>))"
  by (rule fact_run_typed) (simp add: facts_typed_def)

section \<open>Replays\<close>

lemma recorded_now_row:
  assumes "recorded_now env ack rows rows'"
  shows "\<exists>row. row_by kr_batch_id (ak_batch_id ack) rows' = Some row \<and>
    kr_request_digest row = ak_request_digest ack \<and> ack_of_row lib row = Inr ack"
proof -
  obtain i where "i64_try_from_u64 (ak_epoch ack) = Some i" "row_by kr_batch_id (ak_batch_id ack) rows = None"
    "rows' = rows @ [\<lparr> kr_batch_id = ak_batch_id ack, kr_request_digest = ak_request_digest ack,
         kr_home_device_id = ak_home_device_id ack, kr_store_id = ak_store_id ack, kr_epoch = i,
         kr_accepted_head = ak_accepted_head ack, kr_disposition = ak_disposition ack \<rparr>]"
    using assms by (auto simp: recorded_now_def persist_ack_ok)
  then show ?thesis
    by (simp add: row_by_append row_by_single ack_of_row_def column_u64_def i64_try_from_u64_roundtrip)
qed

lemma create_accepted_row:
  assumes "apply_fact_create_request env batch digest st = (Inr ack, st')"
  shows "\<exists>row. row_by kr_batch_id (fcb_batch_id batch) (fs_create_acks st') = Some row \<and>
    kr_request_digest row = digest \<and> ack_of_row (fe_memory env) row = Inr ack"
proof (cases "row_by kr_batch_id (fcb_batch_id batch) (fs_create_acks st)")
  case (Some row)
  with create_request_cases [OF assms] have "st' = st"
    "answered_from (fe_memory env) row (FactCreateRejected ''batch id digest collision'') digest = Inr ack"
    by simp_all
  with Some show ?thesis by (auto dest: answered_from_ok)
next
  case None
  with create_request_cases [OF assms] have "created_now env batch digest ack st st'" by simp
  then show ?thesis using recorded_now_row [of "fe_pool env" ack "fs_create_acks st" "fs_create_acks st'"
        "fe_memory env"]
    by (simp add: created_now_def)
qed

lemma supersede_accepted_row:
  assumes "apply_fact_supersede_request env batch digest st = (Inr ack, st')"
  shows "\<exists>row. row_by kr_batch_id (fsb_batch_id batch) (fs_supersede_acks st') = Some row \<and>
    kr_request_digest row = digest \<and> ack_of_row (fe_memory env) row = Inr ack"
proof (cases "row_by kr_batch_id (fsb_batch_id batch) (fs_supersede_acks st)")
  case (Some row)
  with supersede_request_cases [OF assms] have "st' = st"
    "answered_from (fe_memory env) row (FactSupersedeRejected ''batch id digest collision'') digest = Inr ack"
    by simp_all
  with Some show ?thesis by (auto dest: answered_from_ok)
next
  case None
  with supersede_request_cases [OF assms] have "superseded_now env batch digest ack st st'" by simp
  then show ?thesis using recorded_now_row [of "fe_pool env" ack "fs_supersede_acks st" "fs_supersede_acks st'"
        "fe_memory env"]
    by (simp add: superseded_now_def)
qed

lemma acked_answer:
  assumes "row_by kr_batch_id (fcb_batch_id batch) (fs_create_acks st) = Some row"
    and "kr_request_digest row = digest" "ack_of_row (fe_memory env) row = Inr ack"
  shows "apply_fact_create_request env batch digest' st =
    (if digest' = digest then Inr ack else Inl (FactCreateRejected ''batch id digest collision''), st)"
proof -
  obtain r st' where step: "apply_fact_create_request env batch digest' st = (r, st')" by fastforce
  with create_request_cases [OF step] assms show ?thesis by (auto simp: answered_from_def)
qed

lemma acked_supersede_answer:
  assumes "row_by kr_batch_id (fsb_batch_id batch) (fs_supersede_acks st) = Some row"
    and "kr_request_digest row = digest" "ack_of_row (fe_memory env) row = Inr ack"
  shows "apply_fact_supersede_request env batch digest' st =
    (if digest' = digest then Inr ack else Inl (FactSupersedeRejected ''batch id digest collision''), st)"
proof -
  obtain r st' where step: "apply_fact_supersede_request env batch digest' st = (r, st')" by fastforce
  with supersede_request_cases [OF step] assms show ?thesis by (auto simp: answered_from_def)
qed

text \<open>A store that admits the writer of the example batches.\<close>

definition example_fact_env :: "(string, unit, unit, string) fact_env" where
  "example_fact_env = \<lparr> fe_pool = example_pool_env, fe_memory = toy_memory,
     fe_fact = \<lparr> fl_names = example_names, fl_create_namespace = (\<lambda>_. Inr ''ns''),
       fl_supersede_payload = (\<lambda>_. Inr []), fl_decode_payload = (\<lambda>_. Inr ''ns''),
       fl_apply_create = (\<lambda>_ _ m. (Inr (RowApplied 1), m)),
       fl_apply_supersede = (\<lambda>_ _ m. (Inr (RowApplied 2), m)) \<rparr>,
     fe_uuid = toy_uuid \<rparr>"

definition example_admission :: admission_row where
  "example_admission = \<lparr> ad_device_id = DeviceId ''device-1'', ad_store_id = ''store-1'',
     ad_namespace = ''ns'', ad_principal_id = ''operator-1'', ad_key_version = 1,
     ad_public_key = ed_public toy_crypto [7], ad_activated_at = 1, ad_cutoff_at = 9,
     ad_revoked = False, ad_epoch = 1, ad_writer_epoch = None, ad_fencing_token = ''fence-1'' \<rparr>"

definition example_fact_store :: "(string, unit) FactStore" where
  "example_fact_store =
     \<lparr> st_pool = empty_db\<lparr>db_devices := [(device_new (DeviceId ''device-1'') [] [] [])\<lparr>
           dev_credential_fingerprint :=
             Some (cred_digest (device_credential_new toy_crypto (DeviceId ''device-1'') ''s1''))\<rparr>],
         db_shards := [example_shard_row\<lparr>shr_device_id := DeviceId ''device-1'',
           shr_relative_path := shard_relative_path (DeviceId ''device-1'')\<rparr>]\<rparr>,
       st_cache = cache_new 2, st_memory = (), st_routing_receipts = [], st_profile_receipts = [],
       st_synced_facts = [], st_receipt_auth_key = [7],
       fs_create_admissions = [example_admission], fs_create_acks = [],
       fs_supersede_admissions = [example_admission\<lparr>ad_writer_epoch := Some 1\<rparr>],
       fs_supersede_acks = [] \<rparr>"

definition example_create_ack :: FactAckRecord where
  "example_create_ack = \<lparr> ak_batch_id = ''batch-1'', ak_request_digest = ''dg'',
     ak_home_device_id = ''device-1'', ak_store_id = ''store-1'', ak_epoch = 1,
     ak_accepted_head = 1, ak_disposition = ''accepted'' \<rparr>"

definition example_supersede_ack :: FactAckRecord where
  "example_supersede_ack = \<lparr> ak_batch_id = ''batch-2'', ak_request_digest = ''dg'',
     ak_home_device_id = ''device-1'', ak_store_id = ''store-1'', ak_epoch = 1,
     ak_accepted_head = 2, ak_disposition = ''accepted'' \<rparr>"

lemmas example_batch_defs = example_signed_batch_def example_batch_def example_signed_supersede_def
  example_supersede_batch_def

lemma example_create_verified:
  "\<exists>envelope. verify_fact_create example_fact_env example_signed_batch example_fact_store =
     Inr (envelope, DeviceId ''device-1'')"
proof -
  have "create_validate toy_crypto (create_validator_of (fe_fact example_fact_env)) example_signed_batch =
      Inr ()"
    using example_signed_validates
    by (simp add: create_validator_of_def example_fact_env_def accept_all_def)
  moreover have "pe_crypto (fe_pool example_fact_env) = toy_crypto"
    by (simp add: example_fact_env_def example_pool_env_def)
  ultimately show ?thesis
    by (simp add: verify_fact_create_def semantic_envelopes_def check_fact_create_admission_def
        example_batch_defs row_by_def admission_key_def example_fact_store_def example_admission_def
        admission_admits_def toy_device_id_parse u64_as_i64_def i64_as_u64_def)
      (simp add: example_fact_env_def toy_device_id_parse admission_admits_def u64_as_i64_def i64_as_u64_def)
qed

lemma example_create_accepted:
  "\<exists>st'. apply_fact_create_request example_fact_env example_signed_batch digest example_fact_store =
     (Inr (example_create_ack\<lparr>ak_request_digest := digest\<rparr>), st')"
proof -
  obtain envelope where v: "verify_fact_create example_fact_env example_signed_batch example_fact_store =
     Inr (envelope, DeviceId ''device-1'')" using example_create_verified by blast
  have "\<exists>st'. run_fact_create example_fact_env example_signed_batch digest envelope (DeviceId ''device-1'')
     example_fact_store = (Inr (example_create_ack\<lparr>ak_request_digest := digest\<rparr>), st')"
    by (simp add: run_fact_create_def device_memory_def example_fact_store_def example_shard_row_def
        row_by_def cache_get_def get_key_def cache_new_def bindS_def readS_def call_memory_def
        put_handle_def toy_memory_def example_fact_env_def example_pool_env_def create_shard_dir_def
        outcome_head_def refresh_shard_counts_def set_counts_def to_column_def i64_try_from_u64_def
        i64_max_def sql_update_def persist_ack_def insert_key_def Let_def sql_insert_def has_key_def
        evict.simps remove_store_def touch_def example_batch_defs example_create_ack_def)
  moreover have "fs_create_acks example_fact_store = []" by (simp add: example_fact_store_def)
  ultimately show ?thesis
    by (simp add: apply_fact_create_request_def get_ack_def v bindS_def readS_def)
qed

lemma example_supersede_verified:
  "verify_fact_supersede example_fact_env example_signed_supersede example_fact_store =
     Inr (example_owner_envelope, DeviceId ''device-1'')"
proof -
  have "semantic_envelope toy_crypto (fl_supersede_payload (fe_fact example_fact_env))
      example_signed_supersede = Inr example_owner_envelope"
    using example_supersede_envelope by (simp add: example_fact_env_def)
  moreover have "pe_crypto (fe_pool example_fact_env) = toy_crypto"
    by (simp add: example_fact_env_def example_pool_env_def)
  ultimately show ?thesis
    by (simp add: verify_fact_supersede_def replacement_namespace_def check_fact_supersede_admission_def
        example_batch_defs row_by_def admission_key_def example_fact_store_def example_admission_def
        toy_device_id_parse from_owner_envelope_def example_owner_envelope_def)
      (simp add: example_fact_env_def toy_device_id_parse admission_admits_def u64_as_i64_def i64_as_u64_def)
qed

lemma example_supersede_accepted:
  "\<exists>st'. apply_fact_supersede_request example_fact_env example_signed_supersede digest
     example_fact_store = (Inr (example_supersede_ack\<lparr>ak_request_digest := digest\<rparr>), st')"
proof -
  have "\<exists>st'. run_fact_supersede example_fact_env example_signed_supersede digest example_owner_envelope
     (DeviceId ''device-1'') example_fact_store =
     (Inr (example_supersede_ack\<lparr>ak_request_digest := digest\<rparr>), st')"
    by (simp add: run_fact_supersede_def device_memory_def example_fact_store_def example_shard_row_def
        row_by_def cache_get_def get_key_def cache_new_def bindS_def readS_def call_memory_def
        put_handle_def toy_memory_def example_fact_env_def example_pool_env_def create_shard_dir_def
        outcome_head_def supersede_memory_error_def i64_try_from_u64_def i64_max_def persist_ack_def
        Let_def sql_insert_def has_key_def example_batch_defs example_supersede_ack_def)
  moreover have "fs_supersede_acks example_fact_store = []" by (simp add: example_fact_store_def)
  ultimately show ?thesis
    by (simp add: apply_fact_supersede_request_def get_ack_def example_supersede_verified bindS_def
        readS_def)
qed

text \<open>Every operation of both families keeps every acknowledgement.\<close>

lemma ack_of_row_lib: "ack_of_row lib row = Inr ack \<Longrightarrow> ack_of_row lib' row = Inr ack"
  by (auto simp: ack_of_row_def column_u64_def bindR_eq_Inr ok_or_eq)

lemma recorded_now_keeps:
  "recorded_now env ack rows rows' \<Longrightarrow> row_by kr_batch_id k rows = Some row \<Longrightarrow>
     row_by kr_batch_id k rows' = Some row"
  by (auto simp: recorded_now_def persist_ack_ok row_by_append)

lemma fact_step_keeps:
  "row_by kr_batch_id k (fs_create_acks st) = Some row \<Longrightarrow>
     row_by kr_batch_id k (fs_create_acks (fact_step env op st)) = Some row"
  "row_by kr_batch_id k (fs_supersede_acks st) = Some row \<Longrightarrow>
     row_by kr_batch_id k (fs_supersede_acks (fact_step env op st)) = Some row"
proof -
  have kept: "(row_by kr_batch_id k (fs_create_acks st) = Some row \<longrightarrow>
      row_by kr_batch_id k (fs_create_acks (fact_step env op st)) = Some row) \<and>
    (row_by kr_batch_id k (fs_supersede_acks st) = Some row \<longrightarrow>
      row_by kr_batch_id k (fs_supersede_acks (fact_step env op st)) = Some row)"
  proof (cases op)
    case (ApplyCreate b digest)
    obtain r st' where run: "apply_fact_create_request env b digest st = (r, st')" by fastforce
    from create_request_cases [OF run] show ?thesis
      by (auto simp: ApplyCreate run same_facts_def created_now_def intro: recorded_now_keeps
          split: option.splits)
  next
    case (ApplySupersede b digest)
    obtain r st' where run: "apply_fact_supersede_request env b digest st = (r, st')" by fastforce
    from supersede_request_cases [OF run] show ?thesis
      by (auto simp: ApplySupersede run same_facts_def superseded_now_def intro: recorded_now_keeps
          split: option.splits)
  qed (simp_all add: admit_fact_create_key_def admit_fact_supersede_key_def revoke_fact_create_key_def
      revoke_fact_supersede_key_def split: sum.splits)
  then show "row_by kr_batch_id k (fs_create_acks st) = Some row \<Longrightarrow>
     row_by kr_batch_id k (fs_create_acks (fact_step env op st)) = Some row"
    "row_by kr_batch_id k (fs_supersede_acks st) = Some row \<Longrightarrow>
     row_by kr_batch_id k (fs_supersede_acks (fact_step env op st)) = Some row" by blast+
qed

text \<open>Operations with what each takes from outside.\<close>

definition fact_steps ::
    "(('s, 'm, 'src, 'u) fact_env \<times> fact_op) list \<Rightarrow> ('s, 'm, 'z) FactStore_scheme \<Rightarrow>
     ('s, 'm, 'z) FactStore_scheme" where
  "fact_steps ops st = fold (\<lambda>(env, op). fact_step env op) ops st"

lemma fact_steps_keep:
  "row_by kr_batch_id k (fs_create_acks st) = Some row \<Longrightarrow>
     row_by kr_batch_id k (fs_create_acks (fact_steps ops st)) = Some row"
  "row_by kr_batch_id k (fs_supersede_acks st) = Some row \<Longrightarrow>
     row_by kr_batch_id k (fs_supersede_acks (fact_steps ops st)) = Some row"
  unfolding fact_steps_def by (induction ops arbitrary: st) (auto simp: fact_step_keeps split: prod.splits)

text \<open>
  C2. A batch is accepted once, and answered the same for ever. After a fact-create or
  fact-supersede request has succeeded, whatever operations of both families follow (admissions,
  revocations, other batches, failures), with whatever environments: a request under its batch id
  is answered from the record, whatever else that request holds. The same digest gives exactly the
  acknowledgement that was returned first, which names the batch and that digest; another digest
  is refused as a collision; and neither changes anything, in the tables or in semantic-memory.
  So over any sequence of requests one batch id is accepted as new at most once per family.
\<close>

theorem fact_batch_accepted_once:
  assumes "apply_fact_create_request env batch digest st = (Inr ack, st')"
    and "fcb_batch_id again = fcb_batch_id batch"
    and "apply_fact_supersede_request senv sbatch sdigest sst = (Inr sack, sst')"
    and "fsb_batch_id sagain = fsb_batch_id sbatch"
  shows "ak_batch_id ack = fcb_batch_id batch \<and> ak_request_digest ack = digest \<and>
    apply_fact_create_request env' again digest' (fact_steps ops st') =
      (if digest' = digest then Inr ack
       else Inl (FactCreateRejected ''batch id digest collision''), fact_steps ops st') \<and>
    ak_batch_id sack = fsb_batch_id sbatch \<and> ak_request_digest sack = sdigest \<and>
    apply_fact_supersede_request env' sagain digest' (fact_steps ops sst') =
      (if digest' = sdigest then Inr sack
       else Inl (FactSupersedeRejected ''batch id digest collision''), fact_steps ops sst') \<and>
    length (filter (\<lambda>((k', p), r). k' = k \<and> r = Inr True)
     (zip requests (fst (apply_run (accept_create env) requests st0)))) \<le> 1 \<and>
    length (filter (\<lambda>((k', p), r). k' = k \<and> r = Inr True)
     (zip srequests (fst (apply_run (accept_supersede senv) srequests st0)))) \<le> 1"
proof -
  obtain row where row: "row_by kr_batch_id (fcb_batch_id again) (fs_create_acks st') = Some row"
      "kr_request_digest row = digest" "ack_of_row (fe_memory env) row = Inr ack"
    using create_accepted_row [OF assms(1)] assms(2) by auto
  obtain srow where srow: "row_by kr_batch_id (fsb_batch_id sagain) (fs_supersede_acks sst') = Some srow"
      "kr_request_digest srow = sdigest" "ack_of_row (fe_memory senv) srow = Inr sack"
    using supersede_accepted_row [OF assms(3)] assms(4) by auto
  note answers = acked_answer [OF fact_steps_keep(1) [OF row(1)] row(2) ack_of_row_lib [OF row(3)]]
    acked_supersede_answer [OF fact_steps_keep(2) [OF srow(1)] srow(2) ack_of_row_lib [OF srow(3)]]
  have once: "length (filter (\<lambda>((k', p), r). k' = k \<and> r = Inr True)
      (zip requests (fst (apply_run (accept_create env) requests st0)))) \<le> 1"
    "length (filter (\<lambda>((k', p), r). k' = k \<and> r = Inr True)
      (zip srequests (fst (apply_run (accept_supersede senv) srequests st0)))) \<le> 1"
    by (rule order_trans [OF create_once.applied_at_most_once [OF surjective_pairing]], simp)
      (rule order_trans [OF supersede_once.applied_at_most_once [OF surjective_pairing]], simp)
  have fields: "ak_batch_id ack = fcb_batch_id batch" "ak_request_digest ack = digest"
    "ak_batch_id sack = fsb_batch_id sbatch" "ak_request_digest sack = sdigest"
    using row_by_SomeD [OF row(1)] row(2,3) row_by_SomeD [OF srow(1)] srow(2,3) assms(2,4)
    by (auto simp: ack_of_row_def bindR_eq_Inr)
  show ?thesis
    by (intro conjI fields answers once)
qed

theorem fact_batch_accepted_once_witness:
  "\<exists>(st' :: (string, unit) FactStore) (sst' :: (string, unit) FactStore).
    apply_fact_create_request example_fact_env example_batch ''dg''
      (fact_steps [(example_fact_env, RevokeCreate (DeviceId ''device-1'') ''store-1'' ''ns'' ''operator-1'' 1)] st') =
      (Inr example_create_ack, fact_steps [(example_fact_env,
         RevokeCreate (DeviceId ''device-1'') ''store-1'' ''ns'' ''operator-1'' 1)] st') \<and>
    apply_fact_supersede_request example_fact_env example_supersede_batch ''other''
      (fact_steps [] sst') =
      (Inl (FactSupersedeRejected ''batch id digest collision''), sst')"
proof -
  let ?ops = "[(example_fact_env, RevokeCreate (DeviceId ''device-1'') ''store-1'' ''ns'' ''operator-1'' 1)]"
  obtain st' where c: "apply_fact_create_request example_fact_env example_signed_batch ''dg''
      example_fact_store = (Inr example_create_ack, st')" using example_create_accepted [of "''dg''"]
    by (auto simp: example_create_ack_def)
  obtain sst' where s: "apply_fact_supersede_request example_fact_env example_signed_supersede ''dg''
      example_fact_store = (Inr example_supersede_ack, sst')" using example_supersede_accepted [of "''dg''"]
    by (auto simp: example_supersede_ack_def)
  have ids: "fcb_batch_id example_batch = fcb_batch_id example_signed_batch"
    "fsb_batch_id example_supersede_batch = fsb_batch_id example_signed_supersede"
    by (simp_all add: example_batch_defs)
  have "apply_fact_create_request example_fact_env example_batch ''dg'' (fact_steps ?ops st') =
      (Inr example_create_ack, fact_steps ?ops st')"
    using fact_batch_accepted_once [OF c ids(1) s ids(2), of example_fact_env "''dg''" ?ops]
    by (simp only: simp_thms if_True)
  moreover have "apply_fact_supersede_request example_fact_env example_supersede_batch ''other''
      (fact_steps [] sst') = (Inl (FactSupersedeRejected ''batch id digest collision''), sst')"
    using fact_batch_accepted_once [OF c ids(1) s ids(2), of example_fact_env "''other''" "[]"]
    by (simp add: fact_steps_def)
  ultimately show ?thesis by blast
qed

section \<open>Who may write\<close>

lemma admits_within:
  assumes "admission_admits a key observed fence" "admission_typed b a"
  shows "\<not> ad_revoked a \<and> ad_public_key a = key \<and> ad_fencing_token a = fence \<and>
    ad_activated_at a \<le> uint observed \<and> uint observed \<le> ad_cutoff_at a"
proof -
  have "uint (i64_as_u64 i) = i" if "0 \<le> i" "i \<le> i64_max" for i
    using that by (simp add: i64_as_u64_def i64_max_def uint_word_of_int_eq take_bit_int_eq_self)
  then show ?thesis
    using assms by (auto simp: admission_admits_def admission_typed_def word_le_def)
qed

text \<open>
  C3. A fact-create batch that is accepted as new has a valid signature and record, holds exactly
  one entry, and its key stands in an admission of the store that is not revoked: for the device,
  the store, the namespace of the decoded payload, the principal and the key version of the batch,
  with its public key, stream epoch and fencing token, and with a window that contains the time of
  observation. Epochs and versions agree as unsigned numbers: no cast confuses two of them.
\<close>

theorem fact_create_admitted:
  assumes "apply_fact_create_request env batch digest st = (Inr ack, st')"
    and "row_by kr_batch_id (fcb_batch_id batch) (fs_create_acks st) = None"
    and "facts_typed st"
  shows "create_validate (pe_crypto (fe_pool env)) (create_validator_of (fe_fact env)) batch = Inr () \<and>
    (\<exists>entry namespace d a. fcb_entries batch = [entry] \<and>
       fl_create_namespace (fe_fact env) (to_semantic_envelope (fl_names (fe_fact env)) entry
         (fcb_home_device_id batch) (fcb_store_id batch) (fcb_stream_epoch batch)) = Inr namespace \<and>
       device_id_parse (fe_uuid env) (fcb_home_device_id batch) = Inr d \<and>
       a \<in> set (fs_create_admissions st) \<and> \<not> ad_revoked a \<and>
       ad_device_id a = d \<and> ad_store_id a = fcb_store_id batch \<and> ad_namespace a = namespace \<and>
       ad_principal_id a = fcb_signer_principal_id batch \<and>
       ad_key_version a = uint (fcb_signer_key_version batch) \<and>
       ad_public_key a = fcb_signer_public_key batch \<and>
       ad_epoch a = uint (fcb_stream_epoch batch) \<and>
       ad_fencing_token a = fcb_fencing_token batch \<and>
       ad_activated_at a \<le> uint (fcb_observed_at batch) \<and>
       uint (fcb_observed_at batch) \<le> ad_cutoff_at a)"
proof -
  obtain vd where "verify_fact_create env batch st = Inr vd"
    using create_request_cases [OF assms(1)] assms(2) by (auto simp: created_now_def)
  then obtain entry namespace d a where entry: "fcb_entries batch = [entry]"
    and valid: "create_validate (pe_crypto (fe_pool env)) (create_validator_of (fe_fact env)) batch = Inr ()"
    and namespace: "fl_create_namespace (fe_fact env) (to_semantic_envelope (fl_names (fe_fact env)) entry
         (fcb_home_device_id batch) (fcb_store_id batch) (fcb_stream_epoch batch)) = Inr namespace"
    and d: "device_id_parse (fe_uuid env) (fcb_home_device_id batch) = Inr d"
    and row: "row_by admission_key (d, fcb_store_id batch, namespace, fcb_signer_principal_id batch,
        u64_as_i64 (fcb_signer_key_version batch)) (fs_create_admissions st) = Some a"
    and ok: "admission_admits a (fcb_signer_public_key batch) (fcb_observed_at batch)
        (fcb_fencing_token batch)" "ad_epoch a = u64_as_i64 (fcb_stream_epoch batch)"
    by (auto simp: verify_fact_create_def check_fact_create_admission_def semantic_envelopes_def
        create_validator_of_def bindR_eq_Inr fail_if_eq map_err_eq_Inr length_Suc_conv
        split: option.splits if_splits)
  have a: "a \<in> set (fs_create_admissions st)" "admission_key a = (d, fcb_store_id batch, namespace,
      fcb_signer_principal_id batch, u64_as_i64 (fcb_signer_key_version batch))"
    using row_by_SomeD [OF row] by auto
  have typed: "admission_typed False a"
    using a(1) assms(3) by (simp add: facts_typed_def list_all_iff)
  then have "u64_as_i64 (fcb_signer_key_version batch) = uint (fcb_signer_key_version batch)"
    "u64_as_i64 (fcb_stream_epoch batch) = uint (fcb_stream_epoch batch)"
    using a(2) ok(2) unat_u64_as_i64 by (auto simp: admission_typed_def admission_key_def)
  with valid entry namespace d a ok(2) admits_within [OF ok(1) typed] show ?thesis
    by (auto simp: admission_key_def)
qed

theorem fact_create_admitted_witness:
  "\<exists>a st'. apply_fact_create_request example_fact_env example_signed_batch ''dg'' example_fact_store =
      (Inr example_create_ack, st') \<and> a \<in> set (fs_create_admissions example_fact_store) \<and>
    ad_key_version a = uint (fcb_signer_key_version example_signed_batch)"
proof -
  obtain st' where c: "apply_fact_create_request example_fact_env example_signed_batch ''dg''
      example_fact_store = (Inr example_create_ack, st')" using example_create_accepted [of "''dg''"]
    by (auto simp: example_create_ack_def)
  have "row_by kr_batch_id (fcb_batch_id example_signed_batch) (fs_create_acks example_fact_store) = None"
    by (simp add: example_fact_store_def)
  moreover have "length (ed_public toy_crypto [7]) = 32"
    using toy_crypto_laws by (simp add: crypto_laws_def)
  then have "facts_typed example_fact_store"
    by (simp add: facts_typed_def example_fact_store_def example_admission_def admission_typed_def
        i64_max_def)
  ultimately show ?thesis using fact_create_admitted [OF c] c by blast
qed

end
