(* ===== verification/Server_Facts.thy ===== *)
theory Server_Facts
  imports Server_Control Fact_Ledger
begin

text \<open>
  The handlers of signed fact batches (\<open>src/server.rs\<close>): from the bytes of a request to the
  acknowledgement of the shard.
\<close>

section \<open>The handlers\<close>

definition fact_env_of ::
    "'u server_env \<Rightarrow> ('s, 'm, 'src) memory_lib \<Rightarrow> ('s, 'm) fact_lib \<Rightarrow> ('s, 'm, 'src, 'u) fact_env" where
  "fact_env_of env lib fl =
     \<lparr> fe_pool = sv_pool env, fe_memory = lib, fe_fact = fl, fe_uuid = sv_uuid env \<rparr>"

definition body_digest :: "'u server_env \<Rightarrow> byte list \<Rightarrow> string" where
  "body_digest env body = hex_bytes (sha256 (pe_crypto (sv_pool env)) body)"

definition reply :: "StatusCode \<Rightarrow> string \<Rightarrow> 'st \<Rightarrow> 'b response \<times> 'st" where
  "reply status message st = ((status, Inl message), st)"

text \<open>The body of a success is the acknowledgement with the name of the protocol.\<close>

definition fact_create_handler ::
    "'u server_env \<Rightarrow> ('s, 'm, 'src) memory_lib \<Rightarrow> ('s, 'm) fact_lib \<Rightarrow>
     (byte list \<Rightarrow> string + SignedFactCreateBatchV1) \<Rightarrow> HeaderMap \<Rightarrow> byte list \<Rightarrow>
     ('s, 'm, 'z) FactStore_scheme \<Rightarrow>
     (string \<times> FactAckRecord) response \<times> ('s, 'm, 'z) FactStore_scheme" where
  "fact_create_handler env lib fl from_slice headers body =
     (case create_decode_json (pe_crypto (sv_pool env)) (create_validator_of fl) from_slice body of
        Inl _ \<Rightarrow> reply BAD_REQUEST ''invalid fact-create envelope''
      | Inr batch \<Rightarrow>
          authorized env headers None (\<lambda>context.
          if fcb_home_device_id batch \<noteq> device_id_str (dev_device_id (sc_device context))
          then reply FORBIDDEN ''home device mismatch''
          else (\<lambda>st.
            case apply_fact_create_request (fact_env_of env lib fl) batch (body_digest env body) st of
              (Inr ack, st) \<Rightarrow> ((OK, Inr (''mnemes.fact-create.v1'', ack)), st)
            | (Inl (FactCreateRejected reason), st) \<Rightarrow>
                if contains ''conflict'' reason \<or> contains ''collision'' reason
                then reply CONFLICT ''fact-create conflict'' st
                else reply FORBIDDEN ''fact-create admission rejected'' st
            | (Inl error, st) \<Rightarrow> (error_response error, st))))"

definition fact_supersede_handler ::
    "'u server_env \<Rightarrow> ('s, 'm, 'src) memory_lib \<Rightarrow> ('s, 'm) fact_lib \<Rightarrow>
     (byte list \<Rightarrow> string + SignedFactSupersedeBatchV1) \<Rightarrow> HeaderMap \<Rightarrow> byte list \<Rightarrow>
     ('s, 'm, 'z) FactStore_scheme \<Rightarrow>
     (string \<times> FactAckRecord) response \<times> ('s, 'm, 'z) FactStore_scheme" where
  "fact_supersede_handler env lib fl from_slice headers body =
     (case supersede_decode_json (pe_crypto (sv_pool env)) (fl_supersede_payload fl) from_slice body of
        Inl _ \<Rightarrow> reply BAD_REQUEST ''invalid fact-supersede envelope''
      | Inr batch \<Rightarrow>
          authorized env headers None (\<lambda>context.
          if fsb_home_device_id batch \<noteq> device_id_str (dev_device_id (sc_device context))
          then reply FORBIDDEN ''home device mismatch''
          else (\<lambda>st.
            case apply_fact_supersede_request (fact_env_of env lib fl) batch (body_digest env body) st of
              (Inr ack, st) \<Rightarrow> ((OK, Inr (''mnemes.fact-supersede.v1'', ack)), st)
            | (Inl FactSupersedeSemanticConflict, st) \<Rightarrow> reply CONFLICT ''fact-supersede conflict'' st
            | (Inl (FactSupersedeRejected reason), st) \<Rightarrow>
                if reason = ''batch id digest collision''
                then reply CONFLICT ''fact-supersede conflict'' st
                else reply FORBIDDEN ''fact-supersede admission rejected'' st
            | (Inl error, st) \<Rightarrow> (error_response error, st))))"

section \<open>A success and its retries\<close>

lemma reply_ok [handler_ok]: "reply s message st \<noteq> ((status, Inr b), st')"
  by (simp add: reply_def)

lemma fact_create_handler_ok:
  "fact_create_handler env lib fl from_slice headers body st = ((OK, Inr a), st') \<longleftrightarrow>
     (\<exists>batch c ack. create_decode_json (pe_crypto (sv_pool env)) (create_validator_of fl) from_slice body =
         Inr batch \<and> authorize env headers None (st_pool st) = Inr c \<and>
       fcb_home_device_id batch = device_id_str (dev_device_id (sc_device c)) \<and>
       apply_fact_create_request (fact_env_of env lib fl) batch (body_digest env body) st = (Inr ack, st') \<and>
       a = (''mnemes.fact-create.v1'', ack))"
  unfolding fact_create_handler_def
  by (auto simp: handler_ok error_response_body split: sum.splits if_splits prod.splits MnemesError.splits)

lemma fact_supersede_handler_ok:
  "fact_supersede_handler env lib fl from_slice headers body st = ((OK, Inr a), st') \<longleftrightarrow>
     (\<exists>batch c ack. supersede_decode_json (pe_crypto (sv_pool env)) (fl_supersede_payload fl) from_slice body =
         Inr batch \<and> authorize env headers None (st_pool st) = Inr c \<and>
       fsb_home_device_id batch = device_id_str (dev_device_id (sc_device c)) \<and>
       apply_fact_supersede_request (fact_env_of env lib fl) batch (body_digest env body) st = (Inr ack, st') \<and>
       a = (''mnemes.fact-supersede.v1'', ack))"
  unfolding fact_supersede_handler_def
  by (auto simp: handler_ok error_response_body split: sum.splits if_splits prod.splits MnemesError.splits)

lemma authorize_active: "authorize env headers a db = Inr c \<Longrightarrow> dev_status (sc_device c) = DevActive"
  by (drule authorize_actor_device)
    (auto simp: authorize_ok authenticate_request_def bindR_eq_Inr token_device_id_ok)

lemma ack_of_row_fields:
  "ack_of_row lib row = Inr ack \<Longrightarrow>
     ak_batch_id ack = kr_batch_id row \<and> ak_request_digest ack = kr_request_digest row"
  by (auto simp: ack_of_row_def bindR_eq_Inr)

lemma apply_create_registry:
  "apply_fact_create_request env batch digest st = (r, st') \<Longrightarrow> same_registry st st'"
  by (drule create_request_cases)
    (auto simp: same_facts_def created_now_def same_registry_def split: option.splits)

lemma apply_supersede_registry:
  "apply_fact_supersede_request env batch digest st = (r, st') \<Longrightarrow> same_registry st st'"
  by (drule supersede_request_cases)
    (auto simp: same_facts_def superseded_now_def same_registry_def split: option.splits)

lemma same_registry_trans: "same_registry st st' \<Longrightarrow> same_registry st' st'' \<Longrightarrow> same_registry st st''"
  unfolding same_registry_def by (rule statistics_only_trans)

lemma fact_step_registry: "same_registry st (fact_step env op st)"
proof (cases op)
  case (ApplyCreate b digest)
  then show ?thesis using apply_create_registry [OF surjective_pairing] by simp
next
  case (ApplySupersede b digest)
  then show ?thesis using apply_supersede_registry [OF surjective_pairing] by simp
qed (simp_all add: same_registry_def admit_fact_create_key_def admit_fact_supersede_key_def
    revoke_fact_create_key_def revoke_fact_supersede_key_def split: sum.splits)

lemma fact_steps_registry: "same_registry st (fact_steps ops st)"
proof (induction ops arbitrary: st)
  case (Cons x ops)
  obtain env op where x: "x = (env, op)" by (cases x)
  from same_registry_trans [OF fact_step_registry Cons.IH, of st env op] show ?case
    by (simp add: fact_steps_def x)
qed (simp add: fact_steps_def same_registry_def)

text \<open>The statuses of the refusals after authorization.\<close>

definition create_refusal_status :: "MnemesError \<Rightarrow> StatusCode" where
  "create_refusal_status e =
     (case e of
        FactCreateRejected reason \<Rightarrow>
          if contains ''conflict'' reason \<or> contains ''collision'' reason then CONFLICT else FORBIDDEN
      | _ \<Rightarrow> fst (map_store_error e))"

definition supersede_refusal_status :: "MnemesError \<Rightarrow> StatusCode" where
  "supersede_refusal_status e =
     (case e of
        FactSupersedeSemanticConflict \<Rightarrow> CONFLICT
      | FactSupersedeRejected reason \<Rightarrow> if reason = ''batch id digest collision'' then CONFLICT else FORBIDDEN
      | _ \<Rightarrow> fst (map_store_error e))"

lemma fact_handlers_status:
  "fact_create_handler env lib fl from_slice headers body st = ((status, Inr a), st') \<Longrightarrow> status = OK"
  "fact_supersede_handler env lib fl supersede_from_slice headers body st = ((status, Inr a), st') \<Longrightarrow> status = OK"
  unfolding fact_create_handler_def fact_supersede_handler_def
  by (auto simp: authorized_cases reply_def error_response_body split: sum.splits if_splits prod.splits MnemesError.splits)

lemma create_endpoint:
  assumes "fact_create_handler env lib fl from_slice headers body st = ((OK, Inr (p, ack)), st')"
    and "same_server env env'"
  shows "p = ''mnemes.fact-create.v1'' \<and>
    (\<exists>batch c. from_slice body = Inr batch \<and>
       create_validate (pe_crypto (sv_pool env)) (create_validator_of fl) batch = Inr () \<and>
       authorize env headers None (st_pool st) = Inr c \<and> dev_status (sc_device c) = DevActive \<and>
       fcb_home_device_id batch = device_id_str (dev_device_id (sc_device c)) \<and>
       ak_batch_id ack = fcb_batch_id batch \<and> ak_request_digest ack = body_digest env body) \<and>
    fact_create_handler env' lib fl from_slice headers body (fact_steps ops st') =
      ((OK, Inr (p, ack)), fact_steps ops st')"
proof -
  obtain batch c where ok: "create_decode_json (pe_crypto (sv_pool env)) (create_validator_of fl) from_slice body = Inr batch"
      "authorize env headers None (st_pool st) = Inr c"
      "fcb_home_device_id batch = device_id_str (dev_device_id (sc_device c))"
      "apply_fact_create_request (fact_env_of env lib fl) batch (body_digest env body) st = (Inr ack, st')"
      "p = ''mnemes.fact-create.v1''"
    using assms(1) unfolding fact_create_handler_ok by blast
  obtain row where row: "row_by kr_batch_id (fcb_batch_id batch) (fs_create_acks st') = Some row"
      "kr_request_digest row = body_digest env body" "ack_of_row lib row = Inr ack"
    using create_accepted_row [OF ok(4)] by (auto simp: fact_env_of_def)
  have "from_slice body = Inr batch" "create_validate (pe_crypto (sv_pool env)) (create_validator_of fl) batch = Inr ()"
    using ok(1) by (auto simp: create_decode_json_def bindR_eq_Inr map_err_eq_Inr)
  moreover have "ak_batch_id ack = fcb_batch_id batch" "ak_request_digest ack = body_digest env body"
    using row_by_SomeD [OF row(1)] row(2) ack_of_row_fields [OF row(3)] by simp_all
  moreover have "same_registry st (fact_steps ops st')"
    using same_registry_trans [OF apply_create_registry [OF ok(4)] fact_steps_registry] .
  then have "authorize env' headers None (st_pool (fact_steps ops st')) = Inr c"
    using authorize_frame [OF assms(2), of "st_pool (fact_steps ops st')" "st_pool st"] ok(2)
    by (simp add: same_registry_def statistics_only_tables)
  moreover have "ack_of_row (fe_memory (fact_env_of env' lib fl)) row = Inr ack"
    using row(3) by (simp add: fact_env_of_def)
  then have "apply_fact_create_request (fact_env_of env' lib fl) batch (body_digest env' body) (fact_steps ops st') =
      (Inr ack, fact_steps ops st')"
    using acked_answer [OF fact_steps_keep(1) [OF row(1), of ops] row(2), of "fact_env_of env' lib fl" ack
        "body_digest env body"] assms(2)
    by (simp add: body_digest_def same_server_def)
  ultimately show ?thesis
    unfolding fact_create_handler_ok using ok(1,2,3,5) authorize_active [OF ok(2)] assms(2)
    by (auto simp: same_server_def)
qed

lemma create_refused:
  assumes "fact_create_handler env lib fl from_slice headers body st = ((status, Inl message), st')"
  shows "same_facts st st' \<and>
    (case create_decode_json (pe_crypto (sv_pool env)) (create_validator_of fl) from_slice body of
       Inl e \<Rightarrow> status = BAD_REQUEST \<and> st' = st
     | Inr batch \<Rightarrow>
         (case authorize env headers None (st_pool st) of
            Inl e \<Rightarrow> status = fst (map_store_error e) \<and> st' = st
          | Inr c \<Rightarrow>
              (fcb_home_device_id batch \<noteq> device_id_str (dev_device_id (sc_device c)) \<and>
                 status = FORBIDDEN \<and> st' = st) \<or>
              (\<exists>e. apply_fact_create_request (fact_env_of env lib fl) batch (body_digest env body) st = (Inl e, st') \<and>
                 status = create_refusal_status e)))"
proof -
  note handler = assms [unfolded fact_create_handler_def]
  show ?thesis
  proof (cases "create_decode_json (pe_crypto (sv_pool env)) (create_validator_of fl) from_slice body")
    case (Inl e)
    with handler show ?thesis by (simp add: reply_def)
  next
    case decoded: (Inr batch)
    show ?thesis
    proof (cases "authorize env headers None (st_pool st)")
      case (Inl e)
      with handler decoded show ?thesis by (auto simp: authorized_cases error_response_def split_beta)
    next
      case (Inr c)
      obtain r st1 where run: "apply_fact_create_request (fact_env_of env lib fl) batch (body_digest env body) st =
          (r, st1)" by fastforce
      show ?thesis
      proof (cases "fcb_home_device_id batch = device_id_str (dev_device_id (sc_device c))")
        case False
        with handler decoded Inr show ?thesis by (simp add: authorized_cases reply_def)
      next
        case True
        with handler decoded Inr run obtain e where "r = Inl e" "st' = st1" "status = create_refusal_status e"
          by (cases r) (auto simp: authorized_cases reply_def error_response_def create_refusal_status_def
              split_beta split: MnemesError.splits if_splits)
        with create_request_cases [OF run] decoded Inr run show ?thesis by (auto split: option.splits)
      qed
    qed
  qed
qed

lemma supersede_endpoint:
  assumes "fact_supersede_handler env lib fl from_slice headers body st = ((OK, Inr (p, ack)), st')"
    and "same_server env env'"
  shows "p = ''mnemes.fact-supersede.v1'' \<and>
    (\<exists>batch c. from_slice body = Inr batch \<and>
       supersede_validate (pe_crypto (sv_pool env)) (fl_supersede_payload fl) batch = Inr () \<and>
       authorize env headers None (st_pool st) = Inr c \<and> dev_status (sc_device c) = DevActive \<and>
       fsb_home_device_id batch = device_id_str (dev_device_id (sc_device c)) \<and>
       ak_batch_id ack = fsb_batch_id batch \<and> ak_request_digest ack = body_digest env body) \<and>
    fact_supersede_handler env' lib fl from_slice headers body (fact_steps ops st') =
      ((OK, Inr (p, ack)), fact_steps ops st')"
proof -
  obtain batch c where ok: "supersede_decode_json (pe_crypto (sv_pool env)) (fl_supersede_payload fl) from_slice body = Inr batch"
      "authorize env headers None (st_pool st) = Inr c"
      "fsb_home_device_id batch = device_id_str (dev_device_id (sc_device c))"
      "apply_fact_supersede_request (fact_env_of env lib fl) batch (body_digest env body) st = (Inr ack, st')"
      "p = ''mnemes.fact-supersede.v1''"
    using assms(1) unfolding fact_supersede_handler_ok by blast
  obtain row where row: "row_by kr_batch_id (fsb_batch_id batch) (fs_supersede_acks st') = Some row"
      "kr_request_digest row = body_digest env body" "ack_of_row lib row = Inr ack"
    using supersede_accepted_row [OF ok(4)] by (auto simp: fact_env_of_def)
  have "from_slice body = Inr batch" "supersede_validate (pe_crypto (sv_pool env)) (fl_supersede_payload fl) batch = Inr ()"
    using ok(1) by (auto simp: supersede_decode_json_def bindR_eq_Inr map_err_eq_Inr)
  moreover have "ak_batch_id ack = fsb_batch_id batch" "ak_request_digest ack = body_digest env body"
    using row_by_SomeD [OF row(1)] row(2) ack_of_row_fields [OF row(3)] by simp_all
  moreover have "same_registry st (fact_steps ops st')"
    using same_registry_trans [OF apply_supersede_registry [OF ok(4)] fact_steps_registry] .
  then have "authorize env' headers None (st_pool (fact_steps ops st')) = Inr c"
    using authorize_frame [OF assms(2), of "st_pool (fact_steps ops st')" "st_pool st"] ok(2)
    by (simp add: same_registry_def statistics_only_tables)
  moreover have "ack_of_row (fe_memory (fact_env_of env' lib fl)) row = Inr ack"
    using row(3) by (simp add: fact_env_of_def)
  then have "apply_fact_supersede_request (fact_env_of env' lib fl) batch (body_digest env' body) (fact_steps ops st') =
      (Inr ack, fact_steps ops st')"
    using acked_supersede_answer [OF fact_steps_keep(2) [OF row(1), of ops] row(2), of "fact_env_of env' lib fl" ack
        "body_digest env body"] assms(2)
    by (simp add: body_digest_def same_server_def)
  ultimately show ?thesis
    unfolding fact_supersede_handler_ok using ok(1,2,3,5) authorize_active [OF ok(2)] assms(2)
    by (auto simp: same_server_def)
qed

lemma supersede_refused:
  assumes "fact_supersede_handler env lib fl from_slice headers body st = ((status, Inl message), st')"
  shows "same_facts st st' \<and>
    (case supersede_decode_json (pe_crypto (sv_pool env)) (fl_supersede_payload fl) from_slice body of
       Inl e \<Rightarrow> status = BAD_REQUEST \<and> st' = st
     | Inr batch \<Rightarrow>
         (case authorize env headers None (st_pool st) of
            Inl e \<Rightarrow> status = fst (map_store_error e) \<and> st' = st
          | Inr c \<Rightarrow>
              (fsb_home_device_id batch \<noteq> device_id_str (dev_device_id (sc_device c)) \<and>
                 status = FORBIDDEN \<and> st' = st) \<or>
              (\<exists>e. apply_fact_supersede_request (fact_env_of env lib fl) batch (body_digest env body) st = (Inl e, st') \<and>
                 status = supersede_refusal_status e)))"
proof -
  note handler = assms [unfolded fact_supersede_handler_def]
  show ?thesis
  proof (cases "supersede_decode_json (pe_crypto (sv_pool env)) (fl_supersede_payload fl) from_slice body")
    case (Inl e)
    with handler show ?thesis by (simp add: reply_def)
  next
    case decoded: (Inr batch)
    show ?thesis
    proof (cases "authorize env headers None (st_pool st)")
      case (Inl e)
      with handler decoded show ?thesis by (auto simp: authorized_cases error_response_def split_beta)
    next
      case (Inr c)
      obtain r st1 where run: "apply_fact_supersede_request (fact_env_of env lib fl) batch (body_digest env body) st =
          (r, st1)" by fastforce
      show ?thesis
      proof (cases "fsb_home_device_id batch = device_id_str (dev_device_id (sc_device c))")
        case False
        with handler decoded Inr show ?thesis by (simp add: authorized_cases reply_def)
      next
        case True
        with handler decoded Inr run obtain e where "r = Inl e" "st' = st1" "status = supersede_refusal_status e"
          by (cases r) (auto simp: authorized_cases reply_def error_response_def supersede_refusal_status_def
              split_beta split: MnemesError.splits if_splits)
        with supersede_request_cases [OF run] decoded Inr run show ?thesis by (auto split: option.splits)
      qed
    qed
  qed
qed

text \<open>
  C1. What the two fact endpoints answer, for every request. An answer with a body is 200: the
  request came with the credential of an active device that is the home of the batch, held a
  batch that decodes and validates, and the acknowledgement names this batch and the SHA-256 of
  exactly these bytes; and sending the same bytes again with the same credential, after whatever
  further operations on facts, is answered with 200 and the same acknowledgement, and changes
  nothing. Every other answer leaves admissions, acknowledgements and the registry as they were;
  it is 400 for bytes that do not decode or validate and the status of the authorization's error
  without an active device, 403 for the batch of another device, all three without any effect, or
  the refusal of the shard, 409 for a conflict and 403 for a missing admission.
\<close>

theorem fact_endpoints_exact:
  assumes "same_server env env'"
  shows "(case fact_create_handler env lib fl from_slice headers body st of
      ((status, Inr (p, ack)), st') \<Rightarrow>
        status = OK \<and> p = ''mnemes.fact-create.v1'' \<and>
        (\<exists>batch c. from_slice body = Inr batch \<and>
           create_validate (pe_crypto (sv_pool env)) (create_validator_of fl) batch = Inr () \<and>
           authorize env headers None (st_pool st) = Inr c \<and> dev_status (sc_device c) = DevActive \<and>
           fcb_home_device_id batch = device_id_str (dev_device_id (sc_device c)) \<and>
           ak_batch_id ack = fcb_batch_id batch \<and> ak_request_digest ack = body_digest env body) \<and>
        fact_create_handler env' lib fl from_slice headers body (fact_steps ops st') =
          ((OK, Inr (p, ack)), fact_steps ops st')
    | ((status, Inl message), st') \<Rightarrow>
        same_facts st st' \<and>
        (case create_decode_json (pe_crypto (sv_pool env)) (create_validator_of fl) from_slice body of
           Inl e \<Rightarrow> status = BAD_REQUEST \<and> st' = st
         | Inr batch \<Rightarrow>
             (case authorize env headers None (st_pool st) of
                Inl e \<Rightarrow> status = fst (map_store_error e) \<and> st' = st
              | Inr c \<Rightarrow>
                  (fcb_home_device_id batch \<noteq> device_id_str (dev_device_id (sc_device c)) \<and>
                     status = FORBIDDEN \<and> st' = st) \<or>
                  (\<exists>e. apply_fact_create_request (fact_env_of env lib fl) batch (body_digest env body) st =
                       (Inl e, st') \<and> status = create_refusal_status e)))) \<and>
    (case fact_supersede_handler env lib fl from_slice' headers' body' sst of
      ((status, Inr (p, ack)), st') \<Rightarrow>
        status = OK \<and> p = ''mnemes.fact-supersede.v1'' \<and>
        (\<exists>batch c. from_slice' body' = Inr batch \<and>
           supersede_validate (pe_crypto (sv_pool env)) (fl_supersede_payload fl) batch = Inr () \<and>
           authorize env headers' None (st_pool sst) = Inr c \<and> dev_status (sc_device c) = DevActive \<and>
           fsb_home_device_id batch = device_id_str (dev_device_id (sc_device c)) \<and>
           ak_batch_id ack = fsb_batch_id batch \<and> ak_request_digest ack = body_digest env body') \<and>
        fact_supersede_handler env' lib fl from_slice' headers' body' (fact_steps ops st') =
          ((OK, Inr (p, ack)), fact_steps ops st')
    | ((status, Inl message), st') \<Rightarrow>
        same_facts sst st' \<and>
        (case supersede_decode_json (pe_crypto (sv_pool env)) (fl_supersede_payload fl) from_slice' body' of
           Inl e \<Rightarrow> status = BAD_REQUEST \<and> st' = sst
         | Inr batch \<Rightarrow>
             (case authorize env headers' None (st_pool sst) of
                Inl e \<Rightarrow> status = fst (map_store_error e) \<and> st' = sst
              | Inr c \<Rightarrow>
                  (fsb_home_device_id batch \<noteq> device_id_str (dev_device_id (sc_device c)) \<and>
                     status = FORBIDDEN \<and> st' = sst) \<or>
                  (\<exists>e. apply_fact_supersede_request (fact_env_of env lib fl) batch (body_digest env body') sst =
                       (Inl e, st') \<and> status = supersede_refusal_status e))))"
proof (rule conjI, goal_cases)
  case 1
  obtain status answer st' where run: "fact_create_handler env lib fl from_slice headers body st = ((status, answer), st')"
    by (metis prod.exhaust)
  show ?case
  proof (cases answer)
    case (Inl message)
    show ?thesis unfolding run Inl prod.case sum.case by (rule create_refused [OF run [unfolded Inl]])
  next
    case (Inr a)
    obtain p ack where a: "a = (p, ack)" by (cases a)
    have ok: "status = OK" by (rule fact_handlers_status(1) [OF run [unfolded Inr]])
    show ?thesis unfolding run Inr a ok prod.case sum.case
      by (rule conjI [OF refl create_endpoint [OF run [unfolded Inr a ok] assms]])
  qed
next
  case 2
  obtain status answer st' where run: "fact_supersede_handler env lib fl from_slice' headers' body' sst = ((status, answer), st')"
    by (metis prod.exhaust)
  show ?case
  proof (cases answer)
    case (Inl message)
    show ?thesis unfolding run Inl prod.case sum.case by (rule supersede_refused [OF run [unfolded Inl]])
  next
    case (Inr a)
    obtain p ack where a: "a = (p, ack)" by (cases a)
    have ok: "status = OK" by (rule fact_handlers_status(2) [OF run [unfolded Inr]])
    show ?thesis unfolding run Inr a ok prod.case sum.case
      by (rule conjI [OF refl supersede_endpoint [OF run [unfolded Inr a ok] assms]])
  qed
qed

definition example_fact_header :: HeaderMap where
  "example_fact_header = Some (Some ''Bearer device-1:s1'')"

lemma example_fact_authed:
  "\<exists>c. authorize example_server_env example_fact_header None (st_pool example_fact_store) = Inr c \<and>
     device_id_str (dev_device_id (sc_device c)) = ''device-1''"
proof -
  have "token_parts_ok toy_uuid (DeviceId ''device-1'') ''s1''"
    by (simp add: token_parts_ok_def toy_device_id_parse is_ascii_alphanumeric_def is_ascii_digit_def
        is_ascii_lowercase_def)
  from parse_generated_token [OF this, of toy_crypto]
  have parse: "parse_authorization_token toy_uuid ''device-1:s1'' = Inr (DeviceId ''device-1'', ''s1'')"
    by (simp add: cred_new)
  have "trim_start_matches ''Bearer '' ''Bearer device-1:s1'' = ''device-1:s1''"
    by (subst trim_start_matches.simps, simp, subst trim_start_matches.simps, simp)
  moreover have "trim ''device-1:s1'' = ''device-1:s1''" by (rule trim_printable) simp
  ultimately have "bearer_token example_fact_header = Inr ''device-1:s1''"
    by (simp add: bearer_token_def example_fact_header_def Let_def)
  with parse show ?thesis
    by (simp add: authorize_def authenticate_request_def token_device_id_def example_server_env_def
        example_pool_env_def example_fact_store_def get_device_def row_by_def device_new_def
        device_credential_verify_def device_credential_new_def Let_def)
qed

theorem fact_endpoints_exact_witness:
  "\<exists>ack sack (st :: (string, unit) FactStore) (sst :: (string, unit) FactStore).
    fact_create_handler (example_server_env\<lparr>sv_fresh_id := ''later''\<rparr>) (toy_memory :: (string, unit, unit) memory_lib) (fe_fact example_fact_env)
      (\<lambda>b. if b = [1] then Inr example_signed_batch else Inl ''missing field'') example_fact_header [1] st =
      ((OK, Inr (''mnemes.fact-create.v1'', ack)), st) \<and>
    fact_supersede_handler (example_server_env\<lparr>sv_fresh_id := ''later''\<rparr>) (toy_memory :: (string, unit, unit) memory_lib)
      (fe_fact example_fact_env) (\<lambda>b. if b = [2] then Inr example_signed_supersede else Inl ''unknown field'')
      example_fact_header [2] sst =
      ((OK, Inr (''mnemes.fact-supersede.v1'', sack)), sst)"
proof -
  let ?env = example_server_env and ?fl = "fe_fact example_fact_env"
    and ?lib = "toy_memory :: (string, unit, unit) memory_lib"
  let ?create = "\<lambda>b. if b = [1 :: byte] then Inr example_signed_batch else Inl ''missing field''"
    and ?supersede = "\<lambda>b. if b = [2 :: byte] then Inr example_signed_supersede else Inl ''unknown field''"
  have env: "fact_env_of ?env ?lib ?fl = example_fact_env" "pe_crypto (sv_pool ?env) = toy_crypto"
    by (simp_all add: fact_env_of_def example_server_env_def example_fact_env_def example_pool_env_def)
  have decode: "create_decode_json toy_crypto (create_validator_of ?fl) ?create [1] = Inr example_signed_batch"
    using example_signed_validates
    by (simp add: create_decode_json_def FACT_CREATE_TRANSPORT_MAX_WIRE_BYTES_def create_validator_of_def
        example_fact_env_def accept_all_def)
  have sdecode: "supersede_decode_json toy_crypto (fl_supersede_payload ?fl) ?supersede [2] =
      Inr example_signed_supersede"
    using example_supersede_envelope
    by (simp add: supersede_decode_json_def FACT_SUPERSEDE_TRANSPORT_MAX_WIRE_BYTES_def
        semantic_envelope_def bindR_eq_Inr example_fact_env_def)
  have home: "fcb_home_device_id example_signed_batch = ''device-1''"
      "fsb_home_device_id example_signed_supersede = ''device-1''"
    by (simp_all add: example_batch_defs)
  obtain ack st where c: "fact_create_handler ?env ?lib ?fl ?create example_fact_header [1] example_fact_store =
      ((OK, Inr (''mnemes.fact-create.v1'', ack)), st)"
    unfolding fact_create_handler_ok env decode
    using example_fact_authed example_create_accepted [of "body_digest ?env [1]"] home by auto
  obtain sack sst where s: "fact_supersede_handler ?env ?lib ?fl ?supersede example_fact_header [2]
      example_fact_store = ((OK, Inr (''mnemes.fact-supersede.v1'', sack)), sst)"
    unfolding fact_supersede_handler_ok env sdecode
    using example_fact_authed example_supersede_accepted [of "body_digest ?env [2]"] home by auto
  have "same_server ?env (?env\<lparr>sv_fresh_id := ''later''\<rparr>)" by (simp add: same_server_def)
  from fact_endpoints_exact [OF this, where lib = ?lib and fl = ?fl and from_slice = ?create
      and headers = example_fact_header and body = "[1]" and st = example_fact_store and ops = "[]"
      and from_slice' = ?supersede and headers' = example_fact_header and body' = "[2]" and sst = example_fact_store]
  show ?thesis unfolding c s prod.case sum.case fact_steps_def fold.simps id_apply by blast
qed

end
