(* ===== verification/Shard_Handles.thy ===== *)
theory Shard_Handles
  imports Shard_Service
begin

text \<open>
  Which database a handle belongs to. The cache of \<open>Shard_Cache\<close> maps keys to handles, and both
  \<open>device_memory\<close> and \<open>profile_store_memory\<close> of \<open>Shard_Service\<close> answer from it; here is the
  invariant that a cached handle was opened at the path of its key, and with it what the two
  operations promise: the handle of the memory that was asked for, or the reason there is none.
\<close>

section \<open>Where a handle was opened\<close>

definition opened_at :: "(string \<Rightarrow> 'm \<Rightarrow> (MemoryError + 's) \<times> 'm) \<Rightarrow> string \<Rightarrow> 's \<Rightarrow> bool" where
  "opened_at opening path h \<longleftrightarrow> (\<exists>m m'. opening path m = (Inr h, m'))"

definition profile_key :: "string \<Rightarrow> bool" where
  "profile_key key \<longleftrightarrow> take 8 key = ''profile:''"

text \<open>Keys of profile stores carry a prefix; the others are ids of devices.\<close>

definition key_handle :: "('s, 'm, 'src) memory_lib \<Rightarrow> pool_db \<Rightarrow> string \<Rightarrow> 's \<Rightarrow> bool" where
  "key_handle lib db key h \<longleftrightarrow>
     (if profile_key key
      then \<exists>s. get_store (drop 8 key) db = Some s \<and>
             opened_at (ml_open_read_only lib) (ms_relative_path s) h
      else opened_at (ml_open lib) (shard_relative_path (DeviceId key)) h)"

text \<open>The ids of devices with a shard never look like the key of a profile store.\<close>

definition handles_ok :: "('s, 'm, 'src) memory_lib \<Rightarrow> ('s, 'm, 'z) MnemesStore_scheme \<Rightarrow> bool" where
  "handles_ok lib st \<longleftrightarrow>
     cache_inv (st_cache st) \<and>
     (\<forall>key h. map_of (ca_stores (st_cache st)) key = Some h \<longrightarrow> key_handle lib (st_pool st) key h) \<and>
     (\<forall>row \<in> set (db_shards (st_pool st)). \<not> profile_key (device_id_str (shr_device_id row)))"

lemma handles_ok_pool:
  assumes "handles_ok lib st" "st_cache st' = st_cache st"
    and "\<And>i s. get_store i (st_pool st) = Some s \<Longrightarrow>
       \<exists>s'. get_store i (st_pool st') = Some s' \<and> ms_relative_path s' = ms_relative_path s"
    and "\<forall>row \<in> set (db_shards (st_pool st')). \<not> profile_key (device_id_str (shr_device_id row))"
  shows "handles_ok lib st'"
proof -
  have "key_handle lib (st_pool st') key h" if "key_handle lib (st_pool st) key h" for key h
    using that assms(3) unfolding key_handle_def by (auto split: if_splits) metis
  then show ?thesis using assms(1,2,4) by (auto simp: handles_ok_def)
qed

lemma handles_ok_memory [simp]: "handles_ok lib (st\<lparr>st_memory := m\<rparr>) = handles_ok lib st"
  by (simp add: handles_ok_def)

lemma empty_cache_handles:
  assumes "st_cache st = cache_new n"
    and "\<forall>row \<in> set (db_shards (st_pool st)). \<not> profile_key (device_id_str (shr_device_id row))"
  shows "handles_ok lib st"
  using assms cache_new_inv [of n] by (simp add: handles_ok_def cache_new_def)

section \<open>The cache\<close>

lemma map_of_suffix:
  assumes "distinct (map fst l)" "map_of (drop n l) k = Some h"
  shows "map_of l k = Some h"
  using assms by (meson in_set_dropD map_of_SomeD map_of_eq_Some_iff)

lemma insert_key_entries:
  assumes "cache_inv c" "map_of (ca_stores (the (insert_key key h c))) k = Some h'"
  shows "(k = key \<and> h' = h) \<or> map_of (ca_stores c) k = Some h'"
proof -
  obtain c' where c': "insert_key key h c = Some c'" "cache_inv c'"
    "cache_abs c' = lru_insert (ca_capacity c) key h (cache_abs c)"
    using insert_key_refines [OF assms(1)] by blast
  have keys: "cache_keys_ok c" "cache_keys_ok c'" using assms(1) c'(2) by (simp_all add: cache_inv_def)
  let ?l = "remove_store key (cache_abs c) @ [(key, h)]"
  have "distinct (map fst (cache_abs c))"
    using keys(1) by (simp add: cache_abs_def cache_keys_ok_def comp_def)
  then have "distinct (map fst ?l)"
    by (auto simp: distinct_remove_store) (auto simp: remove_store_def)
  moreover have "cache_abs c' = drop (length ?l - ca_capacity c) ?l"
    using c'(3) by (simp only: lru_insert_def Let_def)
  moreover have "map_of (cache_abs c') k = Some h'"
    using assms(2) c'(1) map_of_cache_abs [OF keys(2)] by simp
  ultimately have "map_of ?l k = Some h'" using map_of_suffix by metis
  then show ?thesis
    using map_of_cache_abs [OF keys(1)]
    by (auto simp: map_add_def map_of_remove_store split: if_splits option.splits)
qed

lemma get_key_entries:
  "get_key key c = (r, c') \<Longrightarrow> ca_stores c' = ca_stores c \<and> r = map_of (ca_stores c) key"
  by (auto simp: get_key_def split: option.splits)

text \<open>A lookup with its opening on a miss.\<close>

definition cached_open ::
    "string \<Rightarrow> ('m \<Rightarrow> (MemoryError + 's) \<times> 'm) \<Rightarrow> ('s, 'm, 'z) MnemesStore_scheme \<Rightarrow>
     (MnemesError + 's) \<times> ('s, 'm, 'z) MnemesStore_scheme" where
  "cached_open key opening st =
     (case get_key key (st_cache st) of
        (Some handle, cache) \<Rightarrow> (Inr handle, st\<lparr>st_cache := cache\<rparr>)
      | (None, _) \<Rightarrow> bindS (call_memory opening) (put_handle key) st)"

lemma cached_open_ok:
  assumes "cached_open key opening st = (r, st')" "handles_ok lib st"
    and "\<forall>h m m'. opening m = (Inr h, m') \<longrightarrow> key_handle lib (st_pool st) key h"
  shows "handles_ok lib st'"
    and "case r of
       Inr h \<Rightarrow> key_handle lib (st_pool st) key h \<and>
         (st_memory st' = st_memory st \<or> opening (st_memory st) = (Inr h, st_memory st'))
     | Inl e \<Rightarrow> \<exists>x. opening (st_memory st) = (Inl x, st_memory st') \<and> e = Memory x"
proof -
  obtain hit cache where get: "get_key key (st_cache st) = (hit, cache)" by fastforce
  note G = get_key_entries [OF get]
  have inv: "cache_inv (st_cache st)" using assms(2) by (simp add: handles_ok_def)
  have "handles_ok lib st' \<and> (case r of
       Inr h \<Rightarrow> key_handle lib (st_pool st) key h \<and>
         (st_memory st' = st_memory st \<or> opening (st_memory st) = (Inr h, st_memory st'))
     | Inl e \<Rightarrow> \<exists>x. opening (st_memory st) = (Inl x, st_memory st') \<and> e = Memory x)"
  proof (cases hit)
    case (Some h)
    then have "r = Inr h" "st' = st\<lparr>st_cache := cache\<rparr>"
      using assms(1) get by (simp_all add: cached_open_def)
    moreover have "cache_inv cache" using get_key_refines [OF inv get] by blast
    ultimately show ?thesis using assms(2) G Some by (auto simp: handles_ok_def)
  next
    case None
    obtain x m where m: "opening (st_memory st) = (x, m)" by fastforce
    have open_miss: "bindS (call_memory opening) (put_handle key) st = (r, st')"
      using assms(1) get None by (simp add: cached_open_def)
    show ?thesis
    proof (cases x)
      case (Inl e)
      then show ?thesis
        using open_miss m assms(2) by (auto simp: bindS_def call_memory_def)
    next
      case (Inr h)
      let ?cache = "the (insert_key key h (st_cache st))"
      have st': "r = Inr h" "st' = st\<lparr>st_memory := m, st_cache := ?cache\<rparr>"
        using open_miss m Inr by (auto simp: bindS_def call_memory_def put_handle_def)
      have h: "key_handle lib (st_pool st) key h" using assms(3) m Inr by blast
      have "cache_inv ?cache" using insert_key_refines [OF inv, of key h] by auto
      moreover have "key_handle lib (st_pool st) k h'" if "map_of (ca_stores ?cache) k = Some h'" for k h'
        using insert_key_entries [OF inv that] h assms(2) by (auto simp: handles_ok_def)
      ultimately have "handles_ok lib st'" using assms(2) by (simp add: handles_ok_def st')
      then show ?thesis using h m Inr by (simp add: st')
    qed
  qed
  then show "handles_ok lib st'"
    and "case r of
       Inr h \<Rightarrow> key_handle lib (st_pool st) key h \<and>
         (st_memory st' = st_memory st \<or> opening (st_memory st) = (Inr h, st_memory st'))
     | Inl e \<Rightarrow> \<exists>x. opening (st_memory st) = (Inl x, st_memory st') \<and> e = Memory x"
    by blast+
qed

section \<open>What the two operations promise\<close>

text \<open>
  A handle of the memory at a path, from the cache or opened now; or the refusal of the catalog,
  with nothing opened; or the error of the opening.
\<close>

definition handle_answer ::
    "(string \<Rightarrow> 'm \<Rightarrow> (MemoryError + 's) \<times> 'm) \<Rightarrow> string \<Rightarrow> (MnemesError \<Rightarrow> bool) \<Rightarrow> MnemesError + 's \<Rightarrow>
     'm \<Rightarrow> 'm \<Rightarrow> bool" where
  "handle_answer opening path refused r m m' \<longleftrightarrow>
     (case r of
        Inr h \<Rightarrow> opened_at opening path h \<and> (m' = m \<or> opening path m = (Inr h, m'))
      | Inl e \<Rightarrow> refused e \<and> m' = m \<or> (\<exists>x. opening path m = (Inl x, m') \<and> e = Memory x))"

definition device_refused :: "pool_env \<Rightarrow> pool_db \<Rightarrow> DeviceId \<Rightarrow> MnemesError \<Rightarrow> bool" where
  "device_refused env db d e \<longleftrightarrow>
     (case row_by shr_device_id d (db_shards db) of
        None \<Rightarrow> e = DeviceNotFound (device_id_str d)
      | Some row \<Rightarrow>
          if std_components (shr_relative_path row) = std_components (shard_relative_path d)
          then create_shard_dir env d = Inl e
          else e = InvalidShardCatalog (''device '' @ device_id_str d @
                 '' has non-deterministic path '' @ shr_relative_path row))"

lemma device_memory_handle:
  assumes "device_memory env lib d st = (r, st')" "handles_ok lib st"
  shows "handles_ok lib st' \<and>
     handle_answer (ml_open lib) (shard_relative_path d) (device_refused env (st_pool st) d) r
       (st_memory st) (st_memory st')"
proof (cases "row_by shr_device_id d (db_shards (st_pool st))")
  case None
  with assms show ?thesis by (auto simp: device_memory_def handle_answer_def device_refused_def)
next
  case (Some row)
  show ?thesis
  proof (cases "std_components (shr_relative_path row) = std_components (shard_relative_path d)")
    case False
    with assms Some show ?thesis by (auto simp: device_memory_def handle_answer_def device_refused_def)
  next
    case path: True
    let ?key = "device_id_str d" and ?opening = "ml_open lib (shard_relative_path d)"
    have "row \<in> set (db_shards (st_pool st))" "shr_device_id row = d"
      using row_by_SomeD [OF Some] by blast+
    then have key: "\<not> profile_key ?key" using assms(2) by (auto simp: handles_ok_def)
    then have handle: "key_handle lib db ?key h \<longleftrightarrow> opened_at (ml_open lib) (shard_relative_path d) h" for db h
      by (simp add: key_handle_def)
    consider (dir) e where "create_shard_dir env d = Inl e" "r = Inl e" "st' = st"
      | (cached) "cached_open ?key ?opening st = (r, st')"
    proof (cases "fst (get_key ?key (st_cache st)) = None \<and> \<not> is_ok (create_shard_dir env d)")
      case True
      then obtain e cache where "create_shard_dir env d = Inl e" "get_key ?key (st_cache st) = (None, cache)"
        by (metis is_ok_iff not_Some_eq prod.collapse sum.exhaust)
      then show ?thesis using assms(1) Some path that(1) by (simp add: device_memory_def cache_get_def)
    next
      case False
      then have "device_memory env lib d st = cached_open ?key ?opening st"
        by (auto simp: device_memory_def cached_open_def cache_get_def Some path is_ok_iff
            split: prod.split option.split)
      then show ?thesis using assms(1) that(2) by simp
    qed
    then show ?thesis
    proof cases
      case dir
      with assms(2) Some path show ?thesis by (simp add: handle_answer_def device_refused_def)
    next
      case cached
      have "\<forall>h m m'. ?opening m = (Inr h, m') \<longrightarrow> key_handle lib (st_pool st) ?key h"
        unfolding handle opened_at_def by blast
      from cached_open_ok [OF cached assms(2) this] show ?thesis
        by (auto simp: handle_answer_def handle split: sum.splits)
    qed
  qed
qed

definition store_refused :: "pool_db \<Rightarrow> string \<Rightarrow> MnemesError \<Rightarrow> bool" where
  "store_refused db i e \<longleftrightarrow>
     (case active_store i db of
        None \<Rightarrow> e = MemoryGrantDenied ''profile store is not active or does not exist''
      | Some s \<Rightarrow>
          bindR (profile_id_parse (profile_id_str (ms_profile_id s))) (\<lambda>p.
          bindR (canonical_memory_store_relative_path p i) (\<lambda>expected.
          fail_if (ms_relative_path s \<noteq> expected)
            (InvalidMemoryScope ''profile store path is not canonical''))) = Inl e)"

lemma active_store_got: "active_store i db = Some s \<Longrightarrow> get_store i db = Some s"
  by (auto simp: active_store_def split: option.splits if_splits)

lemma profile_key_of_store [simp]: "profile_key (''profile:'' @ i)"
  by (simp add: profile_key_def)

lemma profile_store_memory_handle:
  assumes "profile_store_memory lib i st = (r, st')" "handles_ok lib st"
    and "get_store i (st_pool st) = Some s"
  shows "handles_ok lib st' \<and>
     handle_answer (ml_open_read_only lib) (ms_relative_path s) (store_refused (st_pool st) i) r
       (st_memory st) (st_memory st')"
proof -
  let ?key = "''profile:'' @ i" and ?opening = "ml_open_read_only lib (ms_relative_path s)"
  have handle: "key_handle lib (st_pool st) ?key h \<longleftrightarrow>
      opened_at (ml_open_read_only lib) (ms_relative_path s) h" for h
    using assms(3) profile_key_of_store [of i] by (simp add: key_handle_def)
  consider (refused) e where "store_refused (st_pool st) i e" "r = Inl e" "st' = st"
    | (cached) "cached_open ?key ?opening st = (r, st')"
  proof (cases "active_store i (st_pool st)")
    case None
    then have "store_refused (st_pool st) i (MemoryGrantDenied ''profile store is not active or does not exist'')"
      by (simp add: store_refused_def)
    moreover have "r = Inl (MemoryGrantDenied ''profile store is not active or does not exist'')" "st' = st"
      using assms(1) None by (simp_all add: profile_store_memory_def)
    ultimately show ?thesis by (rule that(1))
  next
    case (Some s')
    then have "s' = s" using active_store_got assms(3) by fastforce
    let ?check = "bindR (profile_id_parse (profile_id_str (ms_profile_id s))) (\<lambda>p.
          bindR (canonical_memory_store_relative_path p i) (\<lambda>expected.
          fail_if (ms_relative_path s \<noteq> expected)
            (InvalidMemoryScope ''profile store path is not canonical'')))"
    have "profile_store_memory lib i st =
        (case ?check of Inl e \<Rightarrow> (Inl e, st) | Inr _ \<Rightarrow> cached_open ?key ?opening st)"
      by (simp add: profile_store_memory_def Some \<open>s' = s\<close> readS_def fail_if_def
          cached_open_def del: append_Cons append_Nil split: sum.split)
    moreover have "store_refused (st_pool st) i e \<longleftrightarrow> ?check = Inl e" for e
      by (simp add: store_refused_def Some \<open>s' = s\<close>)
    ultimately show ?thesis
      using assms(1) that by (cases ?check) auto
  qed
  then show ?thesis
  proof cases
    case refused
    with assms(2) show ?thesis by (simp add: handle_answer_def)
  next
    case cached
    have "\<forall>h m m'. ?opening m = (Inr h, m') \<longrightarrow> key_handle lib (st_pool st) ?key h"
      unfolding handle opened_at_def by blast
    from cached_open_ok [OF cached assms(2) this, unfolded handle] show ?thesis
      by (auto simp: handle_answer_def split: sum.splits)
  qed
qed

section \<open>Running over a list\<close>

text \<open>One step per element, each from the contents of the databases that the one before left.\<close>

fun threaded :: "('a \<Rightarrow> 'b \<Rightarrow> 'm \<Rightarrow> 'm \<Rightarrow> bool) \<Rightarrow> 'a list \<Rightarrow> 'b list \<Rightarrow> 'm \<Rightarrow> 'm \<Rightarrow> bool" where
  "threaded R [] [] m m' \<longleftrightarrow> m' = m"
| "threaded R (x # xs) (y # ys) m m' \<longleftrightarrow> (\<exists>m1. R x y m m1 \<and> threaded R xs ys m1 m')"
| "threaded R _ _ m m' \<longleftrightarrow> False"

lemma threaded_append:
  "length xs = length ys \<Longrightarrow>
   threaded R (xs @ xs') (ys @ ys') m m' \<longleftrightarrow> (\<exists>m1. threaded R xs ys m m1 \<and> threaded R xs' ys' m1 m')"
  by (induction xs ys arbitrary: m rule: list_induct2) auto

lemma threaded_length: "threaded R xs ys m m' \<Longrightarrow> length xs = length ys"
  by (induction R xs ys m m' rule: threaded.induct) auto

lemma threaded_mono:
  assumes "threaded R xs ys m m'" "\<And>x y m m'. x \<in> set xs \<Longrightarrow> R x y m m' \<Longrightarrow> Q x y m m'"
  shows "threaded Q xs ys m m'"
  using assms by (induction R xs ys m m' rule: threaded.induct) (auto, blast)

lemma threaded_member:
  assumes "threaded R xs ys m m'" "y \<in> set ys"
  shows "\<exists>x \<in> set xs. \<exists>m1 m2. R x y m1 m2"
  using assms by (induction R xs ys m m' rule: threaded.induct) auto

end
