(* ===== verification/Routed_Search.thy ===== *)
theory Routed_Search
  imports Shard_Handles
begin

text \<open>
  The routed search over the device shards (\<open>routed_search\<close> in \<open>src/store.rs\<close>): the ranked
  shards are searched in order, first the budgeted ones, then one by one while results are
  missing; the results are merged and the receipt that accounts for every shard is authenticated
  and stored.

  \<open>join_all\<close> runs the searches of one batch concurrently. Each works on the database of its own
  shard, so they are run here in the order of the batch.
\<close>

section \<open>One shard\<close>

record ShardSearchExecution =
  ex_outcome :: ShardSearchOutcome
  ex_results :: "RoutedSearchResult list"

text \<open>What comes from outside one search: the fresh id, and the time each shard takes.\<close>

record search_env =
  sx_pool :: pool_env
  sx_receipts :: receipt_lib
  sx_receipt_id :: string
  sx_latency_ms :: "string \<Rightarrow> u64"

definition observe_search ::
    "('s, 'm, 'src) memory_lib \<Rightarrow> DeviceId \<Rightarrow> u64 \<Rightarrow> ('s, 'm, 'z) MnemesStore_scheme \<Rightarrow>
     ('s, 'm, 'z) MnemesStore_scheme" where
  "observe_search lib device_id latency_ms st =
     st\<lparr>st_pool := record_shard_search_observation lib device_id latency_ms (st_pool st)\<rparr>"

definition failed_execution ::
    "('s, 'm, 'src) memory_lib \<Rightarrow> DeviceShard \<Rightarrow> u64 \<Rightarrow> MnemesError \<Rightarrow> ShardSearchExecution" where
  "failed_execution lib shard latency_ms error =
     \<lparr> ex_outcome =
         \<lparr> so_device_id = sh_device_id shard, so_shard_generation = sh_generation shard,
           so_latency_ms = latency_ms, so_result_count = 0, so_child_search_receipt_id = None,
           so_error = Some (display_mnemes_error (ml_display lib) error) \<rparr>,
       ex_results = [] \<rparr>"

text \<open>A failed search of semantic-memory shows its own text, a failed opening that of Mnemes.\<close>

definition search_one_shard ::
    "search_env \<Rightarrow> ('s, 'm, 'src) memory_lib \<Rightarrow> 'src RoutingSearchRequest \<Rightarrow> string \<Rightarrow> DeviceShard \<Rightarrow>
     ('s, 'm, 'z) MnemesStore_scheme \<Rightarrow> ShardSearchExecution \<times> ('s, 'm, 'z) MnemesStore_scheme" where
  "search_one_shard env lib request query_sha256 shard st =
     (let device_id = sh_device_id shard; latency_ms = sx_latency_ms env (device_id_str device_id) in
      case device_memory (sx_pool env) lib device_id st of
        (Inl error, st) \<Rightarrow>
          (failed_execution lib shard latency_ms error, observe_search lib device_id latency_ms st)
      | (Inr memory, st) \<Rightarrow>
          (let (result, m) = ml_search_with_context lib memory (rq_query request) (rq_top_k request)
                 (rq_namespaces request) (rq_source_types request)
                 (sx_receipt_id env @ '':'' @ device_id_str device_id) query_sha256 (st_memory st);
               st = observe_search lib device_id latency_ms (st\<lparr>st_memory := m\<rparr>)
           in case result of
                Inr (results, child_receipt_id) \<Rightarrow>
                  (\<lparr> ex_outcome =
                       \<lparr> so_device_id = device_id, so_shard_generation = sh_generation shard,
                         so_latency_ms = latency_ms, so_result_count = length results,
                         so_child_search_receipt_id = child_receipt_id, so_error = None \<rparr>,
                     ex_results = map (\<lambda>result. \<lparr> rr_result = result, rr_device_id = device_id,
                         rr_shard_generation = sh_generation shard,
                         rr_child_receipt_id = child_receipt_id \<rparr>) results \<rparr>, st)
              | Inl error \<Rightarrow>
                  (\<lparr> ex_outcome =
                       \<lparr> so_device_id = device_id, so_shard_generation = sh_generation shard,
                         so_latency_ms = latency_ms, so_result_count = 0,
                         so_child_search_receipt_id = None,
                         so_error = Some (ml_display lib error) \<rparr>,
                     ex_results = [] \<rparr>, st)))"

fun search_shard_batch ::
    "search_env \<Rightarrow> ('s, 'm, 'src) memory_lib \<Rightarrow> 'src RoutingSearchRequest \<Rightarrow> string \<Rightarrow>
     DeviceShard list \<Rightarrow> ('s, 'm, 'z) MnemesStore_scheme \<Rightarrow>
     ShardSearchExecution list \<times> ('s, 'm, 'z) MnemesStore_scheme" where
  "search_shard_batch env lib request query_sha256 [] st = ([], st)"
| "search_shard_batch env lib request query_sha256 (shard # shards) st =
     (let (execution, st) = search_one_shard env lib request query_sha256 shard st;
          (executions, st) = search_shard_batch env lib request query_sha256 shards st
      in (execution # executions, st))"

section \<open>The search\<close>

text \<open>A hash map collected from the catalog keeps the last row of a device.\<close>

definition by_device :: "DeviceShard list \<Rightarrow> DeviceId \<rightharpoonup> DeviceShard" where
  "by_device catalog = map_of (rev (map (\<lambda>shard. (sh_device_id shard, shard)) catalog))"

definition initial_budget :: "'src RoutingSearchRequest \<Rightarrow> RankedShard list \<Rightarrow> usize" where
  "initial_budget request ranked =
     (if rq_exhaustive request then length ranked
      else min (case rq_shard_budget request of None \<Rightarrow> min (length ranked) 2 | Some budget \<Rightarrow> budget)
             (length ranked))"

text \<open>The expansion loop over the shards after the budget.\<close>

fun expand_search ::
    "search_env \<Rightarrow> ('s, 'm, 'src) memory_lib \<Rightarrow> 'src RoutingSearchRequest \<Rightarrow> string \<Rightarrow>
     (DeviceId \<rightharpoonup> DeviceShard) \<Rightarrow> RankedShard list \<Rightarrow> RoutedSearchResult list \<Rightarrow>
     ShardSearchExecution list \<Rightarrow> nat \<Rightarrow> ('s, 'm, 'z) MnemesStore_scheme \<Rightarrow>
     (MnemesError + RoutedSearchResult list \<times> ShardSearchExecution list \<times> nat) \<times>
     ('s, 'm, 'z) MnemesStore_scheme" where
  "expand_search env lib request query_sha256 shards [] all_results executions selected_count st =
     (Inr (all_results, executions, selected_count), st)"
| "expand_search env lib request query_sha256 shards (next # rest) all_results executions
       selected_count st =
     (case shards (rk_device_id next) of
        None \<Rightarrow> expand_search env lib request query_sha256 shards rest all_results executions
                 selected_count st
      | Some shard \<Rightarrow>
          (let (expanded, st) = search_shard_batch env lib request query_sha256 [shard] st;
               execution = hd expanded;
               all_results = all_results @ ex_results execution;
               executions = executions @ [execution];
               selected_count = selected_count + 1
           in case merge_routed_results all_results (rq_top_k request) of
                Inl error \<Rightarrow> (Inl error, st)
              | Inr merged \<Rightarrow>
                  if length merged \<ge> rq_top_k request
                  then (Inr (all_results, executions, selected_count), st)
                  else expand_search env lib request query_sha256 shards rest all_results
                         executions selected_count st))"

text \<open>Both phases: all results, the executions, the number of selected shards, the fallback.\<close>

definition run_shards ::
    "search_env \<Rightarrow> ('s, 'm, 'src) memory_lib \<Rightarrow> 'src RoutingSearchRequest \<Rightarrow> string \<Rightarrow>
     DeviceShard list \<Rightarrow> RankedShard list \<Rightarrow> ('s, 'm, 'z) MnemesStore_scheme \<Rightarrow>
     (MnemesError + RoutedSearchResult list \<times> ShardSearchExecution list \<times> nat \<times> string option) \<times>
     ('s, 'm, 'z) MnemesStore_scheme" where
  "run_shards env lib request query_sha256 catalog ranked st =
     (let shards = by_device catalog;
          initial = List.map_filter (\<lambda>r. shards (rk_device_id r))
            (take (initial_budget request ranked) ranked);
          (executions, st) = search_shard_batch env lib request query_sha256 initial st;
          all_results = concat (map ex_results executions);
          selected_count = length initial
      in if \<not> rq_exhaustive request \<and> selected_count < length ranked
         then case merge_routed_results all_results (rq_top_k request) of
                Inl error \<Rightarrow> (Inl error, st)
              | Inr merged \<Rightarrow>
                  if length merged < rq_top_k request
                  then bindS (expand_search env lib request query_sha256 shards
                         (drop selected_count ranked) all_results executions selected_count)
                       (\<lambda>(all_results, executions, selected_count).
                         readS (\<lambda>_. Inr (all_results, executions, selected_count,
                           Some ''insufficient_results_expand''))) st
                  else (Inr (all_results, executions, selected_count, None), st)
         else (Inr (all_results, executions, selected_count, None), st))"

definition merge_material :: "crypto \<Rightarrow> RoutedSearchResult list \<Rightarrow> string" where
  "merge_material c results =
     join [CHR 0x0A] (map (\<lambda>r. result_id r @ '':'' @ device_id_str (rr_device_id r) @ '':'' @
       sha256_hex c (se_content (rr_result r))) results)"

definition build_routing_receipt ::
    "search_env \<Rightarrow> DeviceId \<Rightarrow> 'src RoutingSearchRequest \<Rightarrow> string \<Rightarrow> RankedShard list \<Rightarrow>
     ShardSearchExecution list \<Rightarrow> nat \<Rightarrow> string option \<Rightarrow> RoutedSearchResult list \<Rightarrow>
     ShardRoutingReceipt" where
  "build_routing_receipt env requester request query_sha256 ranked executions selected_count
       fallback_reason results =
     (let selected_shards = map rk_device_id (take selected_count ranked) in
      \<lparr> rc_receipt_id = sx_receipt_id env, rc_requester_device_id = requester,
        rc_query_sha256 = query_sha256, rc_shard_budget = initial_budget request ranked,
        rc_actual_selected_shard_count = length selected_shards,
        rc_exhaustive = rq_exhaustive request, rc_eligible_shards = map rk_device_id ranked,
        rc_ranked_shards = ranked, rc_selected_shards = selected_shards,
        rc_skipped_shards = map rk_device_id (drop selected_count ranked),
        rc_outcomes = map ex_outcome executions, rc_fallback_reason = fallback_reason,
        rc_final_result_ids = map result_id results,
        rc_merge_digest = sha256_hex (pe_crypto (sx_pool env))
          (merge_material (pe_crypto (sx_pool env)) results),
        rc_receipt_digest = [], rc_recorded_at = pe_now (sx_pool env) \<rparr>)"

text \<open>The last part of \<open>routed_search\<close>: authenticate the receipt, check it, store it.\<close>

definition finish_routing_receipt ::
    "search_env \<Rightarrow> ShardRoutingReceipt \<Rightarrow> ('s, 'm, 'z) MnemesStore_scheme \<Rightarrow>
     (MnemesError + ShardRoutingReceipt) \<times> ('s, 'm, 'z) MnemesStore_scheme" where
  "finish_routing_receipt env receipt =
     bindS (readS (\<lambda>st. routing_receipt_digest (sx_receipts env) (st_receipt_auth_key st) receipt))
       (\<lambda>digest.
     let receipt = receipt\<lparr>rc_receipt_digest := digest\<rparr> in
     bindS (readS (\<lambda>st. validate_routing_receipt (sx_receipts env) (st_receipt_auth_key st) receipt))
       (\<lambda>_. \<lambda>st.
     case persist_routing_receipt (sx_receipts env) (st_receipt_auth_key st) (sx_pool env) receipt
            (st_pool st) (st_routing_receipts st) of
       Inl e \<Rightarrow> (Inl e, st)
     | Inr rows \<Rightarrow> (Inr receipt, st\<lparr>st_routing_receipts := rows\<rparr>)))"

definition routed_search ::
    "search_env \<Rightarrow> ('s, 'm, 'src) memory_lib \<Rightarrow> DeviceId \<Rightarrow> 'src RoutingSearchRequest \<Rightarrow>
     ('s, 'm, 'z) MnemesStore_scheme \<Rightarrow>
     (MnemesError + RoutedSearchResult list \<times> ShardRoutingReceipt) \<times> ('s, 'm, 'z) MnemesStore_scheme" where
  "routed_search env lib requester_device_id request =
     bindS (readS (\<lambda>st. ok_or (DeviceNotFound (device_id_str requester_device_id))
       (get_device requester_device_id (st_pool st)))) (\<lambda>_.
     bindS (readS (\<lambda>st. list_shards lib (st_pool st))) (\<lambda>catalog.
     let ranked = rank_shards (rq_query request) requester_device_id catalog;
         query_sha256 = sha256_hex (pe_crypto (sx_pool env)) (rq_query request)
     in bindS (run_shards env lib request query_sha256 catalog ranked)
          (\<lambda>(all_results, executions, selected_count, fallback_reason).
        bindS (readS (\<lambda>_. merge_routed_results all_results (rq_top_k request))) (\<lambda>results.
        bindS (finish_routing_receipt env (build_routing_receipt env requester_device_id request
          query_sha256 ranked executions selected_count fallback_reason results)) (\<lambda>receipt.
        readS (\<lambda>_. Inr (results, receipt)))))))"

section \<open>The executions\<close>

lemma search_one_shard_device:
  "search_one_shard env lib request q shard st = (e, st') \<Longrightarrow>
     so_device_id (ex_outcome e) = sh_device_id shard \<and>
     (\<forall>r \<in> set (ex_results e). rr_device_id r = sh_device_id shard) \<and>
     length (ex_results e) = so_result_count (ex_outcome e)"
  by (auto simp: search_one_shard_def failed_execution_def Let_def split: prod.splits sum.splits)

lemma search_shard_batch_devices:
  "search_shard_batch env lib request q shards st = (es, st') \<Longrightarrow>
     map (\<lambda>e. so_device_id (ex_outcome e)) es = map sh_device_id shards \<and>
     (\<forall>e \<in> set es. \<forall>r \<in> set (ex_results e). rr_device_id r = so_device_id (ex_outcome e))"
proof (induction shards arbitrary: es st)
  case (Cons shard shards)
  obtain e st1 where one: "search_one_shard env lib request q shard st = (e, st1)" by fastforce
  obtain es1 where rest: "search_shard_batch env lib request q shards st1 = (es1, st')"
    and es: "es = e # es1"
    using Cons.prems one by (auto simp: Let_def split: prod.splits)
  show ?case using Cons.IH [OF rest] search_one_shard_device [OF one] es by auto
qed simp

lemma by_device_SomeD: "by_device catalog d = Some shard \<Longrightarrow> sh_device_id shard = d \<and> shard \<in> set catalog"
  by (auto simp: by_device_def dest!: map_of_SomeD)

lemma by_device_ranked:
  assumes "r \<in> set (rank_shards query requester catalog)"
  shows "\<exists>shard. by_device catalog (rk_device_id r) = Some shard"
proof -
  have "rk_device_id r \<in> sh_device_id ` set catalog"
    using assms by (auto simp: rank_shards_def score_shard_def Let_def)
  then have "rk_device_id r \<in> fst ` set (rev (map (\<lambda>shard. (sh_device_id shard, shard)) catalog))"
    by (simp add: image_image)
  then have "by_device catalog (rk_device_id r) \<noteq> None"
    unfolding by_device_def map_of_eq_None_iff by blast
  then show ?thesis by blast
qed

text \<open>
  What the loops keep: the executions are those of the first \<open>n\<close> ranked shards, in order, and the
  collected results are theirs.
\<close>

definition covers :: "RankedShard list \<Rightarrow> RoutedSearchResult list \<Rightarrow> ShardSearchExecution list \<Rightarrow> nat \<Rightarrow> bool" where
  "covers ranked results executions n \<longleftrightarrow>
     n \<le> length ranked \<and>
     map (\<lambda>e. so_device_id (ex_outcome e)) executions = map rk_device_id (take n ranked) \<and>
     results = concat (map ex_results executions) \<and>
     (\<forall>e \<in> set executions. \<forall>r \<in> set (ex_results e). rr_device_id r = so_device_id (ex_outcome e))"

lemma take_Suc_nth: "drop n xs = y # ys \<Longrightarrow> n < length xs \<and> take (n + 1) xs = take n xs @ [y] \<and> drop (n + 1) xs = ys"
  by (metis Cons_nth_drop_Suc Suc_eq_plus1 drop_eq_Nil2 leI list.distinct(1) list.inject take_Suc_conv_app_nth)

lemma expand_search_covers:
  "expand_search env lib request q (by_device catalog) rest all_results executions n st =
     (Inr (results, es, k), st') \<Longrightarrow>
   (\<And>r. r \<in> set rest \<Longrightarrow> \<exists>shard. by_device catalog (rk_device_id r) = Some shard) \<Longrightarrow>
   covers ranked all_results executions n \<Longrightarrow> rest = drop n ranked \<Longrightarrow>
   covers ranked results es k \<and>
   (k < length ranked \<longrightarrow> (\<exists>merged. merge_routed_results results (rq_top_k request) = Inr merged \<and>
      rq_top_k request \<le> length merged))"
proof (induction rest arbitrary: all_results executions n st)
  case Nil
  then show ?case by (auto simp: covers_def)
next
  case (Cons r rest)
  obtain shard where shard: "by_device catalog (rk_device_id r) = Some shard"
    using Cons.prems(2) by fastforce
  obtain e st1 where one: "search_one_shard env lib request q shard st = (e, st1)" by fastforce
  then have batch: "search_shard_batch env lib request q [shard] st = ([e], st1)" by simp
  have dev: "so_device_id (ex_outcome e) = rk_device_id r"
    using search_one_shard_device [OF one] by_device_SomeD [OF shard] by simp
  have step: "n < length ranked" "take (n + 1) ranked = take n ranked @ [r]"
    "drop (n + 1) ranked = rest"
    using take_Suc_nth [of n ranked r rest] Cons.prems(4) by auto
  have cov: "covers ranked (all_results @ ex_results e) (executions @ [e]) (n + 1)"
    using Cons.prems(3) step(1,2) dev search_one_shard_device [OF one] by (auto simp: covers_def)
  have unfolded: "(case merge_routed_results (all_results @ ex_results e) (rq_top_k request) of
        Inl error \<Rightarrow> (Inl error, st1)
      | Inr merged \<Rightarrow>
          if rq_top_k request \<le> length merged
          then (Inr (all_results @ ex_results e, executions @ [e], n + 1), st1)
          else expand_search env lib request q (by_device catalog) rest (all_results @ ex_results e)
                 (executions @ [e]) (n + 1) st1) = (Inr (results, es, k), st')"
    using Cons.prems(1) unfolding expand_search.simps shard option.case batch Let_def prod.case
      list.sel .
  show ?case
  proof (cases "merge_routed_results (all_results @ ex_results e) (rq_top_k request)")
    case (Inl error)
    with unfolded show ?thesis by simp
  next
    case (Inr merged)
    show ?thesis
    proof (cases "rq_top_k request \<le> length merged")
      case True
      with unfolded Inr have "results = all_results @ ex_results e" "es = executions @ [e]" "k = n + 1"
        by auto
      with cov Inr True show ?thesis by blast
    next
      case False
      with unfolded Inr have
        "expand_search env lib request q (by_device catalog) rest (all_results @ ex_results e)
           (executions @ [e]) (n + 1) st1 = (Inr (results, es, k), st')" by simp
      from Cons.IH [OF this _ cov step(3) [symmetric]] Cons.prems(2) show ?thesis by simp
    qed
  qed
qed

lemma expand_search_grows:
  "expand_search env lib request q shards rest all_results executions n st = (Inr (results, es, k), st') \<Longrightarrow>
   n \<le> k"
proof (induction rest arbitrary: all_results executions n st)
  case (Cons r rest)
  then show ?case
    by (auto simp: Let_def split: option.splits prod.splits sum.splits if_splits dest!: Cons.IH)
qed simp

lemma map_filter_all:
  "(\<And>x. x \<in> set xs \<Longrightarrow> \<exists>y. f x = Some y) \<Longrightarrow> List.map_filter f xs = map (\<lambda>x. the (f x)) xs"
proof (induction xs)
  case (Cons x xs)
  then obtain y where "f x = Some y" by fastforce
  with Cons show ?case by (simp add: List.map_filter_simps)
qed (simp add: List.map_filter_simps)

lemma run_shards_covers:
  assumes "run_shards env lib request q catalog ranked st =
       (Inr (results, executions, n, fallback), st')"
    and "\<And>r. r \<in> set ranked \<Longrightarrow> \<exists>shard. by_device catalog (rk_device_id r) = Some shard"
  shows "covers ranked results executions n \<and> initial_budget request ranked \<le> n \<and>
     (n < length ranked \<longrightarrow> (\<exists>merged. merge_routed_results results (rq_top_k request) = Inr merged \<and>
      rq_top_k request \<le> length merged))"
proof -
  let ?b = "initial_budget request ranked"
  let ?the = "\<lambda>r. the (by_device catalog (rk_device_id r))"
  have b: "?b \<le> length ranked" by (auto simp: initial_budget_def split: option.splits)
  have initial: "List.map_filter (\<lambda>r. by_device catalog (rk_device_id r)) (take ?b ranked) =
      map ?the (take ?b ranked)"
    by (rule map_filter_all) (use assms(2) in_set_takeD in fast)
  obtain es st1 where batch: "search_shard_batch env lib request q (map ?the (take ?b ranked)) st = (es, st1)"
    by fastforce
  have "map sh_device_id (map ?the (take ?b ranked)) = map rk_device_id (take ?b ranked)"
    using assms(2) by_device_SomeD by (fastforce dest: in_set_takeD)
  then have cov: "covers ranked (concat (map ex_results es)) es ?b"
    using search_shard_batch_devices [OF batch] b by (auto simp: covers_def)
  let ?all = "concat (map ex_results es)" and ?k = "rq_top_k request"
  have len: "length (map ?the (take ?b ranked)) = ?b" using b by simp
  note unfolded = assms(1) [unfolded run_shards_def Let_def initial batch prod.case len]
  show ?thesis
  proof (cases "\<not> rq_exhaustive request \<and> ?b < length ranked")
    case False
    then have "results = ?all" "executions = es" "n = ?b" using unfolded by auto
    moreover have "\<not> ?b < length ranked" using False by (auto simp: initial_budget_def)
    ultimately show ?thesis using cov by simp
  next
    case True
    then obtain merged where m: "merge_routed_results ?all ?k = Inr merged"
      using unfolded by (auto split: sum.splits)
    show ?thesis
    proof (cases "length merged < ?k")
      case False
      then have "results = ?all" "executions = es" "n = ?b" using unfolded True m by auto
      with cov m False show ?thesis by (metis linorder_not_le order_refl)
    next
      case fewer: True
      with unfolded True m have ex: "expand_search env lib request q (by_device catalog) (drop ?b ranked)
          ?all es ?b st1 = (Inr (results, executions, n), st')"
        by (auto simp: bindS_ok)
      have "\<exists>shard. by_device catalog (rk_device_id r) = Some shard" if "r \<in> set (drop ?b ranked)" for r
        using assms(2) that in_set_dropD by fast
      from expand_search_covers [OF ex this cov] expand_search_grows [OF ex]
      show ?thesis by simp
    qed
  qed
qed

section \<open>What one shard is asked and answers\<close>

definition no_results :: "ShardSearchExecution \<Rightarrow> string \<Rightarrow> bool" where
  "no_results e error \<longleftrightarrow> ex_results e = [] \<and> so_error (ex_outcome e) = Some error \<and>
     so_child_search_receipt_id (ex_outcome e) = None"

text \<open>
  The execution of a search of a shard: it carries what semantic-memory returned for this request
  from the database at the shard's own path, labelled with the shard, or the reason why there is
  nothing. \<open>m\<close> and \<open>m'\<close> are the contents of the databases before and after.
\<close>

definition shard_searched ::
    "search_env \<Rightarrow> ('s, 'm, 'src) memory_lib \<Rightarrow> pool_db \<Rightarrow> 'src RoutingSearchRequest \<Rightarrow> string \<Rightarrow>
     DeviceShard \<Rightarrow> ShardSearchExecution \<Rightarrow> 'm \<Rightarrow> 'm \<Rightarrow> bool" where
  "shard_searched env lib db request q shard e m m' \<longleftrightarrow>
     so_device_id (ex_outcome e) = sh_device_id shard \<and>
     so_shard_generation (ex_outcome e) = sh_generation shard \<and>
     so_latency_ms (ex_outcome e) = sx_latency_ms env (device_id_str (sh_device_id shard)) \<and>
     so_result_count (ex_outcome e) = length (ex_results e) \<and>
     (\<exists>opened m1.
        handle_answer (ml_open lib) (shard_relative_path (sh_device_id shard))
          (device_refused (sx_pool env) db (sh_device_id shard)) opened m m1 \<and>
        (case opened of
           Inl error \<Rightarrow> m' = m1 \<and> no_results e (display_mnemes_error (ml_display lib) error)
         | Inr h \<Rightarrow>
             (case ml_search_with_context lib h (rq_query request) (rq_top_k request)
                     (rq_namespaces request) (rq_source_types request)
                     (sx_receipt_id env @ '':'' @ device_id_str (sh_device_id shard)) q m1 of
                (Inl error, m2) \<Rightarrow> m' = m2 \<and> no_results e (ml_display lib error)
              | (Inr (found, child), m2) \<Rightarrow> m' = m2 \<and>
                  so_error (ex_outcome e) = None \<and>
                  so_child_search_receipt_id (ex_outcome e) = child \<and>
                  ex_results e = map (\<lambda>r. \<lparr> rr_result = r, rr_device_id = sh_device_id shard,
                    rr_shard_generation = sh_generation shard, rr_child_receipt_id = child \<rparr>) found)))"

text \<open>What the loops rely on: the invariant of the cache, and the catalog's view of the paths.\<close>

definition searching ::
    "search_env \<Rightarrow> ('s, 'm, 'src) memory_lib \<Rightarrow> pool_db \<Rightarrow> ('s, 'm, 'z) MnemesStore_scheme \<Rightarrow> bool" where
  "searching env lib db st \<longleftrightarrow>
     handles_ok lib st \<and>
     (\<forall>d. device_refused (sx_pool env) (st_pool st) d = device_refused (sx_pool env) db d)"

lemma observed_refused:
  "device_refused env (record_shard_search_observation lib d n db) d' = device_refused env db d'"
  by (auto simp: fun_eq_iff device_refused_def record_shard_search_observation_def row_by_update
      split: option.split)

lemma observe_handles: "handles_ok lib st \<Longrightarrow> handles_ok lib (observe_search lib' d n st)"
  by (rule handles_ok_pool)
    (auto simp: observe_search_def record_shard_search_observation_def sql_update_def get_store_def
      handles_ok_def)

lemma observe_searching: "searching env lib db st \<Longrightarrow> searching env lib db (observe_search lib' d n st)"
  unfolding searching_def
  by (simp add: observe_handles observed_refused) (simp add: observe_search_def observed_refused)

lemma observe_memory [simp]: "st_memory (observe_search lib d n st) = st_memory st"
  by (simp add: observe_search_def)

lemma search_one_shard_searched:
  assumes "search_one_shard env lib request q shard st = (e, st')" "searching env lib db st"
  shows "searching env lib db st' \<and>
     shard_searched env lib db request q shard e (st_memory st) (st_memory st')"
proof -
  let ?d = "sh_device_id shard"
  obtain opened st1 where dev: "device_memory (sx_pool env) lib ?d st = (opened, st1)" by fastforce
  have ok: "handles_ok lib st" "\<And>d. device_refused (sx_pool env) (st_pool st) d = device_refused (sx_pool env) db d"
    using assms(2) by (simp_all add: searching_def)
  note H = device_memory_handle [OF dev ok(1), unfolded ok(2)]
  have pool: "st_pool st1 = st_pool st" using device_memory_same [OF dev] by (simp add: same_tables_def)
  have st1: "searching env lib db (st1\<lparr>st_memory := m\<rparr>)" for m
    using H ok(2) by (simp add: searching_def pool)
  show ?thesis
  proof (cases opened)
    case (Inl error)
    then have "st' = observe_search lib ?d (sx_latency_ms env (device_id_str ?d)) st1"
      and "e = failed_execution lib shard (sx_latency_ms env (device_id_str ?d)) error"
      using assms(1) dev by (auto simp: search_one_shard_def Let_def)
    moreover have "searching env lib db st1" using st1 [of "st_memory st1"] by simp
    ultimately show ?thesis
      using H Inl observe_searching unfolding shard_searched_def
      by (intro conjI exI [of _ opened] exI [of _ "st_memory st1"])
        (auto simp: failed_execution_def no_results_def)
  next
    case (Inr h)
    obtain r m where search: "ml_search_with_context lib h (rq_query request) (rq_top_k request)
                 (rq_namespaces request) (rq_source_types request)
                 (sx_receipt_id env @ '':'' @ device_id_str ?d) q (st_memory st1) = (r, m)" by fastforce
    note unfolded = assms(1) [unfolded search_one_shard_def Let_def dev Inr prod.case sum.case search]
    have "st' = observe_search lib ?d (sx_latency_ms env (device_id_str ?d)) (st1\<lparr>st_memory := m\<rparr>)"
      using unfolded by (auto split: sum.splits prod.splits)
    then have st': "searching env lib db st'" "st_memory st' = m"
      using observe_searching [OF st1] by simp_all
    have "shard_searched env lib db request q shard e (st_memory st) m"
      using unfolded H Inr search unfolding shard_searched_def
      by (intro conjI exI [of _ opened] exI [of _ "st_memory st1"])
        (auto simp: no_results_def split: sum.splits prod.splits)
    with st' show ?thesis by simp
  qed
qed

lemma search_shard_batch_searched:
  "search_shard_batch env lib request q shards st = (es, st') \<Longrightarrow> searching env lib db st \<Longrightarrow>
     searching env lib db st' \<and>
     threaded (shard_searched env lib db request q) shards es (st_memory st) (st_memory st')"
proof (induction shards arbitrary: es st)
  case (Cons shard shards)
  obtain e st1 where one: "search_one_shard env lib request q shard st = (e, st1)" by fastforce
  obtain es1 where rest: "search_shard_batch env lib request q shards st1 = (es1, st')"
    and es: "es = e # es1"
    using Cons.prems(1) one by (auto simp: Let_def split: prod.splits)
  note one_ok = search_one_shard_searched [OF one Cons.prems(2)]
  with Cons.IH [OF rest] show ?case by (auto simp: es)
qed simp

text \<open>The shards of the first \<open>n\<close> ranked devices.\<close>

definition shards_of :: "DeviceShard list \<Rightarrow> RankedShard list \<Rightarrow> DeviceShard list" where
  "shards_of catalog ranked = map (\<lambda>r. the (by_device catalog (rk_device_id r))) ranked"

lemma shards_of_ranked:
  assumes "\<And>r. r \<in> set ranked \<Longrightarrow> \<exists>shard. by_device catalog (rk_device_id r) = Some shard"
  shows "map sh_device_id (shards_of catalog ranked) = map rk_device_id ranked"
    and "set (shards_of catalog ranked) \<subseteq> set catalog"
  using assms by_device_SomeD by (fastforce simp: shards_of_def)+

lemma expand_search_searched:
  "expand_search env lib request q (by_device catalog) rest all_results executions n st =
     (Inr (results, es, k), st') \<Longrightarrow>
   \<forall>r \<in> set rest. \<exists>shard. by_device catalog (rk_device_id r) = Some shard \<Longrightarrow>
   rest = drop n ranked \<Longrightarrow> n \<le> length ranked \<Longrightarrow> searching env lib db st \<Longrightarrow>
   threaded (shard_searched env lib db request q) (shards_of catalog (take n ranked)) executions m
     (st_memory st) \<Longrightarrow>
   searching env lib db st' \<and>
   threaded (shard_searched env lib db request q) (shards_of catalog (take k ranked)) es m (st_memory st')"
proof (induction rest arbitrary: all_results executions n st)
  case Nil
  then show ?case by auto
next
  case (Cons r rest)
  obtain shard where shard: "by_device catalog (rk_device_id r) = Some shard"
    using Cons.prems(2) by fastforce
  obtain e st1 where one: "search_one_shard env lib request q shard st = (e, st1)" by fastforce
  then have batch: "search_shard_batch env lib request q [shard] st = ([e], st1)" by simp
  note one_ok = search_one_shard_searched [OF one Cons.prems(5)]
  have step: "n < length ranked" "take (n + 1) ranked = take n ranked @ [r]"
    "drop (n + 1) ranked = rest"
    using take_Suc_nth [of n ranked r rest] Cons.prems(3) by auto
  have "shards_of catalog (take (n + 1) ranked) = shards_of catalog (take n ranked) @ [shard]"
    unfolding step(2) by (simp add: shards_of_def shard)
  then have chain: "threaded (shard_searched env lib db request q) (shards_of catalog (take (n + 1) ranked))
      (executions @ [e]) m (st_memory st1)"
    using Cons.prems(6) one_ok threaded_length [OF Cons.prems(6)] by (auto simp: threaded_append)
  have unfolded: "(case merge_routed_results (all_results @ ex_results e) (rq_top_k request) of
        Inl error \<Rightarrow> (Inl error, st1)
      | Inr merged \<Rightarrow>
          if rq_top_k request \<le> length merged
          then (Inr (all_results @ ex_results e, executions @ [e], n + 1), st1)
          else expand_search env lib request q (by_device catalog) rest (all_results @ ex_results e)
                 (executions @ [e]) (n + 1) st1) = (Inr (results, es, k), st')"
    using Cons.prems(1) unfolding expand_search.simps shard option.case batch Let_def prod.case
      list.sel .
  then consider "es = executions @ [e]" "k = n + 1" "st' = st1"
    | "expand_search env lib request q (by_device catalog) rest (all_results @ ex_results e)
         (executions @ [e]) (n + 1) st1 = (Inr (results, es, k), st')"
    by (auto split: sum.splits if_splits)
  then show ?case
  proof cases
    case 1
    with chain one_ok show ?thesis by simp
  next
    case 2
    from Cons.IH [OF this _ step(3) [symmetric] _ _ chain] Cons.prems(2) one_ok step(1) show ?thesis
      by simp
  qed
qed

lemma run_shards_searched:
  assumes "run_shards env lib request q catalog ranked st =
       (Inr (results, executions, n, fallback), st')"
    and "\<forall>r \<in> set ranked. \<exists>shard. by_device catalog (rk_device_id r) = Some shard"
    and "searching env lib db st"
  shows "searching env lib db st' \<and>
     threaded (shard_searched env lib db request q) (shards_of catalog (take n ranked)) executions
       (st_memory st) (st_memory st')"
proof -
  let ?b = "initial_budget request ranked"
  have b: "?b \<le> length ranked" by (auto simp: initial_budget_def split: option.splits)
  have initial: "List.map_filter (\<lambda>r. by_device catalog (rk_device_id r)) (take ?b ranked) =
      shards_of catalog (take ?b ranked)"
    unfolding shards_of_def by (rule map_filter_all) (use assms(2) in_set_takeD in fast)
  obtain es st1 where batch: "search_shard_batch env lib request q (shards_of catalog (take ?b ranked)) st =
      (es, st1)"
    by fastforce
  note chain = search_shard_batch_searched [OF batch assms(3)]
  have len: "length (shards_of catalog (take ?b ranked)) = ?b" using b by (simp add: shards_of_def)
  note unfolded = assms(1) [unfolded run_shards_def Let_def initial batch prod.case len]
  consider "executions = es" "n = ?b" "st' = st1"
    | "expand_search env lib request q (by_device catalog) (drop ?b ranked)
         (concat (map ex_results es)) es ?b st1 = (Inr (results, executions, n), st')"
    using unfolded by (auto simp: bindS_ok split: if_splits sum.splits)
  then show ?thesis
  proof cases
    case 1
    with chain show ?thesis by simp
  next
    case 2
    have "\<forall>r \<in> set (drop ?b ranked). \<exists>shard. by_device catalog (rk_device_id r) = Some shard"
      using assms(2) in_set_dropD by fast
    from expand_search_searched [OF 2 this refl b _ conjunct2 [OF chain]] chain show ?thesis by blast
  qed
qed

section \<open>What a search promises\<close>

lemma finish_okD:
  assumes "finish_routing_receipt env receipt0 st = (Inr receipt, st')"
  shows "(\<exists>digest. receipt = receipt0\<lparr>rc_receipt_digest := digest\<rparr>) \<and>
     validate_routing_receipt (sx_receipts env) (st_receipt_auth_key st) receipt = Inr () \<and>
     persist_routing_receipt (sx_receipts env) (st_receipt_auth_key st) (sx_pool env) receipt
       (st_pool st) (st_routing_receipts st) = Inr (st_routing_receipts st') \<and>
     st_receipt_auth_key st' = st_receipt_auth_key st \<and> st_memory st' = st_memory st \<and>
     handles_ok lib st' = handles_ok lib st"
  using assms
  by (auto simp: finish_routing_receipt_def Let_def handles_ok_def split: sum.splits)

text \<open>
  C14. A routed search answers with what the shards returned, and with an accepted, stored receipt
  that accounts for them. The eligible shards are the ranking of the catalog; the selected ones
  are its first shards, in order, and the others are skipped. Every selected shard was searched
  once, in that order: its outcome in the receipt and its results are what semantic-memory
  answered to this request from the database at that shard's path, or the error that it gave. The
  answer is the merge of all these results, and a shard is skipped only when the answer is already
  full, never by an exhaustive search. The cache stays sound for the next search.
\<close>

theorem routed_search_accounts_for_shards:
  assumes "routed_search env lib requester request st = (Inr (results, receipt), st')"
    and "handles_ok lib st"
  shows "\<exists>catalog selected executions. list_shards lib (st_pool st) = Inr catalog \<and>
     map rk_device_id (rank_shards (rq_query request) requester catalog) = rc_eligible_shards receipt \<and>
     rc_selected_shards receipt @ rc_skipped_shards receipt = rc_eligible_shards receipt \<and>
     set selected \<subseteq> set catalog \<and> map sh_device_id selected = rc_selected_shards receipt \<and>
     threaded (shard_searched env lib (st_pool st) request
         (sha256_hex (pe_crypto (sx_pool env)) (rq_query request)))
       selected executions (st_memory st) (st_memory st') \<and>
     rc_outcomes receipt = map ex_outcome executions \<and>
     merge_routed_results (concat (map ex_results executions)) (rq_top_k request) = Inr results \<and>
     rc_final_result_ids receipt = map result_id results \<and>
     (rc_skipped_shards receipt \<noteq> [] \<longrightarrow> \<not> rq_exhaustive request \<and> rq_top_k request \<le> length results) \<and>
     receipt_consistent receipt \<and>
     has_key rw_receipt_id (rc_receipt_id receipt) (st_routing_receipts st') \<and> handles_ok lib st'"
proof -
  obtain catalog all executions n fallback st1 receipt0 st2 where
    cat: "list_shards lib (st_pool st) = Inr catalog"
    and run: "run_shards env lib request (sha256_hex (pe_crypto (sx_pool env)) (rq_query request))
        catalog (rank_shards (rq_query request) requester catalog) st =
        (Inr (all, executions, n, fallback), st1)"
    and merge: "merge_routed_results all (rq_top_k request) = Inr results"
    and receipt0: "receipt0 = build_routing_receipt env requester request
        (sha256_hex (pe_crypto (sx_pool env)) (rq_query request))
        (rank_shards (rq_query request) requester catalog) executions n fallback results"
    and fin: "finish_routing_receipt env receipt0 st1 = (Inr receipt, st')"
    using assms
    by (auto simp: routed_search_def Let_def bindS_ok simp del: bindS_readS)
  let ?ranked = "rank_shards (rq_query request) requester catalog"
  have cov: "covers ?ranked all executions n" "initial_budget request ?ranked \<le> n"
    "n < length ?ranked \<Longrightarrow> \<exists>merged. merge_routed_results all (rq_top_k request) = Inr merged \<and>
       rq_top_k request \<le> length merged"
    using run_shards_covers [OF run] by_device_ranked by blast+
  note fin_ok = finish_okD [OF fin, where lib = lib]
  obtain digest where receipt: "receipt = receipt0\<lparr>rc_receipt_digest := digest\<rparr>" using fin_ok by blast
  have n: "n \<le> length ?ranked" using cov(1) by (simp add: covers_def)
  have selected: "rc_selected_shards receipt = map rk_device_id (take n ?ranked)"
    "rc_skipped_shards receipt = map rk_device_id (drop n ?ranked)"
    "rc_eligible_shards receipt = map rk_device_id ?ranked"
    "rc_final_result_ids receipt = map result_id results"
    by (simp_all add: receipt receipt0 build_routing_receipt_def Let_def)
  have all: "all = concat (map ex_results executions)"
    using cov(1) unfolding covers_def by blast
  have found: "\<forall>r \<in> set ?ranked. \<exists>shard. by_device catalog (rk_device_id r) = Some shard"
    using by_device_ranked by blast
  have start: "searching env lib (st_pool st) st" using assms(2) by (simp add: searching_def)
  note searched = run_shards_searched [OF run found start]
  let ?selected = "shards_of catalog (take n ?ranked)"
  have of_catalog: "map sh_device_id ?selected = rc_selected_shards receipt"
    "set ?selected \<subseteq> set catalog"
    using shards_of_ranked [of "take n ?ranked" catalog] found
    by (simp_all only: selected(1)) (blast dest: in_set_takeD)+
  have outcomes: "rc_outcomes receipt = map ex_outcome executions"
    by (simp add: receipt receipt0 build_routing_receipt_def Let_def)
  have skip: "\<not> rq_exhaustive request \<and> rq_top_k request \<le> length results"
    if "rc_skipped_shards receipt \<noteq> []"
  proof -
    have "n < length ?ranked" using that selected(2) by auto
    then show ?thesis using cov merge by (auto simp: initial_budget_def)
  qed
  have "receipt_consistent receipt" using fin_ok validate_routing_receipt_ok by blast
  moreover have "has_key rw_receipt_id (rc_receipt_id receipt) (st_routing_receipts st')"
    using fin_ok by (auto simp: persist_routing_receipt_def bindR_eq_Inr sql_insert_ok has_key_iff)
  moreover have "rc_selected_shards receipt @ rc_skipped_shards receipt = rc_eligible_shards receipt"
    unfolding selected map_append [symmetric] append_take_drop_id ..
  ultimately show ?thesis
    using cat merge [unfolded all] skip selected(3,4) of_catalog outcomes searched fin_ok
    by (intro exI [of _ catalog] exI [of _ ?selected] exI [of _ executions])
      (simp add: searching_def)
qed

section \<open>Why a search fails\<close>

lemma check_conflicts_error:
  "check_conflicts seen rs = Inl e \<Longrightarrow> \<exists>item. e = ConflictingShardItem item"
  by (induction seen rs rule: check_conflicts.induct) (auto simp: Let_def split: option.splits if_splits)

lemma merge_error: "merge_routed_results rs k = Inl e \<Longrightarrow> \<exists>item. e = ConflictingShardItem item"
  by (auto simp: merge_routed_results_def Let_def bindR_eq_Inl dest: check_conflicts_error)

lemma expand_search_error:
  "expand_search env lib request q shards rest all_results executions n st = (Inl e, st') \<Longrightarrow>
     \<exists>item. e = ConflictingShardItem item"
  by (induction rest arbitrary: all_results executions n st)
    (auto simp: Let_def split: option.splits prod.splits sum.splits if_splits dest: merge_error)

lemma run_shards_error:
  "run_shards env lib request q catalog ranked st = (Inl e, st') \<Longrightarrow>
     \<exists>item. e = ConflictingShardItem item"
  by (auto simp: run_shards_def Let_def bindS_def split: prod.splits sum.splits if_splits
      dest: merge_error expand_search_error)

lemma catalog_devices:
  assumes "distinct (map shr_device_id (db_shards db))" "list_shards lib db = Inr catalog"
  shows "distinct (map sh_device_id catalog)"
proof -
  let ?rows = "sort_key (\<lambda>s. device_id_str (shr_device_id s)) (db_shards db)"
  have "distinct (map shr_device_id ?rows)"
    using assms(1) by (metis mset_map mset_sort mset_eq_imp_distinct_iff)
  moreover have "distinct (map (\<lambda>x. shr_device_id (fst x))
      (List.map_filter (\<lambda>s. map_option (\<lambda>d. (s, dev_status d)) (get_device (shr_device_id s) db)) rows))"
    if "distinct (map shr_device_id rows)" for rows
    using that
    by (induction rows) (auto simp: List.map_filter_simps set_map_filter_iff split: option.splits)
  ultimately have "distinct (map (\<lambda>x. shr_device_id (fst x)) (catalog_rows db))"
    unfolding catalog_rows_def by blast
  moreover have "sh_device_id shard = shr_device_id (fst x)" if "shard_of_row lib x = Inr shard" for x shard
    using that by (auto simp: shard_of_row_def bindR_eq_Inr split: prod.splits)
  note same = this
  have "list_all2 (\<lambda>x shard. shard_of_row lib x = Inr shard) (catalog_rows db) catalog"
    using assms(2) by (simp add: list_shards_def collect_results_ok)
  then have "map sh_device_id catalog = map (\<lambda>x. shr_device_id (fst x)) (catalog_rows db)"
    by (induction rule: list_all2_induct) (auto simp: same)
  ultimately show ?thesis by simp
qed

lemma ranked_devices:
  assumes "distinct (map sh_device_id catalog)"
  shows "distinct (map rk_device_id (rank_shards query requester catalog))"
proof -
  have "mset (map rk_device_id (rank_shards query requester catalog)) =
      mset (map rk_device_id (map (score_shard query requester) (filter eligible catalog)))"
    by (metis mset_map mset_sort rank_shards_def)
  also have "map rk_device_id (map (score_shard query requester) (filter eligible catalog)) =
      map sh_device_id (filter eligible catalog)"
    by (simp add: score_shard_def Let_def)
  finally have "mset (map rk_device_id (rank_shards query requester catalog)) =
      mset (map sh_device_id (filter eligible catalog))" .
  then show ?thesis
    using distinct_map_filter [OF assms] mset_eq_imp_distinct_iff by blast
qed

text \<open>The receipt that a search builds passes every check on its contents.\<close>

lemma built_receipt_consistent:
  assumes "covers ranked all executions n" "distinct (map rk_device_id ranked)"
    and "merge_routed_results all (rq_top_k request) = Inr results"
    and "\<And>m. length (sha256 (pe_crypto (sx_pool env)) m) = 32"
  shows "receipt_consistent (build_routing_receipt env requester request
     (sha256_hex (pe_crypto (sx_pool env)) v) ranked executions n fallback results)"
proof -
  have digests: "is_digest (sha256_hex (pe_crypto (sx_pool env)) t)" for t
    unfolding sha256_hex_def by (rule is_digest_hex) (rule assms(4))
  have ids: "distinct (map result_id results)"
    using assms(3) distinct_first_occurrences [of "{}" "sort_key merge_key all"]
    by (auto simp: merge_routed_results_eq split: if_splits) (metis distinct_take take_map)
  have "mset (map rk_device_id ranked) =
      mset (map rk_device_id (take n ranked)) + mset (map rk_device_id (drop n ranked))"
    by (metis append_take_drop_id map_append mset_append)
  moreover have "map (\<lambda>e. so_device_id (ex_outcome e)) executions = map rk_device_id (take n ranked)"
    using assms(1) by (simp add: covers_def)
  ultimately show ?thesis
    using ids assms(2) digests
    by (simp add: receipt_consistent_def build_routing_receipt_def Let_def comp_def)
qed

lemma consistent_with_digest:
  "receipt_consistent (r\<lparr>rc_receipt_digest := d\<rparr>) = receipt_consistent r"
  "routing_receipt_digest l k (r\<lparr>rc_receipt_digest := d\<rparr>) = routing_receipt_digest l k r"
  by (simp_all add: receipt_consistent_def routing_receipt_digest_def routing_material_def)

text \<open>The searches touch the catalog's counters, the cache and the shards' databases only.\<close>

lemma search_one_shard_frame:
  "search_one_shard env lib request q shard st = (e, st') \<Longrightarrow>
     st_receipt_auth_key st' = st_receipt_auth_key st"
  by (auto simp: search_one_shard_def observe_search_def Let_def split: prod.splits sum.splits
      dest: device_memory_frame)

lemma search_shard_batch_frame:
  "search_shard_batch env lib request q shards st = (es, st') \<Longrightarrow>
     st_receipt_auth_key st' = st_receipt_auth_key st"
  by (induction shards arbitrary: es st)
    (auto simp: Let_def split: prod.splits dest!: search_one_shard_frame)

lemma expand_search_frame:
  "expand_search env lib request q shards rest all_results executions n st = (r, st') \<Longrightarrow>
     st_receipt_auth_key st' = st_receipt_auth_key st"
proof (induction rest arbitrary: all_results executions n st)
  case (Cons r rest)
  then show ?case
    by (auto simp: Let_def split: option.splits prod.splits sum.splits if_splits
        dest!: search_one_shard_frame)
qed simp

lemma run_shards_frame:
  "run_shards env lib request q catalog ranked st = (r, st') \<Longrightarrow>
     st_receipt_auth_key st' = st_receipt_auth_key st"
  by (auto simp: run_shards_def Let_def bindS_def readS_def split: prod.splits sum.splits if_splits
      dest!: search_shard_batch_frame expand_search_frame)

lemma finish_error:
  assumes "finish_routing_receipt env receipt0 st = (Inl e, st')" "receipt_consistent receipt0"
    and "\<forall>t mac. rl_hmac (sx_receipts env) (st_receipt_auth_key st) t = Inr mac \<longrightarrow> length mac = 32"
  shows "\<exists>receipt. receipt_consistent receipt \<and>
     (routing_receipt_digest (sx_receipts env) (st_receipt_auth_key st) receipt = Inl e \<or>
      validate_routing_receipt (sx_receipts env) (st_receipt_auth_key st) receipt = Inr () \<and>
      persist_routing_receipt (sx_receipts env) (st_receipt_auth_key st) (sx_pool env) receipt
        (st_pool st) (st_routing_receipts st) = Inl e)"
proof (cases "routing_receipt_digest (sx_receipts env) (st_receipt_auth_key st) receipt0")
  case (Inl e')
  with assms(1,2) show ?thesis by (auto simp: finish_routing_receipt_def)
next
  case (Inr digest)
  let ?receipt = "receipt0\<lparr>rc_receipt_digest := digest\<rparr>"
  have "is_digest digest"
    using Inr assms(3) by (auto simp: routing_receipt_digest_def bindR_eq_Inr map_err_eq_Inr
        intro!: is_digest_hex)
  then have ok: "validate_routing_receipt (sx_receipts env) (st_receipt_auth_key st) ?receipt = Inr ()"
    using Inr assms(2) by (simp add: validate_routing_receipt_ok consistent_with_digest)
  then show ?thesis
    using assms(1,2) Inr
    by (intro exI [of _ ?receipt])
      (auto simp: finish_routing_receipt_def Let_def consistent_with_digest split: sum.splits)
qed

text \<open>
  C15. A routed search fails for one of these reasons only: an unknown requester, a catalog row
  that cannot be read, two shards with different content under one item id, or a receipt that
  cannot be serialised, authenticated or inserted. A failing shard never fails the search, and
  the search never refuses its own receipt.
\<close>

theorem routed_search_failures:
  fixes env :: search_env and st :: "('s, 'm, 'z) MnemesStore_scheme"
  defines "key \<equiv> st_receipt_auth_key st"
  assumes "distinct (map shr_device_id (db_shards (st_pool st)))"
    and "crypto_laws (pe_crypto (sx_pool env))"
    and "\<forall>t mac. rl_hmac (sx_receipts env) key t = Inr mac \<longrightarrow> length mac = 32"
    and "routed_search env lib requester request st = (Inl e, st')"
  shows "e = DeviceNotFound (device_id_str requester) \<and> get_device requester (st_pool st) = None \<or>
     list_shards lib (st_pool st) = Inl e \<or>
     (\<exists>item. e = ConflictingShardItem item) \<or>
     (\<exists>receipt db rows. receipt_consistent receipt \<and>
        (routing_receipt_digest (sx_receipts env) key receipt = Inl e \<or>
         validate_routing_receipt (sx_receipts env) key receipt = Inr () \<and>
         persist_routing_receipt (sx_receipts env) key (sx_pool env) receipt db rows = Inl e))"
proof (cases "get_device requester (st_pool st)")
  case None
  with assms(5) show ?thesis by (simp add: routed_search_def)
next
  case (Some device)
  show ?thesis
  proof (cases "list_shards lib (st_pool st)")
    case (Inl e')
    with assms(5) Some show ?thesis by (simp add: routed_search_def)
  next
    case (Inr catalog)
    let ?q = "sha256_hex (pe_crypto (sx_pool env)) (rq_query request)"
    let ?ranked = "rank_shards (rq_query request) requester catalog"
    obtain r st1 where run: "run_shards env lib request ?q catalog ?ranked st = (r, st1)" by fastforce
    show ?thesis
    proof (cases r)
      case (Inl e')
      then have "e' = e" using assms(5) Some Inr run
        by (simp add: routed_search_def Let_def) (simp add: bindS_def)
      with run_shards_error run Inl show ?thesis by blast
    next
      case (Inr x)
      obtain all executions n fallback where x: "x = (all, executions, n, fallback)" by (cases x)
      have cov: "covers ?ranked all executions n"
        using run_shards_covers [OF run [unfolded Inr x]] by_device_ranked by blast
      have rest: "bindS (readS (\<lambda>_. merge_routed_results all (rq_top_k request))) (\<lambda>results.
        bindS (finish_routing_receipt env (build_routing_receipt env requester request
          ?q ?ranked executions n fallback results)) (\<lambda>receipt.
        readS (\<lambda>_. Inr (results, receipt)))) st1 = (Inl e, st')"
        using assms(5) Some \<open>list_shards lib (st_pool st) = Inr catalog\<close> run Inr x
        by (simp add: routed_search_def Let_def) (simp add: bindS_def readS_def)
      show ?thesis
      proof (cases "merge_routed_results all (rq_top_k request)")
        case (Inl e')
        with rest have "e' = e" by simp
        with merge_error Inl show ?thesis by blast
      next
        case merged: (Inr results)
        let ?receipt = "build_routing_receipt env requester request ?q ?ranked executions n fallback results"
        have fin: "finish_routing_receipt env ?receipt st1 = (Inl e, st')"
          using rest merged by (auto simp: bindS_def readS_def split: prod.splits sum.splits)
        have con: "receipt_consistent ?receipt"
        proof (rule built_receipt_consistent [OF cov _ merged])
          show "distinct (map rk_device_id ?ranked)"
            using ranked_devices catalog_devices assms(2) \<open>list_shards lib (st_pool st) = Inr catalog\<close>
            by blast
          show "length (sha256 (pe_crypto (sx_pool env)) m) = 32" for m
            using assms(3) by (simp add: crypto_laws_def)
        qed
        have "st_receipt_auth_key st1 = key" using run_shards_frame [OF run] by (simp add: key_def)
        with finish_error [OF fin con] assms(4) show ?thesis by auto
      qed
    qed
  qed
qed

section \<open>A search\<close>

definition example_search_env :: search_env where
  "example_search_env =
     \<lparr> sx_pool = example_pool_env, sx_receipts = toy_receipt_lib, sx_receipt_id = ''r1'',
       sx_latency_ms = (\<lambda>_. 3) \<rparr>"

definition example_request :: "unit RoutingSearchRequest" where
  "example_request = routing_request_new ''q'' 1"

lemma example_catalog:
  "list_shards toy_memory (st_pool example_store_state) =
     Inr [(device_shard_active (DeviceId ''d'') (shard_relative_path (DeviceId ''d'')))]"
  by (simp add: list_shards_def catalog_rows_def example_store_state_def example_registry_def example_device_def
      get_device_def row_by_def device_new_def example_shard_row_def shard_of_row_def
      List.map_filter_simps column_u64_def u64_try_from_i64_def toy_memory_def device_shard_active_def)

theorem routed_search_failures_witness:
  "\<exists>e st'. routed_search example_search_env toy_memory (DeviceId ''x'') example_request
       example_store_state = (Inl e, st') \<and>
     (e = DeviceNotFound ''x'' \<and> get_device (DeviceId ''x'') (st_pool example_store_state) = None \<or>
      (\<exists>item. e = ConflictingShardItem item) \<or>
      (\<exists>receipt db rows key. receipt_consistent receipt \<and>
        (routing_receipt_digest toy_receipt_lib key receipt = Inl e \<or>
         persist_routing_receipt toy_receipt_lib key example_pool_env receipt db rows = Inl e)))"
proof -
  obtain e st' where s: "routed_search example_search_env toy_memory (DeviceId ''x'') example_request
       example_store_state = (Inl e, st')"
    by (simp add: routed_search_def get_device_def example_store_state_def example_registry_def example_device_def
        device_new_def row_by_def)
  have env: "sx_receipts example_search_env = toy_receipt_lib"
    "sx_pool example_search_env = example_pool_env"
    by (simp_all add: example_search_env_def)
  have "distinct (map shr_device_id (db_shards (st_pool example_store_state)))"
    by (simp add: example_store_state_def)
  moreover have "crypto_laws (pe_crypto (sx_pool example_search_env))"
    by (simp add: env example_pool_env_def toy_crypto_laws)
  moreover have "\<forall>t mac. rl_hmac (sx_receipts example_search_env) (st_receipt_auth_key example_store_state) t =
      Inr mac \<longrightarrow> length mac = 32"
    by (auto simp: env toy_receipt_lib_def)
  ultimately show ?thesis
    using routed_search_failures [OF _ _ _ s] s unfolding env example_catalog by auto
qed

lemma example_search:
  "\<exists>results receipt st'. routed_search example_search_env toy_memory (DeviceId ''d'') example_request
       example_store_state = (Inr (results, receipt), st') \<and> length results = 1"
proof -
  let ?d = "device_shard_active (DeviceId ''d'') (shard_relative_path (DeviceId ''d''))"
  let ?r = "\<lparr> rk_device_id = DeviceId ''d'', rk_score = 1 \<rparr>"
  let ?q = "sha256_hex toy_crypto ''q''"
  have rank: "rank_shards ''q'' (DeviceId ''d'') [?d] = [?r]"
    by (simp add: rank_shards_def score_shard_def eligible_def device_shard_active_def Let_def
        catalog_terms_def routing_tokens_def u64_saturating_add_def u64_saturating_mul_def)
  let ?res = "\<lparr> rr_result = \<lparr> se_score = 1, se_content = ''x'', se_result_id = ''f1'' \<rparr>,
      rr_device_id = DeviceId ''d'', rr_shard_generation = 1, rr_child_receipt_id = None \<rparr>"
  let ?exec = "\<lparr> ex_outcome = example_outcome, ex_results = [?res] \<rparr>"
  obtain st1 where one: "search_one_shard example_search_env toy_memory example_request ?q ?d
      example_store_state = (?exec, st1)"
    and st1: "st_receipt_auth_key st1 = [7]" "st_routing_receipts st1 = []"
      "db_devices (st_pool st1) = db_devices example_registry"
    by (simp add: search_one_shard_def device_memory_def example_store_state_def example_shard_row_def
        row_by_def device_shard_active_def cache_get_def get_key_def cache_new_def bindS_def readS_def call_memory_def
        put_handle_def toy_memory_def example_search_env_def example_pool_env_def create_shard_dir_def
        example_outcome_def observe_search_def record_shard_search_observation_def Let_def)
  have run: "run_shards example_search_env toy_memory example_request ?q [?d] [?r] example_store_state =
      (Inr ([?res], [?exec], 1, None), st1)"
    by (simp add: run_shards_def one by_device_def initial_budget_def example_request_def
        routing_request_new_def List.map_filter_simps Let_def)
      (use one in \<open>simp add: device_shard_active_def example_request_def routing_request_new_def\<close>)
  have merge: "merge_routed_results [?res] 1 = Inr [?res]"
    by (simp add: merge_routed_results_def result_id_def)
  let ?b = "build_routing_receipt example_search_env (DeviceId ''d'') example_request ?q [?r] [?exec] 1
      None [?res]"
  let ?digest = "hex_bytes (toy_hash (7 # as_bytes ''m''))"
  have lib: "sx_receipts example_search_env = toy_receipt_lib"
    "sx_pool example_search_env = example_pool_env" "pe_crypto example_pool_env = toy_crypto"
    by (simp_all add: example_search_env_def example_pool_env_def)
  have digest: "routing_receipt_digest toy_receipt_lib [7] r = Inr ?digest" for r
    by (simp add: routing_receipt_digest_def toy_receipt_lib_def)
  have "covers [?r] [?res] [?exec] 1" by (simp add: covers_def example_outcome_def)
  then have "receipt_consistent ?b"
    by (rule built_receipt_consistent [where v = "''q''" and env = example_search_env, unfolded lib])
      (use merge toy_crypto_laws in \<open>auto simp: crypto_laws_def example_request_def routing_request_new_def\<close>)
  then have valid: "validate_routing_receipt toy_receipt_lib [7] (?b\<lparr>rc_receipt_digest := ?digest\<rparr>) = Inr ()"
    by (simp add: validate_routing_receipt_ok consistent_with_digest digest is_digest_hex)
  have "is_ok (persist_routing_receipt toy_receipt_lib [7] example_pool_env
      (?b\<lparr>rc_receipt_digest := ?digest\<rparr>) (st_pool st1) [])"
    unfolding persist_routing_receipt_def valid bindR_simps
    by (simp add: build_routing_receipt_def Let_def toy_receipt_lib_def as_catalog_def sql_insert_def
        has_key_def st1 example_registry_def example_device_def device_new_def i64_max_def initial_budget_def
        example_request_def routing_request_new_def result_id_def sha256_hex_def lib toy_crypto_def)
  then have "\<exists>receipt st'. finish_routing_receipt example_search_env ?b st1 = (Inr receipt, st')"
    by (auto simp: finish_routing_receipt_def lib st1 digest valid [simplified] Let_def is_ok_iff)
  then obtain receipt st' where fin: "finish_routing_receipt example_search_env ?b st1 = (Inr receipt, st')"
    by blast
  have "get_device (DeviceId ''d'') (st_pool example_store_state) \<noteq> None"
    by (simp add: get_device_def example_store_state_def example_registry_def example_device_def device_new_def row_by_def)
  moreover have "rq_query example_request = ''q''" "rq_top_k example_request = 1"
    by (simp_all add: example_request_def routing_request_new_def)
  ultimately show ?thesis
    using fin run rank merge
    by (auto simp: routed_search_def Let_def bindS_ok example_catalog lib simp del: bindS_readS)
qed

lemma example_handles: "handles_ok (lib :: (string, unit, 'src) memory_lib) example_store_state"
  by (rule empty_cache_handles [where n = 2])
    (simp_all add: example_store_state_def example_shard_row_def profile_key_def)

theorem routed_search_accounts_for_shards_witness:
  "\<exists>results receipt st' selected executions. routed_search example_search_env toy_memory (DeviceId ''d'')
       example_request example_store_state = (Inr (results, receipt), st') \<and>
     length results = 1 \<and> map sh_device_id selected = rc_selected_shards receipt \<and>
     threaded (shard_searched example_search_env toy_memory (st_pool example_store_state) example_request
       (sha256_hex toy_crypto ''q'')) selected executions () () \<and>
     merge_routed_results (concat (map ex_results executions)) 1 = Inr results \<and>
     receipt_consistent receipt \<and> rc_final_result_ids receipt = map result_id results"
proof -
  obtain results receipt st' where run: "routed_search example_search_env toy_memory (DeviceId ''d'')
      example_request example_store_state = (Inr (results, receipt), st')" and len: "length results = 1"
    using example_search by blast
  have fields: "rq_top_k example_request = 1" "rq_query example_request = ''q''"
    "pe_crypto (sx_pool example_search_env) = toy_crypto"
    "st_memory example_store_state = ()" "st_memory st' = ()"
    by (simp_all add: example_request_def routing_request_new_def example_search_env_def
        example_pool_env_def example_store_state_def)
  from routed_search_accounts_for_shards [OF run example_handles, unfolded fields]
  obtain selected executions where "map sh_device_id selected = rc_selected_shards receipt"
    "threaded (shard_searched example_search_env toy_memory (st_pool example_store_state) example_request
       (sha256_hex toy_crypto ''q'')) selected executions () ()"
    "merge_routed_results (concat (map ex_results executions)) 1 = Inr results"
    "receipt_consistent receipt" "rc_final_result_ids receipt = map result_id results"
    by blast
  with run len show ?thesis by blast
qed

end
