(* ===== verification/Profile_Search.thy ===== *)
theory Profile_Search
  imports Routed_Search
begin

text \<open>
  The routed search of an actor over the profile stores that its current authorization snapshot
  admits (\<open>routed_search_for_profile\<close> in \<open>src/store.rs\<close>). The caller names no profile: the subject
  is resolved from the actor's binding.
\<close>

section \<open>The search\<close>

record ProfileRoutedSearchResult =
  pq_result :: SearchResult
  pq_store_id :: string
  pq_profile_id :: MemoryProfileId
  pq_owner_device_id :: DeviceId
  pq_namespace :: string
  pq_child_search_receipt_id :: "string option"

definition failed_store_outcome :: "AuthorizedMemoryStore \<Rightarrow> u64 \<Rightarrow> string \<Rightarrow> ProfileStoreSearchOutcome" where
  "failed_store_outcome authorized latency_ms error =
     \<lparr> po_store_id = as_store_id authorized, po_profile_id = as_profile_id authorized,
       po_latency_ms = latency_ms, po_result_count = 0, po_child_search_receipt_id = None,
       po_error = Some error \<rparr>"

text \<open>The body of the loop over the authorized stores.\<close>

definition search_profile_store ::
    "search_env \<Rightarrow> ('s, 'm, 'src) memory_lib \<Rightarrow> 'src RoutingSearchRequest \<Rightarrow> AuthorizedMemoryStore \<Rightarrow>
     ('s, 'm, 'z) MnemesStore_scheme \<Rightarrow>
     (ProfileStoreSearchOutcome \<times> ProfileRoutedSearchResult list) \<times> ('s, 'm, 'z) MnemesStore_scheme" where
  "search_profile_store env lib request authorized st =
     (let latency_ms = sx_latency_ms env (as_store_id authorized) in
      case profile_store_memory lib (as_store_id authorized) st of
        (Inl error, st) \<Rightarrow>
          ((failed_store_outcome authorized latency_ms
              (display_mnemes_error (ml_display lib) error), []), st)
      | (Inr memory, st) \<Rightarrow>
          (let (result, m) = ml_search lib memory (rq_query request) (rq_top_k request)
                 (rq_namespaces request) (rq_source_types request) (st_memory st);
               st = st\<lparr>st_memory := m\<rparr>
           in case result of
                Inl error \<Rightarrow> ((failed_store_outcome authorized latency_ms (ml_display lib error), []), st)
              | Inr store_results \<Rightarrow>
                  ((\<lparr> po_store_id = as_store_id authorized, po_profile_id = as_profile_id authorized,
                      po_latency_ms = latency_ms, po_result_count = length store_results,
                      po_child_search_receipt_id = None, po_error = None \<rparr>,
                    map (\<lambda>result. \<lparr> pq_result = result, pq_store_id = as_store_id authorized,
                      pq_profile_id = as_profile_id authorized,
                      pq_owner_device_id = as_owner_device_id authorized,
                      pq_namespace = as_namespace authorized,
                      pq_child_search_receipt_id = None \<rparr>) store_results), st)))"

fun search_profile_stores ::
    "search_env \<Rightarrow> ('s, 'm, 'src) memory_lib \<Rightarrow> 'src RoutingSearchRequest \<Rightarrow>
     AuthorizedMemoryStore list \<Rightarrow> ProfileStoreSearchOutcome list \<Rightarrow>
     ProfileRoutedSearchResult list \<Rightarrow> ('s, 'm, 'z) MnemesStore_scheme \<Rightarrow>
     (ProfileStoreSearchOutcome list \<times> ProfileRoutedSearchResult list) \<times>
     ('s, 'm, 'z) MnemesStore_scheme" where
  "search_profile_stores env lib request [] outcomes results st = ((outcomes, results), st)"
| "search_profile_stores env lib request (authorized # rest) outcomes results st =
     (let ((outcome, store_results), st) = search_profile_store env lib request authorized st
      in search_profile_stores env lib request rest (outcomes @ [outcome])
           (results @ store_results) st)"

definition pq_id :: "ProfileRoutedSearchResult \<Rightarrow> string" where
  "pq_id r = se_result_id (pq_result r)"

definition profile_merge_key :: "ProfileRoutedSearchResult \<Rightarrow> int \<times> string \<times> string" where
  "profile_merge_key r = (- f64_total_key (se_score (pq_result r)), pq_id r, pq_store_id r)"

text \<open>The merging loop with its two hash tables.\<close>

fun merge_profile_loop ::
    "(string \<rightharpoonup> string) \<Rightarrow> string set \<Rightarrow> ProfileRoutedSearchResult list \<Rightarrow>
     ProfileRoutedSearchResult list \<Rightarrow> MnemesError + ProfileRoutedSearchResult list" where
  "merge_profile_loop content_by_id emitted merged [] = Inr merged"
| "merge_profile_loop content_by_id emitted merged (result # results) =
     (let item_id = pq_id result; content = se_content (pq_result result) in
      bindR (case content_by_id item_id of
               Some existing \<Rightarrow>
                 bindR (fail_if (existing \<noteq> content) (ConflictingShardItem item_id)) (\<lambda>_.
                 Inr content_by_id)
             | None \<Rightarrow> Inr (content_by_id(item_id \<mapsto> content))) (\<lambda>content_by_id.
      if item_id \<in> emitted then merge_profile_loop content_by_id emitted merged results
      else merge_profile_loop content_by_id (insert item_id emitted) (merged @ [result]) results))"

definition merge_profile_results ::
    "ProfileRoutedSearchResult list \<Rightarrow> usize \<Rightarrow> MnemesError + ProfileRoutedSearchResult list" where
  "merge_profile_results results top_k =
     bindR (merge_profile_loop Map.empty {} [] (sort_key profile_merge_key results)) (\<lambda>merged.
     Inr (take top_k merged))"

definition build_profile_receipt ::
    "search_env \<Rightarrow> ActorId \<Rightarrow> AuthorizationSnapshot \<Rightarrow> string \<Rightarrow> ProfileStoreSearchOutcome list \<Rightarrow>
     ProfileRoutedSearchResult list \<Rightarrow> ProfileRoutingReceipt" where
  "build_profile_receipt env actor_id snapshot query_sha256 outcomes merged =
     \<lparr> pr_receipt_id = sx_receipt_id env, pr_actor_id = actor_id,
       pr_subject_profile_id = sn_subject_profile_id snapshot,
       pr_authorization_snapshot_digest = sn_snapshot_digest snapshot,
       pr_authorized_stores = sn_authorized_stores snapshot,
       pr_selected_stores = map as_store_id (sn_authorized_stores snapshot),
       pr_skipped_stores = [], pr_outcomes = outcomes,
       pr_complete = list_all (\<lambda>v. po_error v = None) outcomes,
       pr_final_result_ids = map pq_id merged, pr_query_sha256 = query_sha256,
       pr_receipt_digest = [], pr_recorded_at = pe_now (sx_pool env) \<rparr>"

definition finish_profile_receipt ::
    "search_env \<Rightarrow> ProfileRoutingReceipt \<Rightarrow> ('s, 'm, 'z) MnemesStore_scheme \<Rightarrow>
     (MnemesError + ProfileRoutingReceipt) \<times> ('s, 'm, 'z) MnemesStore_scheme" where
  "finish_profile_receipt env receipt =
     bindS (readS (\<lambda>st.
       profile_routing_receipt_digest (sx_receipts env) (st_receipt_auth_key st) receipt)) (\<lambda>digest.
     let receipt = receipt\<lparr>pr_receipt_digest := digest\<rparr> in
     bindS (readS (\<lambda>st.
       validate_profile_routing_receipt (sx_receipts env) (st_receipt_auth_key st) receipt)) (\<lambda>_. \<lambda>st.
     case persist_profile_routing_receipt (sx_receipts env) (st_receipt_auth_key st) (sx_pool env)
            receipt (st_pool st) (st_profile_receipts st) of
       Inl e \<Rightarrow> (Inl e, st)
     | Inr rows \<Rightarrow> (Inr receipt, st\<lparr>st_profile_receipts := rows\<rparr>)))"

text \<open>\<open>snapshot_id\<close> is the fresh id that \<open>AuthorizationSnapshot::new\<close> draws.\<close>

definition routed_search_for_profile ::
    "search_env \<Rightarrow> ('s, 'm, 'src) memory_lib \<Rightarrow> string \<Rightarrow> ActorId \<Rightarrow> 'src RoutingSearchRequest \<Rightarrow> u64 \<Rightarrow>
     ('s, 'm, 'z) MnemesStore_scheme \<Rightarrow>
     (MnemesError + ProfileRoutedSearchResult list \<times> ProfileRoutingReceipt) \<times>
     ('s, 'm, 'z) MnemesStore_scheme" where
  "routed_search_for_profile env lib snapshot_id actor_id request authorization_time =
     bindS (readS (\<lambda>st. build_authorization_snapshot (pe_crypto (sx_pool env)) snapshot_id actor_id
       Search (rq_namespaces request) authorization_time (st_pool st))) (\<lambda>snapshot.
     bindS (\<lambda>st. let ((outcomes, results), st) =
                search_profile_stores env lib request (sn_authorized_stores snapshot) [] [] st
              in (Inr (outcomes, results), st)) (\<lambda>(outcomes, results).
     bindS (readS (\<lambda>_. merge_profile_results results (rq_top_k request))) (\<lambda>merged.
     bindS (finish_profile_receipt env (build_profile_receipt env actor_id snapshot
       (sha256_hex (pe_crypto (sx_pool env)) (rq_query request)) outcomes merged)) (\<lambda>receipt.
     readS (\<lambda>_. Inr (merged, receipt))))))"

section \<open>Results\<close>

definition result_of :: "AuthorizedMemoryStore \<Rightarrow> ProfileRoutedSearchResult \<Rightarrow> bool" where
  "result_of a r \<longleftrightarrow> pq_store_id r = as_store_id a \<and> pq_profile_id r = as_profile_id a \<and>
     pq_owner_device_id r = as_owner_device_id a \<and> pq_namespace r = as_namespace a"

lemma search_profile_stores_results:
  "search_profile_stores env lib request stores outcomes results st = ((outcomes', results'), st') \<Longrightarrow>
     (\<exists>more_outcomes more_results. outcomes' = outcomes @ more_outcomes \<and>
        results' = results @ more_results \<and>
        map po_store_id more_outcomes = map as_store_id stores \<and>
        (\<forall>r \<in> set more_results. \<exists>a \<in> set stores. result_of a r))"
proof (induction stores arbitrary: outcomes results st)
  case (Cons a stores)
  obtain outcome rs st1 where one: "search_profile_store env lib request a st = ((outcome, rs), st1)"
    by (metis prod.exhaust)
  then have "po_store_id outcome = as_store_id a" "\<forall>r \<in> set rs. result_of a r"
    by (auto simp: search_profile_store_def failed_store_outcome_def result_of_def Let_def
        split: prod.splits sum.splits)
  moreover have rest: "search_profile_stores env lib request stores (outcomes @ [outcome]) (results @ rs) st1 =
      ((outcomes', results'), st')"
    using Cons.prems one by simp
  ultimately show ?case using Cons.IH [OF rest] by auto
qed simp

lemma merge_profile_loop_ok:
  "merge_profile_loop contents emitted merged rs = Inr out \<Longrightarrow>
   distinct (map pq_id merged) \<Longrightarrow> set (map pq_id merged) = emitted \<Longrightarrow>
     distinct (map pq_id out) \<and> set out \<subseteq> set merged \<union> set rs \<and>
     set (map pq_id out) = emitted \<union> set (map pq_id rs)"
proof (induction contents emitted merged rs rule: merge_profile_loop.induct)
  case (2 contents emitted merged r rs)
  obtain contents' where c: "(case contents (pq_id r) of
               Some existing \<Rightarrow>
                 bindR (fail_if (existing \<noteq> se_content (pq_result r)) (ConflictingShardItem (pq_id r))) (\<lambda>_.
                 Inr contents)
             | None \<Rightarrow> Inr (contents(pq_id r \<mapsto> se_content (pq_result r)))) = Inr contents'"
    and rest: "(if pq_id r \<in> emitted then merge_profile_loop contents' emitted merged rs
      else merge_profile_loop contents' (insert (pq_id r) emitted) (merged @ [r]) rs) = Inr out"
    using "2.prems"(1) by (auto simp: Let_def bindR_eq_Inr)
  show ?case
  proof (cases "pq_id r \<in> emitted")
    case True
    with rest "2.IH"(1) [OF refl refl c True] "2.prems"(2,3) show ?thesis by auto
  next
    case False
    with rest "2.IH"(2) [OF refl refl c False] "2.prems"(2,3) show ?thesis by auto
  qed
qed auto

section \<open>What one store is asked and answers\<close>

text \<open>
  The answer for an authorized store: what semantic-memory returned for this request from the
  database at the store's path, opened for reading, labelled with the store, or the reason why
  there is nothing. \<open>m\<close> and \<open>m'\<close> are the contents of the databases before and after.
\<close>

definition store_searched ::
    "search_env \<Rightarrow> ('s, 'm, 'src) memory_lib \<Rightarrow> pool_db \<Rightarrow> 'src RoutingSearchRequest \<Rightarrow>
     AuthorizedMemoryStore \<Rightarrow> ProfileStoreSearchOutcome \<times> ProfileRoutedSearchResult list \<Rightarrow>
     'm \<Rightarrow> 'm \<Rightarrow> bool" where
  "store_searched env lib db request a x m m' \<longleftrightarrow>
     po_store_id (fst x) = as_store_id a \<and> po_profile_id (fst x) = as_profile_id a \<and>
     po_latency_ms (fst x) = sx_latency_ms env (as_store_id a) \<and>
     po_result_count (fst x) = length (snd x) \<and> po_child_search_receipt_id (fst x) = None \<and>
     (\<exists>opened m1.
        handle_answer (ml_open_read_only lib) (as_relative_path a) (store_refused db (as_store_id a))
          opened m m1 \<and>
        (case opened of
           Inl error \<Rightarrow> m' = m1 \<and> snd x = [] \<and>
             po_error (fst x) = Some (display_mnemes_error (ml_display lib) error)
         | Inr h \<Rightarrow>
             (case ml_search lib h (rq_query request) (rq_top_k request) (rq_namespaces request)
                     (rq_source_types request) m1 of
                (Inl error, m2) \<Rightarrow> m' = m2 \<and> snd x = [] \<and> po_error (fst x) = Some (ml_display lib error)
              | (Inr found, m2) \<Rightarrow> m' = m2 \<and> po_error (fst x) = None \<and>
                  snd x = map (\<lambda>r. \<lparr> pq_result = r, pq_store_id = as_store_id a,
                    pq_profile_id = as_profile_id a, pq_owner_device_id = as_owner_device_id a,
                    pq_namespace = as_namespace a, pq_child_search_receipt_id = None \<rparr>) found)))"

text \<open>A result with the labels of a store, found in the database at the store's path.\<close>

definition result_from ::
    "('s, 'm, 'src) memory_lib \<Rightarrow> 'src RoutingSearchRequest \<Rightarrow> MemoryStoreIdentity \<Rightarrow>
     ProfileRoutedSearchResult \<Rightarrow> bool" where
  "result_from lib request s r \<longleftrightarrow>
     pq_store_id r = ms_store_id s \<and> pq_profile_id r = ms_profile_id s \<and>
     pq_owner_device_id r = ms_owner_device_id s \<and> pq_namespace r = ms_namespace s \<and>
     (\<exists>h m m' found. opened_at (ml_open_read_only lib) (ms_relative_path s) h \<and>
        ml_search lib h (rq_query request) (rq_top_k request) (rq_namespaces request)
          (rq_source_types request) m = (Inr found, m') \<and> pq_result r \<in> set found)"

lemma store_searched_result:
  assumes "store_searched env lib db request a x m m'" "r \<in> set (snd x)"
  shows "\<exists>h m1 found. opened_at (ml_open_read_only lib) (as_relative_path a) h \<and>
     ml_search lib h (rq_query request) (rq_top_k request) (rq_namespaces request)
       (rq_source_types request) m1 = (Inr found, m') \<and> pq_result r \<in> set found \<and>
     pq_store_id r = as_store_id a \<and> pq_profile_id r = as_profile_id a \<and>
     pq_owner_device_id r = as_owner_device_id a \<and> pq_namespace r = as_namespace a"
proof -
  obtain opened m1 where opened: "handle_answer (ml_open_read_only lib) (as_relative_path a)
      (store_refused db (as_store_id a)) opened m m1"
    and searched: "case opened of
           Inl error \<Rightarrow> m' = m1 \<and> snd x = [] \<and>
             po_error (fst x) = Some (display_mnemes_error (ml_display lib) error)
         | Inr h \<Rightarrow>
             (case ml_search lib h (rq_query request) (rq_top_k request) (rq_namespaces request)
                     (rq_source_types request) m1 of
                (Inl error, m2) \<Rightarrow> m' = m2 \<and> snd x = [] \<and> po_error (fst x) = Some (ml_display lib error)
              | (Inr found, m2) \<Rightarrow> m' = m2 \<and> po_error (fst x) = None \<and>
                  snd x = map (\<lambda>r. \<lparr> pq_result = r, pq_store_id = as_store_id a,
                    pq_profile_id = as_profile_id a, pq_owner_device_id = as_owner_device_id a,
                    pq_namespace = as_namespace a, pq_child_search_receipt_id = None \<rparr>) found)"
    using assms(1) unfolding store_searched_def by blast
  obtain h where h: "opened = Inr h" using searched assms(2) by (cases opened) auto
  obtain found where "ml_search lib h (rq_query request) (rq_top_k request) (rq_namespaces request)
      (rq_source_types request) m1 = (Inr found, m')"
    and "snd x = map (\<lambda>r. \<lparr> pq_result = r, pq_store_id = as_store_id a,
                    pq_profile_id = as_profile_id a, pq_owner_device_id = as_owner_device_id a,
                    pq_namespace = as_namespace a, pq_child_search_receipt_id = None \<rparr>) found"
    using searched assms(2) h by (auto split: prod.splits sum.splits)
  moreover have "opened_at (ml_open_read_only lib) (as_relative_path a) h"
    using opened h by (simp add: handle_answer_def)
  ultimately show ?thesis using assms(2) by (intro exI [of _ h] exI [of _ m1] exI [of _ found]) auto
qed

lemma search_profile_store_searched:
  assumes "search_profile_store env lib request a st = (x, st')" "handles_ok lib st"
    and "get_store (as_store_id a) (st_pool st) = Some s" "as_relative_path a = ms_relative_path s"
  shows "handles_ok lib st' \<and> st_pool st' = st_pool st \<and>
     store_searched env lib (st_pool st) request a x (st_memory st) (st_memory st')"
proof -
  obtain opened st1 where dev: "profile_store_memory lib (as_store_id a) st = (opened, st1)" by fastforce
  note H = profile_store_memory_handle [OF dev assms(2,3), folded assms(4)]
  have pool: "st_pool st1 = st_pool st"
    using profile_store_memory_same [OF dev] by (simp add: same_tables_def)
  show ?thesis
  proof (cases opened)
    case (Inl error)
    then have "st' = st1" and x: "x = (failed_store_outcome a (sx_latency_ms env (as_store_id a))
        (display_mnemes_error (ml_display lib) error), [])"
      using assms(1) dev by (auto simp: search_profile_store_def Let_def)
    with H pool Inl show ?thesis unfolding store_searched_def
      by (intro conjI exI [of _ opened] exI [of _ "st_memory st1"]) (auto simp: failed_store_outcome_def)
  next
    case (Inr h)
    obtain r m where search: "ml_search lib h (rq_query request) (rq_top_k request)
        (rq_namespaces request) (rq_source_types request) (st_memory st1) = (r, m)" by fastforce
    note unfolded = assms(1) [unfolded search_profile_store_def Let_def dev Inr prod.case sum.case search]
    have st': "st' = st1\<lparr>st_memory := m\<rparr>" using unfolded by (auto split: sum.splits)
    have "store_searched env lib (st_pool st) request a x (st_memory st) m"
      using unfolded H Inr search unfolding store_searched_def
      by (intro conjI exI [of _ opened] exI [of _ "st_memory st1"])
        (auto simp: failed_store_outcome_def split: sum.splits)
    with st' pool H show ?thesis by simp
  qed
qed

text \<open>Every admitted store is a row of the registry, with the path of its entry.\<close>

definition entries_of :: "pool_db \<Rightarrow> AuthorizedMemoryStore list \<Rightarrow> bool" where
  "entries_of db stores \<longleftrightarrow>
     (\<forall>a \<in> set stores. \<exists>s. get_store (as_store_id a) db = Some s \<and> as_relative_path a = ms_relative_path s)"

lemma search_profile_stores_searched:
  "search_profile_stores env lib request stores outcomes results st = ((outcomes', results'), st') \<Longrightarrow>
   handles_ok lib st \<Longrightarrow> entries_of (st_pool st) stores \<Longrightarrow>
     handles_ok lib st' \<and> (\<exists>found. outcomes' = outcomes @ map fst found \<and>
        results' = results @ concat (map snd found) \<and>
        threaded (store_searched env lib (st_pool st) request) stores found (st_memory st) (st_memory st'))"
proof (induction stores arbitrary: outcomes results st)
  case Nil
  then show ?case by (auto intro: exI [of _ "[]"])
next
  case (Cons a stores)
  obtain outcome rs st1 where one: "search_profile_store env lib request a st = ((outcome, rs), st1)"
    by (metis prod.exhaust)
  obtain s where s: "get_store (as_store_id a) (st_pool st) = Some s" "as_relative_path a = ms_relative_path s"
    using Cons.prems(3) by (auto simp: entries_of_def)
  note O = search_profile_store_searched [OF one Cons.prems(2) s]
  have rest: "search_profile_stores env lib request stores (outcomes @ [outcome]) (results @ rs) st1 =
      ((outcomes', results'), st')"
    using Cons.prems(1) one by simp
  have "entries_of (st_pool st1) stores" using Cons.prems(3) O by (simp add: entries_of_def)
  with Cons.IH [OF rest] O obtain found where "handles_ok lib st'"
    "outcomes' = (outcomes @ [outcome]) @ map fst found" "results' = (results @ rs) @ concat (map snd found)"
    "threaded (store_searched env lib (st_pool st) request) stores found (st_memory st1) (st_memory st')"
    by auto
  then show ?case using O by (intro conjI exI [of _ "(outcome, rs) # found"]) auto
qed

section \<open>The merge\<close>

text \<open>
  The best \<open>k\<close> items: each once, by its best-ranked result, in order of score, id and store; what
  is left out ranks no better than what is returned; and one item has one content.
\<close>

definition best_items ::
    "nat \<Rightarrow> ProfileRoutedSearchResult list \<Rightarrow> ProfileRoutedSearchResult list \<Rightarrow> bool" where
  "best_items k rs out \<longleftrightarrow>
     set out \<subseteq> set rs \<and> distinct (map pq_id out) \<and> sorted (map profile_merge_key out) \<and>
     length out = min k (card (pq_id ` set rs)) \<and>
     (\<forall>r \<in> set rs. \<forall>x \<in> set out. pq_id r \<notin> pq_id ` set out \<or> pq_id r = pq_id x \<longrightarrow>
        profile_merge_key x \<le> profile_merge_key r) \<and>
     (\<forall>a \<in> set rs. \<forall>b \<in> set rs. pq_id a = pq_id b \<longrightarrow>
        se_content (pq_result a) = se_content (pq_result b))"

lemma merge_profile_loop_consistent:
  "merge_profile_loop contents emitted merged rs = Inr out \<Longrightarrow>
     (\<forall>a \<in> set rs. \<forall>c. contents (pq_id a) = Some c \<longrightarrow> se_content (pq_result a) = c) \<and>
     (\<forall>a \<in> set rs. \<forall>b \<in> set rs. pq_id a = pq_id b \<longrightarrow>
        se_content (pq_result a) = se_content (pq_result b))"
proof (induction rs arbitrary: contents emitted merged)
  case (Cons r rs)
  define known where "known = contents(pq_id r \<mapsto> se_content (pq_result r))"
  have ok: "\<forall>c. contents (pq_id r) = Some c \<longrightarrow> se_content (pq_result r) = c"
    using Cons.prems by (auto simp: Let_def bindR_eq_Inr fail_if_eq split: option.splits)
  then have "(case contents (pq_id r) of
               Some existing \<Rightarrow>
                 bindR (fail_if (existing \<noteq> se_content (pq_result r)) (ConflictingShardItem (pq_id r))) (\<lambda>_.
                 Inr contents)
             | None \<Rightarrow> Inr (contents(pq_id r \<mapsto> se_content (pq_result r)))) = Inr known"
    by (auto simp: known_def fail_if_def split: option.split)
  then obtain e m where "merge_profile_loop known e m rs = Inr out"
    using Cons.prems by (auto simp: Let_def split: if_splits)
  note IH = Cons.IH [OF this]
  have same: "se_content (pq_result a) = se_content (pq_result r)" if "a \<in> set rs" "pq_id a = pq_id r" for a
    using IH that by (simp add: known_def)
  have kept: "se_content (pq_result a) = c" if "a \<in> set rs" "contents (pq_id a) = Some c" for a c
    using IH ok same that by (cases "pq_id a = pq_id r") (auto simp: known_def)
  show ?case using IH ok same kept by (metis set_ConsD)
qed simp

lemma merge_profile_loop_best:
  "merge_profile_loop contents emitted merged rs = Inr out \<Longrightarrow>
   pq_id ` set merged = emitted \<Longrightarrow> sorted (map profile_merge_key (merged @ rs)) \<Longrightarrow>
     sorted (map profile_merge_key out) \<and>
     (\<forall>r \<in> set (merged @ rs). \<exists>x \<in> set out. pq_id x = pq_id r \<and>
        profile_merge_key x \<le> profile_merge_key r)"
proof (induction rs arbitrary: contents emitted merged)
  case (Cons r rs)
  then obtain contents' where rest: "(if pq_id r \<in> emitted then merge_profile_loop contents' emitted merged rs
      else merge_profile_loop contents' (insert (pq_id r) emitted) (merged @ [r]) rs) = Inr out"
    by (auto simp: Let_def bindR_eq_Inr)
  show ?case
  proof (cases "pq_id r \<in> emitted")
    case True
    then obtain x where x: "x \<in> set merged" "pq_id x = pq_id r" using Cons.prems(2) by auto
    then have "profile_merge_key x \<le> profile_merge_key r"
      using Cons.prems(3) by (auto simp: sorted_append)
    moreover have "merge_profile_loop contents' emitted merged rs = Inr out" using rest True by simp
    note IH = Cons.IH [OF this Cons.prems(2)]
    have "sorted (map profile_merge_key (merged @ rs))" using Cons.prems(3) by (auto simp: sorted_append)
    note IH = IH [OF this]
    obtain y where "y \<in> set out" "pq_id y = pq_id x" "profile_merge_key y \<le> profile_merge_key x"
      using IH x(1) by auto
    ultimately show ?thesis using IH x(2) by (auto intro: order_trans)
  next
    case False
    then have "merge_profile_loop contents' (insert (pq_id r) emitted) (merged @ [r]) rs = Inr out"
      using rest by simp
    from Cons.IH [OF this] Cons.prems(2,3) show ?thesis by auto
  qed
qed (auto intro: order_refl)

lemma merge_profile_best:
  assumes "merge_profile_results rs k = Inr out"
  shows "best_items k rs out"
proof -
  obtain all where loop: "merge_profile_loop Map.empty {} [] (sort_key profile_merge_key rs) = Inr all"
    and out: "out = take k all"
    using assms by (auto simp: merge_profile_results_def bindR_eq_Inr)
  have ids: "distinct (map pq_id all)" "set all \<subseteq> set rs" "pq_id ` set all = pq_id ` set rs"
    using merge_profile_loop_ok [OF loop] by auto
  have best: "sorted (map profile_merge_key all)"
    "\<forall>r \<in> set rs. \<exists>x \<in> set all. pq_id x = pq_id r \<and> profile_merge_key x \<le> profile_merge_key r"
    using merge_profile_loop_best [OF loop] by auto
  obtain rest where split: "all = out @ rest" using out append_take_drop_id by metis
  have len: "length all = card (pq_id ` set rs)"
    using distinct_card [OF ids(1)] ids(3) by simp
  have "profile_merge_key x \<le> profile_merge_key r"
    if r: "r \<in> set rs" and x: "x \<in> set out" and c: "pq_id r \<notin> pq_id ` set out \<or> pq_id r = pq_id x" for r x
  proof -
    obtain y where y: "y \<in> set all" "pq_id y = pq_id r" "profile_merge_key y \<le> profile_merge_key r"
      using best(2) r by blast
    have "y = x \<or> y \<in> set rest"
    proof (cases "pq_id r \<in> pq_id ` set out")
      case True
      then have "pq_id y = pq_id x" using c y(2) by simp
      moreover have "inj_on pq_id (set all)" using ids(1) by (simp add: distinct_map)
      ultimately show ?thesis using y(1) x split by (metis Un_iff inj_onD set_append)
    next
      case False
      then show ?thesis using y(1,2) split by (metis UnE image_eqI set_append)
    qed
    then have "profile_merge_key x \<le> profile_merge_key y"
      using best(1) split x by (auto simp: sorted_append)
    with y(3) show ?thesis by order
  qed
  moreover have "sorted (map profile_merge_key out)" "distinct (map pq_id out)" "set out \<subseteq> set rs"
    using best(1) ids(1,2) split by (auto simp: sorted_append)
  moreover have "length out = min k (card (pq_id ` set rs))" using len by (simp add: out min.commute)
  moreover have "\<forall>a \<in> set rs. \<forall>b \<in> set rs. pq_id a = pq_id b \<longrightarrow>
        se_content (pq_result a) = se_content (pq_result b)"
    using conjunct2 [OF merge_profile_loop_consistent [OF loop]] unfolding set_sort .
  ultimately show ?thesis unfolding best_items_def by blast
qed

section \<open>Confinement\<close>

text \<open>
  What it takes for a profile to search a store at a time: the store, its profile and its device
  are active, and it is the profile's own store or a search grant for it is in force.
\<close>

definition may_search :: "pool_db \<Rightarrow> MemoryProfileId \<Rightarrow> u64 \<Rightarrow> MemoryStoreIdentity \<Rightarrow> bool" where
  "may_search db subject at s \<longleftrightarrow>
     s \<in> set (db_stores db) \<and> ms_status s = StoreActive \<and>
     (\<exists>p. get_profile (ms_profile_id s) db = Some p \<and> mp_status p = ProfileActive) \<and>
     device_active (ms_owner_device_id s) db \<and>
     (ms_profile_id s = subject \<or>
      (\<exists>g \<in> set (db_grants db). gr_grantee_profile_id g = subject \<and> gr_store_id g = ms_store_id s \<and>
         grant_allows g Search (ms_namespace s) at))"

lemma snapshot_admitted:
  assumes "build_authorization_snapshot c fresh actor Search namespaces at db = Inr snapshot"
    and "a \<in> set (sn_authorized_stores snapshot)"
  shows "\<exists>s. admitted_store db (sn_subject_profile_id snapshot) Search
       (case namespaces of None \<Rightarrow> [] | Some ns \<Rightarrow> ns) at s \<and>
     as_store_id a = ms_store_id s \<and> as_profile_id a = ms_profile_id s \<and>
     as_owner_device_id a = ms_owner_device_id s \<and> as_namespace a = ms_namespace s \<and>
     as_relative_path a = ms_relative_path s"
proof -
  let ?ns = "case namespaces of None \<Rightarrow> [] | Some ns \<Rightarrow> ns"
  obtain b where snap: "snapshot = snapshot_new c fresh b Search ?ns
        (List.map_filter (authorize_store b Search ?ns at db) (candidate_stores db)) at"
    using assms(1) by (auto simp: build_authorization_snapshot_def bindR_eq_Inr Let_def)
  obtain a0 s where a0: "a = normalize_store a0" "s \<in> set (candidate_stores db)"
    "authorize_store b Search ?ns at db s = Some a0"
    using assms(2) by (auto simp: snap snapshot_new_def Let_def set_map_filter_iff)
  have "sn_subject_profile_id snapshot = pb_profile_id b"
    by (simp add: snap snapshot_new_def Let_def)
  then have "admitted_store db (sn_subject_profile_id snapshot) Search ?ns at s"
    using candidate_storesD [OF a0(2)] a0(3) authorize_store_admits [of b Search ?ns at db s]
    by (auto simp: admitted_store_def)
  with authorize_store_entry [OF a0(3)] show ?thesis
    unfolding a0(1) entry_for_def by blast
qed

lemma admitted_may_search: "admitted_store db subject Search ns at s \<Longrightarrow> may_search db subject at s"
  by (auto simp: admitted_store_def may_search_def grants_in_force_def)

lemma snapshot_may_search:
  assumes "build_authorization_snapshot c fresh actor Search ns at db = Inr snapshot"
    and "a \<in> set (sn_authorized_stores snapshot)"
  shows "\<exists>s. may_search db (sn_subject_profile_id snapshot) at s \<and> as_store_id a = ms_store_id s \<and>
     as_profile_id a = ms_profile_id s \<and> as_namespace a = ms_namespace s"
  using snapshot_admitted [OF assms] admitted_may_search by blast

lemma finish_profile_okD:
  assumes "finish_profile_receipt env receipt0 st = (Inr receipt, st')"
  shows "(\<exists>digest. receipt = receipt0\<lparr>pr_receipt_digest := digest\<rparr>) \<and>
     validate_profile_routing_receipt (sx_receipts env) (st_receipt_auth_key st) receipt = Inr () \<and>
     has_key pw_receipt_id (pr_receipt_id receipt) (st_profile_receipts st')"
  using assms
  by (auto simp: finish_profile_receipt_def Let_def persist_profile_routing_receipt_def bindR_eq_Inr
      sql_insert_ok has_key_iff split: sum.splits)

lemma finish_profile_frame:
  "finish_profile_receipt env receipt0 st = (r, st') \<Longrightarrow>
     st_memory st' = st_memory st \<and> handles_ok lib st' = handles_ok lib st"
  by (auto simp: finish_profile_receipt_def Let_def handles_ok_def bindS_def readS_def
      split: sum.splits prod.splits)

text \<open>The receipt that was written is the one that its id reads back: ids are a primary key.\<close>

lemma finish_profile_read:
  assumes "finish_profile_receipt env receipt0 st = (Inr receipt, st')"
    and "receipt_codecs (sx_receipts env)"
  shows "get_profile_routing_receipt (sx_receipts env) (st_receipt_auth_key st') (pr_receipt_id receipt)
     (st_profile_receipts st') = Inr (Some receipt)"
proof -
  have key: "st_receipt_auth_key st' = st_receipt_auth_key st"
    using assms(1) by (auto simp: finish_profile_receipt_def Let_def split: sum.splits)
  have "validate_profile_routing_receipt (sx_receipts env) (st_receipt_auth_key st) receipt = Inr ()"
    "persist_profile_routing_receipt (sx_receipts env) (st_receipt_auth_key st) (sx_pool env) receipt
       (st_pool st) (st_profile_receipts st) = Inr (st_profile_receipts st')"
    using assms(1) by (auto simp: finish_profile_receipt_def Let_def split: sum.splits)
  moreover from this have "row_by pw_receipt_id (pr_receipt_id receipt) (st_profile_receipts st) = None"
    by (auto simp: persist_profile_routing_receipt_def bindR_eq_Inr sql_insert_ok has_key_iff row_by_None)
  moreover have "\<forall>x t. rl_receipt_json (sx_receipts env) x = Inr t \<longrightarrow>
      rl_receipt_from (sx_receipts env) t = Inr x"
    using assms(2) by (simp add: receipt_codecs_def)
  ultimately show ?thesis
    by (auto simp: key persist_profile_routing_receipt_def get_profile_routing_receipt_def bindR_eq_Inr
        sql_insert_ok row_by_append row_by_single as_catalog_ok)
qed

lemma profile_search_ok:
  assumes "routed_search_for_profile env lib fresh actor request at st = (Inr (results, receipt), st')"
  shows "\<exists>snapshot. build_authorization_snapshot (pe_crypto (sx_pool env)) fresh actor Search
        (rq_namespaces request) at (st_pool st) = Inr snapshot \<and>
     pr_subject_profile_id receipt = sn_subject_profile_id snapshot \<and>
     pr_authorization_snapshot_digest receipt = sn_snapshot_digest snapshot \<and>
     pr_authorized_stores receipt = sn_authorized_stores snapshot \<and>
     (\<forall>r \<in> set results. (\<exists>a \<in> set (sn_authorized_stores snapshot). result_of a r) \<and>
        (\<exists>s. may_search (st_pool st) (sn_subject_profile_id snapshot) at s \<and>
           pq_store_id r = ms_store_id s \<and> pq_profile_id r = ms_profile_id s \<and>
           pq_namespace r = ms_namespace s)) \<and>
     length results \<le> rq_top_k request \<and> distinct (map pq_id results) \<and>
     pr_final_result_ids receipt = map pq_id results \<and> profile_receipt_consistent receipt \<and>
     has_key pw_receipt_id (pr_receipt_id receipt) (st_profile_receipts st')"
proof -
  obtain snapshot where
    snap: "build_authorization_snapshot (pe_crypto (sx_pool env)) fresh actor Search
        (rq_namespaces request) at (st_pool st) = Inr snapshot"
    using assms by (auto simp: routed_search_for_profile_def bindS_readS_ok simp del: bindS_readS)
  obtain outcomes all st1 where
    run: "search_profile_stores env lib request (sn_authorized_stores snapshot) [] [] st =
        ((outcomes, all), st1)"
    by (metis prod.exhaust)
  have merge: "merge_profile_results all (rq_top_k request) = Inr results"
    and fin: "finish_profile_receipt env (build_profile_receipt env actor snapshot
       (sha256_hex (pe_crypto (sx_pool env)) (rq_query request)) outcomes results) st1 = (Inr receipt, st')"
    using assms
    by (auto simp: routed_search_for_profile_def bindS_ok bindS_readS_ok snap run Let_def
        simp del: bindS_readS)
  note F = finish_profile_okD [OF fin]
  then have fields: "pr_subject_profile_id receipt = sn_subject_profile_id snapshot"
    "pr_authorization_snapshot_digest receipt = sn_snapshot_digest snapshot"
    "pr_authorized_stores receipt = sn_authorized_stores snapshot"
    "pr_final_result_ids receipt = map pq_id results"
    by (auto simp: build_profile_receipt_def)
  obtain merged where loop: "merge_profile_loop Map.empty {} [] (sort_key profile_merge_key all) = Inr merged"
    and results: "results = take (rq_top_k request) merged"
    using merge by (auto simp: merge_profile_results_def bindR_eq_Inr)
  have merged: "distinct (map pq_id merged)" "set merged \<subseteq> set all"
    using merge_profile_loop_ok [OF loop] by auto
  have origin: "\<exists>a \<in> set (sn_authorized_stores snapshot). result_of a r" if "r \<in> set results" for r
  proof -
    have "r \<in> set merged" using that in_set_takeD unfolding results by fast
    then have "r \<in> set all" using merged(2) by blast
    then show ?thesis using search_profile_stores_results [OF run] by auto
  qed
  have "(\<exists>a \<in> set (sn_authorized_stores snapshot). result_of a r) \<and>
      (\<exists>s. may_search (st_pool st) (sn_subject_profile_id snapshot) at s \<and>
         pq_store_id r = ms_store_id s \<and> pq_profile_id r = ms_profile_id s \<and>
         pq_namespace r = ms_namespace s)" if r: "r \<in> set results" for r
  proof -
    obtain a where a: "a \<in> set (sn_authorized_stores snapshot)" "result_of a r" using origin [OF r] by blast
    with snapshot_may_search [OF snap a(1)] show ?thesis by (auto simp: result_of_def)
  qed
  moreover have "length results \<le> rq_top_k request" "distinct (map pq_id results)"
    using merged(1) by (simp_all add: results flip: take_map)
  moreover have "profile_receipt_consistent receipt"
    using F validate_profile_routing_receipt_ok by blast
  ultimately show ?thesis
    using snap fields F by (intro exI [of _ snapshot] conjI ballI) simp_all
qed

lemma profile_search_found:
  assumes "routed_search_for_profile env lib fresh actor request at st = (Inr (results, receipt), st')"
    and "handles_ok lib st" and "distinct (map ms_store_id (db_stores (st_pool st)))"
    and "build_authorization_snapshot (pe_crypto (sx_pool env)) fresh actor Search
        (rq_namespaces request) at (st_pool st) = Inr snapshot"
  shows "pr_actor_id receipt = actor \<and> handles_ok lib st' \<and>
     (receipt_codecs (sx_receipts env) \<longrightarrow>
        get_profile_routing_receipt (sx_receipts env) (st_receipt_auth_key st') (pr_receipt_id receipt)
          (st_profile_receipts st') = Inr (Some receipt)) \<and>
     (\<forall>r \<in> set results. \<exists>s. admitted_store (st_pool st) (sn_subject_profile_id snapshot) Search
        (case rq_namespaces request of None \<Rightarrow> [] | Some ns \<Rightarrow> ns) at s \<and> result_from lib request s r) \<and>
     (\<exists>found. pr_outcomes receipt = map fst found \<and>
        threaded (store_searched env lib (st_pool st) request) (sn_authorized_stores snapshot) found
          (st_memory st) (st_memory st') \<and>
        best_items (rq_top_k request) (concat (map snd found)) results)"
proof -
  let ?stores = "sn_authorized_stores snapshot"
  obtain outcomes all st1 where
    run: "search_profile_stores env lib request ?stores [] [] st = ((outcomes, all), st1)"
    by (metis prod.exhaust)
  have merge: "merge_profile_results all (rq_top_k request) = Inr results"
    and fin: "finish_profile_receipt env (build_profile_receipt env actor snapshot
       (sha256_hex (pe_crypto (sx_pool env)) (rq_query request)) outcomes results) st1 = (Inr receipt, st')"
    using assms(1,4)
    by (auto simp: routed_search_for_profile_def bindS_ok bindS_readS_ok run Let_def
        simp del: bindS_readS)
  note F = finish_profile_okD [OF fin]
  have receipt: "pr_actor_id receipt = actor" "pr_outcomes receipt = outcomes"
    using F by (auto simp: build_profile_receipt_def)
  have row: "get_store (ms_store_id s) (st_pool st) = Some s" if "s \<in> set (db_stores (st_pool st))" for s
    using that assms(3) by (simp add: get_store_def row_by_distinct)
  have "entries_of (st_pool st) ?stores"
    unfolding entries_of_def
  proof
    fix a assume "a \<in> set ?stores"
    then obtain s where s: "s \<in> set (db_stores (st_pool st))" "as_store_id a = ms_store_id s"
      "as_relative_path a = ms_relative_path s"
      using snapshot_admitted [OF assms(4)] by (auto simp: admitted_store_def)
    then show "\<exists>s. get_store (as_store_id a) (st_pool st) = Some s \<and> as_relative_path a = ms_relative_path s"
      using row by auto
  qed
  from search_profile_stores_searched [OF run assms(2) this] obtain found where
    ok: "handles_ok lib st1" and found: "outcomes = map fst found" "all = concat (map snd found)"
    "threaded (store_searched env lib (st_pool st) request) ?stores found (st_memory st) (st_memory st1)"
    by auto
  have best: "best_items (rq_top_k request) all results" by (rule merge_profile_best [OF merge])
  have origin: "\<exists>s. admitted_store (st_pool st) (sn_subject_profile_id snapshot) Search
        (case rq_namespaces request of None \<Rightarrow> [] | Some ns \<Rightarrow> ns) at s \<and> result_from lib request s r"
    if "r \<in> set results" for r
  proof -
    have "r \<in> set all" using best that by (auto simp: best_items_def)
    then obtain x where x: "x \<in> set found" "r \<in> set (snd x)" using found(2) by auto
    obtain a m1 m2 where a: "a \<in> set ?stores" "store_searched env lib (st_pool st) request a x m1 m2"
      using threaded_member [OF found(3) x(1)] by blast
    obtain s where s: "admitted_store (st_pool st) (sn_subject_profile_id snapshot) Search
        (case rq_namespaces request of None \<Rightarrow> [] | Some ns \<Rightarrow> ns) at s"
      "as_store_id a = ms_store_id s" "as_profile_id a = ms_profile_id s"
      "as_owner_device_id a = ms_owner_device_id s" "as_namespace a = ms_namespace s"
      "as_relative_path a = ms_relative_path s"
      using snapshot_admitted [OF assms(4) a(1)] by blast
    have "result_from lib request s r"
      using store_searched_result [OF a(2) x(2)] unfolding result_from_def s(2-) by blast
    with s(1) show ?thesis by blast
  qed
  moreover have "st_memory st' = st_memory st1" "handles_ok lib st'"
    using finish_profile_frame [OF fin, of lib] ok by simp_all
  ultimately show ?thesis
    using receipt found best finish_profile_read [OF fin] by auto
qed

text \<open>
  C9. A profile search reveals only what the actor's profile may search, and accounts for it. The
  stores that the snapshot of this moment admits are searched one after the other, each in the
  database at its own path, and the receipt has their outcomes in this order: what semantic-memory
  answered there, or the error. The answer is the best \<open>top_k\<close> items of all results, each item
  once. So every result was found in the database of a store that the subject owns or holds a
  search grant in force for, with store, profile and device active, and carries that store's
  identity and namespace. The stored, accepted receipt names the actor, the subject and the
  snapshot, and the cache stays sound for the next search.
\<close>

theorem profile_search_confined:
  assumes "routed_search_for_profile env lib fresh actor request at st = (Inr (results, receipt), st')"
    and "handles_ok lib st" and "distinct (map ms_store_id (db_stores (st_pool st)))"
  shows "\<exists>snapshot found. build_authorization_snapshot (pe_crypto (sx_pool env)) fresh actor Search
        (rq_namespaces request) at (st_pool st) = Inr snapshot \<and>
     pr_actor_id receipt = actor \<and>
     pr_subject_profile_id receipt = sn_subject_profile_id snapshot \<and>
     pr_authorization_snapshot_digest receipt = sn_snapshot_digest snapshot \<and>
     pr_authorized_stores receipt = sn_authorized_stores snapshot \<and>
     pr_outcomes receipt = map fst found \<and>
     threaded (store_searched env lib (st_pool st) request) (sn_authorized_stores snapshot) found
       (st_memory st) (st_memory st') \<and>
     best_items (rq_top_k request) (concat (map snd found)) results \<and>
     (\<forall>r \<in> set results. (\<exists>a \<in> set (sn_authorized_stores snapshot). result_of a r) \<and>
        (\<exists>s. admitted_store (st_pool st) (sn_subject_profile_id snapshot) Search
           (case rq_namespaces request of None \<Rightarrow> [] | Some ns \<Rightarrow> ns) at s \<and>
           result_from lib request s r)) \<and>
     pr_final_result_ids receipt = map pq_id results \<and> profile_receipt_consistent receipt \<and>
     has_key pw_receipt_id (pr_receipt_id receipt) (st_profile_receipts st') \<and> handles_ok lib st'"
proof -
  obtain snapshot where labels: "build_authorization_snapshot (pe_crypto (sx_pool env)) fresh actor Search
        (rq_namespaces request) at (st_pool st) = Inr snapshot"
     "pr_subject_profile_id receipt = sn_subject_profile_id snapshot"
     "pr_authorization_snapshot_digest receipt = sn_snapshot_digest snapshot"
     "pr_authorized_stores receipt = sn_authorized_stores snapshot"
     "\<forall>r \<in> set results. \<exists>a \<in> set (sn_authorized_stores snapshot). result_of a r"
     "pr_final_result_ids receipt = map pq_id results" "profile_receipt_consistent receipt"
     "has_key pw_receipt_id (pr_receipt_id receipt) (st_profile_receipts st')"
    using profile_search_ok [OF assms(1)] by blast
  with profile_search_found [OF assms labels(1)] show ?thesis by blast
qed

section \<open>A search of one's own store\<close>

definition own_store :: AuthorizedMemoryStore where
  "own_store = \<lparr> as_store_id = ''s1'', as_profile_id = MemoryProfileId ''p'',
        as_owner_device_id = DeviceId ''d'', as_namespace = ''ns'',
        as_relative_path = ''memory/profiles/p/s1'', as_grant_ids = [],
        as_authorization_expires_at = 20 \<rparr>"

definition search_snapshot :: AuthorizationSnapshot where
  "search_snapshot = snapshot_new toy_crypto ''snap'' example_binding Search [] [own_store] 15"

definition example_profile_result :: ProfileRoutedSearchResult where
  "example_profile_result =
     \<lparr> pq_result = \<lparr> se_score = 1, se_content = ''x'', se_result_id = ''f1'' \<rparr>,
       pq_store_id = ''s1'', pq_profile_id = MemoryProfileId ''p'', pq_owner_device_id = DeviceId ''d'',
       pq_namespace = ''ns'', pq_child_search_receipt_id = None \<rparr>"

definition example_store_outcome :: ProfileStoreSearchOutcome where
  "example_store_outcome =
     \<lparr> po_store_id = ''s1'', po_profile_id = MemoryProfileId ''p'', po_latency_ms = 3,
       po_result_count = 1, po_child_search_receipt_id = None, po_error = None \<rparr>"

definition example_profile_receipt :: ProfileRoutingReceipt where
  "example_profile_receipt =
     (build_profile_receipt example_search_env (ActorId ''a'') search_snapshot
       (sha256_hex toy_crypto ''q'') [example_store_outcome] [example_profile_result])
     \<lparr>pr_receipt_digest := hex_bytes (toy_hash (7 # as_bytes ''m''))\<rparr>"

text \<open>A codec that serialises this one receipt.\<close>

definition example_profile_env :: search_env where
  "example_profile_env = example_search_env\<lparr>sx_receipts := toy_receipt_lib\<lparr>
     rl_receipt_json := \<lambda>r. if r = example_profile_receipt then Inr ''p'' else Inl ''unsupported'',
     rl_receipt_from := \<lambda>_. Inr example_profile_receipt\<rparr>\<rparr>"

lemma example_profile_codecs: "receipt_codecs (sx_receipts example_profile_env)"
  using toy_receipt_codecs by (auto simp: receipt_codecs_def example_profile_env_def)

lemma persist_first_profile_receipt:
  assumes "validate_profile_routing_receipt l k r = Inr ()" and "rl_receipt_json l r = Inr payload"
    and "length (pr_authorization_snapshot_digest r) = 64" and "length (pr_receipt_digest r) = 64"
    and "has_key act_actor_id (pr_actor_id r) (db_actors db)"
    and "has_key mp_profile_id (pr_subject_profile_id r) (db_profiles db)"
  shows "\<exists>row. persist_profile_routing_receipt l k env r db [] = Inr [row] \<and>
      pw_receipt_id row = pr_receipt_id r"
  using assms by (simp add: persist_profile_routing_receipt_def as_catalog_def sql_insert_def has_key_def)

lemma resolve_other_tables:
  "resolve_actor_profile c actor at (db\<lparr>db_shards := rows\<rparr>) = resolve_actor_profile c actor at db"
proof -
  have "join_binding (db\<lparr>db_shards := rows\<rparr>) = join_binding db"
    by (auto simp: fun_eq_iff join_binding_def get_actor_def get_profile_def cong: option.case_cong)
  then show ?thesis by (simp add: resolve_actor_profile_def active_bindings_def)
qed

lemma search_build:
  "build_authorization_snapshot toy_crypto ''snap'' (ActorId ''a'') Search None 15
     (st_pool example_store_state) = Inr search_snapshot"
proof -
  let ?db = "st_pool example_store_state"
  have db: "?db = example_registry\<lparr>db_shards := [example_shard_row]\<rparr>" by (simp add: example_store_state_def)
  have "candidate_stores ?db = [example_store]"
    by (simp add: candidate_stores_def db example_registry_def example_device_def get_profile_def row_by_def
        device_active_def get_device_def example_store_def device_new_def)
  moreover have "memory_grants_for_profile_store p s ?db = []" for p s
    by (simp add: memory_grants_for_profile_store_def db example_registry_def example_device_def empty_db_def)
  then have "authorize_store example_binding Search [] 15 ?db example_store = Some own_store"
    by (simp add: authorize_store_def authorize_memory_access_def snapshot_subject_def
        example_store_def example_binding_def own_store_def Let_def)
  moreover have "resolve_actor_profile toy_crypto (ActorId ''a'') 15 ?db = Inr example_binding"
    unfolding db resolve_other_tables by (rule example_resolve)
  ultimately show ?thesis
    by (simp add: build_authorization_snapshot_def search_snapshot_def List.map_filter_simps)
qed

lemma search_snapshot_fields:
  "sn_authorized_stores search_snapshot = [own_store]"
  "is_digest (sn_snapshot_digest search_snapshot)"
  "sn_subject_profile_id search_snapshot = MemoryProfileId ''p''"
proof -
  have "length (sha256 toy_crypto m) = 32" for m using toy_crypto_laws by (simp add: crypto_laws_def)
  then show "is_digest (sn_snapshot_digest search_snapshot)"
    by (simp add: search_snapshot_def snapshot_new_def Let_def snapshot_expected_digest_def
        digest_fields_def is_digest_hex)
qed (simp_all add: search_snapshot_def snapshot_new_def Let_def own_store_def normalize_store_def
      example_binding_def)

lemma example_profile_search:
  fixes request :: "'src RoutingSearchRequest"
  assumes request: "request = routing_request_new ''q'' 1"
  shows "\<exists>st'. routed_search_for_profile example_profile_env toy_memory ''snap''
     (ActorId ''a'') request 15 example_store_state =
       (Inr ([example_profile_result], example_profile_receipt), st') \<and>
     get_profile_routing_receipt (sx_receipts example_profile_env) (st_receipt_auth_key st')
       (pr_receipt_id example_profile_receipt) (st_profile_receipts st') = Inr (Some example_profile_receipt)"
proof -
  let ?lib = "toy_receipt_lib\<lparr>rl_receipt_json := \<lambda>r. if r = example_profile_receipt then Inr ''p''
        else Inl ''unsupported'',
      rl_receipt_from := \<lambda>_. Inr example_profile_receipt\<rparr>"
  have act: "active_store ''s1'' (st_pool example_store_state) = Some example_store"
    by (simp add: active_store_def get_store_def get_profile_def device_active_def get_device_def
        example_store_state_def example_registry_def example_device_def row_by_def example_store_def device_new_def)
  have path: "canonical_memory_store_relative_path (MemoryProfileId ''p'') ''s1'' =
      Inr ''memory/profiles/p/s1''"
    using example_store_valid
    by (auto simp: memory_store_identity_validate_def example_store_def bindR_eq_Inr fail_if_eq)
  have store: "ms_profile_id example_store = MemoryProfileId ''p''"
    "ms_relative_path example_store = ''memory/profiles/p/s1''"
    by (simp_all add: example_store_def)
  obtain st1 where one: "search_profile_store example_profile_env toy_memory
      request own_store
      example_store_state = ((example_store_outcome, [example_profile_result]), st1)"
    and st1: "st_receipt_auth_key st1 = [7]" "st_profile_receipts st1 = []"
      "db_actors (st_pool st1) = db_actors example_registry"
      "db_profiles (st_pool st1) = db_profiles example_registry"
    by (simp add: search_profile_store_def own_store_def profile_store_memory_def act store path
        example_profile_parsed)
      (simp add: example_store_state_def get_key_def cache_new_def bindS_def readS_def call_memory_def
        put_handle_def toy_memory_def example_profile_env_def example_search_env_def Let_def
        example_store_outcome_def example_profile_result_def)
  have lib: "sx_receipts example_profile_env = ?lib" "sx_pool example_profile_env = example_pool_env"
    "pe_crypto example_pool_env = toy_crypto" "rq_query request = ''q''"
    "rq_top_k request = 1"
    "rq_namespaces request = None"
    by (simp_all add: example_profile_env_def example_search_env_def example_pool_env_def
        request routing_request_new_def)
  have merge: "merge_profile_results [example_profile_result] 1 = Inr [example_profile_result]"
    by (simp add: merge_profile_results_def pq_id_def)
  let ?b = "build_profile_receipt example_profile_env (ActorId ''a'') search_snapshot
      (sha256_hex toy_crypto ''q'') [example_store_outcome] [example_profile_result]"
  let ?digest = "hex_bytes (toy_hash (7 # as_bytes ''m''))"
  have digest: "profile_routing_receipt_digest ?lib [7] r = Inr ?digest" for r
    by (simp add: profile_routing_receipt_digest_def toy_receipt_lib_def)
  have receipt: "?b\<lparr>pr_receipt_digest := ?digest\<rparr> = example_profile_receipt"
    by (simp add: example_profile_receipt_def build_profile_receipt_def example_profile_env_def)
  have "is_digest (sha256_hex toy_crypto ''q'')"
    unfolding sha256_hex_def by (rule is_digest_hex) (use toy_crypto_laws in \<open>simp add: crypto_laws_def\<close>)
  then have valid: "validate_profile_routing_receipt ?lib [7] (?b\<lparr>pr_receipt_digest := ?digest\<rparr>) = Inr ()"
    unfolding validate_profile_routing_receipt_ok
    by (simp add: digest is_digest_hex profile_receipt_consistent_def build_profile_receipt_def
        search_snapshot_fields own_store_def example_store_outcome_def)
  have built: "pr_authorization_snapshot_digest ?b = sn_snapshot_digest search_snapshot"
    "pr_actor_id ?b = ActorId ''a''" "pr_subject_profile_id ?b = MemoryProfileId ''p''"
    by (simp_all add: build_profile_receipt_def search_snapshot_fields)
  have keys: "has_key act_actor_id (ActorId ''a'') (db_actors (st_pool st1))"
    "has_key mp_profile_id (MemoryProfileId ''p'') (db_profiles (st_pool st1))"
    unfolding st1 by (simp_all add: has_key_def example_registry_def actor_new_def)
  have json: "rl_receipt_json ?lib (?b\<lparr>pr_receipt_digest := ?digest\<rparr>) = Inr ''p''"
    unfolding receipt by simp
  have "length ?digest = 64" by (simp add: toy_hash_def)
  moreover have "length (sn_snapshot_digest search_snapshot) = 64"
    using search_snapshot_fields(2) by (simp add: is_digest_def)
  ultimately obtain row where rows: "persist_profile_routing_receipt ?lib [7] example_pool_env
      (?b\<lparr>pr_receipt_digest := ?digest\<rparr>) (st_pool st1) [] = Inr [row]"
    and "pw_receipt_id row = pr_receipt_id (?b\<lparr>pr_receipt_digest := ?digest\<rparr>)"
    using persist_first_profile_receipt [OF valid json, of "st_pool st1" example_pool_env] built keys
    by auto
  then have row: "pw_receipt_id row = pr_receipt_id example_profile_receipt"
    unfolding receipt by blast
  have fin: "finish_profile_receipt example_profile_env ?b st1 =
      (Inr example_profile_receipt, st1\<lparr>st_profile_receipts := [row]\<rparr>)"
    unfolding finish_profile_receipt_def lib bindS_readS st1 digest sum.case Let_def valid rows
    unfolding receipt ..
  have "validate_profile_routing_receipt ?lib [7] example_profile_receipt = Inr ()"
    using valid unfolding receipt .
  then have "get_profile_routing_receipt ?lib [7] (pr_receipt_id example_profile_receipt) [row] =
      Inr (Some example_profile_receipt)"
    by (simp add: get_profile_routing_receipt_def row_by_single row as_catalog_def)
  then show ?thesis
    using one merge fin
    by (auto simp: routed_search_for_profile_def bindS_ok lib search_build search_snapshot_fields
        Let_def st1 simp del: bindS_readS)
qed

theorem profile_search_confined_witness:
  "\<exists>results receipt st' s. routed_search_for_profile example_profile_env toy_memory ''snap''
     (ActorId ''a'') example_request 15 example_store_state = (Inr (results, receipt), st') \<and>
     results = [example_profile_result] \<and> profile_receipt_consistent receipt \<and>
     admitted_store (st_pool example_store_state) (MemoryProfileId ''p'') Search [] 15 s \<and>
     result_from toy_memory example_request s example_profile_result"
proof -
  obtain st' where run: "routed_search_for_profile example_profile_env toy_memory ''snap''
     (ActorId ''a'') example_request 15 example_store_state =
       (Inr ([example_profile_result], example_profile_receipt), st')"
    using example_profile_search [OF example_request_def] by blast
  have "distinct (map ms_store_id (db_stores (st_pool example_store_state)))"
    by (simp add: example_store_state_def example_registry_def)
  note confined = profile_search_confined [OF run example_handles this]
  have "rq_namespaces example_request = None" "pe_crypto (sx_pool example_profile_env) = toy_crypto"
    by (simp_all add: example_request_def routing_request_new_def example_profile_env_def
        example_search_env_def example_pool_env_def)
  from confined [unfolded this search_build] search_snapshot_fields run show ?thesis by auto
qed

end
