(* ===== verification/Witnessed_Search.thy ===== *)
theory Witnessed_Search
  imports Profile_Search Server_Control
begin

text \<open>
  The search endpoints (\<open>src/server.rs\<close>): the unprofiled search over the shard catalog or a legacy
  database, the search of an actor's profile, and their handlers.
\<close>

section \<open>Requests and items\<close>

datatype SearchSourceType = Facts | Chunks | Messages | Episodes

record McpSearchRequest =
  ms_query :: string
  ms_namespaces :: "string list option"
  ms_source_types :: "string list option"
  ms_limit :: "usize option"

record WitnessedSearchItem =
  wi_item_id :: string
  wi_namespace :: string
  wi_content :: string
  wi_score :: u64
  wi_source :: string
  wi_proof :: string
  wi_source_provenance :: string

record WitnessedSearchResponse =
  ws_results :: "WitnessedSearchItem list"
  ws_receipt :: "string option"
  ws_receipt_stored :: bool

record ProfileWitnessedSearchItem =
  pi_item :: WitnessedSearchItem
  pi_store_id :: string
  pi_profile_id :: string
  pi_owner_device_id :: string

record ProfileWitnessedSearchResponse =
  px_results :: "ProfileWitnessedSearchItem list"
  px_receipt :: ProfileRoutingReceipt
  px_receipt_stored :: bool

text \<open>
  The \<open>source\<close> of a result of semantic-memory; the scope key of a projection is shown as JSON, which
  can fail.
\<close>

datatype SearchSource =
    SourceFact string string
  | SourceChunk string string
  | SourceMessage i64
  | SourceEpisode string
  | SourceProjection string "string + string"

text \<open>
  What the searches take from semantic-memory and the standard library: the source of a result and
  the name of its kind, Unicode lower case, and the legacy database, which is searched with a
  receipt known by its id.
\<close>

record 'm witness_lib =
  wl_source :: "SearchResult \<Rightarrow> SearchSource"
  wl_kind :: "SearchSource \<Rightarrow> string"
  wl_lowercase :: "string \<Rightarrow> string"
  wl_has_legacy_memory :: bool
  wl_legacy_path_exists :: bool
  wl_legacy_search :: "string \<Rightarrow> usize option \<Rightarrow> string list option \<Rightarrow> SearchSourceType list option \<Rightarrow>
     'm \<Rightarrow> (MemoryError + SearchResult list \<times> string option) \<times> 'm"
  wl_legacy_receipt :: "string \<Rightarrow> 'm \<Rightarrow> bool"

definition parse_source_type :: "'m witness_lib \<Rightarrow> string \<Rightarrow> MnemesError + SearchSourceType" where
  "parse_source_type w value =
     (let v = wl_lowercase w value in
      if v = ''facts'' \<or> v = ''fact'' then Inr Facts
      else if v = ''chunks'' \<or> v = ''chunk'' then Inr Chunks
      else if v = ''messages'' \<or> v = ''message'' then Inr Messages
      else if v = ''episodes'' \<or> v = ''episode'' then Inr Episodes
      else Inl (InvalidAsOf (''unsupported source_type '' @ value)))"

fun parse_operation_source_types ::
    "'m witness_lib \<Rightarrow> string list \<Rightarrow> MnemesError + SearchSourceType list" where
  "parse_operation_source_types w [] = Inr []"
| "parse_operation_source_types w (value # raw) =
     bindR (parse_source_type w value) (\<lambda>t.
     bindR (parse_operation_source_types w raw) (\<lambda>ts. Inr (t # ts)))"

definition requested_source_types ::
    "'m witness_lib \<Rightarrow> McpSearchRequest \<Rightarrow> MnemesError + SearchSourceType list option" where
  "requested_source_types w request =
     (case ms_source_types request of
        None \<Rightarrow> Inr None
      | Some values \<Rightarrow> bindR (parse_operation_source_types w values) (\<lambda>ts. Inr (Some ts)))"

definition result_from_operation_source ::
    "'m witness_lib \<Rightarrow> SearchSource \<Rightarrow> string \<Rightarrow> u64 \<Rightarrow> WitnessedSearchItem" where
  "result_from_operation_source w source content score =
     (let (item_id, namespace) = (case source of
            SourceFact fact_id namespace \<Rightarrow> (''fact:'' @ fact_id, namespace)
          | SourceChunk chunk_id document_id \<Rightarrow> (''chunk:'' @ chunk_id, document_id)
          | SourceMessage message_id \<Rightarrow> (''message:'' @ dec_int message_id, dec_int message_id)
          | SourceEpisode episode_id \<Rightarrow> (''episode:'' @ episode_id, episode_id)
          | SourceProjection projection_id scope_key \<Rightarrow> (''projection:'' @ projection_id,
              (case scope_key of Inr json \<Rightarrow> json | Inl _ \<Rightarrow> ''unknown''))) in
      \<lparr> wi_item_id = item_id, wi_namespace = namespace, wi_content = content, wi_score = score,
        wi_source = wl_kind w source, wi_proof = ''unverified'', wi_source_provenance = ''unknown'' \<rparr>)"

definition item_of_result :: "'m witness_lib \<Rightarrow> SearchResult \<Rightarrow> WitnessedSearchItem" where
  "item_of_result w r = result_from_operation_source w (wl_source w r) (se_content r) (se_score r)"

definition result_from_profile_routed_search_result ::
    "'m witness_lib \<Rightarrow> ProfileRoutedSearchResult \<Rightarrow> ProfileWitnessedSearchItem" where
  "result_from_profile_routed_search_result w value =
     \<lparr> pi_item = (item_of_result w (pq_result value))\<lparr>wi_namespace := pq_namespace value\<rparr>,
       pi_store_id = pq_store_id value, pi_profile_id = profile_id_str (pq_profile_id value),
       pi_owner_device_id = device_id_str (pq_owner_device_id value) \<rparr>"

definition routed_request ::
    "McpSearchRequest \<Rightarrow> SearchSourceType list option \<Rightarrow> SearchSourceType RoutingSearchRequest" where
  "routed_request request source_types =
     \<lparr> rq_query = ms_query request,
       rq_top_k = (case ms_limit request of None \<Rightarrow> 10 | Some n \<Rightarrow> n),
       rq_namespaces = ms_namespaces request, rq_source_types = source_types,
       rq_shard_budget = None, rq_exhaustive = False \<rparr>"

section \<open>The searches\<close>

text \<open>The requester is the first registered device, not the authenticated one.\<close>

definition run_witnessed_search ::
    "search_env \<Rightarrow> ('s, 'm, SearchSourceType) memory_lib \<Rightarrow> 'm witness_lib \<Rightarrow> string \<Rightarrow> McpSearchRequest \<Rightarrow>
     ('s, 'm, 'z) MnemesStore_scheme \<Rightarrow>
     (MnemesError + WitnessedSearchResponse) \<times> ('s, 'm, 'z) MnemesStore_scheme" where
  "run_witnessed_search env lib w fresh_id request =
     bindS (readS (\<lambda>_. requested_source_types w request)) (\<lambda>source_types. \<lambda>st.
     if has_registered_shards (st_pool st) \<and> \<not> wl_has_legacy_memory w then
       (let requester = (case list_devices (st_pool st) of
              d # _ \<Rightarrow> dev_device_id d | [] \<Rightarrow> DeviceId fresh_id) in
        bindS (routed_search env lib requester (routed_request request source_types)) (\<lambda>(results, _).
        readS (\<lambda>_. Inr \<lparr> ws_results = map (\<lambda>r. item_of_result w (rr_result r)) results,
          ws_receipt = None, ws_receipt_stored = False \<rparr>)) st)
     else if wl_legacy_path_exists w \<or> wl_has_legacy_memory w then
        bindS (call_memory (wl_legacy_search w (ms_query request) (ms_limit request)
          (ms_namespaces request) source_types)) (\<lambda>(results, receipt).
        readS (\<lambda>st. Inr \<lparr> ws_results = map (item_of_result w) results, ws_receipt = receipt,
          ws_receipt_stored = (case receipt of
             None \<Rightarrow> False | Some receipt_id \<Rightarrow> wl_legacy_receipt w receipt_id (st_memory st)) \<rparr>)) st
     else (Inr \<lparr> ws_results = [], ws_receipt = None, ws_receipt_stored = False \<rparr>, st))"

definition run_profile_witnessed_search ::
    "search_env \<Rightarrow> ('s, 'm, SearchSourceType) memory_lib \<Rightarrow> 'm witness_lib \<Rightarrow> string \<Rightarrow> u64 \<Rightarrow> ActorId \<Rightarrow>
     McpSearchRequest \<Rightarrow> ('s, 'm, 'z) MnemesStore_scheme \<Rightarrow>
     (MnemesError + ProfileWitnessedSearchResponse) \<times> ('s, 'm, 'z) MnemesStore_scheme" where
  "run_profile_witnessed_search env lib w snapshot_id now actor_id request =
     bindS (readS (\<lambda>_. requested_source_types w request)) (\<lambda>source_types.
     bindS (routed_search_for_profile env lib snapshot_id actor_id (routed_request request source_types) now)
       (\<lambda>(results, routing_receipt).
     bindS (readS (\<lambda>st. bindR (get_profile_routing_receipt (sx_receipts env) (st_receipt_auth_key st)
         (pr_receipt_id routing_receipt) (st_profile_receipts st)) (\<lambda>receipt.
         ok_or (AuthorizationSnapshotInvalid ''profile routing receipt was not persisted'') receipt)))
       (\<lambda>receipt.
     readS (\<lambda>_. Inr \<lparr> px_results = map (result_from_profile_routed_search_result w) results,
       px_receipt = receipt, px_receipt_stored = True \<rparr>))))"

section \<open>The handlers\<close>

definition search_witnessed_handler ::
    "'u server_env \<Rightarrow> search_env \<Rightarrow> ('s, 'm, SearchSourceType) memory_lib \<Rightarrow> 'm witness_lib \<Rightarrow> HeaderMap \<Rightarrow>
     McpSearchRequest \<Rightarrow> ('s, 'm, 'z) MnemesStore_scheme \<Rightarrow>
     WitnessedSearchResponse response \<times> ('s, 'm, 'z) MnemesStore_scheme" where
  "search_witnessed_handler env senv lib w headers request =
     authorized env headers None (\<lambda>_.
     handling (run_witnessed_search senv lib w (sv_fresh_id env) request) (\<lambda>body. \<lambda>st.
     ((OK, Inr body), st)))"

text \<open>The payload with its unexpected fields, which the handler refuses.\<close>

definition search_profile_witnessed_handler ::
    "'u server_env \<Rightarrow> search_env \<Rightarrow> ('s, 'm, SearchSourceType) memory_lib \<Rightarrow> 'm witness_lib \<Rightarrow> u64 \<Rightarrow>
     HeaderMap \<Rightarrow> string \<Rightarrow> McpSearchRequest \<Rightarrow> string list \<Rightarrow> ('s, 'm, 'z) MnemesStore_scheme \<Rightarrow>
     ProfileWitnessedSearchResponse response \<times> ('s, 'm, 'z) MnemesStore_scheme" where
  "search_profile_witnessed_handler env senv lib w now headers raw_actor request unexpected =
     (if unexpected \<noteq> [] then (\<lambda>st. ((BAD_REQUEST, Inl ''invalid request''), st))
      else
        handling (readS (\<lambda>_. parse_actor_id (sv_uuid env) raw_actor)) (\<lambda>actor_id.
        authorized env headers (Some actor_id) (\<lambda>context.
        handling (readS (\<lambda>_. ok_or (AuthorizationDenied ''actor required'') (sc_actor context))) (\<lambda>actor.
        handling (run_profile_witnessed_search senv lib w (sv_fresh_id env) now (act_actor_id actor) request)
          (\<lambda>body. \<lambda>st. ((OK, Inr body), st))))))"

section \<open>What the profile endpoint reveals\<close>

lemma run_profile_ok:
  assumes "run_profile_witnessed_search env lib w snapshot_id now actor request st = (Inr body, st')"
  shows "\<exists>source_types results receipt. requested_source_types w request = Inr source_types \<and>
     routed_search_for_profile env lib snapshot_id actor (routed_request request source_types) now st =
       (Inr (results, receipt), st') \<and>
     get_profile_routing_receipt (sx_receipts env) (st_receipt_auth_key st') (pr_receipt_id receipt)
       (st_profile_receipts st') = Inr (Some (px_receipt body)) \<and>
     px_results body = map (result_from_profile_routed_search_result w) results \<and> px_receipt_stored body"
  using assms
  by (auto simp: run_profile_witnessed_search_def bindS_ok bindS_readS_ok bindR_eq_Inr ok_or_eq
      simp del: bindS_readS)

lemma got_profile_receipt:
  "get_profile_routing_receipt l key i rows = Inr (Some r) \<Longrightarrow> profile_receipt_consistent r"
  using validate_profile_routing_receipt_ok
  by (fastforce simp: get_profile_routing_receipt_def bindR_eq_Inr split: option.splits)

lemma authorized_actor:
  "authorize env headers (Some a) db = Inr c \<Longrightarrow>
     \<exists>actor. sc_actor c = Some actor \<and> act_actor_id actor = a \<and> act_device_id actor = dev_device_id (sc_device c)"
  using row_by_SomeD by (fastforce simp: authorize_ok get_actor_def dest!: authenticate_actor_device)

lemma run_profile_confined:
  assumes "run_profile_witnessed_search senv lib w snapshot_id now actor request st = (Inr body, st')"
  shows "\<exists>snapshot. build_authorization_snapshot (pe_crypto (sx_pool senv)) snapshot_id actor Search
         (ms_namespaces request) now (st_pool st) = Inr snapshot \<and>
       (\<forall>i \<in> set (px_results body). \<exists>s. may_search (st_pool st) (sn_subject_profile_id snapshot) now s \<and>
          pi_store_id i = ms_store_id s \<and> pi_profile_id i = profile_id_str (ms_profile_id s) \<and>
          wi_namespace (pi_item i) = ms_namespace s)"
    and "length (px_results body) \<le> (case ms_limit request of None \<Rightarrow> 10 | Some n \<Rightarrow> n)"
    and "profile_receipt_consistent (px_receipt body)"
proof -
  from run_profile_ok [OF assms] obtain source_types results receipt where
    search: "routed_search_for_profile senv lib snapshot_id actor (routed_request request source_types) now st =
      (Inr (results, receipt), st')"
    and get: "get_profile_routing_receipt (sx_receipts senv) (st_receipt_auth_key st') (pr_receipt_id receipt)
       (st_profile_receipts st') = Inr (Some (px_receipt body))"
    and items: "px_results body = map (result_from_profile_routed_search_result w) results" by blast
  have fields: "rq_namespaces (routed_request request source_types) = ms_namespaces request"
    "rq_top_k (routed_request request source_types) = (case ms_limit request of None \<Rightarrow> 10 | Some n \<Rightarrow> n)"
    by (simp_all add: routed_request_def)
  from profile_search_ok [OF search] obtain snapshot where
    snap: "build_authorization_snapshot (pe_crypto (sx_pool senv)) snapshot_id actor Search
         (ms_namespaces request) now (st_pool st) = Inr snapshot"
    and confined: "\<forall>r \<in> set results. \<exists>s. may_search (st_pool st) (sn_subject_profile_id snapshot) now s \<and>
           pq_store_id r = ms_store_id s \<and> pq_profile_id r = ms_profile_id s \<and> pq_namespace r = ms_namespace s"
    and len: "length results \<le> (case ms_limit request of None \<Rightarrow> 10 | Some n \<Rightarrow> n)"
    unfolding fields by blast
  have "\<forall>i \<in> set (px_results body). \<exists>s. may_search (st_pool st) (sn_subject_profile_id snapshot) now s \<and>
          pi_store_id i = ms_store_id s \<and> pi_profile_id i = profile_id_str (ms_profile_id s) \<and>
          wi_namespace (pi_item i) = ms_namespace s"
    using confined by (fastforce simp: items result_from_profile_routed_search_result_def)
  with snap show "\<exists>snapshot. build_authorization_snapshot (pe_crypto (sx_pool senv)) snapshot_id actor Search
         (ms_namespaces request) now (st_pool st) = Inr snapshot \<and>
       (\<forall>i \<in> set (px_results body). \<exists>s. may_search (st_pool st) (sn_subject_profile_id snapshot) now s \<and>
          pi_store_id i = ms_store_id s \<and> pi_profile_id i = profile_id_str (ms_profile_id s) \<and>
          wi_namespace (pi_item i) = ms_namespace s)" by blast
  show "length (px_results body) \<le> (case ms_limit request of None \<Rightarrow> 10 | Some n \<Rightarrow> n)"
    using len by (simp add: items)
  show "profile_receipt_consistent (px_receipt body)" by (rule got_profile_receipt [OF get])
qed

text \<open>With a receipt codec that reads back what it writes, the answer has the receipt of this search.\<close>

lemma run_profile_found:
  assumes "run_profile_witnessed_search senv lib w snapshot_id now actor request st = (Inr body, st')"
    and "handles_ok lib st" and "distinct (map ms_store_id (db_stores (st_pool st)))"
    and "receipt_codecs (sx_receipts senv)"
  shows "\<exists>snapshot source_types results found. requested_source_types w request = Inr source_types \<and>
     build_authorization_snapshot (pe_crypto (sx_pool senv)) snapshot_id actor Search
       (ms_namespaces request) now (st_pool st) = Inr snapshot \<and>
     pr_actor_id (px_receipt body) = actor \<and>
     pr_subject_profile_id (px_receipt body) = sn_subject_profile_id snapshot \<and>
     pr_authorization_snapshot_digest (px_receipt body) = sn_snapshot_digest snapshot \<and>
     pr_authorized_stores (px_receipt body) = sn_authorized_stores snapshot \<and>
     pr_outcomes (px_receipt body) = map fst found \<and>
     pr_final_result_ids (px_receipt body) = map pq_id results \<and>
     threaded (store_searched senv lib (st_pool st) (routed_request request source_types))
       (sn_authorized_stores snapshot) found (st_memory st) (st_memory st') \<and>
     best_items (case ms_limit request of None \<Rightarrow> 10 | Some n \<Rightarrow> n) (concat (map snd found)) results \<and>
     px_results body = map (result_from_profile_routed_search_result w) results \<and>
     (\<forall>r \<in> set results. \<exists>s. admitted_store (st_pool st) (sn_subject_profile_id snapshot) Search
        (case ms_namespaces request of None \<Rightarrow> [] | Some ns \<Rightarrow> ns) now s \<and>
        result_from lib (routed_request request source_types) s r) \<and> handles_ok lib st'"
proof -
  from run_profile_ok [OF assms(1)] obtain source_types results receipt where
    types: "requested_source_types w request = Inr source_types" and
    search: "routed_search_for_profile senv lib snapshot_id actor (routed_request request source_types) now st =
      (Inr (results, receipt), st')"
    and get: "get_profile_routing_receipt (sx_receipts senv) (st_receipt_auth_key st') (pr_receipt_id receipt)
       (st_profile_receipts st') = Inr (Some (px_receipt body))"
    and items: "px_results body = map (result_from_profile_routed_search_result w) results" by blast
  have fields: "rq_namespaces (routed_request request source_types) = ms_namespaces request"
    "rq_top_k (routed_request request source_types) = (case ms_limit request of None \<Rightarrow> 10 | Some n \<Rightarrow> n)"
    by (simp_all add: routed_request_def)
  from profile_search_ok [OF search] obtain snapshot where
    snap: "build_authorization_snapshot (pe_crypto (sx_pool senv)) snapshot_id actor Search
         (rq_namespaces (routed_request request source_types)) now (st_pool st) = Inr snapshot"
    and labels: "pr_subject_profile_id receipt = sn_subject_profile_id snapshot"
     "pr_authorization_snapshot_digest receipt = sn_snapshot_digest snapshot"
     "pr_authorized_stores receipt = sn_authorized_stores snapshot"
     "pr_final_result_ids receipt = map pq_id results" by blast
  note found = profile_search_found [OF search assms(2,3) snap, unfolded fields]
  then have "px_receipt body = receipt" using get assms(4) by auto
  then show ?thesis
    using types snap labels items found unfolding fields by blast
qed

text \<open>
  C8. A profile search over HTTP that is answered with 200 is the search of an actor of the
  authenticated device, and shows only what that actor's profile may search now. The request had
  no further fields. The stores of the actor's snapshot were searched, each in the database at its
  own path; the items are the best \<open>limit\<close> (10 without one) of what they returned, so each was
  found in the database of an admitted store and shows that store's id, profile and namespace. The
  receipt in the answer is the one this search wrote: consistent, naming the actor, the snapshot's
  subject, digest and stores, with the outcome of every store.
\<close>

theorem profile_endpoint_confined:
  assumes "search_profile_witnessed_handler env senv lib w now headers raw request unexpected st =
      ((OK, Inr body), st')"
    and "handles_ok lib st" and "distinct (map ms_store_id (db_stores (st_pool st)))"
    and "receipt_codecs (sx_receipts senv)"
  shows "unexpected = [] \<and>
    (\<exists>c actor snapshot source_types results found.
       authorize env headers (Some (act_actor_id actor)) (st_pool st) = Inr c \<and>
       sc_actor c = Some actor \<and> act_device_id actor = dev_device_id (sc_device c) \<and>
       requested_source_types w request = Inr source_types \<and>
       build_authorization_snapshot (pe_crypto (sx_pool senv)) (sv_fresh_id env) (act_actor_id actor) Search
         (ms_namespaces request) now (st_pool st) = Inr snapshot \<and>
       pr_actor_id (px_receipt body) = act_actor_id actor \<and>
       pr_subject_profile_id (px_receipt body) = sn_subject_profile_id snapshot \<and>
       pr_authorization_snapshot_digest (px_receipt body) = sn_snapshot_digest snapshot \<and>
       pr_authorized_stores (px_receipt body) = sn_authorized_stores snapshot \<and>
       pr_outcomes (px_receipt body) = map fst found \<and>
       pr_final_result_ids (px_receipt body) = map pq_id results \<and>
       threaded (store_searched senv lib (st_pool st) (routed_request request source_types))
         (sn_authorized_stores snapshot) found (st_memory st) (st_memory st') \<and>
       best_items (case ms_limit request of None \<Rightarrow> 10 | Some n \<Rightarrow> n) (concat (map snd found)) results \<and>
       px_results body = map (result_from_profile_routed_search_result w) results \<and>
       (\<forall>r \<in> set results. \<exists>s. admitted_store (st_pool st) (sn_subject_profile_id snapshot) Search
          (case ms_namespaces request of None \<Rightarrow> [] | Some ns \<Rightarrow> ns) now s \<and>
          result_from lib (routed_request request source_types) s r) \<and>
       (\<forall>i \<in> set (px_results body). \<exists>s. admitted_store (st_pool st) (sn_subject_profile_id snapshot) Search
          (case ms_namespaces request of None \<Rightarrow> [] | Some ns \<Rightarrow> ns) now s \<and>
          pi_store_id i = ms_store_id s \<and> pi_profile_id i = profile_id_str (ms_profile_id s) \<and>
          wi_namespace (pi_item i) = ms_namespace s)) \<and>
    length (px_results body) \<le> (case ms_limit request of None \<Rightarrow> 10 | Some n \<Rightarrow> n) \<and>
    profile_receipt_consistent (px_receipt body) \<and> handles_ok lib st'"
proof -
  from assms(1) obtain a c actor where unexpected: "unexpected = []"
    and c: "authorize env headers (Some a) (st_pool st) = Inr c" "sc_actor c = Some actor"
    and run: "run_profile_witnessed_search senv lib w (sv_fresh_id env) now (act_actor_id actor) request st =
      (Inr body, st')"
    by (auto simp: search_profile_witnessed_handler_def handler_ok ok_or_eq split: if_splits)
  have actor: "act_actor_id actor = a" "act_device_id actor = dev_device_id (sc_device c)"
    using authorized_actor [OF c(1)] c(2) by auto
  from run_profile_found [OF run assms(2-4)] obtain snapshot source_types results found where
    R: "requested_source_types w request = Inr source_types"
     "build_authorization_snapshot (pe_crypto (sx_pool senv)) (sv_fresh_id env) (act_actor_id actor) Search
       (ms_namespaces request) now (st_pool st) = Inr snapshot"
     "pr_actor_id (px_receipt body) = act_actor_id actor"
     "pr_subject_profile_id (px_receipt body) = sn_subject_profile_id snapshot"
     "pr_authorization_snapshot_digest (px_receipt body) = sn_snapshot_digest snapshot"
     "pr_authorized_stores (px_receipt body) = sn_authorized_stores snapshot"
     "pr_outcomes (px_receipt body) = map fst found"
     "pr_final_result_ids (px_receipt body) = map pq_id results"
     "threaded (store_searched senv lib (st_pool st) (routed_request request source_types))
       (sn_authorized_stores snapshot) found (st_memory st) (st_memory st')"
     "best_items (case ms_limit request of None \<Rightarrow> 10 | Some n \<Rightarrow> n) (concat (map snd found)) results"
    and items: "px_results body = map (result_from_profile_routed_search_result w) results"
    and origin: "\<forall>r \<in> set results. \<exists>s. admitted_store (st_pool st) (sn_subject_profile_id snapshot) Search
        (case ms_namespaces request of None \<Rightarrow> [] | Some ns \<Rightarrow> ns) now s \<and>
        result_from lib (routed_request request source_types) s r"
    and ok: "handles_ok lib st'"
    by blast
  have "\<forall>i \<in> set (px_results body). \<exists>s. admitted_store (st_pool st) (sn_subject_profile_id snapshot) Search
          (case ms_namespaces request of None \<Rightarrow> [] | Some ns \<Rightarrow> ns) now s \<and>
          pi_store_id i = ms_store_id s \<and> pi_profile_id i = profile_id_str (ms_profile_id s) \<and>
          wi_namespace (pi_item i) = ms_namespace s"
    using origin by (fastforce simp: items result_from_def result_from_profile_routed_search_result_def)
  with unexpected c actor R items origin ok run_profile_confined(2,3) [OF run] show ?thesis by blast
qed

section \<open>A search through the endpoint\<close>

definition example_profile_server :: "string server_env" where
  "example_profile_server = example_server_env\<lparr>sv_fresh_id := ''snap''\<rparr>"

definition example_device_header :: HeaderMap where
  "example_device_header = Some (Some ''Bearer d:s1'')"

definition example_mcp_search :: McpSearchRequest where
  "example_mcp_search = \<lparr> ms_query = ''q'', ms_namespaces = None, ms_source_types = None, ms_limit = Some 1 \<rparr>"

definition toy_witness_lib :: "unit witness_lib" where
  "toy_witness_lib = \<lparr> wl_source = (\<lambda>r. SourceFact (se_result_id r) ''ns''), wl_kind = (\<lambda>_. ''fact''),
     wl_lowercase = (\<lambda>s. s), wl_has_legacy_memory = False, wl_legacy_path_exists = False,
     wl_legacy_search = (\<lambda>_ _ _ _ m. (Inr ([], None), m)), wl_legacy_receipt = (\<lambda>_ _. False) \<rparr>"

lemma example_device_authorized:
  "\<exists>actor. authorize example_profile_server example_device_header (Some (ActorId ''a''))
     (st_pool example_store_state) = Inr \<lparr> sc_device = example_device, sc_actor = Some actor \<rparr> \<and>
     act_actor_id actor = ActorId ''a''"
proof -
  have "trim_start_matches ''Bearer '' ''Bearer d:s1'' = ''d:s1''"
    by (subst trim_start_matches.simps, simp, subst trim_start_matches.simps, simp)
  moreover have "trim ''d:s1'' = ''d:s1''" by (rule trim_printable) simp
  ultimately have bearer: "bearer_token example_device_header = Inr ''d:s1''"
    by (simp add: bearer_token_def example_device_header_def Let_def)
  have "token_parts_ok toy_uuid (DeviceId ''d'') ''s1''"
    by (simp add: token_parts_ok_def toy_device_id_parse is_ascii_alphanumeric_def
      is_ascii_digit_def is_ascii_lowercase_def)
  then have token: "parse_authorization_token toy_uuid ''d:s1'' = Inr (DeviceId ''d'', ''s1'')"
    using parse_generated_token [of toy_uuid "DeviceId ''d''" "''s1''" toy_crypto] by (simp add: cred_new)
  have "get_device (DeviceId ''d'') (st_pool example_store_state) = Some example_device"
    by (simp add: get_device_def row_by_def example_store_state_def example_registry_def example_device_def
        device_new_def)
  then show ?thesis
    by (simp add: authorize_def bearer authenticate_request_def token_device_id_def token
        example_profile_server_def example_server_env_def example_pool_env_def get_actor_def row_by_def
        example_store_state_def example_registry_def actor_new_def)
      (simp add: example_device_def device_new_def device_credential_verify_def
        device_credential_new_def Let_def)
qed

theorem profile_endpoint_confined_witness:
  "\<exists>body st'. search_profile_witnessed_handler example_profile_server example_profile_env toy_memory
     toy_witness_lib 15 example_device_header ''a'' example_mcp_search [] example_store_state =
       ((OK, Inr body), st') \<and>
     length (px_results body) = 1 \<and> profile_receipt_consistent (px_receipt body) \<and>
     (\<forall>i \<in> set (px_results body). \<exists>s subject. admitted_store (st_pool example_store_state) subject Search
        [] 15 s \<and> pi_store_id i = ms_store_id s)"
proof -
  have request: "routed_request example_mcp_search None = routing_request_new ''q'' 1"
    by (simp add: routed_request_def example_mcp_search_def routing_request_new_def)
  obtain st' where search: "routed_search_for_profile example_profile_env toy_memory ''snap''
     (ActorId ''a'') (routed_request example_mcp_search None) 15 example_store_state =
       (Inr ([example_profile_result], example_profile_receipt), st')"
    and get: "get_profile_routing_receipt (sx_receipts example_profile_env) (st_receipt_auth_key st')
       (pr_receipt_id example_profile_receipt) (st_profile_receipts st') = Inr (Some example_profile_receipt)"
    using example_profile_search [OF request] by blast
  have types: "requested_source_types toy_witness_lib example_mcp_search = Inr None"
    by (simp add: requested_source_types_def example_mcp_search_def)
  have run: "run_profile_witnessed_search example_profile_env toy_memory toy_witness_lib ''snap'' 15
      (ActorId ''a'') example_mcp_search example_store_state =
     (Inr \<lparr> px_results = [result_from_profile_routed_search_result toy_witness_lib example_profile_result],
        px_receipt = example_profile_receipt, px_receipt_stored = True \<rparr>, st')"
    by (simp add: run_profile_witnessed_search_def bindS_ok bindS_readS_ok types search get
        bindR_eq_Inr ok_or_eq del: bindS_readS)
  have "parse_actor_id (sv_uuid example_profile_server) ''a'' = Inr (ActorId ''a'')"
    "sv_fresh_id example_profile_server = ''snap''"
    by (simp_all add: example_profile_server_def example_server_env_def parse_actor_id_def actor_id_parse_def
      opaque_parse_def toy_uuid_def)
  with example_device_authorized run have
    "\<exists>body. search_profile_witnessed_handler example_profile_server example_profile_env toy_memory
     toy_witness_lib 15 example_device_header ''a'' example_mcp_search [] example_store_state =
       ((OK, Inr body), st') \<and> length (px_results body) = 1"
    by (auto simp: search_profile_witnessed_handler_def handler_ok ok_or_eq)
  then obtain body where served: "search_profile_witnessed_handler example_profile_server
     example_profile_env toy_memory toy_witness_lib 15 example_device_header ''a'' example_mcp_search []
     example_store_state = ((OK, Inr body), st')" and "length (px_results body) = 1" by blast
  have "distinct (map ms_store_id (db_stores (st_pool example_store_state)))"
    by (simp add: example_store_state_def example_registry_def)
  note confined = profile_endpoint_confined [OF served example_handles this example_profile_codecs]
  have "ms_namespaces example_mcp_search = None" by (simp add: example_mcp_search_def)
  from confined [unfolded this option.case] served \<open>length (px_results body) = 1\<close> show ?thesis by blast
qed

end
