(* ===== verification/Json_Value.thy ===== *)
theory Json_Value
  imports Mnemes_Prelude
begin

text \<open>
  \<open>serde_json\<close>'s values as far as the program builds and inspects them: the arguments of MCP tools and
  the metadata of provenance edges. Reading and writing JSON text is serde's and a parameter where
  it is used.
\<close>

section \<open>Values\<close>

text \<open>\<open>serde_json::Value\<close>; an object has each key once, and the order of its keys does not matter.\<close>

datatype Value =
    JNull
  | JBool bool
  | JNumber int
  | JString string
  | JArray "Value list"
  | JObject "(string \<times> Value) list"

fun as_object :: "Value \<Rightarrow> (string \<times> Value) list option" where
  "as_object (JObject obj) = Some obj"
| "as_object _ = None"

fun as_str :: "Value \<Rightarrow> string option" where
  "as_str (JString s) = Some s"
| "as_str _ = None"

fun json_insert :: "string \<Rightarrow> Value \<Rightarrow> (string \<times> Value) list \<Rightarrow> (string \<times> Value) list" where
  "json_insert key value [] = [(key, value)]"
| "json_insert key value ((k, v) # rest) =
     (if k = key then (key, value) # rest else (k, v) # json_insert key value rest)"

lemma map_of_json_insert [simp]: "map_of (json_insert key value m) = (map_of m)(key \<mapsto> value)"
  by (induction m) auto

end
