(* ===== verification/Mcp_Catalog.thy ===== *)
theory Mcp_Catalog
  imports Server_Http Json_Value
begin

text \<open>
  The tools of the MCP endpoint (\<open>src/server.rs\<close>): the list that an actor sees, the sets of names
  that the dispatcher tests, and the parameters of a call, as JSON values (\<open>Json_Value\<close>).
\<close>

section \<open>The list of tools\<close>

record McpTool =
  mt_name :: string
  mt_description :: string
  mt_input_schema :: Value

definition mcp_tool :: "string \<Rightarrow> string \<Rightarrow> Value \<Rightarrow> McpTool" where
  "mcp_tool name description schema =
     \<lparr> mt_name = name, mt_description = description, mt_input_schema = schema \<rparr>"

text \<open>The shapes that the schemas are written with.\<close>

definition string_schema :: Value where
  "string_schema = JObject [(''type'', JString ''string'')]"

definition uuid_schema :: Value where
  "uuid_schema = JObject [(''type'', JString ''string''), (''format'', JString ''uuid'')]"

definition strings_schema :: Value where
  "strings_schema = JObject [(''type'', JString ''array''), (''items'', string_schema)]"

definition limit_schema :: Value where
  "limit_schema = JObject [(''type'', JString ''integer''), (''minimum'', JNumber 1)]"

definition empty_schema :: Value where
  "empty_schema = JObject [(''type'', JString ''object''), (''additionalProperties'', JBool False)]"

definition object_schema :: "(string \<times> Value) list \<Rightarrow> string list option \<Rightarrow> Value" where
  "object_schema properties required =
     JObject ([(''type'', JString ''object''), (''properties'', JObject properties)] @
       (case required of None \<Rightarrow> [] | Some names \<Rightarrow> [(''required'', JArray (map JString names))]) @
       [(''additionalProperties'', JBool False)])"

definition agent_tools :: "McpTool list" where
  "agent_tools =
     [mcp_tool ''sm_get_device'' ''Return a device by UUID''
       (object_schema [(''device_id'', uuid_schema)]
       (Some [''device_id''])),
      mcp_tool ''sm_list_devices'' ''List registered devices''
       empty_schema,
      mcp_tool ''sm_get_actor'' ''Return an actor by UUID''
       (object_schema [(''actor_id'', uuid_schema)]
       (Some [''actor_id''])),
      mcp_tool ''sm_get_operation'' ''Return a persisted operation envelope by UUID''
       (object_schema [(''operation_id'', uuid_schema)]
       (Some [''operation_id''])),
      mcp_tool ''sm_search_witnessed'' ''Search witnessed semantic-memory entries''
       (object_schema [(''query'', string_schema),
       (''namespaces'', strings_schema),
       (''source_types'', strings_schema),
       (''limit'', limit_schema)]
       (Some [''query''])),
      mcp_tool ''sm_search_profile_witnessed'' (''Search stores admitted by the authenticated actor'' @ [CHR 0x27] @ ''s bound profile'')
       (object_schema [(''query'', string_schema),
       (''namespaces'', strings_schema),
       (''source_types'', strings_schema),
       (''limit'', limit_schema)]
       (Some [''query''])),
      mcp_tool ''sm_stats'' ''Read registry and semantic memory statistics''
       empty_schema,
      mcp_tool ''sm_health'' ''Read service health''
       empty_schema,
      mcp_tool ''sm_heartbeat'' ''Heartbeat for authenticated device''
       (object_schema [(''device_id'', uuid_schema)]
       None)]"

definition operator_tools :: "McpTool list" where
  "operator_tools =
     [mcp_tool ''sm_register_device'' ''Register a new device''
       (object_schema [(''label'', string_schema),
       (''platform'', string_schema),
       (''hostname'', string_schema)]
       (Some [''label'', ''platform'', ''hostname''])),
      mcp_tool ''sm_revoke_device'' ''Revoke an existing device''
       (object_schema [(''device_id'', uuid_schema)]
       (Some [''device_id''])),
      mcp_tool ''sm_rotate_device_key'' ''Rotate a device credential''
       (object_schema [(''device_id'', uuid_schema)]
       (Some [''device_id''])),
      mcp_tool ''sm_register_actor'' ''Register an actor''
       (object_schema [(''device_id'', uuid_schema),
       (''actor_kind'', string_schema),
       (''provider_model'', string_schema),
       (''tool_profile'', string_schema)]
       (Some [''device_id'', ''actor_kind''])),
      mcp_tool ''sm_submit_operation'' ''Submit an operation envelope''
       (object_schema [(''idempotency_key'', string_schema),
       (''requesting_device_id'', uuid_schema),
       (''requesting_actor_id'', uuid_schema),
       (''operation_kind'', string_schema),
       (''target_kind'', string_schema),
       (''target_id'', string_schema),
       (''content_digest'', string_schema),
       (''recording_device_id'', uuid_schema),
       (''recording_server_id'', uuid_schema),
       (''observed_at'', string_schema),
       (''valid_time'', string_schema)]
       (Some [''idempotency_key'', ''requesting_device_id'', ''requesting_actor_id'', ''operation_kind'', ''target_kind'', ''target_id'', ''content_digest''])),
      mcp_tool ''sm_verify_integrity'' ''Run integrity checks''
       empty_schema]"

definition is_operator :: "Actor option \<Rightarrow> bool" where
  "is_operator actor = (case actor of None \<Rightarrow> False | Some value \<Rightarrow> act_tool_profile value = Operator)"

definition tools_for_actor :: "Actor option \<Rightarrow> McpTool list" where
  "tools_for_actor actor = agent_tools @ (if is_operator actor then operator_tools else [])"

section \<open>The tests of the dispatcher\<close>

definition read_tool :: "string \<Rightarrow> bool" where
  "read_tool name \<longleftrightarrow> name \<in> {''sm_get_device'', ''sm_list_devices'', ''sm_get_actor'', ''sm_get_operation'',
     ''sm_search_witnessed'', ''sm_search_profile_witnessed'', ''sm_stats'', ''sm_health'', ''sm_heartbeat''}"

definition operator_tool :: "string \<Rightarrow> bool" where
  "operator_tool name \<longleftrightarrow> name \<in> {''sm_register_device'', ''sm_revoke_device'', ''sm_rotate_device_key'',
     ''sm_register_actor'', ''sm_submit_operation'', ''sm_verify_integrity''}"

definition hidden_tool :: "string \<Rightarrow> bool" where
  "hidden_tool name \<longleftrightarrow> name \<in> {''devices.list'', ''actors.list'', ''operations.list'', ''health.check'',
     ''operations.submit''}"

text \<open>The checks of a call before its tool runs.\<close>

definition tool_gate :: "Actor option \<Rightarrow> string \<Rightarrow> MnemesError + unit" where
  "tool_gate actor name = checks
     [fail_if (hidden_tool name) (AuthorizationDenied ''tool is not available''),
      fail_if (operator_tool name \<and> \<not> is_operator actor)
        (AuthorizationDenied ''operator profile required''),
      fail_if (\<not> read_tool name \<and> \<not> operator_tool name) (InvalidAsOf ''unsupported tool'')]"

section \<open>The parameters of a call\<close>

definition parse_tool_call :: "Value option \<Rightarrow> MnemesError + string option \<times> string \<times> Value" where
  "parse_tool_call params =
     bindR (ok_or (InvalidAsOf ''params must be object'') (Option.bind params as_object)) (\<lambda>params_obj.
     bindR (ok_or (InvalidAsOf ''missing tool name'')
       (Option.bind (map_of params_obj ''name'') as_str)) (\<lambda>name.
     let actor_id = Option.bind (map_of params_obj ''actor_id'') as_str;
         arguments = (case Option.bind (map_of params_obj ''arguments'') as_object of
             None \<Rightarrow> []
           | Some raw \<Rightarrow> fold (\<lambda>(key, value). json_insert key value) raw []);
         arguments = fold (\<lambda>(key, value).
             if key \<in> {''arguments'', ''name'', ''actor_id''} then (\<lambda>m. m) else json_insert key value)
           params_obj arguments in
     Inr (actor_id, name, JObject arguments)))"

definition parse_actor_id_param :: "'u uuid_lib \<Rightarrow> Value option \<Rightarrow> MnemesError + ActorId option" where
  "parse_actor_id_param u params =
     (case Option.bind params as_object of
        None \<Rightarrow> Inr None
      | Some params \<Rightarrow>
          (case Option.bind (map_of params ''actor_id'') as_str of
             Some raw \<Rightarrow> bindR (parse_actor_id u raw) (\<lambda>actor_id. Inr (Some actor_id))
           | None \<Rightarrow> Inr None))"

section \<open>The list is the dispatcher\<close>

lemma agent_names: "map mt_name agent_tools =
    [''sm_get_device'',
     ''sm_list_devices'',
     ''sm_get_actor'',
     ''sm_get_operation'',
     ''sm_search_witnessed'',
     ''sm_search_profile_witnessed'',
     ''sm_stats'',
     ''sm_health'',
     ''sm_heartbeat'']"
  by (simp add: agent_tools_def mcp_tool_def)

lemma operator_names: "map mt_name operator_tools =
    [''sm_register_device'',
     ''sm_revoke_device'',
     ''sm_rotate_device_key'',
     ''sm_register_actor'',
     ''sm_submit_operation'',
     ''sm_verify_integrity'']"
  by (simp add: operator_tools_def mcp_tool_def)

lemma agent_tool_names: "set (map mt_name agent_tools) = {name. read_tool name}"
  unfolding agent_names by (auto simp: read_tool_def)

lemma operator_tool_names: "set (map mt_name operator_tools) = {name. operator_tool name}"
  unfolding operator_names by (auto simp: operator_tool_def)

lemma tool_kinds_disjoint:
  "read_tool name \<Longrightarrow> \<not> operator_tool name"
  "hidden_tool name \<Longrightarrow> \<not> read_tool name \<and> \<not> operator_tool name"
  by (auto simp: hidden_tool_def read_tool_def operator_tool_def)

lemma tool_gate_ok:
  "tool_gate actor name = Inr () \<longleftrightarrow> read_tool name \<or> operator_tool name \<and> is_operator actor"
  using tool_kinds_disjoint [of name]
  by (auto simp: tool_gate_def bindR_eq_Inr fail_if_eq)

lemma tool_gate_listed:
  "name \<in> set (map mt_name (tools_for_actor actor)) \<longleftrightarrow> tool_gate actor name = Inr ()"
  using agent_tool_names operator_tool_names
  by (cases "is_operator actor") (simp_all add: tools_for_actor_def tool_gate_ok image_Un set_eq_iff)

text \<open>
  The tools that \<open>tools/list\<close> shows an actor are exactly the tools whose calls pass the checks
  of \<open>tools/call\<close> for that actor, each once: an operator sees and may call all of them, everybody
  else the read tools only, and the names of the old interface are never served.
\<close>

theorem tools_listed_are_served:
  "(name \<in> set (map mt_name (tools_for_actor actor)) \<longleftrightarrow> tool_gate actor name = Inr ()) \<and>
   distinct (map mt_name (tools_for_actor actor)) \<and>
   \<not> (hidden_tool name \<and> is_ok (tool_gate actor name))"
proof -
  have "distinct (map mt_name (tools_for_actor actor))"
    by (simp add: tools_for_actor_def agent_names operator_names operator_tool_names [simplified]
        operator_tool_def)
  with tool_gate_listed show ?thesis using tool_kinds_disjoint [of name] by (auto simp: is_ok_iff tool_gate_ok)
qed

end
