(* ===== verification/Mcp_Server.thy ===== *)
theory Mcp_Server
  imports Mcp_Catalog Witnessed_Search
begin

text \<open>
  The JSON-RPC endpoint of the server (\<open>mcp_handler\<close> of \<open>src/server.rs\<close>): its three methods, the
  fifteen tools, and the mapping of errors to JSON-RPC codes.

  A tool gets the authenticated context and the JSON value of its arguments; serde's decoding of that
  value into the request structures is a parameter, and the answers are the structures before
  serde turns them into JSON, which cannot fail for them.
\<close>

section \<open>Requests and answers\<close>

record JsonRpcRequest =
  jq_id :: "Value option"
  jq_method :: string
  jq_params :: "Value option"

record JsonRpcError =
  je_code :: int
  je_message :: string

record McpProfileWitnessedSearchRequest =
  mw_query :: string
  mw_namespaces :: "string list option"
  mw_source_types :: "string list option"
  mw_limit :: "usize option"

record PoolStats =
  ps_devices :: nat
  ps_actors :: nat
  ps_operations :: nat

record McpStatsResponse =
  mt_pooled :: PoolStats
  mt_semantic :: MemoryStats

record IntegrityCheckReport =
  ic_status :: string
  ic_detail :: string

record VerifyIntegrityResponse =
  vr_pooled_sqlite :: IntegrityCheckReport
  vr_semantic_memory :: IntegrityCheckReport

text \<open>What each tool answers with.\<close>

datatype tool_answer =
    DeviceAnswer DeviceInfo
  | DevicesAnswer "DeviceInfo list"
  | ActorAnswer ActorInfo
  | OperationAnswer OperationInfo
  | SearchAnswer WitnessedSearchResponse
  | ProfileSearchAnswer ProfileWitnessedSearchResponse
  | StatsAnswer McpStatsResponse
  | HealthAnswer HealthResponse
  | HeartbeatAnswer bool string
  | RegisteredDevice RegisterDeviceResponse
  | RevokedDevice string string
  | RotatedKey string string
  | RegisteredActor string
  | SubmittedOperation OperationEnvelopeResponse
  | IntegrityAnswered VerifyIntegrityResponse

datatype rpc_result =
    Initialized string string "McpTool list"
  | ToolsListed "McpTool list"
  | ToolResult tool_answer

record JsonRpcResponse =
  jr_jsonrpc :: string
  jr_id :: "Value option"
  jr_result :: "rpc_result option"
  jr_error :: "JsonRpcError option"

text \<open>\<open>serde_json::from_value\<close> at the structures of arguments.\<close>

record mcp_args =
  ag_device :: "Value \<Rightarrow> string option"
  ag_actor :: "Value \<Rightarrow> string option"
  ag_operation :: "Value \<Rightarrow> string option"
  ag_search :: "Value \<Rightarrow> McpSearchRequest option"
  ag_profile_search :: "Value \<Rightarrow> McpProfileWitnessedSearchRequest option"
  ag_register_device :: "Value \<Rightarrow> RegisterDeviceRequest option"
  ag_register_actor :: "Value \<Rightarrow> RegisterActorRequest option"
  ag_submit :: "Value \<Rightarrow> OperationSubmitRequest option"

text \<open>
  What the endpoint takes from outside: the server, the searches and verifications, the clock,
  SQLite's \<open>quick_check\<close> with the text \<open>error\<close> when it fails, and the debug text of a report.
\<close>

record ('s, 'm, 'u) mcp_env =
  mc_server :: "'u server_env"
  mc_search :: search_env
  mc_witness :: "'m witness_lib"
  mc_verify :: "('s, 'm) verify_lib"
  mc_now :: u64
  mc_quick_check :: "pool_db \<Rightarrow> string"
  mc_debug :: "ShardIntegrityStatus list \<Rightarrow> string"
  mc_args :: mcp_args

definition unauthorized_rpc :: "MnemesError \<Rightarrow> Value option \<Rightarrow> StatusCode \<times> JsonRpcResponse" where
  "unauthorized_rpc error rpc_id =
     (let (status, message, _) = map_store_error error;
          code = (case status of UNAUTHORIZED \<Rightarrow> -32000 | FORBIDDEN \<Rightarrow> -32001 | NOT_FOUND \<Rightarrow> -32002
            | _ \<Rightarrow> -32600) in
      (status, \<lparr> jr_jsonrpc = ''2.0'', jr_id = rpc_id, jr_result = None,
         jr_error = Some \<lparr> je_code = code, je_message = message \<rparr> \<rparr>))"

definition from_value :: "(Value \<Rightarrow> 'a option) \<Rightarrow> string \<Rightarrow> Value \<Rightarrow> MnemesError + 'a" where
  "from_value decode tool args = ok_or (InvalidAsOf (''invalid '' @ tool @ '' args'')) (decode args)"

section \<open>The tools that read\<close>

definition sm_get_device ::
    "('s, 'm, 'u) mcp_env \<Rightarrow> ServerContext \<Rightarrow> Value \<Rightarrow> pool_db \<Rightarrow> MnemesError + tool_answer" where
  "sm_get_device env context args db =
     bindR (from_value (ag_device (mc_args env)) ''sm_get_device'' args) (\<lambda>raw.
     bindR (parse_device_id (sv_uuid (mc_server env)) raw) (\<lambda>device_id.
     bindR (fail_if (device_id \<noteq> dev_device_id (sc_device context) \<and> \<not> is_operator (sc_actor context))
       (AuthorizationDenied ''device mismatch'')) (\<lambda>_.
     bindR (ok_or (DeviceNotFound raw) (get_device device_id db)) (\<lambda>device.
     Inr (DeviceAnswer (device_info device))))))"

definition sm_list_devices :: "pool_db \<Rightarrow> MnemesError + tool_answer" where
  "sm_list_devices db = Inr (DevicesAnswer (map device_info (list_devices db)))"

definition sm_get_actor ::
    "('s, 'm, 'u) mcp_env \<Rightarrow> ServerContext \<Rightarrow> Value \<Rightarrow> pool_db \<Rightarrow> MnemesError + tool_answer" where
  "sm_get_actor env context args db =
     bindR (from_value (ag_actor (mc_args env)) ''sm_get_actor'' args) (\<lambda>raw.
     bindR (parse_actor_id (sv_uuid (mc_server env)) raw) (\<lambda>actor_id.
     bindR (ok_or (ActorNotFound raw) (get_actor actor_id db)) (\<lambda>actor.
     bindR (fail_if (act_device_id actor \<noteq> dev_device_id (sc_device context))
       (AuthorizationDenied ''actor does not belong to device'')) (\<lambda>_.
     Inr (ActorAnswer (actor_info actor))))))"

definition sm_get_operation ::
    "('s, 'm, 'u) mcp_env \<Rightarrow> ServerContext \<Rightarrow> Value \<Rightarrow> pool_db \<Rightarrow> MnemesError + tool_answer" where
  "sm_get_operation env context args db =
     bindR (from_value (ag_operation (mc_args env)) ''sm_get_operation'' args) (\<lambda>raw.
     bindR (ok_or (InvalidAsOf ''invalid operation id'') (parse_id (sv_uuid (mc_server env)) raw))
       (\<lambda>operation_id.
     bindR (ok_or (InvalidAsOf ''operation not found'') (get_operation operation_id db)) (\<lambda>envelope.
     bindR (fail_if (op_requesting_device_id envelope \<noteq> dev_device_id (sc_device context))
       (AuthorizationDenied ''operation does not belong to device'')) (\<lambda>_.
     bindR (fail_if (map_option act_actor_id (sc_actor context) \<noteq> Some (op_requesting_actor_id envelope))
       (AuthorizationDenied ''actor mismatch'')) (\<lambda>_.
     Inr (OperationAnswer (operation_info envelope)))))))"

definition sm_search_witnessed ::
    "('s, 'm, 'u) mcp_env \<Rightarrow> ('s, 'm, SearchSourceType) memory_lib \<Rightarrow> Value \<Rightarrow>
     ('s, 'm, 'z) MnemesStore_scheme \<Rightarrow> (MnemesError + tool_answer) \<times> ('s, 'm, 'z) MnemesStore_scheme" where
  "sm_search_witnessed env lib args =
     bindS (readS (\<lambda>_. from_value (ag_search (mc_args env)) ''sm_search_witnessed'' args)) (\<lambda>request.
     bindS (run_witnessed_search (mc_search env) lib (mc_witness env) (sv_fresh_id (mc_server env)) request)
       (\<lambda>body.
     readS (\<lambda>_. Inr (SearchAnswer body))))"

definition sm_search_profile_witnessed ::
    "('s, 'm, 'u) mcp_env \<Rightarrow> ('s, 'm, SearchSourceType) memory_lib \<Rightarrow> ServerContext \<Rightarrow> Value \<Rightarrow>
     ('s, 'm, 'z) MnemesStore_scheme \<Rightarrow> (MnemesError + tool_answer) \<times> ('s, 'm, 'z) MnemesStore_scheme" where
  "sm_search_profile_witnessed env lib context args =
     bindS (readS (\<lambda>_. from_value (ag_profile_search (mc_args env)) ''sm_search_profile_witnessed'' args))
       (\<lambda>request.
     bindS (readS (\<lambda>_. ok_or (AuthorizationDenied ''actor required'') (sc_actor context))) (\<lambda>actor.
     bindS (run_profile_witnessed_search (mc_search env) lib (mc_witness env)
       (sv_fresh_id (mc_server env)) (mc_now env) (act_actor_id actor)
       \<lparr> ms_query = mw_query request, ms_namespaces = mw_namespaces request,
         ms_source_types = mw_source_types request, ms_limit = mw_limit request \<rparr>) (\<lambda>body.
     readS (\<lambda>_. Inr (ProfileSearchAnswer body)))))"

definition sm_stats ::
    "('s, 'm, 'src) memory_lib \<Rightarrow> ('s, 'm, 'z) MnemesStore_scheme \<Rightarrow> MnemesError + tool_answer" where
  "sm_stats lib st =
     (let pooled = \<lparr> ps_devices = count_devices (st_pool st), ps_actors = count_actors (st_pool st),
            ps_operations = count_operations (st_pool st) \<rparr> in
      bindR (shard_stats lib st) (\<lambda>semantic.
      Inr (StatsAnswer \<lparr> mt_pooled = pooled, mt_semantic = semantic \<rparr>)))"

definition quick_check :: "('s, 'm, 'u) mcp_env \<Rightarrow> pool_db \<Rightarrow> MnemesError + string" where
  "quick_check env db = Inr (mc_quick_check env db)"

definition build_health_payload ::
    "('s, 'm, 'u) mcp_env \<Rightarrow> ('s, 'm, 'src) memory_lib \<Rightarrow> pool_db \<Rightarrow> HealthResponse" where
  "build_health_payload env lib db =
     \<lparr> he_service_id = sv_server_id (mc_server env), he_schema_version = SCHEMA_VERSION,
       he_server_time = pe_now (sv_pool (mc_server env)),
       he_ready = (quick_check env db = Inr ''ok''),
       he_embedding = [(''dimensions'', dec_nat (ml_dimensions lib)), (''model'', ml_model_name lib)] \<rparr>"

definition sm_heartbeat ::
    "('s, 'm, 'u) mcp_env \<Rightarrow> ServerContext \<Rightarrow> Value \<Rightarrow> ('s, 'm, 'z) MnemesStore_scheme \<Rightarrow>
     (MnemesError + tool_answer) \<times> ('s, 'm, 'z) MnemesStore_scheme" where
  "sm_heartbeat env context args =
     bindS (readS (\<lambda>_.
       case as_object args of
         None \<Rightarrow> Inr (dev_device_id (sc_device context))
       | Some values \<Rightarrow>
           (case map_of values ''device_id'' of
              None \<Rightarrow> Inr (dev_device_id (sc_device context))
            | Some _ \<Rightarrow>
                bindR (from_value (ag_device (mc_args env)) ''sm_heartbeat'' (JObject values)) (\<lambda>raw.
                bindR (parse_device_id (sv_uuid (mc_server env)) raw) (\<lambda>device_id.
                bindR (fail_if (device_id \<noteq> dev_device_id (sc_device context))
                  (AuthorizationDenied ''device mismatch'')) (\<lambda>_. Inr device_id)))))) (\<lambda>device_id.
     bindS (poolS (heartbeat_device (sv_pool (mc_server env)) device_id)) (\<lambda>_.
     readS (\<lambda>_. Inr (HeartbeatAnswer True (device_id_str device_id)))))"

section \<open>The tools of operators\<close>

definition sm_register_device ::
    "('s, 'm, 'u) mcp_env \<Rightarrow> Value \<Rightarrow> ('s, 'm, 'z) MnemesStore_scheme \<Rightarrow>
     (MnemesError + tool_answer) \<times> ('s, 'm, 'z) MnemesStore_scheme" where
  "sm_register_device env args =
     bindS (readS (\<lambda>_. from_value (ag_register_device (mc_args env)) ''sm_register_device'' args)) (\<lambda>request.
     let new_device = device_new (DeviceId (sv_fresh_id (mc_server env))) (rd_label request)
           (rd_platform request) (rd_hostname request) in
     bindS (poolS (register_device_with_generated_credential (sv_pool (mc_server env))
       (sv_secret (mc_server env)) new_device)) (\<lambda>(device_id, credential).
     readS (\<lambda>st. bindR (ok_or (DeviceNotFound (device_id_str device_id)) (get_device device_id (st_pool st)))
       (\<lambda>device.
       Inr (RegisteredDevice \<lparr> rdr_device_id = device_id_str (dev_device_id device),
         rdr_credential = credential, rdr_first_seen_at = dev_first_seen_at device,
         rdr_last_seen_at = dev_last_seen_at device,
         rdr_status = device_status_as_str (dev_status device) \<rparr>)))))"

definition requested_device ::
    "('s, 'm, 'u) mcp_env \<Rightarrow> string \<Rightarrow> Value \<Rightarrow> MnemesError + DeviceId" where
  "requested_device env tool args =
     bindR (from_value (ag_device (mc_args env)) tool args) (parse_device_id (sv_uuid (mc_server env)))"

definition sm_revoke_device ::
    "('s, 'm, 'u) mcp_env \<Rightarrow> Value \<Rightarrow> ('s, 'm, 'z) MnemesStore_scheme \<Rightarrow>
     (MnemesError + tool_answer) \<times> ('s, 'm, 'z) MnemesStore_scheme" where
  "sm_revoke_device env args =
     bindS (readS (\<lambda>_. requested_device env ''sm_revoke_device'' args)) (\<lambda>device_id.
     bindS (poolS (revoke_device (sv_pool (mc_server env)) device_id)) (\<lambda>_.
     readS (\<lambda>_. Inr (RevokedDevice ''revoked'' (device_id_str device_id)))))"

definition sm_rotate_device_key ::
    "('s, 'm, 'u) mcp_env \<Rightarrow> Value \<Rightarrow> ('s, 'm, 'z) MnemesStore_scheme \<Rightarrow>
     (MnemesError + tool_answer) \<times> ('s, 'm, 'z) MnemesStore_scheme" where
  "sm_rotate_device_key env args =
     bindS (readS (\<lambda>_. requested_device env ''sm_rotate_device_key'' args)) (\<lambda>device_id.
     bindS (poolS (rotate_device_credential (sv_pool (mc_server env)) (sv_secret (mc_server env)) device_id))
       (\<lambda>credential.
     readS (\<lambda>_. Inr (RotatedKey (device_id_str device_id) credential))))"

definition sm_register_actor ::
    "('s, 'm, 'u) mcp_env \<Rightarrow> Value \<Rightarrow> ('s, 'm, 'z) MnemesStore_scheme \<Rightarrow>
     (MnemesError + tool_answer) \<times> ('s, 'm, 'z) MnemesStore_scheme" where
  "sm_register_actor env args =
     bindS (readS (\<lambda>_. from_value (ag_register_actor (mc_args env)) ''sm_register_actor'' args)) (\<lambda>request.
     bindS (readS (\<lambda>_. parse_device_id (sv_uuid (mc_server env)) (ra_device_id request))) (\<lambda>device_id.
     bindS (poolS (register_actor (sv_pool (mc_server env))
       (requested_actor (sv_fresh_id (mc_server env)) device_id request))) (\<lambda>actor_id.
     readS (\<lambda>_. Inr (RegisteredActor (actor_id_str actor_id))))))"

text \<open>The envelope of a submission, after the checks that it is the actor's own.\<close>

definition submitted_operation ::
    "('s, 'm, 'u) mcp_env \<Rightarrow> ServerContext \<Rightarrow> OperationSubmitRequest \<Rightarrow> MnemesError + OperationEnvelope" where
  "submitted_operation env context request =
     bindR (parse_device_id (sv_uuid (mc_server env)) (os_requesting_device_id request)) (\<lambda>device_id.
     bindR (parse_actor_id (sv_uuid (mc_server env)) (os_requesting_actor_id request)) (\<lambda>actor_id.
     bindR (fail_if (device_id \<noteq> dev_device_id (sc_device context))
       (AuthorizationDenied ''device mismatch'')) (\<lambda>_.
     bindR (fail_if (map_option act_actor_id (sc_actor context) \<noteq> Some actor_id)
       (AuthorizationDenied ''actor mismatch'')) (\<lambda>_.
     requested_operation (mc_server env) device_id actor_id request))))"

definition sm_submit_operation ::
    "('s, 'm, 'u) mcp_env \<Rightarrow> ServerContext \<Rightarrow> Value \<Rightarrow> ('s, 'm, 'z) MnemesStore_scheme \<Rightarrow>
     (MnemesError + tool_answer) \<times> ('s, 'm, 'z) MnemesStore_scheme" where
  "sm_submit_operation env context args =
     bindS (readS (\<lambda>_. from_value (ag_submit (mc_args env)) ''sm_submit_operation'' args)) (\<lambda>request.
     bindS (readS (\<lambda>_. submitted_operation env context request)) (\<lambda>operation.
     bindS (poolS (submit_operation (sv_pool (mc_server env)) operation)) (\<lambda>receipt_id.
     readS (\<lambda>st. bindR (ok_or (InvalidAsOf ''operation not found'')
         (get_operation_by_idempotency_key (os_idempotency_key request) (st_pool st))) (\<lambda>envelope.
       Inr (SubmittedOperation (operation_response receipt_id envelope)))))))"

definition pooled_report :: "MnemesError + string \<Rightarrow> (MnemesError \<Rightarrow> string) \<Rightarrow> IntegrityCheckReport" where
  "pooled_report check display =
     (case check of
        Inr detail \<Rightarrow> \<lparr> ic_status = (if detail = ''ok'' then ''ok'' else ''degraded''), ic_detail = detail \<rparr>
      | Inl error \<Rightarrow> \<lparr> ic_status = ''failed'', ic_detail = display error \<rparr>)"

definition semantic_report ::
    "(ShardIntegrityStatus list \<Rightarrow> string) \<Rightarrow> (MnemesError \<Rightarrow> string) \<Rightarrow>
     MnemesError + ShardIntegrityStatus list \<Rightarrow> IntegrityCheckReport" where
  "semantic_report debug display outcome =
     (case outcome of
        Inr reports \<Rightarrow>
          \<lparr> ic_status = (if list_all (\<lambda>report. is_status report = ''ok'') reports then ''ok''
              else if list_ex (\<lambda>report. is_status report = ''failed'') reports then ''failed''
              else ''degraded''), ic_detail = debug reports \<rparr>
      | Inl error \<Rightarrow> \<lparr> ic_status = ''failed'', ic_detail = ''error: '' @ display error \<rparr>)"

definition sm_verify_integrity ::
    "('s, 'm, 'u) mcp_env \<Rightarrow> ('s, 'm, 'src) memory_lib \<Rightarrow> ('s, 'm, 'z) MnemesStore_scheme \<Rightarrow>
     (MnemesError + tool_answer) \<times> ('s, 'm, 'z) MnemesStore_scheme" where
  "sm_verify_integrity env lib st =
     (let display = display_mnemes_error (ml_display lib);
          pooled = pooled_report (quick_check env (st_pool st)) display;
          (outcome, st) = verify_all_shards (sv_pool (mc_server env)) lib (mc_verify env) st in
      (Inr (IntegrityAnswered \<lparr> vr_pooled_sqlite = pooled,
         vr_semantic_memory = semantic_report (mc_debug env) display outcome \<rparr>), st))"

section \<open>The dispatcher\<close>

definition dispatch_tool ::
    "('s, 'm, 'u) mcp_env \<Rightarrow> ('s, 'm, SearchSourceType) memory_lib \<Rightarrow> ServerContext \<Rightarrow> string \<Rightarrow> Value \<Rightarrow>
     ('s, 'm, 'z) MnemesStore_scheme \<Rightarrow> (MnemesError + tool_answer) \<times> ('s, 'm, 'z) MnemesStore_scheme" where
  "dispatch_tool env lib context name args =
     (if name = ''sm_get_device'' then readS (\<lambda>st. sm_get_device env context args (st_pool st))
      else if name = ''sm_list_devices'' then readS (\<lambda>st. sm_list_devices (st_pool st))
      else if name = ''sm_get_actor'' then readS (\<lambda>st. sm_get_actor env context args (st_pool st))
      else if name = ''sm_get_operation'' then readS (\<lambda>st. sm_get_operation env context args (st_pool st))
      else if name = ''sm_search_witnessed'' then sm_search_witnessed env lib args
      else if name = ''sm_search_profile_witnessed'' then sm_search_profile_witnessed env lib context args
      else if name = ''sm_stats'' then readS (sm_stats lib)
      else if name = ''sm_health''
        then readS (\<lambda>st. Inr (HealthAnswer (build_health_payload env lib (st_pool st))))
      else if name = ''sm_heartbeat'' then sm_heartbeat env context args
      else if name = ''sm_register_device'' then sm_register_device env args
      else if name = ''sm_revoke_device'' then sm_revoke_device env args
      else if name = ''sm_rotate_device_key'' then sm_rotate_device_key env args
      else if name = ''sm_register_actor'' then sm_register_actor env args
      else if name = ''sm_submit_operation'' then sm_submit_operation env context args
      else if name = ''sm_verify_integrity'' then sm_verify_integrity env lib
      else readS (\<lambda>_. Inl (InvalidAsOf ''unsupported tool'')))"

definition call_tool ::
    "('s, 'm, 'u) mcp_env \<Rightarrow> ('s, 'm, SearchSourceType) memory_lib \<Rightarrow> HeaderMap \<Rightarrow> Value option \<Rightarrow>
     ('s, 'm, 'z) MnemesStore_scheme \<Rightarrow> (MnemesError + tool_answer) \<times> ('s, 'm, 'z) MnemesStore_scheme" where
  "call_tool env lib headers params =
     bindS (readS (\<lambda>_. parse_tool_call params)) (\<lambda>(actor_id_raw, name, args).
     bindS (readS (\<lambda>_. ok_or (InvalidAsOf ''actor_id required'') actor_id_raw)) (\<lambda>raw.
     bindS (readS (\<lambda>_. parse_actor_id (sv_uuid (mc_server env)) raw)) (\<lambda>actor_id.
     bindS (readS (\<lambda>st. authorize (mc_server env) headers (Some actor_id) (st_pool st))) (\<lambda>context.
     bindS (readS (\<lambda>_. tool_gate (sc_actor context) name)) (\<lambda>_.
     dispatch_tool env lib context name args)))))"

definition list_tools ::
    "('s, 'm, 'u) mcp_env \<Rightarrow> HeaderMap \<Rightarrow> Value option \<Rightarrow> pool_db \<Rightarrow> MnemesError + McpTool list" where
  "list_tools env headers params db =
     bindR (parse_actor_id_param (sv_uuid (mc_server env)) params) (\<lambda>actor_id.
     bindR (ok_or (InvalidAsOf ''actor_id required'') actor_id) (\<lambda>actor_id.
     bindR (authorize (mc_server env) headers (Some actor_id) db) (\<lambda>context.
     Inr (tools_for_actor (sc_actor context)))))"

definition rpc_method ::
    "('s, 'm, 'u) mcp_env \<Rightarrow> ('s, 'm, SearchSourceType) memory_lib \<Rightarrow> HeaderMap \<Rightarrow> JsonRpcRequest \<Rightarrow>
     ('s, 'm, 'z) MnemesStore_scheme \<Rightarrow> (MnemesError + rpc_result option) \<times> ('s, 'm, 'z) MnemesStore_scheme" where
  "rpc_method env lib headers request =
     (if jq_method request = ''initialize''
      then readS (\<lambda>_. Inr (Some (Initialized ''mnemes'' SCHEMA_VERSION (tools_for_actor None))))
      else if jq_method request = ''tools/list''
      then readS (\<lambda>st. bindR (list_tools env headers (jq_params request) (st_pool st))
        (\<lambda>tools. Inr (Some (ToolsListed tools))))
      else if jq_method request = ''tools/call''
      then bindS (call_tool env lib headers (jq_params request))
        (\<lambda>answer. readS (\<lambda>_. Inr (Some (ToolResult answer))))
      else readS (\<lambda>_. Inr None))"

definition rpc_answer :: "Value option \<Rightarrow> rpc_result option \<Rightarrow> StatusCode \<times> JsonRpcResponse" where
  "rpc_answer rpc_id result =
     (case result of
        Some result \<Rightarrow> (OK, \<lparr> jr_jsonrpc = ''2.0'', jr_id = rpc_id, jr_result = Some result, jr_error = None \<rparr>)
      | None \<Rightarrow> (BAD_REQUEST, \<lparr> jr_jsonrpc = ''2.0'', jr_id = rpc_id, jr_result = None,
          jr_error = Some \<lparr> je_code = -32601, je_message = ''unsupported method'' \<rparr> \<rparr>))"

definition mcp_handler ::
    "('s, 'm, 'u) mcp_env \<Rightarrow> ('s, 'm, SearchSourceType) memory_lib \<Rightarrow> HeaderMap \<Rightarrow> JsonRpcRequest \<Rightarrow>
     ('s, 'm, 'z) MnemesStore_scheme \<Rightarrow> (StatusCode \<times> JsonRpcResponse) \<times> ('s, 'm, 'z) MnemesStore_scheme" where
  "mcp_handler env lib headers request st =
     (case authorize (mc_server env) headers None (st_pool st) of
        Inl error \<Rightarrow> (unauthorized_rpc error (jq_id request), st)
      | Inr _ \<Rightarrow>
          (case rpc_method env lib headers request st of
             (Inl error, st) \<Rightarrow> (unauthorized_rpc error (jq_id request), st)
           | (Inr result, st) \<Rightarrow> (rpc_answer (jq_id request) result, st)))"

end
