(* ===== verification/Mcp_Effects.thy ===== *)
theory Mcp_Effects
  imports Mcp_Server Pool_History
begin

text \<open>
  What calls of the JSON-RPC endpoint read and change: searches touch only the search statistics of
  the shard catalog, every other change is one operation of the control plane, and only operators
  can cause one beyond their own heartbeat.
\<close>

section \<open>Searches change nothing but statistics\<close>

definition only_shards ::
    "('s, 'm, 'z) MnemesStore_scheme \<Rightarrow> ('s, 'm, 'z) MnemesStore_scheme \<Rightarrow> bool" where
  "only_shards st st' \<longleftrightarrow> statistics_only (st_pool st) (st_pool st')"

lemma only_shards_refl [simp]: "only_shards st st"
  by (simp add: only_shards_def)

lemma only_shards_trans: "only_shards st st' \<Longrightarrow> only_shards st' st'' \<Longrightarrow> only_shards st st''"
  unfolding only_shards_def by (rule statistics_only_trans)

lemma only_shards_pool:
  "st_pool st' = st_pool st \<Longrightarrow> only_shards st st'"
  "st_pool st1 = st_pool st \<Longrightarrow> only_shards st1 st' = only_shards st st'"
  "st_pool st2 = st_pool st' \<Longrightarrow> only_shards st st2 = only_shards st st'"
  by (simp_all add: only_shards_def)

definition frames ::
    "(('s, 'm, 'z) MnemesStore_scheme \<Rightarrow> 'a \<times> ('s, 'm, 'z) MnemesStore_scheme) \<Rightarrow> bool" where
  "frames m \<longleftrightarrow> (\<forall>st. only_shards st (snd (m st)))"

lemma framesI: "(\<And>st x st'. m st = (x, st') \<Longrightarrow> only_shards st st') \<Longrightarrow> frames m"
  unfolding frames_def by (metis surjective_pairing)

lemma framesD: "frames m \<Longrightarrow> m st = (x, st') \<Longrightarrow> only_shards st st'"
  unfolding frames_def by (metis snd_conv)

lemma frames_pool: "(\<And>st. st_pool (snd (m st)) = st_pool st) \<Longrightarrow> frames m"
  by (simp add: frames_def only_shards_pool(1))

lemma frames_readS [intro]: "frames (readS f)"
  by (simp add: frames_def readS_def)

lemma frames_bindS [intro]: "frames m \<Longrightarrow> (\<And>x. frames (k x)) \<Longrightarrow> frames (bindS m k)"
  by (rule framesI)
    (auto simp: bindS_def split: prod.splits sum.splits dest!: framesD intro: only_shards_trans)

lemma frames_call_memory [intro]: "frames (call_memory f)"
  by (rule framesI) (auto dest!: call_memory_frame intro: only_shards_pool(1))

lemma same_tables_only_shards: "same_tables st st' \<Longrightarrow> only_shards st st'"
  by (auto simp: same_tables_def intro: only_shards_pool(1))

lemma observe_only_shards: "st_pool st2 = st_pool st \<Longrightarrow> only_shards st (observe_search lib d latency st2)"
  by (simp add: only_shards_def observe_search_def record_shard_search_observation_def shard_identity_def
      update_statistics)

lemma frames_search_one_shard: "frames (search_one_shard env lib request q shard)"
proof (rule framesI, goal_cases)
  case (1 st e st')
  note run = this
  obtain r st1 where one: "device_memory (sx_pool env) lib (sh_device_id shard) st = (r, st1)" by fastforce
  have mid: "only_shards st st1" using device_memory_same [OF one] by (rule same_tables_only_shards)
  have "only_shards st1 st'"
    using run by (cases r)
      (auto simp: search_one_shard_def one Let_def observe_only_shards split: prod.splits sum.splits)
  with mid show ?case by (rule only_shards_trans)
qed

lemma frames_search_shard_batch: "frames (search_shard_batch env lib request q shards)"
proof (rule framesI)
  show "search_shard_batch env lib request q shards st = (x, st') \<Longrightarrow> only_shards st st'" for st x st'
    by (induction shards arbitrary: st x)
      (auto split: prod.splits dest!: framesD [OF frames_search_one_shard] intro: only_shards_trans)
qed

lemma frames_expand_search:
  "frames (expand_search env lib request q shards ranked all_results executions n)"
proof (induction ranked arbitrary: all_results executions n)
  case (Cons r ranked)
  show ?case
  proof (rule framesI, goal_cases)
    case (1 st x st')
    note run = this
    show ?case
    proof (cases "shards (rk_device_id r)")
      case None
      with run framesD [OF Cons.IH] show ?thesis by auto
    next
      case (Some shard)
      obtain expanded st1 where one: "search_shard_batch env lib request q [shard] st = (expanded, st1)"
        by fastforce
      have "only_shards st1 st'"
        using run by (auto simp: Some one Let_def split: sum.splits if_splits dest: framesD [OF Cons.IH]
            simp del: search_shard_batch.simps)
      with framesD [OF frames_search_shard_batch one] show ?thesis by (rule only_shards_trans)
    qed
  qed
qed (simp add: frames_def)

lemma frames_run_shards: "frames (run_shards env lib request q catalog ranked)"
proof (rule framesI, goal_cases)
  case (1 st x st')
  note run = this
  let ?initial = "List.map_filter (\<lambda>r. by_device catalog (rk_device_id r))
    (take (initial_budget request ranked) ranked)"
  obtain executions st1 where one: "search_shard_batch env lib request q ?initial st = (executions, st1)"
    by fastforce
  have "only_shards st1 st'"
  proof (cases "st' = st1")
    case False
    with run obtain rest all_results n where
      "bindS (expand_search env lib request q (by_device catalog) rest all_results executions n)
        (\<lambda>(all_results, executions, selected_count). readS (\<lambda>_. Inr (all_results, executions,
           selected_count, Some ''insufficient_results_expand''))) st1 = (x, st')"
      by (auto simp: run_shards_def one Let_def split: if_splits sum.splits)
    then show ?thesis
      by (rule framesD [rotated]) (intro frames_bindS frames_expand_search, simp add: split_beta frames_readS)
  qed simp
  with framesD [OF frames_search_shard_batch one] show ?case by (rule only_shards_trans)
qed

lemma frames_routed_search: "frames (routed_search env lib requester request)"
proof -
  have "frames (finish_routing_receipt env receipt)" for receipt
    unfolding finish_routing_receipt_def Let_def
    by (intro frames_bindS frames_readS frames_pool) (simp split: sum.split)
  then show ?thesis unfolding routed_search_def Let_def
    by (intro frames_bindS frames_readS frames_run_shards) (simp add: split_beta, intro frames_bindS frames_readS)
qed

lemma frames_search_profile_stores:
  "frames (search_profile_stores env lib request stores outcomes results)"
proof (induction stores arbitrary: outcomes results)
  case (Cons a stores)
  show ?case
  proof (rule framesI, goal_cases)
    case (1 st x st')
    note run = this
    obtain outcome rs st1 where one: "search_profile_store env lib request a st = ((outcome, rs), st1)"
      by (metis prod.exhaust)
    obtain r st2 where two: "profile_store_memory lib (as_store_id a) st = (r, st2)" by fastforce
    have "st_pool st1 = st_pool st2"
      using one by (cases r) (auto simp: search_profile_store_def two Let_def split: prod.splits sum.splits)
    then have "only_shards st st1"
      using profile_store_memory_same [OF two] by (simp add: same_tables_def only_shards_pool)
    moreover have "search_profile_stores env lib request stores (outcomes @ [outcome]) (results @ rs) st1 = (x, st')"
      using run by (simp add: one)
    then have "only_shards st1 st'" by (rule framesD [OF Cons.IH])
    ultimately show ?case by (rule only_shards_trans)
  qed
qed (simp add: frames_def)

lemma frames_profile_search: "frames (routed_search_for_profile env lib snapshot_id actor request now)"
proof -
  have "frames (finish_profile_receipt env receipt)" for receipt
    unfolding finish_profile_receipt_def Let_def
    by (intro frames_bindS frames_readS frames_pool) (simp split: sum.split)
  moreover have "frames (\<lambda>st. let ((outcomes, results), st) =
      search_profile_stores env lib request stores [] [] st in (Inr (outcomes, results), st))" for stores
    by (rule framesI) (auto simp: Let_def split: prod.splits dest!: framesD [OF frames_search_profile_stores])
  ultimately show ?thesis unfolding routed_search_for_profile_def
    by (auto intro!: frames_bindS frames_readS)
qed

lemma frames_if: "frames m \<Longrightarrow> frames m' \<Longrightarrow> frames (\<lambda>st. if P st then m st else m' st)"
  by (simp add: frames_def)

lemma frames_dep: "(\<And>x. frames (m x)) \<Longrightarrow> frames (\<lambda>st. m (g st) st)"
  by (simp add: frames_def)

lemma frames_run_witnessed: "frames (run_witnessed_search env lib w fresh_id request)"
proof -
  have "frames (\<lambda>st. bindS (routed_search env lib (case list_devices (st_pool st) of
        d # _ \<Rightarrow> dev_device_id d | [] \<Rightarrow> DeviceId fresh_id) q)
      (\<lambda>(results, _). readS (\<lambda>_. Inr \<lparr> ws_results = map (\<lambda>r. item_of_result w (rr_result r)) results,
         ws_receipt = None, ws_receipt_stored = False \<rparr>)) st)" for q
    by (rule frames_dep [where g = "\<lambda>st. case list_devices (st_pool st) of
          d # _ \<Rightarrow> dev_device_id d | [] \<Rightarrow> DeviceId fresh_id"])
      (intro frames_bindS frames_routed_search, simp add: split_beta frames_readS)
  moreover have "frames (\<lambda>st. (Inr x, st))" for x :: WitnessedSearchResponse by (simp add: frames_def)
  ultimately show ?thesis
    unfolding run_witnessed_search_def Let_def by (intro frames_bindS frames_readS frames_if frames_call_memory)
      (simp_all add: split_beta frames_readS)
qed

lemma frames_run_profile: "frames (run_profile_witnessed_search env lib w snapshot_id now actor request)"
proof -
  have "frames (bindS (readS (f receipt)) (\<lambda>receipt. readS (g results receipt)))" for f g results receipt
    by (intro frames_bindS frames_readS)
  then show ?thesis unfolding run_profile_witnessed_search_def
    by (intro frames_bindS frames_readS frames_profile_search) (simp add: split_beta del: bindS_readS)
qed

lemma frames_verify_all: "frames (verify_all_shards penv lib vl)"
proof -
  have one: "only_shards st st'" if "verify_one_shard penv lib vl shard st = (x, st')" for shard st x st'
  proof (cases "vl_metadata vl (shard_relative_path (sh_device_id shard) @ ''/memory.db'')")
    case None
    obtain r st1 where "device_memory penv lib (sh_device_id shard) st = (r, st1)" by fastforce
    with that None show ?thesis
      by (cases r) (auto simp: verify_one_shard_def Let_def split: sum.splits if_splits
          dest!: device_memory_same same_tables_only_shards)
  qed (use that in \<open>simp add: verify_one_shard_def Let_def\<close>)
  have "only_shards st st'" if "verify_shards penv lib vl shards st = (x, st')" for shards st x st'
    using that
    by (induction shards arbitrary: st x) (auto split: prod.splits dest!: one intro: only_shards_trans)
  then show ?thesis
    by (intro framesI) (auto simp: verify_all_shards_def split: sum.splits prod.splits)
qed

lemma frames_verify: "frames (sm_verify_integrity env lib)"
  by (rule framesI)
    (auto simp: sm_verify_integrity_def Let_def split: prod.splits dest: framesD [OF frames_verify_all])

section \<open>Every other change is one operation\<close>

text \<open>The operations of the control plane that a call in the context \<open>c\<close> may run.\<close>

fun operator_op :: "ServerContext \<Rightarrow> pool_op \<Rightarrow> bool" where
  "operator_op c (RegisterDeviceWithCredential _ _) = True"
| "operator_op c (RotateCredential _ _) = True"
| "operator_op c (SetDeviceStatus _ status) = (status = DevRevoked)"
| "operator_op c (RegisterActor _) = True"
| "operator_op c (SubmitInsert e) =
     (op_requesting_device_id e = dev_device_id (sc_device c) \<and>
      Some (op_requesting_actor_id e) = map_option act_actor_id (sc_actor c))"
| "operator_op c _ = False"

definition ran ::
    "pool_env \<Rightarrow> (pool_op \<Rightarrow> bool) \<Rightarrow> ('s, 'm, 'z) MnemesStore_scheme \<Rightarrow>
     ('s, 'm, 'z) MnemesStore_scheme \<Rightarrow> bool" where
  "ran penv allowed st st' \<longleftrightarrow>
     only_shards st st' \<or> (\<exists>op. allowed op \<and> pool_exec penv op (st_pool st) = Inr (st_pool st'))"

lemma ran_refl [simp]: "ran penv allowed st st"
  by (simp add: ran_def)

lemma ran_frames: "frames m \<Longrightarrow> m st = (x, st') \<Longrightarrow> ran penv allowed st st'"
  by (auto simp: ran_def dest: framesD)

lemma ran_op: "allowed op \<Longrightarrow> pool_exec penv op (st_pool st) = Inr (st_pool st') \<Longrightarrow> ran penv allowed st st'"
  by (auto simp: ran_def)

lemma readS_ran:
  assumes "bindS (readS f) k st = (r, st')"
    and "\<And>x. f st = Inr x \<Longrightarrow> k x st = (r, st') \<Longrightarrow> ran penv allowed st st'"
  shows "ran penv allowed st st'"
  using assms by (auto split: sum.splits)

lemma poolS_ran:
  assumes "bindS (poolS g) k st = (r, st')"
    and "\<And>y st. snd (k y st) = st"
    and "\<And>y db. g (st_pool st) = Inr (y, db) \<Longrightarrow>
      db = st_pool st \<or> (\<exists>op. allowed op \<and> pool_exec penv op (st_pool st) = Inr db)"
  shows "ran penv allowed st st'"
proof (cases "g (st_pool st)")
  case (Inr p)
  obtain y db where p: "p = (y, db)" by (cases p)
  have "st' = snd (k y (st\<lparr>st_pool := db\<rparr>))"
    using assms(1) by (simp add: bindS_def poolS_def Inr p)
  then have "st_pool st' = db" using assms(2) by simp
  with assms(3) Inr p show ?thesis by (auto simp: ran_def intro: only_shards_pool(1))
qed (use assms(1) in \<open>simp add: bindS_def poolS_def\<close>)

lemma read_only: "snd (readS f st) = st"
  by (simp add: readS_def)

lemma heartbeat_ran:
  assumes "sm_heartbeat env c args st = (r, st')"
  shows "ran (sv_pool (mc_server env)) (\<lambda>op. op = HeartbeatDevice (dev_device_id (sc_device c))) st st'"
  using assms unfolding sm_heartbeat_def
  by (elim readS_ran poolS_ran)
    (auto simp: read_only bindR_eq_Inr fail_if_eq result_db_def split: option.splits)

lemma operator_ops:
  "register_device_with_generated_credential penv secret device db = Inr (p, db') \<Longrightarrow>
     \<exists>op. operator_op c op \<and> pool_exec penv op db = Inr db'"
  "set_device_status penv i DevRevoked db = Inr (u, db') \<Longrightarrow>
     \<exists>op. operator_op c op \<and> pool_exec penv op db = Inr db'"
  "rotate_device_credential penv secret i db = Inr (x, db') \<Longrightarrow>
     \<exists>op. operator_op c op \<and> pool_exec penv op db = Inr db'"
  "register_actor penv actor db = Inr (a, db') \<Longrightarrow>
     \<exists>op. operator_op c op \<and> pool_exec penv op db = Inr db'"
  using operator_op.simps(1-4) [of c] pool_exec.simps(3-5,7) [of penv] result_db_ok by metis+

lemma operator_tool_ran:
  "sm_register_device env args st = (r, st') \<Longrightarrow> ran (sv_pool (mc_server env)) (operator_op c) st st'"
  "sm_revoke_device env args st = (r, st') \<Longrightarrow> ran (sv_pool (mc_server env)) (operator_op c) st st'"
  "sm_rotate_device_key env args st = (r, st') \<Longrightarrow> ran (sv_pool (mc_server env)) (operator_op c) st st'"
  "sm_register_actor env args st = (r, st') \<Longrightarrow> ran (sv_pool (mc_server env)) (operator_op c) st st'"
  unfolding sm_register_device_def Let_def sm_revoke_device_def revoke_device_def sm_rotate_device_key_def
    sm_register_actor_def
  by (elim readS_ran poolS_ran, simp add: read_only split_beta, blast dest: operator_ops [where c = c])+

lemma submit_ran:
  assumes "sm_submit_operation env c args st = (r, st')"
  shows "ran (sv_pool (mc_server env)) (operator_op c) st st'"
  using assms unfolding sm_submit_operation_def
proof (elim readS_ran poolS_ran)
  fix request operation y db
  assume op: "submitted_operation env c request = Inr operation"
    and "submit_operation (sv_pool (mc_server env)) operation (st_pool st) = Inr (y, db)"
  then consider "db = st_pool st"
    | "submit_insert (sv_pool (mc_server env)) operation (st_pool st) = Inr (y, db)"
    by (auto simp: submit_operation_def split: option.splits sum.splits)
  moreover have "operator_op c (SubmitInsert operation)"
    using op by (auto simp: submitted_operation_def requested_operation_def bindR_eq_Inr fail_if_eq)
  ultimately show "db = st_pool st \<or>
      (\<exists>op. operator_op c op \<and> pool_exec (sv_pool (mc_server env)) op (st_pool st) = Inr db)"
    by cases (auto simp: result_db_def intro: exI [of _ "SubmitInsert operation"])
qed (simp add: read_only)

text \<open>The gate, and what a gated call may run.\<close>

lemma readers_frame:
  "frames (sm_search_witnessed env lib args)" "frames (sm_search_profile_witnessed env lib c args)"
  unfolding sm_search_witnessed_def sm_search_profile_witnessed_def
  by (intro frames_bindS frames_readS frames_run_witnessed frames_run_profile)+

lemma dispatch_ran:
  assumes "tool_gate (sc_actor c) name = Inr ()" "dispatch_tool env lib c name args st = (r, st')"
  shows "ran (sv_pool (mc_server env))
    (\<lambda>op. op = HeartbeatDevice (dev_device_id (sc_device c)) \<or> is_operator (sc_actor c) \<and> operator_op c op) st st'"
    (is "ran _ ?allowed st st'")
proof -
  have ran_mono: "ran (sv_pool (mc_server env)) ?allowed st st'"
    if "ran (sv_pool (mc_server env)) (operator_op c) st st'" "is_operator (sc_actor c)"
    using that by (auto simp: ran_def)
  have frame: "ran (sv_pool (mc_server env)) ?allowed st st'" if "m st = (r, st')" "frames m" for m
    using that(2,1) by (rule ran_frames)
  have gate: "is_operator (sc_actor c)" if "\<not> read_tool name"
    using assms(1) that by (simp add: tool_gate_ok)
  show ?thesis
  proof (cases "read_tool name")
    case True
    have "ran (sv_pool (mc_server env)) ?allowed st st'" if "sm_heartbeat env c args st = (r, st')"
      using heartbeat_ran [OF that] by (auto simp: ran_def)
    then show ?thesis using assms(2) True
      by (auto simp: dispatch_tool_def read_tool_def
          dest: frame [OF _ readers_frame(1)] frame [OF _ readers_frame(2)] frame [OF _ frames_readS])
  next
    case False
    have "ran (sv_pool (mc_server env)) (operator_op c) st st'"
      using assms(2) False
      by (auto simp: dispatch_tool_def read_tool_def split: if_splits
          intro: operator_tool_ran submit_ran ran_frames [OF frames_verify] ran_frames [OF frames_readS])
    then show ?thesis using ran_mono gate [OF False] by blast
  qed
qed

section \<open>Calls\<close>

lemma call_tool_ran:
  assumes "call_tool env lib headers params st = (r, st')"
  shows "only_shards st st' \<or>
    (\<exists>actor_id c op. authorize (mc_server env) headers (Some actor_id) (st_pool st) = Inr c \<and>
       pool_exec (sv_pool (mc_server env)) op (st_pool st) = Inr (st_pool st') \<and>
       (op = HeartbeatDevice (dev_device_id (sc_device c)) \<or> is_operator (sc_actor c) \<and> operator_op c op))"
proof -
  from assms consider "st' = st"
    | name args actor_id c where "authorize (mc_server env) headers (Some actor_id) (st_pool st) = Inr c"
      "tool_gate (sc_actor c) name = Inr ()" "dispatch_tool env lib c name args st = (r, st')"
    by (auto simp: call_tool_def split: sum.splits prod.splits)
  then show ?thesis
  proof cases
    case 2
    with dispatch_ran [OF 2(2,3)] show ?thesis by (auto simp: ran_def)
  qed simp
qed

lemma snd_bind_readS: "snd (bindS m (\<lambda>x. readS (f x)) st) = snd (m st)"
  by (simp add: bindS_def readS_def split: prod.split sum.split)

lemma rpc_method_state:
  "snd (rpc_method env lib headers request st) = st \<or>
   snd (rpc_method env lib headers request st) = snd (call_tool env lib headers (jq_params request) st)"
  by (simp add: rpc_method_def read_only snd_bind_readS)

lemma mcp_handler_ran:
  "only_shards st (snd (mcp_handler env lib headers request st)) \<or>
   (\<exists>actor_id c op. authorize (mc_server env) headers (Some actor_id) (st_pool st) = Inr c \<and>
      pool_exec (sv_pool (mc_server env)) op (st_pool st) =
        Inr (st_pool (snd (mcp_handler env lib headers request st))) \<and>
      (op = HeartbeatDevice (dev_device_id (sc_device c)) \<or> is_operator (sc_actor c) \<and> operator_op c op))"
proof -
  let ?st' = "snd (mcp_handler env lib headers request st)"
  have "?st' = snd (rpc_method env lib headers request st) \<or> ?st' = st"
    by (simp add: mcp_handler_def split: sum.split prod.split)
  then consider "?st' = st" | "?st' = snd (call_tool env lib headers (jq_params request) st)"
    using rpc_method_state [of env lib headers request st] by metis
  then show ?thesis
  proof cases
    case 2
    from call_tool_ran [of env lib headers "jq_params request" st, OF surjective_pairing]
    show ?thesis unfolding 2 .
  qed simp
qed

text \<open>
  Whatever arrives at the JSON-RPC endpoint, it changes the tables of the control plane at most as
  the authenticated caller may: apart from the search statistics in the shard catalog, a request
  either changes nothing or runs exactly one operation on the state it was authenticated in, and that
  operation is the heartbeat of the caller's own device, or the caller is an operator and it is the
  registration, revocation or rotation of a device, the registration of an actor, or the submission
  of an operation in the caller's own name.
\<close>

theorem mcp_changes_authorised:
  "only_shards st (snd (mcp_handler env lib headers request st)) \<or>
   (\<exists>actor_id c op. authorize (mc_server env) headers (Some actor_id) (st_pool st) = Inr c \<and>
      pool_exec (sv_pool (mc_server env)) op (st_pool st) =
        Inr (st_pool (snd (mcp_handler env lib headers request st))) \<and>
      (op = HeartbeatDevice (dev_device_id (sc_device c)) \<or> is_operator (sc_actor c) \<and> operator_op c op))"
  by (rule mcp_handler_ran)

end
