(* ===== verification/Mcp_Answers.thy ===== *)
theory Mcp_Answers
  imports Mcp_Server
begin

text \<open>
  What the JSON-RPC endpoint answers: to whom, about whom, and how a submission through it compares
  with one over HTTP.
\<close>

section \<open>Answers are confined\<close>





lemma call_tool_ok:
  "call_tool env lib headers params st = (Inr out, st') \<longleftrightarrow>
     (\<exists>raw name args actor_id c. parse_tool_call params = Inr (Some raw, name, args) \<and>
        parse_actor_id (sv_uuid (mc_server env)) raw = Inr actor_id \<and>
        authorize (mc_server env) headers (Some actor_id) (st_pool st) = Inr c \<and>
        tool_gate (sc_actor c) name = Inr () \<and> dispatch_tool env lib c name args st = (Inr out, st'))"
  by (auto simp: call_tool_def bindS_readS_ok ok_or_eq split: prod.splits simp del: bindS_readS)



section \<open>Submitting over JSON-RPC and over HTTP\<close>

lemma is_operator_ensured: "is_operator actor \<longleftrightarrow> ensure_operator actor = Inr ()"
  by (auto simp: is_operator_def ensure_operator_def bindR_def ok_or_def split: option.splits)

lemma sm_submit_ok:
  "sm_submit_operation env c args st = (Inr out, st') \<longleftrightarrow>
     (\<exists>payload e receipt db x. ag_submit (mc_args env) args = Some payload \<and>
        submitted_operation env c payload = Inr e \<and>
        submit_operation (sv_pool (mc_server env)) e (st_pool st) = Inr (receipt, db) \<and>
        get_operation_by_idempotency_key (os_idempotency_key payload) db = Some x \<and>
        out = SubmittedOperation (operation_response receipt x) \<and> st' = st\<lparr>st_pool := db\<rparr>)"
  unfolding sm_submit_operation_def
  by (auto simp: from_value_def bindS_readS_ok bindS_ok poolS_ok readS_eq bindR_eq_Inr ok_or_eq
      simp del: bindS_readS)

lemma submitted_operation_ok:
  "submitted_operation env c payload = Inr e \<longleftrightarrow>
     (\<exists>d a. parse_device_id (sv_uuid (mc_server env)) (os_requesting_device_id payload) = Inr d \<and>
        parse_actor_id (sv_uuid (mc_server env)) (os_requesting_actor_id payload) = Inr a \<and>
        d = dev_device_id (sc_device c) \<and> map_option act_actor_id (sc_actor c) = Some a \<and>
        requested_operation (mc_server env) d a payload = Inr e)"
  by (auto simp: submitted_operation_def bindR_eq_Inr fail_if_eq)

text \<open>
  Submitting an operation through the JSON-RPC tool and over HTTP is the same thing: for one payload,
  sent by the actor that it names, both succeed in the same cases, with the same operation, receipt
  and recording time, and leave the same control plane, except that HTTP writes an audit event.
\<close>

theorem mcp_submission_is_http_submission:
  assumes "parse_tool_call params = Inr (Some (os_requesting_actor_id payload), ''sm_submit_operation'', args)"
    and "ag_submit (mc_args env) args = Some payload"
  shows "submit_operation_handler (mc_server env) headers payload st = ((CREATED, Inr resp), st') \<longleftrightarrow>
    (\<exists>actor_id c st1. parse_actor_id (sv_uuid (mc_server env)) (os_requesting_actor_id payload) = Inr actor_id \<and>
       authorize (mc_server env) headers (Some actor_id) (st_pool st) = Inr c \<and>
       call_tool env lib headers params st = (Inr (SubmittedOperation resp), st1) \<and>
       st' = audit_context (mc_server env) c ''/v1/operations'' ''POST'' ''ok'' ''operation submitted'' st1)"
proof -
  let ?u = "sv_uuid (mc_server env)" and ?db = "\<lambda>db. st\<lparr>st_pool := db\<rparr>"
  define submits where "submits c e receipt db x \<longleftrightarrow> (\<exists>a.
      parse_device_id ?u (os_requesting_device_id payload) = Inr (dev_device_id (sc_device c)) \<and>
      parse_actor_id ?u (os_requesting_actor_id payload) = Inr a \<and>
      authorize (mc_server env) headers (Some a) (st_pool st) = Inr c \<and> is_operator (sc_actor c) \<and>
      requested_operation (mc_server env) (dev_device_id (sc_device c)) a payload = Inr e \<and>
      submit_operation (sv_pool (mc_server env)) e (st_pool st) = Inr (receipt, db) \<and>
      get_operation_by_idempotency_key (os_idempotency_key payload) db = Some x)" for c e receipt db x
  have own: "map_option act_actor_id (sc_actor c) = Some a"
    if "authorize (mc_server env) headers (Some a) (st_pool st) = Inr c" for a c
    using authorized_actor [OF that] by auto
  have tool: "dispatch_tool env lib c ''sm_submit_operation'' args st = sm_submit_operation env c args st"
    and gate: "tool_gate (sc_actor c) ''sm_submit_operation'' = Inr () \<longleftrightarrow> is_operator (sc_actor c)" for c
    by (simp_all add: dispatch_tool_def tool_gate_ok read_tool_def operator_tool_def)
  have rpc: "call_tool env lib headers params st = (Inr (SubmittedOperation resp), st1) \<longleftrightarrow>
      (\<exists>c e receipt db x. submits c e receipt db x \<and> resp = operation_response receipt x \<and> st1 = ?db db)" for st1
    unfolding call_tool_ok submits_def
    using own by (fastforce simp: assms tool gate sm_submit_ok submitted_operation_ok)
  have http: "submit_operation_handler (mc_server env) headers payload st = ((CREATED, Inr resp), st') \<longleftrightarrow>
      (\<exists>c e receipt db x. submits c e receipt db x \<and> resp = operation_response receipt x \<and>
         st' = audit_context (mc_server env) c ''/v1/operations'' ''POST'' ''ok'' ''operation submitted'' (?db db))"
    unfolding submit_handler_ok submits_def by (auto simp: is_operator_ensured)
  have one: "c' = c" if "submits c e receipt db x" "parse_actor_id ?u (os_requesting_actor_id payload) = Inr a"
      "authorize (mc_server env) headers (Some a) (st_pool st) = Inr c'" for c c' e receipt db x a
    using that by (auto simp: submits_def)
  have who: "\<exists>a. parse_actor_id ?u (os_requesting_actor_id payload) = Inr a \<and>
      authorize (mc_server env) headers (Some a) (st_pool st) = Inr c" if "submits c e receipt db x" for c e receipt db x
    using that by (auto simp: submits_def)
  show ?thesis unfolding rpc http
  proof (intro iffI; elim exE conjE)
    fix c e receipt db x
    assume s: "submits c e receipt db x" and "resp = operation_response receipt x"
      and "st' = audit_context (mc_server env) c ''/v1/operations'' ''POST'' ''ok'' ''operation submitted'' (?db db)"
    with who [OF s] show "\<exists>actor_id c st1. parse_actor_id ?u (os_requesting_actor_id payload) = Inr actor_id \<and>
        authorize (mc_server env) headers (Some actor_id) (st_pool st) = Inr c \<and>
        (\<exists>c e receipt db x. submits c e receipt db x \<and> resp = operation_response receipt x \<and> st1 = ?db db) \<and>
        st' = audit_context (mc_server env) c ''/v1/operations'' ''POST'' ''ok'' ''operation submitted'' st1"
      by blast
  next
    fix a c' st1 c e receipt db x
    assume s: "submits c e receipt db x" "parse_actor_id ?u (os_requesting_actor_id payload) = Inr a"
        "authorize (mc_server env) headers (Some a) (st_pool st) = Inr c'"
      and "resp = operation_response receipt x" "st1 = ?db db"
      and "st' = audit_context (mc_server env) c' ''/v1/operations'' ''POST'' ''ok'' ''operation submitted'' st1"
    then show "\<exists>c e receipt db x. submits c e receipt db x \<and> resp = operation_response receipt x \<and>
        st' = audit_context (mc_server env) c ''/v1/operations'' ''POST'' ''ok'' ''operation submitted'' (?db db)"
      unfolding one [OF s] by blast
  qed
qed

section \<open>Two calls\<close>

text \<open>Arguments of one string field each, and a submission that is always the example's.\<close>

definition field_of :: "string \<Rightarrow> Value \<Rightarrow> string option" where
  "field_of key v = Option.bind (Option.bind (as_object v) (\<lambda>m. map_of m key)) as_str"

definition toy_args :: mcp_args where
  "toy_args = \<lparr> ag_device = field_of ''device_id'', ag_actor = field_of ''actor_id'',
     ag_operation = field_of ''operation_id'', ag_search = (\<lambda>_. None), ag_profile_search = (\<lambda>_. None),
     ag_register_device = (\<lambda>_. None), ag_register_actor = (\<lambda>_. None),
     ag_submit = (\<lambda>_. Some example_submit_request) \<rparr>"

definition toy_mcp_env :: "(string, unit, string) mcp_env" where
  "toy_mcp_env = \<lparr> mc_server = example_server_env, mc_search = example_search_env,
     mc_witness = toy_witness_lib,
     mc_verify = \<lparr> vl_metadata = (\<lambda>_. None), vl_verify = (\<lambda>_ _. Inr \<lparr> ir_ok = True, ir_issues = [], ir_debug = [] \<rparr>) \<rparr>,
     mc_now = 0, mc_quick_check = (\<lambda>_. ''ok''), mc_debug = (\<lambda>_. []), mc_args = toy_args \<rparr>"

definition example_rpc :: "string \<Rightarrow> (string \<times> Value) list \<Rightarrow> JsonRpcRequest" where
  "example_rpc tool args = \<lparr> jq_id = None, jq_method = ''tools/call'', jq_params = Some (JObject
     [(''actor_id'', JString ''op''), (''name'', JString tool), (''arguments'', JObject args)]) \<rparr>"

lemma example_call: "parse_tool_call (jq_params (example_rpc tool [(''device_id'', JString d)])) =
    Inr (Some ''op'', tool, JObject [(''device_id'', JString d)])"
  by (simp add: parse_tool_call_def example_rpc_def ok_or_def bindR_def Let_def)



theorem mcp_submission_is_http_submission_witness:
  "\<exists>resp st1. call_tool toy_mcp_env toy_memory example_header
      (jq_params (example_rpc ''sm_submit_operation'' [(''device_id'', JString ''d1'')])) example_authed_store =
      (Inr (SubmittedOperation resp), st1)"
proof -
  have env: "mc_server toy_mcp_env = example_server_env" by (simp add: toy_mcp_env_def)
  obtain resp st' where "submit_operation_handler (mc_server toy_mcp_env) example_header example_submit_request
      example_authed_store = ((CREATED, Inr resp), st')"
    unfolding env using example_submission_handled by blast
  moreover have "parse_tool_call (jq_params (example_rpc ''sm_submit_operation'' [(''device_id'', JString ''d1'')])) =
      Inr (Some (os_requesting_actor_id example_submit_request), ''sm_submit_operation'',
        JObject [(''device_id'', JString ''d1'')])"
    by (simp add: example_call example_submit_request_def)
  moreover have "ag_submit (mc_args toy_mcp_env) (JObject [(''device_id'', JString ''d1'')]) =
      Some example_submit_request"
    by (simp add: toy_mcp_env_def toy_args_def)
  ultimately show ?thesis
    using mcp_submission_is_http_submission [where env = toy_mcp_env and lib = toy_memory] by blast
qed

end
