(* ===== verification/Provenance.thy ===== *)
theory Provenance
  imports Operation_Log Json_Value
begin

text \<open>
  Provenance edges between memory items (\<open>src/store.rs\<close>, \<open>src/types.rs\<close>): their table, recording
  one or several of them, and reading them back. An edge is recorded under its operation, type and
  end points; recording it again answers with the edge that is there.

  Chrono's instants are nanoseconds since the epoch; its RFC 3339 texts and serde's JSON are
  parameters. The rows keep the texts of times and metadata, because SQLite compares the former.
\<close>

section \<open>Edges\<close>

type_synonym instant = int

record ProvenanceEdgeRequest =
  rp_edge_type :: ProvenanceEdgeType
  rp_source :: MemoryItemRef
  rp_target :: MemoryItemRef
  rp_operation_id :: "OperationId option"
  rp_actor_id :: "ActorId option"
  rp_device_id :: "DeviceId option"
  rp_valid_from :: "instant option"
  rp_valid_to :: "instant option"
  rp_observed_at :: "instant option"
  rp_recorded_at :: "instant option"
  rp_content_digest :: "string option"
  rp_metadata :: "string option"
  rp_supersedes_edge_id :: "ProvenanceEdgeId option"

record ProvenanceEdge =
  ed_edge_id :: ProvenanceEdgeId
  ed_edge_type :: ProvenanceEdgeType
  ed_source :: MemoryItemRef
  ed_target :: MemoryItemRef
  ed_operation_id :: "OperationId option"
  ed_actor_id :: "ActorId option"
  ed_device_id :: "DeviceId option"
  ed_valid_from :: "instant option"
  ed_valid_to :: "instant option"
  ed_observed_at :: "instant option"
  ed_recorded_at :: instant
  ed_content_digest :: "string option"
  ed_metadata :: "Value option"
  ed_supersedes_edge_id :: "ProvenanceEdgeId option"

record edge_row =
  er_edge_id :: ProvenanceEdgeId
  er_edge_type :: ProvenanceEdgeType
  er_source_kind :: string
  er_source_id :: string
  er_target_kind :: string
  er_target_id :: string
  er_operation_id :: "OperationId option"
  er_actor_id :: "ActorId option"
  er_device_id :: "DeviceId option"
  er_valid_from :: "string option"
  er_valid_to :: "string option"
  er_observed_at :: "string option"
  er_recorded_at :: string
  er_content_digest :: "string option"
  er_metadata :: "string option"
  er_supersedes_edge_id :: "ProvenanceEdgeId option"

text \<open>
  What recording and reading take from outside: the violated constraint's text, the fresh
  identifiers and the clock (at the \<open>n\<close>-th insertion), chrono, serde, and rusqlite's texts for a column
  that does not convert and for a limit that is no integer.
\<close>

record prov_env =
  pv_message :: "violation \<Rightarrow> string"
  pv_fresh_id :: "nat \<Rightarrow> ProvenanceEdgeId"
  pv_now :: "nat \<Rightarrow> instant"
  pv_rfc3339 :: "instant \<Rightarrow> string"
  pv_parse_from_rfc3339 :: "string \<Rightarrow> string + instant"
  pv_from_str :: "string \<Rightarrow> string + Value"
  pv_to_string :: "Value \<Rightarrow> string + string"
  pv_conversion :: "MnemesError \<Rightarrow> string"
  pv_mismatch :: string

section \<open>Reading rows\<close>

definition parse_rfc3339 :: "prov_env \<Rightarrow> string \<Rightarrow> string \<Rightarrow> MnemesError + instant" where
  "parse_rfc3339 env value field =
     map_err (\<lambda>error. InvalidProvenance (''invalid '' @ field @ '': '' @ value @ '' ('' @ error @ '')''))
       (pv_parse_from_rfc3339 env value)"

definition transpose_result :: "('a \<Rightarrow> 'e + 'b) \<Rightarrow> 'a option \<Rightarrow> 'e + 'b option" where
  "transpose_result f x = (case x of None \<Rightarrow> Inr None | Some v \<Rightarrow> bindR (f v) (\<lambda>y. Inr (Some y)))"

definition parse_optional_rfc3339 ::
    "prov_env \<Rightarrow> string option \<Rightarrow> string \<Rightarrow> MnemesError + instant option" where
  "parse_optional_rfc3339 env value field = transpose_result (\<lambda>v. parse_rfc3339 env v field) value"

definition parse_metadata_for_result :: "prov_env \<Rightarrow> string option \<Rightarrow> MnemesError + Value option" where
  "parse_metadata_for_result env raw =
     map_err (\<lambda>error. InvalidProvenance (''invalid metadata JSON in stored edge: '' @ error))
       (transpose_result (pv_from_str env) raw)"

text \<open>A column that does not convert is a conversion failure of rusqlite.\<close>

definition conversion :: "prov_env \<Rightarrow> MnemesError + 'a \<Rightarrow> MnemesError + 'a" where
  "conversion env m = map_err (\<lambda>e. mnemes_from_rusqlite (pv_conversion env e)) m"

definition map_row_to_provenance_edge :: "prov_env \<Rightarrow> edge_row \<Rightarrow> MnemesError + ProvenanceEdge" where
  "map_row_to_provenance_edge env row =
     bindR (conversion env (item_ref_new (er_source_kind row) (er_source_id row))) (\<lambda>source.
     bindR (conversion env (item_ref_new (er_target_kind row) (er_target_id row))) (\<lambda>target.
     bindR (conversion env (parse_optional_rfc3339 env (er_valid_from row) ''valid_from'')) (\<lambda>valid_from.
     bindR (conversion env (parse_optional_rfc3339 env (er_valid_to row) ''valid_to'')) (\<lambda>valid_to.
     bindR (conversion env (parse_optional_rfc3339 env (er_observed_at row) ''observed_at'')) (\<lambda>observed_at.
     bindR (conversion env (parse_rfc3339 env (er_recorded_at row) ''recorded_at'')) (\<lambda>recorded_at.
     bindR (conversion env (parse_metadata_for_result env (er_metadata row))) (\<lambda>metadata.
     Inr \<lparr> ed_edge_id = er_edge_id row, ed_edge_type = er_edge_type row, ed_source = source,
           ed_target = target, ed_operation_id = er_operation_id row, ed_actor_id = er_actor_id row,
           ed_device_id = er_device_id row, ed_valid_from = valid_from, ed_valid_to = valid_to,
           ed_observed_at = observed_at, ed_recorded_at = recorded_at,
           ed_content_digest = er_content_digest row, ed_metadata = metadata,
           ed_supersedes_edge_id = er_supersedes_edge_id row \<rparr>)))))))"

section \<open>Checking requests\<close>

definition validate_item_ref :: "MemoryItemRef \<Rightarrow> MnemesError + unit" where
  "validate_item_ref item =
     fail_if (trim (mir_kind item) = [] \<or> trim (mir_id item) = [])
       (InvalidProvenance ''memory item references require non-empty kind and id'')"

definition normalize_metadata :: "prov_env \<Rightarrow> string option \<Rightarrow> MnemesError + string option" where
  "normalize_metadata env raw =
     transpose_result (\<lambda>raw.
       bindR (map_err (\<lambda>error. InvalidProvenance (''invalid metadata JSON: '' @ error))
         (pv_from_str env raw)) (\<lambda>parsed.
       map_err (\<lambda>error. InvalidProvenance (''failed to canonicalize metadata JSON: '' @ error))
         (pv_to_string env parsed))) raw"

definition operation_matches :: "pool_db \<Rightarrow> ProvenanceEdgeRequest \<Rightarrow> MnemesError + unit" where
  "operation_matches db request =
     (case rp_operation_id request of
        None \<Rightarrow> Inl (InvalidProvenance ''operation_id is required for provenance edge mutation'')
      | Some operation_id \<Rightarrow>
          bindR (ok_or (InvalidProvenance (''operation '' @ operation_id_str operation_id @ '' not found''))
            (get_operation operation_id db)) (\<lambda>operation.
          checks
            [fail_if (rp_edge_type request = ObservedBy \<and> op_operation_kind operation \<noteq> Observe)
               (InvalidProvenance ''observed_by requires an observe operation''),
             (case rp_actor_id request of
                None \<Rightarrow> Inr ()
              | Some actor_id \<Rightarrow> fail_if (actor_id \<noteq> op_requesting_actor_id operation)
                  (InvalidProvenance (''actor '' @ actor_id_str actor_id @
                     '' does not match requesting actor for operation '' @ operation_id_str operation_id))),
             (case rp_device_id request of
                None \<Rightarrow> Inr ()
              | Some device_id \<Rightarrow> fail_if
                  (device_id \<noteq> op_requesting_device_id operation \<and>
                   device_id \<noteq> op_recording_device_id operation \<and>
                   device_id \<noteq> op_recording_server_id operation)
                  (InvalidProvenance (''device '' @ device_id_str device_id @
                     '' does not match operation '' @ operation_id_str operation_id @ '' context'')))]))"

definition validate_supersedes_reference ::
    "edge_row list \<Rightarrow> ProvenanceEdgeRequest \<Rightarrow> MnemesError + unit" where
  "validate_supersedes_reference edges request =
     (case rp_supersedes_edge_id request of
        None \<Rightarrow> Inr ()
      | Some edge_id \<Rightarrow> fail_if (\<not> has_key er_edge_id edge_id edges)
          (InvalidProvenance (''supersedes_edge_id '' @ edge_id_str edge_id @ '' does not exist'')))"

definition check_request :: "pool_db \<Rightarrow> edge_row list \<Rightarrow> ProvenanceEdgeRequest \<Rightarrow> MnemesError + unit" where
  "check_request db edges request = checks
     [validate_item_ref (rp_source request),
      validate_item_ref (rp_target request),
      fail_if (rp_source request = rp_target request)
        (InvalidProvenance ''self-referential provenance edge is forbidden''),
      (case (rp_valid_from request, rp_valid_to request) of
         (Some from, Some to) \<Rightarrow> fail_if (to < from)
           (InvalidAsOf ''valid_to cannot be earlier than valid_from'')
       | _ \<Rightarrow> Inr ()),
      operation_matches db request,
      validate_supersedes_reference edges request]"

section \<open>Recording\<close>

text \<open>The columns that \<open>existing_edges\<close> compares.\<close>

definition edge_key ::
    "edge_row \<Rightarrow> OperationId option \<times> ProvenanceEdgeType \<times> (string \<times> string) \<times> (string \<times> string)" where
  "edge_key r = (er_operation_id r, er_edge_type r, (er_source_kind r, er_source_id r),
     (er_target_kind r, er_target_id r))"

definition request_key ::
    "ProvenanceEdgeRequest \<Rightarrow>
     OperationId option \<times> ProvenanceEdgeType \<times> (string \<times> string) \<times> (string \<times> string)" where
  "request_key request = (rp_operation_id request, rp_edge_type request,
     (mir_kind (rp_source request), mir_id (rp_source request)),
     (mir_kind (rp_target request), mir_id (rp_target request)))"

definition existing_edges ::
    "prov_env \<Rightarrow> edge_row list \<Rightarrow> ProvenanceEdgeRequest \<Rightarrow> MnemesError + ProvenanceEdge list" where
  "existing_edges env edges request =
     collect_results (map_row_to_provenance_edge env)
       (filter (\<lambda>r. edge_key r = request_key request) edges)"

definition edge_matches_request :: "ProvenanceEdge \<Rightarrow> ProvenanceEdgeRequest \<Rightarrow> Value option \<Rightarrow> bool" where
  "edge_matches_request edge request canonical_metadata \<longleftrightarrow>
     ed_edge_type edge = rp_edge_type request \<and> ed_source edge = rp_source request \<and>
     ed_target edge = rp_target request \<and> ed_operation_id edge = rp_operation_id request \<and>
     ed_actor_id edge = rp_actor_id request \<and> ed_device_id edge = rp_device_id request \<and>
     ed_valid_from edge = rp_valid_from request \<and> ed_valid_to edge = rp_valid_to request \<and>
     ed_observed_at edge = rp_observed_at request \<and>
     ed_content_digest edge = rp_content_digest request \<and>
     ed_supersedes_edge_id edge = rp_supersedes_edge_id request \<and>
     ed_metadata edge = canonical_metadata"

definition fk_fails :: "('r \<Rightarrow> 'k) \<Rightarrow> 'k option \<Rightarrow> 'r list \<Rightarrow> bool" where
  "fk_fails key k rows = (case k of None \<Rightarrow> False | Some k \<Rightarrow> \<not> has_key key k rows)"

text \<open>
  The \<open>INSERT\<close> with the constraints of the table; \<open>json_valid\<close> holds of what serde wrote. A NULL in the
  columns of the unique index is distinct from every value.
\<close>

definition insert_edge ::
    "prov_env \<Rightarrow> pool_db \<Rightarrow> edge_row \<Rightarrow> edge_row list \<Rightarrow> MnemesError + edge_row list" where
  "insert_edge env db row edges =
     sql_insert (pv_message env)
       [(er_source_kind row = [] \<or> er_source_id row = [],
         CheckConstraint ''length(source_kind) > 0 AND length(source_id) > 0''),
        (er_target_kind row = [] \<or> er_target_id row = [],
         CheckConstraint ''length(target_kind) > 0 AND length(target_id) > 0''),
        (case (er_valid_to row, er_valid_from row) of (Some to, Some from) \<Rightarrow> to < from | _ \<Rightarrow> False,
         CheckConstraint ''valid_to IS NULL OR valid_from IS NULL OR valid_to >= valid_from''),
        (er_source_kind row @ '':'' @ er_source_id row = er_target_kind row @ '':'' @ er_target_id row,
         CheckConstraint (''source_kind || '' @ [CHR 0x27] @ '':'' @ [CHR 0x27] @
           '' || source_id <> target_kind || '' @ [CHR 0x27] @ '':'' @ [CHR 0x27] @ '' || target_id'')),
        (has_key er_edge_id (er_edge_id row) edges, PrimaryKey ''provenance_edges.edge_id''),
        (er_operation_id row \<noteq> None \<and> er_content_digest row \<noteq> None \<and>
         has_key (\<lambda>r. (edge_key r, er_content_digest r)) (edge_key row, er_content_digest row) edges,
         UniqueIndex ''idx_edges_idempotency''),
        (fk_fails op_operation_id (er_operation_id row) (db_operations db),
         ForeignKey ''provenance_edges.operation_id''),
        (fk_fails act_actor_id (er_actor_id row) (db_actors db),
         ForeignKey ''provenance_edges.actor_id''),
        (fk_fails dev_device_id (er_device_id row) (db_devices db),
         ForeignKey ''provenance_edges.device_id''),
        (fk_fails er_edge_id (er_supersedes_edge_id row) edges,
         ForeignKey ''provenance_edges.supersedes_edge_id'')] row edges"

definition row_of_request ::
    "prov_env \<Rightarrow> nat \<Rightarrow> ProvenanceEdgeRequest \<Rightarrow> string option \<Rightarrow> edge_row" where
  "row_of_request env n request canonical_metadata =
     \<lparr> er_edge_id = pv_fresh_id env n, er_edge_type = rp_edge_type request,
       er_source_kind = mir_kind (rp_source request), er_source_id = mir_id (rp_source request),
       er_target_kind = mir_kind (rp_target request), er_target_id = mir_id (rp_target request),
       er_operation_id = rp_operation_id request, er_actor_id = rp_actor_id request,
       er_device_id = rp_device_id request,
       er_valid_from = map_option (pv_rfc3339 env) (rp_valid_from request),
       er_valid_to = map_option (pv_rfc3339 env) (rp_valid_to request),
       er_observed_at = map_option (pv_rfc3339 env) (rp_observed_at request),
       er_recorded_at = pv_rfc3339 env
         (case rp_recorded_at request of Some t \<Rightarrow> t | None \<Rightarrow> pv_now env n),
       er_content_digest = rp_content_digest request, er_metadata = canonical_metadata,
       er_supersedes_edge_id = rp_supersedes_edge_id request \<rparr>"

definition edge_of_request ::
    "prov_env \<Rightarrow> nat \<Rightarrow> ProvenanceEdgeRequest \<Rightarrow> Value option \<Rightarrow> ProvenanceEdge" where
  "edge_of_request env n request metadata =
     \<lparr> ed_edge_id = pv_fresh_id env n, ed_edge_type = rp_edge_type request,
       ed_source = rp_source request, ed_target = rp_target request,
       ed_operation_id = rp_operation_id request, ed_actor_id = rp_actor_id request,
       ed_device_id = rp_device_id request, ed_valid_from = rp_valid_from request,
       ed_valid_to = rp_valid_to request, ed_observed_at = rp_observed_at request,
       ed_recorded_at = (case rp_recorded_at request of Some t \<Rightarrow> t | None \<Rightarrow> pv_now env n),
       ed_content_digest = rp_content_digest request, ed_metadata = metadata,
       ed_supersedes_edge_id = rp_supersedes_edge_id request \<rparr>"

definition record_provenance_edge_conn ::
    "prov_env \<Rightarrow> pool_db \<Rightarrow> ProvenanceEdgeRequest \<Rightarrow> edge_row list \<Rightarrow>
     MnemesError + ProvenanceEdge \<times> edge_row list" where
  "record_provenance_edge_conn env db request edges =
     bindR (check_request db edges request) (\<lambda>_.
     bindR (normalize_metadata env (rp_metadata request)) (\<lambda>canonical_metadata.
     bindR (map_err (\<lambda>error. InvalidProvenance (''invalid normalized metadata JSON: '' @ error))
       (transpose_result (pv_from_str env) canonical_metadata)) (\<lambda>canonical_metadata_value.
     bindR (existing_edges env edges request) (\<lambda>existing.
     if existing \<noteq> []
     then (case find (\<lambda>edge. edge_matches_request edge request canonical_metadata_value) existing of
             Some edge \<Rightarrow> Inr (edge, edges)
           | None \<Rightarrow> Inl (IdempotencyConflict (''conflicting provenance edge for operation '' @
                 (case rp_operation_id request of None \<Rightarrow> [] | Some i \<Rightarrow> operation_id_str i))))
     else
       bindR (insert_edge env db (row_of_request env (length edges) request canonical_metadata) edges)
         (\<lambda>edges'. Inr (edge_of_request env (length edges) request canonical_metadata_value, edges'))))))"

text \<open>Both entry points run in a transaction: a failing request leaves the table as it was.\<close>

definition record_provenance_edge ::
    "prov_env \<Rightarrow> pool_db \<Rightarrow> ProvenanceEdgeRequest \<Rightarrow> edge_row list \<Rightarrow>
     (MnemesError + ProvenanceEdge) \<times> edge_row list" where
  "record_provenance_edge env db request edges =
     (case record_provenance_edge_conn env db request edges of
        Inl e \<Rightarrow> (Inl e, edges)
      | Inr (edge, edges') \<Rightarrow> (Inr edge, edges'))"

fun record_each ::
    "prov_env \<Rightarrow> pool_db \<Rightarrow> ProvenanceEdgeRequest list \<Rightarrow> edge_row list \<Rightarrow>
     MnemesError + ProvenanceEdge list \<times> edge_row list" where
  "record_each env db [] edges = Inr ([], edges)"
| "record_each env db (request # requests) edges =
     bindR (record_provenance_edge_conn env db request edges) (\<lambda>(edge, edges).
     bindR (record_each env db requests edges) (\<lambda>(recorded, edges). Inr (edge # recorded, edges)))"

definition record_provenance_edges ::
    "prov_env \<Rightarrow> pool_db \<Rightarrow> ProvenanceEdgeRequest list \<Rightarrow> edge_row list \<Rightarrow>
     (MnemesError + ProvenanceEdge list) \<times> edge_row list" where
  "record_provenance_edges env db requests edges =
     (case record_each env db requests edges of
        Inl e \<Rightarrow> (Inl e, edges)
      | Inr (recorded, edges') \<Rightarrow> (Inr recorded, edges'))"

definition get_provenance_edge ::
    "prov_env \<Rightarrow> ProvenanceEdgeId \<Rightarrow> edge_row list \<Rightarrow> MnemesError + ProvenanceEdge option" where
  "get_provenance_edge env edge_id edges =
     transpose_result (map_row_to_provenance_edge env) (row_by er_edge_id edge_id edges)"

text \<open>The two shorthands for single edges.\<close>

definition typed_request ::
    "ProvenanceEdgeType \<Rightarrow> MemoryItemRef \<Rightarrow> MemoryItemRef \<Rightarrow> OperationId \<Rightarrow> instant option \<Rightarrow>
     instant option \<Rightarrow> string option \<Rightarrow> ProvenanceEdgeRequest" where
  "typed_request edge_type source target operation_id valid_from valid_to metadata =
     \<lparr> rp_edge_type = edge_type, rp_source = source, rp_target = target,
       rp_operation_id = Some operation_id, rp_actor_id = None, rp_device_id = None,
       rp_valid_from = valid_from, rp_valid_to = valid_to, rp_observed_at = None,
       rp_recorded_at = None, rp_content_digest = None, rp_metadata = metadata,
       rp_supersedes_edge_id = None \<rparr>"

definition supersede_item ::
    "prov_env \<Rightarrow> pool_db \<Rightarrow> MemoryItemRef \<Rightarrow> MemoryItemRef \<Rightarrow> OperationId \<Rightarrow> instant option \<Rightarrow>
     instant option \<Rightarrow> string option \<Rightarrow> edge_row list \<Rightarrow> (MnemesError + ProvenanceEdge) \<times> edge_row list" where
  "supersede_item env db newer prior operation_id valid_from valid_to metadata =
     record_provenance_edge env db
       (typed_request Supersedes newer prior operation_id valid_from valid_to metadata)"

definition contradict ::
    "prov_env \<Rightarrow> pool_db \<Rightarrow> MemoryItemRef \<Rightarrow> MemoryItemRef \<Rightarrow> OperationId \<Rightarrow> instant option \<Rightarrow>
     instant option \<Rightarrow> string option \<Rightarrow> edge_row list \<Rightarrow> (MnemesError + ProvenanceEdge) \<times> edge_row list" where
  "contradict env db evidence target operation_id valid_from valid_to metadata =
     record_provenance_edge env db
       (typed_request Contradicts evidence target operation_id valid_from valid_to metadata)"

section \<open>What one recording does\<close>

lemma transpose_result_ok [result_simps]:
  "transpose_result f x = Inr y \<longleftrightarrow>
     (case x of None \<Rightarrow> y = None | Some v \<Rightarrow> \<exists>w. f v = Inr w \<and> y = Some w)"
  by (auto simp: transpose_result_def bindR_eq_Inr split: option.splits)

lemma conversion_ok [result_simps]: "conversion env m = Inr x \<longleftrightarrow> m = Inr x"
  by (simp add: conversion_def map_err_eq_Inr)

lemma operation_matches_ok:
  "operation_matches db request = Inr () \<longleftrightarrow>
     (\<exists>i operation. rp_operation_id request = Some i \<and> get_operation i db = Some operation \<and>
        (rp_edge_type request = ObservedBy \<longrightarrow> op_operation_kind operation = Observe) \<and>
        (\<forall>a. rp_actor_id request = Some a \<longrightarrow> a = op_requesting_actor_id operation) \<and>
        (\<forall>d. rp_device_id request = Some d \<longrightarrow> d \<in> {op_requesting_device_id operation,
           op_recording_device_id operation, op_recording_server_id operation}))"
  by (auto simp: operation_matches_def bindR_eq_Inr ok_or_eq fail_if_eq split: option.splits)

text \<open>The checks of a request, and the canonical form of its metadata.\<close>

definition request_accepted ::
    "prov_env \<Rightarrow> pool_db \<Rightarrow> edge_row list \<Rightarrow> ProvenanceEdgeRequest \<Rightarrow> string option \<Rightarrow> Value option \<Rightarrow> bool" where
  "request_accepted env db edges request text value \<longleftrightarrow>
     check_request db edges request = Inr () \<and> normalize_metadata env (rp_metadata request) = Inr text \<and>
     transpose_result (pv_from_str env) text = Inr value"

lemma check_request_ok:
  "check_request db edges request = Inr u \<longleftrightarrow>
     validate_item_ref (rp_source request) = Inr () \<and> validate_item_ref (rp_target request) = Inr () \<and>
     rp_source request \<noteq> rp_target request \<and>
     (\<forall>from to. rp_valid_from request = Some from \<longrightarrow> rp_valid_to request = Some to \<longrightarrow> from \<le> to) \<and>
     operation_matches db request = Inr () \<and>
     (\<forall>i. rp_supersedes_edge_id request = Some i \<longrightarrow> has_key er_edge_id i edges)"
  unfolding check_request_def checks_ok
  by (auto simp: fail_if_eq validate_supersedes_reference_def not_less split: option.splits)

lemma answer_existing:
  "(if existing \<noteq> []
    then (case f existing of Some edge \<Rightarrow> Inr (edge, edges) | None \<Rightarrow> Inl e)
    else bindR m (\<lambda>edges'. Inr (new, edges'))) = Inr (edge, edges') \<longleftrightarrow>
   (if existing \<noteq> [] then f existing = Some edge \<and> edges' = edges else m = Inr edges' \<and> edge = new)"
  by (auto simp: bindR_eq_Inr split: option.splits)

lemma record_conn_ok:
  "record_provenance_edge_conn env db request edges = Inr (edge, edges') \<longleftrightarrow>
     (\<exists>text value existing. request_accepted env db edges request text value \<and>
        existing_edges env edges request = Inr existing \<and>
        (if existing \<noteq> []
         then find (\<lambda>edge. edge_matches_request edge request value) existing = Some edge \<and> edges' = edges
         else insert_edge env db (row_of_request env (length edges) request text) edges = Inr edges' \<and>
              edge = edge_of_request env (length edges) request value))"
  unfolding record_provenance_edge_conn_def bindR_eq_Inr map_err_eq_Inr answer_existing request_accepted_def
  by auto

text \<open>
  The codecs of a stored edge: what chrono prints is parsed back to the same instant. Serde needs no
  law here, because the recorder itself reads back the metadata that it writes.
\<close>

definition instants_read_back :: "prov_env \<Rightarrow> bool" where
  "instants_read_back env \<longleftrightarrow> (\<forall>t. pv_parse_from_rfc3339 env (pv_rfc3339 env t) = Inr t)"

lemma row_reads_back:
  assumes "instants_read_back env" and "request_accepted env db edges request text value"
  shows "map_row_to_provenance_edge env (row_of_request env n request text) =
     Inr (edge_of_request env n request value)"
proof -
  let ?row = "row_of_request env n request text"
  have refs: "item_ref_new (mir_kind r) (mir_id r) = Inr r" if "validate_item_ref r = Inr ()" for r
    using that by (simp add: validate_item_ref_def fail_if_eq item_ref_new_ok)
  have optional: "parse_optional_rfc3339 env (map_option (pv_rfc3339 env) t) field = Inr t" for t field
    using assms(1) by (cases t) (simp_all add: parse_optional_rfc3339_def transpose_result_def
        parse_rfc3339_def instants_read_back_def)
  have "parse_rfc3339 env (pv_rfc3339 env t) field = Inr t" for t field
    using assms(1) by (simp add: parse_rfc3339_def instants_read_back_def)
  moreover have "parse_metadata_for_result env text = Inr value"
    using assms(2) by (simp add: parse_metadata_for_result_def request_accepted_def)
  ultimately show ?thesis
    using assms(2) refs optional
    by (simp add: map_row_to_provenance_edge_def row_of_request_def edge_of_request_def
        conversion_def request_accepted_def check_request_ok)
qed

section \<open>What the table keeps\<close>

lemma key_of_request_row [simp]: "edge_key (row_of_request env n request text) = request_key request"
  by (simp add: edge_key_def request_key_def row_of_request_def)

definition edge_appended ::
    "prov_env \<Rightarrow> pool_db \<Rightarrow> ProvenanceEdgeRequest \<Rightarrow> edge_row list \<Rightarrow> edge_row \<Rightarrow> ProvenanceEdge \<Rightarrow> bool" where
  "edge_appended env db request edges row edge \<longleftrightarrow>
     (\<exists>text value. request_accepted env db edges request text value \<and>
        row = row_of_request env (length edges) request text \<and>
        edge = edge_of_request env (length edges) request value) \<and>
     request_key request \<notin> edge_key ` set edges \<and> \<not> has_key er_edge_id (er_edge_id row) edges \<and>
     canonical_key (rp_source request) \<noteq> canonical_key (rp_target request)"

definition edge_answered ::
    "prov_env \<Rightarrow> ProvenanceEdgeRequest \<Rightarrow> edge_row list \<Rightarrow> ProvenanceEdge \<Rightarrow> bool" where
  "edge_answered env request edges edge \<longleftrightarrow>
     (\<exists>row \<in> set edges. edge_key row = request_key request \<and>
        map_row_to_provenance_edge env row = Inr edge) \<and>
     (\<exists>text value. normalize_metadata env (rp_metadata request) = Inr text \<and>
        transpose_result (pv_from_str env) text = Inr value \<and> edge_matches_request edge request value)"

lemma existing_none:
  "existing_edges env edges request = Inr [] \<longleftrightarrow> request_key request \<notin> edge_key ` set edges"
  by (auto simp: existing_edges_def collect_results_ok filter_empty_conv image_iff)

lemma collect_results_set:
  "collect_results f xs = Inr ys \<Longrightarrow> y \<in> set ys \<longleftrightarrow> (\<exists>x \<in> set xs. f x = Inr y)"
  by (induction xs arbitrary: ys) (auto simp: bindR_eq_Inr)

lemma collect_results_source:
  "collect_results f xs = Inr ys \<Longrightarrow> y \<in> set ys \<Longrightarrow> \<exists>x \<in> set xs. f x = Inr y"
  by (induction xs arbitrary: ys) (auto simp: bindR_eq_Inr)

lemma existing_row:
  assumes "existing_edges env edges request = Inr existing" "edge \<in> set existing"
  shows "\<exists>row \<in> set edges. edge_key row = request_key request \<and>
     map_row_to_provenance_edge env row = Inr edge"
  using collect_results_source [OF assms(1) [unfolded existing_edges_def] assms(2)] by auto

lemma record_conn_cases:
  assumes "record_provenance_edge_conn env db request edges = Inr (edge, edges')"
  shows "edges' = edges \<and> edge_answered env request edges edge \<or>
     (\<exists>row. edges' = edges @ [row] \<and> edge_appended env db request edges row edge)"
proof -
  from assms [unfolded record_conn_ok] obtain metadata json existing
    where acc: "request_accepted env db edges request metadata json"
      and ex: "existing_edges env edges request = Inr existing"
      and out: "if existing \<noteq> []
         then find (\<lambda>edge. edge_matches_request edge request json) existing = Some edge \<and> edges' = edges
         else insert_edge env db (row_of_request env (length edges) request metadata) edges = Inr edges' \<and>
              edge = edge_of_request env (length edges) request json" by blast
  show ?thesis
  proof (cases "existing = []")
    case False
    then have found: "edge \<in> set existing" "edge_matches_request edge request json" "edges' = edges"
      using out by (auto simp: find_Some_iff)
    then show ?thesis
      using existing_row [OF ex found(1)] acc by (auto simp: edge_answered_def request_accepted_def)
  next
    case True
    then have "insert_edge env db (row_of_request env (length edges) request metadata) edges = Inr edges'"
      "edge = edge_of_request env (length edges) request json"
      "request_key request \<notin> edge_key ` set edges"
      using out ex existing_none by auto
    then show ?thesis using acc
      by (auto simp: edge_appended_def insert_edge_def sql_insert_ok row_of_request_def canonical_key_def)
  qed
qed

text \<open>
  A later database knows every operation that an earlier one knew (\<open>control_plane_append_only\<close>), and
  all connections print and parse with the same libraries.
\<close>

definition operations_kept :: "pool_db \<Rightarrow> pool_db \<Rightarrow> bool" where
  "operations_kept db db' \<longleftrightarrow>
     (\<forall>i operation. get_operation i db = Some operation \<longrightarrow> get_operation i db' = Some operation)"

definition same_codecs :: "prov_env \<Rightarrow> prov_env \<Rightarrow> bool" where
  "same_codecs env env' \<longleftrightarrow>
     pv_rfc3339 env' = pv_rfc3339 env \<and> pv_parse_from_rfc3339 env' = pv_parse_from_rfc3339 env \<and>
     pv_from_str env' = pv_from_str env \<and> pv_to_string env' = pv_to_string env"

text \<open>The states of the store: edges are recorded, and the other tables move on.\<close>

inductive edges_step ::
    "prov_env \<Rightarrow> pool_db \<times> edge_row list \<Rightarrow> pool_db \<times> edge_row list \<Rightarrow> bool" for env where
  record_edges: "same_codecs env env' \<Longrightarrow>
    edges_step env (db, edges) (db, snd (record_provenance_edges env' db requests edges))"
| change_database: "operations_kept db db' \<Longrightarrow> edges_step env (db, edges) (db', edges)"

definition edges_reachable :: "prov_env \<Rightarrow> pool_db \<Rightarrow> edge_row list \<Rightarrow> bool" where
  "edges_reachable env db edges \<longleftrightarrow> (\<exists>db0. (edges_step env)\<^sup>*\<^sup>* (db0, []) (db, edges))"

definition supersedes_backwards :: "edge_row list \<Rightarrow> bool" where
  "supersedes_backwards edges \<longleftrightarrow>
     (\<forall>before row behind i. edges = before @ row # behind \<longrightarrow> er_supersedes_edge_id row = Some i \<longrightarrow>
        i \<in> er_edge_id ` set before)"

definition edge_wf :: "prov_env \<Rightarrow> pool_db \<Rightarrow> edge_row \<Rightarrow> bool" where
  "edge_wf env db row \<longleftrightarrow>
     (\<exists>edge. map_row_to_provenance_edge env row = Inr edge \<and>
        canonical_key (ed_source edge) \<noteq> canonical_key (ed_target edge) \<and>
        (\<forall>from to. ed_valid_from edge = Some from \<longrightarrow> ed_valid_to edge = Some to \<longrightarrow> from \<le> to)) \<and>
     (\<exists>i operation. er_operation_id row = Some i \<and> get_operation i db = Some operation \<and>
        (er_edge_type row = ObservedBy \<longrightarrow> op_operation_kind operation = Observe) \<and>
        (\<forall>a. er_actor_id row = Some a \<longrightarrow> a = op_requesting_actor_id operation))"

definition edges_ok :: "prov_env \<Rightarrow> pool_db \<Rightarrow> edge_row list \<Rightarrow> bool" where
  "edges_ok env db edges \<longleftrightarrow>
     (\<forall>row \<in> set edges. edge_wf env db row) \<and> distinct (map er_edge_id edges) \<and>
     distinct (map edge_key edges) \<and> supersedes_backwards edges"

lemma supersedes_backwards_append:
  "supersedes_backwards (edges @ [row]) \<longleftrightarrow>
     supersedes_backwards edges \<and>
     (\<forall>i. er_supersedes_edge_id row = Some i \<longrightarrow> has_key er_edge_id i edges)"
proof -
  have split: "edges @ [row] = before @ r # behind \<longleftrightarrow> behind = [] \<and> before = edges \<and> r = row \<or>
      (\<exists>rest. behind = rest @ [row] \<and> edges = before @ r # rest)" for before r behind
    by (cases behind rule: rev_cases) auto
  show ?thesis unfolding supersedes_backwards_def has_key_iff split
  proof (intro iffI conjI allI impI, goal_cases)
    case (1 before r behind i)
    then show ?case by blast
  next
    case (2 i)
    then show ?case by blast
  next
    case (3 before r behind i)
    then show ?case by (elim disjE conjE exE) simp_all
  qed
qed

lemma edge_of_request_fields [simp]:
  "ed_source (edge_of_request env n request value) = rp_source request"
  "ed_target (edge_of_request env n request value) = rp_target request"
  "ed_valid_from (edge_of_request env n request value) = rp_valid_from request"
  "ed_valid_to (edge_of_request env n request value) = rp_valid_to request"
  "ed_edge_id (edge_of_request env n request value) = pv_fresh_id env n"
  by (simp_all add: edge_of_request_def)

lemma same_codecs_read:
  assumes "same_codecs env env'"
  shows "map_row_to_provenance_edge env' row = Inr edge \<longleftrightarrow> map_row_to_provenance_edge env row = Inr edge"
    and "instants_read_back env' = instants_read_back env"
  using assms
  by (simp_all add: map_row_to_provenance_edge_def bindR_eq_Inr conversion_ok same_codecs_def
      parse_optional_rfc3339_def parse_rfc3339_def parse_metadata_for_result_def instants_read_back_def
      cong: if_cong)

lemma appended_wf:
  assumes "instants_read_back env" "edge_appended env db request edges row edge"
  shows "edge_wf env db row"
proof -
  from assms(2) obtain metadata json where acc: "request_accepted env db edges request metadata json"
    and row: "row = row_of_request env (length edges) request metadata"
    and keys: "canonical_key (rp_source request) \<noteq> canonical_key (rp_target request)"
    by (auto simp: edge_appended_def)
  have "operation_matches db request = Inr ()"
    using acc by (simp add: request_accepted_def check_request_ok)
  moreover have "\<forall>from to. rp_valid_from request = Some from \<longrightarrow> rp_valid_to request = Some to \<longrightarrow> from \<le> to"
    using acc by (simp add: request_accepted_def check_request_ok)
  ultimately show ?thesis
    using row_reads_back [OF assms(1) acc] keys unfolding row
    by (auto simp: edge_wf_def operation_matches_ok row_of_request_def)
qed

lemma appended_ok:
  assumes "instants_read_back env" "edges_ok env db edges" "edge_appended env db request edges row edge"
  shows "edges_ok env db (edges @ [row])"
proof -
  from assms(3) obtain metadata json where acc: "request_accepted env db edges request metadata json"
    and row: "row = row_of_request env (length edges) request metadata"
    and new: "request_key request \<notin> edge_key ` set edges" "\<not> has_key er_edge_id (er_edge_id row) edges"
    by (auto simp: edge_appended_def)
  have "\<forall>i. er_supersedes_edge_id row = Some i \<longrightarrow> has_key er_edge_id i edges"
    using acc by (simp add: row row_of_request_def request_accepted_def check_request_ok)
  moreover have "edge_key row = request_key request" by (simp add: row)
  ultimately show ?thesis
    using assms(2) new appended_wf [OF assms(1,3)]
    by (auto simp: edges_ok_def supersedes_backwards_append has_key_iff)
qed

lemma edges_ok_codecs: "same_codecs env env' \<Longrightarrow> edges_ok env' db edges = edges_ok env db edges"
  by (simp add: edges_ok_def edge_wf_def same_codecs_read)

lemma edges_ok_later: "operations_kept db db' \<Longrightarrow> edges_ok env db edges \<Longrightarrow> edges_ok env db' edges"
  by (fastforce simp: edges_ok_def edge_wf_def operations_kept_def)

lemma record_conn_keeps:
  assumes "instants_read_back env" "edges_ok env db edges"
    and "record_provenance_edge_conn env db request edges = Inr (edge, edges')"
  shows "edges_ok env db edges' \<and> prefix edges edges'"
  using record_conn_cases [OF assms(3)] appended_ok [OF assms(1,2)] assms(2) by auto

lemma record_each_keeps:
  assumes "instants_read_back env"
  shows "edges_ok env db edges \<Longrightarrow> record_each env db requests edges = Inr (recorded, edges') \<Longrightarrow>
    edges_ok env db edges' \<and> prefix edges edges'"
proof (induction requests arbitrary: edges recorded)
  case (Cons request requests)
  from Cons.prems(2) obtain edge edges1 rest
    where one: "record_provenance_edge_conn env db request edges = Inr (edge, edges1)"
      and others: "record_each env db requests edges1 = Inr (rest, edges')"
    by (auto simp: bindR_eq_Inr)
  show ?case
    using record_conn_keeps [OF assms Cons.prems(1) one] Cons.IH [OF _ others] by auto
qed simp

lemma record_edges_keeps:
  assumes "instants_read_back env" "edges_ok env db edges"
  shows "edges_ok env db (snd (record_provenance_edges env db requests edges)) \<and>
    prefix edges (snd (record_provenance_edges env db requests edges))"
  using record_each_keeps [OF assms(1,2)] assms(2)
  by (auto simp: record_provenance_edges_def split: sum.splits)

lemma step_keeps:
  assumes "instants_read_back env" "edges_step env s s'" "edges_ok env (fst s) (snd s)"
  shows "edges_ok env (fst s') (snd s') \<and> prefix (snd s) (snd s') \<and> operations_kept (fst s) (fst s')"
  using assms(2)
proof cases
  case (record_edges env' db edges requests)
  have "instants_read_back env'" using assms(1) record_edges(3) by (simp add: same_codecs_read)
  from record_edges_keeps [OF this, of db edges requests] assms(3) record_edges show ?thesis
    by (simp add: edges_ok_codecs operations_kept_def)
next
  case (change_database db db' edges)
  then show ?thesis using assms(3) edges_ok_later by auto
qed

lemma steps_keep:
  assumes "instants_read_back env" "(edges_step env)\<^sup>*\<^sup>* s s'" "edges_ok env (fst s) (snd s)"
  shows "edges_ok env (fst s') (snd s') \<and> prefix (snd s) (snd s') \<and> operations_kept (fst s) (fst s')"
  using assms(2)
proof (induction rule: rtranclp_induct)
  case base
  then show ?case using assms(3) by (simp add: operations_kept_def)
next
  case (step t u)
  from step_keeps [OF assms(1) step.hyps(2)] step.IH show ?case
    by (auto simp: operations_kept_def intro: prefix_order.trans)
qed

lemma reachable_ok:
  assumes "instants_read_back env" "edges_reachable env db edges"
  shows "edges_ok env db edges"
proof -
  obtain db0 where steps: "(edges_step env)\<^sup>*\<^sup>* (db0, []) (db, edges)"
    using assms(2) by (auto simp: edges_reachable_def)
  have "edges_ok env db0 []" by (simp add: edges_ok_def supersedes_backwards_def)
  then show ?thesis using steps_keep [OF assms(1) steps] by simp
qed

text \<open>
  C29. Whatever edges are recorded, in batches and against a control plane that moves on, the table
  keeps its invariant: every row reads back as an edge between two different items whose validity
  interval is not empty, was justified by an operation that is still there, of the kind and the
  actor that the edge claims; identifiers are unique, an operation relates two items at most once by
  a type, and an edge supersedes earlier edges only, so that supersession never runs in a circle.
\<close>

theorem provenance_invariant:
  assumes "edges_reachable env db edges" and "instants_read_back env"
  shows "(\<forall>row \<in> set edges. edge_wf env db row) \<and> distinct (map er_edge_id edges) \<and>
    distinct (map edge_key edges) \<and> supersedes_backwards edges"
  using reachable_ok [OF assms(2,1)] unfolding edges_ok_def .

section \<open>Recording again\<close>

lemma accepted_later:
  assumes "request_accepted env1 db edges request metadata json" "operations_kept db db'"
    and "prefix edges edges'" "same_codecs env env1" "same_codecs env env2"
  shows "request_accepted env2 db' edges' request metadata json"
proof -
  have "operation_matches db request = Inr () \<Longrightarrow> operation_matches db' request = Inr ()"
    using assms(2) unfolding operation_matches_ok operations_kept_def by blast
  moreover have "has_key er_edge_id i edges \<Longrightarrow> has_key er_edge_id i edges'" for i
    using assms(3) by (auto simp: has_key_iff prefix_def)
  moreover have "pv_from_str env2 = pv_from_str env1" "pv_to_string env2 = pv_to_string env1"
    using assms(4,5) by (simp_all add: same_codecs_def)
  ultimately show ?thesis
    using assms(1) by (auto simp: request_accepted_def check_request_ok normalize_metadata_def)
qed

lemma edge_of_request_matches: "edge_matches_request (edge_of_request env n request json) request json"
  by (simp add: edge_matches_request_def edge_of_request_def)

lemma row_edge_id: "map_row_to_provenance_edge env row = Inr edge \<Longrightarrow> ed_edge_id edge = er_edge_id row"
  by (auto simp: map_row_to_provenance_edge_def bindR_eq_Inr)

lemma filter_key:
  assumes "distinct (map key rows)" "row \<in> set rows"
  shows "filter (\<lambda>r. key r = key row) rows = [row]"
  using assms
proof (induction rows)
  case (Cons a rows)
  have "filter (\<lambda>r. key r = key a) rows = []" if "key a \<notin> key ` set rows"
    using that by (auto simp: filter_empty_conv image_iff)
  then show ?case using Cons by auto
qed simp

text \<open>
  A row that answers a request, in a table that keeps the invariant, answers it from then on.
\<close>

lemma answers_request:
  assumes ok: "edges_ok env db edges" and row: "row \<in> set edges" "edge_key row = request_key request"
    and reads: "map_row_to_provenance_edge env row = Inr edge"
    and acc: "request_accepted env db edges request metadata json"
    and same: "edge_matches_request edge request json"
  shows "record_provenance_edge env db request edges = (Inr edge, edges)"
    and "get_provenance_edge env (ed_edge_id edge) edges = Inr (Some edge)"
proof -
  have "filter (\<lambda>r. edge_key r = request_key request) edges = [row]"
    using filter_key [of edge_key edges row] ok row by (simp add: edges_ok_def)
  then have "existing_edges env edges request = Inr [edge]" by (simp add: existing_edges_def reads)
  then have "record_provenance_edge_conn env db request edges = Inr (edge, edges)"
    unfolding record_conn_ok using acc same by fastforce
  then show "record_provenance_edge env db request edges = (Inr edge, edges)"
    by (simp add: record_provenance_edge_def)
  have "row_by er_edge_id (ed_edge_id edge) edges = Some row"
    using ok row(1) row_edge_id [OF reads] by (simp add: edges_ok_def row_by_distinct)
  then show "get_provenance_edge env (ed_edge_id edge) edges = Inr (Some edge)"
    by (simp add: get_provenance_edge_def transpose_result_def reads)
qed

lemma recorded_row:
  assumes "instants_read_back env" "record_provenance_edge env db request edges = (Inr edge, edges')"
  shows "\<exists>metadata json row. request_accepted env db edges request metadata json \<and> row \<in> set edges' \<and>
     edge_key row = request_key request \<and> map_row_to_provenance_edge env row = Inr edge \<and>
     edge_matches_request edge request json \<and> prefix edges edges'"
proof -
  have one: "record_provenance_edge_conn env db request edges = Inr (edge, edges')"
    using assms(2) by (auto simp: record_provenance_edge_def split: sum.splits)
  then obtain metadata json where acc: "request_accepted env db edges request metadata json"
    unfolding record_conn_ok by blast
  from record_conn_cases [OF one] show ?thesis
  proof
    assume "edges' = edges \<and> edge_answered env request edges edge"
    then show ?thesis using acc
      by (auto simp: edge_answered_def request_accepted_def intro!: exI [of _ metadata] exI [of _ json])
  next
    assume "\<exists>row. edges' = edges @ [row] \<and> edge_appended env db request edges row edge"
    then obtain row metadata json where "edges' = edges @ [row]"
      and acc: "request_accepted env db edges request metadata json"
      and "row = row_of_request env (length edges) request metadata"
      and "edge = edge_of_request env (length edges) request json"
      by (auto simp: edge_appended_def)
    then show ?thesis
      using row_reads_back [OF assms(1) acc] edge_of_request_matches by fastforce
  qed
qed

lemma recorded_again:
  assumes "edges_ok env db edges" and "instants_read_back env"
    and "same_codecs env env1" and "record_provenance_edge env1 db request edges = (Inr edge, edges1)"
    and "(edges_step env)\<^sup>*\<^sup>* (db, edges1) (db2, edges2)" and "same_codecs env env2"
  shows "record_provenance_edge env2 db2 request edges2 = (Inr edge, edges2) \<and>
    get_provenance_edge env2 (ed_edge_id edge) edges2 = Inr (Some edge)"
proof -
  have read1: "instants_read_back env1" using assms(2,3) by (simp add: same_codecs_read)
  obtain metadata json row where acc: "request_accepted env1 db edges request metadata json"
    and row: "row \<in> set edges1" "edge_key row = request_key request"
    and reads: "map_row_to_provenance_edge env1 row = Inr edge"
    and same: "edge_matches_request edge request json" and grown: "prefix edges edges1"
    using recorded_row [OF read1 assms(4)] by blast
  have one: "record_provenance_edge_conn env1 db request edges = Inr (edge, edges1)"
    using assms(4) by (auto simp: record_provenance_edge_def split: sum.splits)
  have "edges_ok env1 db edges"
    using assms(1,3) by (simp add: edges_ok_codecs)
  then have "edges_ok env db edges1"
    using record_conn_keeps [OF read1 _ one] assms(3) by (simp add: edges_ok_codecs)
  then have later: "edges_ok env db2 edges2" "prefix edges1 edges2" "operations_kept db db2"
    using steps_keep [OF assms(2,5)] by simp_all
  have "request_accepted env2 db2 edges2 request metadata json"
    using accepted_later [OF acc later(3) _ assms(3,6)] grown later(2) by (auto intro: prefix_order.trans)
  moreover have "row \<in> set edges2" using row(1) later(2) set_mono_prefix by blast
  moreover have "map_row_to_provenance_edge env2 row = Inr edge"
    using reads assms(3,6) by (simp add: same_codecs_read)
  moreover have "edges_ok env2 db2 edges2" using later(1) assms(6) by (simp add: edges_ok_codecs)
  ultimately show ?thesis using answers_request row(2) same by blast
qed

text \<open>
  Recording an edge can be retried: once a request was answered with an edge, the same request
  is answered with that edge and changes nothing, however many edges were recorded since, whatever
  identifiers and clocks the retry draws, and as long as operations are not forgotten; and the
  edge is read back under its identifier exactly as it was returned.
\<close>

theorem edge_recording_retry:
  assumes "edges_reachable env db edges" and "instants_read_back env"
    and "same_codecs env env1" and "record_provenance_edge env1 db request edges = (Inr edge, edges1)"
    and "(edges_step env)\<^sup>*\<^sup>* (db, edges1) (db2, edges2)" and "same_codecs env env2"
  shows "record_provenance_edge env2 db2 request edges2 = (Inr edge, edges2) \<and>
    get_provenance_edge env2 (ed_edge_id edge) edges2 = Inr (Some edge)"
  by (rule recorded_again [OF reachable_ok [OF assms(2,1)] assms(2-6)])

section \<open>Two recorded edges\<close>

text \<open>Instants in unary, metadata without content.\<close>

definition toy_rfc3339 :: "instant \<Rightarrow> string" where
  "toy_rfc3339 t = (if t < 0 then CHR ''-'' # replicate (nat (- t)) CHR ''i'' else replicate (nat t) CHR ''i'')"

definition toy_prov_env :: prov_env where
  "toy_prov_env = \<lparr> pv_message = (\<lambda>_. ''constraint''),
     pv_fresh_id = (\<lambda>n. ProvenanceEdgeId (replicate (Suc n) CHR ''e'')), pv_now = (\<lambda>n. int n),
     pv_rfc3339 = toy_rfc3339,
     pv_parse_from_rfc3339 = (\<lambda>s. case s of c # s' \<Rightarrow>
        Inr (if c = CHR ''-'' then - int (length s') else int (length s)) | [] \<Rightarrow> Inr 0),
     pv_from_str = (\<lambda>_. Inr JNull), pv_to_string = (\<lambda>_. Inr ''null''),
     pv_conversion = (\<lambda>_. ''conversion''), pv_mismatch = ''mismatch'' \<rparr>"

lemma toy_instants: "instants_read_back toy_prov_env"
proof -
  have "pv_parse_from_rfc3339 toy_prov_env (toy_rfc3339 t) = Inr t" for t
    by (cases "nat t") (auto simp: toy_prov_env_def toy_rfc3339_def)
  then show ?thesis by (simp add: instants_read_back_def toy_prov_env_def)
qed

definition example_operation :: OperationEnvelope where
  "example_operation = \<lparr> op_operation_id = OperationId ''o'', op_idempotency_key = ''k'',
     op_requesting_device_id = DeviceId ''d'', op_requesting_actor_id = ActorId ''a'',
     op_recording_device_id = DeviceId ''d'', op_recording_server_id = DeviceId ''d'',
     op_operation_kind = Observe, op_target_kind = ''fact'', op_target_id = ''f2'',
     op_content_digest = ''x'', op_observed_at = None, op_valid_time = None,
     op_recorded_at = ''i'', op_receipt_id = None \<rparr>"

definition example_prov_db :: pool_db where
  "example_prov_db = empty_db\<lparr>db_operations := [example_operation]\<rparr>"

definition fact_ref :: "string \<Rightarrow> MemoryItemRef" where
  "fact_ref s = \<lparr> mir_kind = ''fact'', mir_id = s \<rparr>"

definition example_request_edge :: "string \<Rightarrow> string \<Rightarrow> ProvenanceEdgeRequest" where
  "example_request_edge a b =
     typed_request DerivedFrom (fact_ref a) (fact_ref b) (OperationId ''o'') None None None"

definition example_edge_row :: "nat \<Rightarrow> string \<Rightarrow> string \<Rightarrow> edge_row" where
  "example_edge_row n a b = row_of_request toy_prov_env n (example_request_edge a b) None"

lemma example_recorded:
  assumes "a = ''f1'' \<and> b = ''f2'' \<and> edges = [] \<or>
      a = ''f2'' \<and> b = ''f3'' \<and> edges = [example_edge_row 0 ''f1'' ''f2'']"
  shows "record_provenance_edge toy_prov_env example_prov_db (example_request_edge a b) edges =
    (Inr (edge_of_request toy_prov_env (length edges) (example_request_edge a b) None),
     edges @ [example_edge_row (length edges) a b])"
proof -
  have refs: "trim ''fact'' = ''fact''" "trim ''f1'' = ''f1''" "trim ''f2'' = ''f2''" "trim ''f3'' = ''f3''"
    by (simp_all add: trim_printable)
  from assms show ?thesis
    by (elim disjE conjE)
      (simp_all add: record_provenance_edge_def record_provenance_edge_conn_def check_request_def
        validate_item_ref_def operation_matches_def get_operation_def row_by_def
        validate_supersedes_reference_def
        normalize_metadata_def transpose_result_def existing_edges_def example_request_edge_def
        typed_request_def fact_ref_def refs insert_edge_def sql_insert_def fk_fails_def has_key_def
        example_edge_row_def row_of_request_def request_key_def edge_key_def toy_prov_env_def
        edge_of_request_def example_prov_db_def example_operation_def fail_if_def)
qed

definition example_edges :: "edge_row list" where
  "example_edges = [example_edge_row 0 ''f1'' ''f2'', example_edge_row 1 ''f2'' ''f3'']"

lemma example_step:
  assumes "a = ''f1'' \<and> b = ''f2'' \<and> edges = [] \<or>
      a = ''f2'' \<and> b = ''f3'' \<and> edges = [example_edge_row 0 ''f1'' ''f2'']"
  shows "edges_step toy_prov_env (example_prov_db, edges)
    (example_prov_db, edges @ [example_edge_row (length edges) a b])"
proof -
  let ?req = "example_request_edge a b"
  have "record_provenance_edge toy_prov_env example_prov_db ?req edges =
      (Inr (edge_of_request toy_prov_env (length edges) ?req None),
       edges @ [example_edge_row (length edges) a b])"
    by (rule example_recorded [OF assms])
  then have "snd (record_provenance_edges toy_prov_env example_prov_db [?req] edges) =
      edges @ [example_edge_row (length edges) a b]"
    by (auto simp: record_provenance_edges_def record_provenance_edge_def split: sum.splits)
  moreover have "same_codecs toy_prov_env toy_prov_env" by (simp add: same_codecs_def)
  ultimately show ?thesis
    using record_edges [of toy_prov_env toy_prov_env example_prov_db edges "[?req]"] by simp
qed

lemma example_later:
  "(edges_step toy_prov_env)\<^sup>*\<^sup>* (example_prov_db, [example_edge_row 0 ''f1'' ''f2''])
     (example_prov_db, example_edges)"
  by (rule r_into_rtranclp)
    (use example_step [of "''f2''" "''f3''" "[example_edge_row 0 ''f1'' ''f2'']"] in
      \<open>simp add: example_edges_def\<close>)

lemma example_edges_reachable: "edges_reachable toy_prov_env example_prov_db example_edges"
proof -
  have "edges_step toy_prov_env (example_prov_db, []) (example_prov_db, [example_edge_row 0 ''f1'' ''f2''])"
    using example_step [of "''f1''" "''f2''" "[]"] by simp
  then have "(edges_step toy_prov_env)\<^sup>*\<^sup>* (example_prov_db, []) (example_prov_db, example_edges)"
    by (rule converse_rtranclp_into_rtranclp) (rule example_later)
  then show ?thesis unfolding edges_reachable_def by blast
qed

theorem provenance_invariant_witness:
  "edges_reachable toy_prov_env example_prov_db example_edges \<and> length example_edges = 2 \<and>
   distinct (map edge_key example_edges) \<and> supersedes_backwards example_edges"
  using provenance_invariant [OF example_edges_reachable toy_instants] example_edges_reachable
  by (simp add: example_edges_def)

theorem edge_recording_retry_witness:
  "record_provenance_edge (toy_prov_env\<lparr>pv_now := \<lambda>_. 9\<rparr>) example_prov_db
     (example_request_edge ''f1'' ''f2'') example_edges =
   (Inr (edge_of_request toy_prov_env 0 (example_request_edge ''f1'' ''f2'') None), example_edges)"
proof -
  have start: "edges_reachable toy_prov_env example_prov_db []" by (auto simp: edges_reachable_def)
  have same: "same_codecs toy_prov_env toy_prov_env"
    "same_codecs toy_prov_env (toy_prov_env\<lparr>pv_now := \<lambda>_. 9\<rparr>)"
    by (simp_all add: same_codecs_def)
  have "record_provenance_edge toy_prov_env example_prov_db (example_request_edge ''f1'' ''f2'') [] =
     (Inr (edge_of_request toy_prov_env 0 (example_request_edge ''f1'' ''f2'') None),
      [example_edge_row 0 ''f1'' ''f2''])"
    using example_recorded [of "''f1''" "''f2''" "[]"] by simp
  from edge_recording_retry [OF start toy_instants same(1) this example_later same(2)]
  show ?thesis ..
qed

end
