(* ===== verification/Lineage.thy ===== *)
theory Lineage
  imports Provenance
begin

text \<open>
  Reading the provenance graph (\<open>src/store.rs\<close>): the query for the edges that are visible at a time,
  and the lineage of an item, a breadth-first search over such queries. The queries of one search
  see the same table; each reads the clock again when the request names no time.
\<close>

section \<open>Queries\<close>

record AsOf =
  ao_valid_at :: "string option"
  ao_recorded_at_or_before :: "string option"

definition as_of_at :: "string option \<Rightarrow> string option \<Rightarrow> AsOf" where
  "as_of_at valid_at recorded_at_or_before =
     \<lparr> ao_valid_at = valid_at, ao_recorded_at_or_before = recorded_at_or_before \<rparr>"

definition as_of_now :: AsOf where
  "as_of_now = \<lparr> ao_valid_at = None, ao_recorded_at_or_before = None \<rparr>"

record ProvenanceQuery =
  qu_source :: "MemoryItemRef option"
  qu_target :: "MemoryItemRef option"
  qu_edge_types :: "ProvenanceEdgeType list"
  qu_operation_id :: "OperationId option"
  qu_as_of :: AsOf
  qu_include_superseded :: bool
  qu_limit :: usize

definition as_of_time_params :: "prov_env \<Rightarrow> instant \<Rightarrow> AsOf \<Rightarrow> string \<times> string option" where
  "as_of_time_params env now as_of =
     ((case ao_recorded_at_or_before as_of of Some t \<Rightarrow> t | None \<Rightarrow> pv_rfc3339 env now),
      ao_valid_at as_of)"

text \<open>Times are compared as texts.\<close>

definition visible_at :: "string \<times> string option \<Rightarrow> edge_row \<Rightarrow> bool" where
  "visible_at at row \<longleftrightarrow> er_recorded_at row \<le> fst at \<and>
     (case snd at of
        None \<Rightarrow> True
      | Some v \<Rightarrow>
          (case er_valid_from row of None \<Rightarrow> True | Some from \<Rightarrow> from \<le> v) \<and>
          (case er_valid_to row of None \<Rightarrow> True | Some to \<Rightarrow> v < to))"

text \<open>\<open>NOT EXISTS\<close> in the query: another visible edge supersedes the same target.\<close>

definition superseded_at :: "string \<times> string option \<Rightarrow> edge_row list \<Rightarrow> edge_row \<Rightarrow> bool" where
  "superseded_at at edges row \<longleftrightarrow>
     list_ex (\<lambda>s. er_edge_type s = Supersedes \<and> visible_at at s \<and>
        er_target_kind s = er_target_kind row \<and> er_target_id s = er_target_id row \<and>
        er_edge_id s \<noteq> er_edge_id row) edges"

definition query_selects :: "ProvenanceQuery \<Rightarrow> edge_row \<Rightarrow> bool" where
  "query_selects query row \<longleftrightarrow>
     (case qu_source query of None \<Rightarrow> True
      | Some r \<Rightarrow> er_source_kind row = mir_kind r \<and> er_source_id row = mir_id r) \<and>
     (case qu_target query of None \<Rightarrow> True
      | Some r \<Rightarrow> er_target_kind row = mir_kind r \<and> er_target_id row = mir_id r) \<and>
     (case qu_operation_id query of None \<Rightarrow> True | Some i \<Rightarrow> er_operation_id row = Some i) \<and>
     (qu_edge_types query = [] \<or> er_edge_type row \<in> set (qu_edge_types query))"

definition query_rows :: "string \<times> string option \<Rightarrow> ProvenanceQuery \<Rightarrow> edge_row list \<Rightarrow> edge_row list" where
  "query_rows at query edges =
     filter (\<lambda>row. visible_at at row \<and> query_selects query row \<and>
       (qu_include_superseded query \<or> \<not> superseded_at at edges row)) edges"

text \<open>A limit that is no 64-bit integer is a real number to SQLite, which refuses it.\<close>

definition query_provenance_edges ::
    "prov_env \<Rightarrow> instant \<Rightarrow> ProvenanceQuery \<Rightarrow> edge_row list \<Rightarrow> MnemesError + ProvenanceEdge list" where
  "query_provenance_edges env now query edges =
     (let at = as_of_time_params env now (qu_as_of query);
          limit = (if qu_limit query = 0 then 100 else qu_limit query) in
      bindR (fail_if (int limit > i64_max) (mnemes_from_rusqlite (pv_mismatch env))) (\<lambda>_.
      collect_results (map_row_to_provenance_edge env) (take limit (query_rows at query edges))))"

definition query_new :: "AsOf \<Rightarrow> ProvenanceQuery" where
  "query_new as_of =
     \<lparr> qu_source = None, qu_target = None, qu_edge_types = [], qu_operation_id = None,
       qu_as_of = as_of, qu_include_superseded = True, qu_limit = 10000 \<rparr>"

section \<open>Lineage\<close>

text \<open>semantic-memory's directions, as the exhaustive match of the search names them.\<close>

datatype GraphDirection = Outgoing | Incoming | Both

record LineageResult =
  lr_root :: MemoryItemRef
  lr_edges :: "ProvenanceEdge list"
  lr_items :: "MemoryItemRef list"
  lr_operations :: "OperationEnvelope list"
  lr_truncated :: bool
  lr_as_of :: AsOf

text \<open>
  What a search takes from outside: the clock at each of its readings, and the order in which the
  hash sets are iterated.
\<close>

record 'u lineage_env =
  le_prov :: prov_env
  le_uuid :: "'u uuid_lib"
  le_clock :: "nat \<Rightarrow> instant"
  le_iter :: "string set \<Rightarrow> string list"

record lineage_state =
  ln_visited :: "string set"
  ln_queue :: "(MemoryItemRef \<times> usize) list"
  ln_edges :: "ProvenanceEdge list"
  ln_seen :: "string set"
  ln_operations :: "string set"
  ln_truncated :: bool
  ln_readings :: nat

definition discover ::
    "'u lineage_env \<Rightarrow> GraphDirection \<Rightarrow> AsOf \<Rightarrow> edge_row list \<Rightarrow> MemoryItemRef \<Rightarrow> nat \<Rightarrow>
     MnemesError + ProvenanceEdge list \<times> nat" where
  "discover env direction as_of edges current n =
     (let outgoing = (\<lambda>n. query_provenance_edges (le_prov env) (le_clock env n)
            ((query_new as_of)\<lparr>qu_source := Some current\<rparr>) edges);
          incoming = (\<lambda>n. query_provenance_edges (le_prov env) (le_clock env n)
            ((query_new as_of)\<lparr>qu_target := Some current\<rparr>) edges) in
      case direction of
        Outgoing \<Rightarrow> bindR (outgoing n) (\<lambda>es. Inr (es, n + 1))
      | Incoming \<Rightarrow> bindR (incoming n) (\<lambda>es. Inr (es, n + 1))
      | Both \<Rightarrow> bindR (outgoing n) (\<lambda>out. bindR (incoming (n + 1)) (\<lambda>inc. Inr (out @ inc, n + 2))))"

definition follow :: "GraphDirection \<Rightarrow> MemoryItemRef \<Rightarrow> ProvenanceEdge \<Rightarrow> MemoryItemRef option" where
  "follow direction current edge =
     (case direction of
        Outgoing \<Rightarrow> if ed_source edge = current then Some (ed_target edge) else None
      | Incoming \<Rightarrow> if ed_target edge = current then Some (ed_source edge) else None
      | Both \<Rightarrow> if ed_source edge = current then Some (ed_target edge)
          else if ed_target edge = current then Some (ed_source edge) else None)"

definition note_operation :: "MemoryItemRef \<Rightarrow> string set \<Rightarrow> string set" where
  "note_operation item ids = (if mir_kind item = ''operation'' then insert (mir_id item) ids else ids)"

definition visit_node ::
    "usize \<Rightarrow> usize \<Rightarrow> MemoryItemRef \<Rightarrow> lineage_state \<Rightarrow> lineage_state" where
  "visit_node depth max_depth next_node st =
     (if canonical_key next_node \<in> ln_visited st then st
      else
        let st = st\<lparr>ln_visited := insert (canonical_key next_node) (ln_visited st)\<rparr> in
        if depth + 1 < max_depth then st\<lparr>ln_queue := ln_queue st @ [(next_node, depth + 1)]\<rparr>
        else st\<lparr>ln_truncated := True\<rparr>)"

definition mark_edge :: "ProvenanceEdge \<Rightarrow> lineage_state \<Rightarrow> lineage_state" where
  "mark_edge edge st =
     st\<lparr>ln_seen := insert (edge_id_str (ed_edge_id edge)) (ln_seen st), ln_edges := ln_edges st @ [edge],
        ln_operations := note_operation (ed_target edge)
          (note_operation (ed_source edge) (ln_operations st))\<rparr>"

definition visit_edge ::
    "GraphDirection \<Rightarrow> MemoryItemRef \<Rightarrow> usize \<Rightarrow> usize \<Rightarrow> ProvenanceEdge \<Rightarrow> lineage_state \<Rightarrow> lineage_state" where
  "visit_edge direction current depth max_depth edge st =
     (let id_text = edge_id_str (ed_edge_id edge) in
      if id_text \<in> ln_seen st then st
      else
        case follow direction current edge of
          None \<Rightarrow> mark_edge edge st
        | Some next_node \<Rightarrow> visit_node depth max_depth next_node (mark_edge edge st))"

text \<open>The search: a loop that may not end is \<open>None\<close>.\<close>

partial_function (option) lineage_loop ::
    "'u lineage_env \<Rightarrow> GraphDirection \<Rightarrow> usize \<Rightarrow> AsOf \<Rightarrow> edge_row list \<Rightarrow> lineage_state \<Rightarrow>
     (MnemesError + lineage_state) option" where
  "lineage_loop env direction max_depth as_of edges st =
     (case ln_queue st of
        [] \<Rightarrow> Some (Inr st)
      | (current, depth) # queue \<Rightarrow>
          let st = st\<lparr>ln_queue := queue\<rparr> in
          if depth \<ge> max_depth then lineage_loop env direction max_depth as_of edges st
          else
            (case discover env direction as_of edges current (ln_readings st) of
               Inl e \<Rightarrow> Some (Inl e)
             | Inr (discovered, n) \<Rightarrow>
                 lineage_loop env direction max_depth as_of edges
                   (fold (visit_edge direction current depth max_depth) discovered (st\<lparr>ln_readings := n\<rparr>))))"

definition lineage_start :: "MemoryItemRef \<Rightarrow> lineage_state" where
  "lineage_start root =
     \<lparr> ln_visited = {canonical_key root}, ln_queue = [(root, 0)], ln_edges = [], ln_seen = {},
       ln_operations = note_operation root {}, ln_truncated = False, ln_readings = 0 \<rparr>"

definition lineage_items :: "'u lineage_env \<Rightarrow> string set \<Rightarrow> MemoryItemRef list" where
  "lineage_items env visited =
     sort_key canonical_key
       (filter (\<lambda>item. mir_kind item \<noteq> ''operation'')
         (List.map_filter (\<lambda>key. case parse_key key of Inr item \<Rightarrow> Some item | Inl _ \<Rightarrow> None)
           (le_iter env visited)))"

fun lineage_operations ::
    "'u lineage_env \<Rightarrow> pool_db \<Rightarrow> instant \<Rightarrow> string list \<Rightarrow> MnemesError + OperationEnvelope list" where
  "lineage_operations env db as_of_recorded [] = Inr []"
| "lineage_operations env db as_of_recorded (raw # ids) =
     bindR (map_err Memory (operation_id_parse (le_uuid env) raw)) (\<lambda>operation_id.
     case get_operation operation_id db of
       None \<Rightarrow> lineage_operations env db as_of_recorded ids
     | Some operation \<Rightarrow>
         bindR (parse_rfc3339 (le_prov env) (op_recorded_at operation) ''operation recorded_at'') (\<lambda>recorded.
         bindR (lineage_operations env db as_of_recorded ids) (\<lambda>operations.
         Inr (if recorded \<le> as_of_recorded then operation # operations else operations))))"

definition as_of_recorded :: "prov_env \<Rightarrow> instant \<Rightarrow> AsOf \<Rightarrow> MnemesError + instant" where
  "as_of_recorded env now as_of =
     parse_rfc3339 env (fst (as_of_time_params env now as_of)) ''as_of_recorded''"

definition lineage ::
    "'u lineage_env \<Rightarrow> pool_db \<Rightarrow> edge_row list \<Rightarrow> MemoryItemRef \<Rightarrow> GraphDirection \<Rightarrow> usize \<Rightarrow> AsOf \<Rightarrow>
     (MnemesError + LineageResult) option" where
  "lineage env db edges root direction max_depth as_of =
     (case lineage_loop env direction max_depth as_of edges (lineage_start root) of
        None \<Rightarrow> None
      | Some (Inl e) \<Rightarrow> Some (Inl e)
      | Some (Inr st) \<Rightarrow> Some
          (bindR (as_of_recorded (le_prov env) (le_clock env (ln_readings st)) as_of) (\<lambda>recorded.
           bindR (lineage_operations env db recorded (le_iter env (ln_operations st))) (\<lambda>operations.
           Inr \<lparr> lr_root = root, lr_edges = ln_edges st, lr_items = lineage_items env (ln_visited st),
                 lr_operations = sort_key op_recorded_at operations, lr_truncated = ln_truncated st,
                 lr_as_of = as_of \<rparr>))))"

definition as_of_item_lineage ::
    "'u lineage_env \<Rightarrow> pool_db \<Rightarrow> edge_row list \<Rightarrow> MemoryItemRef \<Rightarrow> AsOf \<Rightarrow>
     (MnemesError + LineageResult) option" where
  "as_of_item_lineage env db edges item as_of =
     lineage env db edges item Both ((2 ^ 64 - 1) div 2) as_of"

definition operation_provenance ::
    "'u lineage_env \<Rightarrow> pool_db \<Rightarrow> edge_row list \<Rightarrow> OperationId \<Rightarrow> AsOf \<Rightarrow>
     MnemesError + OperationEnvelope \<times> ProvenanceEdge list" where
  "operation_provenance env db edges operation_id as_of =
     bindR (ok_or (ProvenanceEdgeNotFound (operation_id_str operation_id))
       (get_operation operation_id db)) (\<lambda>operation.
     bindR (as_of_recorded (le_prov env) (le_clock env 0) as_of) (\<lambda>recorded.
     bindR (parse_rfc3339 (le_prov env) (op_recorded_at operation) ''operation recorded_at'') (\<lambda>at.
     if at > recorded
     then Inl (ProvenanceEdgeNotFound (''operation '' @ operation_id_str operation_id @
            '' not visible at requested as_of''))
     else
       bindR (query_provenance_edges (le_prov env) (le_clock env 1)
         ((query_new as_of)\<lparr>qu_operation_id := Some operation_id\<rparr>) edges) (\<lambda>es.
       Inr (operation, es)))))"

section \<open>The search ends\<close>

definition table_keys :: "edge_row list \<Rightarrow> string set" where
  "table_keys edges =
     (\<lambda>r. er_source_kind r @ '':'' @ er_source_id r) ` set edges \<union>
     (\<lambda>r. er_target_kind r @ '':'' @ er_target_id r) ` set edges"

lemma row_ends:
  "map_row_to_provenance_edge env row = Inr edge \<Longrightarrow>
     ed_source edge = \<lparr> mir_kind = er_source_kind row, mir_id = er_source_id row \<rparr> \<and>
     ed_target edge = \<lparr> mir_kind = er_target_kind row, mir_id = er_target_id row \<rparr>"
  by (auto simp: map_row_to_provenance_edge_def bindR_eq_Inr conversion_ok item_ref_new_ok)

lemma query_ok:
  "query_provenance_edges env now query edges = Inr es \<Longrightarrow>
     collect_results (map_row_to_provenance_edge env)
       (take (if qu_limit query = 0 then 100 else qu_limit query)
         (query_rows (as_of_time_params env now (qu_as_of query)) query edges)) = Inr es"
  by (auto simp: query_provenance_edges_def Let_def bindR_eq_Inr split: if_splits)

lemma queried_edge:
  assumes "query_provenance_edges env now query edges = Inr es" "edge \<in> set es"
  shows "\<exists>row \<in> set edges. map_row_to_provenance_edge env row = Inr edge \<and>
     visible_at (as_of_time_params env now (qu_as_of query)) row \<and> query_selects query row"
  using collect_results_source [OF query_ok [OF assms(1)] assms(2)]
  by (auto simp: query_rows_def dest!: in_set_takeD)

lemma discovered_edge:
  assumes "discover env direction as_of edges current n = Inr (es, m)" "edge \<in> set es"
  shows "\<exists>row \<in> set edges. map_row_to_provenance_edge (le_prov env) row = Inr edge"
  using assms queried_edge
  by (fastforce simp: discover_def Let_def bindR_eq_Inr split: GraphDirection.splits)

lemma followed_key:
  assumes "discover env direction as_of edges current n = Inr (es, m)" "edge \<in> set es"
    and "follow direction u edge = Some v"
  shows "canonical_key v \<in> table_keys edges"
proof -
  obtain row where "row \<in> set edges" "map_row_to_provenance_edge (le_prov env) row = Inr edge"
    using discovered_edge [OF assms(1,2)] by blast
  with row_ends assms(3) show ?thesis
    by (auto simp: follow_def table_keys_def canonical_key_def split: GraphDirection.splits if_splits)
qed

text \<open>A node that is queued is new, so the queue and twice the unvisited keys shrink together.\<close>

definition search_measure :: "edge_row list \<Rightarrow> lineage_state \<Rightarrow> nat" where
  "search_measure edges st =
     2 * card (table_keys edges - ln_visited st) + length (ln_queue st)"

lemma visit_node_measure:
  assumes "canonical_key v \<in> table_keys edges"
  shows "search_measure edges (visit_node d m v st) \<le> search_measure edges st"
proof (cases "canonical_key v \<in> ln_visited st")
  case False
  have "finite (table_keys edges)" by (simp add: table_keys_def)
  moreover have "table_keys edges - insert (canonical_key v) (ln_visited st) =
      (table_keys edges - ln_visited st) - {canonical_key v}" by blast
  ultimately have "Suc (card (table_keys edges - insert (canonical_key v) (ln_visited st))) =
      card (table_keys edges - ln_visited st)"
    using False assms card_Suc_Diff1 [of "table_keys edges - ln_visited st" "canonical_key v"] by simp
  then show ?thesis using False by (simp add: search_measure_def visit_node_def Let_def)
qed (simp add: visit_node_def)

lemma visit_edges_measure:
  assumes "\<And>edge u v. edge \<in> set es \<Longrightarrow> follow direction u edge = Some v \<Longrightarrow> canonical_key v \<in> table_keys edges"
  shows "search_measure edges (fold (visit_edge direction current d m) es st) \<le> search_measure edges st"
  using assms
proof (induction es arbitrary: st)
  case (Cons edge es)
  let ?st = "visit_edge direction current d m edge st"
  have "search_measure edges ?st \<le> search_measure edges st"
  proof (cases "edge_id_str (ed_edge_id edge) \<in> ln_seen st")
    case False
    then have out: "?st = (case follow direction current edge of None \<Rightarrow> mark_edge edge st
         | Some v \<Rightarrow> visit_node d m v (mark_edge edge st))"
      by (simp add: visit_edge_def)
    have same: "search_measure edges (mark_edge edge st) = search_measure edges st"
      by (simp add: search_measure_def mark_edge_def)
    show ?thesis
    proof (cases "follow direction current edge")
      case (Some v)
      then have "canonical_key v \<in> table_keys edges" using Cons.prems by auto
      from visit_node_measure [OF this, of d m "mark_edge edge st"] show ?thesis
        unfolding out Some same by simp
    qed (simp add: out same)
  qed (simp add: visit_edge_def)
  moreover have "search_measure edges (fold (visit_edge direction current d m) es ?st) \<le> search_measure edges ?st"
    using Cons.prems by (intro Cons.IH) auto
  ultimately show ?case by simp
qed simp

lemma lineage_loop_ends: "\<exists>r. lineage_loop env direction max_depth as_of edges st = Some r"
proof (induction "search_measure edges st" arbitrary: st rule: less_induct)
  case less
  show ?case
  proof (cases "ln_queue st")
    case Nil
    then show ?thesis by (subst lineage_loop.simps) simp
  next
    case (Cons c queue)
    obtain current depth where c: "c = (current, depth)" by (cases c)
    let ?st = "st\<lparr>ln_queue := queue\<rparr>"
    have popped: "search_measure edges ?st < search_measure edges st"
      by (simp add: search_measure_def Cons)
    have rest: "\<exists>r. lineage_loop env direction max_depth as_of edges
        (fold (visit_edge direction current depth max_depth) es (?st\<lparr>ln_readings := n\<rparr>)) = Some r"
      if "discover env direction as_of edges current (ln_readings st) = Inr (es, n)" for es n
    proof -
      have "search_measure edges (fold (visit_edge direction current depth max_depth) es (?st\<lparr>ln_readings := n\<rparr>))
          \<le> search_measure edges (?st\<lparr>ln_readings := n\<rparr>)"
        using followed_key [OF that] by (rule visit_edges_measure)
      also have "\<dots> = search_measure edges ?st" by (simp add: search_measure_def)
      finally show ?thesis using popped less by simp
    qed
    show ?thesis
      by (subst lineage_loop.simps)
        (use less [OF popped] rest in \<open>auto simp: Cons c Let_def split: sum.splits\<close>)
  qed
qed

text \<open>
  C28. The lineage of an item always ends: whatever cycles the edges form, whatever the depth is and
  whatever the clock reads, the search returns a result or an error, because a node is queued only
  when its key is new and all keys come from the table.
\<close>

theorem lineage_returns: "\<exists>r. lineage env db edges root direction max_depth as_of = Some r"
  using lineage_loop_ends [of env direction max_depth as_of edges "lineage_start root"]
  by (auto simp: lineage_def split: sum.splits)

end
