(* ===== verification/Lineage_Search.thy ===== *)
theory Lineage_Search
  imports Lineage
begin

text \<open>
  What a lineage search finds: the items within the given distance of its root. The proof follows the
  search node by node, with the set of visited items and their depths as ghosts of the hash set of
  keys; items are told apart by their keys as long as no kind contains a colon.
\<close>

section \<open>The graph\<close>

text \<open>\<open>edge\<close> is visible and leads from \<open>u\<close> to \<open>v\<close> in the direction of the search.\<close>

definition arc ::
    "prov_env \<Rightarrow> GraphDirection \<Rightarrow> string \<times> string option \<Rightarrow> edge_row list \<Rightarrow>
     MemoryItemRef \<Rightarrow> ProvenanceEdge \<Rightarrow> MemoryItemRef \<Rightarrow> bool" where
  "arc env direction at edges u edge v \<longleftrightarrow>
     (\<exists>row \<in> set edges. visible_at at row \<and> map_row_to_provenance_edge env row = Inr edge) \<and>
     follow direction u edge = Some v"

text \<open>The items within \<open>n\<close> steps.\<close>

fun within :: "(MemoryItemRef \<Rightarrow> 'e \<Rightarrow> MemoryItemRef \<Rightarrow> bool) \<Rightarrow> MemoryItemRef \<Rightarrow> nat \<Rightarrow> MemoryItemRef set" where
  "within a root 0 = {root}"
| "within a root (Suc n) = within a root n \<union> {v. \<exists>u \<in> within a root n. \<exists>e. a u e v}"

lemma within_mono: "m \<le> n \<Longrightarrow> within a root m \<subseteq> within a root n"
  by (induction n) (auto simp: le_Suc_eq)

definition plain_kind :: "MemoryItemRef \<Rightarrow> bool" where
  "plain_kind r \<longleftrightarrow> CHR '':'' \<notin> set (mir_kind r)"

lemma plain_key_inj:
  assumes "plain_kind r" "plain_kind r'" "canonical_key r = canonical_key r'"
  shows "r = r'"
proof -
  have s: "split_once CHR '':'' (canonical_key q) = Some (mir_kind q, mir_id q)" if "plain_kind q" for q
    using that by (simp add: split_once_Some plain_kind_def canonical_key_def)
  have "(mir_kind r, mir_id r) = (mir_kind r', mir_id r')"
    using s [OF assms(1)] s [OF assms(2)] assms(3) by simp
  then show ?thesis by (cases r; cases r') simp
qed

section \<open>The invariant of the search\<close>

text \<open>
  \<open>nodes\<close> are the visited items with their depths \<open>dep\<close>, \<open>todo\<close> is the queue with, while its edges
  are visited, the current item in front.
\<close>

definition nodes_inv ::
    "(MemoryItemRef \<Rightarrow> ProvenanceEdge \<Rightarrow> MemoryItemRef \<Rightarrow> bool) \<Rightarrow> MemoryItemRef \<Rightarrow> nat \<Rightarrow>
     MemoryItemRef set \<Rightarrow> (MemoryItemRef \<Rightarrow> nat) \<Rightarrow> bool" where
  "nodes_inv a root m nodes dep \<longleftrightarrow> root \<in> nodes \<and> dep root = 0 \<and>
     (\<forall>v \<in> nodes. plain_kind v \<and> v \<in> within a root (dep v) \<and> dep v \<le> m)"

definition queue_inv ::
    "nat \<Rightarrow> MemoryItemRef set \<Rightarrow> (MemoryItemRef \<Rightarrow> nat) \<Rightarrow> (MemoryItemRef \<times> nat) list \<Rightarrow> bool" where
  "queue_inv m nodes dep todo \<longleftrightarrow>
     (\<forall>(v, n) \<in> set todo. v \<in> nodes \<and> n = dep v \<and> n < m) \<and> sorted (map snd todo) \<and>
     (todo \<noteq> [] \<longrightarrow> (\<forall>v \<in> nodes. dep v \<le> Suc (snd (hd todo))))"

definition expanded ::
    "(MemoryItemRef \<Rightarrow> ProvenanceEdge \<Rightarrow> MemoryItemRef \<Rightarrow> bool) \<Rightarrow> MemoryItemRef set \<Rightarrow>
     (MemoryItemRef \<Rightarrow> nat) \<Rightarrow> ProvenanceEdge list \<Rightarrow> MemoryItemRef \<Rightarrow> bool" where
  "expanded a nodes dep es v \<longleftrightarrow>
     (\<forall>e w. a v e w \<longrightarrow> w \<in> nodes \<and> dep w \<le> Suc (dep v) \<and> e \<in> set es)"

definition done_inv ::
    "(MemoryItemRef \<Rightarrow> ProvenanceEdge \<Rightarrow> MemoryItemRef \<Rightarrow> bool) \<Rightarrow> nat \<Rightarrow> MemoryItemRef set \<Rightarrow>
     (MemoryItemRef \<Rightarrow> nat) \<Rightarrow> (MemoryItemRef \<times> nat) list \<Rightarrow> ProvenanceEdge list \<Rightarrow> bool" where
  "done_inv a m nodes dep todo es \<longleftrightarrow>
     (\<forall>v \<in> nodes. dep v < m \<longrightarrow> v \<in> fst ` set todo \<or> expanded a nodes dep es v)"

definition seen_inv ::
    "(MemoryItemRef \<Rightarrow> ProvenanceEdge \<Rightarrow> MemoryItemRef \<Rightarrow> bool) \<Rightarrow> MemoryItemRef set \<Rightarrow>
     string set \<Rightarrow> ProvenanceEdge list \<Rightarrow> bool" where
  "seen_inv a nodes seen es \<longleftrightarrow>
     (\<forall>u e w. a u e w \<longrightarrow> edge_id_str (ed_edge_id e) \<in> seen \<longrightarrow> e \<in> set es \<and> w \<in> nodes)"

definition edges_inv ::
    "(MemoryItemRef \<Rightarrow> ProvenanceEdge \<Rightarrow> MemoryItemRef \<Rightarrow> bool) \<Rightarrow> nat \<Rightarrow> MemoryItemRef set \<Rightarrow>
     (MemoryItemRef \<Rightarrow> nat) \<Rightarrow> ProvenanceEdge list \<Rightarrow> bool" where
  "edges_inv a m nodes dep es \<longleftrightarrow> (\<forall>e \<in> set es. \<exists>u w. a u e w \<and> u \<in> nodes \<and> dep u < m)"

definition search_inv ::
    "(MemoryItemRef \<Rightarrow> ProvenanceEdge \<Rightarrow> MemoryItemRef \<Rightarrow> bool) \<Rightarrow> MemoryItemRef \<Rightarrow> nat \<Rightarrow>
     MemoryItemRef set \<Rightarrow> (MemoryItemRef \<Rightarrow> nat) \<Rightarrow> (MemoryItemRef \<times> nat) list \<Rightarrow> lineage_state \<Rightarrow> bool" where
  "search_inv a root m nodes dep todo st \<longleftrightarrow>
     ln_visited st = canonical_key ` nodes \<and> nodes_inv a root m nodes dep \<and>
     queue_inv m nodes dep todo \<and> done_inv a m nodes dep todo (ln_edges st) \<and>
     seen_inv a nodes (ln_seen st) (ln_edges st) \<and> edges_inv a m nodes dep (ln_edges st) \<and>
     (ln_truncated st \<longleftrightarrow> (\<exists>v \<in> nodes. dep v = m))"

text \<open>What is assumed of the graph: plain kinds, and edges known by their identifiers.\<close>

definition searchable :: "(MemoryItemRef \<Rightarrow> ProvenanceEdge \<Rightarrow> MemoryItemRef \<Rightarrow> bool) \<Rightarrow> bool" where
  "searchable a \<longleftrightarrow>
     (\<forall>u e w. a u e w \<longrightarrow> plain_kind u \<and> plain_kind w) \<and>
     (\<forall>u e w u' e' w'. a u e w \<longrightarrow> a u' e' w' \<longrightarrow>
        edge_id_str (ed_edge_id e) = edge_id_str (ed_edge_id e') \<longrightarrow> e = e') \<and>
     (\<forall>u e w w'. a u e w \<longrightarrow> a u e w' \<longrightarrow> w = w') \<and>
     (\<forall>u e w v x. a u e w \<longrightarrow> a v e x \<longrightarrow> x = w \<or> x = u)"

lemma mark_edge_fields [simp]:
  "ln_visited (mark_edge e st) = ln_visited st" "ln_queue (mark_edge e st) = ln_queue st"
  "ln_seen (mark_edge e st) = insert (edge_id_str (ed_edge_id e)) (ln_seen st)"
  "ln_edges (mark_edge e st) = ln_edges st @ [e]" "ln_truncated (mark_edge e st) = ln_truncated st"
  by (simp_all add: mark_edge_def)

lemma expanded_more: "expanded a nodes dep es v \<Longrightarrow> set es \<subseteq> set es' \<Longrightarrow> expanded a nodes dep es' v"
  by (auto simp: expanded_def)

text \<open>Marking an edge between visited items.\<close>

lemma mark_edge_inv:
  assumes inv: "search_inv a root m nodes dep ((u, d) # queue) st" and ok: "searchable a"
    and e: "a u e w" and w: "w \<in> nodes"
  shows "search_inv a root m nodes dep ((u, d) # queue) (mark_edge e st)"
proof -
  have q: "queue_inv m nodes dep ((u, d) # queue)"
    and dn: "done_inv a m nodes dep ((u, d) # queue) (ln_edges st)"
    and sn: "seen_inv a nodes (ln_seen st) (ln_edges st)"
    and ed: "edges_inv a m nodes dep (ln_edges st)"
    using inv by (simp_all add: search_inv_def)
  have u: "u \<in> nodes" "dep u < m" using q by (auto simp: queue_inv_def)
  have "done_inv a m nodes dep ((u, d) # queue) (ln_edges st @ [e])"
    using dn expanded_more [of a nodes dep "ln_edges st" _ "ln_edges st @ [e]"]
    by (auto simp: done_inv_def)
  moreover have "seen_inv a nodes (insert (edge_id_str (ed_edge_id e)) (ln_seen st)) (ln_edges st @ [e])"
    unfolding seen_inv_def
  proof (intro allI impI)
    fix u' e' w'
    assume arc: "a u' e' w'" and "edge_id_str (ed_edge_id e') \<in> insert (edge_id_str (ed_edge_id e)) (ln_seen st)"
    then consider "edge_id_str (ed_edge_id e') = edge_id_str (ed_edge_id e)"
      | "edge_id_str (ed_edge_id e') \<in> ln_seen st" by blast
    then show "e' \<in> set (ln_edges st @ [e]) \<and> w' \<in> nodes"
    proof cases
      case 1
      then have same: "e' = e" using ok arc e unfolding searchable_def by blast
      then have "w' = w \<or> w' = u" using ok arc e unfolding searchable_def by blast
      with same w u(1) show ?thesis by auto
    next
      case 2
      then show ?thesis using sn arc by (simp add: seen_inv_def)
    qed
  qed
  moreover have "edges_inv a m nodes dep (ln_edges st @ [e])"
    using ed e u by (auto simp: edges_inv_def)
  ultimately show ?thesis using inv by (simp add: search_inv_def)
qed

text \<open>Visiting a new item from the current one.\<close>

lemma visit_new_inv:
  assumes inv: "search_inv a root m nodes dep ((u, d) # ln_queue st) st" and ok: "searchable a"
    and e: "a u e w" and new: "w \<notin> nodes"
  shows "search_inv a root m (insert w nodes) (dep(w := Suc d))
    ((u, d) # ln_queue (visit_node d m w st)) (visit_node d m w st)"
proof -
  let ?nodes = "insert w nodes" and ?dep = "dep(w := Suc d)"
  have n: "nodes_inv a root m nodes dep" and q: "queue_inv m nodes dep ((u, d) # ln_queue st)"
    and dn: "done_inv a m nodes dep ((u, d) # ln_queue st) (ln_edges st)"
    and sn: "seen_inv a nodes (ln_seen st) (ln_edges st)"
    and ed: "edges_inv a m nodes dep (ln_edges st)"
    and vis: "ln_visited st = canonical_key ` nodes"
    and tr: "ln_truncated st \<longleftrightarrow> (\<exists>v \<in> nodes. dep v = m)"
    using inv by (simp_all add: search_inv_def)
  have u: "u \<in> nodes" "dep u = d" "d < m" using q by (auto simp: queue_inv_def)
  have old: "?dep v = dep v" if "v \<in> nodes" for v using that new by auto
  have plain: "plain_kind w" using ok e unfolding searchable_def by blast
  have key: "canonical_key w \<notin> canonical_key ` nodes"
    using plain_key_inj [OF plain] n new by (auto simp: nodes_inv_def)
  have "w \<in> within a root (Suc d)" using n u e by (auto simp: nodes_inv_def)
  then have n': "nodes_inv a root m ?nodes ?dep"
    using n u(3) plain new by (auto simp: nodes_inv_def)
  have ex: "expanded a ?nodes ?dep (ln_edges st) v" if "expanded a nodes dep (ln_edges st) v" "v \<in> nodes" for v
    using that old by (auto simp: expanded_def)
  have q': "queue_inv m ?nodes ?dep ((u, d) # ln_queue st @ (if Suc d < m then [(w, Suc d)] else []))"
    using q new u by (auto simp: queue_inv_def sorted_append old)
  have dn': "done_inv a m ?nodes ?dep ((u, d) # ln_queue st @ (if Suc d < m then [(w, Suc d)] else [])) (ln_edges st)"
    using dn ex new u(3) by (auto simp: done_inv_def)
  have sn': "seen_inv a ?nodes (ln_seen st) (ln_edges st)" using sn by (auto simp: seen_inv_def)
  have ed': "edges_inv a m ?nodes ?dep (ln_edges st)" using ed old by (fastforce simp: edges_inv_def)
  have tr': "ln_truncated st \<or> Suc d = m \<longleftrightarrow> (\<exists>v \<in> ?nodes. ?dep v = m)" using tr new by auto
  show ?thesis
  proof (cases "Suc d < m")
    case True
    then show ?thesis using n' q' dn' sn' ed' tr' vis key u(3)
      by (simp add: search_inv_def visit_node_def Let_def)
  next
    case False
    then have "Suc d = m" using u(3) by simp
    then show ?thesis using n' q' dn' sn' ed' tr' vis key
      by (simp add: search_inv_def visit_node_def Let_def)
  qed
qed

text \<open>Visiting one edge: the items only grow, what was known of them stays.\<close>

definition grows ::
    "MemoryItemRef set \<Rightarrow> (MemoryItemRef \<Rightarrow> nat) \<Rightarrow> MemoryItemRef set \<Rightarrow> (MemoryItemRef \<Rightarrow> nat) \<Rightarrow> bool" where
  "grows nodes dep nodes' dep' \<longleftrightarrow> nodes \<subseteq> nodes' \<and> (\<forall>v \<in> nodes. dep' v = dep v)"

lemma grows_refl [simp]: "grows nodes dep nodes dep"
  by (simp add: grows_def)

lemma grows_trans: "grows n d n' d' \<Longrightarrow> grows n' d' n'' d'' \<Longrightarrow> grows n d n'' d''"
  by (fastforce simp: grows_def)

lemma visit_mark: "visit_node d m w (mark_edge e st) = mark_edge e (visit_node d m w st)"
  by (simp add: visit_node_def mark_edge_def Let_def)

lemma visit_edge_inv:
  assumes inv: "search_inv a root m nodes dep ((u, d) # ln_queue st) st" and ok: "searchable a"
    and e: "follow direction u e = Some w" "a u e w"
  obtains nodes' dep' where
    "search_inv a root m nodes' dep' ((u, d) # ln_queue (visit_edge direction u d m e st))
       (visit_edge direction u d m e st)"
    "grows nodes dep nodes' dep'" "w \<in> nodes'" "dep' w \<le> Suc d"
    "e \<in> set (ln_edges (visit_edge direction u d m e st))"
    "set (ln_edges st) \<subseteq> set (ln_edges (visit_edge direction u d m e st))"
proof -
  have vis: "ln_visited st = canonical_key ` nodes"
    and q: "queue_inv m nodes dep ((u, d) # ln_queue st)"
    and sn: "seen_inv a nodes (ln_seen st) (ln_edges st)"
    using inv by (simp_all add: search_inv_def)
  have d: "dep v \<le> Suc d" if "v \<in> nodes" for v using q that by (auto simp: queue_inv_def)
  show thesis
  proof (cases "edge_id_str (ed_edge_id e) \<in> ln_seen st")
    case True
    then have "e \<in> set (ln_edges st)" "w \<in> nodes" using sn e by (auto simp: seen_inv_def)
    with True show thesis using inv d by (intro that [of nodes dep]) (simp_all add: visit_edge_def)
  next
    case False
    then have step: "visit_edge direction u d m e st = mark_edge e (visit_node d m w st)"
      using e by (simp add: visit_edge_def visit_mark)
    show thesis
    proof (cases "w \<in> nodes")
      case True
      then have "visit_node d m w st = st" using vis by (simp add: visit_node_def)
      with mark_edge_inv [OF inv ok e(2) True] step d [OF True] True show thesis
        by (intro that [of nodes dep]) auto
    next
      case new: False
      have edges: "ln_edges (visit_node d m w st) = ln_edges st" by (simp add: visit_node_def Let_def)
      have "search_inv a root m (insert w nodes) (dep(w := Suc d))
          ((u, d) # ln_queue (visit_node d m w st)) (mark_edge e (visit_node d m w st))"
        by (rule mark_edge_inv [OF visit_new_inv [OF inv ok e(2) new] ok e(2)]) simp
      moreover have "grows nodes dep (insert w nodes) (dep(w := Suc d))"
        using new by (auto simp: grows_def)
      ultimately show thesis
        by (intro that [of "insert w nodes" "dep(w := Suc d)"]) (auto simp: step edges)
    qed
  qed
qed

lemma visit_edges_inv:
  assumes inv: "search_inv a root m nodes dep ((u, d) # ln_queue st) st" and ok: "searchable a"
    and es: "\<forall>e \<in> set es. \<exists>w. follow direction u e = Some w \<and> a u e w"
  shows "\<exists>nodes' dep'. search_inv a root m nodes' dep'
      ((u, d) # ln_queue (fold (visit_edge direction u d m) es st)) (fold (visit_edge direction u d m) es st) \<and>
    grows nodes dep nodes' dep' \<and>
    set (ln_edges st) \<subseteq> set (ln_edges (fold (visit_edge direction u d m) es st)) \<and>
    (\<forall>e \<in> set es. \<forall>w. a u e w \<longrightarrow> w \<in> nodes' \<and> dep' w \<le> Suc d \<and>
       e \<in> set (ln_edges (fold (visit_edge direction u d m) es st)))"
  using assms
proof (induction es arbitrary: nodes dep st)
  case (Cons e es)
  obtain w where w: "follow direction u e = Some w" "a u e w" using Cons.prems(3) by auto
  let ?st = "visit_edge direction u d m e st" and ?last = "fold (visit_edge direction u d m) (e # es) st"
  obtain nodes1 dep1 where one: "search_inv a root m nodes1 dep1 ((u, d) # ln_queue ?st) ?st"
    "grows nodes dep nodes1 dep1" "w \<in> nodes1" "dep1 w \<le> Suc d"
    "e \<in> set (ln_edges ?st)" "set (ln_edges st) \<subseteq> set (ln_edges ?st)"
    using visit_edge_inv [OF Cons.prems(1,2) w] by metis
  obtain nodes2 dep2 where two: "search_inv a root m nodes2 dep2 ((u, d) # ln_queue ?last) ?last"
    "grows nodes1 dep1 nodes2 dep2" "set (ln_edges ?st) \<subseteq> set (ln_edges ?last)"
    "\<forall>e \<in> set es. \<forall>w. a u e w \<longrightarrow> w \<in> nodes2 \<and> dep2 w \<le> Suc d \<and> e \<in> set (ln_edges ?last)"
    using Cons.IH [OF one(1) Cons.prems(2)] Cons.prems(3) by fastforce
  have "w' = w" if "a u e w'" for w' using Cons.prems(2) that w(2) unfolding searchable_def by blast
  moreover have "w \<in> nodes2 \<and> dep2 w \<le> Suc d" using one(3,4) two(2) by (auto simp: grows_def)
  ultimately have "\<forall>w. a u e w \<longrightarrow> w \<in> nodes2 \<and> dep2 w \<le> Suc d \<and> e \<in> set (ln_edges ?last)"
    using one(5) two(3) by blast
  then show ?case
    using two grows_trans [OF one(2) two(2)] one(6) by (intro exI [of _ nodes2] exI [of _ dep2]) auto
next
  case Nil
  then show ?case by (intro exI [of _ nodes] exI [of _ dep]) simp
qed

text \<open>The current item is done once all its edges are.\<close>

lemma pop_inv:
  assumes "search_inv a root m nodes dep ((u, d) # queue) st" "expanded a nodes dep (ln_edges st) u"
  shows "search_inv a root m nodes dep queue st"
proof -
  have "queue_inv m nodes dep ((u, d) # queue)" "done_inv a m nodes dep ((u, d) # queue) (ln_edges st)"
    using assms(1) by (simp_all add: search_inv_def)
  then have "queue_inv m nodes dep queue" "done_inv a m nodes dep queue (ln_edges st)"
    using assms(2) by (cases queue; fastforce simp: queue_inv_def done_inv_def)+
  then show ?thesis using assms(1) by (simp add: search_inv_def)
qed

text \<open>Readings of the clock are not part of the invariant.\<close>

lemma search_inv_cong:
  "search_inv a root m nodes dep todo (st\<lparr>ln_queue := q, ln_readings := n\<rparr>) = search_inv a root m nodes dep todo st"
  by (simp add: search_inv_def)

text \<open>\<open>discover\<close> lists the arcs of an item, the hypothesis of the loop.\<close>

definition lists_arcs ::
    "(MemoryItemRef \<Rightarrow> ProvenanceEdge \<Rightarrow> MemoryItemRef \<Rightarrow> bool) \<Rightarrow> 'u lineage_env \<Rightarrow> GraphDirection \<Rightarrow>
     AsOf \<Rightarrow> edge_row list \<Rightarrow> bool" where
  "lists_arcs a env direction as_of edges \<longleftrightarrow>
     (\<forall>u n es k. discover env direction as_of edges u n = Inr (es, k) \<longrightarrow>
        (\<forall>e w. e \<in> set es \<and> follow direction u e = Some w \<longleftrightarrow> a u e w) \<and>
        (\<forall>e \<in> set es. follow direction u e \<noteq> None))"

lemma lineage_loop_inv:
  assumes "lineage_loop env direction m as_of edges st = Some (Inr final)"
    and "searchable a" "lists_arcs a env direction as_of edges"
    and "search_inv a root m nodes dep (ln_queue st) st"
  shows "\<exists>nodes' dep'. search_inv a root m nodes' dep' [] final"
  using assms
proof (induction "search_measure edges st" arbitrary: st nodes dep rule: less_induct)
  case less
  show ?case
  proof (cases "ln_queue st")
    case Nil
    then show ?thesis using less.prems(1,4) by (auto simp: lineage_loop.simps [of _ _ _ _ _ st])
  next
    case (Cons c queue)
    obtain u d where c: "c = (u, d)" by (cases c)
    have "queue_inv m nodes dep ((u, d) # queue)"
      using less.prems(4) by (simp add: Cons c search_inv_def)
    then have d: "d < m" "d = dep u" "u \<in> nodes" by (auto simp: queue_inv_def)
    obtain es n where disc: "discover env direction as_of edges u (ln_readings st) = Inr (es, n)"
      and loop: "lineage_loop env direction m as_of edges
        (fold (visit_edge direction u d m) es (st\<lparr>ln_queue := queue, ln_readings := n\<rparr>)) = Some (Inr final)"
      using less.prems(1) d(1)
      by (auto simp: lineage_loop.simps [of _ _ _ _ _ st] Cons c Let_def split: sum.splits prod.splits)
    let ?st = "st\<lparr>ln_queue := queue, ln_readings := n\<rparr>"
    let ?last = "fold (visit_edge direction u d m) es ?st"
    have arcs: "\<And>e w. e \<in> set es \<and> follow direction u e = Some w \<longleftrightarrow> a u e w"
      and all: "\<And>e. e \<in> set es \<Longrightarrow> follow direction u e \<noteq> None"
      using less.prems(3) disc unfolding lists_arcs_def by blast+
    have start: "search_inv a root m nodes dep ((u, d) # ln_queue ?st) ?st"
      using less.prems(4) by (simp add: Cons c search_inv_cong)
    have outs: "\<forall>e \<in> set es. \<exists>w. follow direction u e = Some w \<and> a u e w"
      using all arcs by blast
    obtain nodes' dep' where inv: "search_inv a root m nodes' dep' ((u, d) # ln_queue ?last) ?last"
      and grown: "grows nodes dep nodes' dep'"
      and seen: "\<forall>e \<in> set es. \<forall>w. a u e w \<longrightarrow> w \<in> nodes' \<and> dep' w \<le> Suc d \<and> e \<in> set (ln_edges ?last)"
      using visit_edges_inv [OF start less.prems(2) outs]
      by (elim exE conjE) (rule that)
    have "expanded a nodes' dep' (ln_edges ?last) u"
      using seen arcs grown d(2,3) unfolding expanded_def grows_def by metis
    from pop_inv [OF inv this] have "search_inv a root m nodes' dep' (ln_queue ?last) ?last" .
    moreover have "search_measure edges ?last < search_measure edges st"
    proof -
      have "search_measure edges ?last \<le> search_measure edges ?st"
        using followed_key [OF disc] by (rule visit_edges_measure)
      then show ?thesis by (simp add: search_measure_def Cons)
    qed
    ultimately show ?thesis using less.hyps loop less.prems(2,3) by blast
  qed
qed

section \<open>What is found\<close>

lemma start_inv:
  assumes "0 < m" "plain_kind root"
  shows "search_inv a root m {root} (\<lambda>_. 0) (ln_queue (lineage_start root)) (lineage_start root)"
  using assms
  by (simp add: search_inv_def lineage_start_def nodes_inv_def queue_inv_def done_inv_def seen_inv_def edges_inv_def)

lemma found:
  assumes "search_inv a root m nodes dep [] st" "0 < m"
  shows "ln_visited st = canonical_key ` within a root m"
    and "set (ln_edges st) = {e. \<exists>u w. u \<in> within a root (m - 1) \<and> a u e w}"
    and "ln_truncated st \<longleftrightarrow> within a root m \<noteq> within a root (m - 1)"
    and "\<forall>v \<in> within a root m. plain_kind v"
proof -
  have n: "root \<in> nodes" "dep root = 0" "\<And>v. v \<in> nodes \<Longrightarrow> plain_kind v \<and> v \<in> within a root (dep v) \<and> dep v \<le> m"
    and ex: "\<And>v. v \<in> nodes \<Longrightarrow> dep v < m \<Longrightarrow> expanded a nodes dep (ln_edges st) v"
    and ed: "\<And>e. e \<in> set (ln_edges st) \<Longrightarrow> \<exists>u w. a u e w \<and> u \<in> nodes \<and> dep u < m"
    using assms(1) by (auto simp: search_inv_def nodes_inv_def done_inv_def edges_inv_def)
  have within: "v \<in> nodes \<and> dep v \<le> k" if "k \<le> m" "v \<in> within a root k" for v k
    using that
  proof (induction k arbitrary: v)
    case (Suc k)
    then show ?case using ex unfolding expanded_def by fastforce
  qed (use n in simp)
  have nodes: "nodes = within a root m" using within n(3) within_mono by blast
  have inner: "v \<in> within a root (m - 1) \<longleftrightarrow> dep v < m" if "v \<in> nodes" for v
    using within [of "m - 1" v] n(3) [OF that] within_mono [of "dep v" "m - 1" a root] assms(2) by fastforce
  show "ln_visited st = canonical_key ` within a root m" using assms(1) nodes by (simp add: search_inv_def)
  show "\<forall>v \<in> within a root m. plain_kind v" using n(3) nodes by blast
  have low: "v \<in> nodes" if "v \<in> within a root (m - 1)" for v using within [of "m - 1" v] that by simp
  show "set (ln_edges st) = {e. \<exists>u w. u \<in> within a root (m - 1) \<and> a u e w}"
  proof (intro set_eqI iffI)
    fix e assume "e \<in> set (ln_edges st)"
    then show "e \<in> {e. \<exists>u w. u \<in> within a root (m - 1) \<and> a u e w}" using ed inner by blast
  next
    fix e assume "e \<in> {e. \<exists>u w. u \<in> within a root (m - 1) \<and> a u e w}"
    then show "e \<in> set (ln_edges st)" using ex inner low unfolding expanded_def by blast
  qed
  have "ln_truncated st \<longleftrightarrow> (\<exists>v \<in> nodes. dep v = m)" using assms(1) by (simp add: search_inv_def)
  also have "\<dots> \<longleftrightarrow> within a root m \<noteq> within a root (m - 1)"
    using inner n(3) low nodes by (metis le_neq_implies_less less_irrefl subsetI subset_antisym)
  finally show "ln_truncated st \<longleftrightarrow> within a root m \<noteq> within a root (m - 1)" .
qed

section \<open>The table as a graph\<close>

text \<open>The arcs at the times of \<open>as_of\<close>, which names when the edges were recorded.\<close>

abbreviation arc_at ::
    "'u lineage_env \<Rightarrow> GraphDirection \<Rightarrow> string \<Rightarrow> AsOf \<Rightarrow> edge_row list \<Rightarrow>
     MemoryItemRef \<Rightarrow> ProvenanceEdge \<Rightarrow> MemoryItemRef \<Rightarrow> bool" where
  "arc_at env direction recorded as_of edges \<equiv> arc (le_prov env) direction (recorded, ao_valid_at as_of) edges"

lemma follow_ends:
  "follow direction u e = Some w \<Longrightarrow> {u, w} = {ed_source e, ed_target e}"
  by (auto simp: follow_def split: GraphDirection.splits if_splits)

lemma arc_searchable:
  assumes ok: "edges_ok env db edges"
    and plain: "\<forall>row \<in> set edges. CHR '':'' \<notin> set (er_source_kind row) \<and> CHR '':'' \<notin> set (er_target_kind row)"
  shows "searchable (arc env direction at edges)"
proof -
  have "plain_kind u \<and> plain_kind w" if arc: "arc env direction at edges u e w" for u e w
  proof -
    obtain row where "row \<in> set edges" "map_row_to_provenance_edge env row = Inr e"
      and f: "follow direction u e = Some w" using arc by (auto simp: arc_def)
    then have "plain_kind (ed_source e)" "plain_kind (ed_target e)"
      using row_ends [of env row e] plain by (auto simp: plain_kind_def)
    with follow_ends [OF f] show ?thesis by (auto simp: doubleton_eq_iff)
  qed
  moreover have "e = e'"
    if arcs: "arc env direction at edges u e w" "arc env direction at edges u' e' w'"
      and same: "edge_id_str (ed_edge_id e) = edge_id_str (ed_edge_id e')" for u e w u' e' w'
  proof -
    obtain row row' where rows: "row \<in> set edges" "row' \<in> set edges"
      and reads: "map_row_to_provenance_edge env row = Inr e" "map_row_to_provenance_edge env row' = Inr e'"
      using arcs by (auto simp: arc_def)
    have "ed_edge_id e = ed_edge_id e'"
      using same by (cases "ed_edge_id e"; cases "ed_edge_id e'") simp
    then have "er_edge_id row = er_edge_id row'" using row_edge_id reads by metis
    then have "row = row'" using ok rows by (simp add: edges_ok_def distinct_map inj_on_def)
    with reads show ?thesis by simp
  qed
  moreover have "w = w'" if "arc env direction at edges u e w" "arc env direction at edges u e w'" for u e w w'
    using that by (simp add: arc_def)
  moreover have "x = w \<or> x = u"
    if "arc env direction at edges u e w" "arc env direction at edges v e x" for u e w v x
    using that follow_ends [of direction u e w] follow_ends [of direction v e x]
    by (auto simp: arc_def doubleton_eq_iff)
  ultimately show ?thesis unfolding searchable_def by blast
qed

lemma query_lists:
  assumes ok: "edges_ok env db edges" and size: "length edges \<le> 10000"
    and q: "query = (query_new as_of)\<lparr>qu_source := s, qu_target := t\<rparr>"
    and out: "query_provenance_edges env now query edges = Inr es"
  shows "e \<in> set es \<longleftrightarrow> (\<exists>row \<in> set edges. visible_at (as_of_time_params env now as_of) row \<and>
    map_row_to_provenance_edge env row = Inr e \<and>
    (s = None \<or> s = Some (ed_source e)) \<and> (t = None \<or> t = Some (ed_target e)))"
proof -
  have "length (query_rows (as_of_time_params env now as_of) query edges) \<le> 10000"
    using size length_filter_le le_trans unfolding query_rows_def by blast
  then have "collect_results (map_row_to_provenance_edge env)
      (query_rows (as_of_time_params env now as_of) query edges) = Inr es"
    using query_ok [OF out] by (simp add: q query_new_def)
  then have "e \<in> set es \<longleftrightarrow> (\<exists>row \<in> set (query_rows (as_of_time_params env now as_of) query edges).
      map_row_to_provenance_edge env row = Inr e)"
    by (rule collect_results_set)
  moreover have "query_selects query row \<longleftrightarrow>
      (s = None \<or> s = Some (ed_source e)) \<and> (t = None \<or> t = Some (ed_target e))"
    if "map_row_to_provenance_edge env row = Inr e" for row
  proof -
    have "r = ed_source e \<longleftrightarrow> er_source_kind row = mir_kind r \<and> er_source_id row = mir_id r"
      "r = ed_target e \<longleftrightarrow> er_target_kind row = mir_kind r \<and> er_target_id row = mir_id r" for r
      using row_ends [OF that] by (cases r; auto)+
    then show ?thesis by (cases s; cases t) (auto simp: query_selects_def q query_new_def)
  qed
  ultimately show ?thesis by (auto simp: query_rows_def q query_new_def)
qed

lemma discover_lists:
  assumes "edges_ok (le_prov env) db edges" "length edges \<le> 10000"
    and at: "ao_recorded_at_or_before as_of = Some recorded"
  shows "lists_arcs (arc_at env direction recorded as_of edges) env direction as_of edges"
proof -
  let ?rows = "\<lambda>P e. \<exists>row \<in> set edges. visible_at (recorded, ao_valid_at as_of) row \<and>
    map_row_to_provenance_edge (le_prov env) row = Inr e \<and> P e"
  have times: "as_of_time_params (le_prov env) now as_of = (recorded, ao_valid_at as_of)" for now
    by (simp add: as_of_time_params_def at)
  have out: "e \<in> set es \<longleftrightarrow> ?rows (\<lambda>e. ed_source e = u) e"
    if "query_provenance_edges (le_prov env) now ((query_new as_of)\<lparr>qu_source := Some u\<rparr>) edges = Inr es"
    for now u es e
    using query_lists [where as_of = as_of and s = "Some u" and t = None, OF assms(1,2) _ that] times by (auto simp: query_new_def)
  have inc: "e \<in> set es \<longleftrightarrow> ?rows (\<lambda>e. ed_target e = u) e"
    if "query_provenance_edges (le_prov env) now ((query_new as_of)\<lparr>qu_target := Some u\<rparr>) edges = Inr es"
    for now u es e
    using query_lists [where as_of = as_of and s = None and t = "Some u", OF assms(1,2) _ that] times by (auto simp: query_new_def)
  have "e \<in> set es \<longleftrightarrow> ?rows (\<lambda>e. follow direction u e \<noteq> None) e"
    if "discover env direction as_of edges u n = Inr (es, k)" for u n es k e
    using that by (cases direction)
      (auto simp: discover_def Let_def bindR_eq_Inr follow_def dest!: out inc)
  then show ?thesis unfolding lists_arcs_def arc_def by auto
qed

lemma lineage_items_set:
  assumes "\<forall>v \<in> nodes. parse_key (canonical_key v) = Inr v" "set (le_iter env (canonical_key ` nodes)) = canonical_key ` nodes"
  shows "set (lineage_items env (canonical_key ` nodes)) = {v \<in> nodes. mir_kind v \<noteq> ''operation''}"
proof -
  have "set (List.map_filter (\<lambda>key. case parse_key key of Inr item \<Rightarrow> Some item | Inl _ \<Rightarrow> None)
      (le_iter env (canonical_key ` nodes))) = nodes"
    using assms by (force simp: List.map_filter_def image_iff split: sum.splits)
  then show ?thesis by (auto simp: lineage_items_def)
qed

lemma within_finite:
  assumes "finite {v. \<exists>u e. a u e v}"
  shows "finite (within a root n)"
proof -
  have "within a root n \<subseteq> insert root {v. \<exists>u e. a u e v}" by (induction n) auto
  then show ?thesis using assms finite_subset by blast
qed

lemma arc_end:
  assumes "arc env direction at edges u e w"
  shows "w \<in> (\<lambda>r. \<lparr> mir_kind = er_source_kind r, mir_id = er_source_id r \<rparr>) ` set edges \<union>
    (\<lambda>r. \<lparr> mir_kind = er_target_kind r, mir_id = er_target_id r \<rparr>) ` set edges"
    and "item_ref_new (mir_kind w) (mir_id w) = Inr w"
proof -
  obtain row where row: "row \<in> set edges" "map_row_to_provenance_edge env row = Inr e"
    and f: "follow direction u e = Some w" using assms by (auto simp: arc_def)
  have "w = ed_source e \<or> w = ed_target e" using follow_ends [OF f] by (auto simp: doubleton_eq_iff)
  then show "w \<in> (\<lambda>r. \<lparr> mir_kind = er_source_kind r, mir_id = er_source_id r \<rparr>) ` set edges \<union>
    (\<lambda>r. \<lparr> mir_kind = er_target_kind r, mir_id = er_target_id r \<rparr>) ` set edges"
    using row row_ends [OF row(2)] by auto
  have "trim (er_source_kind row) \<noteq> [] \<and> trim (er_source_id row) \<noteq> [] \<and>
      trim (er_target_kind row) \<noteq> [] \<and> trim (er_target_id row) \<noteq> []"
    using row(2) by (auto simp: map_row_to_provenance_edge_def bindR_eq_Inr conversion_ok item_ref_new_ok)
  then show "item_ref_new (mir_kind w) (mir_id w) = Inr w"
    using \<open>w = ed_source e \<or> w = ed_target e\<close> row_ends [OF row(2)] by (auto simp: item_ref_new_ok)
qed

lemma arcs_finite: "finite {v. \<exists>u e. arc env direction at edges u e v}"
proof -
  let ?ends = "(\<lambda>r. \<lparr> mir_kind = er_source_kind r, mir_id = er_source_id r \<rparr>) ` set edges \<union>
    (\<lambda>r. \<lparr> mir_kind = er_target_kind r, mir_id = er_target_id r \<rparr>) ` set edges"
  have "{v. \<exists>u e. arc env direction at edges u e v} \<subseteq> ?ends"
  proof
    fix v assume "v \<in> {v. \<exists>u e. arc env direction at edges u e v}"
    then obtain u e where "arc env direction at edges u e v" by blast
    then show "v \<in> ?ends" by (rule arc_end(1))
  qed
  then show ?thesis by (rule finite_subset) simp
qed

lemma within_keys:
  assumes "searchable (arc env direction at edges)" "parse_key (canonical_key root) = Inr root"
    and "v \<in> within (arc env direction at edges) root n"
  shows "parse_key (canonical_key v) = Inr v"
  using assms(3)
proof (induction n arbitrary: v)
  case (Suc n)
  then show ?case
  proof (cases "v \<in> within (arc env direction at edges) root n")
    case False
    then obtain u e where arc: "arc env direction at edges u e v" using Suc.prems by auto
    then have "plain_kind v" using assms(1) unfolding searchable_def by blast
    with arc_end(2) [OF arc] show ?thesis by (auto simp: parse_key_ok plain_kind_def item_ref_new_ok)
  qed (use Suc.IH in simp)
qed (use assms(2) in simp)

text \<open>
  C27. A lineage search is breadth first and misses nothing: asked about a time, on any table that
  recording can reach with at most 10000 edges and kinds without colons, it reports exactly the edges
  with an end within \<open>max_depth - 1\<close> steps of the root that lead in its direction, exactly the items within
  \<open>max_depth\<close> steps that are no operations, and it is truncated exactly when some item is
  \<open>max_depth\<close> steps away and no nearer.
\<close>

theorem lineage_is_breadth_first:
  assumes "edges_reachable (le_prov env) db edges" "instants_read_back (le_prov env)"
    and "length edges \<le> 10000"
    and "\<forall>row \<in> set edges. CHR '':'' \<notin> set (er_source_kind row) \<and> CHR '':'' \<notin> set (er_target_kind row)"
    and "\<forall>keys. finite keys \<longrightarrow> set (le_iter env keys) = keys"
    and "parse_key (canonical_key root) = Inr root" "0 < max_depth"
    and "ao_recorded_at_or_before as_of = Some recorded"
    and "lineage env db edges root direction max_depth as_of = Some (Inr res)"
  shows "set (lr_edges res) = {e. \<exists>u w. u \<in> within (arc_at env direction recorded as_of edges) root (max_depth - 1) \<and>
            arc_at env direction recorded as_of edges u e w} \<and>
         set (lr_items res) = {v \<in> within (arc_at env direction recorded as_of edges) root max_depth.
            mir_kind v \<noteq> ''operation''} \<and>
         (lr_truncated res \<longleftrightarrow> within (arc_at env direction recorded as_of edges) root max_depth \<noteq>
            within (arc_at env direction recorded as_of edges) root (max_depth - 1))"
proof -
  let ?a = "arc_at env direction recorded as_of edges"
  have ok: "edges_ok (le_prov env) db edges" by (rule reachable_ok [OF assms(2,1)])
  have search: "searchable ?a" by (rule arc_searchable [OF ok assms(4)])
  have lists: "lists_arcs ?a env direction as_of edges" by (rule discover_lists [OF ok assms(3,8)])
  have root: "plain_kind root" using assms(6) by (simp add: parse_key_ok plain_kind_def)
  obtain st where loop: "lineage_loop env direction max_depth as_of edges (lineage_start root) = Some (Inr st)"
    and res: "lr_edges res = ln_edges st" "lr_items res = lineage_items env (ln_visited st)"
      "lr_truncated res = ln_truncated st"
    using assms(9) by (auto simp: lineage_def bindR_eq_Inr split: option.splits sum.splits)
  obtain nodes dep where inv: "search_inv ?a root max_depth nodes dep [] st"
    using lineage_loop_inv [OF loop search lists start_inv [OF assms(7) root]] by blast
  note found = found [OF inv assms(7)]
  have "finite (canonical_key ` within ?a root max_depth)" by (simp add: within_finite arcs_finite)
  then have "set (lr_items res) = {v \<in> within ?a root max_depth. mir_kind v \<noteq> ''operation''}"
    unfolding res found(1) using assms(5) within_keys [OF search assms(6)]
    by (intro lineage_items_set) simp_all
  with found(2,3) res show ?thesis by simp
qed

section \<open>One step of a chain\<close>

definition toy_lineage_env :: "string lineage_env" where
  "toy_lineage_env = \<lparr> le_prov = toy_prov_env, le_uuid = toy_uuid, le_clock = (\<lambda>n. int n),
     le_iter = sorted_list_of_set \<rparr>"

definition example_as_of :: AsOf where
  "example_as_of = \<lparr> ao_valid_at = None, ao_recorded_at_or_before = Some ''iii'' \<rparr>"

definition example_edge :: "nat \<Rightarrow> string \<Rightarrow> string \<Rightarrow> ProvenanceEdge" where
  "example_edge n a b = edge_of_request toy_prov_env n (example_request_edge a b) None"

lemma example_row_reads:
  assumes "trim a \<noteq> []" "trim b \<noteq> []"
  shows "map_row_to_provenance_edge toy_prov_env (example_edge_row n a b) = Inr (example_edge n a b)"
proof -
  have "trim ''fact'' = ''fact''" by (simp add: trim_printable)
  moreover have "parse_rfc3339 toy_prov_env (toy_rfc3339 (int n)) what = Inr (int n)" for what
    using toy_instants by (simp add: parse_rfc3339_def instants_read_back_def toy_prov_env_def)
  ultimately show ?thesis using assms
    by (simp add: map_row_to_provenance_edge_def example_edge_row_def example_edge_def row_of_request_def
        edge_of_request_def example_request_edge_def typed_request_def fact_ref_def item_ref_new_def
        parse_optional_rfc3339_def transpose_result_def parse_metadata_for_result_def conversion_def
        toy_prov_env_def result_simps)
qed

lemma example_row_fields [simp]:
  "er_source_kind (example_edge_row n a b) = ''fact''" "er_source_id (example_edge_row n a b) = a"
  "er_target_kind (example_edge_row n a b) = ''fact''" "er_target_id (example_edge_row n a b) = b"
  "er_recorded_at (example_edge_row n a b) = replicate n CHR ''i''"
  "ed_source (example_edge n a b) = fact_ref a" "ed_target (example_edge n a b) = fact_ref b"
  by (simp_all add: example_edge_row_def example_edge_def row_of_request_def edge_of_request_def
      example_request_edge_def typed_request_def fact_ref_def toy_prov_env_def toy_rfc3339_def)

lemma example_refs: "trim ''f1'' \<noteq> []" "trim ''f2'' \<noteq> []" "trim ''f3'' \<noteq> []"
  by (simp_all add: trim_printable)

lemma example_searched:
  "\<exists>res. lineage toy_lineage_env example_prov_db example_edges (fact_ref ''f1'') Outgoing 1 example_as_of =
     Some (Inr res)"
proof -
  have "discover toy_lineage_env Outgoing example_as_of example_edges (fact_ref ''f1'') 0 =
      Inr ([example_edge 0 ''f1'' ''f2''], 1)"
    using example_row_reads [OF example_refs(1,2), of 0]
    by (simp add: discover_def query_provenance_edges_def query_new_def Let_def query_rows_def
        as_of_time_params_def example_as_of_def toy_lineage_env_def example_edges_def visible_at_def
        query_selects_def i64_max_def fact_ref_def)
  then show ?thesis
    by (simp add: lineage_def lineage_loop.simps lineage_start_def visit_edge_def visit_node_def mark_edge_def
        follow_def note_operation_def fact_ref_def canonical_key_def Let_def toy_lineage_env_def
        as_of_recorded_def as_of_time_params_def example_as_of_def parse_rfc3339_def toy_prov_env_def)
qed

lemma example_arcs:
  "arc_at toy_lineage_env Outgoing ''iii'' example_as_of example_edges u e v \<longleftrightarrow>
     u = fact_ref ''f1'' \<and> e = example_edge 0 ''f1'' ''f2'' \<and> v = fact_ref ''f2'' \<or>
     u = fact_ref ''f2'' \<and> e = example_edge 1 ''f2'' ''f3'' \<and> v = fact_ref ''f3''"
  using example_row_reads [OF example_refs(1,2), of 0] example_row_reads [OF example_refs(2,3), of 1]
  by (auto simp: arc_def example_edges_def visible_at_def example_as_of_def toy_lineage_env_def follow_def)

theorem lineage_is_breadth_first_witness:
  "\<exists>res. lineage toy_lineage_env example_prov_db example_edges (fact_ref ''f1'') Outgoing 1 example_as_of =
       Some (Inr res) \<and>
     set (lr_edges res) = {example_edge 0 ''f1'' ''f2''} \<and>
     set (lr_items res) = {fact_ref ''f1'', fact_ref ''f2''} \<and> lr_truncated res"
proof -
  obtain res where res: "lineage toy_lineage_env example_prov_db example_edges (fact_ref ''f1'') Outgoing 1
      example_as_of = Some (Inr res)"
    using example_searched by blast
  have env: "le_prov toy_lineage_env = toy_prov_env" by (simp add: toy_lineage_env_def)
  have key: "parse_key (canonical_key (fact_ref ''f1'')) = Inr (fact_ref ''f1'')"
    by (simp add: parse_key_ok fact_ref_def trim_printable)
  have iter: "\<forall>keys. finite keys \<longrightarrow> set (le_iter toy_lineage_env keys) = keys"
    by (simp add: toy_lineage_env_def)
  have colon: "\<forall>row \<in> set example_edges. CHR '':'' \<notin> set (er_source_kind row) \<and> CHR '':'' \<notin> set (er_target_kind row)"
    and len: "length example_edges \<le> 10000"
    by (simp_all add: example_edges_def)
  have at: "ao_recorded_at_or_before example_as_of = Some ''iii''" by (simp add: example_as_of_def)
  have within: "within (arc_at toy_lineage_env Outgoing ''iii'' example_as_of example_edges) (fact_ref ''f1'') 1 =
      {fact_ref ''f1'', fact_ref ''f2''}"
    unfolding One_nat_def within.simps example_arcs by (auto simp: fact_ref_def)
  note searched = lineage_is_breadth_first [OF example_edges_reachable [folded env] toy_instants [folded env]
      len colon iter key zero_less_one at res, unfolded within diff_self_eq_0 within.simps(1) example_arcs]
  have "set (lr_items res) = {fact_ref ''f1'', fact_ref ''f2''}"
    unfolding searched [THEN conjunct2, THEN conjunct1] by (auto simp: fact_ref_def)
  moreover have "set (lr_edges res) = {example_edge 0 ''f1'' ''f2''}"
    unfolding searched [THEN conjunct1] by (auto simp: fact_ref_def)
  moreover have "lr_truncated res"
    unfolding searched [THEN conjunct2, THEN conjunct2] by (simp add: fact_ref_def)
  ultimately show ?thesis using res by blast
qed

end
