(* ===== verification/Run_Pack.thy ===== *)
theory Run_Pack
  imports Provenance Server_Control Fact_Ledger
begin

text \<open>
  The admission of run-pack observations (\<open>src/run_pack.rs\<close>) and its HTTP handler: a projection
  with a witness signed by the pack's verifier becomes one operation and one provenance edge.

  serde's codecs, HMAC-SHA256 and hex decoding are parameters. The submission of the operation and the
  recording of the edge are two transactions.
\<close>

section \<open>Projections and witnesses\<close>

record Verification =
  ve_verifier_contract_version :: string
  ve_verified_at :: string
  ve_verification_receipt_digest :: string
  ve_outcome :: string

record Vault =
  va_object_id :: string
  va_relative_ref :: string
  va_retention_state :: string

record Origin =
  or_operator_adapter :: string
  or_source_device_ref :: "string option"
  or_observed_at :: "string option"
  or_recorded_at :: string

record EventSummary =
  es_terminal_state :: string
  es_receipt_chain_digest :: string
  es_artifact_digests :: "string list"

record RunPackEvidenceProjectionV1 =
  ep_schema :: string
  ep_projection_id :: string
  ep_run_id :: string
  ep_pack_manifest_digest :: string
  ep_pack_content_digest :: string
  ep_verification :: Verification
  ep_vault :: Vault
  ep_origin :: Origin
  ep_event_summary :: EventSummary

record RunPackAdmissionWitnessV1 =
  aw_format :: string
  aw_canonical_projection_digest :: string
  aw_pack_manifest_digest :: string
  aw_pack_content_digest :: string
  aw_verification_receipt_digest :: string
  aw_verified :: bool
  aw_signature :: string

record RunPackAdmissionEnvelope =
  ae_projection :: RunPackEvidenceProjectionV1
  ae_admission_witness :: RunPackAdmissionWitnessV1

record RunPackObservationReceipt =
  ro_receipt_id :: string
  ro_operation_id :: OperationId
  ro_recorded_at :: string

text \<open>
  What an import takes from outside: the pool, the edges and their clocks, the fresh UUID, serde's
  codecs of the structures and of values, HMAC (with the error for a key it refuses), and the hex decoder.
\<close>

record 'u run_pack_env =
  rk_pool :: pool_env
  rk_prov :: prov_env
  rk_uuid :: "'u uuid_lib"
  rk_fresh_uuid :: string
  rk_from_slice :: "byte list \<Rightarrow> string + RunPackAdmissionEnvelope"
  rk_projection_bytes :: "RunPackEvidenceProjectionV1 \<Rightarrow> string + byte list"
  rk_witness_value :: "RunPackAdmissionWitnessV1 \<Rightarrow> string + Value"
  rk_value_bytes :: "Value \<Rightarrow> string + byte list"
  rk_hmac :: "byte list \<Rightarrow> (byte list \<Rightarrow> byte list) option"
  rk_hex_decode :: "string \<Rightarrow> byte list option"

section \<open>Admission\<close>

definition valid_digest :: "string \<Rightarrow> bool" where
  "valid_digest value \<longleftrightarrow> length value = 64 \<and>
     list_all (\<lambda>character. is_ascii_hexdigit character \<and> \<not> is_ascii_uppercase character) value"

definition parse_time :: "prov_env \<Rightarrow> string \<Rightarrow> MnemesError + instant" where
  "parse_time env value =
     map_err (\<lambda>e. InvalidProvenance (''invalid observed_at: '' @ e)) (pv_parse_from_rfc3339 env value)"

definition sha256_text :: "crypto \<Rightarrow> byte list \<Rightarrow> string" where
  "sha256_text c bytes = ''sha256:'' @ hex_bytes (sha256 c bytes)"

text \<open>\<open>object.remove\<close> on the witness as a value.\<close>

definition without_signature :: "Value \<Rightarrow> Value" where
  "without_signature v =
     (case v of JObject object \<Rightarrow> JObject (filter (\<lambda>(key, _). key \<noteq> ''signature'') object) | _ \<Rightarrow> v)"

definition invalid :: "string \<Rightarrow> string \<Rightarrow> MnemesError" where
  "invalid what e = InvalidProvenance (what @ e)"

definition expected_mac ::
    "'u run_pack_env \<Rightarrow> byte list \<Rightarrow> RunPackAdmissionWitnessV1 \<Rightarrow> MnemesError + byte list" where
  "expected_mac env key witness =
     bindR (ok_or (InvalidProvenance ''invalid run-pack attestation key'') (rk_hmac env key)) (\<lambda>mac.
     bindR (map_err (invalid ''cannot canonicalize admission witness: '') (rk_witness_value env witness))
       (\<lambda>signed_value.
     bindR (map_err (invalid ''cannot canonicalize admission witness: '')
       (rk_value_bytes env (without_signature signed_value))) (\<lambda>signed.
     Inr (mac signed))))"

definition check_witness ::
    "string \<Rightarrow> RunPackEvidenceProjectionV1 \<Rightarrow> RunPackAdmissionWitnessV1 \<Rightarrow> MnemesError + unit" where
  "check_witness projection_digest projection witness =
     fail_if (aw_format witness \<noteq> ''mnemes.run-pack-admission-witness/v1'' \<or> \<not> aw_verified witness \<or>
         aw_canonical_projection_digest witness \<noteq> projection_digest \<or>
         aw_pack_manifest_digest witness \<noteq> ep_pack_manifest_digest projection \<or>
         aw_pack_content_digest witness \<noteq> ep_pack_content_digest projection \<or>
         aw_verification_receipt_digest witness \<noteq>
           ve_verification_receipt_digest (ep_verification projection))
       (InvalidProvenance ''missing or mismatched server-attested run-pack admission witness'')"

definition check_projection :: "RunPackEvidenceProjectionV1 \<Rightarrow> MnemesError + unit" where
  "check_projection projection = checks
     [fail_if (ep_schema projection \<noteq> ''RunPackEvidenceProjectionV1'' \<or>
         ve_outcome (ep_verification projection) \<noteq> ''verified'')
        (InvalidProvenance ''unsupported or unverified run-pack projection''),
      fail_if (\<not> valid_digest (ep_projection_id projection) \<or>
         \<not> valid_digest (ep_pack_manifest_digest projection) \<or>
         \<not> valid_digest (ep_pack_content_digest projection) \<or>
         \<not> valid_digest (ve_verification_receipt_digest (ep_verification projection)) \<or>
         \<not> valid_digest (es_receipt_chain_digest (ep_event_summary projection)) \<or>
         list_ex (\<lambda>digest. \<not> valid_digest digest) (es_artifact_digests (ep_event_summary projection)))
        (InvalidProvenance ''run-pack projection contains an invalid content digest''),
      fail_if (va_retention_state (ep_vault projection) \<notin>
         {''available'', ''quarantined'', ''pack_unavailable'', ''tampered'', ''superseded''})
        (InvalidProvenance ''unsupported run-pack retention state''),
      fail_if (starts_with ''/'' (va_relative_ref (ep_vault projection)) \<or>
         ''..'' \<in> set (split_on (\<lambda>c. c = CHR ''/'') (va_relative_ref (ep_vault projection))))
        (InvalidProvenance ''run-pack vault reference escapes its root'')]"

text \<open>Everything that is checked before the store is touched.\<close>

definition admit_run_pack ::
    "'u run_pack_env \<Rightarrow> byte list \<Rightarrow> byte list option \<Rightarrow>
     MnemesError + RunPackEvidenceProjectionV1 \<times> instant option" where
  "admit_run_pack env bytes attestation_key =
     bindR (map_err (invalid ''invalid run-pack admission envelope: '') (rk_from_slice env bytes)) (\<lambda>envelope.
     let projection = ae_projection envelope; witness = ae_admission_witness envelope in
     bindR (ok_or (InvalidProvenance ''run-pack admission attestation is not configured'') attestation_key)
       (\<lambda>key.
     bindR (map_err (invalid ''cannot canonicalize run-pack projection: '')
       (rk_projection_bytes env projection)) (\<lambda>canonical.
     bindR (expected_mac env key witness) (\<lambda>expected.
     let supplied = (case rk_hex_decode env (aw_signature witness) of Some s \<Rightarrow> s | None \<Rightarrow> []) in
     bindR (fail_if (supplied \<noteq> expected)
       (InvalidProvenance ''invalid run-pack admission witness signature'')) (\<lambda>_.
     bindR (check_witness (sha256_text (pe_crypto (rk_pool env)) canonical) projection witness) (\<lambda>_.
     bindR (check_projection projection) (\<lambda>_.
     bindR (transpose_result (parse_time (rk_prov env)) (or_observed_at (ep_origin projection))) (\<lambda>observed_at.
     Inr (projection, observed_at)))))))))"

section \<open>Import\<close>

text \<open>The store with all its tables, the last one that of the edges.\<close>

record ('s, 'm) EdgeStore = "('s, 'm) FactStore" +
  st_edges :: "edge_row list"

definition edgesS ::
    "(pool_db \<Rightarrow> edge_row list \<Rightarrow> (MnemesError + 'a) \<times> edge_row list) \<Rightarrow> ('s, 'm, 'z) EdgeStore_scheme \<Rightarrow>
     (MnemesError + 'a) \<times> ('s, 'm, 'z) EdgeStore_scheme" where
  "edgesS f st = (case f (st_pool st) (st_edges st) of (r, edges) \<Rightarrow> (r, st\<lparr>st_edges := edges\<rparr>))"

definition run_pack_key :: "RunPackEvidenceProjectionV1 \<Rightarrow> string" where
  "run_pack_key projection =
     ''mnemes-run-pack-import:'' @ ep_pack_manifest_digest projection @ '':'' @ ep_schema projection"

definition run_pack_operation ::
    "OperationId \<Rightarrow> Device \<Rightarrow> Actor \<Rightarrow> string \<Rightarrow> RunPackEvidenceProjectionV1 \<Rightarrow> OperationEnvelope" where
  "run_pack_operation operation_id device actor digest projection =
     \<lparr> op_operation_id = operation_id, op_idempotency_key = run_pack_key projection,
       op_requesting_device_id = dev_device_id device, op_requesting_actor_id = act_actor_id actor,
       op_recording_device_id = dev_device_id device, op_recording_server_id = dev_device_id device,
       op_operation_kind = Observe, op_target_kind = ''run_pack_projection'',
       op_target_id = ep_projection_id projection, op_content_digest = digest,
       op_observed_at = or_observed_at (ep_origin projection),
       op_valid_time = or_observed_at (ep_origin projection), op_recorded_at = [], op_receipt_id = None \<rparr>"

definition run_pack_edge ::
    "OperationId \<Rightarrow> Device \<Rightarrow> Actor \<Rightarrow> string \<Rightarrow> instant option \<Rightarrow> RunPackEvidenceProjectionV1 \<Rightarrow>
     MnemesError + ProvenanceEdgeRequest" where
  "run_pack_edge operation_id device actor digest observed_at projection =
     bindR (item_ref_new ''run_pack_projection'' (ep_projection_id projection)) (\<lambda>source.
     bindR (item_ref_new ''pack_manifest'' (ep_pack_manifest_digest projection)) (\<lambda>target.
     Inr \<lparr> rp_edge_type = DerivedFrom, rp_source = source, rp_target = target,
           rp_operation_id = Some operation_id, rp_actor_id = Some (act_actor_id actor),
           rp_device_id = Some (dev_device_id device), rp_valid_from = None, rp_valid_to = None,
           rp_observed_at = observed_at, rp_recorded_at = None, rp_content_digest = Some digest,
           rp_metadata = None, rp_supersedes_edge_id = None \<rparr>))"

definition first_actor :: "Device \<Rightarrow> pool_db \<Rightarrow> MnemesError + Actor" where
  "first_actor device db =
     (case list_actors_for_device (dev_device_id device) db of
        [] \<Rightarrow> Inl (ActorNotFound (device_id_str (dev_device_id device)))
      | actor # _ \<Rightarrow> Inr actor)"

definition import_run_pack_observation ::
    "'u run_pack_env \<Rightarrow> string \<Rightarrow> byte list \<Rightarrow> byte list option \<Rightarrow> ('s, 'm, 'z) EdgeStore_scheme \<Rightarrow>
     (MnemesError + RunPackObservationReceipt) \<times> ('s, 'm, 'z) EdgeStore_scheme" where
  "import_run_pack_observation env token bytes attestation_key =
     bindS (readS (\<lambda>st. token_device_id (rk_pool env) (rk_uuid env) token (st_pool st))) (\<lambda>(device, _).
     bindS (readS (\<lambda>_. admit_run_pack env bytes attestation_key)) (\<lambda>(projection, observed_at).
     let digest = sha256_text (pe_crypto (rk_pool env)) bytes in
     bindS (readS (\<lambda>st. first_actor device (st_pool st))) (\<lambda>actor.
     bindS (readS (\<lambda>_. map_err Memory (operation_id_parse (rk_uuid env) (rk_fresh_uuid env)))) (\<lambda>operation_id.
     bindS (poolS (submit_operation (rk_pool env)
       (run_pack_operation operation_id device actor digest projection))) (\<lambda>receipt_id.
     bindS (readS (\<lambda>st. ok_or (Database ''operation receipt missing'')
       (get_operation_by_receipt receipt_id (st_pool st)))) (\<lambda>operation.
     bindS (readS (\<lambda>_. run_pack_edge (op_operation_id operation) device actor digest observed_at projection))
       (\<lambda>request.
     bindS (edgesS (\<lambda>db. record_provenance_edge (rk_prov env) db request)) (\<lambda>_.
     readS (\<lambda>_. Inr \<lparr> ro_receipt_id = receipt_id, ro_operation_id = op_operation_id operation,
       ro_recorded_at = op_recorded_at operation \<rparr>)))))))))"

section \<open>The handler\<close>

record RunPackObservationResponse =
  rs_receipt_id :: string
  rs_operation_id :: string
  rs_recorded_at :: string

definition import_run_pack_observation_handler ::
    "'u server_env \<Rightarrow> 'u run_pack_env \<Rightarrow> byte list option \<Rightarrow> HeaderMap \<Rightarrow> byte list \<Rightarrow>
     ('s, 'm, 'z) EdgeStore_scheme \<Rightarrow> RunPackObservationResponse response \<times> ('s, 'm, 'z) EdgeStore_scheme" where
  "import_run_pack_observation_handler env renv attestation_key headers body =
     authorized env headers None (\<lambda>context.
     handling (readS (\<lambda>_. bearer_token headers)) (\<lambda>token.
     handling (import_run_pack_observation renv token body attestation_key) (\<lambda>receipt.
     answer env context ''/v1/run-pack-observations'' ''POST'' ''run-pack observation imported'' CREATED
       \<lparr> rs_receipt_id = ro_receipt_id receipt,
         rs_operation_id = operation_id_str (ro_operation_id receipt),
         rs_recorded_at = ro_recorded_at receipt \<rparr>)))"

section \<open>What an import does\<close>

lemma edgesS_ok:
  "edgesS f st = (Inr x, st') \<longleftrightarrow>
     (\<exists>edges. f (st_pool st) (st_edges st) = (Inr x, edges) \<and> st' = st\<lparr>st_edges := edges\<rparr>)"
  by (auto simp: edgesS_def split: prod.splits)

text \<open>The request, once it is authenticated and admitted: everything that the store is asked for.\<close>

definition import_case ::
    "'u run_pack_env \<Rightarrow> string \<Rightarrow> byte list \<Rightarrow> byte list option \<Rightarrow> pool_db \<Rightarrow> Device \<Rightarrow> Actor \<Rightarrow>
     RunPackEvidenceProjectionV1 \<Rightarrow> instant option \<Rightarrow> bool" where
  "import_case env token bytes key db device actor projection observed_at \<longleftrightarrow>
     (\<exists>fp. token_device_id (rk_pool env) (rk_uuid env) token db = Inr (device, fp)) \<and>
     admit_run_pack env bytes key = Inr (projection, observed_at) \<and>
     first_actor device db = Inr actor"

lemma import_ok:
  "import_run_pack_observation env token bytes key st = (Inr receipt, st') \<longleftrightarrow>
     (\<exists>device actor projection observed_at i db operation request edge edges.
        import_case env token bytes key (st_pool st) device actor projection observed_at \<and>
        operation_id_parse (rk_uuid env) (rk_fresh_uuid env) = Inr i \<and>
        submit_operation (rk_pool env) (run_pack_operation i device actor
          (sha256_text (pe_crypto (rk_pool env)) bytes) projection) (st_pool st) = Inr (ro_receipt_id receipt, db) \<and>
        get_operation_by_receipt (ro_receipt_id receipt) db = Some operation \<and>
        run_pack_edge (op_operation_id operation) device actor
          (sha256_text (pe_crypto (rk_pool env)) bytes) observed_at projection = Inr request \<and>
        record_provenance_edge (rk_prov env) db request (st_edges st) = (Inr edge, edges) \<and>
        ro_operation_id receipt = op_operation_id operation \<and> ro_recorded_at receipt = op_recorded_at operation \<and>
        st' = st\<lparr>st_pool := db, st_edges := edges\<rparr>)"
  unfolding import_run_pack_observation_def import_case_def
  by (cases receipt)
    (auto simp: bindS_readS_ok bindS_ok poolS_ok edgesS_ok map_err_eq_Inr ok_or_eq Let_def
      simp del: bindS_readS)

lemma admitted:
  assumes "admit_run_pack env bytes key = Inr (projection, observed_at)"
    and "\<forall>k mac. rk_hmac env k = Some mac \<longrightarrow> (\<forall>m. length (mac m) = 32)"
  shows "\<exists>k envelope canonical expected. key = Some k \<and> rk_from_slice env bytes = Inr envelope \<and>
     projection = ae_projection envelope \<and> rk_projection_bytes env projection = Inr canonical \<and>
     expected_mac env k (ae_admission_witness envelope) = Inr expected \<and>
     rk_hex_decode env (aw_signature (ae_admission_witness envelope)) = Some expected \<and>
     check_witness (sha256_text (pe_crypto (rk_pool env)) canonical) projection (ae_admission_witness envelope) = Inr () \<and>
     check_projection projection = Inr ()"
proof -
  have "length expected = 32" if "expected_mac env k witness = Inr expected" for k witness expected
    using that assms(2) by (auto simp: expected_mac_def bindR_eq_Inr ok_or_eq)
  then have "rk_hex_decode env s = Some expected"
    if "expected_mac env k witness = Inr expected"
      "(case rk_hex_decode env s of Some s \<Rightarrow> s | None \<Rightarrow> []) = expected" for k witness expected s
    using that by (cases "rk_hex_decode env s") force+
  then show ?thesis using assms(1)
    by (auto simp: admit_run_pack_def bindR_eq_Inr map_err_eq_Inr ok_or_eq fail_if_eq Let_def)
qed

lemma by_receipt_operation:
  "get_operation_by_receipt receipt db = Some x \<Longrightarrow> get_operation (op_operation_id x) db = Some x"
  using row_by_SomeD by (fastforce simp: get_operation_by_receipt_def get_operation_def split: option.splits)

lemma first_actor_device: "first_actor device db = Inr actor \<Longrightarrow> act_device_id actor = dev_device_id device"
proof -
  assume "first_actor device db = Inr actor"
  then have "actor \<in> set (list_actors_for_device (dev_device_id device) db)"
    by (auto simp: first_actor_def split: list.splits)
  then show ?thesis by (simp add: list_actors_for_device_def)
qed

lemma run_pack_edge_fields:
  "run_pack_edge i device actor digest observed_at projection = Inr request \<Longrightarrow>
     request_key request = (Some i, DerivedFrom, (''run_pack_projection'', ep_projection_id projection),
       (''pack_manifest'', ep_pack_manifest_digest projection)) \<and>
     rp_actor_id request = Some (act_actor_id actor) \<and> rp_operation_id request = Some i"
  by (auto simp: run_pack_edge_def bindR_eq_Inr item_ref_new_ok request_key_def)

lemma recorded_actor:
  assumes "record_provenance_edge env db request edges = (Inr edge, edges')"
    and "rp_operation_id request = Some i" "get_operation i db = Some x" "rp_actor_id request = Some a"
  shows "a = op_requesting_actor_id x"
proof -
  have "record_provenance_edge_conn env db request edges = Inr (edge, edges')"
    using assms(1) by (auto simp: record_provenance_edge_def split: sum.splits)
  then have "operation_matches db request = Inr ()"
    by (auto simp: record_conn_ok request_accepted_def check_request_ok)
  then show ?thesis using assms(2-4) by (auto simp: operation_matches_ok)
qed

text \<open>
  A run-pack observation enters the store only by the right hands: an import that is answered came
  from the token of an active device, carries a witness that bears the HMAC of its other fields under
  the configured key, is marked verified and names exactly this projection and its digests, and its
  vault reference stays below the vault; it leaves an operation of the device's own actor that
  holds the digest of the very bytes, and an edge from the projection to the manifest of the pack.
\<close>

theorem run_pack_admitted:
  assumes "import_run_pack_observation env token bytes key st = (Inr receipt, st')"
    and "\<forall>k mac. rk_hmac env k = Some mac \<longrightarrow> (\<forall>m. length (mac m) = 32)"
    and "instants_read_back (rk_prov env)"
  shows "\<exists>device fp k envelope canonical expected actor operation row.
    token_device_id (rk_pool env) (rk_uuid env) token (st_pool st) = Inr (device, fp) \<and>
    key = Some k \<and> rk_from_slice env bytes = Inr envelope \<and>
    expected_mac env k (ae_admission_witness envelope) = Inr expected \<and>
    rk_hex_decode env (aw_signature (ae_admission_witness envelope)) = Some expected \<and>
    rk_projection_bytes env (ae_projection envelope) = Inr canonical \<and>
    check_witness (sha256_text (pe_crypto (rk_pool env)) canonical) (ae_projection envelope)
      (ae_admission_witness envelope) = Inr () \<and>
    \<not> starts_with ''/'' (va_relative_ref (ep_vault (ae_projection envelope))) \<and>
    ''..'' \<notin> set (split_on (\<lambda>c. c = CHR ''/'') (va_relative_ref (ep_vault (ae_projection envelope)))) \<and>
    first_actor device (st_pool st) = Inr actor \<and> act_device_id actor = dev_device_id device \<and>
    get_operation (ro_operation_id receipt) (st_pool st') = Some operation \<and>
    op_requesting_actor_id operation = act_actor_id actor \<and>
    (\<exists>x. get_operation_by_idempotency_key (run_pack_key (ae_projection envelope)) (st_pool st') = Some x \<and>
       op_content_digest x = sha256_text (pe_crypto (rk_pool env)) bytes \<and>
       op_receipt_id x = Some (ro_receipt_id receipt)) \<and>
    row \<in> set (st_edges st') \<and>
    edge_key row = (Some (ro_operation_id receipt), DerivedFrom,
      (''run_pack_projection'', ep_projection_id (ae_projection envelope)),
      (''pack_manifest'', ep_pack_manifest_digest (ae_projection envelope)))"
proof -
  from assms(1) obtain device actor projection observed_at i db operation request edge edges where
    c: "import_case env token bytes key (st_pool st) device actor projection observed_at"
    and sub: "submit_operation (rk_pool env) (run_pack_operation i device actor
          (sha256_text (pe_crypto (rk_pool env)) bytes) projection) (st_pool st) = Inr (ro_receipt_id receipt, db)"
    and op: "get_operation_by_receipt (ro_receipt_id receipt) db = Some operation"
    and req: "run_pack_edge (op_operation_id operation) device actor
          (sha256_text (pe_crypto (rk_pool env)) bytes) observed_at projection = Inr request"
    and rec: "record_provenance_edge (rk_prov env) db request (st_edges st) = (Inr edge, edges)"
    and i: "ro_operation_id receipt = op_operation_id operation"
    and st': "st' = st\<lparr>st_pool := db, st_edges := edges\<rparr>"
    unfolding import_ok by blast
  from c obtain fp where token: "token_device_id (rk_pool env) (rk_uuid env) token (st_pool st) = Inr (device, fp)"
    and adm: "admit_run_pack env bytes key = Inr (projection, observed_at)"
    and actor: "first_actor device (st_pool st) = Inr actor" by (auto simp: import_case_def)
  from admitted [OF adm assms(2)] obtain k envelope canonical expected where
    env: "key = Some k" "rk_from_slice env bytes = Inr envelope" "projection = ae_projection envelope"
      "rk_projection_bytes env projection = Inr canonical"
      "expected_mac env k (ae_admission_witness envelope) = Inr expected"
      "rk_hex_decode env (aw_signature (ae_admission_witness envelope)) = Some expected"
      "check_witness (sha256_text (pe_crypto (rk_pool env)) canonical) projection (ae_admission_witness envelope) = Inr ()"
    and proj: "check_projection projection = Inr ()" by blast
  have ref: "\<not> starts_with ''/'' (va_relative_ref (ep_vault projection))"
    "''..'' \<notin> set (split_on (\<lambda>c. c = CHR ''/'') (va_relative_ref (ep_vault projection)))"
    using proj by (auto simp: check_projection_def bindR_eq_Inr fail_if_eq)
  have get: "get_operation (ro_operation_id receipt) db = Some operation"
    unfolding i by (rule by_receipt_operation [OF op])
  note fields = run_pack_edge_fields [OF req]
  have mine: "op_requesting_actor_id operation = act_actor_id actor"
    using recorded_actor [OF rec] fields get i by simp
  obtain row where row: "row \<in> set edges" "edge_key row = request_key request"
    using recorded_row [OF assms(3) rec] by blast
  have key: "\<exists>x. get_operation_by_idempotency_key (run_pack_key projection) db = Some x \<and>
      op_content_digest x = sha256_text (pe_crypto (rk_pool env)) bytes \<and> op_receipt_id x = Some (ro_receipt_id receipt)"
    using submitted_lookup [OF sub] by (auto simp: run_pack_operation_def)
  show ?thesis
    unfolding st'
    by (rule exI [of _ device], rule exI [of _ fp], rule exI [of _ k], rule exI [of _ envelope],
      rule exI [of _ canonical], rule exI [of _ expected], rule exI [of _ actor],
      rule exI [of _ operation], rule exI [of _ row])
      (use token env ref actor first_actor_device [OF actor] get mine key row fields i in simp)
qed

section \<open>Importing again\<close>

text \<open>The same importer at another time: other fresh identifiers, clocks and error texts.\<close>

definition later_import ::
    "'u run_pack_env \<Rightarrow> pool_env \<Rightarrow> prov_env \<Rightarrow> string \<Rightarrow> 'u run_pack_env" where
  "later_import env pool prov uuid = env\<lparr>rk_pool := pool, rk_prov := prov, rk_fresh_uuid := uuid\<rparr>"

lemma admit_later:
  assumes "pe_crypto pool = pe_crypto (rk_pool env)" "same_codecs (rk_prov env) prov"
  shows "admit_run_pack (later_import env pool prov uuid) bytes key = admit_run_pack env bytes key"
proof -
  have "expected_mac (later_import env pool prov uuid) = expected_mac env"
    by (simp add: fun_eq_iff expected_mac_def later_import_def)
  moreover have "parse_time prov = parse_time (rk_prov env)"
    using assms(2) by (simp add: fun_eq_iff parse_time_def same_codecs_def)
  ultimately show ?thesis by (simp add: admit_run_pack_def later_import_def assms(1))
qed

lemma import_case_later:
  assumes "import_case env token bytes key db device actor projection observed_at"
    and "db_devices db' = db_devices db" "db_actors db' = db_actors db"
    and "pe_crypto pool = pe_crypto (rk_pool env)" "same_codecs (rk_prov env) prov"
  shows "import_case (later_import env pool prov uuid) token bytes key db' device actor projection observed_at"
proof -
  have "token_device_id pool (rk_uuid env) token db' = Inr x \<longleftrightarrow>
      token_device_id (rk_pool env) (rk_uuid env) token db = Inr x" for x
    by (cases x) (simp add: token_device_id_ok get_device_def assms(2,4))
  moreover have "first_actor device db' = first_actor device db"
    by (simp add: first_actor_def list_actors_for_device_def assms(3))
  ultimately show ?thesis using assms(1) admit_later [OF assms(4,5)]
    by (simp add: import_case_def later_import_def)
qed

lemma submit_keeps_operations:
  "submit_operation env e db = Inr (receipt, db') \<Longrightarrow> operations_kept db db'"
  by (auto simp: submit_operation_def submit_insert_ok operations_kept_def get_operation_def row_by_append
      split: option.splits sum.splits)

text \<open>
  An import can be retried: once it was answered, the same bytes with the same token and key are
  answered with the same receipt, whatever fresh identifiers and clocks the retry draws, and add
  neither an operation nor an edge.
\<close>

theorem run_pack_retry:
  assumes "edges_reachable (rk_prov env) (st_pool st) (st_edges st)" "instants_read_back (rk_prov env)"
    and "import_run_pack_observation env token bytes key st = (Inr receipt, st')"
    and "pe_crypto pool = pe_crypto (rk_pool env)" "same_codecs (rk_prov env) prov"
    and "operation_id_parse (rk_uuid env) uuid = Inr i'"
  shows "import_run_pack_observation (later_import env pool prov uuid) token bytes key st' = (Inr receipt, st')"
proof -
  let ?digest = "sha256_text (pe_crypto (rk_pool env)) bytes"
  from assms(3) obtain device actor projection observed_at i db operation request edge edges where
    c: "import_case env token bytes key (st_pool st) device actor projection observed_at"
    and sub: "submit_operation (rk_pool env) (run_pack_operation i device actor ?digest projection) (st_pool st) =
      Inr (ro_receipt_id receipt, db)"
    and op: "get_operation_by_receipt (ro_receipt_id receipt) db = Some operation"
    and req: "run_pack_edge (op_operation_id operation) device actor ?digest observed_at projection = Inr request"
    and rec: "record_provenance_edge (rk_prov env) db request (st_edges st) = (Inr edge, edges)"
    and out: "ro_operation_id receipt = op_operation_id operation" "ro_recorded_at receipt = op_recorded_at operation"
    and st': "st' = st\<lparr>st_pool := db, st_edges := edges\<rparr>"
    unfolding import_ok by blast
  have frame: "db_devices db = db_devices (st_pool st)" "db_actors db = db_actors (st_pool st)"
    using submit_frame [OF sub] by simp_all
  have again: "submit_operation pool (run_pack_operation i' device actor ?digest projection) db =
      Inr (ro_receipt_id receipt, db)"
    by (rule submitted_again [OF sub refl]) (simp_all add: run_pack_operation_def)
  have "edges_ok (rk_prov env) db (st_edges st)"
    using reachable_ok [OF assms(2,1)] submit_keeps_operations [OF sub] by (rule edges_ok_later [rotated])
  moreover have "same_codecs (rk_prov env) (rk_prov env)" by (simp add: same_codecs_def)
  ultimately have edge: "record_provenance_edge prov db request edges = (Inr edge, edges)"
    using recorded_again [OF _ assms(2) _ rec rtranclp.rtrancl_refl assms(5)] by blast
  have case': "import_case (later_import env pool prov uuid) token bytes key db device actor projection observed_at"
    by (rule import_case_later [OF c frame assms(4,5)])
  have fields: "rk_pool (later_import env pool prov uuid) = pool" "rk_prov (later_import env pool prov uuid) = prov"
    "rk_fresh_uuid (later_import env pool prov uuid) = uuid" "rk_uuid (later_import env pool prov uuid) = rk_uuid env"
    by (simp_all add: later_import_def)
  show ?thesis unfolding import_ok fields assms(4)
    by (rule exI [of _ device], rule exI [of _ actor], rule exI [of _ projection], rule exI [of _ observed_at],
      rule exI [of _ i'], rule exI [of _ db], rule exI [of _ operation], rule exI [of _ request],
      rule exI [of _ edge], rule exI [of _ edges])
      (use case' assms(6) again op req edge out in \<open>simp add: st'\<close>)
qed

section \<open>One import\<close>

definition example_digest :: string where
  "example_digest = replicate 64 CHR ''a''"

definition example_projection :: RunPackEvidenceProjectionV1 where
  "example_projection = \<lparr> ep_schema = ''RunPackEvidenceProjectionV1'', ep_projection_id = example_digest,
     ep_run_id = ''run'', ep_pack_manifest_digest = example_digest, ep_pack_content_digest = example_digest,
     ep_verification = \<lparr> ve_verifier_contract_version = ''1'', ve_verified_at = [],
       ve_verification_receipt_digest = example_digest, ve_outcome = ''verified'' \<rparr>,
     ep_vault = \<lparr> va_object_id = ''v'', va_relative_ref = ''packs/1'', va_retention_state = ''available'' \<rparr>,
     ep_origin = \<lparr> or_operator_adapter = ''x'', or_source_device_ref = None, or_observed_at = None,
       or_recorded_at = [] \<rparr>,
     ep_event_summary = \<lparr> es_terminal_state = ''done'', es_receipt_chain_digest = example_digest,
       es_artifact_digests = [] \<rparr> \<rparr>"

definition example_witness :: RunPackAdmissionWitnessV1 where
  "example_witness = \<lparr> aw_format = ''mnemes.run-pack-admission-witness/v1'',
     aw_canonical_projection_digest = sha256_text toy_crypto [1], aw_pack_manifest_digest = example_digest,
     aw_pack_content_digest = example_digest, aw_verification_receipt_digest = example_digest,
     aw_verified = True, aw_signature = ''00'' \<rparr>"

definition toy_run_pack_env :: "string run_pack_env" where
  "toy_run_pack_env = \<lparr> rk_pool = example_pool_env, rk_prov = toy_prov_env, rk_uuid = toy_uuid,
     rk_fresh_uuid = ''u1'',
     rk_from_slice = (\<lambda>_. Inr \<lparr> ae_projection = example_projection, ae_admission_witness = example_witness \<rparr>),
     rk_projection_bytes = (\<lambda>_. Inr [1]), rk_witness_value = (\<lambda>_. Inr (JObject [])),
     rk_value_bytes = (\<lambda>_. Inr []), rk_hmac = (\<lambda>k. Some (\<lambda>m. replicate 32 0)),
     rk_hex_decode = (\<lambda>_. Some (replicate 32 0)) \<rparr>"

definition example_edge_store :: "(string, unit) EdgeStore" where
  "example_edge_store = \<lparr> st_pool = st_pool example_authed_store, st_cache = cache_new 2, st_memory = (),
     st_routing_receipts = [], st_profile_receipts = [], st_synced_facts = [], st_receipt_auth_key = [7],
     fs_create_admissions = [], fs_create_acks = [], fs_supersede_admissions = [], fs_supersede_acks = [],
     st_edges = [] \<rparr>"

lemma example_digest_valid: "valid_digest example_digest" "trim example_digest \<noteq> []"
proof -
  show "valid_digest example_digest"
    by (simp add: valid_digest_def example_digest_def is_ascii_hexdigit_def is_ascii_uppercase_def
        is_ascii_digit_def list_all_iff)
  have "trim example_digest = example_digest" by (rule trim_printable) (simp add: example_digest_def)
  then show "trim example_digest \<noteq> []" by (simp add: example_digest_def)
qed

lemma example_admitted: "admit_run_pack toy_run_pack_env bytes (Some key) = Inr (example_projection, None)"
  by (simp add: admit_run_pack_def toy_run_pack_env_def expected_mac_def without_signature_def
      check_witness_def check_projection_def example_projection_def example_witness_def
      example_digest_valid example_pool_env_def transpose_result_def fail_if_def ok_or_def Let_def)

definition example_actor :: Actor where
  "example_actor = (actor_new (ActorId ''op'') (DeviceId ''d1'') Human)\<lparr>act_tool_profile := Operator\<rparr>"

lemma example_import_case:
  "import_case toy_run_pack_env ''d1:s1'' bytes (Some key) (st_pool example_edge_store) example_authed_device
     example_actor example_projection None"
proof -
  have "authenticate_request example_pool_env toy_uuid ''d1:s1'' None (st_pool example_authed_store) =
      Inr (example_authed_device, None)"
    using example_authed by (auto simp: authorize_ok example_bearer example_server_env_def)
  then have "\<exists>fp. token_device_id example_pool_env toy_uuid ''d1:s1'' (st_pool example_authed_store) =
      Inr (example_authed_device, fp)"
    by (auto simp: authenticate_request_def bindR_eq_Inr)
  then show ?thesis using example_admitted
    by (simp add: import_case_def first_actor_def list_actors_for_device_def example_edge_store_def
        example_authed_store_def example_actor_def actor_new_def example_authed_device_def device_new_def)
      (simp add: toy_run_pack_env_def)
qed

lemma example_imported:
  "\<exists>receipt st'. import_run_pack_observation toy_run_pack_env ''d1:s1'' bytes (Some key) example_edge_store =
     (Inr receipt, st') \<and> ro_receipt_id receipt = ''op-receipt:u1''"
proof -
  let ?env = "toy_run_pack_env" and ?st = "example_edge_store"
  let ?digest = "sha256_text (pe_crypto (rk_pool ?env)) bytes"
  let ?op = "(run_pack_operation (OperationId ''u1'') example_authed_device example_actor ?digest example_projection)
    \<lparr>op_recorded_at := pe_now example_pool_env, op_receipt_id := Some ''op-receipt:u1''\<rparr>"
  let ?db = "(st_pool ?st)\<lparr>db_operations := [?op]\<rparr>"
  have env: "rk_pool ?env = example_pool_env" "rk_prov ?env = toy_prov_env" "rk_uuid ?env = toy_uuid"
      "rk_fresh_uuid ?env = ''u1''"
    by (simp_all add: toy_run_pack_env_def)
  have db: "db_operations (st_pool ?st) = []" "db_devices (st_pool ?st) = [example_authed_device]"
      "db_actors (st_pool ?st) = [example_actor]"
    by (simp_all add: example_edge_store_def example_authed_store_def empty_db_def example_actor_def)
  have ids: "dev_device_id example_authed_device = DeviceId ''d1''" "act_actor_id example_actor = ActorId ''op''"
    by (simp_all add: example_authed_device_def device_new_def example_actor_def actor_new_def)
  have id: "operation_id_parse (rk_uuid ?env) (rk_fresh_uuid ?env) = Inr (OperationId ''u1'')"
    by (simp add: env operation_id_parse_def opaque_parse_def toy_uuid_def)
  have sub: "submit_operation (rk_pool ?env) (run_pack_operation (OperationId ''u1'') example_authed_device
      example_actor ?digest example_projection) (st_pool ?st) = Inr (''op-receipt:u1'', ?db)"
    by (simp add: submit_operation_def submit_check_def get_operation_by_idempotency_key_def row_by_def db Let_def
        submit_insert_ok get_operation_def get_device_def get_actor_def ids run_pack_operation_def env)
  have get: "get_operation_by_receipt ''op-receipt:u1'' ?db = Some ?op"
    by (simp add: get_operation_by_receipt_def get_operation_def row_by_def)
  have trims: "trim ''run_pack_projection'' = ''run_pack_projection''" "trim ''pack_manifest'' = ''pack_manifest''"
      "trim example_digest \<noteq> []" "example_digest \<noteq> []"
    using example_digest_valid by (auto simp: trim_printable example_digest_def)
  obtain request where req: "run_pack_edge (op_operation_id ?op) example_authed_device example_actor ?digest None
      example_projection = Inr request"
    by (simp add: run_pack_edge_def item_ref_new_def example_projection_def trims result_simps)
  then have request: "request = \<lparr> rp_edge_type = DerivedFrom,
      rp_source = \<lparr> mir_kind = ''run_pack_projection'', mir_id = example_digest \<rparr>,
      rp_target = \<lparr> mir_kind = ''pack_manifest'', mir_id = example_digest \<rparr>,
      rp_operation_id = Some (OperationId ''u1''), rp_actor_id = Some (ActorId ''op''),
      rp_device_id = Some (DeviceId ''d1''), rp_valid_from = None, rp_valid_to = None, rp_observed_at = None,
      rp_recorded_at = None, rp_content_digest = Some ?digest, rp_metadata = None, rp_supersedes_edge_id = None \<rparr>"
    by (auto simp: run_pack_edge_def item_ref_new_ok bindR_eq_Inr example_projection_def ids run_pack_operation_def)
  have "\<exists>edge edges. record_provenance_edge toy_prov_env ?db request [] = (Inr edge, edges)"
    by (simp add: request record_provenance_edge_def record_provenance_edge_conn_def check_request_def
        validate_item_ref_def trims operation_matches_def get_operation_def row_by_def run_pack_operation_def ids
        validate_supersedes_reference_def normalize_metadata_def transpose_result_def existing_edges_def
        insert_edge_def sql_insert_def fk_fails_def has_key_def row_of_request_def toy_prov_env_def
        fail_if_def ok_or_def db)
  then obtain edge edges where rec: "record_provenance_edge (rk_prov ?env) ?db request (st_edges ?st) = (Inr edge, edges)"
    by (auto simp: env example_edge_store_def)
  let ?receipt = "\<lparr> ro_receipt_id = ''op-receipt:u1'', ro_operation_id = op_operation_id ?op,
    ro_recorded_at = op_recorded_at ?op \<rparr>"
  have "import_run_pack_observation ?env ''d1:s1'' bytes (Some key) ?st =
      (Inr ?receipt, ?st\<lparr>st_pool := ?db, st_edges := edges\<rparr>)"
    unfolding import_ok
    by (rule exI [of _ example_authed_device], rule exI [of _ example_actor], rule exI [of _ example_projection],
      rule exI [of _ None], rule exI [of _ "OperationId ''u1''"], rule exI [of _ ?db], rule exI [of _ ?op],
      rule exI [of _ request], rule exI [of _ edge], rule exI [of _ edges])
      (use example_import_case id sub get req rec in simp)
  then show ?thesis by (intro exI conjI) (assumption, simp)
qed

theorem run_pack_admitted_witness:
  "\<exists>receipt (st' :: (string, unit) EdgeStore) row.
     import_run_pack_observation toy_run_pack_env ''d1:s1'' [1, 2] (Some [7]) example_edge_store = (Inr receipt, st') \<and>
     row \<in> set (st_edges st') \<and> er_source_id row = example_digest"
proof -
  obtain receipt st' where run: "import_run_pack_observation toy_run_pack_env ''d1:s1'' [1, 2] (Some [7])
      example_edge_store = (Inr receipt, st')"
    using example_imported by blast
  have "\<forall>k mac. rk_hmac toy_run_pack_env k = Some mac \<longrightarrow> (\<forall>m. length (mac m) = 32)"
    by (auto simp: toy_run_pack_env_def)
  moreover have "instants_read_back (rk_prov toy_run_pack_env)"
    using toy_instants by (simp add: toy_run_pack_env_def)
  moreover have "ae_projection envelope = example_projection" if "rk_from_slice toy_run_pack_env bytes = Inr envelope" for envelope bytes
    using that by (auto simp: toy_run_pack_env_def)
  ultimately show ?thesis
    using run_pack_admitted [OF run] run by (fastforce simp: edge_key_def example_projection_def)
qed

theorem run_pack_retry_witness:
  "\<exists>receipt (st' :: (string, unit) EdgeStore).
     import_run_pack_observation (later_import toy_run_pack_env example_pool_env (toy_prov_env\<lparr>pv_now := \<lambda>_. 9\<rparr>) ''u2'')
       ''d1:s1'' [1, 2] (Some [7]) st' = (Inr receipt, st') \<and> ro_receipt_id receipt = ''op-receipt:u1''"
proof -
  obtain receipt st' where run: "import_run_pack_observation toy_run_pack_env ''d1:s1'' [1, 2] (Some [7])
      example_edge_store = (Inr receipt, st')" "ro_receipt_id receipt = ''op-receipt:u1''"
    using example_imported by blast
  have env: "rk_pool toy_run_pack_env = example_pool_env" "rk_prov toy_run_pack_env = toy_prov_env"
      "rk_uuid toy_run_pack_env = toy_uuid"
    by (simp_all add: toy_run_pack_env_def)
  have start: "edges_reachable (rk_prov toy_run_pack_env) (st_pool example_edge_store) (st_edges example_edge_store)"
    by (auto simp: edges_reachable_def example_edge_store_def)
  have "same_codecs (rk_prov toy_run_pack_env) (toy_prov_env\<lparr>pv_now := \<lambda>_. 9\<rparr>)"
    by (simp add: same_codecs_def env)
  moreover have "operation_id_parse (rk_uuid toy_run_pack_env) ''u2'' = Inr (OperationId ''u2'')"
    by (simp add: env operation_id_parse_def opaque_parse_def toy_uuid_def)
  ultimately have "import_run_pack_observation (later_import toy_run_pack_env example_pool_env
      (toy_prov_env\<lparr>pv_now := \<lambda>_. 9\<rparr>) ''u2'') ''d1:s1'' [1, 2] (Some [7]) st' = (Inr receipt, st')"
    using run_pack_retry [OF start _ run(1)] toy_instants by (simp add: env)
  with run(2) show ?thesis by blast
qed

end
