(* ===== verification/Command_Line.thy ===== *)
theory Command_Line
  imports Rust_Text
begin

text \<open>
  What the two command-line programs (\<open>src/bin/mnemes-sync-client.rs\<close>,
  \<open>src/bin/mnemes-admin.rs\<close>) take from Rust's standard library: \<open>str::parse::<u64>\<close>,
  \<open>strip_prefix\<close>, \<open>trim_matches\<close>, \<open>lines\<close>, and \<open>Path::with_extension\<close> on Unix paths.
\<close>

section \<open>Numbers\<close>

text \<open>\<open>u64::from_str\<close>: digits with an optional plus sign, nothing above the maximum.\<close>

fun digits_value :: "nat \<Rightarrow> string \<Rightarrow> nat option" where
  "digits_value v [] = Some v"
| "digits_value v (c # s) =
     (if is_ascii_digit c
      then let w = 10 * v + (code c - 48) in
           if w < 2 ^ 64 then digits_value w s else None
      else None)"

definition parse_u64 :: "string \<Rightarrow> u64 option" where
  "parse_u64 s =
     (case s of
        [] \<Rightarrow> None
      | c # r \<Rightarrow> map_option of_nat
          (digits_value 0 (if c = CHR ''+'' \<and> r \<noteq> [] then r else s)))"

lemma digit_char_digit: "n < 10 \<Longrightarrow> is_ascii_digit (digit_char n) \<and> code (digit_char n) = 48 + n"
  by (auto simp: is_ascii_digit_def code_digit_char)

lemma digits_value_append:
  "digits_value v (s @ t) = Option.bind (digits_value v s) (\<lambda>w. digits_value w t)"
  by (induction s arbitrary: v) (auto simp: Let_def)

lemma digits_value_dec:
  "n < 2 ^ 64 \<Longrightarrow> digits_value 0 (dec_nat n) = Some n"
proof (induction n rule: dec_nat.induct)
  case (1 n)
  show ?case
  proof (cases "n < 10")
    case True
    with "1.prems" digit_char_digit [OF True] show ?thesis by (simp add: dec_nat.simps [of n] Let_def)
  next
    case False
    then have "digits_value 0 (dec_nat (n div 10)) = Some (n div 10)"
      using "1.IH" [OF False] "1.prems" by simp
    with False "1.prems" digit_char_digit [of "n mod 10"] show ?thesis
      by (simp add: dec_nat.simps [of n] digits_value_append Let_def)
  qed
qed

lemma dec_nat_digits: "c \<in> set (dec_nat n) \<Longrightarrow> is_ascii_digit c"
proof (induction n rule: dec_nat.induct)
  case (1 n)
  then show ?case
    using digit_char_digit [of n] digit_char_digit [of "n mod 10"]
    by (cases "n < 10") (auto simp: dec_nat.simps [of n])
qed

lemma parse_dec_u64 [simp]: "parse_u64 (dec_u64 w) = Some w"
proof -
  have digits: "digits_value 0 (dec_u64 w) = Some (unat w)"
    unfolding dec_u64_def by (rule digits_value_dec) (use unsigned_less [of w] in simp_all)
  obtain c r where "dec_u64 w = c # r"
    by (cases "dec_u64 w") (auto simp: dec_u64_def dec_nat.simps [of "unat w"] split: if_splits)
  moreover have "c \<noteq> CHR ''+''"
    using dec_nat_digits [of c "unat w"] calculation by (auto simp: dec_u64_def is_ascii_digit_def)
  ultimately show ?thesis using digits by (simp add: parse_u64_def)
qed

section \<open>Texts\<close>

definition strip_prefix :: "string \<Rightarrow> string \<Rightarrow> string option" where
  "strip_prefix p s = (if starts_with p s then Some (drop (length p) s) else None)"

definition trim_end_matches :: "char \<Rightarrow> string \<Rightarrow> string" where
  "trim_end_matches c s = rev (dropWhile (\<lambda>d. d = c) (rev s))"

definition trim_matches :: "char \<Rightarrow> string \<Rightarrow> string" where
  "trim_matches c s = trim_end_matches c (dropWhile (\<lambda>d. d = c) s)"

text \<open>\<open>str::lines\<close>: the pieces up to each line feed, without it and a carriage return before it.\<close>

fun split_inclusive :: "string \<Rightarrow> string list" where
  "split_inclusive [] = []"
| "split_inclusive (c # s) =
     (if c = CHR 0x0A then [c] # split_inclusive s
      else case split_inclusive s of [] \<Rightarrow> [[c]] | t # ts \<Rightarrow> (c # t) # ts)"

definition line_text :: "string \<Rightarrow> string" where
  "line_text l =
     (if l \<noteq> [] \<and> last l = CHR 0x0A
      then let l = butlast l in if l \<noteq> [] \<and> last l = CHR 0x0D then butlast l else l
      else l)"

definition str_lines :: "string \<Rightarrow> string list" where
  "str_lines s = map line_text (split_inclusive s)"

section \<open>Paths\<close>

text \<open>
  The last component of a Unix path starts after trailing slashes and \<open>.\<close> components; here the
  path is reversed. A path that ends in \<open>..\<close>, or has no component, has no file name.
\<close>

fun strip_tail :: "string \<Rightarrow> string" where
  "strip_tail [] = []"
| "strip_tail (c # r) =
     (if c = CHR ''/'' \<or> c = CHR ''.'' \<and> r \<noteq> [] \<and> hd r = CHR ''/'' then strip_tail r else c # r)"

text \<open>The stem ends before the last dot, unless that dot is the first character of the name.\<close>

definition stem_rev :: "string \<Rightarrow> string" where
  "stem_rev name =
     (case split_once CHR ''.'' name of
        Some (_, before) \<Rightarrow> if before = [] then name else before
      | None \<Rightarrow> name)"

definition with_extension :: "string \<Rightarrow> string \<Rightarrow> string" where
  "with_extension ext path =
     (let r = strip_tail (rev path);
          name = takeWhile (\<lambda>c. c \<noteq> CHR ''/'') r
      in if name \<in> {[], ''.'', ''..''} then path
         else rev (stem_rev name @ dropWhile (\<lambda>c. c \<noteq> CHR ''/'') r) @
              (if ext = [] then [] else CHR ''.'' # ext))"

lemma watermark_temporary:
  "with_extension ''tmp'' ''/state/fact-create-watermark.json'' = ''/state/fact-create-watermark.tmp''"
  "with_extension ''tmp'' ''/state/watermark.tmp'' = ''/state/watermark.tmp''"
  by (simp_all add: with_extension_def stem_rev_def Let_def)

end
