(* ===== verification/Sync_Client.thy ===== *)
theory Sync_Client
  imports Server_Facts Command_Line
begin

text \<open>
  The device-side driver of fact-create replication (\<open>src/bin/mnemes-sync-client.rs\<close>): one
  invocation exports one verified record of the local journal, sends it as a signed batch, and
  advances a watermark file when the answer acknowledges exactly this request.

  An invocation takes from outside: the local journal, the clock, the identifiers, the codecs of
  \<open>serde_json\<close> and \<open>hex\<close>, the file system with its failures, and the network with the world
  behind it. Files are contents with a permission mode.
\<close>

section \<open>Data\<close>

definition WIRE :: string where
  "WIRE = ''/v1/replication/fact-create/v1''"

definition ACK_PROTOCOL :: string where
  "ACK_PROTOCOL = ''mnemes.fact-create.v1''"

definition OP_FACT_CREATE :: string where
  "OP_FACT_CREATE = ''fact.create''"

definition SCHEMA_FACT_CREATE :: string where
  "SCHEMA_FACT_CREATE = ''semantic_memory.fact.create.v1''"

definition RECORD_VERIFIED :: string where
  "RECORD_VERIFIED = ''verified_v1''"

record Watermark =
  wm_protocol_version :: u16
  wm_home_device_id :: string
  wm_store_id :: string
  wm_stream_epoch :: u64
  wm_next_sequence :: i64
  wm_last_batch_id :: "string option"
  wm_last_disposition :: "string option"
  wm_updated_at :: string

record Ack =
  ac_protocol :: string
  ac_batch_id :: string
  ac_request_digest :: "string option"
  ac_home_device_id :: string
  ac_store_id :: string
  ac_stream_epoch :: u64
  ac_accepted_head :: i64
  ac_disposition :: string

datatype ClientError = Msg string

text \<open>The columns of the local table \<open>mutation_journal\<close> that the query names.\<close>

record local_row =
  lr_home_device_id :: string
  lr_store_id :: string
  lr_stream_epoch :: i64
  lr_sequence :: i64
  lr_payload :: "byte list"
  lr_payload_digest :: "byte list"
  lr_predecessor_digest :: "byte list"
  lr_envelope_digest :: "byte list"
  lr_operation_kind :: string
  lr_payload_schema :: string
  lr_record_state :: string

type_synonym journal_entry = "i64 \<times> byte list \<times> byte list \<times> byte list \<times> byte list"

section \<open>The world of an invocation\<close>

record file_node =
  fn_contents :: string
  fn_mode :: nat

datatype fs_call = ReadToString | Create | WriteAll | SetPermissions | Rename

record 'w client_world =
  cw_files :: "string \<Rightarrow> file_node option"
  cw_net :: 'w

text \<open>
  \<open>ce_fault\<close> gives the error of a file-system call that fails, \<open>ce_written\<close> the length of what a
  failing \<open>write_all\<close> still wrote. \<open>ce_post\<close> is the network: the URL, the bearer token and the
  body give an error, or the status and the body of the answer.
\<close>

record 'w client_env =
  ce_crypto :: crypto
  ce_hex_decode :: "string \<Rightarrow> string + byte list"
  ce_hex_encode :: "byte list \<Rightarrow> string"
  ce_print_watermark :: "Watermark \<Rightarrow> string + string"
  ce_parse_watermark :: "string \<Rightarrow> string + Watermark"
  ce_parse_ack :: "string \<Rightarrow> string + Ack"
  ce_to_vec :: "SignedFactCreateBatchV1 \<Rightarrow> string + byte list"
  ce_open :: "string \<Rightarrow> string + local_row list"
  ce_query :: "string + unit"
  ce_fault :: "fs_call \<Rightarrow> string \<Rightarrow> string option"
  ce_written :: nat
  ce_create_mode :: nat
  ce_random_seed :: "byte list"
  ce_batch_id :: string
  ce_now_unix :: u64
  ce_now_rfc3339 :: string
  ce_home :: string
  ce_runtime :: "string + unit"
  ce_post :: "string \<Rightarrow> string \<Rightarrow> byte list \<Rightarrow> 'w \<Rightarrow> (string + nat \<times> (string + string)) \<times> 'w"
  ce_show_status :: "nat \<Rightarrow> string"

definition read_to_string :: "'w client_env \<Rightarrow> string \<Rightarrow> 'w client_world \<Rightarrow> string + string" where
  "read_to_string env path w =
     (case ce_fault env ReadToString path of
        Some e \<Rightarrow> Inl e
      | None \<Rightarrow> (case cw_files w path of
            None \<Rightarrow> Inl ''No such file or directory (os error 2)''
          | Some f \<Rightarrow> Inr (fn_contents f)))"

text \<open>\<open>File::create\<close> truncates an existing file and keeps its mode.\<close>

definition create_file ::
    "'w client_env \<Rightarrow> string \<Rightarrow> 'w client_world \<Rightarrow> (string + unit) \<times> 'w client_world" where
  "create_file env path w =
     (case ce_fault env Create path of
        Some e \<Rightarrow> (Inl e, w)
      | None \<Rightarrow> (Inr (), w\<lparr>cw_files := (cw_files w)(path \<mapsto>
          \<lparr> fn_contents = [],
            fn_mode = (case cw_files w path of None \<Rightarrow> ce_create_mode env | Some f \<Rightarrow> fn_mode f) \<rparr>)\<rparr>))"

definition write_all ::
    "'w client_env \<Rightarrow> string \<Rightarrow> string \<Rightarrow> 'w client_world \<Rightarrow> (string + unit) \<times> 'w client_world" where
  "write_all env path contents w =
     (let put = (\<lambda>s. w\<lparr>cw_files := (cw_files w)(path :=
            map_option (\<lambda>f. f\<lparr>fn_contents := fn_contents f @ s\<rparr>) (cw_files w path))\<rparr>)
      in case ce_fault env WriteAll path of
           Some e \<Rightarrow> (Inl e, put (take (ce_written env) contents))
         | None \<Rightarrow> (Inr (), put contents))"

definition set_permissions ::
    "'w client_env \<Rightarrow> string \<Rightarrow> nat \<Rightarrow> 'w client_world \<Rightarrow> (string + unit) \<times> 'w client_world" where
  "set_permissions env path mode w =
     (case ce_fault env SetPermissions path of
        Some e \<Rightarrow> (Inl e, w)
      | None \<Rightarrow> (Inr (), w\<lparr>cw_files := (cw_files w)(path :=
          map_option (\<lambda>f. f\<lparr>fn_mode := mode\<rparr>) (cw_files w path))\<rparr>))"

definition rename_file ::
    "'w client_env \<Rightarrow> string \<Rightarrow> string \<Rightarrow> 'w client_world \<Rightarrow> (string + unit) \<times> 'w client_world" where
  "rename_file env source target w =
     (case ce_fault env Rename target of
        Some e \<Rightarrow> (Inl e, w)
      | None \<Rightarrow> (case cw_files w source of
            None \<Rightarrow> (Inl ''No such file or directory (os error 2)'', w)
          | Some f \<Rightarrow> (Inr (), w\<lparr>cw_files := ((cw_files w)(source := None))(target \<mapsto> f)\<rparr>)))"

text \<open>\<open>call.map_err(|e| Msg(format!("what: {e}")))?\<close>, in pure code and in code on the world.\<close>

definition describe :: "string \<Rightarrow> string + 'a \<Rightarrow> ClientError + 'a" where
  "describe what = map_err (\<lambda>e. Msg (what @ '': '' @ e))"

definition describeS ::
    "string \<Rightarrow> ('w client_world \<Rightarrow> (string + 'a) \<times> 'w client_world) \<Rightarrow>
     'w client_world \<Rightarrow> (ClientError + 'a) \<times> 'w client_world" where
  "describeS what f w = (let (r, w) = f w in (describe what r, w))"

section \<open>Keys and credentials\<close>

definition load_seed :: "'w client_env \<Rightarrow> string \<Rightarrow> 'w client_world \<Rightarrow> ClientError + byte list" where
  "load_seed env path w =
     bindR (describe ''key read'' (read_to_string env path w)) (\<lambda>raw.
     let trimmed = trim raw; bytes = as_bytes trimmed in
     case ce_hex_decode env trimmed of
       Inr v \<Rightarrow> if length v = 32 then Inr v
                else if length bytes = 32 then Inr bytes
                else Inl (Msg ''key file must be 32-byte seed as hex or raw bytes'')
     | Inl _ \<Rightarrow> if length bytes = 32 then Inr bytes
                else Inl (Msg ''key file must be 32-byte seed as hex or raw bytes''))"

fun credential_of_lines :: "string list \<Rightarrow> ClientError + string" where
  "credential_of_lines [] = Inl (Msg ''MNEME_CREDENTIAL not found in env file'')"
| "credential_of_lines (line # rest) =
     (case strip_prefix ''MNEME_CREDENTIAL='' (trim line) of
        Some v \<Rightarrow>
          let v = trim_matches CHR 0x27 (trim_matches CHR 0x22 (trim v)) in
          if v = [] then Inl (Msg ''MNEME_CREDENTIAL is empty'') else Inr v
      | None \<Rightarrow> credential_of_lines rest)"

definition load_credential :: "'w client_env \<Rightarrow> string \<Rightarrow> 'w client_world \<Rightarrow> ClientError + string" where
  "load_credential env env_file w =
     bindR (describe ''credential env read'' (read_to_string env env_file w)) (\<lambda>contents.
     credential_of_lines (str_lines contents))"

section \<open>The local journal\<close>

definition in_stream :: "string \<Rightarrow> string \<Rightarrow> u64 \<Rightarrow> local_row \<Rightarrow> bool" where
  "in_stream device store epoch row \<longleftrightarrow>
     lr_home_device_id row = device \<and> lr_store_id row = store \<and>
     lr_stream_epoch row = u64_as_i64 epoch"

definition next_row :: "string \<Rightarrow> string \<Rightarrow> u64 \<Rightarrow> i64 \<Rightarrow> local_row list \<Rightarrow> local_row option" where
  "next_row device store epoch after_sequence rows =
     (case sort_key lr_sequence
             (filter (\<lambda>r. in_stream device store epoch r \<and> lr_sequence r \<ge> after_sequence) rows) of
        [] \<Rightarrow> None
      | r # _ \<Rightarrow> Some r)"

definition digest_column :: "nat \<Rightarrow> byte list \<Rightarrow> ClientError + byte list" where
  "digest_column idx v =
     (if length v \<noteq> 32
      then Inl (Msg (''digest col '' @ dec_nat idx @ '' length '' @ dec_nat (length v)))
      else Inr v)"

definition read_journal_entry ::
    "'w client_env \<Rightarrow> local_row list \<Rightarrow> string \<Rightarrow> string \<Rightarrow> u64 \<Rightarrow> i64 \<Rightarrow>
     ClientError + journal_entry option" where
  "read_journal_entry env rows device store epoch after_sequence =
     bindR (describe ''journal query'' (ce_query env)) (\<lambda>_.
     case next_row device store epoch after_sequence rows of
       None \<Rightarrow> Inr None
     | Some row \<Rightarrow>
         if lr_operation_kind row \<noteq> OP_FACT_CREATE \<or> lr_payload_schema row \<noteq> SCHEMA_FACT_CREATE \<or>
            lr_record_state row \<noteq> RECORD_VERIFIED
         then Inl (Msg (''journal row '' @ dec_int (lr_sequence row) @
                '' is not a verified fact-create record (op='' @ lr_operation_kind row @
                '', schema='' @ lr_payload_schema row @ '', state='' @ lr_record_state row @ '')''))
         else
           bindR (digest_column 2 (lr_payload_digest row)) (\<lambda>payload_digest.
           bindR (digest_column 3 (lr_predecessor_digest row)) (\<lambda>predecessor_digest.
           bindR (digest_column 4 (lr_envelope_digest row)) (\<lambda>envelope_digest.
           Inr (Some (lr_sequence row, lr_payload row, payload_digest, predecessor_digest,
             envelope_digest))))))"

section \<open>Acknowledgements and the watermark\<close>

definition validate_ack ::
    "crypto \<Rightarrow> Ack \<Rightarrow> byte list \<Rightarrow> string \<Rightarrow> string \<Rightarrow> string \<Rightarrow> u64 \<Rightarrow> i64 \<Rightarrow> ClientError + unit" where
  "validate_ack c ack body batch_id home_device_id store_id stream_epoch submitted_sequence = checks
     [fail_if (ac_protocol ack \<noteq> ACK_PROTOCOL) (Msg ''ack protocol mismatch''),
      fail_if (ac_batch_id ack \<noteq> batch_id) (Msg ''ack batch_id mismatch''),
      fail_if (ac_request_digest ack \<noteq> Some (hex_bytes (sha256 c body)))
        (Msg ''ack request digest mismatch''),
      fail_if (ac_home_device_id ack \<noteq> home_device_id \<or> ac_store_id ack \<noteq> store_id \<or>
          ac_stream_epoch ack \<noteq> stream_epoch) (Msg ''ack stream identity mismatch''),
      fail_if (ac_disposition ack \<noteq> ''accepted'')
        (Msg (''unexpected disposition '' @ ac_disposition ack)),
      fail_if (ac_accepted_head ack \<noteq> submitted_sequence) (Msg ''ack accepted head mismatch'')]"

definition bindW ::
    "('w client_world \<Rightarrow> ('e + 'a) \<times> 'w client_world) \<Rightarrow>
     ('a \<Rightarrow> 'w client_world \<Rightarrow> ('e + 'b) \<times> 'w client_world) \<Rightarrow>
     'w client_world \<Rightarrow> ('e + 'b) \<times> 'w client_world" where
  "bindW f g w = (case f w of (Inl e, w) \<Rightarrow> (Inl e, w) | (Inr x, w) \<Rightarrow> g x w)"

definition pureW :: "'e + 'a \<Rightarrow> 'w client_world \<Rightarrow> ('e + 'a) \<times> 'w client_world" where
  "pureW r w = (r, w)"

definition write_watermark ::
    "'w client_env \<Rightarrow> string \<Rightarrow> Watermark \<Rightarrow> 'w client_world \<Rightarrow>
     (ClientError + unit) \<times> 'w client_world" where
  "write_watermark env path wm =
     (let tmp = with_extension ''tmp'' path in
      bindW (pureW (describe ''wm serialize'' (ce_print_watermark env wm))) (\<lambda>json.
      bindW (describeS ''wm write'' (create_file env tmp)) (\<lambda>_.
      bindW (describeS ''wm write'' (write_all env tmp json)) (\<lambda>_.
      bindW (describeS ''wm chmod'' (set_permissions env tmp 384)) (\<lambda>_.
      describeS ''wm rename'' (rename_file env tmp path))))))"

section \<open>Arguments\<close>

record ClientOptions =
  co_db :: "string option"
  co_device :: "string option"
  co_store :: "string option"
  co_epoch :: "u64 option"
  co_key :: "string option"
  co_principal :: "string option"
  co_key_version :: "u64 option"
  co_fencing :: "string option"
  co_url :: "string option"
  co_credential_env :: "string option"
  co_watermark :: "string option"
  co_observed_at :: "u64 option"
  co_gen_key :: "string option"

definition no_options :: ClientOptions where
  "no_options = \<lparr> co_db = None, co_device = None, co_store = None, co_epoch = None, co_key = None,
     co_principal = None, co_key_version = None, co_fencing = None, co_url = None,
     co_credential_env = None, co_watermark = None, co_observed_at = None, co_gen_key = None \<rparr>"

definition client_option :: "string \<Rightarrow> (string \<Rightarrow> ClientOptions \<Rightarrow> ClientOptions) option" where
  "client_option a =
     (if a = ''--db'' then Some (\<lambda>v. co_db_update (\<lambda>_. Some v))
      else if a = ''--home-device-id'' then Some (\<lambda>v. co_device_update (\<lambda>_. Some v))
      else if a = ''--store-id'' then Some (\<lambda>v. co_store_update (\<lambda>_. Some v))
      else if a = ''--stream-epoch'' then Some (\<lambda>v. co_epoch_update (\<lambda>_. parse_u64 v))
      else if a = ''--key'' then Some (\<lambda>v. co_key_update (\<lambda>_. Some v))
      else if a = ''--principal'' then Some (\<lambda>v. co_principal_update (\<lambda>_. Some v))
      else if a = ''--key-version'' then Some (\<lambda>v. co_key_version_update (\<lambda>_. parse_u64 v))
      else if a = ''--fencing-token'' then Some (\<lambda>v. co_fencing_update (\<lambda>_. Some v))
      else if a = ''--url'' then Some (\<lambda>v. co_url_update (\<lambda>_. Some v))
      else if a = ''--credential-file'' then Some (\<lambda>v. co_credential_env_update (\<lambda>_. Some v))
      else if a = ''--watermark'' then Some (\<lambda>v. co_watermark_update (\<lambda>_. Some v))
      else if a = ''--observed-at'' then Some (\<lambda>v. co_observed_at_update (\<lambda>_. parse_u64 v))
      else if a = ''--gen-key'' then Some (\<lambda>v. co_gen_key_update (\<lambda>_. Some v))
      else None)"

text \<open>\<open>None\<close> is \<open>process::exit(2)\<close>: an unknown argument, or one without its value.\<close>

fun parse_args :: "string list \<Rightarrow> ClientOptions \<Rightarrow> ClientOptions option" where
  "parse_args [] opts = Some opts"
| "parse_args [a] opts = None"
| "parse_args (a # v # rest) opts =
     (case client_option a of None \<Rightarrow> None | Some put \<Rightarrow> parse_args rest (put v opts))"

record ClientConfig =
  cc_db :: string
  cc_device :: string
  cc_store :: string
  cc_epoch :: u64
  cc_key :: string
  cc_principal :: string
  cc_key_version :: u64
  cc_fencing :: string
  cc_url :: string
  cc_credential_env :: string
  cc_watermark :: string
  cc_observed_at :: "u64 option"

definition required :: "string \<Rightarrow> 'a option \<Rightarrow> ClientError + 'a" where
  "required name opt = ok_or (Msg (name @ '' required'')) opt"

definition client_config :: "'w client_env \<Rightarrow> ClientOptions \<Rightarrow> ClientError + ClientConfig" where
  "client_config env opts =
     bindR (required ''--db'' (co_db opts)) (\<lambda>db.
     bindR (required ''--home-device-id'' (co_device opts)) (\<lambda>device.
     bindR (required ''--store-id'' (co_store opts)) (\<lambda>store.
     bindR (required ''--stream-epoch'' (co_epoch opts)) (\<lambda>epoch.
     bindR (required ''--key'' (co_key opts)) (\<lambda>key.
     bindR (required ''--principal'' (co_principal opts)) (\<lambda>principal.
     bindR (required ''--key-version'' (co_key_version opts)) (\<lambda>key_version.
     bindR (required ''--fencing-token'' (co_fencing opts)) (\<lambda>fencing.
     bindR (required ''--url'' (co_url opts)) (\<lambda>url.
     Inr \<lparr> cc_db = db, cc_device = device, cc_store = store, cc_epoch = epoch, cc_key = key,
           cc_principal = principal, cc_key_version = key_version, cc_fencing = fencing,
           cc_url = trim_end_matches CHR ''/'' url,
           cc_credential_env = (case co_credential_env opts of
              Some p \<Rightarrow> p | None \<Rightarrow> ce_home env @ ''/.config/mnemes/client.env''),
           cc_watermark = (case co_watermark opts of
              Some p \<Rightarrow> p
            | None \<Rightarrow> ce_home env @ ''/.local/state/mnemes/fact-create-watermark.json''),
           cc_observed_at = co_observed_at opts \<rparr>)))))))))"

section \<open>One invocation\<close>

text \<open>The line that a successful invocation prints.\<close>

datatype ClientOutput =
    Generated string
  | UpToDate i64
  | Synced i64 i64 string i64 string u64

definition generate_key ::
    "'w client_env \<Rightarrow> string \<Rightarrow> 'w client_world \<Rightarrow> (ClientError + ClientOutput) \<times> 'w client_world" where
  "generate_key env path =
     (let seed = ce_random_seed env in
      bindW (describeS ''key write'' (create_file env path)) (\<lambda>_.
      bindW (describeS ''key write'' (write_all env path (ce_hex_encode env seed))) (\<lambda>_.
      bindW (describeS ''key chmod'' (set_permissions env path 384)) (\<lambda>_.
      pureW (Inr (Generated (ce_hex_encode env (ed_public (ce_crypto env) seed))))))))"

definition first_watermark :: "ClientConfig \<Rightarrow> Watermark" where
  "first_watermark cfg =
     \<lparr> wm_protocol_version = 1, wm_home_device_id = cc_device cfg, wm_store_id = cc_store cfg,
       wm_stream_epoch = cc_epoch cfg, wm_next_sequence = 0, wm_last_batch_id = None,
       wm_last_disposition = None, wm_updated_at = [] \<rparr>"

definition read_watermark ::
    "'w client_env \<Rightarrow> ClientConfig \<Rightarrow> 'w client_world \<Rightarrow> ClientError + Watermark" where
  "read_watermark env cfg w =
     (if cw_files w (cc_watermark cfg) \<noteq> None
      then bindR (describe ''watermark read'' (read_to_string env (cc_watermark cfg) w)) (\<lambda>contents.
           bindR (describe ''watermark parse'' (ce_parse_watermark env contents)) (\<lambda>wm.
           if wm_home_device_id wm \<noteq> cc_device cfg \<or> wm_store_id wm \<noteq> cc_store cfg \<or>
              wm_stream_epoch wm \<noteq> cc_epoch cfg
           then Inl (Msg (''watermark identity mismatch '' @ map char_of [226, 128, 148 :: nat] @
                  '' refusing to advance a foreign stream''))
           else Inr wm))
      else Inr (first_watermark cfg))"

definition signed_request ::
    "'w client_env \<Rightarrow> ClientConfig \<Rightarrow> byte list \<Rightarrow> journal_entry \<Rightarrow>
     ClientError + SignedFactCreateBatchV1" where
  "signed_request env cfg signing_key = (\<lambda>(seq, payload, payload_digest, predecessor_digest, envelope_digest).
     let entry = \<lparr> fce_sequence = seq, fce_payload = payload, fce_payload_digest = payload_digest,
           fce_predecessor_digest = predecessor_digest,
           fce_journal_envelope_digest = envelope_digest \<rparr> in
     bindR (describe ''batch build'' (map_err display_replication_error
       (fact_create_batch_new (ce_batch_id env) (cc_device cfg) (cc_store cfg) (cc_epoch cfg) seq
          [entry] (cc_principal cfg) (cc_key_version cfg)
          (case cc_observed_at cfg of Some t \<Rightarrow> t | None \<Rightarrow> ce_now_unix env)
          (cc_fencing cfg)))) (\<lambda>batch.
     describe ''sign'' (map_err display_replication_error
       (create_sign (ce_crypto env) signing_key batch))))"

definition is_success :: "nat \<Rightarrow> bool" where
  "is_success status \<longleftrightarrow> 200 \<le> status \<and> status < 300"

definition parse_answer ::
    "'w client_env \<Rightarrow> nat \<times> (string + string) \<Rightarrow> ClientError + Ack" where
  "parse_answer env = (\<lambda>(status, body).
     bindR (describe ''body'' body) (\<lambda>contents.
     if is_success status
     then map_err (\<lambda>e. Msg (''ack parse: '' @ e @ '' '' @ map char_of [226, 128, 148 :: nat] @ '' '' @ contents))
            (ce_parse_ack env contents)
     else Inl (Msg (''HTTP '' @ ce_show_status env status @ '': '' @ contents))))"

definition exchange ::
    "'w client_env \<Rightarrow> string \<Rightarrow> string \<Rightarrow> byte list \<Rightarrow> 'w client_world \<Rightarrow>
     (ClientError + Ack) \<times> 'w client_world" where
  "exchange env url credential body =
     bindW (pureW (describe ''runtime'' (ce_runtime env))) (\<lambda>_.
     bindW (describeS ''http'' (\<lambda>w.
         let (r, net) = ce_post env (url @ WIRE) credential body (cw_net w) in (r, w\<lparr>cw_net := net\<rparr>)))
       (\<lambda>resp. pureW (parse_answer env resp)))"

definition advanced :: "'w client_env \<Rightarrow> Watermark \<Rightarrow> Ack \<Rightarrow> Watermark" where
  "advanced env wm ack = wm\<lparr>wm_next_sequence := i64_add (ac_accepted_head ack) 1,
     wm_last_batch_id := Some (ce_batch_id env), wm_last_disposition := Some (ac_disposition ack),
     wm_updated_at := ce_now_rfc3339 env\<rparr>"

definition send_record ::
    "'w client_env \<Rightarrow> ClientConfig \<Rightarrow> byte list \<Rightarrow> string \<Rightarrow> Watermark \<Rightarrow> journal_entry \<Rightarrow>
     'w client_world \<Rightarrow> (ClientError + ClientOutput) \<times> 'w client_world" where
  "send_record env cfg signing_key credential wm entry =
     bindW (pureW (signed_request env cfg signing_key entry)) (\<lambda>batch.
     bindW (pureW (describe ''serialize'' (ce_to_vec env batch))) (\<lambda>body.
     bindW (exchange env (cc_url cfg) credential body) (\<lambda>ack.
     bindW (pureW (validate_ack (ce_crypto env) ack body (ce_batch_id env) (cc_device cfg)
         (cc_store cfg) (cc_epoch cfg) (fst entry))) (\<lambda>_.
     bindW (write_watermark env (cc_watermark cfg) (advanced env wm ack)) (\<lambda>_.
     pureW (Inr (Synced (fst entry) (ac_accepted_head ack) (ac_disposition ack)
       (wm_next_sequence (advanced env wm ack)) (cc_store cfg) (cc_epoch cfg))))))))"

definition sync_once ::
    "'w client_env \<Rightarrow> ClientConfig \<Rightarrow> 'w client_world \<Rightarrow>
     (ClientError + ClientOutput) \<times> 'w client_world" where
  "sync_once env cfg =
     bindW (\<lambda>w. (load_seed env (cc_key cfg) w, w)) (\<lambda>seed.
     bindW (\<lambda>w. (load_credential env (cc_credential_env cfg) w, w)) (\<lambda>credential.
     bindW (\<lambda>w. (read_watermark env cfg w, w)) (\<lambda>wm.
     bindW (pureW (describe ''db open'' (ce_open env (cc_db cfg)))) (\<lambda>rows.
     bindW (pureW (read_journal_entry env rows (cc_device cfg) (cc_store cfg) (cc_epoch cfg)
         (wm_next_sequence wm))) (\<lambda>found.
     case found of
       None \<Rightarrow> pureW (Inr (UpToDate (wm_next_sequence wm)))
     | Some entry \<Rightarrow> send_record env cfg seed credential wm entry)))))"

text \<open>The whole program; the outer \<open>None\<close> is \<open>process::exit(2)\<close>.\<close>

definition client_main ::
    "'w client_env \<Rightarrow> string list \<Rightarrow> 'w client_world \<Rightarrow>
     ((ClientError + ClientOutput) \<times> 'w client_world) option" where
  "client_main env args w =
     (case parse_args args no_options of
        None \<Rightarrow> None
      | Some opts \<Rightarrow> Some (case co_gen_key opts of
            Some path \<Rightarrow> generate_key env path w
          | None \<Rightarrow> bindW (pureW (client_config env opts)) (sync_once env) w))"

section \<open>What an invocation changes\<close>

named_theorems client_ok \<open>what a successful step of the client says\<close>

lemma bindW_ok [client_ok]:
  "bindW f g w = (Inr y, w') \<longleftrightarrow> (\<exists>x w1. f w = (Inr x, w1) \<and> g x w1 = (Inr y, w'))"
  by (auto simp: bindW_def split: prod.splits sum.splits)

lemma bindW_error:
  "bindW f g w = (Inl e, w') \<longleftrightarrow>
     f w = (Inl e, w') \<or> (\<exists>x w1. f w = (Inr x, w1) \<and> g x w1 = (Inl e, w'))"
  by (auto simp: bindW_def split: prod.splits sum.splits)

lemma pureW_eq [client_ok]: "pureW r w = (r', w') \<longleftrightarrow> r = r' \<and> w' = w"
  by (auto simp: pureW_def)

lemma describe_ok [client_ok]: "describe what r = Inr x \<longleftrightarrow> r = Inr x"
  by (simp add: describe_def map_err_eq_Inr)

lemma describeS_ok [client_ok]: "describeS what f w = (Inr x, w') \<longleftrightarrow> f w = (Inr x, w')"
  by (auto simp: describeS_def describe_ok split: prod.splits)

lemma describeS_run: "describeS what f w = (r, w') \<Longrightarrow> \<exists>r'. f w = (r', w') \<and> (\<forall>x. r = Inr x \<longleftrightarrow> r' = Inr x)"
  by (cases "f w") (auto simp: describeS_def describe_ok)

lemma validate_ack_ok [client_ok]:
  "validate_ack c ack body batch_id device store epoch seq = Inr () \<longleftrightarrow>
     ack = \<lparr> ac_protocol = ACK_PROTOCOL, ac_batch_id = batch_id,
       ac_request_digest = Some (hex_bytes (sha256 c body)), ac_home_device_id = device,
       ac_store_id = store, ac_stream_epoch = epoch, ac_accepted_head = seq,
       ac_disposition = ''accepted'' \<rparr>"
  by (cases ack) (auto simp: validate_ack_def checks_ok result_simps)

text \<open>A failing write of the watermark leaves the old file as it was; only the temporary file differs.\<close>

abbreviation temporary :: "ClientConfig \<Rightarrow> string" where
  "temporary cfg \<equiv> with_extension ''tmp'' (cc_watermark cfg)"

definition touches :: "string \<Rightarrow> ('w client_world \<Rightarrow> ('e + 'a) \<times> 'w client_world) \<Rightarrow> bool" where
  "touches p f \<longleftrightarrow> (\<forall>w r w'. f w = (r, w') \<longrightarrow>
     cw_net w' = cw_net w \<and> (\<forall>q. q \<noteq> p \<longrightarrow> cw_files w' q = cw_files w q))"

lemma touches_files:
  "touches p (create_file env p)" "touches p (write_all env p contents)"
  "touches p (set_permissions env p mode)"
  by (auto simp: touches_def create_file_def write_all_def set_permissions_def Let_def
      split: option.splits)

lemma touches_pureW: "touches p (pureW r)"
  by (simp add: touches_def pureW_def)

lemma touches_describeS: "touches p f \<Longrightarrow> touches p (describeS what f)"
  unfolding touches_def by (metis describeS_run)

lemma touches_bindW: "touches p f \<Longrightarrow> (\<And>x. touches p (g x)) \<Longrightarrow> touches p (bindW f g)"
  unfolding touches_def bindW_def by (fastforce split: prod.splits sum.splits)

definition write_temporary ::
    "'w client_env \<Rightarrow> string \<Rightarrow> Watermark \<Rightarrow> 'w client_world \<Rightarrow> (ClientError + unit) \<times> 'w client_world" where
  "write_temporary env tmp wm =
     bindW (pureW (describe ''wm serialize'' (ce_print_watermark env wm))) (\<lambda>json.
     bindW (describeS ''wm write'' (create_file env tmp)) (\<lambda>_.
     bindW (describeS ''wm write'' (write_all env tmp json)) (\<lambda>_.
     describeS ''wm chmod'' (set_permissions env tmp 384))))"

lemma touches_temporary: "touches tmp (write_temporary env tmp wm)"
  unfolding write_temporary_def
  by (intro touches_bindW touches_pureW touches_describeS touches_files)

lemma write_watermark_split:
  "write_watermark env path wm = bindW (write_temporary env (with_extension ''tmp'' path) wm)
     (\<lambda>_. describeS ''wm rename'' (rename_file env (with_extension ''tmp'' path) path))"
  by (auto simp: write_watermark_def write_temporary_def bindW_def Let_def fun_eq_iff
      split: prod.splits sum.splits)

lemma rename_error: "describeS what (rename_file env p q) w = (Inl e, w') \<Longrightarrow> w' = w"
  by (auto simp: describeS_def rename_file_def describe_def split: option.splits prod.splits)

lemma write_watermark_error:
  assumes "write_watermark env path wm w = (Inl e, w')"
  shows "cw_net w' = cw_net w \<and> (\<forall>p. p \<noteq> with_extension ''tmp'' path \<longrightarrow> cw_files w' p = cw_files w p)"
proof -
  obtain r where "write_temporary env (with_extension ''tmp'' path) wm w = (r, w')"
    using assms unfolding write_watermark_split bindW_error by (auto dest: rename_error)
  then show ?thesis using touches_temporary [of "with_extension ''tmp'' path" env wm]
    by (auto simp: touches_def)
qed

lemma write_watermark_ok:
  "write_watermark env path wm w = (Inr (), w') \<Longrightarrow>
     \<exists>json. ce_print_watermark env wm = Inr json \<and> cw_net w' = cw_net w \<and>
       cw_files w' path = Some \<lparr> fn_contents = json, fn_mode = 384 \<rparr> \<and>
       (\<forall>p. p \<noteq> with_extension ''tmp'' path \<and> p \<noteq> path \<longrightarrow> cw_files w' p = cw_files w p)"
  by (auto simp: write_watermark_def Let_def client_ok create_file_def write_all_def
      set_permissions_def rename_file_def split: option.splits)

lemma exchange_ok:
  "exchange env url credential body w = (Inr ack, w') \<longleftrightarrow>
     (\<exists>status contents net. ce_runtime env = Inr () \<and>
        ce_post env (url @ WIRE) credential body (cw_net w) = (Inr (status, Inr contents), net) \<and>
        is_success status \<and> ce_parse_ack env contents = Inr ack \<and> w' = w\<lparr>cw_net := net\<rparr>)"
  by (auto simp: exchange_def client_ok parse_answer_def bindR_eq_Inr map_err_eq_Inr
      split: prod.splits if_splits)

lemma exchange_files: "exchange env url credential body w = (r, w') \<Longrightarrow> cw_files w' = cw_files w"
  by (auto simp: exchange_def bindW_def pureW_def describeS_def Let_def split: prod.splits sum.splits)

lemma send_record_error:
  assumes "send_record env cfg key credential wm entry w = (Inl e, w')"
    and "p \<noteq> temporary cfg"
  shows "cw_files w' p = cw_files w p"
proof -
  have kept: "cw_files w2 p = cw_files w p"
    if "exchange env (cc_url cfg) credential body w = (x, w1)"
      "write_watermark env (cc_watermark cfg) v w1 = (Inl e, w2)" for body x w1 v w2
    using exchange_files [OF that(1)] write_watermark_error [OF that(2)] assms(2) by simp
  show ?thesis using assms(1)
    by (auto simp: send_record_def bindW_error pureW_def dest: exchange_files kept)
qed

section \<open>The record that is sent\<close>

lemma next_row_None:
  "next_row device store epoch n rows = None \<longleftrightarrow>
     (\<forall>r \<in> set rows. in_stream device store epoch r \<longrightarrow> lr_sequence r < n)"
proof -
  have "next_row device store epoch n rows = None \<longleftrightarrow>
      sort_key lr_sequence (filter (\<lambda>r. in_stream device store epoch r \<and> lr_sequence r \<ge> n) rows) = []"
    by (simp add: next_row_def split: list.splits)
  also have "\<dots> \<longleftrightarrow> filter (\<lambda>r. in_stream device store epoch r \<and> lr_sequence r \<ge> n) rows = []"
    by (rule sort_key_Nil_iff)
  finally show ?thesis by (auto simp: filter_empty_conv not_le)
qed

lemma next_row_Some:
  assumes "next_row device store epoch n rows = Some row"
  shows "row \<in> set rows \<and> in_stream device store epoch row \<and> n \<le> lr_sequence row \<and>
    (\<forall>r \<in> set rows. in_stream device store epoch r \<and> n \<le> lr_sequence r \<longrightarrow>
       lr_sequence row \<le> lr_sequence r)"
proof -
  let ?rows = "filter (\<lambda>r. in_stream device store epoch r \<and> lr_sequence r \<ge> n) rows"
  obtain rest where sorted: "sort_key lr_sequence ?rows = row # rest"
    using assms by (auto simp: next_row_def split: list.splits)
  have set: "set (row # rest) = set ?rows" unfolding sorted [symmetric] by simp
  have "sorted (map lr_sequence (row # rest))" unfolding sorted [symmetric] by (rule sorted_sort_key)
  then have "\<forall>r \<in> set (row # rest). lr_sequence row \<le> lr_sequence r" by auto
  moreover have "row \<in> set ?rows" unfolding set [symmetric] by simp
  ultimately show ?thesis unfolding set by auto
qed

text \<open>A verified fact-create record, and the entry that it becomes.\<close>

definition verified_row :: "local_row \<Rightarrow> bool" where
  "verified_row row \<longleftrightarrow>
     lr_operation_kind row = OP_FACT_CREATE \<and> lr_payload_schema row = SCHEMA_FACT_CREATE \<and>
     lr_record_state row = RECORD_VERIFIED \<and> length (lr_payload_digest row) = 32 \<and>
     length (lr_predecessor_digest row) = 32 \<and> length (lr_envelope_digest row) = 32"

definition row_entry :: "local_row \<Rightarrow> FactCreateTransportEntryV1" where
  "row_entry row = \<lparr> fce_sequence = lr_sequence row, fce_payload = lr_payload row,
     fce_payload_digest = lr_payload_digest row, fce_predecessor_digest = lr_predecessor_digest row,
     fce_journal_envelope_digest = lr_envelope_digest row \<rparr>"

lemma read_journal_entry_ok:
  "read_journal_entry env rows device store epoch n = Inr found \<longleftrightarrow> ce_query env = Inr () \<and>
     (case next_row device store epoch n rows of
        None \<Rightarrow> found = None
      | Some row \<Rightarrow> verified_row row \<and> found = Some (lr_sequence row, lr_payload row,
          lr_payload_digest row, lr_predecessor_digest row, lr_envelope_digest row))"
  by (auto simp: read_journal_entry_def bindR_eq_Inr client_ok verified_row_def digest_column_def
      split: option.splits if_splits)

lemma signed_request_ok:
  assumes "signed_request env cfg key (seq, payload, d1, d2, d3) = Inr batch"
  shows "validate_structure batch = Inr () \<and> fcb_batch_id batch = ce_batch_id env \<and>
    fcb_home_device_id batch = cc_device cfg \<and> fcb_store_id batch = cc_store cfg \<and>
    fcb_stream_epoch batch = cc_epoch cfg \<and> fcb_start_sequence batch = seq \<and>
    fcb_signer_public_key batch = ed_public (ce_crypto env) key \<and>
    fcb_entries batch = [\<lparr> fce_sequence = seq, fce_payload = payload, fce_payload_digest = d1,
      fce_predecessor_digest = d2, fce_journal_envelope_digest = d3 \<rparr>]"
proof -
  obtain b where "fact_create_batch_new (ce_batch_id env) (cc_device cfg) (cc_store cfg) (cc_epoch cfg)
      seq [\<lparr> fce_sequence = seq, fce_payload = payload, fce_payload_digest = d1,
        fce_predecessor_digest = d2, fce_journal_envelope_digest = d3 \<rparr>] (cc_principal cfg)
      (cc_key_version cfg) (case cc_observed_at cfg of Some t \<Rightarrow> t | None \<Rightarrow> ce_now_unix env)
      (cc_fencing cfg) = Inr b"
    and sign: "create_sign (ce_crypto env) key b = Inr batch"
    using assms by (auto simp: signed_request_def Let_def bindR_eq_Inr client_ok map_err_eq_Inr)
  moreover have "create_unsigned batch = create_unsigned b" "validate_structure b = Inr ()"
      "fcb_signer_public_key batch = ed_public (ce_crypto env) key"
    using create_sign_ok [OF sign] by auto
  moreover have "validate_structure batch = validate_structure b"
    using create_structure_unsigned [of batch] create_structure_unsigned [of b] calculation(3) by simp
  ultimately show ?thesis
    by (cases batch) (auto simp: fact_create_batch_new_def Let_def bindR_eq_Inr create_unsigned_def)
qed

lemma send_record_ok:
  "send_record env cfg key credential wm (seq, entry) w = (Inr out, w') \<longleftrightarrow>
     (\<exists>batch body ack w1. signed_request env cfg key (seq, entry) = Inr batch \<and> ce_to_vec env batch = Inr body \<and>
        exchange env (cc_url cfg) credential body w = (Inr ack, w1) \<and>
        validate_ack (ce_crypto env) ack body (ce_batch_id env) (cc_device cfg) (cc_store cfg)
          (cc_epoch cfg) seq = Inr () \<and>
        write_watermark env (cc_watermark cfg) (advanced env wm ack) w1 = (Inr (), w') \<and>
        out = Synced seq (ac_accepted_head ack) (ac_disposition ack)
          (wm_next_sequence (advanced env wm ack)) (cc_store cfg) (cc_epoch cfg))"
  by (simp add: send_record_def bindW_ok pureW_eq describe_ok) blast

section \<open>What one invocation promises\<close>

abbreviation of_stream :: "ClientConfig \<Rightarrow> local_row \<Rightarrow> bool" where
  "of_stream cfg \<equiv> in_stream (cc_device cfg) (cc_store cfg) (cc_epoch cfg)"

text \<open>What a server's answer has to be for the watermark to move: of one request, and of all of it.\<close>

definition acknowledged ::
    "'w client_env \<Rightarrow> ClientConfig \<Rightarrow> local_row \<Rightarrow> 'w \<Rightarrow> 'w \<Rightarrow> bool" where
  "acknowledged env cfg row net net' \<longleftrightarrow>
     (\<exists>key credential batch body status contents.
        validate_structure batch = Inr () \<and> fcb_batch_id batch = ce_batch_id env \<and>
        fcb_home_device_id batch = cc_device cfg \<and> fcb_store_id batch = cc_store cfg \<and>
        fcb_stream_epoch batch = cc_epoch cfg \<and> fcb_entries batch = [row_entry row] \<and>
        fcb_signer_public_key batch = ed_public (ce_crypto env) key \<and>
        ce_to_vec env batch = Inr body \<and>
        ce_post env (cc_url cfg @ WIRE) credential body net = (Inr (status, Inr contents), net') \<and>
        is_success status \<and>
        ce_parse_ack env contents = Inr \<lparr> ac_protocol = ACK_PROTOCOL, ac_batch_id = ce_batch_id env,
          ac_request_digest = Some (hex_bytes (sha256 (ce_crypto env) body)),
          ac_home_device_id = cc_device cfg, ac_store_id = cc_store cfg,
          ac_stream_epoch = cc_epoch cfg, ac_accepted_head = lr_sequence row,
          ac_disposition = ''accepted'' \<rparr>)"

lemma sync_once_ok:
  assumes "sync_once env cfg w = (Inr out, w')"
  obtains wm rows where "read_watermark env cfg w = Inr wm" "ce_open env (cc_db cfg) = Inr rows"
    "next_row (cc_device cfg) (cc_store cfg) (cc_epoch cfg) (wm_next_sequence wm) rows = None \<and>
       out = UpToDate (wm_next_sequence wm) \<and> w' = w \<or>
     (\<exists>row key credential. next_row (cc_device cfg) (cc_store cfg) (cc_epoch cfg) (wm_next_sequence wm) rows = Some row \<and>
       verified_row row \<and> send_record env cfg key credential wm (lr_sequence row, lr_payload row,
          lr_payload_digest row, lr_predecessor_digest row, lr_envelope_digest row) w = (Inr out, w'))"
proof -
  obtain key credential wm rows found where
      wm: "read_watermark env cfg w = Inr wm" and rows: "ce_open env (cc_db cfg) = Inr rows"
    and found: "read_journal_entry env rows (cc_device cfg) (cc_store cfg) (cc_epoch cfg)
        (wm_next_sequence wm) = Inr found"
    and rest: "(case found of None \<Rightarrow> pureW (Inr (UpToDate (wm_next_sequence wm)))
        | Some entry \<Rightarrow> send_record env cfg key credential wm entry) w = (Inr out, w')"
    using assms by (auto simp: sync_once_def client_ok)
  show ?thesis
  proof (cases "next_row (cc_device cfg) (cc_store cfg) (cc_epoch cfg) (wm_next_sequence wm) rows")
    case None
    with found rest that [OF wm rows] show ?thesis by (auto simp: read_journal_entry_ok pureW_eq)
  next
    case (Some row)
    with found rest that [OF wm rows] show ?thesis by (auto simp: read_journal_entry_ok)
  qed
qed

lemma sync_once_error:
  assumes "sync_once env cfg w = (Inl e, w')" and "p \<noteq> temporary cfg"
  shows "cw_files w' p = cw_files w p"
  using assms(1) send_record_error [OF _ assms(2)]
  by (auto simp: sync_once_def bindW_error pureW_def split: option.splits)

lemma sent_record:
  assumes "send_record env cfg key credential wm (lr_sequence row, lr_payload row,
      lr_payload_digest row, lr_predecessor_digest row, lr_envelope_digest row) w = (Inr out, w')"
  shows "acknowledged env cfg row (cw_net w) (cw_net w') \<and>
    out = Synced (lr_sequence row) (lr_sequence row) ''accepted'' (i64_add (lr_sequence row) 1)
      (cc_store cfg) (cc_epoch cfg) \<and>
    (\<exists>json. ce_print_watermark env (wm\<lparr>wm_next_sequence := i64_add (lr_sequence row) 1,
        wm_last_batch_id := Some (ce_batch_id env), wm_last_disposition := Some ''accepted'',
        wm_updated_at := ce_now_rfc3339 env\<rparr>) = Inr json \<and>
      cw_files w' (cc_watermark cfg) = Some \<lparr> fn_contents = json, fn_mode = 384 \<rparr>) \<and>
    (\<forall>p. p \<noteq> temporary cfg \<and> p \<noteq> cc_watermark cfg \<longrightarrow> cw_files w' p = cw_files w p)"
proof -
  obtain batch body ack w1 where
      batch: "signed_request env cfg key (lr_sequence row, lr_payload row, lr_payload_digest row,
        lr_predecessor_digest row, lr_envelope_digest row) = Inr batch" "ce_to_vec env batch = Inr body"
    and exch: "exchange env (cc_url cfg) credential body w = (Inr ack, w1)"
    and ack: "validate_ack (ce_crypto env) ack body (ce_batch_id env) (cc_device cfg) (cc_store cfg)
        (cc_epoch cfg) (lr_sequence row) = Inr ()"
    and written: "write_watermark env (cc_watermark cfg) (advanced env wm ack) w1 = (Inr (), w')"
    and out: "out = Synced (lr_sequence row) (ac_accepted_head ack) (ac_disposition ack)
        (wm_next_sequence (advanced env wm ack)) (cc_store cfg) (cc_epoch cfg)"
    using assms unfolding send_record_ok by blast
  have fields: "fcb_entries batch = [row_entry row]"
    using signed_request_ok [OF batch(1)] by (simp add: row_entry_def)
  obtain status contents where net: "ce_post env (cc_url cfg @ WIRE) credential body (cw_net w) =
      (Inr (status, Inr contents), cw_net w1)" "is_success status"
      "ce_parse_ack env contents = Inr ack" "cw_files w1 = cw_files w"
    using exch by (auto simp: exchange_ok)
  have same: "cw_net w' = cw_net w1" using write_watermark_ok [OF written] by blast
  have "acknowledged env cfg row (cw_net w) (cw_net w')"
    unfolding acknowledged_def same
    using signed_request_ok [OF batch(1)] fields batch(2) net(1,2) net(3) [unfolded ack [unfolded validate_ack_ok]]
    by blast
  moreover have "advanced env wm ack = wm\<lparr>wm_next_sequence := i64_add (lr_sequence row) 1,
      wm_last_batch_id := Some (ce_batch_id env), wm_last_disposition := Some ''accepted'',
      wm_updated_at := ce_now_rfc3339 env\<rparr>"
    using ack by (simp add: advanced_def validate_ack_ok)
  ultimately show ?thesis using write_watermark_ok [OF written] out net(4) ack by (auto simp: validate_ack_ok)
qed

text \<open>
  C5. One invocation of the client. An error changes no file but the temporary one. "Up to date"
  changes nothing, and there is no record at or after the watermark. A synchronised record was
  the first one of the stream at or after the watermark and a verified fact-create record, it was
  sent alone in a batch signed with the key of the device, and a 2xx answer acknowledged the bytes
  that were sent, for this stream and exactly this sequence; only then does the watermark move,
  to the next sequence, in a file that only its owner may read.
\<close>

theorem watermark_moves_only_on_ack:
  assumes "sync_once env cfg w = (r, w')"
  shows "case r of
      Inl _ \<Rightarrow> (\<forall>p. p \<noteq> temporary cfg \<longrightarrow> cw_files w' p = cw_files w p)
    | Inr out \<Rightarrow> \<exists>wm rows. read_watermark env cfg w = Inr wm \<and> ce_open env (cc_db cfg) = Inr rows \<and>
        (case out of
           Generated _ \<Rightarrow> False
         | UpToDate n \<Rightarrow> w' = w \<and> n = wm_next_sequence wm \<and>
             (\<forall>row \<in> set rows. of_stream cfg row \<longrightarrow>
                lr_sequence row < n)
         | Synced seq head disposition following store epoch \<Rightarrow> \<exists>row \<in> set rows.
             lr_sequence row = seq \<and> head = seq \<and> disposition = ''accepted'' \<and>
             following = i64_add seq 1 \<and> store = cc_store cfg \<and> epoch = cc_epoch cfg \<and>
             of_stream cfg row \<and> verified_row row \<and>
             wm_next_sequence wm \<le> seq \<and>
             (\<forall>row' \<in> set rows. of_stream cfg row' \<and>
                wm_next_sequence wm \<le> lr_sequence row' \<longrightarrow> seq \<le> lr_sequence row') \<and>
             acknowledged env cfg row (cw_net w) (cw_net w') \<and>
             (\<exists>json. ce_print_watermark env (wm\<lparr>wm_next_sequence := following,
                 wm_last_batch_id := Some (ce_batch_id env), wm_last_disposition := Some disposition,
                 wm_updated_at := ce_now_rfc3339 env\<rparr>) = Inr json \<and>
               cw_files w' (cc_watermark cfg) = Some \<lparr> fn_contents = json, fn_mode = 384 \<rparr>) \<and>
             (\<forall>p. p \<noteq> temporary cfg \<and> p \<noteq> cc_watermark cfg \<longrightarrow> cw_files w' p = cw_files w p))"
proof (cases r)
  case (Inl e)
  with assms sync_once_error show ?thesis by auto
next
  case (Inr out)
  with assms have "sync_once env cfg w = (Inr out, w')" by simp
  then show ?thesis
  proof (rule sync_once_ok, elim disjE exE conjE)
    fix wm rows row key credential
    assume wm: "read_watermark env cfg w = Inr wm" "ce_open env (cc_db cfg) = Inr rows"
      and row: "next_row (cc_device cfg) (cc_store cfg) (cc_epoch cfg) (wm_next_sequence wm) rows = Some row"
      and verified: "verified_row row"
      and sent: "send_record env cfg key credential wm (lr_sequence row, lr_payload row,
          lr_payload_digest row, lr_predecessor_digest row, lr_envelope_digest row) w = (Inr out, w')"
    show ?thesis using next_row_Some [OF row] verified sent_record [OF sent] wm Inr by auto
  qed (use Inr in \<open>auto simp: next_row_None\<close>)
qed

section \<open>Repeated invocations\<close>

text \<open>
  A timer invokes the client again and again, each time with its own clock, network and faults,
  while the local journal grows: a new record of the stream has a larger sequence than the old ones.
\<close>

fun sync_runs ::
    "ClientConfig \<Rightarrow> 'w client_env list \<Rightarrow> 'w client_world \<Rightarrow>
     (ClientError + ClientOutput) list \<times> 'w client_world" where
  "sync_runs cfg [] w = ([], w)"
| "sync_runs cfg (env # envs) w =
     (let (r, w) = sync_once env cfg w; (rs, w) = sync_runs cfg envs w in (r # rs, w))"

definition synced_by :: "ClientError + ClientOutput \<Rightarrow> i64 list" where
  "synced_by r = (case r of Inr (Synced seq _ _ _ _ _) \<Rightarrow> [seq] | _ \<Rightarrow> [])"

definition synced :: "(ClientError + ClientOutput) list \<Rightarrow> i64 list" where
  "synced rs = concat (map synced_by rs)"

definition journal_grows :: "ClientConfig \<Rightarrow> local_row list \<Rightarrow> local_row list \<Rightarrow> bool" where
  "journal_grows cfg rows rows' \<longleftrightarrow> set rows \<subseteq> set rows' \<and>
     (\<forall>new \<in> set rows' - set rows. \<forall>old \<in> set rows.
        of_stream cfg new \<and> of_stream cfg old \<longrightarrow> lr_sequence old < lr_sequence new)"

text \<open>What an invocation sees: this journal if it can be opened, and codecs that fit together.\<close>

definition sees ::
    "(string \<Rightarrow> string + Watermark) \<Rightarrow> ClientConfig \<Rightarrow> 'w client_env \<Rightarrow> local_row list \<Rightarrow> bool" where
  "sees parse cfg env journal \<longleftrightarrow>
     (\<forall>rows. ce_open env (cc_db cfg) = Inr rows \<longrightarrow> rows = journal) \<and>
     ce_parse_watermark env = parse \<and>
     (\<forall>wm json. ce_print_watermark env wm = Inr json \<longrightarrow> parse json = Inr wm) \<and>
     (\<forall>row \<in> set journal. lr_sequence row < i64_max)"

definition following :: "i64 list \<Rightarrow> i64" where
  "following sent = (if sent = [] then 0 else last sent + 1)"

definition progress ::
    "(string \<Rightarrow> string + Watermark) \<Rightarrow> ClientConfig \<Rightarrow> local_row list \<Rightarrow> i64 list \<Rightarrow>
     'w client_world \<Rightarrow> bool" where
  "progress parse cfg journal sent w \<longleftrightarrow>
     (case cw_files w (cc_watermark cfg) of
        None \<Rightarrow> sent = []
      | Some f \<Rightarrow> \<exists>wm. parse (fn_contents f) = Inr wm \<and> sent \<noteq> [] \<and> wm_next_sequence wm = last sent + 1) \<and>
     sorted_wrt (<) sent \<and>
     (\<forall>s \<in> set sent. 0 \<le> s \<and> (\<exists>row \<in> set journal. of_stream cfg row \<and> lr_sequence row = s)) \<and>
     (\<forall>row \<in> set journal. of_stream cfg row \<and> 0 \<le> lr_sequence row \<and>
        lr_sequence row < following sent \<longrightarrow> lr_sequence row \<in> set sent)"

lemma sorted_last: "sorted_wrt (<) (s # xs) \<Longrightarrow> x \<in> set (s # xs) \<Longrightarrow> x \<le> (last (s # xs) :: int)"
  by (induction xs arbitrary: s x) auto

lemma below_following: "sorted_wrt (<) sent \<Longrightarrow> s \<in> set sent \<Longrightarrow> s < following sent"
  using sorted_last [of "hd sent" "tl sent" s] by (cases sent) (auto simp: following_def)

lemma progress_grows:
  assumes "progress parse cfg rows sent w" and "journal_grows cfg rows rows'"
  shows "progress parse cfg rows' sent w"
proof -
  have "lr_sequence row \<in> set sent"
    if row: "row \<in> set rows'" "of_stream cfg row" "0 \<le> lr_sequence row" "lr_sequence row < following sent" for row
  proof (cases "row \<in> set rows")
    case True
    with row assms(1) show ?thesis by (simp add: progress_def)
  next
    case False
    have "sent \<noteq> []" using row by (auto simp: following_def)
    then obtain old where "old \<in> set rows" "of_stream cfg old" "lr_sequence old = last sent"
      using assms(1) last_in_set unfolding progress_def by blast
    with False row \<open>sent \<noteq> []\<close> assms(2) show ?thesis by (fastforce simp: journal_grows_def following_def)
  qed
  then show ?thesis using assms unfolding progress_def journal_grows_def by blast
qed

lemma progress_watermark:
  assumes "progress parse cfg journal sent w" and "sees parse cfg env journal"
    and "read_watermark env cfg w = Inr wm"
  shows "wm_next_sequence wm = following sent"
proof (cases "cw_files w (cc_watermark cfg)")
  case None
  with assms show ?thesis by (auto simp: progress_def read_watermark_def first_watermark_def following_def)
next
  case (Some f)
  with assms show ?thesis
    by (auto simp: progress_def sees_def read_watermark_def following_def bindR_eq_Inr client_ok
        read_to_string_def split: option.splits if_splits)
qed

lemma sync_step_progress:
  assumes inv: "progress parse cfg journal sent w" and sees: "sees parse cfg env journal"
    and tmp: "temporary cfg \<noteq> cc_watermark cfg" and step: "sync_once env cfg w = (r, w')"
  shows "progress parse cfg journal (sent @ synced_by r) w' \<and>
    (\<forall>n. r = Inr (UpToDate n) \<longrightarrow> (\<forall>row \<in> set journal. of_stream cfg row \<and> 0 \<le> lr_sequence row \<longrightarrow>
       lr_sequence row \<in> set sent))"
proof (cases r)
  case (Inl e)
  with step sync_once_error [of env cfg w e w' "cc_watermark cfg"] tmp inv show ?thesis
    by (auto simp: progress_def synced_by_def)
next
  case (Inr out)
  with step have ok: "sync_once env cfg w = (Inr out, w')" by simp
  note next_is = progress_watermark [OF inv sees]
  from ok show ?thesis
  proof (rule sync_once_ok, elim disjE exE conjE)
    fix wm rows
    assume wm: "read_watermark env cfg w = Inr wm" "ce_open env (cc_db cfg) = Inr rows"
      and none: "next_row (cc_device cfg) (cc_store cfg) (cc_epoch cfg) (wm_next_sequence wm) rows = None"
      and out: "out = UpToDate (wm_next_sequence wm)" "w' = w"
    have "rows = journal" using sees wm(2) by (simp add: sees_def)
    with none next_is [OF wm(1)]
    have "\<forall>row \<in> set journal. of_stream cfg row \<longrightarrow> lr_sequence row < following sent"
      by (simp add: next_row_None)
    then have "\<forall>row \<in> set journal. of_stream cfg row \<and> 0 \<le> lr_sequence row \<longrightarrow> lr_sequence row \<in> set sent"
      using inv unfolding progress_def by blast
    then show ?thesis using inv out Inr by (simp add: synced_by_def)
  next
    fix wm rows row key credential
    assume wm: "read_watermark env cfg w = Inr wm" "ce_open env (cc_db cfg) = Inr rows"
      and row: "next_row (cc_device cfg) (cc_store cfg) (cc_epoch cfg) (wm_next_sequence wm) rows = Some row"
      and sent: "send_record env cfg key credential wm (lr_sequence row, lr_payload row,
          lr_payload_digest row, lr_predecessor_digest row, lr_envelope_digest row) w = (Inr out, w')"
    have rows: "rows = journal" using sees wm(2) by (simp add: sees_def)
    note first = next_row_Some [OF row, unfolded rows next_is [OF wm(1)]]
    obtain json where printed: "ce_print_watermark env (wm\<lparr>wm_next_sequence := i64_add (lr_sequence row) 1,
        wm_last_batch_id := Some (ce_batch_id env), wm_last_disposition := Some ''accepted'',
        wm_updated_at := ce_now_rfc3339 env\<rparr>) = Inr json"
      and written: "cw_files w' (cc_watermark cfg) = Some \<lparr> fn_contents = json, fn_mode = 384 \<rparr>"
      and out: "out = Synced (lr_sequence row) (lr_sequence row) ''accepted'' (i64_add (lr_sequence row) 1)
           (cc_store cfg) (cc_epoch cfg)"
      using sent_record [OF sent] by blast
    have parsed: "\<exists>wm'. parse json = Inr wm' \<and> wm_next_sequence wm' = i64_add (lr_sequence row) 1"
      using sees printed by (auto simp: sees_def)
    have nonneg: "0 \<le> following sent"
      using inv last_in_set [of sent] by (auto simp: following_def progress_def)
    have "i64_add (lr_sequence row) 1 = lr_sequence row + 1"
      by (rule i64_add_small) (use sees first nonneg in \<open>auto simp: sees_def i64_max_def\<close>)
    with parsed have parsed: "\<exists>wm'. parse json = Inr wm' \<and> wm_next_sequence wm' = lr_sequence row + 1"
      by simp
    have old: "sorted_wrt (<) sent"
        "\<forall>s \<in> set sent. 0 \<le> s \<and> (\<exists>row \<in> set journal. of_stream cfg row \<and> lr_sequence row = s)"
        "\<forall>row \<in> set journal. of_stream cfg row \<and> 0 \<le> lr_sequence row \<and>
           lr_sequence row < following sent \<longrightarrow> lr_sequence row \<in> set sent"
      using inv unfolding progress_def by blast+
    have sorted: "sorted_wrt (<) (sent @ [lr_sequence row])"
      using old(1) first below_following [OF old(1)] by (fastforce simp: sorted_wrt_append)
    have covered: "lr_sequence r \<in> set (sent @ [lr_sequence row])"
      if r: "r \<in> set journal" "of_stream cfg r" "0 \<le> lr_sequence r" "lr_sequence r < lr_sequence row + 1" for r
    proof (cases "lr_sequence r < following sent")
      case False
      then have "lr_sequence row \<le> lr_sequence r" using first r(1,2) by simp
      with r(4) show ?thesis by simp
    qed (use old(3) r in simp)
    have known: "\<forall>s \<in> set (sent @ [lr_sequence row]). 0 \<le> s \<and>
        (\<exists>row \<in> set journal. of_stream cfg row \<and> lr_sequence row = s)"
      using old(2) first nonneg by auto
    have "progress parse cfg journal (sent @ [lr_sequence row]) w'"
      unfolding progress_def using written parsed sorted known covered by (simp add: following_def)
    then show ?thesis using Inr out by (simp add: synced_by_def)
  qed
qed

lemma sync_runs_progress:
  assumes "progress parse cfg journal sent w" "temporary cfg \<noteq> cc_watermark cfg"
    and "\<forall>(env, rows) \<in> set es. sees parse cfg env rows"
    and "successively (journal_grows cfg) (journal # map snd es)"
    and "sync_runs cfg (map fst es) w = (rs, w')"
  shows "progress parse cfg (last (journal # map snd es)) (sent @ synced rs) w' \<and>
    (es \<noteq> [] \<longrightarrow> (\<forall>n. last rs = Inr (UpToDate n) \<longrightarrow>
      (\<forall>row \<in> set (snd (last es)). of_stream cfg row \<and> 0 \<le> lr_sequence row \<longrightarrow>
         lr_sequence row \<in> set (sent @ synced rs))))"
  using assms
proof (induction es arbitrary: journal sent w rs)
  case (Cons e es)
  obtain env rows where e: "e = (env, rows)" by (cases e)
  obtain r w1 rs' where step: "sync_once env cfg w = (r, w1)"
    and rest: "sync_runs cfg (map fst es) w1 = (rs', w')" and rs: "rs = r # rs'"
    using Cons.prems(5) e by (auto simp: Let_def split: prod.splits)
  have grown: "progress parse cfg rows sent w"
    using progress_grows [OF Cons.prems(1)] Cons.prems(4) e by simp
  have sees: "sees parse cfg env rows" using Cons.prems(3) e by simp
  note stepped = sync_step_progress [OF grown sees Cons.prems(2) step]
  have "successively (journal_grows cfg) (rows # map snd es)" using Cons.prems(4) e by simp
  note IH = Cons.IH [OF conjunct1 [OF stepped] Cons.prems(2) _ this rest]
  have all: "\<forall>(env, rows) \<in> set es. sees parse cfg env rows" using Cons.prems(3) by simp
  show ?case
  proof (cases es)
    case Nil
    with rest have "rs' = []" by simp
    with Nil IH [OF all] stepped rs e show ?thesis by (auto simp: synced_def)
  next
    case (Cons e' es')
    with rest have "rs' \<noteq> []" by (auto simp: Let_def split: prod.splits)
    with Cons IH [OF all] rs e show ?thesis by (auto simp: synced_def)
  qed
qed (simp add: synced_def)

text \<open>
  C6. Over any number of invocations from no watermark file, whatever fails in them and whatever the
  network answers, with a journal that grows, the records that were synchronised have strictly
  increasing sequences, so none is synchronised twice, and no record of the stream is skipped: with a
  record every earlier one has been synchronised too, and all of them when the last invocation
  reports that it is up to date.
\<close>

theorem sync_runs_skip_nothing:
  assumes "sync_runs cfg (map fst es) w = (rs, w')" and "cw_files w (cc_watermark cfg) = None"
    and "temporary cfg \<noteq> cc_watermark cfg"
    and "\<forall>(env, rows) \<in> set es. sees parse cfg env rows"
    and "successively (journal_grows cfg) (map snd es)" and "es \<noteq> []"
  shows "sorted_wrt (<) (synced rs) \<and>
    (\<forall>s \<in> set (synced rs). \<forall>row \<in> set (snd (last es)). of_stream cfg row \<and>
       0 \<le> lr_sequence row \<and> lr_sequence row \<le> s \<longrightarrow> lr_sequence row \<in> set (synced rs)) \<and>
    (\<forall>n. last rs = Inr (UpToDate n) \<longrightarrow> (\<forall>row \<in> set (snd (last es)). of_stream cfg row \<and>
       0 \<le> lr_sequence row \<longrightarrow> lr_sequence row \<in> set (synced rs)))"
proof -
  have start: "progress parse cfg [] [] w" using assms(2) by (simp add: progress_def following_def)
  have "successively (journal_grows cfg) ([] # map snd es)"
    using assms(5,6) by (cases es) (auto simp: journal_grows_def)
  from sync_runs_progress [OF start assms(3,4) this assms(1)] assms(6)
  have inv: "progress parse cfg (snd (last es)) (synced rs) w'"
    and last: "\<forall>n. last rs = Inr (UpToDate n) \<longrightarrow> (\<forall>row \<in> set (snd (last es)). of_stream cfg row \<and>
       0 \<le> lr_sequence row \<longrightarrow> lr_sequence row \<in> set (synced rs))"
    by (auto simp: last_map)
  have "lr_sequence row \<in> set (synced rs)"
    if "s \<in> set (synced rs)" "row \<in> set (snd (last es))" "of_stream cfg row" "0 \<le> lr_sequence row"
      "lr_sequence row \<le> s" for s row
    using inv that below_following [of "synced rs" s] unfolding progress_def by fastforce
  with inv last show ?thesis unfolding progress_def by blast
qed

section \<open>The client against the server\<close>

text \<open>The acknowledgement as the client decodes it, field by field.\<close>

definition wire_ack :: "string \<times> FactAckRecord \<Rightarrow> Ack" where
  "wire_ack = (\<lambda>(p, a). \<lparr> ac_protocol = p, ac_batch_id = ak_batch_id a,
     ac_request_digest = Some (ak_request_digest a), ac_home_device_id = ak_home_device_id a,
     ac_store_id = ak_store_id a, ac_stream_epoch = ak_epoch a,
     ac_accepted_head = ak_accepted_head a, ac_disposition = ak_disposition a \<rparr>)"

definition status_number :: "StatusCode \<Rightarrow> nat" where
  "status_number s = (case s of
     OK \<Rightarrow> 200 | CREATED \<Rightarrow> 201 | BAD_REQUEST \<Rightarrow> 400 | UNAUTHORIZED \<Rightarrow> 401 | FORBIDDEN \<Rightarrow> 403
   | NOT_FOUND \<Rightarrow> 404 | CONFLICT \<Rightarrow> 409 | NOT_IMPLEMENTED \<Rightarrow> 501)"

definition bearer :: "string \<Rightarrow> HeaderMap" where
  "bearer credential = Some (Some (''Bearer '' @ credential))"

text \<open>
  The client's network is the server's handler, a batch is decoded to what was encoded, and no call
  of the client's own system fails; \<open>encode\<close> is the JSON text of the server's answer.
\<close>

definition talks_to ::
    "('s, 'm, 'z) FactStore_scheme client_env \<Rightarrow> 'u server_env \<Rightarrow> ('s, 'm, 'src) memory_lib \<Rightarrow>
     ('s, 'm) fact_lib \<Rightarrow> (byte list \<Rightarrow> string + SignedFactCreateBatchV1) \<Rightarrow>
     (string + string \<times> FactAckRecord \<Rightarrow> string) \<Rightarrow> bool" where
  "talks_to env sv lib fl from_slice encode \<longleftrightarrow>
     ce_crypto env = pe_crypto (sv_pool sv) \<and> ce_runtime env = Inr () \<and> ce_fault env = (\<lambda>_ _. None) \<and>
     (\<forall>batch body. ce_to_vec env batch = Inr body \<longrightarrow> from_slice body = Inr batch) \<and>
     (\<forall>url credential body st. ce_post env url credential body st =
        (case fact_create_handler sv lib fl from_slice (bearer credential) body st of
           ((status, r), st') \<Rightarrow> (Inr (status_number status, Inr (encode r)), st')))"

text \<open>semantic-memory reports the sequence of the record that it was given; here for one sequence.\<close>

definition heads_follow :: "('s, 'm) fact_lib \<Rightarrow> i64 \<Rightarrow> bool" where
  "heads_follow fl seq \<longleftrightarrow> (\<forall>memory envelope m out m' s. fcr_sequence envelope = seq \<longrightarrow>
     fl_apply_create fl memory envelope m = (Inr out, m') \<longrightarrow>
     out = RowApplied s \<or> out = RowDuplicate s \<longrightarrow> s = seq)"

lemma run_fact_create_ack:
  fixes st :: "('s, 'm, 'z) FactStore_scheme"
  assumes "run_fact_create env batch digest envelope d st = (Inr ack, st')" and "heads_follow (fe_fact env) (fcr_sequence envelope)"
  shows "ack = \<lparr> ak_batch_id = fcb_batch_id batch, ak_request_digest = digest,
    ak_home_device_id = fcb_home_device_id batch, ak_store_id = fcb_store_id batch,
    ak_epoch = fcb_stream_epoch batch, ak_accepted_head = fcr_sequence envelope,
    ak_disposition = ''accepted'' \<rparr>"
proof -
  obtain memory and st1 st2 st3 :: "('s, 'm, 'z) FactStore_scheme" and out head where
      decided: "call_memory (fl_apply_create (fe_fact env) memory envelope) st1 = (Inr out, st2)"
    and head: "outcome_head (FactCreateRejected ''semantic conflict'') out = Inr head"
    and ack: "(let ack = \<lparr> ak_batch_id = fcb_batch_id batch, ak_request_digest = digest,
           ak_home_device_id = fcb_home_device_id batch, ak_store_id = fcb_store_id batch,
           ak_epoch = fcb_stream_epoch batch, ak_accepted_head = head,
           ak_disposition = ''accepted'' \<rparr> in
         case persist_ack (fe_pool env)
                (FactCreateRejected ''stream epoch does not fit SQLite INTEGER'') ack (fs_create_acks st3) of
           Inl e \<Rightarrow> (Inl e, st3)
         | Inr rows \<Rightarrow> (Inr ack, st3\<lparr>fs_create_acks := rows\<rparr>)) = (Inr ack, st')"
    using assms(1) unfolding run_fact_create_def by (auto simp: bindS_ok readS_eq simp del: bindS_readS)
  obtain m' where "fl_apply_create (fe_fact env) memory envelope (st_memory st1) = (Inr out, m')"
    using decided by (auto simp: call_memory_def map_err_eq_Inr split: prod.splits)
  then have "out = RowApplied s \<or> out = RowDuplicate s \<Longrightarrow> s = fcr_sequence envelope" for s
    using assms(2) unfolding heads_follow_def by blast
  with head have "head = fcr_sequence envelope"
    by (auto simp: outcome_head_def split: ReplicaApplyOutcome.splits)
  with ack show ?thesis by (simp add: Let_def split: sum.splits)
qed

lemma first_create_ack:
  assumes "apply_fact_create_request env batch digest st = (Inr ack, st')"
    and "row_by kr_batch_id (fcb_batch_id batch) (fs_create_acks st) = None"
    and "fcb_entries batch = [entry]" and "heads_follow (fe_fact env) (fce_sequence entry)"
  shows "ack = \<lparr> ak_batch_id = fcb_batch_id batch, ak_request_digest = digest,
    ak_home_device_id = fcb_home_device_id batch, ak_store_id = fcb_store_id batch,
    ak_epoch = fcb_stream_epoch batch, ak_accepted_head = fce_sequence entry,
    ak_disposition = ''accepted'' \<rparr>"
proof -
  have "bindS (readS (verify_fact_create env batch)) (\<lambda>(envelope, device_id).
      run_fact_create env batch digest envelope device_id) st = (Inr ack, st')"
    using assms(1,2) by (simp add: apply_fact_create_request_def get_ack_def bindS_def readS_def)
  then obtain envelope d where v: "verify_fact_create env batch st = Inr (envelope, d)"
      "run_fact_create env batch digest envelope d st = (Inr ack, st')"
    by (auto simp: bindS_ok readS_eq simp del: bindS_readS)
  have "fcr_sequence envelope = fce_sequence entry"
    using v(1) assms(3)
    by (auto simp: verify_fact_create_def bindR_eq_Inr map_err_eq_Inr semantic_envelopes_def
        to_semantic_envelope_def)
  with run_fact_create_ack [OF v(2)] assms(4) show ?thesis by simp
qed

lemma write_watermark_succeeds:
  assumes "ce_fault env = (\<lambda>_ _. None)" "ce_print_watermark env wm = Inr json"
  shows "write_watermark env path wm w = (Inr (), w\<lparr>cw_files := (cw_files w)(with_extension ''tmp'' path := None,
    path \<mapsto> \<lparr> fn_contents = json, fn_mode = 384 \<rparr>)\<rparr>)"
  using assms by (simp add: write_watermark_def Let_def bindW_def pureW_def describeS_def describe_def
      create_file_def write_all_def set_permissions_def rename_file_def fun_upd_def cong: if_cong)

lemma server_ack_validates:
  assumes talks: "talks_to env sv lib fl from_slice encode" and "heads_follow fl seq"
    and sent: "signed_request env cfg key (seq, entry) = Inr batch" "ce_to_vec env batch = Inr body"
    and answered: "fact_create_handler sv lib fl from_slice (bearer credential) body st =
      ((OK, Inr (p, ack)), st')"
    and "row_by kr_batch_id (ce_batch_id env) (fs_create_acks st) = None"
  shows "validate_ack (ce_crypto env) (wire_ack (p, ack)) body (ce_batch_id env) (cc_device cfg)
    (cc_store cfg) (cc_epoch cfg) seq = Inr ()"
proof -
  obtain payload d1 d2 d3 where entry: "entry = (payload, d1, d2, d3)" by (cases entry) auto
  note batch = signed_request_ok [OF sent(1) [unfolded entry]]
  obtain batch' where decoded: "from_slice body = Inr batch'"
      and applied: "apply_fact_create_request (fact_env_of sv lib fl) batch' (body_digest sv body) st =
        (Inr ack, st')" and p: "p = ''mnemes.fact-create.v1''"
    using answered unfolding fact_create_handler_ok
    by (auto simp: create_decode_json_def bindR_eq_Inr map_err_eq_Inr)
  have same: "batch' = batch" using decoded sent(2) talks by (auto simp: talks_to_def)
  have "ack = \<lparr> ak_batch_id = fcb_batch_id batch, ak_request_digest = body_digest sv body,
    ak_home_device_id = fcb_home_device_id batch, ak_store_id = fcb_store_id batch,
    ak_epoch = fcb_stream_epoch batch, ak_accepted_head = seq, ak_disposition = ''accepted'' \<rparr>"
    using first_create_ack [OF applied [unfolded same], of "\<lparr> fce_sequence = seq, fce_payload = payload,
      fce_payload_digest = d1, fce_predecessor_digest = d2, fce_journal_envelope_digest = d3 \<rparr>"]
      batch assms(2,6) by (simp add: fact_env_of_def)
  then show ?thesis
    using batch p talks
    by (simp add: validate_ack_ok wire_ack_def ACK_PROTOCOL_def body_digest_def talks_to_def)
qed

lemma server_records:
  assumes talks: "talks_to env sv lib fl from_slice encode"
    and sent: "signed_request env cfg key (seq, entry) = Inr batch" "ce_to_vec env batch = Inr body"
    and answered: "fact_create_handler sv lib fl from_slice (bearer credential) body st =
      ((OK, Inr (p, ack)), st')"
  shows "\<exists>row. row_by kr_batch_id (ce_batch_id env) (fs_create_acks st') = Some row \<and>
    kr_request_digest row = body_digest sv body"
proof -
  obtain payload d1 d2 d3 where entry: "entry = (payload, d1, d2, d3)" by (cases entry) auto
  obtain batch' where decoded: "from_slice body = Inr batch'"
      and applied: "apply_fact_create_request (fact_env_of sv lib fl) batch' (body_digest sv body) st =
        (Inr ack, st')"
    using answered unfolding fact_create_handler_ok
    by (auto simp: create_decode_json_def bindR_eq_Inr map_err_eq_Inr)
  have "batch' = batch" using decoded sent(2) talks by (auto simp: talks_to_def)
  with create_accepted_row [OF applied] signed_request_ok [OF sent(1) [unfolded entry]]
  show ?thesis by auto
qed

text \<open>The watermark after the record \<open>seq\<close>.\<close>

definition synchronised :: "'w client_env \<Rightarrow> Watermark \<Rightarrow> i64 \<Rightarrow> Watermark" where
  "synchronised env wm seq = wm\<lparr>wm_next_sequence := i64_add seq 1,
     wm_last_batch_id := Some (ce_batch_id env), wm_last_disposition := Some ''accepted'',
     wm_updated_at := ce_now_rfc3339 env\<rparr>"

lemma read_watermark_identity:
  "read_watermark env cfg w = Inr wm \<Longrightarrow> wm_home_device_id wm = cc_device cfg \<and>
     wm_store_id wm = cc_store cfg \<and> wm_stream_epoch wm = cc_epoch cfg"
  by (auto simp: read_watermark_def bindR_eq_Inr first_watermark_def split: if_splits)

lemma client_synchronises:
  assumes talks: "talks_to env sv lib fl from_slice encode" and law: "heads_follow fl seq"
    and local: "load_seed env (cc_key cfg) w = Inr key"
      "load_credential env (cc_credential_env cfg) w = Inr credential"
      "read_watermark env cfg w = Inr wm" "ce_open env (cc_db cfg) = Inr rows"
      "read_journal_entry env rows (cc_device cfg) (cc_store cfg) (cc_epoch cfg) (wm_next_sequence wm) =
         Inr (Some (seq, entry))"
    and sent: "signed_request env cfg key (seq, entry) = Inr batch" "ce_to_vec env batch = Inr body"
    and answered: "fact_create_handler sv lib fl from_slice (bearer credential) body (cw_net w) =
      ((OK, Inr (p, ack)), st')"
    and fresh: "row_by kr_batch_id (ce_batch_id env) (fs_create_acks (cw_net w)) = None"
    and decoded: "ce_parse_ack env (encode (Inr (p, ack))) = Inr (wire_ack (p, ack))"
    and codec: "ce_print_watermark env (synchronised env wm seq) = Inr json"
      "ce_parse_watermark env json = Inr (synchronised env wm seq)"
  shows "\<exists>w' row. sync_once env cfg w =
      (Inr (Synced seq seq ''accepted'' (i64_add seq 1) (cc_store cfg) (cc_epoch cfg)), w') \<and>
    cw_net w' = st' \<and>
    cw_files w' = (cw_files w)(with_extension ''tmp'' (cc_watermark cfg) := None,
      cc_watermark cfg \<mapsto> \<lparr> fn_contents = json, fn_mode = 384 \<rparr>) \<and>
    read_watermark env cfg w' = Inr (synchronised env wm seq) \<and>
    row_by kr_batch_id (ce_batch_id env) (fs_create_acks (cw_net w')) = Some row \<and>
    kr_request_digest row = body_digest sv body"
proof -
  note valid = server_ack_validates [OF talks law sent answered fresh]
  then have ack: "wire_ack (p, ack) = \<lparr> ac_protocol = ACK_PROTOCOL, ac_batch_id = ce_batch_id env,
       ac_request_digest = Some (hex_bytes (sha256 (ce_crypto env) body)), ac_home_device_id = cc_device cfg,
       ac_store_id = cc_store cfg, ac_stream_epoch = cc_epoch cfg, ac_accepted_head = seq,
       ac_disposition = ''accepted'' \<rparr>" by (simp add: validate_ack_ok)
  have faults: "ce_fault env = (\<lambda>_ _. None)" using talks by (simp add: talks_to_def)
  have exch: "exchange env (cc_url cfg) credential body w = (Inr (wire_ack (p, ack)), w\<lparr>cw_net := st'\<rparr>)"
    using talks answered decoded by (auto simp: exchange_ok talks_to_def status_number_def is_success_def)
  let ?w' = "w\<lparr>cw_net := st', cw_files := (cw_files w)(with_extension ''tmp'' (cc_watermark cfg) := None,
      cc_watermark cfg \<mapsto> \<lparr> fn_contents = json, fn_mode = 384 \<rparr>)\<rparr>"
  have next_wm: "advanced env wm (wire_ack (p, ack)) = synchronised env wm seq"
    by (simp add: advanced_def ack synchronised_def)
  have written: "write_watermark env (cc_watermark cfg) (advanced env wm (wire_ack (p, ack)))
      (w\<lparr>cw_net := st'\<rparr>) = (Inr (), ?w')"
    unfolding next_wm write_watermark_succeeds [OF faults codec(1)] by simp
  have "send_record env cfg key credential wm (seq, entry) w =
      (Inr (Synced seq seq ''accepted'' (i64_add seq 1) (cc_store cfg) (cc_epoch cfg)), ?w')"
    unfolding send_record_ok using sent exch valid written by (auto simp: advanced_def ack)
  then have "sync_once env cfg w =
      (Inr (Synced seq seq ''accepted'' (i64_add seq 1) (cc_store cfg) (cc_epoch cfg)), ?w')"
    using local by (simp add: sync_once_def bindW_def pureW_def describe_def)
  moreover have "read_watermark env cfg ?w' = Inr (synchronised env wm seq)"
    using read_watermark_identity [OF local(3)] codec(2)
    by (simp add: read_watermark_def read_to_string_def faults describe_def synchronised_def)
  moreover obtain row where "row_by kr_batch_id (ce_batch_id env) (fs_create_acks st') = Some row"
      "kr_request_digest row = body_digest sv body"
    using server_records [OF talks sent answered] by blast
  ultimately show ?thesis by (intro exI [of _ ?w'] exI [of _ row]) simp
qed

text \<open>
  C7. Whatever record the client sends, an answer 200 of this server to it is an acknowledgement
  that the client accepts: the invocation ends with the record synchronised, the server's store as
  its handler left it, with the batch recorded under the digest of the bytes that were sent, and
  exactly one file changed: the watermark, private and complete, which the next invocation reads
  as the position after the record. The batch id has to be new, and semantic-memory has to report
  the sequence of the record that it was given, be it applied now or a duplicate of an earlier,
  unanswered attempt.
\<close>

theorem served_record_is_synchronised:
  assumes "talks_to env sv lib fl from_slice encode" and "heads_follow fl seq"
    and "load_seed env (cc_key cfg) w = Inr key"
      "load_credential env (cc_credential_env cfg) w = Inr credential"
      "read_watermark env cfg w = Inr wm" "ce_open env (cc_db cfg) = Inr rows"
      "read_journal_entry env rows (cc_device cfg) (cc_store cfg) (cc_epoch cfg) (wm_next_sequence wm) =
         Inr (Some (seq, entry))"
    and "signed_request env cfg key (seq, entry) = Inr batch" "ce_to_vec env batch = Inr body"
    and "fact_create_handler sv lib fl from_slice (bearer credential) body (cw_net w) =
      ((OK, Inr (p, ack)), st')"
    and "row_by kr_batch_id (ce_batch_id env) (fs_create_acks (cw_net w)) = None"
    and "ce_parse_ack env (encode (Inr (p, ack))) = Inr (wire_ack (p, ack))"
    and "ce_print_watermark env (synchronised env wm seq) = Inr json"
      "ce_parse_watermark env json = Inr (synchronised env wm seq)"
  shows "\<exists>w' row. sync_once env cfg w =
      (Inr (Synced seq seq ''accepted'' (i64_add seq 1) (cc_store cfg) (cc_epoch cfg)), w') \<and>
    cw_net w' = st' \<and>
    cw_files w' = (cw_files w)(with_extension ''tmp'' (cc_watermark cfg) := None,
      cc_watermark cfg \<mapsto> \<lparr> fn_contents = json, fn_mode = 384 \<rparr>) \<and>
    read_watermark env cfg w' = Inr (synchronised env wm seq) \<and>
    row_by kr_batch_id (ce_batch_id env) (fs_create_acks (cw_net w')) = Some row \<and>
    kr_request_digest row = body_digest sv body"
  using assms by (rule client_synchronises)

section \<open>A client and a server\<close>

definition example_seed :: "byte list" where
  "example_seed = 7 # replicate 31 0"

definition example_config :: ClientConfig where
  "example_config = \<lparr> cc_db = ''db'', cc_device = ''device-1'', cc_store = ''store-1'', cc_epoch = 1,
     cc_key = ''key'', cc_principal = ''operator-1'', cc_key_version = 1, cc_fencing = ''fence-1'',
     cc_url = ''http://server'', cc_credential_env = ''env'', cc_watermark = ''watermark.json'',
     cc_observed_at = Some 5 \<rparr>"

definition example_local_row :: local_row where
  "example_local_row = \<lparr> lr_home_device_id = ''device-1'', lr_store_id = ''store-1'',
     lr_stream_epoch = 1, lr_sequence = 1, lr_payload = fce_payload example_entry,
     lr_payload_digest = fce_payload_digest example_entry,
     lr_predecessor_digest = fce_predecessor_digest example_entry,
     lr_envelope_digest = fce_journal_envelope_digest example_entry,
     lr_operation_kind = OP_FACT_CREATE, lr_payload_schema = SCHEMA_FACT_CREATE,
     lr_record_state = RECORD_VERIFIED \<rparr>"

definition example_advanced :: Watermark where
  "example_advanced = (first_watermark example_config)\<lparr>wm_next_sequence := 2,
     wm_last_batch_id := Some ''batch-1'', wm_last_disposition := Some ''accepted'',
     wm_updated_at := ''now''\<rparr>"

abbreviation example_acked :: "string \<times> FactAckRecord" where
  "example_acked \<equiv> (''mnemes.fact-create.v1'', example_create_ack\<lparr>ak_request_digest :=
     hex_bytes (toy_hash [1])\<rparr>)"

text \<open>The toy codecs write one text for one value, and read it back.\<close>

definition example_client_env :: "(string, unit) FactStore client_env" where
  "example_client_env =
     \<lparr> ce_crypto = toy_crypto, ce_hex_decode = (\<lambda>_. Inr example_seed), ce_hex_encode = hex_bytes,
       ce_print_watermark = (\<lambda>wm. if wm = example_advanced then Inr ''w'' else Inl []),
       ce_parse_watermark = (\<lambda>_. Inr example_advanced),
       ce_parse_ack = (\<lambda>_. Inr (wire_ack example_acked)),
       ce_to_vec = (\<lambda>b. if b = example_signed_batch then Inr [1] else Inl []),
       ce_open = (\<lambda>_. Inr [example_local_row]), ce_query = Inr (), ce_fault = (\<lambda>_ _. None),
       ce_written = 0, ce_create_mode = 420, ce_random_seed = example_seed,
       ce_batch_id = ''batch-1'', ce_now_unix = 5, ce_now_rfc3339 = ''now'', ce_home = ''home'',
       ce_runtime = Inr (),
       ce_post = (\<lambda>url credential body st.
         case fact_create_handler example_server_env (toy_memory :: (string, unit, unit) memory_lib)
                (fe_fact example_fact_env) (\<lambda>_. Inr example_signed_batch) (bearer credential) body st of
           ((status, r), st') \<Rightarrow> (Inr (status_number status, Inr []), st')),
       ce_show_status = (\<lambda>_. []) \<rparr>"

definition example_world :: "(string, unit) FactStore client_world" where
  "example_world =
     \<lparr> cw_files = [''key'' \<mapsto> \<lparr> fn_contents = ''k'', fn_mode = 384 \<rparr>,
         ''env'' \<mapsto> \<lparr> fn_contents = ''MNEME_CREDENTIAL=device-1:s1'', fn_mode = 384 \<rparr>],
       cw_net = example_fact_store \<rparr>"


lemma example_seed_hash: "toy_hash example_seed = toy_hash [7]"
  by (simp add: toy_hash_def example_seed_def)

lemma example_request:
  "signed_request example_client_env example_config example_seed
     (1, fce_payload example_entry, fce_payload_digest example_entry,
      fce_predecessor_digest example_entry, fce_journal_envelope_digest example_entry) =
     Inr example_signed_batch"
proof -
  have entry: "\<lparr> fce_sequence = 1, fce_payload = fce_payload example_entry,
      fce_payload_digest = fce_payload_digest example_entry,
      fce_predecessor_digest = fce_predecessor_digest example_entry,
      fce_journal_envelope_digest = fce_journal_envelope_digest example_entry \<rparr> = example_entry"
    by (simp add: example_entry_def)
  have "create_sign toy_crypto example_seed b = create_sign toy_crypto [7] b" for b
    by (simp add: create_sign_def toy_crypto_def toy_sign_def example_seed_hash)
  then show ?thesis
    using example_batch_new example_signed
    by (simp add: signed_request_def Let_def entry example_client_env_def example_config_def describe_def)
qed

lemma example_handled:
  "\<exists>st'. fact_create_handler example_server_env (toy_memory :: (string, unit, unit) memory_lib)
     (fe_fact example_fact_env) (\<lambda>_. Inr example_signed_batch) (bearer ''device-1:s1'') [1]
     example_fact_store = ((OK, Inr example_acked), st')"
proof -
  have env: "fact_env_of example_server_env (toy_memory :: (string, unit, unit) memory_lib)
      (fe_fact example_fact_env) = example_fact_env" "pe_crypto (sv_pool example_server_env) = toy_crypto"
    by (simp_all add: fact_env_of_def example_server_env_def example_fact_env_def example_pool_env_def)
  have decode: "create_decode_json toy_crypto (create_validator_of (fe_fact example_fact_env))
      (\<lambda>_. Inr example_signed_batch) [1] = Inr example_signed_batch"
    using example_signed_validates
    by (simp add: create_decode_json_def FACT_CREATE_TRANSPORT_MAX_WIRE_BYTES_def create_validator_of_def
        example_fact_env_def accept_all_def)
  have header: "bearer ''device-1:s1'' = example_fact_header"
    by (simp add: bearer_def example_fact_header_def)
  have digest: "body_digest example_server_env [1] = hex_bytes (toy_hash [1])"
    by (simp add: body_digest_def env(2)) (simp add: toy_crypto_def)
  have "fcb_home_device_id example_signed_batch = ''device-1''" by (simp add: example_batch_defs)
  then show ?thesis
    unfolding fact_create_handler_ok env decode header
    using example_fact_authed example_create_accepted [of "hex_bytes (toy_hash [1])"] digest by auto
qed

lemma example_talks:
  "talks_to example_client_env example_server_env (toy_memory :: (string, unit, unit) memory_lib)
     (fe_fact example_fact_env) (\<lambda>_. Inr example_signed_batch) (\<lambda>_. [])"
proof -
  have "ce_crypto example_client_env = pe_crypto (sv_pool example_server_env)"
    by (simp add: example_client_env_def example_server_env_def example_pool_env_def)
  then show ?thesis by (simp add: talks_to_def) (simp add: example_client_env_def)
qed

lemma example_heads: "heads_follow (fe_fact example_fact_env) 1"
  by (simp add: heads_follow_def example_fact_env_def)

lemma example_local:
  "load_seed example_client_env (cc_key example_config) example_world = Inr example_seed"
  "load_credential example_client_env (cc_credential_env example_config) example_world = Inr ''device-1:s1''"
  "read_watermark example_client_env example_config example_world = Inr (first_watermark example_config)"
  "ce_open example_client_env (cc_db example_config) = Inr [example_local_row]"
proof -
  have trimmed: "trim ''MNEME_CREDENTIAL=device-1:s1'' = ''MNEME_CREDENTIAL=device-1:s1''"
      "trim ''device-1:s1'' = ''device-1:s1''"
    by (rule trim_printable, simp)+
  show "load_credential example_client_env (cc_credential_env example_config) example_world = Inr ''device-1:s1''"
    by (simp add: load_credential_def describe_def read_to_string_def example_client_env_def
        example_config_def example_world_def str_lines_def line_text_def strip_prefix_def trimmed
        trim_matches_def trim_end_matches_def)
qed (simp_all add: load_seed_def describe_def read_to_string_def example_client_env_def
    example_config_def example_world_def example_seed_def read_watermark_def Let_def)

lemma example_row_found:
  "read_journal_entry example_client_env [example_local_row] (cc_device example_config)
     (cc_store example_config) (cc_epoch example_config) (wm_next_sequence (first_watermark example_config)) =
     Inr (Some (1, fce_payload example_entry, fce_payload_digest example_entry,
      fce_predecessor_digest example_entry, fce_journal_envelope_digest example_entry))"
  by (simp add: read_journal_entry_ok next_row_def in_stream_def example_local_row_def verified_row_def
      example_config_def first_watermark_def u64_as_i64_def example_entry_def)
    (simp add: example_client_env_def)

lemma example_served:
  "ce_to_vec example_client_env example_signed_batch = Inr [1]"
  "row_by kr_batch_id (ce_batch_id example_client_env) (fs_create_acks (cw_net example_world)) = None"
  "ce_parse_ack example_client_env [] = Inr (wire_ack example_acked)"
  "ce_print_watermark example_client_env
     (synchronised example_client_env (first_watermark example_config) 1) = Inr ''w''"
  "ce_parse_watermark example_client_env ''w'' =
     Inr (synchronised example_client_env (first_watermark example_config) 1)"
proof -
  have "synchronised example_client_env (first_watermark example_config) 1 = example_advanced"
    by (simp add: synchronised_def example_advanced_def example_client_env_def i64_add_small i64_max_def)
  then show "ce_print_watermark example_client_env
     (synchronised example_client_env (first_watermark example_config) 1) = Inr ''w''"
    "ce_parse_watermark example_client_env ''w'' =
     Inr (synchronised example_client_env (first_watermark example_config) 1)"
    by (simp_all add: example_client_env_def)
qed (simp_all add: example_client_env_def example_world_def example_fact_store_def)

lemma example_handled_world:
  obtains st' where "fact_create_handler example_server_env (toy_memory :: (string, unit, unit) memory_lib)
     (fe_fact example_fact_env) (\<lambda>_. Inr example_signed_batch) (bearer ''device-1:s1'') [1]
     (cw_net example_world) = ((OK, Inr example_acked), st')"
  using example_handled by (auto simp: example_world_def)

lemma example_stream: "cc_store example_config = ''store-1''" "cc_epoch example_config = 1"
  by (simp_all add: example_config_def)

lemma example_synced:
  "\<exists>w'. sync_once example_client_env example_config example_world =
     (Inr (Synced 1 1 ''accepted'' (i64_add 1 1) ''store-1'' 1), w')"
proof -
  obtain st' where handled: "fact_create_handler example_server_env (toy_memory :: (string, unit, unit) memory_lib)
     (fe_fact example_fact_env) (\<lambda>_. Inr example_signed_batch) (bearer ''device-1:s1'') [1]
     (cw_net example_world) = ((OK, Inr example_acked), st')" by (rule example_handled_world)
  from client_synchronises [OF example_talks example_heads example_local example_row_found
      example_request example_served(1) handled example_served(2-5)]
  show ?thesis unfolding example_stream by blast
qed

theorem served_record_is_synchronised_witness:
  "\<exists>st' w'. sync_once example_client_env example_config example_world =
     (Inr (Synced 1 1 ''accepted'' (i64_add 1 1) ''store-1'' 1), w') \<and> cw_net w' = st' \<and>
     cw_files w' (cc_watermark example_config) = Some \<lparr> fn_contents = ''w'', fn_mode = 384 \<rparr> \<and>
     fact_create_handler example_server_env (toy_memory :: (string, unit, unit) memory_lib)
       (fe_fact example_fact_env) (\<lambda>_. Inr example_signed_batch) (bearer ''device-1:s1'') [1]
       (cw_net example_world) = ((OK, Inr example_acked), st')"
proof -
  obtain st' where handled: "fact_create_handler example_server_env (toy_memory :: (string, unit, unit) memory_lib)
     (fe_fact example_fact_env) (\<lambda>_. Inr example_signed_batch) (bearer ''device-1:s1'') [1]
     (cw_net example_world) = ((OK, Inr example_acked), st')" by (rule example_handled_world)
  from served_record_is_synchronised [OF example_talks example_heads example_local example_row_found
      example_request example_served(1) handled example_served(2-5)] handled
  obtain w' where "sync_once example_client_env example_config example_world =
     (Inr (Synced 1 1 ''accepted'' (i64_add 1 1) ''store-1'' 1), w')" "cw_net w' = st'"
     "cw_files w' = (cw_files example_world)(temporary example_config := None,
        cc_watermark example_config \<mapsto> \<lparr> fn_contents = ''w'', fn_mode = 384 \<rparr>)"
    unfolding example_stream by blast
  with handled show ?thesis by (intro exI [of _ st'] exI [of _ w']) (simp only: fun_upd_same simp_thms)
qed

theorem watermark_moves_only_on_ack_witness:
  "\<exists>w' row. sync_once example_client_env example_config example_world =
     (Inr (Synced 1 1 ''accepted'' (i64_add 1 1) ''store-1'' 1), w') \<and> lr_sequence row = 1 \<and>
     verified_row row \<and> acknowledged example_client_env example_config row (cw_net example_world) (cw_net w')"
proof -
  obtain w' where run: "sync_once example_client_env example_config example_world =
     (Inr (Synced 1 1 ''accepted'' (i64_add 1 1) ''store-1'' 1), w')" using example_synced by blast
  from watermark_moves_only_on_ack [OF run] run show ?thesis by auto
qed

theorem sync_runs_skip_nothing_witness:
  "\<exists>rs w'. sync_runs example_config [example_client_env, example_client_env] example_world = (rs, w') \<and>
     hd rs = Inr (Synced 1 1 ''accepted'' (i64_add 1 1) ''store-1'' 1) \<and> sorted_wrt (<) (synced rs)"
proof -
  let ?es = "[(example_client_env, [example_local_row]), (example_client_env, [example_local_row])]"
  obtain rs w' where runs: "sync_runs example_config (map fst ?es) example_world = (rs, w')" by fastforce
  have "sees (\<lambda>_. Inr example_advanced) example_config example_client_env [example_local_row]"
    by (auto simp: sees_def example_client_env_def example_local_row_def i64_max_def split: if_splits)
  then have sees: "\<forall>(env, rows) \<in> set ?es. sees (\<lambda>_. Inr example_advanced) example_config env rows"
    by simp
  have "cw_files example_world (cc_watermark example_config) = None"
      "temporary example_config \<noteq> cc_watermark example_config"
    by (simp_all add: example_world_def example_config_def with_extension_def stem_rev_def Let_def)
  from sync_runs_skip_nothing [OF runs this sees] have "sorted_wrt (<) (synced rs)"
    by (simp add: journal_grows_def)
  moreover have "hd rs = Inr (Synced 1 1 ''accepted'' (i64_add 1 1) ''store-1'' 1)"
    using runs example_synced by (auto simp: Let_def split: prod.splits)
  ultimately show ?thesis using runs by auto
qed

end
