(* ===== verification/Admin_Cli.thy ===== *)
theory Admin_Cli
  imports Fact_Ledger Server_Http Command_Line
begin

text \<open>
  The operator's program (\<open>src/bin/mnemes-admin.rs\<close>), which opens the store of a data directory
  and bootstraps it or changes its fact admissions, and the configuration that the server's program
  (\<open>src/bin/mnemes-server.rs\<close>) reads.

  The store is an argument and stands for what \<open>MnemesStore::open\<close> finds in the directory; opening
  can fail. Leaving the program with status 1 is an error value, and what it prints a success.
\<close>

section \<open>Arguments\<close>

datatype admin_error = UsageExit | FailExit string

datatype admin_output =
    Bootstrapped string string string string
  | Admitted string string string string u64 u64 u64 u64 string
  | Revoked string string string string u64

record 'u admin_env =
  ae_pool :: pool_env
  ae_uuid :: "'u uuid_lib"
  ae_hex_decode :: "string \<Rightarrow> string + byte list"
  ae_open :: "string \<Rightarrow> MnemesError + unit"
  ae_display :: "MemoryError \<Rightarrow> string"
  ae_device_id :: DeviceId
  ae_actor_id :: ActorId
  ae_secret :: string

definition admin_u64 :: "string \<Rightarrow> string \<Rightarrow> admin_error + u64" where
  "admin_u64 raw name =
     bindR (ok_or (FailExit (''invalid '' @ name)) (parse_u64 raw)) (\<lambda>v.
     bindR (fail_if (uint v > i64_max) (FailExit (name @ '' out of range''))) (\<lambda>_. Inr v))"

definition nonzero_u64 :: "string \<Rightarrow> string \<Rightarrow> admin_error + u64" where
  "nonzero_u64 raw name =
     bindR (admin_u64 raw name) (\<lambda>v.
     bindR (fail_if (v = 0) (FailExit (name @ '' must be nonzero''))) (\<lambda>_. Inr v))"

definition require_nonempty :: "(string \<times> string) \<Rightarrow> admin_error + unit" where
  "require_nonempty = (\<lambda>(v, name). fail_if (v = []) (FailExit (''empty '' @ name)))"

definition admin_device :: "'u admin_env \<Rightarrow> string \<Rightarrow> admin_error + DeviceId" where
  "admin_device env raw = map_err (\<lambda>_. FailExit ''invalid device_id'') (device_id_parse (ae_uuid env) raw)"

text \<open>\<open>.unwrap_or_else(|error| fail(format!("what\n{error}")))\<close>.\<close>

definition or_fail :: "'u admin_env \<Rightarrow> string \<Rightarrow> MnemesError + 'a \<Rightarrow> admin_error + 'a" where
  "or_fail env what =
     map_err (\<lambda>e. FailExit (what @ [CHR 0x0A] @ display_mnemes_error (ae_display env) e))"

section \<open>The commands\<close>

definition admin_actor_kind :: "string list \<Rightarrow> admin_error + ActorKind" where
  "admin_actor_kind args =
     (if 5 < length args
      then (case actor_kind_parse (args ! 5) of
              Unknown _ \<Rightarrow> Inl (FailExit (''invalid actor kind: '' @ args ! 5))
            | known \<Rightarrow> Inr known)
      else Inr Human)"

definition admin_bootstrap ::
    "'u admin_env \<Rightarrow> string list \<Rightarrow> ('s, 'm, 'z) FactStore_scheme \<Rightarrow>
     (admin_error + admin_output) \<times> ('s, 'm, 'z) FactStore_scheme" where
  "admin_bootstrap env args st =
     (case
        bindR (fail_if (length args < 5 \<or> 6 < length args) UsageExit) (\<lambda>_.
        bindR (admin_actor_kind args) (\<lambda>actor_kind.
        bindR (or_fail env ''failed to open store'' (ae_open env (args ! 1))) (\<lambda>_.
        or_fail env ''bootstrap failed''
          (bootstrap (ae_pool env) (ae_actor_id env) (ae_secret env)
             (device_new (ae_device_id env) (args ! 2) (args ! 3) (args ! 4)) actor_kind (st_pool st)))))
      of
        Inl e \<Rightarrow> (Inl e, st)
      | Inr ((device_id, actor_id, credential, created_at), db) \<Rightarrow>
          (Inr (Bootstrapped (device_id_str device_id) (actor_id_str actor_id) credential created_at),
           st\<lparr>st_pool := db\<rparr>))"

text \<open>The three texts that name an admission besides the device and the key version.\<close>

definition admission_scope :: "string list \<Rightarrow> string \<Rightarrow> (string \<times> string) list" where
  "admission_scope args namespace =
     [(args ! 3, ''store_id''), (args ! 4, namespace), (args ! 5, ''principal_id'')]"

definition revoke_args :: "'u admin_env \<Rightarrow> string \<Rightarrow> string list \<Rightarrow> admin_error + DeviceId \<times> u64" where
  "revoke_args env namespace args =
     bindR (fail_if (length args \<noteq> 7) UsageExit) (\<lambda>_.
     bindR (admin_device env (args ! 2)) (\<lambda>device_id.
     bindR (check_all require_nonempty (admission_scope args namespace)) (\<lambda>_.
     bindR (nonzero_u64 (args ! 6) ''key_version'') (\<lambda>key_version.
     bindR (or_fail env ''failed to open store'' (ae_open env (args ! 1))) (\<lambda>_.
     Inr (device_id, key_version))))))"

definition fact_create_revoke ::
    "'u admin_env \<Rightarrow> string list \<Rightarrow> ('s, 'm, 'z) FactStore_scheme \<Rightarrow>
     (admin_error + admin_output) \<times> ('s, 'm, 'z) FactStore_scheme" where
  "fact_create_revoke env args st =
     (case revoke_args env ''namespace'' args of
        Inl e \<Rightarrow> (Inl e, st)
      | Inr (device_id, key_version) \<Rightarrow>
          (Inr (Revoked (args ! 2) (args ! 3) (args ! 4) (args ! 5) key_version),
           revoke_fact_create_key device_id (args ! 3) (args ! 4) (args ! 5) key_version st))"

definition fact_supersede_revoke ::
    "'u admin_env \<Rightarrow> string list \<Rightarrow> ('s, 'm, 'z) FactStore_scheme \<Rightarrow>
     (admin_error + admin_output) \<times> ('s, 'm, 'z) FactStore_scheme" where
  "fact_supersede_revoke env args st =
     (case revoke_args env ''replacement_namespace'' args of
        Inl e \<Rightarrow> (Inl e, st)
      | Inr (device_id, key_version) \<Rightarrow>
          (Inr (Revoked (args ! 2) (args ! 3) (args ! 4) (args ! 5) key_version),
           revoke_fact_supersede_key device_id (args ! 3) (args ! 4) (args ! 5) key_version st))"

definition admin_public_key :: "'u admin_env \<Rightarrow> string \<Rightarrow> admin_error + byte list" where
  "admin_public_key env raw =
     bindR (map_err (\<lambda>_. FailExit ''invalid public key hex'') (ae_hex_decode env raw)) (\<lambda>v.
     bindR (fail_if (length v \<noteq> 32) (FailExit ''public key must be exactly 32 bytes'')) (\<lambda>_. Inr v))"

definition admit_args :: "'u admin_env \<Rightarrow> string list \<Rightarrow> admin_error + FactCreateAdmission" where
  "admit_args env args =
     bindR (fail_if (length args \<noteq> 12) UsageExit) (\<lambda>_.
     bindR (admin_device env (args ! 2)) (\<lambda>device_id.
     bindR (check_all require_nonempty
       (admission_scope args ''namespace'' @ [(args ! 11, ''fencing_token'')])) (\<lambda>_.
     bindR (nonzero_u64 (args ! 6) ''key_version'') (\<lambda>key_version.
     bindR (admin_public_key env (args ! 7)) (\<lambda>public_key.
     bindR (admin_u64 (args ! 8) ''activated_at'') (\<lambda>activated_at.
     bindR (admin_u64 (args ! 9) ''cutoff_at'') (\<lambda>cutoff_at.
     bindR (fail_if (activated_at > cutoff_at) (FailExit ''invalid duration window'')) (\<lambda>_.
     bindR (nonzero_u64 (args ! 10) ''stream_epoch'') (\<lambda>stream_epoch.
     bindR (or_fail env ''failed to open store'' (ae_open env (args ! 1))) (\<lambda>_.
     Inr \<lparr> fca_device_id = device_id, fca_store_id = args ! 3, fca_namespace = args ! 4,
           fca_principal_id = args ! 5, fca_key_version = key_version, fca_public_key = public_key,
           fca_activated_at = activated_at, fca_cutoff_at = cutoff_at,
           fca_stream_epoch = stream_epoch, fca_fencing_token = args ! 11 \<rparr>))))))))))"

definition fact_create_admit ::
    "'u admin_env \<Rightarrow> string list \<Rightarrow> ('s, 'm, 'z) FactStore_scheme \<Rightarrow>
     (admin_error + admin_output) \<times> ('s, 'm, 'z) FactStore_scheme" where
  "fact_create_admit env args st =
     (case admit_args env args of
        Inl e \<Rightarrow> (Inl e, st)
      | Inr a \<Rightarrow>
          (case admit_fact_create_key (ae_pool env) a st of
             (r, st) \<Rightarrow> (bindR (or_fail env ''fact-create admission failed'' r) (\<lambda>_.
               Inr (Admitted (args ! 2) (args ! 3) (args ! 4) (args ! 5) (fca_key_version a)
                 (fca_activated_at a) (fca_cutoff_at a) (fca_stream_epoch a) (args ! 11))), st)))"

definition admin_main ::
    "'u admin_env \<Rightarrow> string list \<Rightarrow> ('s, 'm, 'z) FactStore_scheme \<Rightarrow>
     (admin_error + admin_output) \<times> ('s, 'm, 'z) FactStore_scheme" where
  "admin_main env args =
     (if args = [] then (\<lambda>st. (Inl UsageExit, st))
      else if hd args = ''bootstrap'' then admin_bootstrap env args
      else if hd args = ''fact-create-admit'' then fact_create_admit env args
      else if hd args = ''fact-create-revoke'' then fact_create_revoke env args
      else if hd args = ''fact-supersede-revoke'' then fact_supersede_revoke env args
      else (\<lambda>st. (Inl UsageExit, st)))"

section \<open>The configuration of the server\<close>

definition configured_run_pack_attestation_key ::
    "(string \<Rightarrow> string + byte list) \<Rightarrow> env_var \<Rightarrow> string + byte list option" where
  "configured_run_pack_attestation_key hex_decode var =
     (case var of
        VarNotUnicode \<Rightarrow>
          Inl ''MNEMES_RUN_PACK_ATTESTATION_KEY_HEX must be valid UTF-8 hexadecimal''
      | VarNotPresent \<Rightarrow> Inr None
      | VarPresent v \<Rightarrow>
          if v = [] then Inr None
          else bindR (map_err (\<lambda>_. ''MNEMES_RUN_PACK_ATTESTATION_KEY_HEX must be hexadecimal'')
                 (hex_decode v)) (\<lambda>key.
               if length key < 32
               then Inl ''MNEMES_RUN_PACK_ATTESTATION_KEY_HEX must decode to at least 32 bytes''
               else Inr (Some key)))"

definition server_port :: "string list \<Rightarrow> u16" where
  "server_port args =
     (case args of
        [] \<Rightarrow> 3000
      | v # _ \<Rightarrow> (case parse_u64 v of
            Some n \<Rightarrow> if unat n < 65536 then ucast n else 3000
          | None \<Rightarrow> 3000))"

definition server_base_dir :: "string list \<Rightarrow> env_var \<Rightarrow> string" where
  "server_base_dir args data_dir =
     (let cli = (if 1 < length args then args ! 1 else []);
          configured = (case data_dir of VarPresent v \<Rightarrow> v | _ \<Rightarrow> [])
      in if configured \<noteq> [] then configured else if cli \<noteq> [] then cli else ''./data/mnemes'')"

section \<open>An admission in force\<close>

lemma admin_u64_ok: "admin_u64 raw name = Inr v \<longleftrightarrow> parse_u64 raw = Some v \<and> uint v \<le> i64_max"
  by (auto simp: admin_u64_def bindR_eq_Inr ok_or_eq fail_if_eq not_less)

lemma nonzero_u64_ok:
  "nonzero_u64 raw name = Inr v \<longleftrightarrow> parse_u64 raw = Some v \<and> uint v \<le> i64_max \<and> v \<noteq> 0"
  by (auto simp: nonzero_u64_def admin_u64_ok bindR_eq_Inr fail_if_eq)

lemma as_i64_small: "uint (v :: u64) \<le> i64_max \<Longrightarrow> u64_as_i64 v = uint v"
  using u64_try_as_i64 [of v "uint v"] by (simp add: i64_try_from_u64_def)

lemma same_epoch: "uint (e :: u64) \<le> i64_max \<Longrightarrow> uint e = u64_as_i64 e' \<longleftrightarrow> e' = e"
  using as_i64_small [of e] u64_as_i64_inj [of e e'] by auto

lemma row_by_replaced:
  "k \<in> key ` set rows \<Longrightarrow> key row = k \<Longrightarrow>
     row_by key k (map (\<lambda>r. if key r = k then row else r) rows) = Some row"
  by (induction rows) (auto simp: row_by_def)

lemma upsert_row_by:
  assumes "sql_upsert message violations key row rows = Inr rows'"
  shows "row_by key (key row) rows' = Some row"
proof (cases "key row \<in> key ` set rows")
  case True
  with assms show ?thesis
    by (auto simp: sql_upsert_def bindR_eq_Inr sql_update_def row_by_replaced has_key_iff)
next
  case False
  then have "row_by key (key row) rows = None" by (simp add: row_by_None)
  with assms False show ?thesis
    by (auto simp: sql_upsert_def bindR_eq_Inr has_key_iff row_by_append row_by_single)
qed

lemma admit_args_ok:
  "admit_args env args = Inr a \<longleftrightarrow> length args = 12 \<and>
     (\<exists>device_id key_version public_key activated_at cutoff_at stream_epoch.
        device_id_parse (ae_uuid env) (args ! 2) = Inr device_id \<and>
        args ! 3 \<noteq> [] \<and> args ! 4 \<noteq> [] \<and> args ! 5 \<noteq> [] \<and> args ! 11 \<noteq> [] \<and>
        nonzero_u64 (args ! 6) ''key_version'' = Inr key_version \<and>
        ae_hex_decode env (args ! 7) = Inr public_key \<and> length public_key = 32 \<and>
        admin_u64 (args ! 8) ''activated_at'' = Inr activated_at \<and>
        admin_u64 (args ! 9) ''cutoff_at'' = Inr cutoff_at \<and> activated_at \<le> cutoff_at \<and>
        nonzero_u64 (args ! 10) ''stream_epoch'' = Inr stream_epoch \<and> ae_open env (args ! 1) = Inr () \<and>
        a = \<lparr> fca_device_id = device_id, fca_store_id = args ! 3, fca_namespace = args ! 4,
           fca_principal_id = args ! 5, fca_key_version = key_version, fca_public_key = public_key,
           fca_activated_at = activated_at, fca_cutoff_at = cutoff_at,
           fca_stream_epoch = stream_epoch, fca_fencing_token = args ! 11 \<rparr>)"
  unfolding admit_args_def
  by (simp add: bindR_eq_Inr fail_if_eq admin_device_def map_err_eq_Inr check_all_ok admission_scope_def
      require_nonempty_def admin_public_key_def or_fail_def not_less) blast

lemma admitted_row:
  assumes "admit_fact_create_key env a st = (Inr (), st')"
  shows "\<exists>row. create_admission_row a = Inr row \<and>
    row_by admission_key (admission_key row) (fs_create_admissions st') = Some row"
  using assms by (auto simp: admit_fact_create_key_def bindR_eq_Inr dest: upsert_row_by split: sum.splits)

lemma admission_decides:
  assumes "create_admission_row a = Inr row"
    and "row_by admission_key (admission_key row) (fs_create_admissions st) = Some row"
    and "device_id_parse u (fcb_home_device_id batch) = Inr (fca_device_id a)"
    and "fcb_store_id batch = fca_store_id a" "fcb_signer_principal_id batch = fca_principal_id a"
      "fcb_signer_key_version batch = fca_key_version a"
  shows "check_fact_create_admission u batch (fca_namespace a) st = Inr () \<longleftrightarrow>
    fcb_signer_public_key batch = fca_public_key a \<and> fca_activated_at a \<le> fcb_observed_at batch \<and>
    fcb_observed_at batch \<le> fca_cutoff_at a \<and> fcb_fencing_token batch = fca_fencing_token a \<and>
    fcb_stream_epoch batch = fca_stream_epoch a"
proof -
  obtain v act cut ep where fits: "i64_try_from_u64 (fca_key_version a) = Some v"
      "i64_try_from_u64 (fca_activated_at a) = Some act" "i64_try_from_u64 (fca_cutoff_at a) = Some cut"
      "i64_try_from_u64 (fca_stream_epoch a) = Some ep"
    and window: "fca_activated_at a \<le> fca_cutoff_at a"
    and row: "row = \<lparr> ad_device_id = fca_device_id a, ad_store_id = fca_store_id a,
          ad_namespace = fca_namespace a, ad_principal_id = fca_principal_id a,
          ad_key_version = v, ad_public_key = fca_public_key a,
          ad_activated_at = act, ad_cutoff_at = cut, ad_revoked = False,
          ad_epoch = ep, ad_writer_epoch = None, ad_fencing_token = fca_fencing_token a \<rparr>"
    using assms(1) by (auto simp: create_admission_row_def bindR_eq_Inr fail_if_eq fits_integer_def ok_or_eq not_less)
  have ints: "v = uint (fca_key_version a)" "act = uint (fca_activated_at a)" "0 \<le> act"
      "cut = uint (fca_cutoff_at a)" "ep = uint (fca_stream_epoch a)"
      "uint (fca_key_version a) \<le> i64_max" "uint (fca_stream_epoch a) \<le> i64_max"
    using fits [THEN i64_try_from_u64_SomeD] by auto
  have "(device, fcb_store_id batch, fca_namespace a, fcb_signer_principal_id batch,
      u64_as_i64 (fcb_signer_key_version batch)) = admission_key row" if "device = fca_device_id a" for device
    using that assms(4-6) as_i64_small [OF ints(6)] by (simp add: row admission_key_def ints(1))
  with assms(2,3) have "check_fact_create_admission u batch (fca_namespace a) st = Inr () \<longleftrightarrow>
      admission_admits row (fcb_signer_public_key batch) (fcb_observed_at batch) (fcb_fencing_token batch) \<and>
      ad_epoch row = u64_as_i64 (fcb_stream_epoch batch)"
    by (simp add: check_fact_create_admission_def)
  moreover have "act \<le> cut" using window ints(2,4) by (simp add: word_le_def)
  ultimately show ?thesis
    using ints(3) same_epoch [OF ints(7)]
    by (auto simp: admission_admits_def row ints(2,4,5) i64_as_u64_def)
qed

lemma admin_admitted:
  assumes "admin_main env args st = (Inr (Admitted device store namespace signer key_version activated_at
      cutoff_at epoch fence), st')"
  obtains a where "admit_args env args = Inr a" "admit_fact_create_key (ae_pool env) a st = (Inr (), st')"
    "device = args ! 2" "store = args ! 3" "namespace = args ! 4" "signer = args ! 5"
    "key_version = fca_key_version a" "activated_at = fca_activated_at a" "cutoff_at = fca_cutoff_at a"
    "epoch = fca_stream_epoch a" "fence = args ! 11"
proof -
  have other: "fst (admin_bootstrap env args st) \<noteq> Inr (Admitted x1 x2 x3 x4 x5 x6 x7 x8 x9)"
      "fst (fact_create_revoke env args st) \<noteq> Inr (Admitted x1 x2 x3 x4 x5 x6 x7 x8 x9)"
      "fst (fact_supersede_revoke env args st) \<noteq> Inr (Admitted x1 x2 x3 x4 x5 x6 x7 x8 x9)"
    for x1 x2 x3 x4 x5 x6 x7 x8 x9
    by (simp_all add: admin_bootstrap_def fact_create_revoke_def fact_supersede_revoke_def
        split: sum.splits prod.splits)
  have "fact_create_admit env args st = (Inr (Admitted device store namespace signer key_version activated_at
      cutoff_at epoch fence), st')"
    using assms other by (auto simp: admin_main_def split: if_splits) (metis fst_conv)+
  then show ?thesis
    using that by (auto simp: fact_create_admit_def bindR_eq_Inr or_fail_def map_err_eq_Inr
        split: sum.splits prod.splits)
qed

lemma revoke_args_ok:
  "revoke_args env what [command, dir, device, store, namespace, signer, version] = Inr (d, v) \<longleftrightarrow>
     device_id_parse (ae_uuid env) device = Inr d \<and> store \<noteq> [] \<and> namespace \<noteq> [] \<and> signer \<noteq> [] \<and>
     nonzero_u64 version ''key_version'' = Inr v \<and> ae_open env dir = Inr ()"
  by (auto simp: revoke_args_def bindR_eq_Inr fail_if_eq admin_device_def map_err_eq_Inr check_all_ok
      admission_scope_def require_nonempty_def or_fail_def)

lemma revoked_refuses:
  assumes "row_by admission_key (d, store, namespace, signer, v) (fs_create_admissions st) = Some row"
    and "device_id_parse u (fcb_home_device_id batch) = Inr d" "fcb_store_id batch = store"
      "fcb_signer_principal_id batch = signer" "u64_as_i64 (fcb_signer_key_version batch) = v"
  shows "check_fact_create_admission u batch namespace
    (revoke_fact_create_key d store namespace signer (fcb_signer_key_version batch) st) \<noteq> Inr ()"
proof -
  let ?rows = "revoke_rows d store namespace signer (fcb_signer_key_version batch) (fs_create_admissions st)"
  have "admission_key (a\<lparr>ad_revoked := True\<rparr>) = admission_key a" for a by (simp add: admission_key_def)
  then have "row_by admission_key (d, store, namespace, signer, v) ?rows =
      map_option (\<lambda>a. if admission_key a = (d, store, namespace, signer, v) then a\<lparr>ad_revoked := True\<rparr> else a)
        (row_by admission_key (d, store, namespace, signer, v) (fs_create_admissions st))"
    unfolding revoke_rows_def assms(5) by (rule row_by_update)
  with assms row_by_SomeD [OF assms(1)] show ?thesis
    by (simp add: check_fact_create_admission_def revoke_fact_create_key_def admission_admits_def)
qed

text \<open>
  C30. After the operator has admitted a key, a batch of its device, store, principal and key
  version in that namespace is admitted exactly when it carries this public key, was observed in
  the window, and has the epoch and the fencing token, all as they were printed. The revocation of
  the same arguments succeeds, and then no such batch is admitted.
\<close>

theorem admin_admission_decides:
  assumes "admin_main env args st =
      (Inr (Admitted device store namespace signer key_version activated_at cutoff_at epoch fence), st')"
    and "device_id_parse (ae_uuid env) (fcb_home_device_id batch) = device_id_parse (ae_uuid env) device"
    and "fcb_store_id batch = store" "fcb_signer_principal_id batch = signer"
      "fcb_signer_key_version batch = key_version"
    and "admin_main env [''fact-create-revoke'', args ! 1, device, store, namespace, signer,
      dec_u64 key_version] st' = (r, st'')"
  shows "(check_fact_create_admission (ae_uuid env) batch namespace st' = Inr () \<longleftrightarrow>
      ae_hex_decode env (args ! 7) = Inr (fcb_signer_public_key batch) \<and>
      activated_at \<le> fcb_observed_at batch \<and> fcb_observed_at batch \<le> cutoff_at \<and>
      fcb_fencing_token batch = fence \<and> fcb_stream_epoch batch = epoch) \<and>
    r = Inr (Revoked device store namespace signer key_version) \<and>
    check_fact_create_admission (ae_uuid env) batch namespace st'' \<noteq> Inr ()"
proof -
  obtain a where a: "admit_args env args = Inr a" "admit_fact_create_key (ae_pool env) a st = (Inr (), st')"
    and named: "device = args ! 2" "store = args ! 3" "namespace = args ! 4" "signer = args ! 5"
      "key_version = fca_key_version a" "activated_at = fca_activated_at a" "cutoff_at = fca_cutoff_at a"
      "epoch = fca_stream_epoch a" "fence = args ! 11"
    using assms(1) by (rule admin_admitted)
  note ok = a(1) [unfolded admit_args_ok]
  obtain row where row: "create_admission_row a = Inr row"
      "row_by admission_key (admission_key row) (fs_create_admissions st') = Some row"
    using admitted_row [OF a(2)] by blast
  have key: "ae_hex_decode env (args ! 7) = Inr (fca_public_key a)"
    and device: "device_id_parse (ae_uuid env) device = Inr (fca_device_id a)"
    and scope: "fca_store_id a = store" "fca_namespace a = namespace" "fca_principal_id a = signer"
      "fca_fencing_token a = fence"
    and given: "store \<noteq> []" "namespace \<noteq> []" "signer \<noteq> []" "uint key_version \<le> i64_max" "key_version \<noteq> 0"
      "ae_open env (args ! 1) = Inr ()"
    using ok named by (auto simp: nonzero_u64_ok)
  note decides = admission_decides [OF row assms(2) [unfolded device], unfolded scope]
  have "revoke_args env ''namespace'' [''fact-create-revoke'', args ! 1, device, store, namespace, signer,
      dec_u64 key_version] = Inr (fca_device_id a, key_version)"
    using device given by (simp add: revoke_args_ok nonzero_u64_ok)
  with assms(6) have revoked: "r = Inr (Revoked device store namespace signer key_version)"
      "st'' = revoke_fact_create_key (fca_device_id a) store namespace signer key_version st'"
    by (simp_all add: admin_main_def fact_create_revoke_def)
  have "admission_key row = (fca_device_id a, store, namespace, signer, u64_as_i64 key_version)"
    using row(1) as_i64_small [OF given(4)]
    by (auto simp: create_admission_row_def bindR_eq_Inr fits_integer_def ok_or_eq admission_key_def scope
        named(5) dest!: i64_try_from_u64_SomeD)
  from revoked_refuses [OF row(2) [unfolded this] assms(2) [unfolded device]] assms(3-5)
  have "check_fact_create_admission (ae_uuid env) batch namespace st'' \<noteq> Inr ()"
    unfolding revoked(2) by simp
  then show ?thesis using decides key assms(3-5) named revoked(1) by auto
qed

definition example_admin :: "string admin_env" where
  "example_admin = \<lparr> ae_pool = example_pool_env, ae_uuid = toy_uuid,
     ae_hex_decode = (\<lambda>_. Inr (ed_public toy_crypto [7])), ae_open = (\<lambda>_. Inr ()), ae_display = (\<lambda>_. []),
     ae_device_id = DeviceId ''d2'', ae_actor_id = ActorId ''a2'', ae_secret = ''s2'' \<rparr>"

definition example_admit_args :: "string list" where
  "example_admit_args = [''fact-create-admit'', ''data'', ''device-1'', ''store-1'', ''ns'', ''operator-1'',
     dec_u64 1, ''00'', dec_u64 1, dec_u64 9, dec_u64 1, ''fence-1'']"

lemma example_admits:
  "\<exists>st'. admin_main example_admin example_admit_args example_fact_store =
     (Inr (Admitted ''device-1'' ''store-1'' ''ns'' ''operator-1'' 1 1 9 1 ''fence-1''), st')"
proof -
  have "admit_args example_admin example_admit_args =
      Inr \<lparr> fca_device_id = DeviceId ''device-1'', fca_store_id = ''store-1'', fca_namespace = ''ns'',
        fca_principal_id = ''operator-1'', fca_key_version = 1, fca_public_key = ed_public toy_crypto [7],
        fca_activated_at = 1, fca_cutoff_at = 9, fca_stream_epoch = 1, fca_fencing_token = ''fence-1'' \<rparr>"
    unfolding admit_args_ok
    by (simp add: example_admit_args_def nonzero_u64_ok admin_u64_ok example_admin_def toy_device_id_parse
        i64_max_def) (simp add: toy_crypto_def)
  then show ?thesis
    by (simp add: admin_main_def fact_create_admit_def admit_fact_create_key_def create_admission_row_def
        fits_integer_def i64_try_from_u64_def i64_max_def sql_upsert_def admission_checks_def
        example_fact_store_def has_key_def or_fail_def example_admit_args_def)
      (simp add: toy_crypto_def device_new_def)
qed

theorem admin_admission_decides_witness:
  "\<exists>st' r st''. admin_main example_admin example_admit_args example_fact_store =
     (Inr (Admitted ''device-1'' ''store-1'' ''ns'' ''operator-1'' 1 1 9 1 ''fence-1''), st') \<and>
   admin_main example_admin [''fact-create-revoke'', example_admit_args ! 1, ''device-1'', ''store-1'',
     ''ns'', ''operator-1'', dec_u64 1] st' = (r, st'') \<and>
   check_fact_create_admission toy_uuid example_signed_batch ''ns'' st' = Inr () \<and>
   check_fact_create_admission toy_uuid example_signed_batch ''ns'' st'' \<noteq> Inr ()"
proof -
  obtain st' where admitted: "admin_main example_admin example_admit_args example_fact_store =
     (Inr (Admitted ''device-1'' ''store-1'' ''ns'' ''operator-1'' 1 1 9 1 ''fence-1''), st')"
    using example_admits by blast
  obtain r st'' where revoked: "admin_main example_admin [''fact-create-revoke'', example_admit_args ! 1,
      ''device-1'', ''store-1'', ''ns'', ''operator-1'', dec_u64 1] st' = (r, st'')" by fastforce
  have uuid: "ae_uuid example_admin = toy_uuid" by (simp add: example_admin_def)
  have batch: "fcb_home_device_id example_signed_batch = ''device-1''"
      "fcb_store_id example_signed_batch = ''store-1''"
      "fcb_signer_principal_id example_signed_batch = ''operator-1''"
      "fcb_signer_key_version example_signed_batch = 1" "fcb_observed_at example_signed_batch = 5"
      "fcb_fencing_token example_signed_batch = ''fence-1''" "fcb_stream_epoch example_signed_batch = 1"
      "ae_hex_decode example_admin x = Inr (fcb_signer_public_key example_signed_batch)" for x
    by (simp_all add: example_batch_defs example_admin_def)
  note decides = admin_admission_decides [OF admitted _ batch(2-4) revoked, unfolded uuid batch(1)]
  show ?thesis using admitted revoked decides [OF refl] batch(5-8) by auto
qed

end
