(* ===== verification/Store_Open.thy ===== *)
theory Store_Open
  imports Pool_Invariant Shard_Service
begin

text \<open>
  Opening a store (\<open>MnemesStore::open\<close> of \<open>src/store.rs\<close>): the choice of an embedder, the key file of the
  routing receipts, the schema with its checks and migrations, and the directories of the shards.

  What is on disk is a \<open>store_dir\<close>: the tables (a store whose cache and key do not count), the version
  table and the columns of \<open>pooled.db\<close>, and the files of the directory that hold the key. The calls
  of the file system and of SQLite can fail; other processes may work in the directory.
\<close>

unbundle bit_operations_syntax

section \<open>The embedder\<close>

definition configured_provider_name :: "string option \<Rightarrow> string" where
  "configured_provider_name v =
     to_ascii_lowercase (trim (case v of Some s \<Rightarrow> s | None \<Rightarrow> ''candle''))"

text \<open>The three embedders of semantic-memory; \<open>None\<close> is a build without the feature.\<close>

record 'e embedders =
  em_candle :: "(MemoryError + 'e) option"
  em_ollama :: "MemoryError + 'e"
  em_mock :: 'e

definition configured_embedder :: "'e embedders \<Rightarrow> string option \<Rightarrow> MnemesError + 'e" where
  "configured_embedder em configured =
     (let provider = configured_provider_name configured in
      if provider = ''candle'' \<or> provider = ''local'' then
        (case em_candle em of
           Some made \<Rightarrow> map_err Memory made
         | None \<Rightarrow> Inl (InvalidShardCatalog ''MNEMES_EMBEDDER=candle requires the candle-local feature''))
      else if provider = ''ollama'' \<or> provider = ''http'' then map_err Memory (em_ollama em)
      else if provider = ''mock'' then Inr (em_mock em)
      else Inl (InvalidShardCatalog (''unsupported MNEMES_EMBEDDER provider `'' @ provider @
             ''`; use candle, ollama, mock, or open_with_embedder'')))"

section \<open>The key of the receipts\<close>

text \<open>A symbolic link knows whether its target exists; a mode is the lower bits of \<open>st_mode\<close>.\<close>

datatype dir_entry =
    RegularFile "byte list" u32
  | SymbolicLink bool
  | OtherEntry

type_synonym key_files = "string \<Rightarrow> dir_entry option"

datatype key_call =
    StatKey | OpenKey | OpenTemporary | WriteKey | SyncKey | LinkKey | RemoveTemporary | SyncDirectory

text \<open>\<open>kx_other\<close> is what other processes do in the directory before the link is made.\<close>

record key_env =
  kx_base :: string
  kx_uuid :: string
  kx_random :: "byte list"
  kx_umask :: u32
  kx_fault :: "key_call \<Rightarrow> string option"
  kx_written :: nat
  kx_other :: "key_files \<Rightarrow> key_files"

definition RECEIPT_AUTH_KEY_FILE :: string where
  "RECEIPT_AUTH_KEY_FILE = ''.routing-receipt-hmac.key''"

definition key_path :: "key_env \<Rightarrow> string" where
  "key_path env = kx_base env @ ''/'' @ RECEIPT_AUTH_KEY_FILE"

definition key_call_ok :: "key_env \<Rightarrow> key_call \<Rightarrow> MnemesError + unit" where
  "key_call_ok env c = (case kx_fault env c of Some e \<Rightarrow> Inl (Io e) | None \<Rightarrow> Inr ())"

definition read_receipt_auth_key :: "key_env \<Rightarrow> key_files \<Rightarrow> MnemesError + byte list" where
  "read_receipt_auth_key env files =
     bindR (key_call_ok env StatKey) (\<lambda>_.
     case files RECEIPT_AUTH_KEY_FILE of
       None \<Rightarrow> Inl (Io ''No such file or directory (os error 2)'')
     | Some (RegularFile key mode) \<Rightarrow>
         if mode AND 63 \<noteq> 0
         then Inl (InvalidShardCatalog (''routing receipt authentication key permissions are too broad: '' @
                key_path env))
         else bindR (key_call_ok env OpenKey) (\<lambda>_.
              if length key < 32 then Inl (Io ''failed to fill whole buffer'')
              else if 32 < length key
              then Inl (InvalidShardCatalog (''routing receipt authentication key has invalid length: '' @
                     key_path env))
              else Inr key)
     | Some _ \<Rightarrow>
         Inl (InvalidShardCatalog (''routing receipt authentication key is not a regular file: '' @
           key_path env)))"

definition key_exists :: "key_files \<Rightarrow> bool" where
  "key_exists files =
     (case files RECEIPT_AUTH_KEY_FILE of
        None \<Rightarrow> False | Some (SymbolicLink target) \<Rightarrow> target | Some _ \<Rightarrow> True)"

definition temporary_key :: "key_env \<Rightarrow> string" where
  "temporary_key env = RECEIPT_AUTH_KEY_FILE @ ''.tmp-'' @ kx_uuid env"

text \<open>A step of the closure: on a failure the closure ends with the files as they are then.\<close>

definition key_step ::
    "key_env \<Rightarrow> key_call \<Rightarrow> key_files \<Rightarrow> key_files \<Rightarrow> (key_files \<Rightarrow> (MnemesError + unit) \<times> key_files) \<Rightarrow>
     (MnemesError + unit) \<times> key_files" where
  "key_step env c failed succeeded k =
     (case key_call_ok env c of Inl e \<Rightarrow> (Inl e, failed) | Inr _ \<Rightarrow> k succeeded)"

definition link_key :: "string \<Rightarrow> key_files \<Rightarrow> key_files" where
  "link_key tmp files =
     (if files RECEIPT_AUTH_KEY_FILE = None then files(RECEIPT_AUTH_KEY_FILE := files tmp) else files)"

definition write_receipt_auth_key :: "key_env \<Rightarrow> key_files \<Rightarrow> (MnemesError + unit) \<times> key_files" where
  "write_receipt_auth_key env files =
     (let tmp = temporary_key env; mode = 384 AND NOT (kx_umask env) in
      if files tmp \<noteq> None then (Inl (Io ''File exists (os error 17)''), files)
      else key_step env OpenTemporary files (files(tmp \<mapsto> RegularFile [] mode)) (\<lambda>files.
      key_step env WriteKey (files(tmp \<mapsto> RegularFile (take (kx_written env) (kx_random env)) mode))
        (files(tmp \<mapsto> RegularFile (kx_random env) mode)) (\<lambda>files.
      key_step env SyncKey files (kx_other env files) (\<lambda>files.
      key_step env LinkKey files (link_key tmp files) (\<lambda>files.
      key_step env RemoveTemporary files (files(tmp := None)) (\<lambda>files.
      key_step env SyncDirectory files files (\<lambda>files. (Inr (), files))))))))"

definition load_or_create_receipt_auth_key ::
    "key_env \<Rightarrow> key_files \<Rightarrow> (MnemesError + byte list) \<times> key_files" where
  "load_or_create_receipt_auth_key env files =
     (if key_exists files then (read_receipt_auth_key env files, files)
      else case write_receipt_auth_key env files of
             (Inl e, files) \<Rightarrow>
               (Inl e, if kx_fault env RemoveTemporary = None then files(temporary_key env := None) else files)
           | (Inr _, files) \<Rightarrow> (read_receipt_auth_key env files, files))"

section \<open>The schema\<close>

definition POOLED_SCHEMA_GENERATION :: i64 where
  "POOLED_SCHEMA_GENERATION = 3"

record pool_file =
  pf_versions :: "i64 list option"
  pf_columns :: "string \<Rightarrow> string list option"

text \<open>The columns that the code asks for, table by table.\<close>

definition fact_table_columns :: "(string \<times> string list) list" where
  "fact_table_columns =
     [(''fact_create_admissions'',
       [''device_id'', ''store_id'', ''namespace'', ''principal_id'', ''key_version'', ''public_key'',
        ''activated_at'', ''cutoff_at'', ''revoked'', ''stream_epoch'', ''fencing_token'']),
      (''fact_create_acks'',
       [''batch_id'', ''request_digest'', ''home_device_id'', ''store_id'', ''stream_epoch'',
        ''accepted_head'', ''disposition'']),
      (''fact_supersede_admissions'',
       [''device_id'', ''store_id'', ''replacement_namespace'', ''principal_id'', ''key_version'',
        ''public_key'', ''activated_at'', ''cutoff_at'', ''revoked'', ''store_epoch'', ''writer_epoch'',
        ''fencing_token'']),
      (''fact_supersede_acks'',
       [''batch_id'', ''request_digest'', ''home_device_id'', ''store_id'', ''owner_stream_epoch'',
        ''accepted_head'', ''disposition''])]"

definition shard_table_columns :: "(string \<times> string list) list" where
  "shard_table_columns =
     [(''device_shards'',
       [''device_id'', ''relative_path'', ''state'', ''generation'', ''routing_terms'',
        ''namespaces_json'', ''fact_count'', ''document_count'', ''chunk_count'', ''message_count'',
        ''search_count'', ''ewma_latency_ms'', ''last_refreshed_at'', ''created_at'']),
      (''shard_routing_receipts'',
       [''receipt_id'', ''requester_device_id'', ''query_sha256'', ''shard_budget'',
        ''actual_selected_shard_count'', ''exhaustive'', ''eligible_shards_json'',
        ''ranked_shards_json'', ''selected_shards_json'', ''skipped_shards_json'', ''outcomes_json'',
        ''fallback_reason'', ''final_result_ids_json'', ''merge_digest'', ''receipt_digest'',
        ''recorded_at''])]"

definition actor_columns :: "string list" where
  "actor_columns = [''actor_id'', ''device_id'', ''actor_kind'', ''tool_profile'', ''provider_model'',
     ''recorded_at'', ''created_at'']"

definition audit_columns :: "string list" where
  "audit_columns = [''event_id'', ''device_id'', ''actor_id'', ''endpoint'', ''method'', ''outcome'',
     ''detail'', ''created_at'']"

text \<open>\<open>CREATE TABLE IF NOT EXISTS\<close> keeps a table that exists, whatever its columns.\<close>

definition created_table :: "string \<Rightarrow> string list \<Rightarrow> (string \<Rightarrow> string list option) \<Rightarrow> string \<Rightarrow> string list option" where
  "created_table table columns file = (if file table = None then file(table \<mapsto> columns) else file)"

definition created_tables :: "(string \<Rightarrow> string list option) \<Rightarrow> string \<Rightarrow> string list option" where
  "created_tables file =
     fold (\<lambda>(table, columns). created_table table columns)
       ([(''actors'', actor_columns), (''audit_events'', audit_columns)] @ shard_table_columns @
        fact_table_columns) file"

definition has_table_column :: "(string \<Rightarrow> string list option) \<Rightarrow> string \<Rightarrow> string \<Rightarrow> bool" where
  "has_table_column file table column =
     (case file table of None \<Rightarrow> False | Some columns \<Rightarrow> column \<in> set columns)"

definition check_columns ::
    "(string \<Rightarrow> string list option) \<Rightarrow> (string \<times> string list) list \<Rightarrow> MnemesError + unit" where
  "check_columns file tables =
     check_all (\<lambda>(table, columns). check_all (\<lambda>column.
       fail_if (\<not> has_table_column file table column)
         (InvalidShardCatalog (table @ '' is missing required column '' @ column))) columns) tables"

definition debug_versions :: "i64 list \<Rightarrow> string" where
  "debug_versions versions = ''['' @ join '', '' (map dec_int versions) @ '']''"

definition supported_versions :: "i64 list option \<Rightarrow> MnemesError + unit" where
  "supported_versions versions =
     (case versions of
        None \<Rightarrow> Inr ()
      | Some vs \<Rightarrow>
          fail_if (sort vs \<notin> {[1], [2], [3], [1, 2], [1, 2, 3]})
            (InvalidShardCatalog (''unsupported pooled schema generations '' @ debug_versions (sort vs) @
               ''; expected a supported generation marker'')))"

text \<open>The migration of actors that were recorded before there were tool profiles.\<close>

definition migrate_actors :: "(string \<Rightarrow> string list option) \<Rightarrow> pool_db \<Rightarrow> pool_db" where
  "migrate_actors file db =
     (if has_table_column file ''actors'' ''tool_profile'' then db
      else db\<lparr>db_actors := map (\<lambda>a. a\<lparr>act_tool_profile := Agent\<rparr>) (db_actors db)\<rparr>)"

definition migrated_columns :: "(string \<Rightarrow> string list option) \<Rightarrow> string \<Rightarrow> string list option" where
  "migrated_columns file =
     (let file = (if has_table_column file ''actors'' ''tool_profile'' then file
            else file(''actors'' := map_option (\<lambda>cs. cs @ [''tool_profile'']) (file ''actors'')))
      in if has_table_column file ''audit_events'' ''detail'' then file
         else created_table ''audit_events'' audit_columns file)"

fun backfill_rows ::
    "pool_env \<Rightarrow> (DeviceId \<Rightarrow> string) \<Rightarrow> Device list \<Rightarrow> pool_db \<Rightarrow> MnemesError + pool_db" where
  "backfill_rows env created_at [] db = Inr db"
| "backfill_rows env created_at (d # pending) db =
     bindR (insert_device_shard_row env (dev_device_id d) (dev_status d) (created_at (dev_device_id d)) db)
       (backfill_rows env created_at pending)"

definition backfill_device_shards ::
    "pool_env \<Rightarrow> (DeviceId \<Rightarrow> string) \<Rightarrow> pool_db \<Rightarrow> MnemesError + pool_db" where
  "backfill_device_shards env created_at db =
     backfill_rows env created_at
       (sort_key (\<lambda>d. device_id_str (dev_device_id d))
          (filter (\<lambda>d. \<not> has_key shr_device_id (dev_device_id d) (db_shards db)) (db_devices db))) db"

text \<open>
  What opening takes from outside; \<open>oe_created_at\<close> is the column of that name of \<open>devices\<close>, \<open>oe_ddl\<close> the
  failure of a statement of the schema.
\<close>

record open_env =
  oe_pool :: pool_env
  oe_key :: key_env
  oe_created_at :: "DeviceId \<Rightarrow> string"
  oe_legacy_path :: string
  oe_connect :: "string option"
  oe_ddl :: "string option"

definition init_schema ::
    "open_env \<Rightarrow> pool_file \<times> pool_db \<Rightarrow> MnemesError + pool_file \<times> pool_db" where
  "init_schema env = (\<lambda>(file, db).
     bindR (supported_versions (pf_versions file)) (\<lambda>_.
     bindR (case oe_ddl env of Some e \<Rightarrow> Inl (mnemes_from_rusqlite e) | None \<Rightarrow> Inr ()) (\<lambda>_.
     let columns = created_tables (pf_columns file) in
     bindR (check_columns columns fact_table_columns) (\<lambda>_.
     let versions = [POOLED_SCHEMA_GENERATION];
         db = migrate_actors columns db;
         columns = migrated_columns columns in
     bindR (check_columns columns shard_table_columns) (\<lambda>_.
     bindR (backfill_device_shards (oe_pool env) (oe_created_at env) db) (\<lambda>db.
     Inr (\<lparr> pf_versions = Some versions, pf_columns = columns \<rparr>, db)))))))"

section \<open>Opening\<close>

definition ensure_existing_shard_directories :: "pool_env \<Rightarrow> pool_db \<Rightarrow> MnemesError + unit" where
  "ensure_existing_shard_directories env db =
     check_all (create_shard_dir env)
       (sort_key device_id_str (map shr_device_id (db_shards db)))"

record 'st store_dir =
  sd_tables :: 'st
  sd_pool_file :: pool_file
  sd_keys :: key_files
  sd_legacy :: bool

definition DEFAULT_SHARD_CACHE_CAPACITY :: usize where
  "DEFAULT_SHARD_CACHE_CAPACITY = 4"

definition make_dirs :: "open_env \<Rightarrow> MnemesError + unit" where
  "make_dirs env = check_all (\<lambda>p. case pe_mkdir (oe_pool env) p of Some e \<Rightarrow> Inl (Io e) | None \<Rightarrow> Inr ())
     [[], ''memory/shards'']"

definition open_with_shared_embedder ::
    "open_env \<Rightarrow> usize \<Rightarrow> ('s, 'm, 'z) MnemesStore_scheme store_dir \<Rightarrow>
     (MnemesError + ('s, 'm, 'z) MnemesStore_scheme) \<times> ('s, 'm, 'z) MnemesStore_scheme store_dir" where
  "open_with_shared_embedder env cache_capacity dir =
     (if sd_legacy dir then (Inl (LegacyGlobalStorePresent (oe_legacy_path env)), dir)
      else case
        bindR (make_dirs env) (\<lambda>_.
        bindR (case oe_connect env of Some e \<Rightarrow> Inl (mnemes_from_rusqlite e) | None \<Rightarrow> Inr ()) (\<lambda>_.
        init_schema env (sd_pool_file dir, st_pool (sd_tables dir)))) of
        Inl e \<Rightarrow> (Inl e, dir)
      | Inr (file, db) \<Rightarrow>
          let tables = (sd_tables dir)\<lparr>st_pool := db\<rparr>;
              (key, keys) = load_or_create_receipt_auth_key (oe_key env) (sd_keys dir);
              dir = dir\<lparr>sd_tables := tables, sd_pool_file := file, sd_keys := keys\<rparr> in
          (bindR key (\<lambda>key.
           bindR (ensure_existing_shard_directories (oe_pool env) db) (\<lambda>_.
           Inr (tables\<lparr>st_cache := cache_new cache_capacity, st_receipt_auth_key := key\<rparr>))), dir))"

definition open_store ::
    "open_env \<Rightarrow> 'e embedders \<Rightarrow> string option \<Rightarrow> ('s, 'm, 'z) MnemesStore_scheme store_dir \<Rightarrow>
     (MnemesError + ('s, 'm, 'z) MnemesStore_scheme) \<times> ('s, 'm, 'z) MnemesStore_scheme store_dir" where
  "open_store env em configured dir =
     (case configured_embedder em configured of
        Inl e \<Rightarrow> (Inl e, dir)
      | Inr _ \<Rightarrow> open_with_shared_embedder env DEFAULT_SHARD_CACHE_CAPACITY dir)"

section \<open>One key for all\<close>

lemma key_call_ok_iff: "key_call_ok env c = Inr u \<longleftrightarrow> kx_fault env c = None"
  by (simp add: key_call_ok_def split: option.splits)

lemma read_key_ok:
  "read_receipt_auth_key env files = Inr key \<longleftrightarrow>
     kx_fault env StatKey = None \<and> kx_fault env OpenKey = None \<and> length key = 32 \<and>
     (\<exists>mode. files RECEIPT_AUTH_KEY_FILE = Some (RegularFile key mode) \<and> mode AND 63 = 0)"
  by (auto simp: read_receipt_auth_key_def bindR_eq_Inr key_call_ok_iff
      split: option.splits dir_entry.splits if_splits)

lemma temporary_key_other: "temporary_key env \<noteq> RECEIPT_AUTH_KEY_FILE"
  by (simp add: temporary_key_def)

lemma key_step_ok:
  "key_step env c failed succeeded k = (Inr u, files) \<longleftrightarrow>
     kx_fault env c = None \<and> k succeeded = (Inr u, files)"
  by (auto simp: key_step_def key_call_ok_def split: option.splits)

definition before_link :: "key_env \<Rightarrow> key_files \<Rightarrow> key_files" where
  "before_link env files = kx_other env
     (files(temporary_key env \<mapsto> RegularFile (kx_random env) (384 AND NOT (kx_umask env))))"

lemma write_key_ok:
  "write_receipt_auth_key env files = (Inr u, files') \<Longrightarrow>
     files' = (link_key (temporary_key env) (before_link env files))(temporary_key env := None)"
  by (auto simp: write_receipt_auth_key_def Let_def key_step_ok before_link_def split: if_splits)

text \<open>Other processes leave our temporary file alone and never remove or replace the key file.\<close>

definition others_careful :: "key_env \<Rightarrow> bool" where
  "others_careful env \<longleftrightarrow> (\<forall>files.
     kx_other env files (temporary_key env) = files (temporary_key env) \<and>
     (files RECEIPT_AUTH_KEY_FILE \<noteq> None \<longrightarrow>
        kx_other env files RECEIPT_AUTH_KEY_FILE = files RECEIPT_AUTH_KEY_FILE))"

lemma created_key:
  assumes "\<not> key_exists files" and "load_or_create_receipt_auth_key env files = (Inr key, files')"
  shows "files' = (link_key (temporary_key env) (before_link env files))(temporary_key env := None) \<and>
    read_receipt_auth_key env files' = Inr key"
  using assms by (auto simp: load_or_create_receipt_auth_key_def split: prod.splits sum.splits
      dest: write_key_ok)

lemma key_read:
  assumes "load_or_create_receipt_auth_key env files = (Inr key, files')"
  shows "read_receipt_auth_key env files' = Inr key"
  using assms created_key [OF _ assms]
  by (cases "key_exists files") (auto simp: load_or_create_receipt_auth_key_def)

lemma key_kept:
  assumes "load_or_create_receipt_auth_key env files = (Inr key, files')" and "kx_fault env' = (\<lambda>_. None)"
  shows "load_or_create_receipt_auth_key env' files' = (Inr key, files')"
proof -
  obtain mode where key: "length key = 32" "files' RECEIPT_AUTH_KEY_FILE = Some (RegularFile key mode)"
      "mode AND 63 = 0" using key_read [OF assms(1)] by (auto simp: read_key_ok)
  then have "read_receipt_auth_key env' files' = Inr key" using assms(2) by (simp add: read_key_ok)
  then show ?thesis using key(2) by (simp add: load_or_create_receipt_auth_key_def key_exists_def)
qed

text \<open>
  C38. The key that a store is opened with is the content of a regular file of 32 bytes that only its
  owner can access, and whoever opens the directory later gets the same key and changes nothing. A
  file that was there before is never changed. When several processes create it at once, the one
  that links first decides for all of them.
\<close>

theorem receipt_key_is_stable:
  assumes "load_or_create_receipt_auth_key env files = (Inr key, files')" and "others_careful env"
  shows "length key = 32 \<and>
    (\<exists>mode. files' RECEIPT_AUTH_KEY_FILE = Some (RegularFile key mode) \<and> mode AND 63 = 0) \<and>
    (files RECEIPT_AUTH_KEY_FILE \<noteq> None \<longrightarrow> files' = files) \<and>
    (files RECEIPT_AUTH_KEY_FILE = None \<longrightarrow>
       (case before_link env files RECEIPT_AUTH_KEY_FILE of
          None \<Rightarrow> key = kx_random env
        | Some entry \<Rightarrow> files' RECEIPT_AUTH_KEY_FILE = Some entry)) \<and>
    (\<forall>env'. kx_fault env' = (\<lambda>_. None) \<longrightarrow>
       load_or_create_receipt_auth_key env' files' = (Inr key, files'))"
proof -
  obtain mode where key: "length key = 32" "files' RECEIPT_AUTH_KEY_FILE = Some (RegularFile key mode)"
      "mode AND 63 = 0" using key_read [OF assms(1)] by (auto simp: read_key_ok)
  note later = key_kept [OF assms(1)]
  show ?thesis
  proof (cases "key_exists files")
    case True
    then have "files' = files" using assms(1) by (simp add: load_or_create_receipt_auth_key_def)
    moreover have "files RECEIPT_AUTH_KEY_FILE \<noteq> None" using True by (auto simp: key_exists_def split: option.splits)
    ultimately show ?thesis using key later by blast
  next
    case False
    note new = created_key [OF False assms(1)]
    let ?tmp = "temporary_key env" and ?before = "before_link env files"
    have linked: "files' RECEIPT_AUTH_KEY_FILE = (if ?before RECEIPT_AUTH_KEY_FILE = None
        then ?before ?tmp else ?before RECEIPT_AUTH_KEY_FILE)"
      using new temporary_key_other [of env] by (simp add: link_key_def)
    have mine: "?before ?tmp = Some (RegularFile (kx_random env) (384 AND NOT (kx_umask env)))"
      using assms(2) by (simp add: others_careful_def before_link_def)
    have "files RECEIPT_AUTH_KEY_FILE = None"
    proof (rule ccontr)
      assume there: "files RECEIPT_AUTH_KEY_FILE \<noteq> None"
      then have "?before RECEIPT_AUTH_KEY_FILE = files RECEIPT_AUTH_KEY_FILE"
        using assms(2) temporary_key_other [of env] by (simp add: others_careful_def before_link_def)
      with linked there key(2) False show False by (auto simp: key_exists_def)
    qed
    then show ?thesis using key later linked mine by (auto split: option.splits)
  qed
qed

definition example_key_env :: key_env where
  "example_key_env = \<lparr> kx_base = ''data'', kx_uuid = ''u1'', kx_random = replicate 32 7, kx_umask = 18,
     kx_fault = (\<lambda>_. None), kx_written = 0, kx_other = id \<rparr>"

lemma example_key:
  "\<exists>files'. load_or_create_receipt_auth_key example_key_env (\<lambda>_. None) = (Inr (replicate 32 7), files')"
proof -
  have "(384 AND NOT 18 :: u32) AND 63 = 0" by simp
  then show ?thesis
    by (simp add: load_or_create_receipt_auth_key_def key_exists_def write_receipt_auth_key_def Let_def
        key_step_def key_call_ok_def example_key_env_def temporary_key_def link_key_def
        read_receipt_auth_key_def RECEIPT_AUTH_KEY_FILE_def)
qed

lemma example_careful: "others_careful example_key_env"
  by (simp add: others_careful_def example_key_env_def)

theorem receipt_key_is_stable_witness:
  "\<exists>files'. load_or_create_receipt_auth_key example_key_env (\<lambda>_. None) = (Inr (replicate 32 7), files') \<and>
     load_or_create_receipt_auth_key (example_key_env\<lparr>kx_uuid := ''u2''\<rparr>) files' = (Inr (replicate 32 7), files')"
proof -
  obtain files' where made: "load_or_create_receipt_auth_key example_key_env (\<lambda>_. None) =
      (Inr (replicate 32 7), files')" using example_key by blast
  have "kx_fault (example_key_env\<lparr>kx_uuid := ''u2''\<rparr>) = (\<lambda>_. None)" by (simp add: example_key_env_def)
  with receipt_key_is_stable [OF made example_careful] made show ?thesis by blast
qed

section \<open>What opening does to the tables\<close>

definition pool_tables :: "(string \<times> string list) list" where
  "pool_tables = [(''actors'', actor_columns), (''audit_events'', audit_columns)] @ shard_table_columns @
     fact_table_columns"

lemma created_tables_eq:
  "created_tables cols table =
     (case cols table of Some columns \<Rightarrow> Some columns | None \<Rightarrow> map_of pool_tables table)"
proof -
  have "fold (\<lambda>(t, cs). created_table t cs) ts cols table =
      (case cols table of Some columns \<Rightarrow> Some columns | None \<Rightarrow> map_of ts table)" for ts
    by (induction ts arbitrary: cols) (auto simp: created_table_def split: option.splits if_splits)
  then show ?thesis unfolding created_tables_def pool_tables_def by blast
qed

definition tables_exist :: "(string \<Rightarrow> string list option) \<Rightarrow> bool" where
  "tables_exist cols \<longleftrightarrow> (\<forall>table \<in> fst ` set pool_tables. cols table \<noteq> None)"

lemma created_tables_exist: "tables_exist (created_tables cols)"
  unfolding tables_exist_def
proof
  fix table assume "table \<in> fst ` set pool_tables"
  then have "map_of pool_tables table \<noteq> None" by (simp add: map_of_eq_None_iff)
  then show "created_tables cols table \<noteq> None" by (simp add: created_tables_eq split: option.splits)
qed

lemma created_tables_idem: "tables_exist cols \<Longrightarrow> created_tables cols = cols"
  by (rule ext) (auto simp: created_tables_eq tables_exist_def map_of_eq_None_iff split: option.splits)

lemma check_columns_ok:
  "check_columns cols tables = Inr () \<longleftrightarrow>
     (\<forall>(table, columns) \<in> set tables. \<forall>column \<in> set columns. has_table_column cols table column)"
  by (auto simp: check_columns_def check_all_ok fail_if_eq split_beta)

lemma tables_with:
  "''actors'' \<in> fst ` set pool_tables" "''audit_events'' \<in> fst ` set pool_tables"
  by (simp_all add: pool_tables_def)

lemma migrated_other:
  "table \<noteq> ''actors'' \<Longrightarrow> table \<noteq> ''audit_events'' \<Longrightarrow> migrated_columns cols table = cols table"
  by (simp add: migrated_columns_def created_table_def Let_def)

lemma check_migrated:
  "check_columns (migrated_columns cols) fact_table_columns = check_columns cols fact_table_columns"
  by (simp add: check_columns_def has_table_column_def migrated_other fact_table_columns_def)

lemma migrated_exist: "tables_exist cols \<Longrightarrow> tables_exist (migrated_columns cols)"
  by (auto simp: tables_exist_def migrated_columns_def created_table_def Let_def)

lemma migrated_tool_profile: "tables_exist cols \<Longrightarrow> has_table_column (migrated_columns cols) ''actors'' ''tool_profile''"
  using tables_with(1) by (auto simp: tables_exist_def migrated_columns_def created_table_def Let_def has_table_column_def
      split: option.splits)

lemma migrated_idem: "tables_exist cols \<Longrightarrow> migrated_columns (migrated_columns cols) = migrated_columns cols"
  using migrated_tool_profile [of cols] migrated_exist [of cols] tables_with(2)
  unfolding migrated_columns_def [of "migrated_columns cols"]
  by (auto simp: Let_def created_table_def tables_exist_def)

text \<open>
  A table \<open>audit_events\<close> without \<open>detail\<close> stays without it: the statement that is to add the column is a
  \<open>CREATE TABLE IF NOT EXISTS\<close>.
\<close>

lemma audit_detail_not_added:
  "cols ''audit_events'' = Some columns \<Longrightarrow>
     migrated_columns (created_tables cols) ''audit_events'' = Some columns"
  by (simp add: migrated_columns_def created_tables_eq created_table_def Let_def)

text \<open>The rows of the catalog have the path of their device.\<close>

definition canonical_paths :: "pool_db \<Rightarrow> bool" where
  "canonical_paths db \<longleftrightarrow>
     (\<forall>s \<in> set (db_shards db). shr_relative_path s = shard_relative_path (shr_device_id s))"

definition shard_rows_for :: "Device list \<Rightarrow> shard_row list \<Rightarrow> bool" where
  "shard_rows_for devices rows \<longleftrightarrow> (\<forall>row \<in> set rows. \<exists>d \<in> set devices.
     shr_device_id row = dev_device_id d \<and> shr_relative_path row = shard_relative_path (dev_device_id d) \<and>
     shr_state row = shard_state_from_device (dev_status d))"

lemma insert_row_canonical:
  assumes "canonical_paths db"
    and "insert_device_shard_row env (dev_device_id d) (dev_status d) t db = Inr db'"
  shows "canonical_paths db' \<and> has_key shr_device_id (dev_device_id d) (db_shards db') \<and>
    (\<exists>new. db' = db\<lparr>db_shards := db_shards db @ new\<rparr> \<and> shard_rows_for [d] new)"
proof (cases "has_key shr_device_id (dev_device_id d) (db_shards db)")
  case True
  with assms show ?thesis
    by (intro conjI exI [of _ "[]"]) (simp_all add: insert_device_shard_row_def Let_def shard_rows_for_def)
next
  case False
  then have "\<not> has_key shr_relative_path (shard_relative_path (dev_device_id d)) (db_shards db)"
    using assms(1) by (auto simp: has_key_iff canonical_paths_def shard_relative_path_inj)
  with False assms show ?thesis
    by (auto simp: insert_device_shard_row_def Let_def bindR_eq_Inr sql_insert_ok shard_rows_for_def
        canonical_paths_def has_key_iff)
qed

lemma backfill_rows_ok:
  "canonical_paths db \<Longrightarrow> backfill_rows env created_at ds db = Inr db' \<Longrightarrow>
     canonical_paths db' \<and> (\<forall>d \<in> set ds. has_key shr_device_id (dev_device_id d) (db_shards db')) \<and>
     (\<exists>new. db' = db\<lparr>db_shards := db_shards db @ new\<rparr> \<and> shard_rows_for ds new)"
proof (induction ds arbitrary: db)
  case Nil
  then show ?case by (auto simp: shard_rows_for_def intro: exI [of _ "[]"])
next
  case (Cons d ds)
  obtain db1 where one: "insert_device_shard_row env (dev_device_id d) (dev_status d)
      (created_at (dev_device_id d)) db = Inr db1" and rest: "backfill_rows env created_at ds db1 = Inr db'"
    using Cons.prems(2) by (auto simp: bindR_eq_Inr)
  from insert_row_canonical [OF Cons.prems(1) one] obtain new1 where
      one': "canonical_paths db1" "has_key shr_device_id (dev_device_id d) (db_shards db1)"
      "db1 = db\<lparr>db_shards := db_shards db @ new1\<rparr>" "shard_rows_for [d] new1" by blast
  from Cons.IH [OF one'(1) rest] obtain new2 where
      rest': "canonical_paths db'" "\<forall>d \<in> set ds. has_key shr_device_id (dev_device_id d) (db_shards db')"
      "db' = db1\<lparr>db_shards := db_shards db1 @ new2\<rparr>" "shard_rows_for ds new2" by blast
  have "db' = db\<lparr>db_shards := db_shards db @ (new1 @ new2)\<rparr>" "shard_rows_for (d # ds) (new1 @ new2)"
    using one'(3,4) rest'(3,4) by (auto simp: shard_rows_for_def)
  moreover have "has_key shr_device_id (dev_device_id d) (db_shards db')"
    using one'(2) rest'(3) by (auto simp: has_key_iff)
  ultimately show ?case using rest'(1,2) by auto
qed

definition all_listed :: "pool_db \<Rightarrow> bool" where
  "all_listed db \<longleftrightarrow> (\<forall>d \<in> set (db_devices db). has_key shr_device_id (dev_device_id d) (db_shards db))"

lemma backfill_ok:
  assumes "canonical_paths db" "backfill_device_shards env created_at db = Inr db'"
  shows "canonical_paths db' \<and> all_listed db' \<and>
    (\<exists>new. db' = db\<lparr>db_shards := db_shards db @ new\<rparr> \<and> shard_rows_for (db_devices db) new)"
proof -
  from backfill_rows_ok [OF assms(1) assms(2) [unfolded backfill_device_shards_def]] obtain new where
      "canonical_paths db'" "db' = db\<lparr>db_shards := db_shards db @ new\<rparr>"
      "shard_rows_for (filter (\<lambda>d. \<not> has_key shr_device_id (dev_device_id d) (db_shards db)) (db_devices db)) new"
      "\<forall>d \<in> set (db_devices db). \<not> has_key shr_device_id (dev_device_id d) (db_shards db) \<longrightarrow>
         has_key shr_device_id (dev_device_id d) (db_shards db')"
    by (auto simp: shard_rows_for_def)
  moreover from this have "shard_rows_for (db_devices db) new" by (auto simp: shard_rows_for_def)
  moreover have "all_listed db'"
    using calculation(2,4) by (auto simp: all_listed_def has_key_iff)
  ultimately show ?thesis by blast
qed

lemma backfill_listed: "all_listed db \<Longrightarrow> backfill_device_shards env created_at db = Inr db"
proof -
  assume "all_listed db"
  then have "filter (\<lambda>d. \<not> has_key shr_device_id (dev_device_id d) (db_shards db)) (db_devices db) = []"
    by (simp add: all_listed_def filter_empty_conv)
  then show ?thesis by (simp add: backfill_device_shards_def)
qed

lemma mirror_listed: "shards_mirror db \<Longrightarrow> all_listed db \<and> canonical_paths db"
proof -
  assume mirror: "shards_mirror db"
  have "shard_identity s \<in>
      (\<lambda>d. (dev_device_id d, shard_relative_path (dev_device_id d), shard_state_from_device (dev_status d))) `
        set (db_devices db)" if "s \<in> set (db_shards db)" for s
    using arg_cong [OF mirror [unfolded shards_mirror_def], of set] that by (auto simp: set_map)
  then show ?thesis
    using mirror_sets(1) [OF mirror] by (fastforce simp: all_listed_def has_key_iff canonical_paths_def shard_identity_def)
qed

section \<open>What an opened store is\<close>

definition opened_pool :: "pool_file \<Rightarrow> pool_db \<Rightarrow> shard_row list \<Rightarrow> pool_db" where
  "opened_pool pf db new = (migrate_actors (created_tables (pf_columns pf)) db)\<lparr>db_shards := db_shards db @ new\<rparr>"

lemma migrate_actors_other:
  "db_shards (migrate_actors cols db) = db_shards db \<and> db_devices (migrate_actors cols db) = db_devices db"
  by (simp add: migrate_actors_def)

lemma init_schema_ok:
  assumes "init_schema env (pf, db) = Inr (pf', db')" and "canonical_paths db"
  shows "pf_versions pf' = Some [3] \<and> pf_columns pf' = migrated_columns (created_tables (pf_columns pf)) \<and>
    check_columns (created_tables (pf_columns pf)) fact_table_columns = Inr () \<and>
    check_columns (pf_columns pf') shard_table_columns = Inr () \<and> all_listed db' \<and>
    (\<exists>new. db' = opened_pool pf db new \<and> shard_rows_for (db_devices db) new)"
proof -
  let ?cols = "created_tables (pf_columns pf)" and ?db = "migrate_actors (created_tables (pf_columns pf)) db"
  have checks: "check_columns ?cols fact_table_columns = Inr ()"
      "check_columns (migrated_columns ?cols) shard_table_columns = Inr ()"
      "backfill_device_shards (oe_pool env) (oe_created_at env) ?db = Inr db'"
      "pf' = \<lparr> pf_versions = Some [3], pf_columns = migrated_columns ?cols \<rparr>"
    using assms(1) by (auto simp: init_schema_def Let_def bindR_eq_Inr POOLED_SCHEMA_GENERATION_def)
  have "canonical_paths ?db" using assms(2) by (simp add: canonical_paths_def migrate_actors_other)
  from backfill_ok [OF this checks(3)] checks(1,2,4) show ?thesis
    by (auto simp: opened_pool_def migrate_actors_other)
qed

lemma init_schema_again:
  assumes "pf_versions pf = Some [3]" and "pf_columns pf = migrated_columns (created_tables cols)"
    and "check_columns (created_tables cols) fact_table_columns = Inr ()"
    and "check_columns (pf_columns pf) shard_table_columns = Inr ()" and "all_listed db" and "oe_ddl env = None"
  shows "init_schema env (pf, db) = Inr (pf, db)"
proof -
  have exist: "tables_exist (created_tables cols)" by (rule created_tables_exist)
  note there = created_tables_idem [OF migrated_exist [OF exist]]
  have "migrate_actors (migrated_columns (created_tables cols)) db = db"
    using migrated_tool_profile [OF exist] by (simp add: migrate_actors_def)
  then show ?thesis
    using assms by (cases pf) (simp add: init_schema_def supported_versions_def fail_if_def there check_migrated
        migrated_idem [OF exist] backfill_listed POOLED_SCHEMA_GENERATION_def)
qed

definition untroubled :: "open_env \<Rightarrow> bool" where
  "untroubled env \<longleftrightarrow> pe_mkdir (oe_pool env) = (\<lambda>_. None) \<and> oe_connect env = None \<and> oe_ddl env = None \<and>
     kx_fault (oe_key env) = (\<lambda>_. None)"

lemma untroubled_dirs:
  "untroubled env \<Longrightarrow> make_dirs env = Inr () \<and> ensure_existing_shard_directories (oe_pool env) db = Inr ()"
  by (simp add: untroubled_def make_dirs_def ensure_existing_shard_directories_def check_all_ok create_shard_dir_def)

lemma open_ok:
  fixes st :: "('s, 'm, 'z) MnemesStore_scheme"
  assumes "open_with_shared_embedder env cap dir = (Inr st, dir')"
  obtains pf db key keys where "init_schema env (sd_pool_file dir, st_pool (sd_tables dir)) = Inr (pf, db)"
    "load_or_create_receipt_auth_key (oe_key env) (sd_keys dir) = (Inr key, keys)" "\<not> sd_legacy dir"
    "dir' = dir\<lparr>sd_tables := (sd_tables dir)\<lparr>st_pool := db\<rparr>, sd_pool_file := pf, sd_keys := keys\<rparr>"
    "st = (sd_tables dir)\<lparr>st_pool := db, st_cache := cache_new cap, st_receipt_auth_key := key\<rparr>"
  using assms by (fastforce simp: open_with_shared_embedder_def Let_def bindR_eq_Inr
      split: if_splits sum.splits prod.splits)

lemma init_schema_listed:
  assumes "init_schema env (pf, db) = Inr (pf', db')" and "all_listed db"
    and "has_table_column (created_tables (pf_columns pf)) ''actors'' ''tool_profile''"
  shows "db' = db"
  using assms by (auto simp: init_schema_def Let_def bindR_eq_Inr migrate_actors_def backfill_listed)

lemma opened_unchanged:
  assumes "open_with_shared_embedder env capacity dir = (Inr st, dir')"
    and "shards_mirror (st_pool (sd_tables dir))"
    and "has_table_column (created_tables (pf_columns (sd_pool_file dir))) ''actors'' ''tool_profile''"
  shows "st_pool st = st_pool (sd_tables dir)"
proof -
  from assms(1) obtain pf db key where
      "init_schema env (sd_pool_file dir, st_pool (sd_tables dir)) = Inr (pf, db)"
      "st = (sd_tables dir)\<lparr>st_pool := db, st_cache := cache_new capacity, st_receipt_auth_key := key\<rparr>"
    by (rule open_ok)
  with init_schema_listed [OF this(1)] mirror_listed [OF assms(2)] assms(3) show ?thesis by simp
qed

text \<open>Opening again, with whatever the tables hold by then, as long as every device is listed.\<close>

lemma open_again:
  fixes st later :: "('s, 'm, 'z) MnemesStore_scheme"
  assumes "open_with_shared_embedder env capacity dir = (Inr st, dir')"
    and "canonical_paths (st_pool (sd_tables dir))" and "all_listed (st_pool later)" and "untroubled env'"
  shows "open_with_shared_embedder env' capacity' (dir'\<lparr>sd_tables := later\<rparr>) =
    (Inr (later\<lparr>st_cache := cache_new capacity', st_receipt_auth_key := st_receipt_auth_key st\<rparr>),
     dir'\<lparr>sd_tables := later\<rparr>)"
proof -
  from assms(1) obtain pf db key keys where opened:
      "init_schema env (sd_pool_file dir, st_pool (sd_tables dir)) = Inr (pf, db)"
      "load_or_create_receipt_auth_key (oe_key env) (sd_keys dir) = (Inr key, keys)" "\<not> sd_legacy dir"
      "dir' = dir\<lparr>sd_tables := (sd_tables dir)\<lparr>st_pool := db\<rparr>, sd_pool_file := pf, sd_keys := keys\<rparr>"
      "st = (sd_tables dir)\<lparr>st_pool := db, st_cache := cache_new capacity, st_receipt_auth_key := key\<rparr>"
    by (rule open_ok)
  have "init_schema env' (pf, st_pool later) = Inr (pf, st_pool later)"
    by (rule init_schema_again)
      (use init_schema_ok [OF opened(1) assms(2)] assms(3,4) in \<open>auto simp: untroubled_def\<close>)
  moreover have "load_or_create_receipt_auth_key (oe_key env') keys = (Inr key, keys)"
    using key_kept [OF opened(2)] assms(4) by (simp add: untroubled_def)
  ultimately show ?thesis
    using opened(3-5) untroubled_dirs [OF assms(4)] assms(4)
    by (cases later) (simp add: open_with_shared_embedder_def untroubled_def Let_def)
qed

lemma open_store_ok:
  "open_store env em configured dir = (Inr st, dir') \<longleftrightarrow>
     is_ok (configured_embedder em configured) \<and>
     open_with_shared_embedder env DEFAULT_SHARD_CACHE_CAPACITY dir = (Inr st, dir')"
  by (auto simp: open_store_def is_ok_iff split: sum.splits)

text \<open>
  C26. A store that opens serves a complete catalog. Opening adds to the tables exactly the missing
  shards of registered devices, each at its canonical path in the state that the device's status
  gives, and gives actors from before there were tool profiles the narrow one; a database that the
  store left itself (every shard row mirrors its device) is not touched. The schema carries the
  current generation and no other, the cache is empty, the key has 32 bytes; and opening the
  directory again gives the same store and changes nothing.
\<close>

theorem opened_store_is_complete:
  fixes st :: "('s, 'm, 'z) MnemesStore_scheme"
  assumes "open_with_shared_embedder env capacity dir = (Inr st, dir')"
    and "canonical_paths (st_pool (sd_tables dir))"
  shows "(\<exists>new. st_pool st = opened_pool (sd_pool_file dir) (st_pool (sd_tables dir)) new \<and>
       shard_rows_for (db_devices (st_pool (sd_tables dir))) new) \<and>
     (\<forall>d \<in> set (db_devices (st_pool st)). has_key shr_device_id (dev_device_id d) (db_shards (st_pool st))) \<and>
     (shards_mirror (st_pool (sd_tables dir)) \<and>
      has_table_column (created_tables (pf_columns (sd_pool_file dir))) ''actors'' ''tool_profile'' \<longrightarrow>
        st_pool st = st_pool (sd_tables dir)) \<and>
     pf_versions (sd_pool_file dir') = Some [3] \<and> st_cache st = cache_new capacity \<and>
     cache_inv (st_cache st) \<and> length (st_receipt_auth_key st) = 32 \<and>
     (\<forall>env' capacity'. untroubled env' \<longrightarrow>
        open_with_shared_embedder env' capacity' dir' = (Inr (st\<lparr>st_cache := cache_new capacity'\<rparr>), dir'))"
proof -
  from assms(1) obtain pf db key keys where opened:
      "init_schema env (sd_pool_file dir, st_pool (sd_tables dir)) = Inr (pf, db)"
      "load_or_create_receipt_auth_key (oe_key env) (sd_keys dir) = (Inr key, keys)" "\<not> sd_legacy dir"
      "dir' = dir\<lparr>sd_tables := (sd_tables dir)\<lparr>st_pool := db\<rparr>, sd_pool_file := pf, sd_keys := keys\<rparr>"
      "st = (sd_tables dir)\<lparr>st_pool := db, st_cache := cache_new capacity, st_receipt_auth_key := key\<rparr>"
    by (rule open_ok)
  note schema = init_schema_ok [OF opened(1) assms(2)]
  have again: "open_with_shared_embedder env' capacity' dir' = (Inr (st\<lparr>st_cache := cache_new capacity'\<rparr>), dir')"
    if "untroubled env'" for env' capacity'
  proof -
    have "all_listed (st_pool (sd_tables dir'))" using schema opened(4) by simp
    moreover have "dir'\<lparr>sd_tables := sd_tables dir'\<rparr> = dir'" by simp
    moreover have "(sd_tables dir')\<lparr>st_cache := cache_new capacity', st_receipt_auth_key := st_receipt_auth_key st\<rparr> =
        st\<lparr>st_cache := cache_new capacity'\<rparr>"
      using opened(4,5) by (cases "sd_tables dir") simp
    ultimately show ?thesis using open_again [OF assms _ that, of "sd_tables dir'" capacity'] by simp
  qed
  have "length key = 32" using key_read [OF opened(2)] by (simp add: read_key_ok)
  moreover have "all_listed db" using schema by blast
  moreover note opened_unchanged [OF assms(1)]
  ultimately show ?thesis
    using schema opened(4,5) again by (auto simp: all_listed_def cache_new_inv)
qed

text \<open>A directory of the first generation, whose only device has no shard yet.\<close>

definition example_open_env :: open_env where
  "example_open_env = \<lparr> oe_pool = example_pool_env, oe_key = example_key_env, oe_created_at = (\<lambda>_. ''t0''),
     oe_legacy_path = ''memory/memory.db'', oe_connect = None, oe_ddl = None \<rparr>"

definition example_dir :: "(string, unit) MnemesStore store_dir" where
  "example_dir = \<lparr> sd_tables = example_store_state\<lparr>st_pool := example_registry\<rparr>,
     sd_pool_file = \<lparr> pf_versions = Some [1],
       pf_columns = (\<lambda>_. None)(''actors'' \<mapsto> [''actor_id'', ''device_id'']) \<rparr>,
     sd_keys = (\<lambda>_. None), sd_legacy = False \<rparr>"

lemma example_schema:
  "\<exists>pf. init_schema example_open_env (sd_pool_file example_dir, example_registry) =
     Inr (pf, opened_pool (sd_pool_file example_dir) example_registry [example_shard_row\<lparr>shr_created_at := ''t0''\<rparr>])"
proof -
  let ?cols = "created_tables (pf_columns (sd_pool_file example_dir))"
  have facts: "check_columns ?cols fact_table_columns = Inr ()"
    by (simp add: check_columns_ok has_table_column_def created_tables_eq example_dir_def pool_tables_def
        fact_table_columns_def shard_table_columns_def)
  have shards: "check_columns (migrated_columns ?cols) shard_table_columns = Inr ()"
    by (simp add: check_columns_ok has_table_column_def migrated_other created_tables_eq example_dir_def
        pool_tables_def shard_table_columns_def fact_table_columns_def)
  have old: "\<not> has_table_column ?cols ''actors'' ''tool_profile''"
    by (simp add: has_table_column_def created_tables_eq example_dir_def)
  have fill: "backfill_device_shards example_pool_env (\<lambda>_. ''t0'') (migrate_actors ?cols example_registry) =
      Inr (opened_pool (sd_pool_file example_dir) example_registry [example_shard_row\<lparr>shr_created_at := ''t0''\<rparr>])"
    by (simp add: old backfill_device_shards_def migrate_actors_def opened_pool_def example_registry_def empty_db_def
        example_device_def device_new_def insert_device_shard_row_def Let_def has_key_iff example_shard_row_def
        sql_insert_def fail_if_def)
  show ?thesis
    using facts shards fill
    by (simp add: init_schema_def supported_versions_def fail_if_def example_open_env_def Let_def)
      (simp add: example_dir_def fail_if_def)
qed

theorem opened_store_is_complete_witness:
  "\<exists>st dir'. open_with_shared_embedder example_open_env 2 example_dir = (Inr st, dir') \<and>
     map shr_device_id (db_shards (st_pool st)) = [DeviceId ''d''] \<and>
     map act_tool_profile (db_actors (st_pool st)) = [Agent, Agent] \<and> pf_versions (sd_pool_file dir') = Some [3] \<and>
     open_with_shared_embedder example_open_env 9 dir' = (Inr (st\<lparr>st_cache := cache_new 9\<rparr>), dir')"
proof -
  have free: "untroubled example_open_env"
    by (simp add: untroubled_def example_open_env_def example_pool_env_def example_key_env_def)
  obtain pf where schema: "init_schema example_open_env (sd_pool_file example_dir, example_registry) =
      Inr (pf, opened_pool (sd_pool_file example_dir) example_registry [example_shard_row\<lparr>shr_created_at := ''t0''\<rparr>])"
    using example_schema by blast
  obtain keys where key: "load_or_create_receipt_auth_key example_key_env (\<lambda>_. None) = (Inr (replicate 32 7), keys)"
    using example_key by blast
  obtain st dir' where opened: "open_with_shared_embedder example_open_env 2 example_dir = (Inr st, dir')"
      "st_pool st = opened_pool (sd_pool_file example_dir) example_registry [example_shard_row\<lparr>shr_created_at := ''t0''\<rparr>]"
    using schema key untroubled_dirs [OF free]
    by (simp add: open_with_shared_embedder_def Let_def example_dir_def example_open_env_def)
  have "canonical_paths (st_pool (sd_tables example_dir))"
    by (simp add: canonical_paths_def example_dir_def example_registry_def empty_db_def)
  from opened_store_is_complete [OF opened(1) this] free opened show ?thesis
    by (auto simp: opened_pool_def migrate_actors_def has_table_column_def created_tables_eq example_dir_def
        example_registry_def empty_db_def example_shard_row_def actor_new_def)
qed

end
