(* ===== verification/Stored_Rows.thy ===== *)
theory Stored_Rows
  imports Operation_Log
begin

text \<open>
  The rows of \<open>pooled.db\<close> as SQLite keeps them, and the functions of \<open>src/store.rs\<close> that turn them
  back into devices, actors and operations. The other theories work on tables of typed rows; that
  this loses nothing is shown here: on the stored form of typed tables, the code's lookups give
  exactly what the lookups of typed rows give.
\<close>

section \<open>Stored rows\<close>

text \<open>A row is its columns in the order of the query; \<open>None\<close> is \<open>NULL\<close>.\<close>

type_synonym stored_row = "string option list"

definition text_at :: "stored_row \<Rightarrow> nat \<Rightarrow> string option" where
  "text_at row i = (if i < length row then row ! i else None)"

definition nullable_at :: "stored_row \<Rightarrow> nat \<Rightarrow> string option option" where
  "nullable_at row i = (if i < length row then Some (row ! i) else None)"

text \<open>\<open>query_row(..).ok()\<close>: no row and a row of other types are both \<open>None\<close>.\<close>

definition stored_by :: "string \<Rightarrow> stored_row list \<Rightarrow> stored_row option" where
  "stored_by key rows = find (\<lambda>row. text_at row 0 = Some key) rows"

section \<open>Devices\<close>

definition device_columns :: "Device \<Rightarrow> stored_row" where
  "device_columns d =
     [Some (device_id_str (dev_device_id d)), Some (dev_label d), Some (dev_platform d), Some (dev_hostname d),
      dev_credential_fingerprint d, Some (dev_first_seen_at d), Some (dev_last_seen_at d),
      Some (device_status_as_str (dev_status d))]"

definition device_texts ::
    "stored_row \<Rightarrow> (string \<times> string \<times> string \<times> string \<times> string option \<times> string \<times> string \<times> string) option" where
  "device_texts row =
     Option.bind (text_at row 7) (\<lambda>status. Option.bind (text_at row 0) (\<lambda>did.
     Option.bind (text_at row 1) (\<lambda>label. Option.bind (text_at row 2) (\<lambda>platform.
     Option.bind (text_at row 3) (\<lambda>hostname. Option.bind (nullable_at row 4) (\<lambda>cred.
     Option.bind (text_at row 5) (\<lambda>first_seen. Option.bind (text_at row 6) (\<lambda>last_seen.
     Some (did, label, platform, hostname, cred, first_seen, last_seen, status)))))))))"

definition device_of_row :: "'u uuid_lib \<Rightarrow> stored_row \<Rightarrow> MnemesError + Device option" where
  "device_of_row u row =
     (case device_texts row of
        None \<Rightarrow> Inr None
      | Some (did, label, platform, hostname, cred, first_seen, last_seen, status) \<Rightarrow>
          bindR (map_err Memory (device_id_parse u did)) (\<lambda>parsed.
          bindR (map_err Memory (device_status_parse status did)) (\<lambda>status.
          Inr (Some \<lparr> dev_device_id = parsed, dev_label = label, dev_platform = platform,
            dev_hostname = hostname, dev_credential_fingerprint = cred, dev_first_seen_at = first_seen,
            dev_last_seen_at = last_seen, dev_status = status \<rparr>))))"

section \<open>Actors\<close>

definition actor_row_columns :: "Actor \<Rightarrow> stored_row" where
  "actor_row_columns a =
     [Some (actor_id_str (act_actor_id a)), Some (device_id_str (act_device_id a)),
      Some (actor_kind_as_str (act_actor_kind a)), Some (tool_profile_as_str (act_tool_profile a)),
      act_provider_model a, Some (act_recorded_at a)]"

definition actor_texts ::
    "stored_row \<Rightarrow> (string \<times> string \<times> string \<times> string \<times> string option \<times> string) option" where
  "actor_texts row =
     Option.bind (text_at row 0) (\<lambda>aid. Option.bind (text_at row 1) (\<lambda>did.
     Option.bind (text_at row 2) (\<lambda>kind. Option.bind (text_at row 3) (\<lambda>profile.
     Option.bind (nullable_at row 4) (\<lambda>pm. Option.bind (text_at row 5) (\<lambda>rat.
     Some (aid, did, kind, profile, pm, rat)))))))"

definition actor_of_row :: "'u uuid_lib \<Rightarrow> stored_row \<Rightarrow> MnemesError + Actor option" where
  "actor_of_row u row =
     (case actor_texts row of
        None \<Rightarrow> Inr None
      | Some (aid, did, kind, profile, pm, rat) \<Rightarrow>
          bindR (map_err Memory (actor_id_parse u aid)) (\<lambda>actor_id.
          bindR (map_err Memory (device_id_parse u did)) (\<lambda>device_id.
          Inr (Some \<lparr> act_actor_id = actor_id, act_device_id = device_id,
            act_tool_profile = (case tool_profile_parse profile of None \<Rightarrow> Agent | Some p \<Rightarrow> p),
            act_actor_kind = actor_kind_parse kind, act_provider_model = pm, act_recorded_at = rat \<rparr>))))"

section \<open>Operations\<close>

definition operation_columns :: "OperationEnvelope \<Rightarrow> stored_row" where
  "operation_columns e =
     [Some (operation_id_str (op_operation_id e)), Some (op_idempotency_key e),
      Some (device_id_str (op_requesting_device_id e)), Some (actor_id_str (op_requesting_actor_id e)),
      Some (device_id_str (op_recording_device_id e)), Some (device_id_str (op_recording_server_id e)),
      Some (operation_kind_as_str (op_operation_kind e)), Some (op_target_kind e), Some (op_target_id e),
      Some (op_content_digest e), op_observed_at e, op_valid_time e, Some (op_recorded_at e), op_receipt_id e]"

text \<open>
  \<open>rw_conversion\<close> is the text of rusqlite's error for a column that does not parse, \<open>rw_column\<close> that
  for a column of another type.
\<close>

record row_lib =
  rw_conversion :: "nat \<Rightarrow> MemoryError \<Rightarrow> string"
  rw_column :: "nat \<Rightarrow> string"

definition get_text :: "row_lib \<Rightarrow> stored_row \<Rightarrow> nat \<Rightarrow> MnemesError + string" where
  "get_text rl row i = ok_or (mnemes_from_rusqlite (rw_column rl i)) (text_at row i)"

definition get_nullable :: "row_lib \<Rightarrow> stored_row \<Rightarrow> nat \<Rightarrow> MnemesError + string option" where
  "get_nullable rl row i = ok_or (mnemes_from_rusqlite (rw_column rl i)) (nullable_at row i)"

definition get_parsed ::
    "row_lib \<Rightarrow> stored_row \<Rightarrow> nat \<Rightarrow> (string \<Rightarrow> MemoryError + 'a) \<Rightarrow> MnemesError + 'a" where
  "get_parsed rl row i parse =
     bindR (get_text rl row i) (\<lambda>s. map_err (\<lambda>error. mnemes_from_rusqlite (rw_conversion rl i error)) (parse s))"

definition map_row_to_operation ::
    "'u uuid_lib \<Rightarrow> row_lib \<Rightarrow> stored_row \<Rightarrow> MnemesError + OperationEnvelope" where
  "map_row_to_operation u rl row =
     bindR (get_parsed rl row 0 (operation_id_parse u)) (\<lambda>operation_id.
     bindR (get_text rl row 1) (\<lambda>key.
     bindR (get_parsed rl row 2 (device_id_parse u)) (\<lambda>requesting_device.
     bindR (get_parsed rl row 3 (actor_id_parse u)) (\<lambda>requesting_actor.
     bindR (get_parsed rl row 4 (device_id_parse u)) (\<lambda>recording_device.
     bindR (get_parsed rl row 5 (device_id_parse u)) (\<lambda>recording_server.
     bindR (get_parsed rl row 6 (\<lambda>s. operation_kind_parse s ''operation'')) (\<lambda>kind.
     bindR (get_text rl row 7) (\<lambda>target_kind.
     bindR (get_text rl row 8) (\<lambda>target_id.
     bindR (get_text rl row 9) (\<lambda>digest.
     bindR (get_nullable rl row 10) (\<lambda>observed_at.
     bindR (get_nullable rl row 11) (\<lambda>valid_time.
     bindR (get_text rl row 12) (\<lambda>recorded_at.
     bindR (get_nullable rl row 13) (\<lambda>receipt_id.
     Inr \<lparr> op_operation_id = operation_id, op_idempotency_key = key,
       op_requesting_device_id = requesting_device, op_requesting_actor_id = requesting_actor,
       op_recording_device_id = recording_device, op_recording_server_id = recording_server,
       op_operation_kind = kind, op_target_kind = target_kind, op_target_id = target_id,
       op_content_digest = digest, op_observed_at = observed_at, op_valid_time = valid_time,
       op_recorded_at = recorded_at, op_receipt_id = receipt_id \<rparr>))))))))))))))"

definition operation_of_row :: "'u uuid_lib \<Rightarrow> stored_row \<Rightarrow> MnemesError + OperationEnvelope option" where
  "operation_of_row u row =
          (case (text_at row 0, text_at row 1, text_at row 2, text_at row 3, text_at row 4, text_at row 5,
                 text_at row 6, text_at row 7, text_at row 8, text_at row 9, nullable_at row 10,
                 nullable_at row 11, text_at row 12, nullable_at row 13) of
             (Some oid, Some key, Some req_dev, Some req_act, Some rec_dev, Some rec_srv, Some kind,
              Some tgt_kind, Some tgt_id, Some digest, Some obs_at, Some val_at, Some rec_at, Some rcpt_id) \<Rightarrow>
               bindR (map_err Memory (operation_id_parse u oid)) (\<lambda>operation_id.
               bindR (map_err Memory (device_id_parse u req_dev)) (\<lambda>req_dev.
               bindR (map_err Memory (actor_id_parse u req_act)) (\<lambda>req_act.
               bindR (map_err Memory (device_id_parse u rec_dev)) (\<lambda>rec_dev.
               bindR (map_err Memory (device_id_parse u rec_srv)) (\<lambda>rec_srv.
               bindR (map_err Memory (operation_kind_parse kind oid)) (\<lambda>kind.
               Inr (Some \<lparr> op_operation_id = operation_id, op_idempotency_key = key,
                 op_requesting_device_id = req_dev, op_requesting_actor_id = req_act,
                 op_recording_device_id = rec_dev, op_recording_server_id = rec_srv,
                 op_operation_kind = kind, op_target_kind = tgt_kind, op_target_id = tgt_id,
                 op_content_digest = digest, op_observed_at = obs_at, op_valid_time = val_at,
                 op_recorded_at = rec_at, op_receipt_id = rcpt_id \<rparr>)))))))
           | _ \<Rightarrow> Inr None)"

section \<open>Lookups\<close>

definition look_up ::
    "string \<Rightarrow> (stored_row \<Rightarrow> MnemesError + 'a option) \<Rightarrow> stored_row list \<Rightarrow> MnemesError + 'a option" where
  "look_up key read rows = (case stored_by key rows of None \<Rightarrow> Inr None | Some row \<Rightarrow> read row)"

definition stored_device :: "'u uuid_lib \<Rightarrow> DeviceId \<Rightarrow> stored_row list \<Rightarrow> MnemesError + Device option" where
  "stored_device u device_id rows = look_up (device_id_str device_id) (device_of_row u) rows"

definition stored_actor :: "'u uuid_lib \<Rightarrow> ActorId \<Rightarrow> stored_row list \<Rightarrow> MnemesError + Actor option" where
  "stored_actor u actor_id rows = look_up (actor_id_str actor_id) (actor_of_row u) rows"

definition fetch_operation_conn ::
    "'u uuid_lib \<Rightarrow> OperationId \<Rightarrow> stored_row list \<Rightarrow> MnemesError + OperationEnvelope option" where
  "fetch_operation_conn u operation_id rows = look_up (operation_id_str operation_id) (operation_of_row u) rows"

section \<open>Tables of typed rows\<close>

text \<open>A kind of rows with its key, its columns, and a function that reads it back when its ids are canonical.\<close>

locale stored_table =
  fixes columns :: "'a \<Rightarrow> stored_row" and key :: "'a \<Rightarrow> string"
    and read :: "stored_row \<Rightarrow> MnemesError + 'a option" and canonical :: "'a \<Rightarrow> bool"
  assumes key_column: "text_at (columns x) 0 = Some (key x)"
    and reads_back: "canonical x \<Longrightarrow> read (columns x) = Inr (Some x)"
begin

lemma stored_by_columns: "stored_by k (map columns xs) = map_option columns (row_by key k xs)"
  by (induction xs) (simp_all add: stored_by_def row_by_def key_column)

lemma look_up_typed:
  assumes "list_all canonical xs"
  shows "look_up k read (map columns xs) = Inr (row_by key k xs)"
proof (cases "row_by key k xs")
  case (Some x)
  then have "canonical x" using assms row_by_SomeD [of key k xs x] by (simp add: list_all_iff)
  then show ?thesis by (simp add: look_up_def stored_by_columns Some reads_back)
qed (simp add: look_up_def stored_by_columns)

end

text \<open>An id is canonical when parsing leaves it as it is; what \<open>parse\<close> returns always is.\<close>

definition canonical_device :: "'u uuid_lib \<Rightarrow> DeviceId \<Rightarrow> bool" where
  "canonical_device u i \<longleftrightarrow> device_id_parse u (device_id_str i) = Inr i"

definition canonical_actor :: "'u uuid_lib \<Rightarrow> ActorId \<Rightarrow> bool" where
  "canonical_actor u i \<longleftrightarrow> actor_id_parse u (actor_id_str i) = Inr i"

definition canonical_operation :: "'u uuid_lib \<Rightarrow> OperationId \<Rightarrow> bool" where
  "canonical_operation u i \<longleftrightarrow> operation_id_parse u (operation_id_str i) = Inr i"

lemma parsed_canonical:
  assumes "uuid_laws u"
  shows "device_id_parse u s = Inr d \<Longrightarrow> canonical_device u d"
    "actor_id_parse u s = Inr a \<Longrightarrow> canonical_actor u a"
    "operation_id_parse u s = Inr i \<Longrightarrow> canonical_operation u i"
  by (auto simp: canonical_device_def device_id_parse_def canonical_actor_def actor_id_parse_def
      canonical_operation_def operation_id_parse_def bindR_eq_Inr dest: opaque_parse_canonical [OF assms])

definition canonical_envelope :: "'u uuid_lib \<Rightarrow> OperationEnvelope \<Rightarrow> bool" where
  "canonical_envelope u e \<longleftrightarrow> canonical_operation u (op_operation_id e) \<and>
     canonical_device u (op_requesting_device_id e) \<and> canonical_actor u (op_requesting_actor_id e) \<and>
     canonical_device u (op_recording_device_id e) \<and> canonical_device u (op_recording_server_id e)"

text \<open>An actor of a kind that the enum names is not stored under the catch-all constructor.\<close>

definition canonical_row :: "'u uuid_lib \<Rightarrow> Actor \<Rightarrow> bool" where
  "canonical_row u a \<longleftrightarrow> canonical_actor u (act_actor_id a) \<and> canonical_device u (act_device_id a) \<and>
     actor_kind_parse (actor_kind_as_str (act_actor_kind a)) = act_actor_kind a"

lemmas columns_at = text_at_def nullable_at_def nth_Cons'

interpretation device_rows: stored_table device_columns "\<lambda>d. device_id_str (dev_device_id d)" "device_of_row u"
    "\<lambda>d. canonical_device u (dev_device_id d)" for u
  by unfold_locales (simp_all add: device_columns_def device_of_row_def device_texts_def columns_at
      canonical_device_def device_status.parse_as_str)

lemma stored_profile: "tool_profile_parse (tool_profile_as_str p) = Some p"
  using tool_profile.parse_as_str [of p] by (simp add: ok_or_eq)

interpretation actor_rows: stored_table actor_row_columns "\<lambda>a. actor_id_str (act_actor_id a)" "actor_of_row u"
    "canonical_row u" for u
  by unfold_locales (simp_all add: actor_row_columns_def actor_of_row_def actor_texts_def columns_at
      canonical_row_def canonical_actor_def canonical_device_def stored_profile)

interpretation operation_rows: stored_table operation_columns "\<lambda>e. operation_id_str (op_operation_id e)"
    "operation_of_row u" "canonical_envelope u" for u
  by unfold_locales (simp_all add: operation_columns_def operation_of_row_def columns_at canonical_envelope_def
      canonical_operation_def canonical_actor_def canonical_device_def operation_kind.parse_as_str)

section \<open>The typed tables are the stored ones\<close>

lemma id_str_inj:
  "device_id_str i = device_id_str i' \<longleftrightarrow> i = i'" "actor_id_str j = actor_id_str j' \<longleftrightarrow> j = j'"
  "operation_id_str k = operation_id_str k' \<longleftrightarrow> k = k'"
  by (auto intro: DeviceId.expand ActorId.expand OperationId.expand)

lemma row_by_text:
  "row_by (\<lambda>d. device_id_str (dev_device_id d)) (device_id_str i) devices = row_by dev_device_id i devices"
  "row_by (\<lambda>a. actor_id_str (act_actor_id a)) (actor_id_str j) actors = row_by act_actor_id j actors"
  "row_by (\<lambda>e. operation_id_str (op_operation_id e)) (operation_id_str k) operations =
     row_by op_operation_id k operations"
  by (simp_all add: row_by_def id_str_inj)

lemma listed_rows:
  assumes "list_all (canonical_envelope u) rows"
  shows "collect_results (map_row_to_operation u rl) (map operation_columns rows) = Inr rows"
proof -
  have "map_row_to_operation u rl (operation_columns e) = Inr e" if "canonical_envelope u e" for e
    using that
    by (simp add: map_row_to_operation_def get_parsed_def get_text_def get_nullable_def operation_columns_def
        columns_at canonical_envelope_def canonical_operation_def canonical_actor_def canonical_device_def
        operation_kind.parse_as_str)
  with assms show ?thesis by (induction rows) simp_all
qed

lemma listed_operations: "set (list_operations d a n db) \<subseteq> set (db_operations db)"
  by (auto simp: list_operations_def sql_limit_def split: if_splits dest!: in_set_takeD)

text \<open>
  C37. Tables of typed rows lose nothing. When the ids in the database are canonical, as parsing makes
  them, the code's reading of the stored rows (with its conversions of every column, its errors and
  its \<open>ok()\<close>) gives exactly the devices, actors and operations that the typed tables hold, for every
  lookup and for every listing.
\<close>

theorem typed_tables_are_stored_tables:
  assumes "list_all (\<lambda>d. canonical_device u (dev_device_id d)) (db_devices db)"
    and "list_all (canonical_row u) (db_actors db)"
    and "list_all (canonical_envelope u) (db_operations db)"
  shows "stored_device u i (map device_columns (db_devices db)) = Inr (get_device i db) \<and>
    stored_actor u j (map actor_row_columns (db_actors db)) = Inr (get_actor j db) \<and>
    fetch_operation_conn u k (map operation_columns (db_operations db)) = Inr (get_operation k db) \<and>
    collect_results (map_row_to_operation u rl) (map operation_columns (list_operations d a n db)) =
      Inr (list_operations d a n db)"
proof -
  have "list_all (canonical_envelope u) (list_operations d a n db)"
    using assms(3) listed_operations by (fastforce simp: list_all_iff)
  then show ?thesis
    using device_rows.look_up_typed [OF assms(1)] actor_rows.look_up_typed [OF assms(2)]
      operation_rows.look_up_typed [OF assms(3)] listed_rows
    by (simp add: stored_device_def stored_actor_def fetch_operation_conn_def get_device_def get_actor_def
        get_operation_def row_by_text)
qed

theorem typed_tables_are_stored_tables_witness:
  "stored_actor toy_uuid (ActorId ''op'') (map actor_row_columns
     [actor_new (ActorId ''a'') (DeviceId ''d'') Hermes,
      (actor_new (ActorId ''op'') (DeviceId ''d'') Human)\<lparr>act_tool_profile := Operator\<rparr>]) =
   Inr (Some ((actor_new (ActorId ''op'') (DeviceId ''d'') Human)\<lparr>act_tool_profile := Operator\<rparr>))"
proof -
  let ?db = "empty_db\<lparr>db_actors := [actor_new (ActorId ''a'') (DeviceId ''d'') Hermes,
      (actor_new (ActorId ''op'') (DeviceId ''d'') Human)\<lparr>act_tool_profile := Operator\<rparr>]\<rparr>"
  have canonical: "canonical_actor toy_uuid i" "canonical_device toy_uuid j" for i j
    by (simp_all add: canonical_actor_def canonical_device_def actor_id_parse_def device_id_parse_def
        opaque_parse_def toy_uuid_def)
  have "list_all (canonical_row toy_uuid) (db_actors ?db)"
    by (simp add: canonical_row_def canonical actor_new_def actor_kind_parse_def)
  then have "stored_actor toy_uuid (ActorId ''op'') (map actor_row_columns (db_actors ?db)) =
      Inr (get_actor (ActorId ''op'') ?db)"
    using typed_tables_are_stored_tables [of toy_uuid ?db] by (simp add: empty_db_def)
  then show ?thesis by (simp add: get_actor_def row_by_def actor_new_def)
qed

end
