(* ===== verification/Server_Router.thy ===== *)
theory Server_Router
  imports Pool_Invariant Server_Facts Mcp_Effects Mcp_Answers Run_Pack
begin

text \<open>
  The server as a whole (\<open>build_router_with_route_selection\<close> of \<open>src/server.rs\<close>): the table of routes,
  what axum extracts for each handler, and the handlers behind it on one store. A served request
  is one step; what holds after any sequence of requests is shown here.

  axum decides which pattern of the table a path belongs to and decodes the bodies and queries; both
  are parameters. A request that an extractor refuses does not reach its handler. The time and
  concurrency limits of the layers are not modelled, the limit of the body is.
\<close>

section \<open>Routes\<close>

datatype http_method = GET | HEAD | POST | OtherMethod

datatype route_handler =
    Livez | Health | Integrity | RegisterDeviceRoute | ListDevices | Heartbeat | RotateDevice
  | RevokeDevice | QuarantineDevice | ListActors | RegisterActorRoute | SubmitOperation
  | ListOperations | GetOperation | RunPackObservation | SearchWitnessed | SearchProfileWitnessed
  | FactCreateRoute | FactSupersedeRoute | LegacySync | GetReceipt | ListAuditEvents | McpRoute

definition base_routes :: "(string \<times> (http_method \<times> route_handler) list) list" where
  "base_routes =
     [(''/livez'', [(GET, Livez)]),
      (''/v1/health'', [(GET, Health)]),
      (''/v1/livez'', [(GET, Livez)]),
      (''/healthz'', [(GET, Health)]),
      (''/v1/integrity'', [(GET, Integrity)]),
      (''/integrity'', [(GET, Integrity)]),
      (''/v1/devices/register'', [(POST, RegisterDeviceRoute)]),
      (''/v1/devices'', [(GET, ListDevices)]),
      (''/v1/devices/:device_id/heartbeat'', [(POST, Heartbeat)]),
      (''/v1/devices/:device_id/rotate'', [(POST, RotateDevice)]),
      (''/v1/devices/:device_id/revoke'', [(POST, RevokeDevice)]),
      (''/v1/devices/:device_id/quarantine'', [(POST, QuarantineDevice)]),
      (''/v1/actors'', [(GET, ListActors), (POST, RegisterActorRoute)]),
      (''/v1/operations'', [(POST, SubmitOperation), (GET, ListOperations)]),
      (''/v1/operations/:operation_id'', [(GET, GetOperation)]),
      (''/v1/run-pack-observations'', [(POST, RunPackObservation)]),
      (''/v1/search/witnessed'', [(POST, SearchWitnessed)]),
      (''/v1/search/profile/witnessed'', [(POST, SearchProfileWitnessed)]),
      (''/v1/replication/fact-create/v1'', [(POST, FactCreateRoute)]),
      (''/v1/sync'', [(POST, LegacySync)]),
      (''/v1/sync/facts'', [(POST, LegacySync)]),
      (''/v1/receipts/:receipt_id'', [(GET, GetReceipt)]),
      (''/v1/audit/events'', [(GET, ListAuditEvents)]),
      (''/mcp'', [(POST, McpRoute)]),
      (''/v1/mcp'', [(POST, McpRoute)])]"

definition routes :: "bool \<Rightarrow> (string \<times> (http_method \<times> route_handler) list) list" where
  "routes include_staged_fact_supersede =
     (if include_staged_fact_supersede
      then base_routes @ [(''/v1/replication/fact-supersede/v1'', [(POST, FactSupersedeRoute)])]
      else base_routes)"

text \<open>axum answers \<open>HEAD\<close> with the handler of \<open>GET\<close>.\<close>

definition route_method :: "http_method \<Rightarrow> http_method" where
  "route_method m = (if m = HEAD then GET else m)"

section \<open>Requests\<close>

text \<open>\<open>hq_length\<close> is the header \<open>content-length\<close>.\<close>

record http_request =
  hq_method :: http_method
  hq_path :: string
  hq_query :: string
  hq_authorization :: HeaderMap
  hq_length :: "nat option"
  hq_body :: "byte list"

text \<open>The extractors; a refusal has a status of its own.\<close>

record extractors =
  ex_audit :: "http_request \<Rightarrow> nat + usize option"
  ex_actor_filter :: "http_request \<Rightarrow> nat + string option"
  ex_operation_filter :: "http_request \<Rightarrow> nat + OperationFilterQuery"
  ex_register_device :: "http_request \<Rightarrow> nat + RegisterDeviceRequest"
  ex_register_actor :: "http_request \<Rightarrow> nat + RegisterActorRequest"
  ex_submit :: "http_request \<Rightarrow> nat + OperationSubmitRequest"
  ex_search :: "http_request \<Rightarrow> nat + McpSearchRequest"
  ex_profile_search :: "http_request \<Rightarrow> nat + string \<times> McpSearchRequest \<times> string list"
  ex_rpc :: "http_request \<Rightarrow> nat + JsonRpcRequest"
  ex_bytes :: "http_request \<Rightarrow> nat + byte list"
  ex_path :: "string list \<Rightarrow> nat + string"

text \<open>
  The state of the server that is not the store, with what the handlers take from outside;
  \<open>rt_select\<close> is the choice among the patterns, with the parameters of the path.
\<close>

record ('s, 'm, 'u) router_env =
  rt_mcp :: "('s, 'm, 'u) mcp_env"
  rt_memory :: "('s, 'm, SearchSourceType) memory_lib"
  rt_fact :: "('s, 'm) fact_lib"
  rt_create_from_slice :: "byte list \<Rightarrow> string + SignedFactCreateBatchV1"
  rt_supersede_from_slice :: "byte list \<Rightarrow> string + SignedFactSupersedeBatchV1"
  rt_run_pack :: "'u run_pack_env"
  rt_attestation_key :: "byte list option"
  rt_staged :: bool
  rt_select :: "string list \<Rightarrow> string \<Rightarrow> (string \<times> string list) option"
  rt_extract :: extractors

datatype answer_body =
    LiveBody "string \<times> string"
  | HealthBody HealthResponse
  | IntegrityBody IntegrityAnswer
  | RegisteredBody RegisterDeviceResponse
  | DevicesBody "DeviceInfo list"
  | HeartbeatBody bool
  | DeviceBody "string \<times> string"
  | ActorsBody "ActorInfo list"
  | ActorBody string
  | SubmittedBody OperationEnvelopeResponse
  | OperationsBody "OperationInfo list"
  | OperationBody OperationInfo
  | RunPackBody RunPackObservationResponse
  | SearchBody WitnessedSearchResponse
  | ProfileSearchBody ProfileWitnessedSearchResponse
  | AckBody "string \<times> FactAckRecord"
  | ReceiptBody OperationEnvelope
  | AuditBody "AuditEvent list"
  | RpcBody JsonRpcResponse

text \<open>What axum answers by itself is a bare status.\<close>

datatype served = Bare nat | Served StatusCode "string + answer_body"

definition served_as :: "('b \<Rightarrow> answer_body) \<Rightarrow> 'b response \<times> 'st \<Rightarrow> served \<times> 'st" where
  "served_as body = (\<lambda>((status, result), st). (Served status (map_sum (\<lambda>e. e) body result), st))"

definition served_rpc :: "(StatusCode \<times> JsonRpcResponse) \<times> 'st \<Rightarrow> served \<times> 'st" where
  "served_rpc = (\<lambda>((status, response), st). (Served status (Inr (RpcBody response)), st))"

definition extracted :: "nat + 'a \<Rightarrow> ('a \<Rightarrow> 'st \<Rightarrow> served \<times> 'st) \<Rightarrow> 'st \<Rightarrow> served \<times> 'st" where
  "extracted input k st = (case input of Inl status \<Rightarrow> (Bare status, st) | Inr x \<Rightarrow> k x st)"

section \<open>Serving\<close>

definition run_handler ::
    "('s, 'm, 'u) router_env \<Rightarrow> http_request \<Rightarrow> string list \<Rightarrow> route_handler \<Rightarrow>
     ('s, 'm, 'z) EdgeStore_scheme \<Rightarrow> served \<times> ('s, 'm, 'z) EdgeStore_scheme" where
  "run_handler renv request params h =
     (let env = mc_server (rt_mcp renv); lib = rt_memory renv; ex = rt_extract renv;
          headers = hq_authorization request; on_device = extracted (ex_path ex params) in
      case h of
        Livez \<Rightarrow> served_as LiveBody \<circ> livez_handler
      | Health \<Rightarrow> served_as HealthBody \<circ> health_handler env lib headers
      | Integrity \<Rightarrow> served_as IntegrityBody \<circ> integrity_handler env lib (mc_verify (rt_mcp renv)) headers
      | RegisterDeviceRoute \<Rightarrow> extracted (ex_register_device ex request)
          (\<lambda>payload. served_as RegisteredBody \<circ> register_device_handler env headers payload)
      | ListDevices \<Rightarrow> extracted (ex_audit ex request)
          (\<lambda>_. served_as DevicesBody \<circ> list_devices_handler env headers)
      | Heartbeat \<Rightarrow> on_device (\<lambda>raw. served_as HeartbeatBody \<circ> heartbeat_handler env headers raw)
      | RotateDevice \<Rightarrow> on_device (\<lambda>raw. served_as DeviceBody \<circ> rotate_device_handler env headers raw)
      | RevokeDevice \<Rightarrow> on_device (\<lambda>raw. served_as DeviceBody \<circ> revoke_device_handler env headers raw)
      | QuarantineDevice \<Rightarrow> on_device (\<lambda>raw. served_as DeviceBody \<circ> quarantine_device_handler env headers raw)
      | ListActors \<Rightarrow> extracted (ex_actor_filter ex request)
          (\<lambda>query. served_as ActorsBody \<circ> list_actors_handler env headers query)
      | RegisterActorRoute \<Rightarrow> extracted (ex_register_actor ex request)
          (\<lambda>payload. served_as ActorBody \<circ> register_actor_handler env headers payload)
      | SubmitOperation \<Rightarrow> extracted (ex_submit ex request)
          (\<lambda>payload. served_as SubmittedBody \<circ> submit_operation_handler env headers payload)
      | ListOperations \<Rightarrow> extracted (ex_operation_filter ex request)
          (\<lambda>query. served_as OperationsBody \<circ> list_operations_handler env headers query)
      | GetOperation \<Rightarrow> on_device (\<lambda>raw. served_as OperationBody \<circ> get_operation_handler env headers raw)
      | RunPackObservation \<Rightarrow> extracted (ex_bytes ex request)
          (\<lambda>body. served_as RunPackBody \<circ>
             import_run_pack_observation_handler env (rt_run_pack renv) (rt_attestation_key renv) headers body)
      | SearchWitnessed \<Rightarrow> extracted (ex_search ex request)
          (\<lambda>payload. served_as SearchBody \<circ> search_witnessed_handler env (mc_search (rt_mcp renv)) lib
             (mc_witness (rt_mcp renv)) headers payload)
      | SearchProfileWitnessed \<Rightarrow> extracted (ex_profile_search ex request)
          (\<lambda>(raw_actor, payload, unexpected). served_as ProfileSearchBody \<circ>
             search_profile_witnessed_handler env (mc_search (rt_mcp renv)) lib (mc_witness (rt_mcp renv))
               (mc_now (rt_mcp renv)) headers raw_actor payload unexpected)
      | FactCreateRoute \<Rightarrow> extracted (ex_bytes ex request)
          (\<lambda>body. served_as AckBody \<circ>
             fact_create_handler env lib (rt_fact renv) (rt_create_from_slice renv) headers body)
      | FactSupersedeRoute \<Rightarrow> extracted (ex_bytes ex request)
          (\<lambda>body. served_as AckBody \<circ>
             fact_supersede_handler env lib (rt_fact renv) (rt_supersede_from_slice renv) headers body)
      | LegacySync \<Rightarrow> served_as LiveBody \<circ> legacy_sync_disabled_handler
      | GetReceipt \<Rightarrow> on_device (\<lambda>raw. served_as ReceiptBody \<circ> get_receipt_handler env headers raw)
      | ListAuditEvents \<Rightarrow> extracted (ex_audit ex request)
          (\<lambda>limit. served_as AuditBody \<circ> list_audit_events_handler env headers limit)
      | McpRoute \<Rightarrow> extracted (ex_rpc ex request)
          (\<lambda>rpc. served_rpc \<circ> mcp_handler (rt_mcp renv) lib headers rpc))"

definition serve ::
    "('s, 'm, 'u) router_env \<Rightarrow> http_request \<Rightarrow> ('s, 'm, 'z) EdgeStore_scheme \<Rightarrow>
     served \<times> ('s, 'm, 'z) EdgeStore_scheme" where
  "serve renv request st =
     (let table = routes (rt_staged renv) in
      if (case hq_length request of Some n \<Rightarrow> FACT_CREATE_TRANSPORT_MAX_WIRE_BYTES < n | None \<Rightarrow> False)
      then (Bare 413, st)
      else case rt_select renv (map fst table) (hq_path request) of
             None \<Rightarrow> (Bare 404, st)
           | Some (pattern, params) \<Rightarrow>
               (case map_of table pattern of
                  None \<Rightarrow> (Bare 404, st)
                | Some methods \<Rightarrow>
                    (case map_of methods (route_method (hq_method request)) of
                       None \<Rightarrow> (Bare 405, st)
                     | Some h \<Rightarrow> run_handler renv request params h st)))"

fun serve_all ::
    "(('s, 'm, 'u) router_env \<times> http_request) list \<Rightarrow> ('s, 'm, 'z) EdgeStore_scheme \<Rightarrow>
     ('s, 'm, 'z) EdgeStore_scheme" where
  "serve_all [] st = st"
| "serve_all ((renv, request) # requests) st = serve_all requests (snd (serve renv request st))"

section \<open>Steps of the control plane\<close>

text \<open>An operation of the control plane, or an update of the statistics.\<close>

inductive pool_step :: "crypto \<Rightarrow> pool_db \<Rightarrow> pool_db \<Rightarrow> bool" for c where
  exec: "pe_crypto env = c \<Longrightarrow> pool_exec env operation db = Inr db' \<Longrightarrow> pool_step c db db'"
| observe: "statistics_only db db' \<Longrightarrow> pool_step c db db'"

abbreviation pool_steps :: "crypto \<Rightarrow> pool_db \<Rightarrow> pool_db \<Rightarrow> bool" where
  "pool_steps c \<equiv> (pool_step c)\<^sup>*\<^sup>*"

lemma steps_reachable: "pool_steps c db db' \<Longrightarrow> pool_reachable c db \<Longrightarrow> pool_reachable c db'"
  by (induction rule: rtranclp_induct)
    (auto elim!: pool_step.cases intro: pool_reachable.step pool_reachable.observe)

lemma steps_history: "pool_steps c db db' \<Longrightarrow> db_history db db'"
  by (induction rule: rtranclp_induct)
    (auto elim!: pool_step.cases intro: db_history_refl db_history_trans exec_history db_history_statistics)

lemma exec_steps: "pe_crypto env = c \<Longrightarrow> pool_exec env operation db = Inr db' \<Longrightarrow> pool_steps c db db'"
  by (blast intro: pool_step.exec)

lemma statistics_steps: "statistics_only db db' \<Longrightarrow> pool_steps c db db'"
  by (blast intro: pool_step.observe)

lemma call_steps:
  assumes "pe_crypto env = c"
  shows "register_device_with_generated_credential env secret d db = Inr (p, db') \<Longrightarrow> pool_steps c db db'"
    "rotate_device_credential env secret i db = Inr (s, db') \<Longrightarrow> pool_steps c db db'"
    "set_device_status env i status db = Inr (u, db') \<Longrightarrow> pool_steps c db db'"
    "heartbeat_device env i db = Inr (u, db') \<Longrightarrow> pool_steps c db db'"
    "register_actor env actor db = Inr (a, db') \<Longrightarrow> pool_steps c db db'"
    "log_audit_event env j dv ac endpoint m outcome detail db = Inr (u, db') \<Longrightarrow> pool_steps c db db'"
    "submit_insert env e db = Inr (r, db') \<Longrightarrow> pool_steps c db db'"
  using exec_steps [OF assms] pool_exec.simps(3-7,16,17) [of env] result_db_ok by metis+

lemma submit_steps:
  "pe_crypto env = c \<Longrightarrow> submit_operation env e db = Inr (r, db') \<Longrightarrow> pool_steps c db db'"
  by (auto simp: submit_operation_def split: option.splits sum.splits intro: call_steps(7))

text \<open>The server hashes with one function throughout.\<close>

definition hashes_with :: "crypto \<Rightarrow> ('s, 'm, 'u) router_env \<Rightarrow> bool" where
  "hashes_with c renv \<longleftrightarrow> pe_crypto (sv_pool (mc_server (rt_mcp renv))) = c \<and> pe_crypto (rk_pool (rt_run_pack renv)) = c"

section \<open>What handlers keep\<close>

text \<open>
  A handler takes the control plane from one database to a related one. Most handlers do so for
  every relation that the operations they call respect; these are the laws below, stated once for
  the steps of the control plane and for what is kept about a device.
\<close>

definition keeps ::
    "(pool_db \<Rightarrow> pool_db \<Rightarrow> bool) \<Rightarrow>
     (('s, 'm, 'z) MnemesStore_scheme \<Rightarrow> 'a \<times> ('s, 'm, 'z) MnemesStore_scheme) \<Rightarrow> bool" where
  "keeps R m \<longleftrightarrow> (\<forall>st. R (st_pool st) (st_pool (snd (m st))))"

named_theorems keeps_intros

locale pool_relation =
  fixes R :: "pool_db \<Rightarrow> pool_db \<Rightarrow> bool" and c :: crypto
  assumes same [simp]: "R db db"
    and joined: "R db db' \<Longrightarrow> R db' db'' \<Longrightarrow> R db db''"
    and statistics: "statistics_only db db' \<Longrightarrow> R db db'"
    and audit: "pe_crypto env = c \<Longrightarrow>
      log_audit_event env j dv ac endpoint m outcome detail db = Inr (u, db') \<Longrightarrow> R db db'"
    and submission: "pe_crypto env = c \<Longrightarrow> submit_operation env e db = Inr (r, db') \<Longrightarrow> R db db'"
    and registration: "pe_crypto env = c \<Longrightarrow>
      register_device_with_generated_credential env secret d db = Inr (p, db') \<Longrightarrow> R db db'"
begin

lemma keepsD: "keeps R m \<Longrightarrow> m st = (x, st') \<Longrightarrow> R (st_pool st) (st_pool st')"
  unfolding keeps_def by (metis snd_conv)

lemma keeps_step: "keeps R m \<Longrightarrow> R (st_pool st) (st_pool (snd (m st)))"
  by (simp add: keeps_def)

lemma keeps_same: "(\<And>st. st_pool (snd (m st)) = st_pool st) \<Longrightarrow> keeps R m"
  by (simp add: keeps_def same)

lemma keeps_frames: "frames m \<Longrightarrow> keeps R m"
  by (simp add: keeps_def frames_def only_shards_def statistics)

lemma keeps_readS [keeps_intros]: "keeps R (readS f)"
  by (rule keeps_same) (simp add: readS_def)

lemma keeps_refuse [keeps_intros]: "keeps R (refuse e)"
  by (rule keeps_same) (simp add: refuse_def)

lemma keeps_reply [keeps_intros]: "keeps R (reply status message)"
  by (rule keeps_same) (simp add: reply_def)

lemma keeps_bindS [keeps_intros]: "keeps R m \<Longrightarrow> (\<And>x. keeps R (k x)) \<Longrightarrow> keeps R (bindS m k)"
  unfolding keeps_def bindS_def
  by (auto split: prod.split sum.split) (metis joined snd_conv)+

lemma keeps_poolS [keeps_intros]:
  "(\<And>db x db'. f db = Inr (x, db') \<Longrightarrow> R db db') \<Longrightarrow> keeps R (poolS f)"
  by (simp add: keeps_def poolS_def split: sum.split prod.split)

lemma keeps_handling [keeps_intros]:
  "keeps R m \<Longrightarrow> (\<And>x. keeps R (k x)) \<Longrightarrow> keeps R (handling m k)"
  unfolding keeps_def handling_def
  by (auto split: prod.split sum.split) (metis joined snd_conv)+

lemma keeps_log: "pe_crypto (sv_pool env) = c \<Longrightarrow>
    R (st_pool st) (st_pool (log_audit env d a endpoint m outcome detail st))"
  unfolding log_audit_def poolS_def by (auto split: sum.split prod.split intro: audit same)

lemma keeps_context: "pe_crypto (sv_pool env) = c \<Longrightarrow>
    R (st_pool st) (st_pool (audit_context env context endpoint m outcome detail st))"
  unfolding audit_context_def by (rule keeps_log)

lemma keeps_handling_logged [keeps_intros]:
  assumes "pe_crypto (sv_pool env) = c" "keeps R m" "\<And>x. keeps R (k x)"
  shows "keeps R (handling_logged env context endpoint method_name detail m k)"
  unfolding keeps_def
proof
  fix st
  obtain r st1 where m: "m st = (r, st1)" by fastforce
  note one = keepsD [OF assms(2) m]
  show "R (st_pool st)
      (st_pool (snd (handling_logged env context endpoint method_name detail m k st)))"
  proof (cases r)
    case (Inl e)
    with m joined [OF one keeps_context [OF assms(1)]] show ?thesis by (simp add: handling_logged_def)
  next
    case (Inr x)
    with one m assms(3) [of x] show ?thesis
      by (simp add: handling_logged_def keeps_def) (metis joined)
  qed
qed

lemma keeps_answer [keeps_intros]:
  "pe_crypto (sv_pool env) = c \<Longrightarrow> keeps R (answer env context endpoint m detail status body)"
  by (simp add: keeps_def answer_def keeps_context)

lemma keeps_authorized [keeps_intros]:
  "(\<And>context. keeps R (k context)) \<Longrightarrow> keeps R (authorized env headers actor k)"
  unfolding authorized_def by (intro keeps_intros)

lemma keeps_if [keeps_intros]: "keeps R m \<Longrightarrow> keeps R m' \<Longrightarrow> keeps R (if b then m else m')"
  by simp

lemma keeps_own_device [keeps_intros]:
  "(\<And>d context. keeps R (k d context)) \<Longrightarrow> keeps R (own_device env headers raw k)"
  unfolding own_device_def by (intro keeps_intros)

lemma keeps_answer_read [keeps_intros]:
  "pe_crypto (sv_pool env) = c \<Longrightarrow> keeps R (\<lambda>st. answer env context endpoint m detail status (f st) st)"
  by (simp add: keeps_def answer_def keeps_context)

section \<open>Every handler\<close>

lemma keeps_reads:
  assumes "pe_crypto (sv_pool env) = c"
  shows "keeps R (health_handler env lib headers)"
    "keeps R (list_devices_handler env headers)"
    "keeps R (list_actors_handler env headers query)"
    "keeps R (list_operations_handler env headers filters)"
    "keeps R (get_operation_handler env headers raw)"
    "keeps R (get_receipt_handler env headers raw)"
    "keeps R (list_audit_events_handler env headers limit)"
  unfolding health_handler_def list_devices_handler_def list_actors_handler_def list_operations_handler_def
    get_operation_handler_def get_receipt_handler_def list_audit_events_handler_def
  by (intro keeps_intros assms)+

lemma keeps_submit:
  assumes "pe_crypto (sv_pool env) = c"
  shows "keeps R (submit_operation_handler env headers operation)"
  unfolding submit_operation_handler_def by (intro keeps_intros assms, erule submission [OF assms])

lemma keeps_register_device:
  assumes "pe_crypto (sv_pool env) = c"
  shows "keeps R (register_device_handler env headers payload)"
proof -
  have "keeps R (\<lambda>st. (x device, log_audit env (d device) a endpoint m out (detail device) st))" for x d a endpoint m out detail device
    by (simp add: keeps_def keeps_log [OF assms])
  then show ?thesis unfolding register_device_handler_def Let_def split_beta
    by (intro keeps_intros) (erule registration [OF assms])
qed

lemma keeps_searches:
  assumes "pe_crypto (sv_pool env) = c"
  shows "keeps R (integrity_handler env lib vl headers)"
    "keeps R (search_witnessed_handler env senv lib w headers request)"
    "keeps R (search_profile_witnessed_handler env senv lib w now headers raw_actor request unexpected)"
proof -
  have body: "keeps R (\<lambda>st. (r, st))" for r by (rule keeps_same) simp
  note searches = frames_verify_all frames_run_witnessed frames_run_profile
  show "keeps R (integrity_handler env lib vl headers)"
    unfolding integrity_handler_def by (intro keeps_intros assms keeps_frames searches)
  show "keeps R (search_witnessed_handler env senv lib w headers request)"
    unfolding search_witnessed_handler_def by (intro keeps_intros body keeps_frames searches)
  show "keeps R (search_profile_witnessed_handler env senv lib w now headers raw_actor request unexpected)"
    unfolding search_profile_witnessed_handler_def by (intro keeps_intros body keeps_frames searches)
qed

lemma keeps_apply:
  "keeps R (apply_fact_create_request fenv batch digest)"
  "keeps R (apply_fact_supersede_request fenv batch' digest)"
  unfolding keeps_def
  by (intro allI statistics apply_create_registry [OF surjective_pairing, unfolded same_registry_def]
      apply_supersede_registry [OF surjective_pairing, unfolded same_registry_def])+

lemma keeps_facts:
  "keeps R (fact_create_handler env lib fl create_from_slice headers body)"
  "keeps R (fact_supersede_handler env lib fl supersede_from_slice headers body)"
  unfolding fact_create_handler_def fact_supersede_handler_def
  by (auto split: sum.split intro!: keeps_intros)
    (auto simp: keeps_def reply_def dest: keepsD [OF keeps_apply(1)] keepsD [OF keeps_apply(2)]
      split: prod.split sum.split MnemesError.split)

lemma keeps_run_pack:
  assumes "pe_crypto (sv_pool env) = c" "pe_crypto (rk_pool renv) = c"
  shows "keeps R (import_run_pack_observation_handler env renv key headers body)"
proof -
  have edges: "keeps R (edgesS f)" for f by (rule keeps_same) (simp add: edgesS_def split: prod.split)
  have "keeps R (import_run_pack_observation renv token body key)" for token
    unfolding import_run_pack_observation_def Let_def split_beta
    by (intro keeps_intros edges) (erule submission [OF assms(2)])
  then show ?thesis unfolding import_run_pack_observation_handler_def
    by (intro keeps_intros assms)
qed

lemma keeps_served [keeps_intros]: "keeps R m \<Longrightarrow> keeps R (served_as body \<circ> m)"
  by (simp add: keeps_def served_as_def split_beta)

lemma keeps_extracted [keeps_intros]: "(\<And>x. keeps R (k x)) \<Longrightarrow> keeps R (extracted input k)"
  by (simp add: keeps_def extracted_def same split: sum.split)

lemma keeps_prod: "(\<And>a b. keeps R (f a b)) \<Longrightarrow> keeps R (case p of (a, b) \<Rightarrow> f a b)"
  by (simp add: split_beta)

lemma keeps_run_handler:
  assumes "hashes_with c renv"
    and "h \<notin> {Heartbeat, RotateDevice, RevokeDevice, QuarantineDevice, RegisterActorRoute, McpRoute}"
  shows "keeps R (run_handler renv request params h)"
proof -
  have c: "pe_crypto (sv_pool (mc_server (rt_mcp renv))) = c" "pe_crypto (rk_pool (rt_run_pack renv)) = c"
    using assms(1) by (simp_all add: hashes_with_def)
  have pure: "keeps R livez_handler" "keeps R legacy_sync_disabled_handler"
    by (simp_all add: keeps_def livez_handler_def legacy_sync_disabled_handler_def same)
  note handlers = pure keeps_reads [OF c(1)] keeps_submit [OF c(1)] keeps_register_device [OF c(1)]
    keeps_searches [OF c(1)] keeps_facts keeps_run_pack [OF c]
  show ?thesis
    unfolding run_handler_def Let_def using assms(2)
    by (cases h; simp only: route_handler.case simp_thms insert_iff;
        intro keeps_extracted keeps_prod keeps_served handlers)
qed

end

section \<open>Any sequence of requests\<close>

interpretation stepping: pool_relation "pool_steps c" c for c
proof (unfold_locales, goal_cases)
  case 2
  then show ?case by (rule rtranclp_trans)
next
  case 3
  then show ?case by (rule statistics_steps)
next
  case (4 env)
  then show ?case by (rule call_steps(6))
next
  case (5 env)
  then show ?case by (rule submit_steps)
next
  case (6 env)
  then show ?case by (rule call_steps(1))
qed simp

lemma keeps_changes:
  assumes "pe_crypto (sv_pool env) = c"
  shows "keeps (pool_steps c) (heartbeat_handler env headers raw)"
    "keeps (pool_steps c) (rotate_device_handler env headers raw)"
    "keeps (pool_steps c) (revoke_device_handler env headers raw)"
    "keeps (pool_steps c) (quarantine_device_handler env headers raw)"
    "keeps (pool_steps c) (register_actor_handler env headers payload)"
  unfolding heartbeat_handler_def rotate_device_handler_def revoke_device_handler_def revoke_device_def
    quarantine_device_handler_def register_actor_handler_def
  by (intro keeps_intros assms, erule call_steps [OF assms])+

lemma keeps_mcp:
  assumes "pe_crypto (sv_pool (mc_server env)) = c"
  shows "pool_steps c (st_pool st) (st_pool (snd (mcp_handler env lib headers request st)))"
  using mcp_handler_ran [of st env lib headers request] assms
  by (auto simp: only_shards_def intro: statistics_steps exec_steps)

lemma keeps_any_handler:
  assumes "hashes_with c renv"
  shows "keeps (pool_steps c) (run_handler renv request params h)"
proof (cases "h \<in> {Heartbeat, RotateDevice, RevokeDevice, QuarantineDevice, RegisterActorRoute, McpRoute}")
  case True
  have c: "pe_crypto (sv_pool (mc_server (rt_mcp renv))) = c"
    using assms by (simp add: hashes_with_def)
  have mcp: "keeps (pool_steps c) (served_rpc \<circ> mcp_handler (rt_mcp renv) lib headers rpc)" for lib headers rpc
    by (simp add: keeps_def served_rpc_def split_beta keeps_mcp [OF c])
  show ?thesis
    unfolding run_handler_def Let_def using True
    by (cases h; simp only: route_handler.case insert_iff route_handler.distinct empty_iff simp_thms;
        intro stepping.keeps_extracted stepping.keeps_served mcp keeps_changes [OF c])
qed (use stepping.keeps_run_handler [OF assms] in blast)

lemma keeps_serve:
  assumes "hashes_with c renv"
  shows "keeps (pool_steps c) (serve renv request)"
  by (simp add: keeps_def serve_def Let_def keeps_any_handler [OF assms, unfolded keeps_def, rule_format]
      split: option.split)

lemma keeps_serve_all:
  "list_all (hashes_with c \<circ> fst) requests \<Longrightarrow> pool_steps c (st_pool st) (st_pool (serve_all requests st))"
proof (induction requests arbitrary: st)
  case (Cons x requests)
  then show ?case
    using keeps_serve [of c "fst x" "snd x"] by (cases x) (auto simp: keeps_def intro: rtranclp_trans)
qed simp

text \<open>
  C11. Behind a running server the control plane is always sound. Whatever requests arrive, at whatever
  endpoints, in whatever order and with whatever credentials, whether they fail or succeed: the
  database stays one that the control plane can reach, so identities are unique, the shard catalog
  mirrors the devices, every binding is intact and attached and no two of an actor overlap; and
  nothing that was written is removed or rewritten beyond what its table allows.
\<close>

theorem server_keeps_control_plane:
  assumes "pool_reachable c (st_pool st)" and "list_all (hashes_with c \<circ> fst) requests"
  shows "keys_ok (st_pool (serve_all requests st)) \<and> shards_mirror (st_pool (serve_all requests st)) \<and>
    list_all (binding_wf c (st_pool (serve_all requests st))) (db_bindings (st_pool (serve_all requests st))) \<and>
    bindings_disjoint (db_bindings (st_pool (serve_all requests st))) \<and>
    db_history (st_pool st) (st_pool (serve_all requests st))"
proof -
  have steps: "pool_steps c (st_pool st) (st_pool (serve_all requests st))"
    using assms(2) by (rule keeps_serve_all)
  note reach = steps_reachable [OF this assms(1)]
  show ?thesis
    using reachable_keys [OF reach] reachable_mirror [OF reach] reachable_bindings [OF reach]
      steps_history [OF steps] by (simp add: list_all_iff)
qed

section \<open>What a request changes about a device\<close>

text \<open>
  What the control plane keeps about a device: its row with the credential and the status, the
  identity of its shard without the statistics of the searches, and its actors.
\<close>

definition device_control ::
    "DeviceId \<Rightarrow> pool_db \<Rightarrow> Device option \<times> (DeviceId \<times> string \<times> ShardState) option \<times> Actor list" where
  "device_control d db = (get_device d db,
     map_option shard_identity (row_by shr_device_id d (db_shards db)),
     filter (\<lambda>a. act_device_id a = d) (db_actors db))"

definition same_control :: "DeviceId \<Rightarrow> pool_db \<Rightarrow> pool_db \<Rightarrow> bool" where
  "same_control d db db' \<longleftrightarrow> get_device d db \<noteq> None \<longrightarrow> device_control d db' = device_control d db"

lemma same_control_trans: "same_control d db db' \<Longrightarrow> same_control d db' db'' \<Longrightarrow> same_control d db db''"
  by (auto simp: same_control_def device_control_def)

lemma identity_of_row:
  "map shard_identity rows = map shard_identity rows' \<Longrightarrow>
   map_option shard_identity (row_by shr_device_id d rows) =
     map_option shard_identity (row_by shr_device_id d rows')"
proof (induction rows arbitrary: rows')
  case (Cons r rows)
  then obtain r' rest where "rows' = r' # rest" "shard_identity r = shard_identity r'"
    "map shard_identity rows = map shard_identity rest" by (cases rows') auto
  moreover from this have "shr_device_id r = shr_device_id r'" by (simp add: shard_identity_def)
  ultimately show ?case using Cons.IH [of rest] by (simp add: row_by_def)
qed simp

lemma statistics_control: "statistics_only db db' \<Longrightarrow> device_control d db' = device_control d db"
  by (auto simp: statistics_only_def device_control_def dest: identity_of_row [where d = d])

lemma device_view_control: "device_view d db' = device_view d db \<Longrightarrow> device_control d db' = device_control d db"
  by (simp add: device_view_def device_control_def)

lemma same_control_view: "device_view d db' = device_view d db \<Longrightarrow> same_control d db db'"
  unfolding same_control_def by (blast dest: device_view_control)

lemma registration_control:
  assumes "register_device_with_generated_credential env secret dv db = Inr (p, db')"
  shows "same_control d db db'"
  using assms
  by (auto simp: same_control_def device_control_def register_device_with_generated_credential_def
      register_device_def insert_device_ok insert_device_shard_row_def Let_def bindR_eq_Inr sql_insert_ok
      get_device_def row_by_append row_by_single split: if_splits option.splits)

interpretation viewing: pool_relation "same_control d" c for d c
proof (unfold_locales, goal_cases)
  case (2 db db' db'')
  then show ?case by (rule same_control_trans)
next
  case 3
  then show ?case unfolding same_control_def by (blast dest: statistics_control)
next
  case 4
  then show ?case
    by (auto simp: same_control_def device_control_def get_device_def log_audit_event_def bindR_eq_Inr)
next
  case 5
  then show ?case by (blast intro: same_control_view submit_view)
next
  case 6
  then show ?case using registration_control by blast
qed (simp add: same_control_def)

text \<open>The operations of the MCP tools that are aimed at a device.\<close>

fun aimed_at :: "DeviceId \<Rightarrow> pool_op \<Rightarrow> bool" where
  "aimed_at d (RotateCredential _ i) = (i = d)"
| "aimed_at d (SetDeviceStatus i status) = (i = d \<and> status = DevRevoked)"
| "aimed_at d (RegisterActor a) = (act_device_id a = d)"
| "aimed_at d _ = False"

lemma operator_op_control:
  assumes "operator_op c op" "pool_exec env op db = Inr db'" "\<not> aimed_at d op"
  shows "same_control d db db'"
proof (cases op)
  case (RegisterDeviceWithCredential secret dv)
  with assms(2) show ?thesis using registration_control by (auto simp: result_db_ok)
next
  case (RotateCredential secret i)
  with assms(2,3) have "device_view d db' = device_view d db" by (auto simp: result_db_ok elim: rotate_view)
  then show ?thesis by (rule same_control_view)
next
  case (SetDeviceStatus i status)
  with assms have "device_view d db' = device_view d db" by (auto simp: result_db_ok elim: set_status_view)
  then show ?thesis by (rule same_control_view)
next
  case (RegisterActor a)
  with assms(2,3) have "device_view d db' = device_view d db"
    by (auto simp: result_db_ok elim: register_actor_view)
  then show ?thesis by (rule same_control_view)
next
  case (SubmitInsert e)
  with assms(2) show ?thesis
    by (auto simp: result_db_ok submit_insert_ok same_control_def device_control_def get_device_def)
qed (use assms(1) in simp_all)

text \<open>The device is the authenticated one, or an operator's tool call is aimed at it.\<close>

definition own_or_operator ::
    "('s, 'm, 'u) router_env \<Rightarrow> http_request \<Rightarrow> DeviceId \<Rightarrow> pool_db \<Rightarrow> pool_db \<Rightarrow> bool" where
  "own_or_operator renv request d db db' \<longleftrightarrow>
     (let env = mc_server (rt_mcp renv); headers = hq_authorization request in
      (\<exists>c. authorize env headers None db = Inr c \<and> dev_device_id (sc_device c) = d) \<or>
      (\<exists>actor_id c op. authorize env headers (Some actor_id) db = Inr c \<and> is_operator (sc_actor c) \<and>
         aimed_at d op \<and> pool_exec (sv_pool env) op db = Inr db'))"

lemma mcp_control:
  assumes "\<not> same_control d (st_pool st) (st_pool (snd (mcp_handler (rt_mcp renv) lib (hq_authorization request) rpc st)))"
  shows "own_or_operator renv request d (st_pool st)
    (st_pool (snd (mcp_handler (rt_mcp renv) lib (hq_authorization request) rpc st)))"
proof -
  let ?env = "rt_mcp renv" and ?headers = "hq_authorization request"
  let ?st' = "snd (mcp_handler ?env lib ?headers rpc st)"
  have "\<not> only_shards st ?st'" using assms viewing.statistics unfolding only_shards_def by blast
  then obtain actor_id c op where c: "authorize (mc_server ?env) ?headers (Some actor_id) (st_pool st) = Inr c"
    and exec: "pool_exec (sv_pool (mc_server ?env)) op (st_pool st) = Inr (st_pool ?st')"
    and op: "op = HeartbeatDevice (dev_device_id (sc_device c)) \<or> is_operator (sc_actor c) \<and> operator_op c op"
    using mcp_handler_ran [of st ?env lib ?headers rpc] by blast
  show ?thesis
  proof (cases "op = HeartbeatDevice (dev_device_id (sc_device c))")
    case True
    have "dev_device_id (sc_device c) = d"
    proof (rule ccontr)
      assume "dev_device_id (sc_device c) \<noteq> d"
      then have "device_view d (st_pool ?st') = device_view d (st_pool st)"
        using exec True by (auto simp: result_db_ok elim: heartbeat_view)
      with assms show False using same_control_view by blast
    qed
    with authorize_actor_device [OF c] show ?thesis by (auto simp: own_or_operator_def Let_def)
  next
    case False
    with op have "is_operator (sc_actor c)" "operator_op c op" by blast+
    moreover have "aimed_at d op" using operator_op_control exec assms \<open>operator_op c op\<close> by blast
    ultimately show ?thesis using c exec by (auto simp: own_or_operator_def Let_def)
  qed
qed

lemma run_handler_control:
  assumes "\<not> same_control d (st_pool st) (st_pool (snd (run_handler renv request params h st)))"
    and "hashes_with c renv"
  shows "own_or_operator renv request d (st_pool st) (st_pool (snd (run_handler renv request params h st)))"
proof -
  let ?env = "mc_server (rt_mcp renv)" and ?headers = "hq_authorization request"
  have kept: "\<not> same_control d (st_pool st) db' \<Longrightarrow> device_view d db' \<noteq> device_view d (st_pool st)" for db'
    using same_control_view by blast
  have own: "own_or_operator renv request d (st_pool st) db'"
    if "\<exists>c. authorize ?env ?headers None (st_pool st) = Inr c \<and> dev_device_id (sc_device c) = d" for db'
    using that by (simp add: own_or_operator_def Let_def)
  have no: "same_control d (st_pool st) (st_pool st)" by (rule viewing.same)
  consider "h \<notin> {Heartbeat, RotateDevice, RevokeDevice, QuarantineDevice, RegisterActorRoute, McpRoute}"
    | "h \<in> {Heartbeat, RotateDevice, RevokeDevice, QuarantineDevice, RegisterActorRoute}" | "h = McpRoute"
    by blast
  then show ?thesis
  proof cases
    case 1
    show ?thesis
      by (rule notE [OF assms(1) viewing.keeps_step [OF viewing.keeps_run_handler [OF assms(2) 1]]])
  next
    case 2
    have "\<exists>c. authorize ?env ?headers None (st_pool st) = Inr c \<and> dev_device_id (sc_device c) = d"
      using assms(1) 2
      by (auto simp: run_handler_def Let_def served_as_def extracted_def split_beta no split: sum.splits
          dest!: kept intro: device_endpoints_confined [of d ?env ?headers])
    then show ?thesis by (rule own)
  next
    case 3
    with assms(1) show ?thesis
      by (auto simp: run_handler_def Let_def served_rpc_def extracted_def split_beta no split: sum.splits
          intro: mcp_control)
  qed
qed

text \<open>
  C33. What the control plane keeps about a registered device (its row with credential and status,
  the identity of its shard, its actors) changes only by the device itself or by an operator.
  Whatever the request, at whatever route: when it changes something about the device, it was
  authenticated as that device, or it was a tool call of the JSON-RPC endpoint by an operator, which
  ran exactly one operation aimed at the device: a new credential, a revocation, or a new actor of it.
\<close>

theorem device_requests_confined:
  assumes "get_device d (st_pool st) \<noteq> None" and "hashes_with c renv"
    and "device_control d (st_pool (snd (serve renv request st))) \<noteq> device_control d (st_pool st)"
  shows "(\<exists>c. authorize (mc_server (rt_mcp renv)) (hq_authorization request) None (st_pool st) = Inr c \<and>
       dev_device_id (sc_device c) = d) \<or>
    (\<exists>actor_id c op. authorize (mc_server (rt_mcp renv)) (hq_authorization request) (Some actor_id)
         (st_pool st) = Inr c \<and> is_operator (sc_actor c) \<and> aimed_at d op \<and>
       pool_exec (sv_pool (mc_server (rt_mcp renv))) op (st_pool st) = Inr (st_pool (snd (serve renv request st))))"
proof -
  have changed: "\<not> same_control d (st_pool st) (st_pool (snd (serve renv request st)))"
    using assms(1,3) by (simp add: same_control_def)
  then obtain params h where "serve renv request st = run_handler renv request params h st"
    by (auto simp: serve_def Let_def viewing.same split: if_splits option.splits)
  with changed run_handler_control [OF _ assms(2), of d st request params h] show ?thesis
    unfolding own_or_operator_def Let_def by simp
qed

section \<open>Requests without a credential\<close>

fun successful :: "served \<Rightarrow> bool" where
  "successful (Bare _) = False"
| "successful (Served status _) = (status = OK \<or> status = CREATED)"

definition turned_away :: "served \<times> 'st \<Rightarrow> 'st \<Rightarrow> bool" where
  "turned_away r st \<longleftrightarrow> snd r = st \<and> \<not> successful (fst r)"

lemma turned_away_served: "rejected (m st) st \<Longrightarrow> turned_away ((served_as body \<circ> m) st) st"
  by (auto simp: rejected_def turned_away_def served_as_def split_beta)

lemma turned_away_extracted: "(\<And>x. turned_away (k x st) st) \<Longrightarrow> turned_away (extracted input k st) st"
  by (auto simp: turned_away_def extracted_def split: sum.split)

lemma turned_away_prod: "(\<And>a b. turned_away (f a b st) st) \<Longrightarrow> turned_away ((case p of (a, b) \<Rightarrow> f a b) st) st"
  by (simp add: split_beta)

lemma rejected_reply: "status \<noteq> OK \<Longrightarrow> status \<noteq> CREATED \<Longrightarrow> rejected (reply status message st) st"
  by (simp add: rejected_def reply_def)

lemma rejected_replication:
  assumes "anonymous env headers (st_pool st)"
  shows "rejected (fact_create_handler env lib fl create_from_slice headers body st) st"
    "rejected (fact_supersede_handler env lib fl supersede_from_slice headers body st) st"
  unfolding fact_create_handler_def fact_supersede_handler_def
  by (auto split: sum.split intro: rejected_reply rejected_authorized [OF assms])

lemma rejected_searches:
  assumes "anonymous env headers (st_pool st)"
  shows "rejected (search_witnessed_handler env senv lib w headers request st) st"
    "rejected (search_profile_witnessed_handler env senv lib w now headers raw_actor request unexpected st) st"
proof -
  show "rejected (search_witnessed_handler env senv lib w headers request st) st"
    unfolding search_witnessed_handler_def by (rule rejected_authorized [OF assms])
  show "rejected (search_profile_witnessed_handler env senv lib w now headers raw_actor request unexpected st) st"
  proof (cases "unexpected = []")
    case True
    then show ?thesis unfolding search_profile_witnessed_handler_def
      by simp (intro rejected_handling rejected_authorized [OF assms])
  qed (simp add: search_profile_witnessed_handler_def rejected_def)
qed

lemma rejected_run_pack:
  "anonymous env headers (st_pool st) \<Longrightarrow>
     rejected (import_run_pack_observation_handler env renv key headers body st) st"
  unfolding import_run_pack_observation_handler_def by (rule rejected_authorized)

lemma rejected_registration:
  "\<not> is_ok (registration_gate env headers (st_pool st)) \<Longrightarrow> rejected (register_device_handler env headers payload st) st"
  by (cases "registration_gate env headers (st_pool st)") (simp_all add: register_device_handler_def handling_readS)

lemma turned_away_mcp:
  assumes "anonymous (mc_server env) headers (st_pool st)"
  shows "turned_away ((served_rpc \<circ> mcp_handler env lib headers rpc) st) st"
proof -
  obtain e where "authorize (mc_server env) headers None (st_pool st) = Inl e"
    using assms by (cases "authorize (mc_server env) headers None (st_pool st)") (simp_all add: anonymous_def)
  then have "mcp_handler env lib headers rpc st = (unauthorized_rpc e (jq_id rpc), st)"
    by (simp add: mcp_handler_def)
  moreover obtain status message outcome where "map_store_error e = (status, message, outcome)"
    by (cases "map_store_error e")
  moreover from this have "status \<noteq> OK \<and> status \<noteq> CREATED"
    using error_response_refuses [of e] by (simp add: error_response_def)
  ultimately show ?thesis
    by (simp add: served_rpc_def turned_away_def unauthorized_rpc_def)
qed

text \<open>
  C32. No route but liveness answers without a credential. When the bearer token of a request does
  not authenticate an active device, and the registration of devices is closed to it, the store
  stays as it was, audit log included, and the only success that the server can answer with is the
  constant one of the liveness probe. This holds for every path, method, body and length, for the
  searches, the signed replication, the run packs and the JSON-RPC endpoint as for the control plane.
\<close>

theorem every_route_authenticates:
  assumes "anonymous (mc_server (rt_mcp renv)) (hq_authorization request) (st_pool st)"
    and "\<not> is_ok (registration_gate (mc_server (rt_mcp renv)) (hq_authorization request) (st_pool st))"
  shows "snd (serve renv request st) = st \<and>
    (successful (fst (serve renv request st)) \<longrightarrow>
       fst (serve renv request st) = Served OK (Inr (LiveBody (''service'', ''up''))))"
proof -
  note away = turned_away_extracted turned_away_prod turned_away_served turned_away_mcp [OF assms(1)]
    rejected_controls [OF assms(1)] rejected_replication [OF assms(1)] rejected_searches [OF assms(1)]
    rejected_run_pack [OF assms(1)] rejected_registration [OF assms(2)]
  have away: "turned_away (run_handler renv request params h st) st" if "h \<noteq> Livez" "h \<noteq> LegacySync" for params h
    unfolding run_handler_def Let_def using that
    by (cases h; simp only: route_handler.case; intro away; simp)
  have "snd (run_handler renv request params h st) = st \<and>
      (successful (fst (run_handler renv request params h st)) \<longrightarrow>
         fst (run_handler renv request params h st) = Served OK (Inr (LiveBody (''service'', ''up''))))" for params h
    using away [of h params]
    by (cases "h = Livez \<or> h = LegacySync")
      (auto simp: turned_away_def run_handler_def served_as_def livez_handler_def legacy_sync_disabled_handler_def Let_def)
  then show ?thesis by (simp add: serve_def Let_def split: option.split)
qed

section \<open>A server\<close>

definition toy_extractors :: extractors where
  "toy_extractors = \<lparr> ex_audit = (\<lambda>_. Inr None), ex_actor_filter = (\<lambda>_. Inr None), ex_operation_filter = (\<lambda>_. Inl 400),
     ex_register_device = (\<lambda>_. Inr \<lparr> rd_label = ''l'', rd_platform = ''p'', rd_hostname = ''h'' \<rparr>),
     ex_register_actor = (\<lambda>_. Inl 422), ex_submit = (\<lambda>_. Inl 422), ex_search = (\<lambda>_. Inl 422),
     ex_profile_search = (\<lambda>_. Inl 422), ex_rpc = (\<lambda>_. Inl 422), ex_bytes = (\<lambda>r. Inr (hq_body r)),
     ex_path = (\<lambda>params. case params of [] \<Rightarrow> Inl 500 | p # _ \<Rightarrow> Inr p) \<rparr>"

definition example_router :: "(string, unit, string) router_env" where
  "example_router = \<lparr> rt_mcp = toy_mcp_env, rt_memory = toy_memory, rt_fact = fe_fact example_fact_env,
     rt_create_from_slice = (\<lambda>_. Inr example_signed_batch), rt_supersede_from_slice = (\<lambda>_. Inl ''no json''),
     rt_run_pack = toy_run_pack_env, rt_attestation_key = None, rt_staged = False,
     rt_select = (\<lambda>patterns path. if path \<in> set patterns then Some (path, []) else None),
     rt_extract = toy_extractors \<rparr>"

definition example_http :: "http_method \<Rightarrow> string \<Rightarrow> HeaderMap \<Rightarrow> http_request" where
  "example_http m path authorization = \<lparr> hq_method = m, hq_path = path, hq_query = [],
     hq_authorization = authorization, hq_length = None, hq_body = [] \<rparr>"

lemma example_hashes: "hashes_with toy_crypto example_router"
  by (simp add: hashes_with_def example_router_def toy_mcp_env_def example_server_env_def example_pool_env_def
      toy_run_pack_env_def)

theorem server_keeps_control_plane_witness:
  "\<exists>db. pool_reachable toy_crypto db \<and> length (db_devices db) = 1 \<and>
     shards_mirror (st_pool (serve_all [(example_router, example_http GET ''/v1/health'' example_header),
       (example_router, example_http POST ''/v1/devices/register'' None)] (example_edge_store\<lparr>st_pool := db\<rparr>)))"
proof -
  obtain db where db: "pool_reachable toy_crypto db" "length (db_devices db) = 1"
    using example_bootstrap by blast
  then have reach: "pool_reachable toy_crypto (st_pool (example_edge_store\<lparr>st_pool := db\<rparr>))" by simp
  have "list_all (hashes_with toy_crypto \<circ> fst) [(example_router, example_http GET ''/v1/health'' example_header),
       (example_router, example_http POST ''/v1/devices/register'' None)]" by (simp add: example_hashes)
  from server_keeps_control_plane [OF reach this] db show ?thesis by blast
qed

theorem every_route_authenticates_witness:
  "anonymous example_server_env (Some (Some ''Basic x'')) (st_pool example_edge_store) \<and>
   snd (serve example_router (example_http POST ''/v1/devices/register'' (Some (Some ''Basic x'')))
     example_edge_store) = example_edge_store"
proof -
  let ?request = "example_http POST ''/v1/devices/register'' (Some (Some ''Basic x''))"
  have env: "mc_server (rt_mcp example_router) = example_server_env"
      "hq_authorization ?request = Some (Some ''Basic x'')"
    by (simp_all add: example_router_def toy_mcp_env_def example_http_def)
  have no_token: "anonymous example_server_env (Some (Some ''Basic x'')) (st_pool example_edge_store)"
    by (simp add: anonymous_def authorize_def bearer_token_def)
  have closed: "\<not> is_ok (registration_gate example_server_env (Some (Some ''Basic x'')) (st_pool example_edge_store))"
    by (simp add: registration_gate_def example_server_env_def count_devices_def example_edge_store_def
        example_authed_store_def)
  have "snd (serve example_router ?request example_edge_store) = example_edge_store"
    using every_route_authenticates [of example_router ?request example_edge_store, unfolded env] no_token closed
    by blast
  with no_token show ?thesis by blast
qed

text \<open>A device that revokes itself.\<close>

definition revoke_router :: "(string, unit, string) router_env" where
  "revoke_router = example_router\<lparr>rt_select := \<lambda>_ _. Some (''/v1/devices/:device_id/revoke'', [''d1''])\<rparr>"

definition revoke_request :: http_request where
  "revoke_request = example_http POST ''/v1/devices/d1/revoke'' example_header"

lemma get_device_audit_context [simp]:
  "get_device d (st_pool (audit_context env c endpoint m outcome detail st)) = get_device d (st_pool st)"
proof -
  obtain rows where "audit_context env c endpoint m outcome detail st =
      st\<lparr>st_pool := (st_pool st)\<lparr>db_audit := rows\<rparr>\<rparr>"
    using audit_context_pool [of env c endpoint m outcome detail st] by blast
  then show ?thesis by (simp add: get_device_def)
qed

lemma example_revocation:
  "get_device (DeviceId ''d1'') (st_pool example_edge_store) \<noteq> None"
  "map_option dev_status (get_device (DeviceId ''d1'') (st_pool (snd (serve revoke_router revoke_request
     example_edge_store)))) = Some DevRevoked"
  "map_option dev_status (get_device (DeviceId ''d1'') (st_pool example_edge_store)) = Some DevActive"
proof -
  have pool: "st_pool example_edge_store = st_pool example_authed_store"
    by (simp add: example_edge_store_def)
  have dev: "get_device (DeviceId ''d1'') (st_pool example_authed_store) = Some example_authed_device"
    by (simp add: get_device_def row_by_def example_authed_store_def example_authed_device_def device_new_def)
  then show "get_device (DeviceId ''d1'') (st_pool example_edge_store) \<noteq> None"
    "map_option dev_status (get_device (DeviceId ''d1'') (st_pool example_edge_store)) = Some DevActive"
    by (simp_all add: pool example_authed_device_def device_new_def)
  have "serve revoke_router revoke_request example_edge_store =
      run_handler revoke_router revoke_request [''d1''] RevokeDevice example_edge_store"
    by (simp add: serve_def revoke_router_def revoke_request_def example_http_def example_router_def routes_def
        base_routes_def route_method_def Let_def)
  also have "snd \<dots> = snd (revoke_device_handler example_server_env example_header ''d1'' example_edge_store)"
    by (simp add: run_handler_def revoke_router_def revoke_request_def example_router_def example_http_def
        toy_extractors_def toy_mcp_env_def extracted_def served_as_def split_beta Let_def)
  finally have served: "snd (serve revoke_router revoke_request example_edge_store) =
      snd (revoke_device_handler example_server_env example_header ''d1'' example_edge_store)" .
  show "map_option dev_status (get_device (DeviceId ''d1'') (st_pool (snd (serve revoke_router revoke_request
     example_edge_store)))) = Some DevRevoked"
    unfolding served
    by (simp add: revoke_device_handler_def own_device_def handling_readS authorized_cases
        parse_device_id_def pool example_authed example_server_env_def [THEN arg_cong [of _ _ sv_uuid]]
        toy_device_id_parse)
      (simp add: handling_logged_def poolS_def revoke_device_def set_device_status_def sql_update_def
        pool example_authed_store_def example_authed_device_def device_new_def answer_def,
       simp add: get_device_def row_by_def)
qed

theorem device_requests_confined_witness:
  "device_control (DeviceId ''d1'') (st_pool (snd (serve revoke_router revoke_request example_edge_store))) \<noteq>
     device_control (DeviceId ''d1'') (st_pool example_edge_store) \<and>
   ((\<exists>c. authorize example_server_env example_header None (st_pool example_edge_store) = Inr c \<and>
       dev_device_id (sc_device c) = DeviceId ''d1'') \<or>
    (\<exists>actor_id c op. authorize example_server_env example_header (Some actor_id)
         (st_pool example_edge_store) = Inr c \<and> is_operator (sc_actor c) \<and> aimed_at (DeviceId ''d1'') op \<and>
       pool_exec example_pool_env op (st_pool example_edge_store) =
         Inr (st_pool (snd (serve revoke_router revoke_request example_edge_store)))))"
proof -
  have changed: "device_control (DeviceId ''d1'') (st_pool (snd (serve revoke_router revoke_request
      example_edge_store))) \<noteq> device_control (DeviceId ''d1'') (st_pool example_edge_store)"
    using example_revocation(2,3) by (auto simp: device_control_def)
  have "hashes_with toy_crypto revoke_router"
    using example_hashes by (simp add: hashes_with_def revoke_router_def)
  note confined = device_requests_confined [OF example_revocation(1) this changed]
  have "mc_server (rt_mcp revoke_router) = example_server_env" "sv_pool example_server_env = example_pool_env"
    "hq_authorization revoke_request = example_header"
    by (simp_all add: revoke_router_def example_router_def toy_mcp_env_def example_server_env_def
        revoke_request_def example_http_def)
  from confined [unfolded this] changed show ?thesis by blast
qed

end
