(* ===== verification/Server_Main.thy ===== *)
theory Server_Main
  imports Server_Router Store_Open Admin_Cli
begin

text \<open>
  The server's program (\<open>main\<close> of \<open>src/bin/mnemes-server.rs\<close> with \<open>build_memory_store\<close> of \<open>src/server.rs\<close>):
  its settings, the store it opens and the router it builds over it, and what a stop and a new
  start make of the data. Binding the socket can fail; accepting connections is axum's.
\<close>

section \<open>Settings\<close>

record memory_settings =
  mg_base_dir :: string
  mg_ollama_url :: string
  mg_model :: string
  mg_dimensions :: usize

text \<open>\<open>PathBuf::join\<close> with a relative path.\<close>

definition path_join :: "string \<Rightarrow> string \<Rightarrow> string" where
  "path_join base path = (if base = [] \<or> last base = CHR ''/'' then base @ path else base @ ''/'' @ path)"

definition present :: "env_var \<Rightarrow> string option" where
  "present v = (case v of VarPresent s \<Rightarrow> Some s | _ \<Rightarrow> None)"

definition memory_settings_of ::
    "(string \<Rightarrow> env_var) \<Rightarrow> memory_settings \<Rightarrow> string \<Rightarrow> MnemesError + memory_settings" where
  "memory_settings_of vars defaults base_dir =
     (let settings = defaults\<lparr>mg_base_dir := path_join base_dir ''memory''\<rparr>;
          settings = (case present (vars ''MNEMES_OLLAMA_URL'') of
              Some url \<Rightarrow> settings\<lparr>mg_ollama_url := url\<rparr> | None \<Rightarrow> settings);
          settings = (case present (vars ''MNEMES_EMBEDDING_MODEL'') of
              Some model \<Rightarrow> settings\<lparr>mg_model := model\<rparr> | None \<Rightarrow> settings) in
      case present (vars ''MNEMES_EMBEDDING_DIMENSIONS'') of
        None \<Rightarrow> Inr settings
      | Some dimensions \<Rightarrow>
          bindR (ok_or (InvalidShardCatalog ''MNEMES_EMBEDDING_DIMENSIONS must be a positive integer'')
              (parse_u64 dimensions)) (\<lambda>n.
          Inr (settings\<lparr>mg_dimensions := unat n\<rparr>)))"

section \<open>Starting\<close>

text \<open>
  What is in the directories of the machine; \<open>sp_opening\<close> is what opening a directory meets, and
  \<open>sp_bind\<close> the failure of binding the port.
\<close>

record 'e start_env =
  sp_vars :: "string \<Rightarrow> env_var"
  sp_defaults :: memory_settings
  sp_embedders :: "memory_settings \<Rightarrow> 'e embedders"
  sp_opening :: "string \<Rightarrow> open_env"
  sp_hex_decode :: "string \<Rightarrow> string + byte list"
  sp_bind :: "u16 \<Rightarrow> string option"

definition build_memory_store ::
    "'e start_env \<Rightarrow> string \<Rightarrow> ('s, 'm, 'z) MnemesStore_scheme store_dir \<Rightarrow>
     (MnemesError + ('s, 'm, 'z) MnemesStore_scheme) \<times> ('s, 'm, 'z) MnemesStore_scheme store_dir" where
  "build_memory_store start base_dir dir =
     (case memory_settings_of (sp_vars start) (sp_defaults start) base_dir of
        Inl e \<Rightarrow> (Inl e, dir)
      | Inr settings \<Rightarrow> open_store (sp_opening start base_dir) (sp_embedders start settings)
          (present (sp_vars start ''MNEMES_EMBEDDER'')) dir)"

datatype start_error = StoreFailed MnemesError | KeyFailed string | BindFailed string

datatype 'st started = UsagePrinted | Listening u16 'st "byte list option"

definition server_main ::
    "'e start_env \<Rightarrow> string list \<Rightarrow> (string \<Rightarrow> ('s, 'm, 'z) MnemesStore_scheme store_dir) \<Rightarrow>
     (start_error + ('s, 'm, 'z) MnemesStore_scheme started) \<times>
     (string \<Rightarrow> ('s, 'm, 'z) MnemesStore_scheme store_dir)" where
  "server_main start argv dirs =
     (if list_ex (\<lambda>v. v = ''--help'' \<or> v = ''-h'') argv then (Inr UsagePrinted, dirs)
      else
        let args = drop 1 argv;
            port = server_port args;
            base_dir = server_base_dir args (sp_vars start ''MNEMES_DATA_DIR'') in
        case build_memory_store start base_dir (dirs base_dir) of
          (Inl e, dir) \<Rightarrow> (Inl (StoreFailed e), dirs(base_dir := dir))
        | (Inr st, dir) \<Rightarrow>
            (case configured_run_pack_attestation_key (sp_hex_decode start)
                    (sp_vars start ''MNEMES_RUN_PACK_ATTESTATION_KEY_HEX'') of
               Inl e \<Rightarrow> (Inl (KeyFailed e), dirs(base_dir := dir))
             | Inr key \<Rightarrow>
                 (case sp_bind start port of
                    Some e \<Rightarrow> (Inl (BindFailed e), dirs(base_dir := dir))
                  | None \<Rightarrow> (Inr (Listening port st key), dirs(base_dir := dir)))))"

text \<open>The routers that the program builds never serve the staged route.\<close>

definition built_router :: "byte list option \<Rightarrow> ('s, 'm, 'u) router_env \<Rightarrow> ('s, 'm, 'u) router_env" where
  "built_router key renv = renv\<lparr>rt_staged := False, rt_attestation_key := key\<rparr>"

text \<open>The one that does is for tests and has no key.\<close>

definition staged_router :: "('s, 'm, 'u) router_env \<Rightarrow> ('s, 'm, 'u) router_env" where
  "staged_router renv = renv\<lparr>rt_staged := True, rt_attestation_key := None\<rparr>"

section \<open>Stopping and starting again\<close>

lemma build_memory_store_ok:
  "build_memory_store start base_dir dir = (Inr st, dir') \<longleftrightarrow>
     (\<exists>settings. memory_settings_of (sp_vars start) (sp_defaults start) base_dir = Inr settings \<and>
        is_ok (configured_embedder (sp_embedders start settings) (present (sp_vars start ''MNEMES_EMBEDDER''))) \<and>
        open_with_shared_embedder (sp_opening start base_dir) DEFAULT_SHARD_CACHE_CAPACITY dir = (Inr st, dir'))"
  by (auto simp: build_memory_store_def open_store_ok split: sum.splits)

lemma server_main_ok:
  "server_main start argv dirs = (Inr (Listening port st key), dirs') \<longleftrightarrow>
     \<not> list_ex (\<lambda>v. v = ''--help'' \<or> v = ''-h'') argv \<and> port = server_port (drop 1 argv) \<and>
     (\<exists>base dir. base = server_base_dir (drop 1 argv) (sp_vars start ''MNEMES_DATA_DIR'') \<and>
        build_memory_store start base (dirs base) = (Inr st, dir) \<and>
        configured_run_pack_attestation_key (sp_hex_decode start)
          (sp_vars start ''MNEMES_RUN_PACK_ATTESTATION_KEY_HEX'') = Inr key \<and>
        sp_bind start port = None \<and> dirs' = dirs(base := dir))"
  unfolding server_main_def by (auto simp: Let_def split: sum.splits prod.splits option.splits)

lemma built_hashes: "hashes_with c renv \<Longrightarrow> hashes_with c (built_router key renv)"
  by (simp add: hashes_with_def built_router_def)

lemma staged_never_built: "(pattern, methods) \<in> set (routes (rt_staged (built_router key renv))) \<Longrightarrow>
    (m, h) \<in> set methods \<Longrightarrow> h \<noteq> FactSupersedeRoute"
  by (auto simp: routes_def base_routes_def built_router_def)

lemma staged_adds_supersede:
  "routes (rt_staged (staged_router renv)) =
     routes (rt_staged (built_router key renv)) @
       [(''/v1/replication/fact-supersede/v1'', [(POST, FactSupersedeRoute)])]"
  by (simp add: routes_def built_router_def staged_router_def)

text \<open>The requests of one run, each with what its handler takes from outside.\<close>

definition requests_to ::
    "byte list option \<Rightarrow> (('s, 'm, 'u) router_env \<times> http_request) list \<Rightarrow>
     (('s, 'm, 'u) router_env \<times> http_request) list" where
  "requests_to key requests = map (\<lambda>(renv, request). (built_router key renv, request)) requests"

text \<open>
  C12. A server can be stopped after any sequence of requests and started again. On a data directory
  whose database the control plane can reach, starting changes no table; after whatever requests,
  the database is again one that it can reach; and a later start with the same settings opens the
  directory, finds exactly the tables that the run left, uses the same key for receipts, has an
  empty cache, listens on the same port with the same attestation key, and changes nothing.
\<close>

theorem restart_keeps_everything:
  fixes st :: "('s, 'm, 'z) EdgeStore_scheme"
  assumes "server_main start argv dirs = (Inr (Listening port st key), dirs')"
    and "base = server_base_dir (drop 1 argv) (sp_vars start ''MNEMES_DATA_DIR'')"
    and "pool_reachable c (st_pool (sd_tables (dirs base)))"
    and "has_table_column (created_tables (pf_columns (sd_pool_file (dirs base)))) ''actors'' ''tool_profile''"
    and "list_all (hashes_with c \<circ> fst) requests" and "untroubled (reopening base)"
    and "st' = serve_all (requests_to key requests) st"
    and "later = dirs'(base := (dirs' base)\<lparr>sd_tables := st'\<rparr>)"
  shows "st_pool st = st_pool (sd_tables (dirs base)) \<and> pool_reachable c (st_pool st') \<and>
    server_main (start\<lparr>sp_opening := reopening\<rparr>) argv later =
      (Inr (Listening port (st'\<lparr>st_cache := cache_new 4, st_receipt_auth_key := st_receipt_auth_key st\<rparr>) key), later)"
proof -
  obtain dir settings where main: "\<not> list_ex (\<lambda>v. v = ''--help'' \<or> v = ''-h'') argv"
      "port = server_port (drop 1 argv)" "memory_settings_of (sp_vars start) (sp_defaults start) base = Inr settings"
      "is_ok (configured_embedder (sp_embedders start settings) (present (sp_vars start ''MNEMES_EMBEDDER'')))"
      "open_with_shared_embedder (sp_opening start base) DEFAULT_SHARD_CACHE_CAPACITY (dirs base) = (Inr st, dir)"
      "configured_run_pack_attestation_key (sp_hex_decode start)
         (sp_vars start ''MNEMES_RUN_PACK_ATTESTATION_KEY_HEX'') = Inr key"
      "sp_bind start port = None" "dirs' = dirs(base := dir)"
    using assms(1) unfolding server_main_ok build_memory_store_ok assms(2) by blast
  have mirror: "shards_mirror (st_pool (sd_tables (dirs base)))" using assms(3) by (rule reachable_mirror)
  then have canonical: "canonical_paths (st_pool (sd_tables (dirs base)))" using mirror_listed by blast
  have same: "st_pool st = st_pool (sd_tables (dirs base))" by (rule opened_unchanged [OF main(5) mirror assms(4)])
  have "list_all (hashes_with c \<circ> fst) (requests_to key requests)"
    using assms(5) built_hashes by (fastforce simp: requests_to_def list_all_iff)
  then have "pool_steps c (st_pool st) (st_pool st')" unfolding assms(7) by (rule keeps_serve_all)
  then have reach: "pool_reachable c (st_pool st')" using assms(3) same steps_reachable by metis
  then have "all_listed (st_pool st')" using reachable_mirror mirror_listed by blast
  from open_again [OF main(5) canonical this assms(6), of DEFAULT_SHARD_CACHE_CAPACITY]
  have "server_main (start\<lparr>sp_opening := reopening\<rparr>) argv later =
      (Inr (Listening port (st'\<lparr>st_cache := cache_new 4, st_receipt_auth_key := st_receipt_auth_key st\<rparr>) key), later)"
    unfolding server_main_ok build_memory_store_ok using main assms(2,8)
    by (auto simp: DEFAULT_SHARD_CACHE_CAPACITY_def intro!: exI [of _ settings])
  with same reach show ?thesis by blast
qed

section \<open>A first start\<close>

definition example_start :: "string start_env" where
  "example_start = \<lparr> sp_vars = (\<lambda>v. if v = ''MNEMES_EMBEDDER'' then VarPresent ''mock'' else VarNotPresent),
     sp_defaults = \<lparr> mg_base_dir = [], mg_ollama_url = [], mg_model = [], mg_dimensions = 768 \<rparr>,
     sp_embedders = (\<lambda>_. \<lparr> em_candle = None, em_ollama = Inr ''ollama'', em_mock = ''mock'' \<rparr>),
     sp_opening = (\<lambda>_. example_open_env), sp_hex_decode = (\<lambda>_. Inl ''no hex''), sp_bind = (\<lambda>_. None) \<rparr>"

definition fresh_dir :: "(string, unit) EdgeStore store_dir" where
  "fresh_dir = \<lparr> sd_tables = example_edge_store\<lparr>st_pool := empty_db\<rparr>,
     sd_pool_file = \<lparr> pf_versions = None, pf_columns = (\<lambda>_. None) \<rparr>, sd_keys = (\<lambda>_. None), sd_legacy = False \<rparr>"

lemma fresh_columns:
  "check_columns (created_tables (\<lambda>_. None)) fact_table_columns = Inr ()"
  "check_columns (migrated_columns (created_tables (\<lambda>_. None))) shard_table_columns = Inr ()"
  "has_table_column (created_tables (\<lambda>_. None)) ''actors'' ''tool_profile''"
  by (simp_all add: check_columns_ok has_table_column_def migrated_other created_tables_eq pool_tables_def
      fact_table_columns_def shard_table_columns_def actor_columns_def)

lemma fresh_start:
  "\<exists>st dirs'. server_main example_start [''mnemes-server''] (\<lambda>_. fresh_dir) = (Inr (Listening 3000 st None), dirs')"
proof -
  obtain pf where schema: "init_schema example_open_env (sd_pool_file fresh_dir, empty_db) = Inr (pf, empty_db)"
    using fresh_columns
    by (simp add: init_schema_def supported_versions_def example_open_env_def Let_def fresh_dir_def migrate_actors_def
        backfill_device_shards_def) (simp add: empty_db_def)
  obtain keys where key: "load_or_create_receipt_auth_key example_key_env (\<lambda>_. None) = (Inr (replicate 32 7), keys)"
    using example_key by blast
  have free: "untroubled example_open_env"
    by (simp add: untroubled_def example_open_env_def example_pool_env_def example_key_env_def)
  obtain st dir where opened: "open_with_shared_embedder example_open_env DEFAULT_SHARD_CACHE_CAPACITY fresh_dir = (Inr st, dir)"
    using schema key untroubled_dirs [OF free]
    by (simp add: open_with_shared_embedder_def Let_def fresh_dir_def example_open_env_def)
  have "configured_embedder em (Some ''mock'') = Inr (em_mock em)" for em :: "string embedders"
  proof -
    have "configured_provider_name (Some ''mock'') = ''mock''" by code_simp
    then show ?thesis by (simp add: configured_embedder_def)
  qed
  then show ?thesis
    using opened unfolding server_main_ok build_memory_store_ok
    by (auto simp: example_start_def memory_settings_of_def present_def server_port_def server_base_dir_def
        configured_run_pack_attestation_key_def Let_def)
qed

theorem restart_keeps_everything_witness:
  "\<exists>st dirs'. server_main example_start [''mnemes-server''] (\<lambda>_. fresh_dir) = (Inr (Listening 3000 st None), dirs') \<and>
     (\<exists>st' again later. st' = serve_all (requests_to None [(example_router, example_http POST ''/v1/devices/register'' None)]) st \<and>
        later = dirs'(''./data/mnemes'' := (dirs' ''./data/mnemes'')\<lparr>sd_tables := st'\<rparr>) \<and>
        server_main example_start [''mnemes-server''] later = (Inr (Listening 3000 again None), later) \<and>
        st_pool again = st_pool st')"
proof -
  obtain st dirs' where main: "server_main example_start [''mnemes-server''] (\<lambda>_. fresh_dir) =
      (Inr (Listening 3000 st None), dirs')" using fresh_start by blast
  have base: "''./data/mnemes'' = server_base_dir (drop 1 [''mnemes-server'']) (sp_vars example_start ''MNEMES_DATA_DIR'')"
    by (simp add: server_base_dir_def example_start_def)
  have reach: "pool_reachable toy_crypto (st_pool (sd_tables fresh_dir))"
    by (simp add: fresh_dir_def pool_reachable.initial)
  have columns: "has_table_column (created_tables (pf_columns (sd_pool_file fresh_dir))) ''actors'' ''tool_profile''"
    using fresh_columns(3) by (simp add: fresh_dir_def)
  have hashes: "list_all (hashes_with toy_crypto \<circ> fst) [(example_router, example_http POST ''/v1/devices/register'' None)]"
    by (simp add: example_hashes)
  have free: "untroubled (sp_opening example_start ''./data/mnemes'')"
    by (simp add: example_start_def untroubled_def example_open_env_def example_pool_env_def example_key_env_def)
  have "example_start\<lparr>sp_opening := sp_opening example_start\<rparr> = example_start" by simp
  with restart_keeps_everything [where reopening = "sp_opening example_start" and base = "''./data/mnemes''" and
      c = toy_crypto and dirs = "\<lambda>_. fresh_dir", OF main base reach columns hashes free refl refl] main show ?thesis by fastforce
qed

end
