(* ===== verification/Replica_Store.thy ===== *)
theory Replica_Store
  imports Shard_Service
begin

text \<open>
  Opening the store of a replica (\<open>ReplicaStore::open\<close> of \<open>src/replica.rs\<close>): a read-only connection to
  the file that is named probes it and is dropped, then semantic-memory opens the directory of the
  file. SQLite and semantic-memory are parameters.
\<close>

section \<open>\<open>Path::parent\<close>\<close>

text \<open>
  On the reversed text of a Unix path: trailing separators and components \<open>.\<close> do not count, and the
  root has no parent.
\<close>

fun trim_rev :: "string \<Rightarrow> string" where
  "trim_rev (CHR ''/'' # c # r) = trim_rev (c # r)"
| "trim_rev (CHR ''.'' # CHR ''/'' # r) = trim_rev (CHR ''/'' # r)"
| "trim_rev r = r"

definition path_parent :: "string \<Rightarrow> string option" where
  "path_parent path =
     (let trimmed = trim_rev (rev path) in
      if trimmed \<in> {[], ''/''} then None
      else Some (rev (trim_rev (dropWhile (\<lambda>c. c \<noteq> CHR ''/'') trimmed))))"

lemma path_parent_examples:
  "path_parent ''/data/memory.db'' = Some ''/data''" "path_parent ''memory.db'' = Some ''''"
  "path_parent ''/a'' = Some ''/''" "path_parent ''/'' = None" "path_parent '''' = None"
  "path_parent ''a/./b/'' = Some ''a''" "path_parent ''./a'' = Some ''.''"
  by (simp_all add: path_parent_def)

section \<open>Opening\<close>

record 's ReplicaStore =
  rs_inner :: 's
  rs_device_id :: string
  rs_store_id :: string

text \<open>\<open>rp_open\<close> takes the URI; \<open>rp_debug\<close> is \<open>Debug\<close> of an error of semantic-memory.\<close>

record replica_probe =
  rp_open :: "string \<Rightarrow> string option"
  rp_query_only :: "string option"
  rp_debug :: "MemoryError \<Rightarrow> string"

definition replica_uri :: "string \<Rightarrow> string" where
  "replica_uri path = ''file:'' @ path @ ''?mode=ro''"

definition probe_replica :: "replica_probe \<Rightarrow> string \<Rightarrow> string \<Rightarrow> string \<Rightarrow> MnemesError + unit" where
  "probe_replica pr path device_id store_id =
     checks
       [case rp_open pr (replica_uri path) of
          None \<Rightarrow> Inr ()
        | Some e \<Rightarrow> Inl (Replication (''cannot open replica '' @ device_id @ '':'' @ store_id @ '' at '' @
                     path @ '': '' @ e)),
        case rp_query_only pr of
          None \<Rightarrow> Inr ()
        | Some e \<Rightarrow> Inl (Replication (''cannot set query_only on replica: '' @ e))]"

definition replica_base_dir :: "string \<Rightarrow> string" where
  "replica_base_dir path = (case path_parent path of Some dir \<Rightarrow> dir | None \<Rightarrow> path)"

definition replica_open ::
    "replica_probe \<Rightarrow> ('s, 'm, 'src) memory_lib \<Rightarrow> string \<Rightarrow> string \<Rightarrow> string \<Rightarrow> 'm \<Rightarrow>
     (MnemesError + 's ReplicaStore) \<times> 'm" where
  "replica_open pr lib path device_id store_id m =
     (case probe_replica pr path device_id store_id of
        Inl e \<Rightarrow> (Inl e, m)
      | Inr _ \<Rightarrow>
          (case ml_open lib (replica_base_dir path) m of
             (Inl e, m) \<Rightarrow> (Inl (Replication (''cannot open MemoryStore for replica '' @ device_id @ '':'' @
                              store_id @ '': '' @ rp_debug pr e)), m)
           | (Inr inner, m) \<Rightarrow> (Inr \<lparr> rs_inner = inner, rs_device_id = device_id,
                                      rs_store_id = store_id \<rparr>, m)))"

section \<open>What the name of the file decides\<close>

text \<open>A file that cannot be read leaves semantic-memory alone.\<close>

lemma replica_probe_first:
  "rp_open pr (replica_uri path) = Some e \<Longrightarrow>
     replica_open pr lib path device_id store_id m =
       (Inl (Replication (''cannot open replica '' @ device_id @ '':'' @ store_id @ '' at '' @ path @ '': '' @ e)), m)"
  by (simp add: replica_open_def probe_replica_def)

lemma replica_open_ok:
  "replica_open pr lib path device_id store_id m = (Inr rs, m') \<longleftrightarrow>
     rp_open pr (replica_uri path) = None \<and> rp_query_only pr = None \<and>
     ml_open lib (replica_base_dir path) m = (Inr (rs_inner rs), m') \<and>
     rs_device_id rs = device_id \<and> rs_store_id rs = store_id"
  by (cases rs) (auto simp: replica_open_def probe_replica_def split: sum.splits option.splits prod.splits)

text \<open>
  Otherwise only its directory counts: with two files of one directory that can both be read, the
  same store is opened, whichever of them is named.
\<close>

lemma replica_ignores_file_name:
  assumes "path_parent p = Some dir" "path_parent q = Some dir"
    and "rp_open pr (replica_uri p) = None" "rp_open pr (replica_uri q) = None"
  shows "replica_open pr lib p device_id store_id m = replica_open pr lib q device_id store_id m"
  using assms by (cases "rp_query_only pr") (simp_all add: replica_open_def probe_replica_def replica_base_dir_def)

end
