(* ===== verification/Spec2Isabelle.thy ===== *)
theory Spec2Isabelle
  imports Fact_Supersede_Wire Replica_Sync Shard_Cache Pool_Invariant Server_Facts Witnessed_Search
    Mcp_Catalog Mcp_Effects Mcp_Answers Lineage_Search Run_Pack Sync_Client Admin_Cli Store_Open
    Stored_Rows Server_Router Server_Main Replica_Store
begin

text \<open>
  Mnemes keeps one semantic memory per device behind one authority: a server with a control plane of
  devices, actors, profiles, grants and operations (the SQLite database \<open>pooled.db\<close>), a shard of
  semantic-memory per device and per profile-owned store, searches that route a query over shards
  and leave a signed receipt, a provenance graph over memory items, and signed replication from the
  devices to the authority. This development models the crate \<open>mnemes\<close> (\<open>src/src\<close>): its library, its
  server, and its three programs. The crate semantic-memory, to which the content of memories
  belongs, is a parameter.

  \<^bold>\<open>How the code is translated.\<close>
  A Rust struct is a record with a prefix per field, an enum a datatype with the source's
  constructors, \<open>Result\<close> the sum of error and value, sequenced by \<open>bindR\<close>, with \<open>checks\<close> for runs of
  guard clauses; \<open>u64\<close> and the other unsigned types are words, \<open>i64\<close> an integer whose conversions
  and additions are explicit (\<open>u64_as_i64\<close>, \<open>i64_try_from_u64\<close>, \<open>i64_add\<close>), \<open>usize\<close> a natural number,
  \<open>f64\<close> its bit pattern with the comparison as a parameter, a \<open>String\<close> the list of its UTF-8 bytes.
  A SQL table is a list of typed rows (\<open>Sql_Table\<close>) and a statement a function on it that checks the
  constraints of the schema in order; the text of a violated constraint is a parameter. A method on
  the pool database takes it and returns it (\<open>MnemesError + 'a \<times> pool_db\<close>), a method of \<open>MnemesStore\<close>
  threads the store with its cache and semantic-memory's state (\<open>bindS\<close>), an HTTP handler answers
  with a status and a body. One locked section is one atomic step; \<open>join_all\<close> runs in order; loops
  are recursion. Clocks, fresh identifiers, SHA-256, HMAC, Ed25519, UUIDs, serde, chrono, hex, the
  network and semantic-memory are arguments, records of functions where several go together;
  what is assumed of them is a named hypothesis (\<open>crypto_laws\<close>, \<open>uuid_laws\<close>, \<open>receipt_codecs\<close>, ...)
  that a toy instance satisfies.

  \<^bold>\<open>Foundations.\<close>
  \<open>Mnemes_Prelude\<close> (integers, results, big-endian encodings), \<open>Rust_Text\<close> (the text functions of the
  standard library; the locale \<open>text_codec\<close> of enums kept as text), \<open>Command_Line\<close> (numbers, lines
  and paths for the programs), \<open>Sql_Table\<close>, \<open>Json_Value\<close>, \<open>Mnemes_Types\<close> (\<open>types.rs\<close>, \<open>error.rs\<close>, the head
  of \<open>shards.rs\<close>).

  \<^bold>\<open>Replication\<close> (\<open>replication/\<close>).
  \<open>Replication_Envelope\<close> holds the mutation envelope and its signing preimage, which determines every
  signed field; \<open>Replication_Validate\<close> the validator with a closed form of what it accepts, and
  collision detection; \<open>Replication_Keys\<close> the trusted-key registry; \<open>Replication_State\<close> the replica state
  machine, an inductive history, and the watermark; \<open>Fact_Create_Wire\<close> and \<open>Fact_Supersede_Wire\<close> the two
  signed batches, both interpretations of the locale \<open>signed_batch\<close>. \<open>Replica_Sync\<close> is the journal:
  the apply transaction, export of contiguous prefixes, batches (\<open>replica.rs\<close>, \<open>sync.rs\<close>,
  \<open>sync_handler.rs\<close>). \<open>Exactly_Once\<close> is the locale of receivers that record what they applied: its
  lemmas about runs of operations with retries hold for the journal and for both acknowledgement
  tables, which interpret it.

  \<^bold>\<open>Control plane\<close> (\<open>store.rs\<close>, \<open>profile_store.rs\<close>).
  \<open>Control_Plane\<close> (devices, actors, credentials, bootstrap, authentication), \<open>Profile_Access\<close> (profiles,
  store identities, grants, bindings, snapshots, permits and their digests), \<open>Access_Registry\<close> (their
  tables, resolution, snapshots), \<open>Operation_Log\<close> (operation envelopes, audit). \<open>Pool_History\<close> makes
  one state machine of all operations, shows which parts of a row may change, ever, and gives for
  every row that a run added or changed the operation that did it (\<open>db_account\<close>);
  \<open>Pool_Invariant\<close> shows what holds in every reachable database, by rule induction, the statistics
  that searches write included. Tables there hold typed rows; \<open>Stored_Rows\<close> models the text columns
  that SQLite keeps and the conversions of the code, and shows through the locale \<open>stored_table\<close>
  that on stored typed rows they give the same answers (\<open>typed_tables_are_stored_tables\<close>).

  \<^bold>\<open>Shards and searches\<close> (\<open>shards.rs\<close>, \<open>store.rs\<close>).
  \<open>Shard_Routing\<close> (scores, ranking, merging), \<open>Shard_Cache\<close> (the LRU cache as a refinement of an
  abstract list), \<open>Shard_Service\<close> (opening shards, statistics, synchronised facts), \<open>Shard_Handles\<close>
  (the invariant \<open>handles_ok\<close> that a cached handle was opened at the path of its key, so that a device
  and a profile store are always answered from their own database), \<open>Routing_Receipt\<close>
  (receipts, their validation and storage), \<open>Routed_Search\<close> (the search with its expansion),
  \<open>Profile_Search\<close> (the search over the stores that a snapshot admits). The theorems on searches say
  what semantic-memory was asked for each shard or store, in order, what it answered, and that
  the answer is the merge of exactly that (\<open>shard_searched\<close>, \<open>store_searched\<close>, \<open>threaded\<close>).

  \<^bold>\<open>Signed facts\<close> (\<open>store.rs\<close>). \<open>Fact_Admission\<close> (admissions of writer keys, applying a batch,
  acknowledging it) and \<open>Fact_Ledger\<close> (what that promises over any sequence of requests).

  \<^bold>\<open>Provenance\<close> (\<open>store.rs\<close>, \<open>run_pack.rs\<close>). \<open>Provenance\<close> (edges and their recording), \<open>Lineage\<close> (the
  bitemporal query and the search, with its termination), \<open>Lineage_Search\<close> (the search is a
  breadth-first search, against the inductive distance \<open>within\<close>), \<open>Run_Pack\<close> (signed observations of
  run packs, which record an operation and an edge).

  \<^bold>\<open>Server\<close> (\<open>server.rs\<close>). \<open>Server_Http\<close> (authorization, error mapping, the handlers of the control
  plane), \<open>Server_Control\<close> (what they promise), \<open>Server_Facts\<close> (the fact endpoints), \<open>Witnessed_Search\<close>
  (the search endpoints), \<open>Mcp_Catalog\<close>, \<open>Mcp_Server\<close> (the JSON-RPC endpoint with its tools),
  \<open>Mcp_Effects\<close> and \<open>Mcp_Answers\<close> (what a call may change, and what it may tell), and \<open>Server_Router\<close>
  (the table of routes with the extractors, one dispatch over every handler: one request is one step
  on the store with all its tables).

  \<^bold>\<open>Opening\<close> (\<open>store.rs\<close>, \<open>replica.rs\<close>). \<open>Replica_Store\<close> is the handle of a replica; \<open>Store_Open\<close>: the embedder, the key file of the receipts against other
  processes and failing calls, the schema with its version check, migrations and backfill, and what
  an opened store is (\<open>opened_store_is_complete\<close>, which also makes opening idempotent).

  \<^bold>\<open>Programs\<close> (\<open>bin/\<close>). \<open>Sync_Client\<close> (the device-side client, with a file system whose calls fail, and
  its composition with the server's handler), \<open>Admin_Cli\<close> (the operator's commands and the
  server's settings) and \<open>Server_Main\<close> (the server's program from its arguments to the bound port).

  \<^bold>\<open>How the parts interact.\<close>
  A device's client signs a record of its journal and posts it; the handler decodes and validates
  it, authorizes the credential against the registry, checks the admission that the operator's
  program wrote, applies it through semantic-memory and acknowledges it, and the client moves its
  watermark on exactly that acknowledgement: \<open>served_record_is_synchronised\<close>, \<open>fact_endpoints_exact\<close>,
  \<open>fact_create_admitted\<close>, \<open>admin_admission_decides\<close> and \<open>sync_runs_skip_nothing\<close> are the steps of this
  path. A search authorizes an actor, resolves its profile, builds and rechecks a snapshot, searches
  the admitted stores through the cache, merges, and persists a receipt: \<open>profile_endpoint_confined\<close>
  composes the whole path. HTTP and JSON-RPC share the operations of the control plane, so its
  invariants hold behind both (\<open>mcp_changes_authorised\<close>). For the server as a whole,
  \<open>server_keeps_control_plane\<close> lifts the invariants to any sequence of requests at any endpoints,
  \<open>every_route_authenticates\<close> shows that none acts without a credential,
  \<open>device_requests_confined\<close> that what is kept about a device changes only by the device itself or by
  an operator's tool call aimed at it (both rest on the laws of the locale \<open>pool_relation\<close>), and
  \<open>restart_keeps_everything\<close> joins the program, the opening of the store and the router: what one run
  leaves, the next one finds.

  \<^bold>\<open>Termination and fuel.\<close>
  No definition takes fuel. Structural recursion covers most loops; cache eviction and the lineage
  search are partial functions with \<open>None\<close> for a loop that does not end, and are shown to return
  (\<open>cache_refines_lru\<close>, \<open>lineage_returns\<close>).

  \<^bold>\<open>Reading the results.\<close>
  Hypotheses about third-party code are those named above; the others are the case that a theorem is
  about. Every theorem with hypotheses is followed by a witness, a concrete run in which they
  hold. Where a theorem shows the code to do less than its comments or names say, the place is a
  finding of the manifest: \<open>any_device_becomes_operator\<close> shows that a device token without an actor may
  register the first actor as operator; lineage tells apart items by a key that is ambiguous when
  kinds contain colons, hence the hypothesis of \<open>lineage_is_breadth_first\<close>.

  \<^bold>\<open>Not modelled.\<close>
  semantic-memory, SQLite, SHA-256, Ed25519, serde and chrono are not under \<open>src\<close>. Which pattern of
  the table of routes a path belongs to, and the decoding of bodies and queries, are axum's and
  parameters of \<open>Server_Router\<close>; the limit of the body is there, timeouts and limits of concurrency
  are not. The conversion of rows is modelled for devices, actors and operations and wherever else
  the code reports its failure. The tokio runtime and interleavings inside a locked section have no
  counterpart. A table of \<open>pooled.db\<close> is known to
  \<open>Store_Open\<close> by its name and the columns that the code asks for; the DDL itself, its indices and
  constraints, belongs to SQLite, and the constraints appear in the statements that they affect.
  The adapter \<open>SharedEmbedder\<close> only passes calls on.
\<close>

end
